(* ===== verification/Go_Base.thy ===== *)
theory Go_Base
  imports Main
begin

text \<open>
  The prelude of the development: the outcome types that stand for Go's error values, panics and
  \<^verbatim>\<open>logrus.Fatal\<close> exits, the sequencing operator for \<^verbatim>\<open>if err != nil { return err }\<close>, Go maps as
  association lists, and the generic lemmas and \<^theory_text>\<open>named_theorems\<close> collections the component theories
  share.
\<close>

section \<open>Collections\<close>

named_theorems go_simps \<open>unfolding rules for the operations of the Go standard library model\<close>
named_theorems disk_simps \<open>lookup equations of the disk operations\<close>
named_theorems disk_frame \<open>paths that a disk operation leaves unchanged\<close>

section \<open>Error values, panics and exits\<close>

text \<open>
  An error value. The sentinels are the ones the sources test for: \<open>ErrNotExist\<close> and \<open>ErrExist\<close> of
  package \<^verbatim>\<open>os\<close>, the API server reasons of \<^verbatim>\<open>apierrors\<close>. \<open>Errorf\<close> is a plain message and
  \<open>WithMessage\<close> is \<^verbatim>\<open>errors.WithMessage\<close>, which wraps a cause.
\<close>

datatype err =
    ErrNotExist
  | ErrExist
  | ApiNotFound
  | ApiConflict
  | ApiAlreadyExists
  | Errorf string
  | WithMessage string err

text \<open>\<^verbatim>\<open>os.IsNotExist\<close> does not look through wrapping; \<^verbatim>\<open>errors.Is\<close> does.\<close>

fun os_IsNotExist :: "err \<Rightarrow> bool" where
  "os_IsNotExist ErrNotExist = True"
| "os_IsNotExist _ = False"

fun os_IsExist :: "err \<Rightarrow> bool" where
  "os_IsExist ErrExist = True"
| "os_IsExist _ = False"

fun errors_Is_ErrNotExist :: "err \<Rightarrow> bool" where
  "errors_Is_ErrNotExist ErrNotExist = True"
| "errors_Is_ErrNotExist (WithMessage m e) = errors_Is_ErrNotExist e"
| "errors_Is_ErrNotExist _ = False"

text \<open>What can stop a function before it returns normally.\<close>

datatype failure = Err err | Panic string | Fatal string

type_synonym 'a result = "err + 'a"
type_synonym 'a outcome = "failure + 'a"

text \<open>\<^verbatim>\<open>x, err := f(); if err != nil { return err }; ...\<close>\<close>

definition try_then :: "'e + 'a \<Rightarrow> ('a \<Rightarrow> 'e + 'b) \<Rightarrow> 'e + 'b" where
  "try_then r k = (case r of Inl e \<Rightarrow> Inl e | Inr x \<Rightarrow> k x)"

lemma try_then_simps [simp]:
  "try_then (Inl e) k = Inl e"
  "try_then (Inr x) k = k x"
  by (simp_all add: try_then_def)

lemma try_then_Inr_iff:
  "try_then r k = Inr y \<longleftrightarrow> (\<exists>x. r = Inr x \<and> k x = Inr y)"
  by (cases r) auto

lemma try_then_Inl_iff:
  "try_then r k = Inl e \<longleftrightarrow> r = Inl e \<or> (\<exists>x. r = Inr x \<and> k x = Inl e)"
  by (cases r) auto

lemma try_then_InrE [elim!]:
  assumes "try_then r k = Inr y"
  obtains x where "r = Inr x" and "k x = Inr y"
  using assms by (auto simp: try_then_Inr_iff)

text \<open>Wrapping the error of a call, as \<^verbatim>\<open>errors.WithMessagef(err, ...)\<close> does.\<close>

definition with_message :: "string \<Rightarrow> 'a result \<Rightarrow> 'a result" where
  "with_message m r = (case r of Inl e \<Rightarrow> Inl (WithMessage m e) | Inr x \<Rightarrow> Inr x)"

lemma with_message_simps [simp]:
  "with_message m (Inl e) = Inl (WithMessage m e)"
  "with_message m (Inr x) = Inr x"
  by (simp_all add: with_message_def)

lemma with_message_Inr_iff [simp]: "with_message m r = Inr x \<longleftrightarrow> r = Inr x"
  by (cases r) auto

text \<open>An error as a failure.\<close>

definition lift_err :: "'a result \<Rightarrow> 'a outcome" where
  "lift_err r = (case r of Inl e \<Rightarrow> Inl (Err e) | Inr x \<Rightarrow> Inr x)"

lemma lift_err_simps [simp]:
  "lift_err (Inl e) = Inl (Err e)"
  "lift_err (Inr x) = Inr x"
  by (simp_all add: lift_err_def)

lemma lift_err_Inr_iff [simp]: "lift_err r = Inr x \<longleftrightarrow> r = Inr x"
  by (cases r) auto

section \<open>Loops over lists that may return early\<close>

text \<open>\<^verbatim>\<open>for _, x := range xs { if err := body(x); err != nil { return err } }\<close> with the state threaded.\<close>

fun fold_try :: "('a \<Rightarrow> 's \<Rightarrow> 'e + 's) \<Rightarrow> 'a list \<Rightarrow> 's \<Rightarrow> 'e + 's" where
  "fold_try f [] s = Inr s"
| "fold_try f (x # xs) s = try_then (f x s) (fold_try f xs)"

lemma fold_try_append:
  "fold_try f (xs @ ys) s = try_then (fold_try f xs s) (fold_try f ys)"
  by (induction xs arbitrary: s) (auto simp: try_then_def split: sum.splits)

lemma fold_try_invariant:
  assumes "fold_try f xs s = Inr t" and "P s"
    and "\<And>x s t. x \<in> set xs \<Longrightarrow> P s \<Longrightarrow> f x s = Inr t \<Longrightarrow> P t"
  shows "P t"
  using assms
proof (induction xs arbitrary: s)
  case (Cons x xs)
  from Cons.prems(1) obtain u where u: "f x s = Inr u" "fold_try f xs u = Inr t" by auto
  with Cons.prems have "P u" by auto
  with u(2) show ?case using Cons.IH Cons.prems(3) by (metis list.set_intros(2))
qed simp

lemma fold_try_cong [fundef_cong]:
  assumes "xs = ys" and "s = t" and "\<And>x s. x \<in> set ys \<Longrightarrow> f x s = g x s"
  shows "fold_try f xs s = fold_try g ys t"
  using assms
proof (induction ys arbitrary: xs s t)
  case (Cons y ys)
  then show ?case by (auto simp: try_then_def split: sum.splits)
qed simp

section \<open>Go maps as association lists\<close>

text \<open>
  A Go map with a finite key set; the order of the list carries no meaning, since Go's iteration order
  is unspecified. \<open>gm_get\<close> is indexing with the comma-ok form, \<open>gm_index\<close> is plain indexing, which
  yields the zero value for a missing key.
\<close>

type_synonym ('k, 'v) gomap = "('k \<times> 'v) list"

definition gm_get :: "('k, 'v) gomap \<Rightarrow> 'k \<Rightarrow> 'v option" where
  "gm_get m k = map_of m k"

definition gm_index :: "'v \<Rightarrow> ('k, 'v) gomap \<Rightarrow> 'k \<Rightarrow> 'v" where
  "gm_index zero m k = (case gm_get m k of None \<Rightarrow> zero | Some v \<Rightarrow> v)"

definition gm_del :: "'k \<Rightarrow> ('k, 'v) gomap \<Rightarrow> ('k, 'v) gomap" where
  "gm_del k m = filter (\<lambda>p. fst p \<noteq> k) m"

definition gm_put :: "'k \<Rightarrow> 'v \<Rightarrow> ('k, 'v) gomap \<Rightarrow> ('k, 'v) gomap" where
  "gm_put k v m = (k, v) # gm_del k m"

definition gm_keys :: "('k, 'v) gomap \<Rightarrow> 'k list" where
  "gm_keys m = map fst m"

lemma map_of_filter_key:
  "map_of (filter (\<lambda>p. P (fst p)) m) k = (if P k then map_of m k else None)"
  by (induction m) auto

lemma gm_get_Nil [simp]: "gm_get [] k = None"
  by (simp add: gm_get_def)

lemma gm_get_Cons [simp]: "gm_get ((k, v) # m) k' = (if k' = k then Some v else gm_get m k')"
  by (simp add: gm_get_def)

lemma gm_get_del [simp]: "gm_get (gm_del k m) k' = (if k' = k then None else gm_get m k')"
  by (simp add: gm_get_def gm_del_def map_of_filter_key [of "\<lambda>x. x \<noteq> k"])

lemma gm_get_put [simp]: "gm_get (gm_put k v m) k' = (if k' = k then Some v else gm_get m k')"
  by (simp add: gm_put_def)

lemma gm_get_filter: "gm_get (filter (\<lambda>p. P (fst p)) m) k = (if P k then gm_get m k else None)"
  by (simp add: gm_get_def map_of_filter_key)

lemma gm_get_None_iff: "gm_get m k = None \<longleftrightarrow> k \<notin> set (gm_keys m)"
  by (simp add: gm_get_def gm_keys_def map_of_eq_None_iff)

lemma gm_get_Some_in_keys: "gm_get m k = Some v \<Longrightarrow> k \<in> set (gm_keys m)"
  using gm_get_None_iff [of m k] by auto

lemma distinct_keys_put:
  "distinct (gm_keys m) \<Longrightarrow> distinct (gm_keys (gm_put k v m))"
  by (auto simp: gm_keys_def gm_put_def gm_del_def distinct_map_filter)

lemma set_keys_put: "set (gm_keys (gm_put k v m)) = insert k (set (gm_keys m))"
  by (auto simp: gm_keys_def gm_put_def gm_del_def)

text \<open>The interface a Go map offers, and its model as an instance of it.\<close>

locale go_map =
  fixes get :: "'m \<Rightarrow> 'k \<Rightarrow> 'v option"
    and put :: "'k \<Rightarrow> 'v \<Rightarrow> 'm \<Rightarrow> 'm"
    and del :: "'k \<Rightarrow> 'm \<Rightarrow> 'm"
  assumes get_put: "get (put k v m) k' = (if k' = k then Some v else get m k')"
    and get_del: "get (del k m) k' = (if k' = k then None else get m k')"
begin

lemma put_other: "k' \<noteq> k \<Longrightarrow> get (put k v m) k' = get m k'"
  by (simp add: get_put)

lemma put_same: "get (put k v m) k = Some v"
  by (simp add: get_put)

text \<open>Storing a list of pairs from left to right: a key holds the last value stored for it.\<close>

lemma fold_put_last:
  "get (fold (\<lambda>(k, v). put k v) kvs m) k =
     (case map_of (rev kvs) k of None \<Rightarrow> get m k | Some v \<Rightarrow> Some v)"
proof (induction kvs arbitrary: m)
  case (Cons kv kvs)
  obtain a b where "kv = (a, b)" by (cases kv)
  then show ?case
    by (auto simp: Cons.IH map_add_def get_put split: option.splits)
qed simp

lemma fold_del_get:
  "get (fold del ks m) k = (if k \<in> set ks then None else get m k)"
  by (induction ks arbitrary: m) (auto simp: get_del)

end

interpretation gomap: go_map gm_get gm_put gm_del
  by unfold_locales simp_all

section \<open>List lemmas\<close>

lemma filter_neq_no_occ: "x \<notin> set xs \<Longrightarrow> filter (\<lambda>y. y \<noteq> x) xs = xs"
  by (induction xs) auto

lemma filter_neq_split:
  "x \<notin> set as \<Longrightarrow> x \<notin> set bs \<Longrightarrow> filter (\<lambda>y. y \<noteq> x) (as @ x # bs) = as @ bs"
  by (simp add: filter_neq_no_occ)

lemma map_filter_set: "y \<in> set (List.map_filter f xs) \<longleftrightarrow> (\<exists>x \<in> set xs. f x = Some y)"
  by (induction xs) (auto split: option.splits)

end
