(* ===== verification/Go_Strings.thy ===== *)
theory Go_Strings
  imports Go_Base "HOL-Library.List_Lexorder" "HOL-Library.Char_ord"
begin

text \<open>
  The functions of Go's \<^verbatim>\<open>strings\<close>, \<^verbatim>\<open>strconv\<close> and \<^verbatim>\<open>sort\<close> packages that the sources call. A Go string is a
  byte sequence, here a \<^typ>\<open>string\<close>; separators are single bytes, as in every call of the sources.
  White space and letter case are those of ASCII.
\<close>

section \<open>Splitting and joining\<close>

text \<open>\<^verbatim>\<open>strings.Split(s, c)\<close>.\<close>

fun str_Split :: "char \<Rightarrow> string \<Rightarrow> string list" where
  "str_Split c [] = [[]]"
| "str_Split c (x # xs) =
     (if x = c then [] # str_Split c xs
      else (case str_Split c xs of [] \<Rightarrow> [[x]] | y # ys \<Rightarrow> (x # y) # ys))"

text \<open>\<^verbatim>\<open>strings.Cut(s, c)\<close>: the text before and after the first separator, and whether there was one.\<close>

fun str_Cut :: "char \<Rightarrow> string \<Rightarrow> string \<times> string \<times> bool" where
  "str_Cut c [] = ([], [], False)"
| "str_Cut c (x # xs) =
     (if x = c then ([], xs, True)
      else (case str_Cut c xs of (b, a, f) \<Rightarrow> (x # b, a, f)))"

text \<open>\<^verbatim>\<open>strings.SplitN(s, c, 2)\<close>.\<close>

definition str_SplitN2 :: "char \<Rightarrow> string \<Rightarrow> string list" where
  "str_SplitN2 c s = (case str_Cut c s of (b, a, f) \<Rightarrow> if f then [b, a] else [s])"

text \<open>\<^verbatim>\<open>strings.Join(xs, sep)\<close>.\<close>

fun str_Join :: "string list \<Rightarrow> string \<Rightarrow> string" where
  "str_Join [] sep = []"
| "str_Join [x] sep = x"
| "str_Join (x # y # ys) sep = x @ sep @ str_Join (y # ys) sep"

lemma str_Split_nonempty [simp]: "str_Split c s \<noteq> []"
  by (induction s) (auto split: list.splits)

lemma str_Split_no_sep: "c \<notin> set s \<Longrightarrow> str_Split c s = [s]"
  by (induction s) auto

lemma str_Split_parts_no_sep: "p \<in> set (str_Split c s) \<Longrightarrow> c \<notin> set p"
proof (induction s arbitrary: p)
  case (Cons x s)
  then show ?case
    by (cases "str_Split c s") (auto split: if_splits)
qed simp

lemma str_Join_Split: "str_Join (str_Split c s) [c] = s"
proof (induction s)
  case (Cons x s)
  show ?case
  proof (cases "str_Split c s")
    case Nil
    then show ?thesis by simp
  next
    case (Cons y ys)
    with Cons.IH show ?thesis by (cases ys) auto
  qed
qed simp

lemma str_Split_append_sep:
  "c \<notin> set b \<Longrightarrow> str_Split c (b @ c # a) = b # str_Split c a"
  by (induction b) auto

lemma str_Split_Join:
  "xs \<noteq> [] \<Longrightarrow> \<forall>x \<in> set xs. c \<notin> set x \<Longrightarrow> str_Split c (str_Join xs [c]) = xs"
  by (induction xs "[c]" rule: str_Join.induct) (auto simp: str_Split_no_sep str_Split_append_sep)

lemma str_Cut_no_sep: "c \<notin> set s \<Longrightarrow> str_Cut c s = (s, [], False)"
  by (induction s) auto

lemma str_Cut_sep [simp]: "c \<notin> set b \<Longrightarrow> str_Cut c (b @ c # a) = (b, a, True)"
  by (induction b) auto

lemma str_Cut_found_iff: "snd (snd (str_Cut c s)) \<longleftrightarrow> c \<in> set s"
  by (induction s) (auto split: prod.splits)

lemma str_Cut_spec:
  "str_Cut c s = (b, a, f) \<Longrightarrow> c \<notin> set b \<and> (if f then s = b @ c # a else s = b \<and> a = [])"
proof (induction s arbitrary: b)
  case (Cons x s)
  then show ?case by (auto split: if_splits prod.splits)
qed auto

lemma str_SplitN2_no_sep: "c \<notin> set s \<Longrightarrow> str_SplitN2 c s = [s]"
  by (simp add: str_SplitN2_def str_Cut_no_sep)

lemma str_SplitN2_sep [simp]: "c \<notin> set b \<Longrightarrow> str_SplitN2 c (b @ c # a) = [b, a]"
  by (simp add: str_SplitN2_def)

lemma str_SplitN2_cases:
  obtains (whole) "c \<notin> set s" "str_SplitN2 c s = [s]"
  | (parts) b a where "c \<notin> set b" "s = b @ c # a" "str_SplitN2 c s = [b, a]"
proof (cases "c \<in> set s")
  case True
  then obtain b a where "s = b @ c # a" "c \<notin> set b" by (metis split_list_first)
  then show thesis using parts by simp
next
  case False
  then show thesis using whole by (simp add: str_SplitN2_no_sep)
qed

lemma length_str_SplitN2: "length (str_SplitN2 c s) = (if c \<in> set s then 2 else 1)"
  by (cases rule: str_SplitN2_cases [of c s]) auto

section \<open>Prefixes, suffixes, substrings\<close>

definition str_HasPrefix :: "string \<Rightarrow> string \<Rightarrow> bool" where
  "str_HasPrefix s p \<longleftrightarrow> length p \<le> length s \<and> take (length p) s = p"

definition str_HasSuffix :: "string \<Rightarrow> string \<Rightarrow> bool" where
  "str_HasSuffix s p \<longleftrightarrow> length p \<le> length s \<and> drop (length s - length p) s = p"

definition str_TrimPrefix :: "string \<Rightarrow> string \<Rightarrow> string" where
  "str_TrimPrefix s p = (if str_HasPrefix s p then drop (length p) s else s)"

definition str_TrimSuffix :: "string \<Rightarrow> string \<Rightarrow> string" where
  "str_TrimSuffix s p = (if str_HasSuffix s p then take (length s - length p) s else s)"

fun str_Contains :: "string \<Rightarrow> string \<Rightarrow> bool" where
  "str_Contains [] p = (p = [])"
| "str_Contains (x # xs) p = (str_HasPrefix (x # xs) p \<or> str_Contains xs p)"

lemma str_HasPrefix_iff: "str_HasPrefix s p \<longleftrightarrow> (\<exists>t. s = p @ t)"
  by (auto simp: str_HasPrefix_def) (metis append_take_drop_id)

lemma str_HasPrefix_append [simp]: "str_HasPrefix (p @ t) p"
  by (auto simp: str_HasPrefix_iff)

lemma str_HasSuffix_iff: "str_HasSuffix s p \<longleftrightarrow> (\<exists>t. s = t @ p)"
  by (auto simp: str_HasSuffix_def) (metis append_take_drop_id)

lemma str_HasSuffix_append [simp]: "str_HasSuffix (t @ p) p"
  by (auto simp: str_HasSuffix_iff)

lemma str_TrimPrefix_append [simp]: "str_TrimPrefix (p @ t) p = t"
  by (simp add: str_TrimPrefix_def)

lemma str_TrimSuffix_append [simp]: "str_TrimSuffix (t @ p) p = t"
  by (simp add: str_TrimSuffix_def)

lemma str_Contains_iff: "str_Contains s p \<longleftrightarrow> (\<exists>a b. s = a @ p @ b)"
proof (induction s)
  case (Cons x s)
  show ?case
  proof
    assume "str_Contains (x # s) p"
    then consider "str_HasPrefix (x # s) p" | "str_Contains s p" by auto
    then show "\<exists>a b. x # s = a @ p @ b"
    proof cases
      case 1
      then show ?thesis by (metis append_Nil str_HasPrefix_iff)
    next
      case 2
      then show ?thesis using Cons.IH by (metis append_Cons)
    qed
  next
    assume "\<exists>a b. x # s = a @ p @ b"
    then obtain a b where ab: "x # s = a @ p @ b" by blast
    show "str_Contains (x # s) p"
    proof (cases a)
      case Nil
      with ab have "str_HasPrefix (x # s) p" by (simp add: str_HasPrefix_iff)
      then show ?thesis by simp
    next
      case (Cons y a')
      with ab Cons.IH show ?thesis by auto
    qed
  qed
qed simp

section \<open>White space, case\<close>

definition is_space :: "char \<Rightarrow> bool" where
  "is_space c \<longleftrightarrow> of_char c \<in> {9, 10, 11, 12, 13, 32 :: nat}"

definition str_TrimSpace :: "string \<Rightarrow> string" where
  "str_TrimSpace s = rev (dropWhile is_space (rev (dropWhile is_space s)))"

definition lower_char :: "char \<Rightarrow> char" where
  "lower_char c = (let n = of_char c :: nat in if 65 \<le> n \<and> n \<le> 90 then char_of (n + 32) else c)"

definition str_ToLower :: "string \<Rightarrow> string" where
  "str_ToLower s = map lower_char s"

lemma str_TrimSpace_no_space_ends:
  "str_TrimSpace s = [] \<or> (\<not> is_space (hd (str_TrimSpace s)) \<and> \<not> is_space (last (str_TrimSpace s)))"
proof (cases "str_TrimSpace s = []")
  case False
  define t where "t = dropWhile is_space s"
  define u where "u = dropWhile is_space (rev t)"
  have eq: "str_TrimSpace s = rev u" by (simp add: str_TrimSpace_def t_def u_def)
  with False have u: "u \<noteq> []" by simp
  then have "\<not> is_space (hd u)" unfolding u_def by (rule hd_dropWhile)
  moreover obtain w where w: "rev t = w @ u" unfolding u_def by (metis takeWhile_dropWhile_id)
  then have "t \<noteq> []" and "hd t = last u" using u by (auto simp: hd_rev [symmetric])
     (metis hd_append2 hd_rev rev_append rev_rev_ident rev_is_Nil_conv)
  moreover have "\<not> is_space (hd t)" using \<open>t \<noteq> []\<close> unfolding t_def by (rule hd_dropWhile)
  ultimately show ?thesis using u by (simp add: eq hd_rev last_rev)
qed simp

section \<open>Decimal numbers\<close>

definition digit_char :: "nat \<Rightarrow> char" where
  "digit_char d = char_of (48 + d)"

definition digit_val :: "char \<Rightarrow> nat option" where
  "digit_val c = (let n = of_char c in if 48 \<le> n \<and> n \<le> 57 then Some (n - 48) else None)"

text \<open>\<^verbatim>\<open>fmt.Sprintf("%d", n)\<close> for a natural number.\<close>

fun itoa :: "nat \<Rightarrow> string" where
  "itoa n = (if n < 10 then [digit_char n] else itoa (n div 10) @ [digit_char (n mod 10)])"

declare itoa.simps [simp del]

text \<open>The value of a run of decimal digits.\<close>

fun digits_val :: "nat \<Rightarrow> string \<Rightarrow> nat option" where
  "digits_val acc [] = Some acc"
| "digits_val acc (c # cs) =
     (case digit_val c of None \<Rightarrow> None | Some d \<Rightarrow> digits_val (10 * acc + d) cs)"

definition atoi_nat :: "string \<Rightarrow> nat option" where
  "atoi_nat s = (if s = [] then None else digits_val 0 s)"

text \<open>
  \<^verbatim>\<open>strconv.ParseInt(s, 10, bits)\<close>: an optional sign, at least one decimal digit and nothing else, and the
  value in the range of a signed integer of that width.
\<close>

definition strconv_ParseInt :: "nat \<Rightarrow> string \<Rightarrow> int result" where
  "strconv_ParseInt bits s =
     (let bad = Inl (Errorf ''strconv.ParseInt: invalid syntax'');
          big = Inl (Errorf ''strconv.ParseInt: value out of range'') in
      case s of [] \<Rightarrow> bad
      | c # cs \<Rightarrow>
          (let neg = (c = CHR ''-''); ds = (if c = CHR ''-'' \<or> c = CHR ''+'' then cs else s) in
           case atoi_nat ds of None \<Rightarrow> bad
           | Some n \<Rightarrow>
               if neg then (if int n \<le> 2 ^ (bits - 1) then Inr (- int n) else big)
               else (if int n < 2 ^ (bits - 1) then Inr (int n) else big)))"

text \<open>\<^verbatim>\<open>strconv.ParseBool\<close>.\<close>

definition strconv_ParseBool :: "string \<Rightarrow> bool result" where
  "strconv_ParseBool s =
     (if s \<in> {''1'', ''t'', ''T'', ''true'', ''TRUE'', ''True''} then Inr True
      else if s \<in> {''0'', ''f'', ''F'', ''false'', ''FALSE'', ''False''} then Inr False
      else Inl (Errorf ''strconv.ParseBool: invalid syntax''))"

lemma digit_val_char [simp]: "d < 10 \<Longrightarrow> digit_val (digit_char d) = Some d"
  by (simp add: digit_val_def digit_char_def Let_def)

lemma digits_val_append:
  "digits_val acc (xs @ ys) = (case digits_val acc xs of None \<Rightarrow> None | Some n \<Rightarrow> digits_val n ys)"
  by (induction xs arbitrary: acc) (auto split: option.splits)

lemma itoa_nonempty [simp]: "itoa n \<noteq> []"
  by (subst itoa.simps) simp

lemma digits_val_itoa: "digits_val 0 (itoa n) = Some n"
proof (induction n rule: itoa.induct)
  case (1 n)
  show ?case
  proof (cases "n < 10")
    case True
    then show ?thesis by (subst itoa.simps) simp
  next
    case False
    with "1.IH" have "digits_val 0 (itoa (n div 10)) = Some (n div 10)" by simp
    with False show ?thesis
      by (subst itoa.simps) (simp add: digits_val_append)
  qed
qed

lemma atoi_itoa: "atoi_nat (itoa n) = Some n"
  by (simp add: atoi_nat_def digits_val_itoa)

lemma digit_char_range: "d < 10 \<Longrightarrow> digit_val (digit_char d) \<noteq> None"
  by simp

lemma itoa_digits: "c \<in> set (itoa n) \<Longrightarrow> digit_val c \<noteq> None"
proof (induction n rule: itoa.induct)
  case (1 n)
  show ?case
  proof (cases "n < 10")
    case True
    with "1.prems" show ?thesis by (subst (asm) itoa.simps) (simp add: digit_char_range)
  next
    case False
    with "1.prems" have "c \<in> set (itoa (n div 10)) \<or> c = digit_char (n mod 10)"
      by (subst (asm) itoa.simps) auto
    with False "1.IH" show ?thesis by (auto simp: digit_char_range)
  qed
qed

lemma digit_not_minus [simp]: "digit_val (CHR ''-'') = None" "digit_val (CHR ''/'') = None"
    "digit_val (CHR '','') = None" "digit_val (CHR ''='') = None"
  by (simp_all add: digit_val_def)

text \<open>
  A printer and its reader: what is printed can be read back, so two values that print alike are equal.
  The volume names of a pod and the flag values are printed this way.
\<close>

locale printer =
  fixes print :: "'a \<Rightarrow> string"
    and read :: "string \<Rightarrow> 'a option"
  assumes read_print: "read (print x) = Some x"
begin

lemma print_inj: "print x = print y \<Longrightarrow> x = y"
  by (metis option.inject read_print)

lemma print_inj_iff [simp]: "print x = print y \<longleftrightarrow> x = y"
  using print_inj by blast

lemma distinct_map_print: "distinct (map (\<lambda>x. pre @ print x) xs) = distinct xs"
  by (induction xs) auto

end

interpretation decimal: printer itoa atoi_nat
  by unfold_locales (rule atoi_itoa)

lemma ParseInt_itoa:
  assumes "int n < 2 ^ (bits - 1)"
  shows "strconv_ParseInt bits (itoa n) = Inr (int n)"
proof -
  obtain c cs where s: "itoa n = c # cs" by (meson itoa_nonempty list.exhaust)
  then have "digit_val c \<noteq> None" using itoa_digits [of c n] by simp
  then have "c \<noteq> CHR ''-''" and "c \<noteq> CHR ''+''" by (auto simp: digit_val_def)
  then show ?thesis
    using assms atoi_itoa [of n] unfolding strconv_ParseInt_def s by (simp add: Let_def)
qed

lemma ParseInt_bounds:
  assumes "strconv_ParseInt bits s = Inr v"
  shows "- (2 ^ (bits - 1)) \<le> v \<and> v < 2 ^ (bits - 1)"
proof -
  have neg: "- int n < 2 ^ k" "- (2 ^ k) \<le> int n" for n k :: nat
    by (rule order_le_less_trans [of _ 0], auto, rule order_trans [of _ 0], auto)
  from assms show ?thesis
    unfolding strconv_ParseInt_def Let_def
    by (auto split: list.splits if_splits option.splits simp: neg)
qed

section \<open>Sorting strings\<close>

text \<open>\<^verbatim>\<open>sort.Strings\<close> and the iteration of a Go map's keys, which is sorted by every caller that keeps it.\<close>

definition sort_Strings :: "string list \<Rightarrow> string list" where
  "sort_Strings xs = sort xs"

lemma set_sort_Strings [simp]: "set (sort_Strings xs) = set xs"
  by (simp add: sort_Strings_def)

lemma sorted_sort_Strings [simp]: "sorted (sort_Strings xs)"
  by (simp add: sort_Strings_def)

lemma distinct_sort_Strings [simp]: "distinct (sort_Strings xs) = distinct xs"
  by (simp add: sort_Strings_def)

lemma sort_Strings_set_eq:
  "distinct xs \<Longrightarrow> distinct ys \<Longrightarrow> set xs = set ys \<Longrightarrow> sort_Strings xs = sort_Strings ys"
  unfolding sort_Strings_def
  by (metis distinct_sort set_sort sorted_distinct_set_unique sorted_sort)

end
