(* ===== verification/Go_Path.thy ===== *)
theory Go_Path
  imports Go_Strings
begin

text \<open>
  Package \<^verbatim>\<open>path/filepath\<close> on a system whose separator is the slash: \<^verbatim>\<open>Clean\<close>, \<^verbatim>\<open>Join\<close>, \<^verbatim>\<open>Dir\<close> and \<^verbatim>\<open>Base\<close>,
  and the facts about joined paths that the components rely on.
\<close>

abbreviation slash :: char where
  "slash \<equiv> CHR ''/''"

section \<open>The functions\<close>

text \<open>
  \<^verbatim>\<open>Clean\<close> handles the path component by component: empty components and \<^verbatim>\<open>.\<close> are dropped, \<^verbatim>\<open>..\<close> removes
  the component before it, except that it is kept at the start of a relative path and dropped at the start
  of an absolute one. The components done so far are kept reversed.
\<close>

fun clean_step :: "bool \<Rightarrow> string list \<Rightarrow> string \<Rightarrow> string list" where
  "clean_step rooted out seg =
     (if seg = '''' \<or> seg = ''.'' then out
      else if seg = ''..'' then
        (case out of [] \<Rightarrow> if rooted then [] else [''..'']
         | c # cs \<Rightarrow> if c = ''..'' then ''..'' # out else cs)
      else seg # out)"

definition clean_comps :: "bool \<Rightarrow> string list \<Rightarrow> string list" where
  "clean_comps rooted comps = rev (foldl (clean_step rooted) [] comps)"

definition is_rooted :: "string \<Rightarrow> bool" where
  "is_rooted p \<longleftrightarrow> str_HasPrefix p ''/''"

definition filepath_Clean :: "string \<Rightarrow> string" where
  "filepath_Clean p =
     (let cs = clean_comps (is_rooted p) (str_Split slash p) in
      if is_rooted p then ''/'' @ str_Join cs ''/''
      else if cs = [] then ''.'' else str_Join cs ''/'')"

text \<open>\<^verbatim>\<open>Join\<close> skips leading empty elements and cleans the rest joined by slashes.\<close>

definition filepath_Join :: "string list \<Rightarrow> string" where
  "filepath_Join elems =
     (case dropWhile (\<lambda>e. e = '''') elems of
        [] \<Rightarrow> ''''
      | es \<Rightarrow> filepath_Clean (str_Join es ''/''))"

text \<open>The text up to and including the last slash, and the text after it.\<close>

definition path_split :: "string \<Rightarrow> string \<times> string" where
  "path_split p = (let base = rev (takeWhile (\<lambda>c. c \<noteq> slash) (rev p)) in
                   (take (length p - length base) p, base))"

definition filepath_Dir :: "string \<Rightarrow> string" where
  "filepath_Dir p = filepath_Clean (fst (path_split p))"

text \<open>\<^verbatim>\<open>Base\<close> strips trailing slashes and then takes the last component.\<close>

definition filepath_Base :: "string \<Rightarrow> string" where
  "filepath_Base p =
     (if p = '''' then ''.''
      else let q = rev (dropWhile (\<lambda>c. c = slash) (rev p)) in
           if q = '''' then ''/'' else snd (path_split q))"

section \<open>Names and clean absolute paths\<close>

text \<open>A plain file name: not empty, not a dot name, no slash.\<close>

definition is_name :: "string \<Rightarrow> bool" where
  "is_name n \<longleftrightarrow> n \<noteq> '''' \<and> n \<noteq> ''.'' \<and> n \<noteq> ''..'' \<and> slash \<notin> set n"

text \<open>The absolute path made of a list of names.\<close>

definition abs_path :: "string list \<Rightarrow> string" where
  "abs_path ns = ''/'' @ str_Join ns ''/''"

lemma foldl_clean_names:
  "\<forall>n \<in> set ns. is_name n \<Longrightarrow> foldl (clean_step r) out ns = rev ns @ out"
  by (induction ns arbitrary: out) (auto simp: is_name_def)

lemma clean_names: "\<forall>n \<in> set ns. is_name n \<Longrightarrow> clean_comps r ns = ns"
  by (simp add: clean_comps_def foldl_clean_names)

lemma clean_comps_empty_head [simp]: "clean_comps r ('''' # cs) = clean_comps r cs"
  by (simp add: clean_comps_def)

lemma is_rooted_abs [simp]: "is_rooted (abs_path ns)"
  by (simp add: is_rooted_def abs_path_def str_HasPrefix_def)

lemma split_abs:
  "ns \<noteq> [] \<Longrightarrow> \<forall>n \<in> set ns. is_name n \<Longrightarrow> str_Split slash (abs_path ns) = '''' # ns"
  by (simp add: abs_path_def str_Split_Join is_name_def)

lemma Clean_abs: "\<forall>n \<in> set ns. is_name n \<Longrightarrow> filepath_Clean (abs_path ns) = abs_path ns"
proof (cases "ns = []")
  case True
  then show ?thesis
    by (simp add: filepath_Clean_def abs_path_def is_rooted_def str_HasPrefix_def clean_comps_def)
next
  case False
  assume "\<forall>n \<in> set ns. is_name n"
  with False show ?thesis
    unfolding filepath_Clean_def by (simp add: split_abs clean_names) (simp add: abs_path_def)
qed

lemma str_Join_append:
  "xs \<noteq> [] \<Longrightarrow> ys \<noteq> [] \<Longrightarrow> str_Join (xs @ ys) sep = str_Join xs sep @ sep @ str_Join ys sep"
proof (induction xs sep rule: str_Join.induct)
  case (2 x sep)
  then show ?case by (cases ys) auto
qed auto

lemma str_Join_cons: "xs \<noteq> [] \<Longrightarrow> str_Join (x # xs) sep = x @ sep @ str_Join xs sep"
  by (cases xs) auto

text \<open>Joining names to a clean absolute path appends them.\<close>

lemma Join_abs:
  assumes "ds \<noteq> []" and "\<forall>n \<in> set ds. is_name n" and "\<forall>n \<in> set ns. is_name n"
  shows "filepath_Join (abs_path ds # ns) = abs_path (ds @ ns)"
proof -
  have "str_Join (abs_path ds # ns) ''/'' = abs_path (ds @ ns)"
  proof (cases "ns = []")
    case False
    then show ?thesis using assms(1)
      by (simp add: str_Join_cons abs_path_def str_Join_append)
  qed simp
  moreover have "abs_path ds \<noteq> ''''" by (simp add: abs_path_def)
  moreover have "filepath_Clean (abs_path (ds @ ns)) = abs_path (ds @ ns)"
    using assms(2,3) by (intro Clean_abs) auto
  ultimately show ?thesis by (simp add: filepath_Join_def)
qed

text \<open>Two names of the same directory give different paths.\<close>

lemma str_Join_inj:
  assumes "str_Join xs [c] = str_Join ys [c]" and "xs \<noteq> []" and "ys \<noteq> []"
    and "\<forall>x \<in> set xs. c \<notin> set x" and "\<forall>y \<in> set ys. c \<notin> set y"
  shows "xs = ys"
  using assms by (metis str_Split_Join)

lemma abs_path_inj:
  assumes "abs_path xs = abs_path ys" and "xs \<noteq> []" "ys \<noteq> []"
    and "\<forall>n \<in> set xs. is_name n" "\<forall>n \<in> set ys. is_name n"
  shows "xs = ys"
  using assms by (auto simp: abs_path_def is_name_def intro!: str_Join_inj [of xs slash ys])

lemma path_split_name:
  assumes "slash \<notin> set n"
  shows "path_split (d @ slash # n) = (d @ ''/'', n)"
proof -
  have "takeWhile (\<lambda>c. c \<noteq> slash) (rev n @ slash # rev d) = rev n"
    using assms by (subst takeWhile_append2) auto
  then show ?thesis by (simp add: path_split_def)
qed

lemma abs_path_snoc: "ds \<noteq> [] \<Longrightarrow> abs_path (ds @ [n]) = abs_path ds @ slash # n"
  by (simp add: abs_path_def str_Join_append)

lemma Dir_abs:
  assumes "ds \<noteq> []" and "\<forall>d \<in> set ds. is_name d" and "is_name n"
  shows "filepath_Dir (abs_path (ds @ [n])) = abs_path ds"
proof -
  have "str_Split slash (abs_path ds @ ''/'') = '''' # ds @ ['''']"
  proof -
    have "abs_path ds @ ''/'' = str_Join ('''' # ds @ ['''']) [slash]"
      using assms(1) by (simp add: abs_path_def str_Join_cons str_Join_append)
    moreover have "\<forall>x \<in> set ('''' # ds @ ['''']). slash \<notin> set x"
      using assms(2) by (auto simp: is_name_def)
    ultimately show ?thesis using str_Split_Join [of "'''' # ds @ ['''']" slash] by simp
  qed
  moreover have "clean_comps True (ds @ ['''']) = ds"
    using assms(2) by (simp add: clean_comps_def foldl_clean_names)
  moreover have "is_rooted (abs_path ds @ ''/'')"
    by (simp add: is_rooted_def abs_path_def str_HasPrefix_def)
  ultimately show ?thesis
    using assms(1,3)
    by (simp add: filepath_Dir_def abs_path_snoc path_split_name is_name_def filepath_Clean_def)
       (simp add: abs_path_def)
qed

lemma Base_abs:
  assumes "ds \<noteq> []" and "is_name n"
  shows "filepath_Base (abs_path (ds @ [n])) = n"
proof -
  have n: "n \<noteq> []" "slash \<notin> set n" using assms(2) by (auto simp: is_name_def)
  then have "dropWhile (\<lambda>c. c = slash) (rev (abs_path ds @ slash # n)) = rev (abs_path ds @ slash # n)"
    by (cases "rev n") auto
  with n show ?thesis
    by (simp add: filepath_Base_def abs_path_snoc [OF assms(1)] path_split_name Let_def)
qed

text \<open>The interface of a directory layout: names placed in a directory get different paths.\<close>

locale dir_layout =
  fixes place :: "string \<Rightarrow> string"
    and valid :: "string \<Rightarrow> bool"
  assumes place_inj: "valid a \<Longrightarrow> valid b \<Longrightarrow> place a = place b \<Longrightarrow> a = b"
begin

lemma place_neq: "valid a \<Longrightarrow> valid b \<Longrightarrow> a \<noteq> b \<Longrightarrow> place a \<noteq> place b"
  using place_inj by blast

lemma distinct_place:
  "\<forall>a \<in> set xs. valid a \<Longrightarrow> distinct (map place xs) = distinct xs"
  by (induction xs) (auto dest: place_inj)

end

end
