(* ===== verification/Go_Disk.thy ===== *)
theory Go_Disk
  imports Go_Path
begin

text \<open>
  The part of package \<^verbatim>\<open>os\<close> the sources use, over an explicit file tree. A disk holds the tree, the
  sequence of trees an observer such as the kubelet could have seen so far, and the input/output faults of
  the environment: \<open>faults op path\<close> is the error that operation reports on that path, if any, so every
  error branch of the sources can be taken. A path is the string the program passes; symbolic links are
  followed at the last component, at most 40 of them, as Linux does. A file is written one byte at a time:
  each prefix of its content is a tree of the history.
\<close>

section \<open>File trees\<close>

datatype kind = Regular string | Directory | SocketFile | Symlink string

record inode =
  kind :: kind
  perm :: nat
  owner :: "int \<times> int"

type_synonym tree = "(string, inode) gomap"

datatype fsop =
    OpStat | OpReadFile | OpOpen | OpWrite | OpMkdir | OpRemove | OpRename | OpReadDir
  | OpMkdirTemp | OpChown | OpSymlink | OpChmod | OpSeek | OpTruncate | OpSync

record disk =
  tree :: tree
  hist :: "tree list"
  faults :: "fsop \<Rightarrow> string \<Rightarrow> err option"

definition commit :: "tree \<Rightarrow> disk \<Rightarrow> disk" where
  "commit t d = d\<lparr>tree := t, hist := hist d @ [t]\<rparr>"

definition commits :: "tree list \<Rightarrow> disk \<Rightarrow> disk" where
  "commits ts d = fold commit ts d"

text \<open>A file whose whole path lies under a directory.\<close>

definition under :: "string \<Rightarrow> string \<Rightarrow> bool" where
  "under p q \<longleftrightarrow> q = p \<or> str_HasPrefix q (p @ ''/'')"

fun follow :: "nat \<Rightarrow> tree \<Rightarrow> string \<Rightarrow> string result" where
  "follow 0 t p = Inl (Errorf ''too many levels of symbolic links'')"
| "follow (Suc n) t p =
     (case gm_get t p of None \<Rightarrow> Inr p
      | Some i \<Rightarrow> (case kind i of Symlink q \<Rightarrow> follow n t q | _ \<Rightarrow> Inr p))"

definition lookup :: "tree \<Rightarrow> string \<Rightarrow> inode result" where
  "lookup t p = try_then (follow 40 t p)
     (\<lambda>q. case gm_get t q of None \<Rightarrow> Inl ErrNotExist | Some i \<Rightarrow> Inr i)"

definition is_dir :: "tree \<Rightarrow> string \<Rightarrow> bool" where
  "is_dir t p \<longleftrightarrow> p = ''/'' \<or> p = ''.'' \<or> (case lookup t p of Inl _ \<Rightarrow> False | Inr i \<Rightarrow> kind i = Directory)"

definition new_inode :: "kind \<Rightarrow> nat \<Rightarrow> inode" where
  "new_inode k pm = \<lparr>kind = k, perm = pm, owner = (0, 0)\<rparr>"

section \<open>Reading\<close>

definition os_Stat :: "disk \<Rightarrow> string \<Rightarrow> inode result" where
  "os_Stat d p = (case faults d OpStat p of Some e \<Rightarrow> Inl e | None \<Rightarrow> lookup (tree d) p)"

definition os_ReadFile :: "disk \<Rightarrow> string \<Rightarrow> string result" where
  "os_ReadFile d p =
     (case faults d OpReadFile p of Some e \<Rightarrow> Inl e
      | None \<Rightarrow> try_then (lookup (tree d) p)
          (\<lambda>i. case kind i of Regular c \<Rightarrow> Inr c | _ \<Rightarrow> Inl (Errorf ''is not a regular file'')))"

text \<open>\<^verbatim>\<open>os.ReadDir\<close>: the entries of a directory, sorted by name.\<close>

definition entry_name :: "string \<Rightarrow> string \<Rightarrow> string option" where
  "entry_name p q =
     (if str_HasPrefix q (p @ ''/'') then
        let n = drop (Suc (length p)) q in if n \<noteq> '''' \<and> slash \<notin> set n then Some n else None
      else None)"

definition os_ReadDir :: "disk \<Rightarrow> string \<Rightarrow> (string \<times> inode) list result" where
  "os_ReadDir d p =
     (case faults d OpReadDir p of Some e \<Rightarrow> Inl e
      | None \<Rightarrow>
          if \<not> is_dir (tree d) p then Inl ErrNotExist
          else Inr (map (\<lambda>n. (n, the (gm_get (tree d) (p @ ''/'' @ n))))
                 (sort_Strings (remdups (List.map_filter (entry_name p) (gm_keys (tree d)))))))"

section \<open>Writing\<close>

definition write_steps :: "tree \<Rightarrow> string \<Rightarrow> inode \<Rightarrow> string \<Rightarrow> tree list" where
  "write_steps t p i c = map (\<lambda>k. gm_put p (i\<lparr>kind := Regular (take k c)\<rparr>) t) [0 ..< Suc (length c)]"

text \<open>
  \<^verbatim>\<open>os.WriteFile\<close>: create or truncate, then write. The mode applies to a new file only.
\<close>

definition os_WriteFile :: "string \<Rightarrow> string \<Rightarrow> nat \<Rightarrow> disk \<Rightarrow> unit result \<times> disk" where
  "os_WriteFile p c pm d =
     (case faults d OpOpen p of Some e \<Rightarrow> (Inl e, d)
      | None \<Rightarrow>
         (case follow 40 (tree d) p of Inl e \<Rightarrow> (Inl e, d)
          | Inr q \<Rightarrow>
             if \<not> is_dir (tree d) (filepath_Dir q) then (Inl ErrNotExist, d)
             else (case gm_get (tree d) q of
                 None \<Rightarrow>
                   (case faults d OpWrite p of
                      Some e \<Rightarrow> (Inl e, commit (gm_put q (new_inode (Regular '''') pm) (tree d)) d)
                    | None \<Rightarrow> (Inr (), commits (write_steps (tree d) q (new_inode (Regular '''') pm) c) d))
               | Some i \<Rightarrow>
                   (case kind i of
                      Regular _ \<Rightarrow>
                        (case faults d OpWrite p of
                           Some e \<Rightarrow> (Inl e, commit (gm_put q (i\<lparr>kind := Regular ''''\<rparr>) (tree d)) d)
                         | None \<Rightarrow> (Inr (), commits (write_steps (tree d) q i c) d))
                    | _ \<Rightarrow> (Inl (Errorf ''is not a regular file''), d)))))"

text \<open>\<^verbatim>\<open>os.OpenFile(p, O_WRONLY|O_CREATE|O_EXCL, pm)\<close> and \<^verbatim>\<open>file.Write\<close> on the new, empty file.\<close>

definition os_OpenExcl :: "string \<Rightarrow> nat \<Rightarrow> disk \<Rightarrow> unit result \<times> disk" where
  "os_OpenExcl p pm d =
     (case faults d OpOpen p of Some e \<Rightarrow> (Inl e, d)
      | None \<Rightarrow>
          if gm_get (tree d) p \<noteq> None then (Inl ErrExist, d)
          else if \<not> is_dir (tree d) (filepath_Dir p) then (Inl ErrNotExist, d)
          else (Inr (), commit (gm_put p (new_inode (Regular '''') pm) (tree d)) d))"

definition file_Write :: "string \<Rightarrow> string \<Rightarrow> disk \<Rightarrow> unit result \<times> disk" where
  "file_Write p c d =
     (case faults d OpWrite p of Some e \<Rightarrow> (Inl e, d)
      | None \<Rightarrow>
         (case gm_get (tree d) p of None \<Rightarrow> (Inl ErrNotExist, d)
          | Some i \<Rightarrow> (Inr (), commits (write_steps (tree d) p i c) d)))"

text \<open>\<^verbatim>\<open>os.MkdirAll\<close>: the prefixes of the path from the root, each made unless it is a directory already.\<close>

definition path_prefixes :: "string \<Rightarrow> string list" where
  "path_prefixes p =
     (let cs = filter (\<lambda>c. c \<noteq> '''') (str_Split slash p);
          pre = (if is_rooted p then ''/'' else '''')
      in map (\<lambda>k. pre @ str_Join (take k cs) ''/'') [1 ..< Suc (length cs)])"

definition mkdir_one :: "nat \<Rightarrow> string \<Rightarrow> disk \<Rightarrow> disk result" where
  "mkdir_one pm q d =
     (if is_dir (tree d) q then Inr d
      else case gm_get (tree d) q of
        Some _ \<Rightarrow> Inl (Errorf ''not a directory'')
      | None \<Rightarrow> Inr (commit (gm_put q (new_inode Directory pm) (tree d)) d))"

definition os_MkdirAll :: "string \<Rightarrow> nat \<Rightarrow> disk \<Rightarrow> unit result \<times> disk" where
  "os_MkdirAll p pm d =
     (case faults d OpMkdir p of Some e \<Rightarrow> (Inl e, d)
      | None \<Rightarrow> (case fold_try (mkdir_one pm) (path_prefixes p) d of
           Inl e \<Rightarrow> (Inl e, d) | Inr d' \<Rightarrow> (Inr (), d')))"

text \<open>\<^verbatim>\<open>os.MkdirTemp(dir, pattern)\<close>; \<open>rnd\<close> is the random text the runtime appends to the pattern.\<close>

definition os_MkdirTemp :: "string \<Rightarrow> string \<Rightarrow> string \<Rightarrow> disk \<Rightarrow> string result \<times> disk" where
  "os_MkdirTemp dir pattern rnd d =
     (let p = dir @ ''/'' @ pattern @ rnd in
      case faults d OpMkdirTemp dir of Some e \<Rightarrow> (Inl e, d)
      | None \<Rightarrow>
          if \<not> is_dir (tree d) dir then (Inl ErrNotExist, d)
          else if gm_get (tree d) p \<noteq> None then (Inl ErrExist, d)
          else (Inr p, commit (gm_put p (new_inode Directory 448) (tree d)) d))"

section \<open>Removing, renaming, ownership\<close>

definition os_Remove :: "string \<Rightarrow> disk \<Rightarrow> unit result \<times> disk" where
  "os_Remove p d =
     (case faults d OpRemove p of Some e \<Rightarrow> (Inl e, d)
      | None \<Rightarrow>
         (case gm_get (tree d) p of None \<Rightarrow> (Inl ErrNotExist, d)
          | Some i \<Rightarrow>
              if kind i = Directory \<and> (\<exists>q \<in> set (gm_keys (tree d)). q \<noteq> p \<and> under p q)
              then (Inl (Errorf ''directory not empty''), d)
              else (Inr (), commit (gm_del p (tree d)) d)))"

definition os_RemoveAll :: "string \<Rightarrow> disk \<Rightarrow> unit result \<times> disk" where
  "os_RemoveAll p d =
     (case faults d OpRemove p of Some e \<Rightarrow> (Inl e, d)
      | None \<Rightarrow> (Inr (), commit (filter (\<lambda>e. \<not> under p (fst e)) (tree d)) d))"

text \<open>\<^verbatim>\<open>os.Rename\<close> of a file: the target, if it is a file, is replaced in one step.\<close>

definition os_Rename :: "string \<Rightarrow> string \<Rightarrow> disk \<Rightarrow> unit result \<times> disk" where
  "os_Rename old new d =
     (case faults d OpRename new of Some e \<Rightarrow> (Inl e, d)
      | None \<Rightarrow>
         (case gm_get (tree d) old of None \<Rightarrow> (Inl ErrNotExist, d)
          | Some i \<Rightarrow>
              if \<not> is_dir (tree d) (filepath_Dir new) then (Inl ErrNotExist, d)
              else if kind i = Directory then (Inl (Errorf ''rename of a directory''), d)
              else if (case gm_get (tree d) new of Some j \<Rightarrow> kind j = Directory | None \<Rightarrow> False)
              then (Inl ErrExist, d)
              else (Inr (), commit (gm_put new i (gm_del old (tree d))) d)))"

definition os_Symlink :: "string \<Rightarrow> string \<Rightarrow> disk \<Rightarrow> unit result \<times> disk" where
  "os_Symlink target p d =
     (case faults d OpSymlink p of Some e \<Rightarrow> (Inl e, d)
      | None \<Rightarrow>
          if gm_get (tree d) p \<noteq> None then (Inl ErrExist, d)
          else if \<not> is_dir (tree d) (filepath_Dir p) then (Inl ErrNotExist, d)
          else (Inr (), commit (gm_put p (new_inode (Symlink target) 511) (tree d)) d))"

definition os_Chmod :: "string \<Rightarrow> nat \<Rightarrow> disk \<Rightarrow> unit result \<times> disk" where
  "os_Chmod p pm d =
     (case faults d OpChmod p of Some e \<Rightarrow> (Inl e, d)
      | None \<Rightarrow>
         (case follow 40 (tree d) p of Inl e \<Rightarrow> (Inl e, d)
          | Inr q \<Rightarrow>
             (case gm_get (tree d) q of None \<Rightarrow> (Inl ErrNotExist, d)
              | Some i \<Rightarrow> (Inr (), commit (gm_put q (i\<lparr>perm := pm\<rparr>) (tree d)) d))))"

definition os_Chown :: "string \<Rightarrow> int \<Rightarrow> int \<Rightarrow> disk \<Rightarrow> unit result \<times> disk" where
  "os_Chown p u g d =
     (case faults d OpChown p of Some e \<Rightarrow> (Inl e, d)
      | None \<Rightarrow>
         (case follow 40 (tree d) p of Inl e \<Rightarrow> (Inl e, d)
          | Inr q \<Rightarrow>
             (case gm_get (tree d) q of None \<Rightarrow> (Inl ErrNotExist, d)
              | Some i \<Rightarrow> (Inr (), commit (gm_put q (i\<lparr>owner := (u, g)\<rparr>) (tree d)) d))))"

section \<open>Frames\<close>

text \<open>
  \<open>touches A d d'\<close>: from \<open>d\<close> to \<open>d'\<close>, no tree an observer could see differs from the tree of \<open>d\<close> at a
  path outside \<open>A\<close>, and the environment is the same.
\<close>

definition agree_off :: "(string \<Rightarrow> bool) \<Rightarrow> tree \<Rightarrow> tree \<Rightarrow> bool" where
  "agree_off A t t' \<longleftrightarrow> (\<forall>q. \<not> A q \<longrightarrow> gm_get t' q = gm_get t q)"

definition touches :: "(string \<Rightarrow> bool) \<Rightarrow> disk \<Rightarrow> disk \<Rightarrow> bool" where
  "touches A d d' \<longleftrightarrow>
     (\<exists>ts. hist d' = hist d @ ts \<and> (\<forall>t \<in> set ts. agree_off A (tree d) t)) \<and>
     agree_off A (tree d) (tree d') \<and> faults d' = faults d"

lemma agree_off_refl [simp]: "agree_off A t t"
  by (simp add: agree_off_def)

lemma agree_off_trans: "agree_off A t u \<Longrightarrow> agree_off A u v \<Longrightarrow> agree_off A t v"
  by (simp add: agree_off_def)

lemma agree_off_mono: "agree_off A t u \<Longrightarrow> (\<And>q. A q \<Longrightarrow> B q) \<Longrightarrow> agree_off B t u"
  by (auto simp: agree_off_def)

lemma agree_off_put [simp]: "A p \<Longrightarrow> agree_off A t (gm_put p i t)"
  by (auto simp: agree_off_def)

lemma agree_off_del [simp]: "A p \<Longrightarrow> agree_off A t (gm_del p t)"
  by (auto simp: agree_off_def)

lemma touches_refl [simp]: "touches A d d"
  by (simp add: touches_def)

lemma touches_trans:
  assumes "touches A d d'" and "touches A d' d''"
  shows "touches A d d''"
proof -
  from assms(1) obtain ts where ts: "hist d' = hist d @ ts" "\<forall>t \<in> set ts. agree_off A (tree d) t"
    and d': "agree_off A (tree d) (tree d')" "faults d' = faults d"
    by (auto simp: touches_def)
  from assms(2) obtain us where us: "hist d'' = hist d' @ us" "\<forall>t \<in> set us. agree_off A (tree d') t"
    and d'': "agree_off A (tree d') (tree d'')" "faults d'' = faults d'"
    by (auto simp: touches_def)
  have "hist d'' = hist d @ (ts @ us)" using ts us by simp
  moreover have "\<forall>t \<in> set (ts @ us). agree_off A (tree d) t"
    using ts(2) us(2) d'(1) agree_off_trans by auto
  ultimately show ?thesis
    using d' d'' agree_off_trans by (auto simp: touches_def)
qed

lemma touches_mono: "touches A d d' \<Longrightarrow> (\<And>q. A q \<Longrightarrow> B q) \<Longrightarrow> touches B d d'"
  by (force simp: touches_def intro: agree_off_mono)

lemma touches_get: "touches A d d' \<Longrightarrow> \<not> A q \<Longrightarrow> gm_get (tree d') q = gm_get (tree d) q"
  by (simp add: touches_def agree_off_def)

lemma touches_faults: "touches A d d' \<Longrightarrow> faults d' = faults d"
  by (simp add: touches_def)

lemma touches_hist:
  "touches A d d' \<Longrightarrow> \<not> A q \<Longrightarrow> t \<in> set (drop (length (hist d)) (hist d')) \<Longrightarrow>
     gm_get t q = gm_get (tree d) q"
  by (auto simp: touches_def agree_off_def)

lemma tree_commit [simp]: "tree (commit t d) = t"
  by (simp add: commit_def)

lemma hist_commit [simp]: "hist (commit t d) = hist d @ [t]"
  by (simp add: commit_def)

lemma faults_commit [simp]: "faults (commit t d) = faults d"
  by (simp add: commit_def)

lemma touches_commit: "agree_off A (tree d) t \<Longrightarrow> touches A d (commit t d)"
  by (simp add: touches_def)

lemma tree_commits [simp]: "tree (commits ts d) = (if ts = [] then tree d else last ts)"
  unfolding commits_def by (induction ts arbitrary: d) auto

lemma hist_commits [simp]: "hist (commits ts d) = hist d @ ts"
  unfolding commits_def by (induction ts arbitrary: d) auto

lemma faults_commits [simp]: "faults (commits ts d) = faults d"
  unfolding commits_def by (induction ts arbitrary: d) auto

lemma touches_commits:
  "\<forall>t \<in> set ts. agree_off A (tree d) t \<Longrightarrow> touches A d (commits ts d)"
  by (auto simp: touches_def)

lemma write_steps_nonempty [simp]: "write_steps t p i c \<noteq> []"
  by (simp add: write_steps_def)

lemma last_write_steps [simp]: "last (write_steps t p i c) = gm_put p (i\<lparr>kind := Regular c\<rparr>) t"
  by (simp add: write_steps_def last_map)

lemma write_steps_agree: "A p \<Longrightarrow> \<forall>u \<in> set (write_steps t p i c). agree_off A t u"
  by (auto simp: write_steps_def)

section \<open>What each operation changes\<close>

lemma os_WriteFile_touches [disk_frame]:
  assumes "os_WriteFile p c pm d = (r, d')" and "follow 40 (tree d) p = Inr q" and "A q"
  shows "touches A d d'"
  using assms
  by (auto simp: os_WriteFile_def split: option.splits sum.splits if_splits kind.splits
      intro!: touches_commit touches_commits write_steps_agree)

lemma os_WriteFile_get:
  assumes "os_WriteFile p c pm d = (Inr (), d')" and "follow 40 (tree d) p = Inr q"
  shows "\<exists>i. gm_get (tree d') q = Some i \<and> kind i = Regular c \<and>
             (gm_get (tree d) q = None \<longrightarrow> i = new_inode (Regular c) pm)"
  using assms
  by (auto simp: os_WriteFile_def new_inode_def split: option.splits sum.splits if_splits kind.splits)

lemma follow_absent: "gm_get t p = None \<Longrightarrow> 0 < n \<Longrightarrow> follow n t p = Inr p"
  by (cases n) simp_all

lemma follow_plain:
  "gm_get t p = Some i \<Longrightarrow> (\<And>q. kind i \<noteq> Symlink q) \<Longrightarrow> 0 < n \<Longrightarrow> follow n t p = Inr p"
  by (cases n) (simp_all split: kind.splits)

lemma follow_40_absent [simp]: "gm_get t p = None \<Longrightarrow> follow 40 t p = Inr p"
  by (rule follow_absent) simp_all

lemma follow_40_plain:
  "gm_get t p = Some i \<Longrightarrow> (\<And>q. kind i \<noteq> Symlink q) \<Longrightarrow> follow 40 t p = Inr p"
  by (rule follow_plain) simp_all

lemma lookup_plain:
  "gm_get t p = Some i \<Longrightarrow> (\<And>q. kind i \<noteq> Symlink q) \<Longrightarrow> lookup t p = Inr i"
  by (simp add: lookup_def follow_40_plain)

lemma lookup_absent: "gm_get t p = None \<Longrightarrow> lookup t p = Inl ErrNotExist"
  by (simp add: lookup_def)

lemma os_MkdirTemp_touches [disk_frame]:
  assumes "os_MkdirTemp dir pattern rnd d = (r, d')"
  shows "touches (\<lambda>q. q = dir @ ''/'' @ pattern @ rnd) d d'"
  using assms
  by (auto simp: os_MkdirTemp_def Let_def split: option.splits if_splits intro!: touches_commit)

lemma os_MkdirTemp_get:
  assumes "os_MkdirTemp dir pattern rnd d = (Inr p, d')"
  shows "p = dir @ ''/'' @ pattern @ rnd" and "gm_get (tree d) p = None"
    and "tree d' = gm_put p (new_inode Directory 448) (tree d)"
  using assms by (auto simp: os_MkdirTemp_def Let_def split: option.splits if_splits)

lemma os_Remove_touches [disk_frame]:
  "os_Remove p d = (r, d') \<Longrightarrow> A p \<Longrightarrow> touches A d d'"
  by (auto simp: os_Remove_def split: option.splits if_splits intro!: touches_commit)

lemma os_Remove_get:
  assumes "os_Remove p d = (r, d')" and "r = Inr () \<or> r = Inl ErrNotExist \<and> faults d OpRemove p = None"
  shows "gm_get (tree d') p = None"
  using assms by (auto simp: os_Remove_def split: option.splits if_splits)

lemma os_RemoveAll_touches [disk_frame]:
  "os_RemoveAll p d = (r, d') \<Longrightarrow> (\<And>q. under p q \<Longrightarrow> A q) \<Longrightarrow> touches A d d'"
  by (auto simp: os_RemoveAll_def agree_off_def gm_get_filter [of "\<lambda>q. \<not> under p q"]
      split: option.splits intro!: touches_commit)

lemma os_RemoveAll_get:
  "os_RemoveAll p d = (Inr (), d') \<Longrightarrow> under p q \<Longrightarrow> gm_get (tree d') q = None"
  by (auto simp: os_RemoveAll_def gm_get_filter [of "\<lambda>q. \<not> under p q"] split: option.splits)

lemma under_refl [simp]: "under p p"
  by (simp add: under_def)

lemma os_Rename_touches [disk_frame]:
  "os_Rename old new d = (r, d') \<Longrightarrow> A old \<Longrightarrow> A new \<Longrightarrow> touches A d d'"
  by (auto simp: os_Rename_def agree_off_def split: option.splits if_splits intro!: touches_commit)

text \<open>A rename has exactly one intermediate tree, the final one.\<close>

lemma os_Rename_get:
  assumes "os_Rename old new d = (Inr (), d')"
  obtains i where "gm_get (tree d) old = Some i" and "gm_get (tree d') new = Some i"
    and "hist d' = hist d @ [tree d']"
  using assms by (auto simp: os_Rename_def split: option.splits if_splits)

lemma os_Rename_fail: "os_Rename old new d = (Inl e, d') \<Longrightarrow> d' = d"
  by (auto simp: os_Rename_def split: option.splits if_splits)

lemma os_OpenExcl_touches [disk_frame]:
  "os_OpenExcl p pm d = (r, d') \<Longrightarrow> A p \<Longrightarrow> touches A d d'"
  by (auto simp: os_OpenExcl_def split: option.splits if_splits intro!: touches_commit)

lemma os_OpenExcl_ok:
  assumes "os_OpenExcl p pm d = (Inr (), d')"
  shows "gm_get (tree d) p = None" and "gm_get (tree d') p = Some (new_inode (Regular '''') pm)"
  using assms by (auto simp: os_OpenExcl_def split: option.splits if_splits)

lemma os_OpenExcl_fail: "os_OpenExcl p pm d = (Inl e, d') \<Longrightarrow> d' = d"
  by (auto simp: os_OpenExcl_def split: option.splits if_splits)

lemma file_Write_touches [disk_frame]:
  "file_Write p c d = (r, d') \<Longrightarrow> A p \<Longrightarrow> touches A d d'"
  by (auto simp: file_Write_def split: option.splits intro!: touches_commits write_steps_agree)

lemma file_Write_get:
  "file_Write p c d = (Inr (), d') \<Longrightarrow> gm_get (tree d) p = Some i \<Longrightarrow>
     gm_get (tree d') p = Some (i\<lparr>kind := Regular c\<rparr>)"
  by (auto simp: file_Write_def split: option.splits)

lemma mkdir_one_touches:
  "mkdir_one pm q d = Inr d' \<Longrightarrow> A q \<Longrightarrow> touches A d d'"
  by (auto simp: mkdir_one_def split: if_splits option.splits intro!: touches_commit)

lemma os_MkdirAll_touches [disk_frame]:
  assumes "os_MkdirAll p pm d = (r, d')" and "\<And>q. q \<in> set (path_prefixes p) \<Longrightarrow> A q"
  shows "touches A d d'"
proof -
  have "touches A d u" if "fold_try (mkdir_one pm) (path_prefixes p) d = Inr u" for u
    using that
  proof (rule fold_try_invariant)
    fix q s t
    assume "q \<in> set (path_prefixes p)" "touches A d s" "mkdir_one pm q s = Inr t"
    then show "touches A d t" using assms(2) mkdir_one_touches touches_trans by blast
  qed simp
  with assms(1) show ?thesis
    by (auto simp: os_MkdirAll_def split: option.splits sum.splits)
qed

text \<open>Making directories never changes an existing entry.\<close>

lemma mkdir_one_keeps:
  "mkdir_one pm q d = Inr d' \<Longrightarrow> gm_get (tree d) p = Some i \<Longrightarrow> gm_get (tree d') p = Some i"
  by (auto simp: mkdir_one_def split: if_splits option.splits)

lemma os_MkdirAll_keeps:
  assumes "os_MkdirAll q pm d = (r, d')" and "gm_get (tree d) p = Some i"
  shows "gm_get (tree d') p = Some i"
proof -
  have "gm_get (tree u) p = Some i" if "fold_try (mkdir_one pm) (path_prefixes q) d = Inr u" for u
    using that assms(2)
    by (rule fold_try_invariant) (blast intro: mkdir_one_keeps)
  with assms show ?thesis by (auto simp: os_MkdirAll_def split: option.splits sum.splits)
qed

lemma os_Chown_touches [disk_frame]:
  "os_Chown p u g d = (r, d') \<Longrightarrow> follow 40 (tree d) p = Inr q \<Longrightarrow> A q \<Longrightarrow> touches A d d'"
  by (auto simp: os_Chown_def split: option.splits sum.splits intro!: touches_commit)

lemma os_Symlink_touches [disk_frame]:
  "os_Symlink tgt p d = (r, d') \<Longrightarrow> A p \<Longrightarrow> touches A d d'"
  by (auto simp: os_Symlink_def split: option.splits if_splits intro!: touches_commit)

lemma os_Stat_ok_iff:
  "os_Stat d p = Inr i \<longleftrightarrow> faults d OpStat p = None \<and> lookup (tree d) p = Inr i"
  by (auto simp: os_Stat_def split: option.splits)

text \<open>An empty disk on which no operation fails.\<close>

definition empty_disk :: disk where
  "empty_disk = \<lparr>tree = [], hist = [], faults = (\<lambda>_ _. None)\<rparr>"

text \<open>Every tree between two disks shows a path as one of the given entries.\<close>

definition sees :: "string \<Rightarrow> inode option set \<Rightarrow> disk \<Rightarrow> disk \<Rightarrow> bool" where
  "sees p V d d' \<longleftrightarrow> (\<exists>ts. hist d' = hist d @ ts \<and> (\<forall>t \<in> set ts. gm_get t p \<in> V))"

lemma sees_refl [simp]: "sees p V d d"
  by (simp add: sees_def)

lemma sees_trans:
  assumes "sees p V d d'" and "sees p V d' d''"
  shows "sees p V d d''"
proof -
  from assms obtain ts us where "hist d' = hist d @ ts" "\<forall>t \<in> set ts. gm_get t p \<in> V"
      "hist d'' = hist d' @ us" "\<forall>t \<in> set us. gm_get t p \<in> V" by (auto simp: sees_def)
  then show ?thesis unfolding sees_def by (intro exI [of _ "ts @ us"]) auto
qed

lemma touches_sees: "touches A d d' \<Longrightarrow> \<not> A p \<Longrightarrow> gm_get (tree d) p \<in> V \<Longrightarrow> sees p V d d'"
  by (auto simp: touches_def sees_def agree_off_def)

lemma sees_hist: "sees p V d d' \<Longrightarrow> t \<in> set (drop (length (hist d)) (hist d')) \<Longrightarrow> gm_get t p \<in> V"
  by (auto simp: sees_def)

section \<open>Trees without symbolic links\<close>

definition no_links :: "tree \<Rightarrow> bool" where
  "no_links t \<longleftrightarrow> list_all (\<lambda>(p, i). case kind i of Symlink q \<Rightarrow> False | _ \<Rightarrow> True) t"

lemma no_links_get: "no_links t \<Longrightarrow> gm_get t p = Some i \<Longrightarrow> kind i \<noteq> Symlink q"
  by (auto simp: no_links_def gm_get_def list_all_iff dest!: map_of_SomeD split: kind.splits)

lemma no_links_get_False: "no_links t \<Longrightarrow> gm_get t p = Some i \<Longrightarrow> kind i = Symlink q \<Longrightarrow> False"
  using no_links_get by blast

lemma no_links_follow: "no_links t \<Longrightarrow> follow 40 t p = Inr p"
  using no_links_get follow_40_absent follow_40_plain by (metis option.exhaust)

lemma no_links_put [simp]:
  "no_links t \<Longrightarrow> (\<And>q. kind i \<noteq> Symlink q) \<Longrightarrow> no_links (gm_put p i t)"
  by (cases "kind i") (auto simp: no_links_def gm_put_def gm_del_def list_all_iff)

lemma no_links_filter [simp]: "no_links t \<Longrightarrow> no_links (filter P t)"
  by (auto simp: no_links_def list_all_iff)

lemma no_links_del [simp]: "no_links t \<Longrightarrow> no_links (gm_del p t)"
  by (simp add: gm_del_def)

lemma new_inode_kind [simp]: "kind (new_inode k pm) = k"
  by (simp add: new_inode_def)

lemma write_steps_no_links:
  "no_links t \<Longrightarrow> no_links (last (write_steps t p i c))"
  by simp

lemma os_WriteFile_no_links:
  "os_WriteFile p c pm d = (r, d') \<Longrightarrow> no_links (tree d) \<Longrightarrow> no_links (tree d')"
  by (auto simp: os_WriteFile_def split: option.splits sum.splits if_splits kind.splits)

lemma mkdir_one_no_links: "mkdir_one pm q d = Inr d' \<Longrightarrow> no_links (tree d) \<Longrightarrow> no_links (tree d')"
  by (auto simp: mkdir_one_def split: if_splits option.splits)

lemma os_MkdirAll_no_links:
  assumes "os_MkdirAll q pm d = (r, d')" and "no_links (tree d)"
  shows "no_links (tree d')"
proof -
  have "no_links (tree u)" if "fold_try (mkdir_one pm) (path_prefixes q) d = Inr u" for u
    using that assms(2) by (rule fold_try_invariant) (blast intro: mkdir_one_no_links)
  with assms show ?thesis by (auto simp: os_MkdirAll_def split: option.splits sum.splits)
qed

lemma os_Remove_no_links: "os_Remove q d = (r, d') \<Longrightarrow> no_links (tree d) \<Longrightarrow> no_links (tree d')"
  by (auto simp: os_Remove_def split: option.splits if_splits)

text \<open>On a tree without links, an operation that keeps an existing entry as it is.\<close>

definition steady :: "string \<Rightarrow> disk \<Rightarrow> disk \<Rightarrow> bool" where
  "steady p d d' \<longleftrightarrow> faults d' = faults d \<and>
     (no_links (tree d) \<longrightarrow> no_links (tree d') \<and>
        (\<forall>i. gm_get (tree d) p = Some i \<longrightarrow> gm_get (tree d') p = Some i))"

lemma steady_refl [simp]: "steady p d d"
  by (simp add: steady_def)

lemma steady_trans: "steady p d d' \<Longrightarrow> steady p d' d'' \<Longrightarrow> steady p d d''"
  by (simp add: steady_def)

lemma os_MkdirAll_steady: "os_MkdirAll q pm d = (r, d') \<Longrightarrow> steady p d d'"
  unfolding steady_def
  using os_MkdirAll_touches [of q pm d r d' "\<lambda>_. True", THEN touches_faults] os_MkdirAll_keeps os_MkdirAll_no_links
  by blast

lemma os_WriteFile_steady: "os_WriteFile q c pm d = (r, d') \<Longrightarrow> q \<noteq> p \<Longrightarrow> steady p d d'"
proof -
  assume w: "os_WriteFile q c pm d = (r, d')" and q: "q \<noteq> p"
  have "faults d' = faults d" using w
    by (auto simp: os_WriteFile_def split: option.splits sum.splits if_splits kind.splits)
  moreover have "gm_get (tree d') p = gm_get (tree d) p" if "no_links (tree d)"
    by (rule touches_get [OF os_WriteFile_touches [OF w no_links_follow [OF that], of "\<lambda>x. x = q"]]) (use q in simp_all)
  ultimately show ?thesis using os_WriteFile_no_links [OF w] by (simp add: steady_def)
qed

lemma os_Remove_steady: "os_Remove q d = (r, d') \<Longrightarrow> q \<noteq> p \<Longrightarrow> steady p d d'"
  unfolding steady_def
  using os_Remove_touches [of q d r d' "\<lambda>x. x = q"] touches_get [of "\<lambda>x. x = q" d d' p]
    touches_faults [of "\<lambda>x. x = q" d d'] os_Remove_no_links [of q d r d']
  by simp

text \<open>A plain entry is found by \<^verbatim>\<open>os.Stat\<close>.\<close>

lemma plain_stat:
  assumes "no_links (tree d)" and "gm_get (tree d) p = Some i" and "faults d OpStat p = None"
  shows "os_Stat d p = Inr i"
  using assms lookup_plain [OF assms(2) no_links_get [OF assms(1,2)]] by (simp add: os_Stat_def)

end
