(* ===== verification/Images.thy ===== *)
theory Images
  imports Go_Disk
begin

text \<open>
  \<^verbatim>\<open>pkg/images/images.go\<close>: the resolver that turns the name of an RKE2 image into a reference, and the
  pre-pull files. The package \<^verbatim>\<open>name\<close> of go-containerregistry is a parameter (\<open>name_pkg\<close>): its parsers and
  printers are the fields of a record that every definition which uses them takes as an argument. The
  variables that the build overrides are the fields of \<open>build_vars\<close>.
\<close>

section \<open>References and the package that parses them\<close>

datatype registry = Registry string

record ref_data =
  ref_registry :: registry
  ref_repository :: string
  ref_identifier :: string

datatype reference = TagRef ref_data | DigestRef ref_data | OtherRef ref_data

fun ref_context :: "reference \<Rightarrow> ref_data" where
  "ref_context (TagRef r) = r"
| "ref_context (DigestRef r) = r"
| "ref_context (OtherRef r) = r"

record name_pkg =
  NewRegistry :: "string \<Rightarrow> registry result"
  RegistryName :: "registry \<Rightarrow> string"
  RegistryStr :: "registry \<Rightarrow> string"
  ParseReference :: "string \<Rightarrow> reference result"
  RefName :: "reference \<Rightarrow> string"
  RefString :: "reference \<Rightarrow> string"

record build_vars =
  DefaultRegistry :: string
  PrimeRegistry :: string
  DefaultEtcdImage :: string
  DefaultKubernetesImage :: string
  DefaultPauseImage :: string
  DefaultRuntimeImage :: string
  DefaultCloudControllerManagerImage :: string

section \<open>Image names\<close>

definition Img_Runtime :: string where "Img_Runtime = ''runtime-image''"
definition Img_KubeAPIServer :: string where "Img_KubeAPIServer = ''kube-apiserver-image''"
definition Img_KubeControllerManager :: string where
  "Img_KubeControllerManager = ''kube-controller-manager-image''"
definition Img_KubeProxy :: string where "Img_KubeProxy = ''kube-proxy-image''"
definition Img_KubeScheduler :: string where "Img_KubeScheduler = ''kube-scheduler-image''"
definition Img_ETCD :: string where "Img_ETCD = ''etcd-image''"
definition Img_Pause :: string where "Img_Pause = ''pause-image''"
definition Img_CloudControllerManager :: string where
  "Img_CloudControllerManager = ''cloud-controller-manager-image''"

lemmas image_names = Img_Runtime_def Img_KubeAPIServer_def Img_KubeControllerManager_def
  Img_KubeProxy_def Img_KubeScheduler_def Img_ETCD_def Img_Pause_def Img_CloudControllerManager_def

section \<open>The resolver\<close>

record resolver =
  res_registry :: registry
  repoPath :: string
  overrides :: "(string, reference) gomap"

record ImageOverrideConfig =
  oc_SystemDefaultRegistry :: string
  oc_KubeAPIServer :: string
  oc_KubeControllerManager :: string
  oc_KubeProxy :: string
  oc_KubeScheduler :: string
  oc_Pause :: string
  oc_Runtime :: string
  oc_ETCD :: string
  oc_CloudControllerManager :: string

type_synonym resolver_opt = "reference \<Rightarrow> reference result"

definition splitRegistryAndPath :: "string \<Rightarrow> string \<times> string" where
  "splitRegistryAndPath s =
     (case str_Cut slash s of (before, after, found) \<Rightarrow>
        if found then (before, str_TrimSuffix after ''/'')
        else (str_TrimSuffix s ''/'', ''''))"

definition ParseAndSetDefaultRegistry :: "name_pkg \<Rightarrow> string \<Rightarrow> resolver \<Rightarrow> resolver result" where
  "ParseAndSetDefaultRegistry pkg s r =
     (case splitRegistryAndPath s of (host, path) \<Rightarrow>
        try_then (NewRegistry pkg host) (\<lambda>reg. Inr (r\<lparr>res_registry := reg, repoPath := path\<rparr>)))"

definition ParseAndSetOverride :: "name_pkg \<Rightarrow> string \<Rightarrow> string \<Rightarrow> resolver \<Rightarrow> resolver result" where
  "ParseAndSetOverride pkg i n r =
     (let n = str_TrimSpace n in
      if n = '''' then Inr r
      else try_then (ParseReference pkg n)
             (\<lambda>ref. Inr (r\<lparr>overrides := gm_put i ref (overrides r)\<rparr>)))"

definition SetOverride :: "string \<Rightarrow> reference option \<Rightarrow> resolver \<Rightarrow> resolver" where
  "SetOverride i n r =
     (case n of None \<Rightarrow> r\<lparr>overrides := gm_del i (overrides r)\<rparr>
      | Some ref \<Rightarrow> r\<lparr>overrides := gm_put i ref (overrides r)\<rparr>)"

definition override_list :: "ImageOverrideConfig \<Rightarrow> (string \<times> string) list" where
  "override_list c =
     [(Img_ETCD, oc_ETCD c), (Img_KubeAPIServer, oc_KubeAPIServer c),
      (Img_KubeControllerManager, oc_KubeControllerManager c), (Img_KubeProxy, oc_KubeProxy c),
      (Img_KubeScheduler, oc_KubeScheduler c), (Img_Pause, oc_Pause c), (Img_Runtime, oc_Runtime c),
      (Img_CloudControllerManager, oc_CloudControllerManager c)]"

definition NewResolver :: "name_pkg \<Rightarrow> build_vars \<Rightarrow> ImageOverrideConfig \<Rightarrow> resolver result" where
  "NewResolver pkg bv c =
     try_then (NewRegistry pkg (DefaultRegistry bv)) (\<lambda>registry.
     try_then (fold_try (\<lambda>(i, n) r. with_message (''failed to parse '' @ i) (ParseAndSetOverride pkg i n r))
                (override_list c) \<lparr>res_registry = registry, repoPath = '''', overrides = []\<rparr>) (\<lambda>r.
     if oc_SystemDefaultRegistry c \<noteq> '''' then
       with_message ''failed to parse system-default-registry''
         (ParseAndSetDefaultRegistry pkg (oc_SystemDefaultRegistry c) r)
     else Inr r))"

definition getDefaultImage :: "name_pkg \<Rightarrow> build_vars \<Rightarrow> string \<Rightarrow> reference result" where
  "getDefaultImage pkg bv i =
     (if i = Img_ETCD then ParseReference pkg (DefaultEtcdImage bv)
      else if i = Img_Runtime then ParseReference pkg (DefaultRuntimeImage bv)
      else if i = Img_Pause then ParseReference pkg (DefaultPauseImage bv)
      else if i = Img_CloudControllerManager then
        ParseReference pkg (DefaultCloudControllerManagerImage bv)
      else if i \<in> {Img_KubeAPIServer, Img_KubeControllerManager, Img_KubeProxy, Img_KubeScheduler} then
        ParseReference pkg (DefaultKubernetesImage bv)
      else Inl (Errorf (''unknown image '' @ i)))"

definition setRegistry :: "name_pkg \<Rightarrow> reference \<Rightarrow> string \<Rightarrow> reference result" where
  "setRegistry pkg ref reg =
     (case splitRegistryAndPath reg of (host, path) \<Rightarrow>
      (case NewRegistry pkg host of
         Inl e \<Rightarrow> Inl (Errorf (''unable to parse registry from `'' @ reg @ ''`''))
       | Inr registry \<Rightarrow>
           if path \<noteq> '''' then
             let refMinusRegistry =
                   str_TrimPrefix
                     (str_TrimPrefix (RefName pkg ref) (RegistryStr pkg (ref_registry (ref_context ref))))
                     ''/''
             in ParseReference pkg (RegistryName pkg registry @ ''/'' @ path @ ''/'' @ refMinusRegistry)
           else (case ref of
               TagRef t \<Rightarrow> Inr (TagRef (t\<lparr>ref_registry := registry\<rparr>))
             | DigestRef d \<Rightarrow> Inr (DigestRef (d\<lparr>ref_registry := registry\<rparr>))
             | OtherRef _ \<Rightarrow> Inl (Errorf ''unhandled Reference type''))))"

definition WithRegistry :: "name_pkg \<Rightarrow> string \<Rightarrow> resolver_opt" where
  "WithRegistry pkg registry r = setRegistry pkg r registry"

definition GetReference ::
  "name_pkg \<Rightarrow> build_vars \<Rightarrow> resolver \<Rightarrow> string \<Rightarrow> resolver_opt list \<Rightarrow> reference result" where
  "GetReference pkg bv r i opts =
     try_then
       (case gm_get (overrides r) i of
          Some ref \<Rightarrow> Inr ref
        | None \<Rightarrow>
            try_then (getDefaultImage pkg bv i) (\<lambda>d.
            let reg = RegistryName pkg (res_registry r) in
            let reg = (if repoPath r \<noteq> '''' then reg @ ''/'' @ repoPath r else reg) in
            setRegistry pkg d reg))
       (fold_try (\<lambda>opt ref. opt ref) opts)"

definition MustGetReference ::
  "name_pkg \<Rightarrow> build_vars \<Rightarrow> resolver \<Rightarrow> string \<Rightarrow> resolver_opt list \<Rightarrow> reference outcome" where
  "MustGetReference pkg bv r i opts =
     (case GetReference pkg bv r i opts of
        Inl e \<Rightarrow> Inl (Fatal (''Failed to get image reference for '' @ i))
      | Inr ref \<Rightarrow> Inr ref)"

section \<open>Pre-pull files\<close>

definition checkPreloadedImages :: "disk \<Rightarrow> string \<Rightarrow> bool result" where
  "checkPreloadedImages d dir =
     (case os_Stat d dir of
        Inl e \<Rightarrow> if os_IsNotExist e then Inr False else Inl e
      | Inr _ \<Rightarrow>
         (case os_ReadDir d dir of
            Inl e \<Rightarrow> Inr False
          | Inr infos \<Rightarrow>
              Inr (list_ex (\<lambda>(name, i). kind i \<noteq> Directory \<and>
                     \<not> str_HasSuffix name ''.txt'' \<and> \<not> str_HasSuffix name ''.json'') infos)))"

definition Pull :: "name_pkg \<Rightarrow> string \<Rightarrow> string \<Rightarrow> reference \<Rightarrow> disk \<Rightarrow> unit result \<times> disk" where
  "Pull pkg dir name img d =
     (if dir = '''' then (Inr (), d)
      else case checkPreloadedImages d dir of
        Inl e \<Rightarrow> (Inl e, d)
      | Inr True \<Rightarrow> (Inr (), d)
      | Inr False \<Rightarrow>
         (case os_MkdirAll dir 493 d of
            (Inl e, d') \<Rightarrow> (Inl e, d')
          | (Inr _, d') \<Rightarrow>
              os_WriteFile (filepath_Join [dir, name @ ''.txt'']) (RefName pkg img @ ''\<newline>'') 420 d'))"

section \<open>Registry and path\<close>

lemma splitRegistryAndPath_host: "slash \<notin> set (fst (splitRegistryAndPath s))"
proof -
  obtain b a f where c: "str_Cut slash s = (b, a, f)" by (cases "str_Cut slash s")
  have "slash \<notin> set b \<and> (if f then s = b @ slash # a else s = b \<and> a = [])"
    using str_Cut_spec [OF c] .
  then show ?thesis
    by (auto simp: splitRegistryAndPath_def c str_TrimSuffix_def dest: in_set_takeD)
qed

lemma splitRegistryAndPath_plain:
  "slash \<notin> set s \<Longrightarrow> splitRegistryAndPath s = (s, '''')"
  by (auto simp: splitRegistryAndPath_def str_Cut_no_sep str_TrimSuffix_def str_HasSuffix_iff)

lemma splitRegistryAndPath_sep:
  "slash \<notin> set h \<Longrightarrow> splitRegistryAndPath (h @ slash # p) = (h, str_TrimSuffix p ''/'')"
  by (simp add: splitRegistryAndPath_def)

section \<open>Overrides\<close>

text \<open>The reference an override text stands for, if it is not blank.\<close>

definition override_ref :: "name_pkg \<Rightarrow> string \<Rightarrow> reference option" where
  "override_ref pkg n =
     (if str_TrimSpace n = '''' then None
      else case ParseReference pkg (str_TrimSpace n) of Inl _ \<Rightarrow> None | Inr ref \<Rightarrow> Some ref)"

definition override_ok :: "name_pkg \<Rightarrow> string \<Rightarrow> bool" where
  "override_ok pkg n \<longleftrightarrow>
     str_TrimSpace n = '''' \<or> (\<exists>ref. ParseReference pkg (str_TrimSpace n) = Inr ref)"

definition set_override_step :: "name_pkg \<Rightarrow> string \<times> string \<Rightarrow> resolver \<Rightarrow> resolver result" where
  "set_override_step pkg = (\<lambda>(i, n) r.
     with_message (''failed to parse '' @ i) (ParseAndSetOverride pkg i n r))"

lemma ParseAndSetOverride_ok_iff:
  "ParseAndSetOverride pkg i n r = Inr r' \<longleftrightarrow>
     override_ok pkg n \<and>
     r' = (case override_ref pkg n of None \<Rightarrow> r | Some ref \<Rightarrow> r\<lparr>overrides := gm_put i ref (overrides r)\<rparr>)"
  by (cases "ParseReference pkg (str_TrimSpace n)")
     (auto simp: ParseAndSetOverride_def override_ok_def override_ref_def Let_def)

lemma fold_overrides_ok:
  assumes "\<forall>(i, n) \<in> set xs. override_ok pkg n" and "distinct (map fst xs)"
  shows "\<exists>r'. fold_try (set_override_step pkg) xs r = Inr r' \<and>
           res_registry r' = res_registry r \<and> repoPath r' = repoPath r \<and>
           (\<forall>i. gm_get (overrides r') i =
              (case map_of xs i of None \<Rightarrow> gm_get (overrides r) i
               | Some n \<Rightarrow> (case override_ref pkg n of None \<Rightarrow> gm_get (overrides r) i
                            | Some ref \<Rightarrow> Some ref)))"
  using assms
proof (induction xs arbitrary: r)
  case (Cons x xs)
  obtain i n where x: "x = (i, n)" by (cases x)
  define r1 where "r1 = (case override_ref pkg n of None \<Rightarrow> r
                         | Some ref \<Rightarrow> r\<lparr>overrides := gm_put i ref (overrides r)\<rparr>)"
  have step: "set_override_step pkg x r = Inr r1"
    using Cons.prems by (simp add: set_override_step_def x ParseAndSetOverride_ok_iff r1_def)
  obtain r' where r': "fold_try (set_override_step pkg) xs r1 = Inr r'"
      "res_registry r' = res_registry r1" "repoPath r' = repoPath r1"
      "\<forall>j. gm_get (overrides r') j =
         (case map_of xs j of None \<Rightarrow> gm_get (overrides r1) j
          | Some n \<Rightarrow> (case override_ref pkg n of None \<Rightarrow> gm_get (overrides r1) j | Some ref \<Rightarrow> Some ref))"
    using Cons.IH [of r1] Cons.prems by auto
  have "map_of xs i = None" using Cons.prems(2) by (simp add: x map_of_eq_None_iff)
  then show ?case
    using r' step [unfolded x]
    by (intro exI [of _ r']) (auto simp: x r1_def split: option.splits)
qed simp

lemma fold_overrides_bad:
  assumes "(i, n) \<in> set xs" and "\<not> override_ok pkg n"
  shows "\<nexists>r'. fold_try (set_override_step pkg) xs r = Inr r'"
  using assms
proof (induction xs arbitrary: r)
  case (Cons x xs)
  then show ?case
    by (auto simp: set_override_step_def ParseAndSetOverride_ok_iff)
qed simp

lemma override_list_distinct: "distinct (map fst (override_list c))"
  by (simp add: override_list_def image_names)

lemma NewResolver_unfold:
  "NewResolver pkg bv c =
     try_then (NewRegistry pkg (DefaultRegistry bv)) (\<lambda>registry.
     try_then (fold_try (set_override_step pkg) (override_list c)
                \<lparr>res_registry = registry, repoPath = '''', overrides = []\<rparr>) (\<lambda>r.
     if oc_SystemDefaultRegistry c \<noteq> '''' then
       with_message ''failed to parse system-default-registry''
         (ParseAndSetDefaultRegistry pkg (oc_SystemDefaultRegistry c) r)
     else Inr r))"
  unfolding NewResolver_def set_override_step_def by simp

lemma NewResolver_fields:
  assumes "NewResolver pkg bv c = Inr r"
  shows "gm_get (overrides r) i =
           (case map_of (override_list c) i of None \<Rightarrow> None | Some n \<Rightarrow> override_ref pkg n)"
    and "\<forall>(i, n) \<in> set (override_list c). override_ok pkg n"
    and "oc_SystemDefaultRegistry c = '''' \<Longrightarrow>
           NewRegistry pkg (DefaultRegistry bv) = Inr (res_registry r) \<and> repoPath r = ''''"
    and "oc_SystemDefaultRegistry c \<noteq> '''' \<Longrightarrow>
           NewRegistry pkg (fst (splitRegistryAndPath (oc_SystemDefaultRegistry c))) = Inr (res_registry r) \<and>
           repoPath r = snd (splitRegistryAndPath (oc_SystemDefaultRegistry c))"
proof -
  from assms obtain reg r0 where reg: "NewRegistry pkg (DefaultRegistry bv) = Inr reg"
    and r0: "fold_try (set_override_step pkg) (override_list c)
               \<lparr>res_registry = reg, repoPath = '''', overrides = []\<rparr> = Inr r0"
    and fin: "(if oc_SystemDefaultRegistry c \<noteq> '''' then
                 with_message ''failed to parse system-default-registry''
                   (ParseAndSetDefaultRegistry pkg (oc_SystemDefaultRegistry c) r0) else Inr r0) = Inr r"
    unfolding NewResolver_unfold by (elim try_then_InrE)
  show ok: "\<forall>(i, n) \<in> set (override_list c). override_ok pkg n"
    using r0 fold_overrides_bad by fastforce
  obtain r1 where r1: "r1 = r0" "res_registry r1 = reg" "repoPath r1 = ''''"
      "gm_get (overrides r1) i = (case map_of (override_list c) i of None \<Rightarrow> None
         | Some n \<Rightarrow> override_ref pkg n)"
    using fold_overrides_ok [OF ok override_list_distinct, of "\<lparr>res_registry = reg, repoPath = '''', overrides = []\<rparr>"] r0
    by (auto split: option.splits)
  show "gm_get (overrides r) i =
           (case map_of (override_list c) i of None \<Rightarrow> None | Some n \<Rightarrow> override_ref pkg n)"
    using fin r1 by (auto simp: ParseAndSetDefaultRegistry_def split: if_splits prod.splits)
  show "oc_SystemDefaultRegistry c = '''' \<Longrightarrow>
           NewRegistry pkg (DefaultRegistry bv) = Inr (res_registry r) \<and> repoPath r = ''''"
    using fin r1 reg by simp
  show "oc_SystemDefaultRegistry c \<noteq> '''' \<Longrightarrow>
           NewRegistry pkg (fst (splitRegistryAndPath (oc_SystemDefaultRegistry c))) = Inr (res_registry r) \<and>
           repoPath r = snd (splitRegistryAndPath (oc_SystemDefaultRegistry c))"
    using fin r1 by (auto simp: ParseAndSetDefaultRegistry_def split: if_splits prod.splits)
qed

section \<open>Resolution\<close>

text \<open>
  What the resolver relies on of package \<^verbatim>\<open>name\<close>: a registry's name is an authority, which has no slash,
  and parsing it again gives the registry back; the full name of a reference starts with its registry.
\<close>

definition names_ok :: "name_pkg \<Rightarrow> bool" where
  "names_ok pkg \<longleftrightarrow>
     (\<forall>h reg. NewRegistry pkg h = Inr reg \<longrightarrow>
        slash \<notin> set (RegistryName pkg reg) \<and> NewRegistry pkg (RegistryName pkg reg) = Inr reg)"

lemma GetReference_override:
  "gm_get (overrides r) i = Some ref \<Longrightarrow>
     GetReference pkg bv r i opts = fold_try (\<lambda>opt ref. opt ref) opts ref"
  by (simp add: GetReference_def)

lemma setRegistry_path:
  assumes "slash \<notin> set h" and "NewRegistry pkg h = Inr reg" and "str_TrimSuffix p ''/'' \<noteq> ''''"
    and "RefName pkg ref = RegistryStr pkg (ref_registry (ref_context ref)) @ ''/'' @ rest"
  shows "setRegistry pkg ref (h @ slash # p) =
           ParseReference pkg (RegistryName pkg reg @ ''/'' @ str_TrimSuffix p ''/'' @ ''/'' @ rest)"
proof -
  have "str_TrimPrefix (slash # rest) ''/'' = rest"
    using str_TrimPrefix_append [of "''/''" rest] by simp
  then show ?thesis
    using assms by (simp add: setRegistry_def splitRegistryAndPath_sep)
qed

lemma setRegistry_plain:
  assumes "slash \<notin> set h" and "NewRegistry pkg h = Inr reg"
  shows "setRegistry pkg ref h =
           (case ref of TagRef t \<Rightarrow> Inr (TagRef (t\<lparr>ref_registry := reg\<rparr>))
            | DigestRef d \<Rightarrow> Inr (DigestRef (d\<lparr>ref_registry := reg\<rparr>))
            | OtherRef _ \<Rightarrow> Inl (Errorf ''unhandled Reference type''))"
  using assms by (simp add: setRegistry_def splitRegistryAndPath_plain)

text \<open>
  An image override wins. If the resolver was built from a configuration whose override text for an
  image is not blank, then that text parses, and every lookup of the image starts from its reference: the
  default image, the default registry and the system default registry play no part in it.
\<close>

theorem override_wins:
  assumes "NewResolver pkg bv c = Inr r" and "(i, n) \<in> set (override_list c)" and "str_TrimSpace n \<noteq> ''''"
  shows "\<exists>ref. ParseReference pkg (str_TrimSpace n) = Inr ref \<and>
           GetReference pkg bv r i opts = fold_try (\<lambda>opt ref. opt ref) opts ref"
proof -
  have "map_of (override_list c) i = Some n"
    using assms(2) override_list_distinct by (simp add: map_of_is_SomeI)
  then have get: "gm_get (overrides r) i = override_ref pkg n"
    using NewResolver_fields(1) [OF assms(1)] by simp
  have "override_ok pkg n" using NewResolver_fields(2) [OF assms(1)] assms(2) by auto
  then obtain ref where ref: "ParseReference pkg (str_TrimSpace n) = Inr ref"
    using assms(3) by (auto simp: override_ok_def)
  then have "gm_get (overrides r) i = Some ref" using get assms(3) by (simp add: override_ref_def)
  then show ?thesis using ref GetReference_override by blast
qed

text \<open>
  With a system default registry of the form host/path and no override for the image, the image is
  resolved from the build's default image with its registry replaced by the host and the path put in
  front of its repository; one trailing slash of the path is dropped.
\<close>

theorem system_default_registry_path:
  assumes "NewResolver pkg bv c = Inr r" and "names_ok pkg"
    and "map_of (override_list c) i = Some n" and "str_TrimSpace n = ''''"
    and "oc_SystemDefaultRegistry c = h @ ''/'' @ p" and "slash \<notin> set h"
    and "str_TrimSuffix p ''/'' \<noteq> ''''" and "\<not> str_HasSuffix (str_TrimSuffix p ''/'') ''/''"
    and "getDefaultImage pkg bv i = Inr d"
    and "RefName pkg d = RegistryStr pkg (ref_registry (ref_context d)) @ ''/'' @ rest"
  shows "\<exists>reg. NewRegistry pkg h = Inr reg \<and>
           GetReference pkg bv r i [] =
             ParseReference pkg (RegistryName pkg reg @ ''/'' @ str_TrimSuffix p ''/'' @ ''/'' @ rest)"
proof -
  have "gm_get (overrides r) i = None"
    using NewResolver_fields(1) [OF assms(1)] assms(3,4) by (simp add: override_ref_def)
  moreover have fields: "NewRegistry pkg h = Inr (res_registry r)" "repoPath r = str_TrimSuffix p ''/''"
    using NewResolver_fields(4) [OF assms(1)] assms(5,6) by (simp_all add: splitRegistryAndPath_sep)
  moreover have "str_TrimSuffix (str_TrimSuffix p ''/'') ''/'' = str_TrimSuffix p ''/''"
    using assms(8) by (simp add: str_TrimSuffix_def)
  moreover have "slash \<notin> set (RegistryName pkg (res_registry r))"
      "NewRegistry pkg (RegistryName pkg (res_registry r)) = Inr (res_registry r)"
    using fields(1) assms(2) by (auto simp: names_ok_def)
  ultimately show ?thesis
    using assms(7,9,10)
      setRegistry_path [of "RegistryName pkg (res_registry r)" pkg "res_registry r" "repoPath r" d rest]
    by (cases "fold_try (\<lambda>opt ref. opt ref) [] d") (auto simp: GetReference_def try_then_def split: sum.splits)
qed

text \<open>
  With a system default registry that is a bare host, the default image keeps its repository and its
  tag, and only its registry changes; with no system default registry the build's default registry is used.
\<close>

theorem system_default_registry_host:
  assumes "NewResolver pkg bv c = Inr r" and "names_ok pkg"
    and "map_of (override_list c) i = Some n" and "str_TrimSpace n = ''''"
    and "slash \<notin> set (oc_SystemDefaultRegistry c)"
    and "getDefaultImage pkg bv i = Inr (TagRef t)"
  shows "\<exists>reg. NewRegistry pkg (if oc_SystemDefaultRegistry c = '''' then DefaultRegistry bv
                                 else oc_SystemDefaultRegistry c) = Inr reg \<and>
           GetReference pkg bv r i [] = Inr (TagRef (t\<lparr>ref_registry := reg\<rparr>))"
proof -
  have none: "gm_get (overrides r) i = None"
    using NewResolver_fields(1) [OF assms(1)] assms(3,4) by (simp add: override_ref_def)
  have reg: "NewRegistry pkg (if oc_SystemDefaultRegistry c = '''' then DefaultRegistry bv
                else oc_SystemDefaultRegistry c) = Inr (res_registry r) \<and> repoPath r = ''''"
    using NewResolver_fields(3,4) [OF assms(1)] assms(5) by (simp add: splitRegistryAndPath_plain)
  then have "slash \<notin> set (RegistryName pkg (res_registry r))"
      "NewRegistry pkg (RegistryName pkg (res_registry r)) = Inr (res_registry r)"
    using assms(2) by (auto simp: names_ok_def)
  then show ?thesis
    using reg none assms(6) by (simp add: GetReference_def setRegistry_plain)
qed

text \<open>
  A name package that satisfies the hypotheses: registries are the texts without a slash, a reference is a
  tag whose registry is the text before the first slash.
\<close>

definition simple_names :: name_pkg where
  "simple_names =
     \<lparr>NewRegistry = (\<lambda>h. if slash \<in> set h then Inl (Errorf ''registries must not contain a path'')
                          else Inr (Registry h)),
      RegistryName = (\<lambda>reg. case reg of Registry h \<Rightarrow> h),
      RegistryStr = (\<lambda>reg. case reg of Registry h \<Rightarrow> h),
      ParseReference = (\<lambda>s. case str_Cut slash s of (b, a, f) \<Rightarrow>
         if f then Inr (TagRef \<lparr>ref_registry = Registry b, ref_repository = a, ref_identifier = ''latest''\<rparr>)
         else Inl (Errorf ''could not parse reference'')),
      RefName = (\<lambda>ref. (case ref_registry (ref_context ref) of Registry h \<Rightarrow> h) @ ''/'' @
                        ref_repository (ref_context ref)),
      RefString = (\<lambda>ref. ref_repository (ref_context ref))\<rparr>"

definition simple_build :: build_vars where
  "simple_build =
     \<lparr>DefaultRegistry = ''index.docker.io'', PrimeRegistry = '''', DefaultEtcdImage = ''r/etcd'',
      DefaultKubernetesImage = ''r/kube'', DefaultPauseImage = ''r/pause'',
      DefaultRuntimeImage = ''r/runtime'', DefaultCloudControllerManagerImage = ''r/ccm''\<rparr>"

definition simple_overrides :: "string \<Rightarrow> string \<Rightarrow> ImageOverrideConfig" where
  "simple_overrides sdr etcd =
     \<lparr>oc_SystemDefaultRegistry = sdr, oc_KubeAPIServer = '''', oc_KubeControllerManager = '''',
      oc_KubeProxy = '''', oc_KubeScheduler = '''', oc_Pause = '''', oc_Runtime = '''', oc_ETCD = etcd,
      oc_CloudControllerManager = ''''\<rparr>"

lemma simple_names_ok: "names_ok simple_names"
  by (auto simp: names_ok_def simple_names_def split: if_splits)

definition the_resolver :: "resolver result \<Rightarrow> resolver" where
  "the_resolver r = (case r of Inr x \<Rightarrow> x | Inl _ \<Rightarrow> \<lparr>res_registry = Registry '''', repoPath = '''', overrides = []\<rparr>)"

theorem override_wins_witness:
  "GetReference simple_names simple_build
     (the_resolver (NewResolver simple_names simple_build (simple_overrides ''reg.io/x'' '' my/etcd '')))
     Img_ETCD [] =
   Inr (TagRef \<lparr>ref_registry = Registry ''my'', ref_repository = ''etcd'', ref_identifier = ''latest''\<rparr>)"
proof -
  let ?c = "simple_overrides ''reg.io/x'' '' my/etcd ''"
  let ?r = "the_resolver (NewResolver simple_names simple_build ?c)"
  have 1: "NewResolver simple_names simple_build ?c = Inr ?r" by code_simp
  have 2: "(Img_ETCD, '' my/etcd '') \<in> set (override_list ?c)" by code_simp
  have 3: "str_TrimSpace '' my/etcd '' \<noteq> ''''" by code_simp
  have 4: "ParseReference simple_names (str_TrimSpace '' my/etcd '') =
    Inr (TagRef \<lparr>ref_registry = Registry ''my'', ref_repository = ''etcd'', ref_identifier = ''latest''\<rparr>)"
    by code_simp
  show ?thesis using override_wins [OF 1 2 3, of "[]"] 4 by auto
qed

theorem system_default_registry_path_witness:
  "GetReference simple_names simple_build
     (the_resolver (NewResolver simple_names simple_build (simple_overrides ''reg.io/x/y/'' '''')))
     Img_ETCD [] =
   Inr (TagRef \<lparr>ref_registry = Registry ''reg.io'', ref_repository = ''x/y/etcd'', ref_identifier = ''latest''\<rparr>)"
proof -
  let ?c = "simple_overrides ''reg.io/x/y/'' ''''"
  let ?r = "the_resolver (NewResolver simple_names simple_build ?c)"
  let ?d = "TagRef \<lparr>ref_registry = Registry ''r'', ref_repository = ''etcd'', ref_identifier = ''latest''\<rparr>"
  have 1: "NewResolver simple_names simple_build ?c = Inr ?r" by code_simp
  have 2: "map_of (override_list ?c) Img_ETCD = Some ''''" by code_simp
  have 3: "str_TrimSpace '''' = ''''" by code_simp
  have 4: "oc_SystemDefaultRegistry ?c = ''reg.io'' @ ''/'' @ ''x/y/''" by code_simp
  have 5: "slash \<notin> set ''reg.io''" by simp
  have 6: "str_TrimSuffix ''x/y/'' ''/'' \<noteq> ''''" "\<not> str_HasSuffix (str_TrimSuffix ''x/y/'' ''/'') ''/''"
    by code_simp+
  have 7: "getDefaultImage simple_names simple_build Img_ETCD = Inr ?d" by code_simp
  have 8: "RefName simple_names ?d = RegistryStr simple_names (ref_registry (ref_context ?d)) @ ''/'' @ ''etcd''"
    by code_simp
  have 9: "NewRegistry simple_names ''reg.io'' = Inr (Registry ''reg.io'')" by code_simp
  have 10: "ParseReference simple_names
              (RegistryName simple_names (Registry ''reg.io'') @ ''/'' @ str_TrimSuffix ''x/y/'' ''/'' @ ''/'' @ ''etcd'') =
            Inr (TagRef \<lparr>ref_registry = Registry ''reg.io'', ref_repository = ''x/y/etcd'', ref_identifier = ''latest''\<rparr>)"
    by code_simp
  show ?thesis
    using system_default_registry_path [OF 1 simple_names_ok 2 3 4 5 6 7 8] 9 10 by auto
qed

theorem system_default_registry_host_witness:
  "GetReference simple_names simple_build
     (the_resolver (NewResolver simple_names simple_build (simple_overrides ''reg.io'' '''')))
     Img_Pause [] =
   Inr (TagRef \<lparr>ref_registry = Registry ''reg.io'', ref_repository = ''pause'', ref_identifier = ''latest''\<rparr>)"
proof -
  let ?c = "simple_overrides ''reg.io'' ''''"
  let ?r = "the_resolver (NewResolver simple_names simple_build ?c)"
  let ?d = "\<lparr>ref_registry = Registry ''r'', ref_repository = ''pause'', ref_identifier = ''latest''\<rparr>"
  have 1: "NewResolver simple_names simple_build ?c = Inr ?r" by code_simp
  have 2: "map_of (override_list ?c) Img_Pause = Some ''''" by code_simp
  have 3: "str_TrimSpace '''' = ''''" by code_simp
  have 4: "slash \<notin> set (oc_SystemDefaultRegistry ?c)" by code_simp
  have 5: "getDefaultImage simple_names simple_build Img_Pause = Inr (TagRef ?d)" by code_simp
  have 6: "NewRegistry simple_names (if oc_SystemDefaultRegistry ?c = '''' then DefaultRegistry simple_build
             else oc_SystemDefaultRegistry ?c) = Inr (Registry ''reg.io'')" by code_simp
  show ?thesis
    using system_default_registry_host [OF 1 simple_names_ok 2 3 4 5] 6 by auto
qed

section \<open>Pre-pull files and preloaded images\<close>

text \<open>A file of the directory that is neither a text file nor a JSON file: an image archive.\<close>

definition preloaded :: "tree \<Rightarrow> string \<Rightarrow> bool" where
  "preloaded t dir \<longleftrightarrow>
     (\<exists>n i. n \<noteq> '''' \<and> slash \<notin> set n \<and> gm_get t (dir @ ''/'' @ n) = Some i \<and> kind i \<noteq> Directory \<and>
            \<not> str_HasSuffix n ''.txt'' \<and> \<not> str_HasSuffix n ''.json'')"

lemma entry_name_Some_iff:
  "entry_name p q = Some n \<longleftrightarrow> q = p @ ''/'' @ n \<and> n \<noteq> '''' \<and> slash \<notin> set n"
proof -
  have "drop (Suc (length p)) (p @ slash # n) = n" by simp
  then show ?thesis by (auto simp: entry_name_def Let_def str_HasPrefix_iff split: if_splits)
qed

lemma os_ReadDir_set:
  assumes "os_ReadDir d p = Inr es"
  shows "(n, i) \<in> set es \<longleftrightarrow> n \<noteq> '''' \<and> slash \<notin> set n \<and> gm_get (tree d) (p @ ''/'' @ n) = Some i"
proof -
  have es: "es = map (\<lambda>n. (n, the (gm_get (tree d) (p @ ''/'' @ n))))
              (sort_Strings (remdups (List.map_filter (entry_name p) (gm_keys (tree d)))))"
    using assms by (auto simp: os_ReadDir_def split: option.splits if_splits)
  have names: "n \<in> set (List.map_filter (entry_name p) (gm_keys (tree d))) \<longleftrightarrow>
      n \<noteq> '''' \<and> slash \<notin> set n \<and> p @ ''/'' @ n \<in> set (gm_keys (tree d))" for n
    by (auto simp: map_filter_set entry_name_Some_iff)
  have "p @ ''/'' @ n \<in> set (gm_keys (tree d)) \<longleftrightarrow> gm_get (tree d) (p @ ''/'' @ n) \<noteq> None" for n
    using gm_get_None_iff by metis
  then show ?thesis using names by (auto simp: es)
qed

lemma checkPreloadedImages_iff:
  assumes "os_Stat d dir = Inr i" and "os_ReadDir d dir = Inr es"
  shows "checkPreloadedImages d dir = Inr (preloaded (tree d) dir)"
  using assms
  by (auto simp: checkPreloadedImages_def preloaded_def list_ex_iff os_ReadDir_set [OF assms(2)])

lemma path_prefixes_abs:
  assumes "ds \<noteq> []" and "\<forall>n \<in> set ds. is_name n"
  shows "path_prefixes (abs_path ds) = map (\<lambda>k. abs_path (take k ds)) [1 ..< Suc (length ds)]"
proof -
  have "filter (\<lambda>c. c \<noteq> '''') ds = ds" using assms(2) by (auto simp: is_name_def intro: filter_True)
  then show ?thesis
    using assms by (simp add: path_prefixes_def split_abs del: upt_Suc) (simp add: abs_path_def)
qed

lemma path_prefixes_not_child:
  assumes "ds \<noteq> []" and "\<forall>n \<in> set ds. is_name n" and "slash \<notin> set n"
  shows "abs_path ds @ ''/'' @ n \<notin> set (path_prefixes (abs_path ds))"
proof
  assume "abs_path ds @ ''/'' @ n \<in> set (path_prefixes (abs_path ds))"
  then obtain k where "k \<in> set [1 ..< Suc (length ds)]" and k: "abs_path ds @ ''/'' @ n = abs_path (take k ds)"
    unfolding path_prefixes_abs [OF assms(1,2)] by auto
  then have "0 < k" by (simp del: upt_Suc)
  from k have "str_Join (ds @ [n]) [slash] = str_Join (take k ds) [slash]"
    using assms(1) abs_path_snoc [of ds n] by (simp add: abs_path_def)
  then have "ds @ [n] = take k ds"
    by (rule str_Join_inj) (use assms \<open>0 < k\<close> in \<open>auto simp: is_name_def dest: in_set_takeD\<close>)
  then have "length (ds @ [n]) = length (take k ds)" by (rule arg_cong)
  then show False by simp
qed

definition pull_dest :: "string \<Rightarrow> string \<Rightarrow> string" where
  "pull_dest dir name = dir @ ''/'' @ name @ ''.txt''"

lemma is_name_txt: "slash \<notin> set name \<Longrightarrow> is_name (name @ ''.txt'')"
  by (auto simp: is_name_def append_eq_Cons_conv)

lemma pull_dest_join:
  assumes "ds \<noteq> []" and "\<forall>n \<in> set ds. is_name n" and "slash \<notin> set name"
  shows "filepath_Join [abs_path ds, name @ ''.txt''] = pull_dest (abs_path ds) name"
  using assms Join_abs [of ds "[name @ ''.txt'']"] is_name_txt
  by (simp add: abs_path_snoc pull_dest_def)

lemma pull_dest_not_prefix:
  assumes "ds \<noteq> []" and "\<forall>n \<in> set ds. is_name n" and "slash \<notin> set name"
  shows "pull_dest (abs_path ds) name \<notin> set (path_prefixes (abs_path ds))"
  using assms path_prefixes_not_child [of ds "name @ ''.txt''"] by (simp add: pull_dest_def)

text \<open>Directories on the way and a text file in the directory do not make images preloaded.\<close>

lemma preloaded_touches:
  assumes "ds \<noteq> []" and "\<forall>n \<in> set ds. is_name n"
    and "touches (\<lambda>q. q \<in> set (path_prefixes (abs_path ds)) \<or> q = pull_dest (abs_path ds) name) d d'"
    and "preloaded (tree d') (abs_path ds)"
  shows "preloaded (tree d) (abs_path ds)"
proof -
  from assms(4) obtain n i where n: "n \<noteq> ''''" "slash \<notin> set n" "kind i \<noteq> Directory"
      "\<not> str_HasSuffix n ''.txt''" "\<not> str_HasSuffix n ''.json''"
    and get: "gm_get (tree d') (abs_path ds @ ''/'' @ n) = Some i"
    by (auto simp: preloaded_def)
  have "abs_path ds @ ''/'' @ n \<noteq> pull_dest (abs_path ds) name"
    using n(4) by (auto simp: pull_dest_def)
  then have "gm_get (tree d) (abs_path ds @ ''/'' @ n) = Some i"
    using touches_get [OF assms(3)] get path_prefixes_not_child [OF assms(1,2) n(2)] by auto
  then show ?thesis using n by (auto simp: preloaded_def)
qed

lemma Pull_mkdir:
  assumes "os_MkdirAll dir 493 d = (r, d1)"
    and "dir = abs_path ds" and "ds \<noteq> []" and "\<forall>n \<in> set ds. is_name n" and "slash \<notin> set name"
    and "\<forall>i q. gm_get (tree d) (pull_dest dir name) = Some i \<longrightarrow> kind i \<noteq> Symlink q"
  shows "touches (\<lambda>q. q \<in> set (path_prefixes dir)) d d1"
    and "follow 40 (tree d1) (pull_dest dir name) = Inr (pull_dest dir name)"
proof -
  show t: "touches (\<lambda>q. q \<in> set (path_prefixes dir)) d d1"
    by (rule os_MkdirAll_touches [OF assms(1)])
  then have "gm_get (tree d1) (pull_dest dir name) = gm_get (tree d) (pull_dest dir name)"
    unfolding assms(2) by (rule touches_get) (rule pull_dest_not_prefix [OF assms(3-5)])
  then show "follow 40 (tree d1) (pull_dest dir name) = Inr (pull_dest dir name)"
    using assms(6) follow_40_absent follow_40_plain by (metis option.exhaust)
qed

lemma Pull_parts:
  assumes "Pull pkg dir name img d = (res, d')"
    and "dir = abs_path ds" and "ds \<noteq> []" and "\<forall>n \<in> set ds. is_name n" and "slash \<notin> set name"
    and "\<forall>i q. gm_get (tree d) (pull_dest dir name) = Some i \<longrightarrow> kind i \<noteq> Symlink q"
  shows "touches (\<lambda>q. q \<in> set (path_prefixes dir) \<or> q = pull_dest dir name) d d'"
    and "checkPreloadedImages d dir \<noteq> Inr False \<Longrightarrow> d' = d"
    and "res = Inr () \<Longrightarrow> checkPreloadedImages d dir = Inr False \<Longrightarrow>
           \<exists>i. gm_get (tree d') (pull_dest dir name) = Some i \<and> kind i = Regular (RefName pkg img @ ''\<newline>'')"
    and "\<not> preloaded (tree d) dir \<Longrightarrow> \<not> preloaded (tree d') dir"
proof -
  have dir: "dir \<noteq> ''''" by (simp add: assms(2) abs_path_def)
  have dest: "filepath_Join [dir, name @ ''.txt''] = pull_dest dir name"
    using pull_dest_join assms(2-5) by simp
  let ?A = "\<lambda>q. q \<in> set (path_prefixes dir) \<or> q = pull_dest dir name"
  have nop: "d' = d" if "checkPreloadedImages d dir \<noteq> Inr False"
    using assms(1) dir that by (auto simp: Pull_def split: sum.splits bool.splits)
  then show "checkPreloadedImages d dir \<noteq> Inr False \<Longrightarrow> d' = d" .
  show t: "touches ?A d d'"
  proof (cases "checkPreloadedImages d dir = Inr False")
    case True
    obtain r1 d1 where m: "os_MkdirAll dir 493 d = (r1, d1)" by (cases "os_MkdirAll dir 493 d")
    note mk = Pull_mkdir [OF m assms(2-6)]
    have 1: "touches ?A d d1" using mk(1) by (rule touches_mono) simp
    show ?thesis
    proof (cases r1)
      case (Inr u)
      then have w: "os_WriteFile (pull_dest dir name) (RefName pkg img @ ''\<newline>'') 420 d1 = (res, d')"
        using assms(1) dir True m by (simp add: Pull_def dest)
      have "touches ?A d1 d'" by (rule os_WriteFile_touches [OF w mk(2)]) simp
      then show ?thesis using 1 touches_trans by blast
    qed (use assms(1) dir True m 1 in \<open>simp add: Pull_def\<close>)
  qed (use nop in simp)
  show "\<exists>i. gm_get (tree d') (pull_dest dir name) = Some i \<and> kind i = Regular (RefName pkg img @ ''\<newline>'')"
    if ok: "res = Inr ()" "checkPreloadedImages d dir = Inr False"
  proof -
    obtain d1 where m: "os_MkdirAll dir 493 d = (Inr (), d1)"
      and w: "os_WriteFile (pull_dest dir name) (RefName pkg img @ ''\<newline>'') 420 d1 = (Inr (), d')"
      using assms(1) ok(1) unfolding Pull_def ok(2) dest
      by (simp add: dir) (auto split: sum.splits prod.splits)
    show ?thesis using os_WriteFile_get [OF w Pull_mkdir(2) [OF m assms(2-6)]] by blast
  qed
  show "\<not> preloaded (tree d) dir \<Longrightarrow> \<not> preloaded (tree d') dir"
    using t preloaded_touches assms(2-4) by blast
qed



end
