(* ===== verification/Pod_Types.thy ===== *)
theory Pod_Types
  imports Images
begin

text \<open>
  The data of \<^verbatim>\<open>pkg/cli/types.go\<close> and \<^verbatim>\<open>pkg/podtemplate/types.go\<close>: the command line configuration, the
  control plane settings, the pod specification, and the part of the Kubernetes API types that a static pod
  uses. A \<^verbatim>\<open>cli.StringSlice\<close> is the list its \<^verbatim>\<open>Value\<close> method returns; an \<^verbatim>\<open>int32\<close> is an integer, and
  every conversion to it wraps explicitly.
\<close>

section \<open>Constants\<close>

definition DisableItems :: "string list" where
  "DisableItems = [''rke2-coredns'', ''rke2-metrics-server'', ''rke2-snapshot-controller'',
     ''rke2-snapshot-controller-crd'', ''rke2-snapshot-validation-webhook'', ''rke2-security-responder'']"

definition CNIItems :: "string list" where
  "CNIItems = [''calico'', ''canal'', ''cilium'', ''flannel'']"

definition IngressItems :: "string list" where
  "IngressItems = [''traefik'', ''ingress-nginx'']"

definition KubeAPIServer :: string where "KubeAPIServer = ''kube-apiserver''"
definition KubeScheduler :: string where "KubeScheduler = ''kube-scheduler''"
definition KubeControllerManager :: string where "KubeControllerManager = ''kube-controller-manager''"
definition KubeProxy :: string where "KubeProxy = ''kube-proxy''"
definition Etcd :: string where "Etcd = ''etcd''"
definition CloudControllerManager :: string where "CloudControllerManager = ''cloud-controller-manager''"
definition CPURequest :: string where "CPURequest = ''cpu-request''"
definition CPULimit :: string where "CPULimit = ''cpu-limit''"
definition MemoryRequest :: string where "MemoryRequest = ''memory-request''"
definition MemoryLimit :: string where "MemoryLimit = ''memory-limit''"
definition Readiness :: string where "Readiness = ''readiness''"
definition Liveness :: string where "Liveness = ''liveness''"
definition Startup :: string where "Startup = ''startup''"
definition InitialDelaySeconds :: string where "InitialDelaySeconds = ''initial-delay-seconds''"
definition TimeoutSeconds :: string where "TimeoutSeconds = ''timeout-seconds''"
definition FailureThreshold :: string where "FailureThreshold = ''failure-threshold''"
definition PeriodSeconds :: string where "PeriodSeconds = ''period-seconds''"

lemmas component_names = KubeAPIServer_def KubeScheduler_def KubeControllerManager_def KubeProxy_def
  Etcd_def CloudControllerManager_def
lemmas setting_names = CPURequest_def CPULimit_def MemoryRequest_def MemoryLimit_def Readiness_def
  Liveness_def Startup_def InitialDelaySeconds_def TimeoutSeconds_def FailureThreshold_def PeriodSeconds_def

definition SSLDirs :: "string list" where
  "SSLDirs = [''/etc/ssl/certs'', ''/etc/pki/tls/certs'', ''/etc/ca-certificates'',
     ''/usr/local/share/ca-certificates'', ''/usr/share/ca-certificates'']"

definition DefaultAuditPolicyFile :: string where
  "DefaultAuditPolicyFile = ''/etc/rancher/rke2/audit-policy.yaml''"

section \<open>Command line configuration\<close>

type_synonym StringSlice = "string list"

record ExtraMounts =
  xm_KubeAPIServer :: StringSlice
  xm_KubeScheduler :: StringSlice
  xm_KubeControllerManager :: StringSlice
  xm_KubeProxy :: StringSlice
  xm_Etcd :: StringSlice
  xm_CloudControllerManager :: StringSlice

record ExtraEnv =
  xe_KubeAPIServer :: StringSlice
  xe_KubeScheduler :: StringSlice
  xe_KubeControllerManager :: StringSlice
  xe_KubeProxy :: StringSlice
  xe_Etcd :: StringSlice
  xe_CloudControllerManager :: StringSlice

record cli_Config =
  cc_AuditPolicyFile :: string
  cc_PodSecurityAdmissionConfigFile :: string
  cc_CloudProviderConfig :: string
  cc_CloudProviderName :: string
  cc_CloudProviderMetadataHostname :: bool
  cc_Images :: ImageOverrideConfig
  cc_KubeletPath :: string
  cc_ControlPlaneResourceRequests :: StringSlice
  cc_ControlPlaneResourceLimits :: StringSlice
  cc_ControlPlaneProbeConf :: StringSlice
  cc_CNI :: StringSlice
  cc_IngressController :: StringSlice
  cc_ExtraMounts :: ExtraMounts
  cc_ExtraEnv :: ExtraEnv

section \<open>Control plane settings\<close>

record ControlPlaneResources =
  KubeAPIServerCPURequest :: string
  KubeAPIServerCPULimit :: string
  KubeAPIServerMemoryRequest :: string
  KubeAPIServerMemoryLimit :: string
  KubeSchedulerCPURequest :: string
  KubeSchedulerCPULimit :: string
  KubeSchedulerMemoryRequest :: string
  KubeSchedulerMemoryLimit :: string
  KubeControllerManagerCPURequest :: string
  KubeControllerManagerCPULimit :: string
  KubeControllerManagerMemoryRequest :: string
  KubeControllerManagerMemoryLimit :: string
  KubeProxyCPURequest :: string
  KubeProxyCPULimit :: string
  KubeProxyMemoryRequest :: string
  KubeProxyMemoryLimit :: string
  EtcdCPURequest :: string
  EtcdCPULimit :: string
  EtcdMemoryRequest :: string
  EtcdMemoryLimit :: string
  CloudControllerManagerCPURequest :: string
  CloudControllerManagerCPULimit :: string
  CloudControllerManagerMemoryRequest :: string
  CloudControllerManagerMemoryLimit :: string

record ControlPlaneEnv =
  env_KubeAPIServer :: "string list"
  env_KubeScheduler :: "string list"
  env_KubeControllerManager :: "string list"
  env_KubeProxy :: "string list"
  env_Etcd :: "string list"
  env_CloudControllerManager :: "string list"

record ControlPlaneMounts =
  mnt_KubeAPIServer :: "string list"
  mnt_KubeScheduler :: "string list"
  mnt_KubeControllerManager :: "string list"
  mnt_KubeProxy :: "string list"
  mnt_Etcd :: "string list"
  mnt_CloudControllerManager :: "string list"

record ProbeConf =
  pc_InitialDelaySeconds :: int
  pc_TimeoutSeconds :: int
  pc_FailureThreshold :: int
  pc_PeriodSeconds :: int

record ProbeConfs =
  pcs_Liveness :: ProbeConf
  pcs_Readiness :: ProbeConf
  pcs_Startup :: ProbeConf

record ControlPlaneProbeConfs =
  prb_KubeAPIServer :: ProbeConfs
  prb_KubeScheduler :: ProbeConfs
  prb_KubeControllerManager :: ProbeConfs
  prb_KubeProxy :: ProbeConfs
  prb_Etcd :: ProbeConfs
  prb_CloudControllerManager :: ProbeConfs

section \<open>Pod specifications\<close>

record ContainerPort =
  port_Name :: string
  port_Protocol :: string
  port_ContainerPort :: int

record PodSecurityContext =
  psc_RunAsUser :: "int option"
  psc_RunAsGroup :: "int option"
  psc_seLinuxType :: "string option"

record Spec =
  spec_Command :: string
  spec_Args :: "string list"
  spec_Image :: reference
  spec_Dirs :: "string list"
  spec_Files :: "string list"
  spec_Sockets :: "string list"
  spec_ExcludeFiles :: "string list"
  spec_StartupExec :: "string list"
  spec_StartupPort :: int
  spec_StartupScheme :: string
  spec_StartupPath :: string
  spec_HealthExec :: "string list"
  spec_HealthPort :: int
  spec_HealthScheme :: string
  spec_HealthPath :: string
  spec_ReadyExec :: "string list"
  spec_ReadyPort :: int
  spec_ReadyScheme :: string
  spec_ReadyPath :: string
  spec_CPURequest :: string
  spec_CPULimit :: string
  spec_MemoryRequest :: string
  spec_MemoryLimit :: string
  spec_ExtraMounts :: "string list"
  spec_ExtraEnv :: "string list"
  spec_ProbeConfs :: ProbeConfs
  spec_SecurityContext :: "PodSecurityContext option"
  spec_Ports :: "ContainerPort list"
  spec_Annotations :: "(string, string) gomap"
  spec_Privileged :: bool
  spec_HostNetwork :: bool

record Config =
  cfg_ImagesDir :: string
  cfg_DataDir :: string
  cfg_Resolver :: resolver
  cfg_Env :: ControlPlaneEnv
  cfg_Mounts :: ControlPlaneMounts
  cfg_Probes :: ControlPlaneProbeConfs
  cfg_Resources :: ControlPlaneResources

section \<open>Zero values\<close>

definition zero_resources :: ControlPlaneResources where
  "zero_resources = \<lparr>
KubeAPIServerCPURequest = '''', KubeAPIServerCPULimit = '''',
     KubeAPIServerMemoryRequest = '''', KubeAPIServerMemoryLimit = '''',
     KubeSchedulerCPURequest = '''', KubeSchedulerCPULimit = '''',
     KubeSchedulerMemoryRequest = '''', KubeSchedulerMemoryLimit = '''',
     KubeControllerManagerCPURequest = '''', KubeControllerManagerCPULimit = '''',
     KubeControllerManagerMemoryRequest = '''', KubeControllerManagerMemoryLimit = '''',
     KubeProxyCPURequest = '''', KubeProxyCPULimit = '''',
     KubeProxyMemoryRequest = '''', KubeProxyMemoryLimit = '''',
     EtcdCPURequest = '''', EtcdCPULimit = '''',
     EtcdMemoryRequest = '''', EtcdMemoryLimit = '''',
     CloudControllerManagerCPURequest = '''', CloudControllerManagerCPULimit = '''',
     CloudControllerManagerMemoryRequest = '''', CloudControllerManagerMemoryLimit = ''''\<rparr>"

definition zero_probe_conf :: ProbeConf where
  "zero_probe_conf = \<lparr>pc_InitialDelaySeconds = 0, pc_TimeoutSeconds = 0, pc_FailureThreshold = 0,
     pc_PeriodSeconds = 0\<rparr>"

definition zero_probe_confs :: ProbeConfs where
  "zero_probe_confs = \<lparr>pcs_Liveness = zero_probe_conf, pcs_Readiness = zero_probe_conf,
     pcs_Startup = zero_probe_conf\<rparr>"

definition zero_probes :: ControlPlaneProbeConfs where
  "zero_probes = \<lparr>prb_KubeAPIServer = zero_probe_confs, prb_KubeScheduler = zero_probe_confs,
     prb_KubeControllerManager = zero_probe_confs, prb_KubeProxy = zero_probe_confs,
     prb_Etcd = zero_probe_confs, prb_CloudControllerManager = zero_probe_confs\<rparr>"

definition zero_spec :: "reference \<Rightarrow> Spec" where
  "zero_spec img = \<lparr>spec_Command = '''', spec_Args = [], spec_Image = img, spec_Dirs = [], spec_Files = [],
     spec_Sockets = [], spec_ExcludeFiles = [], spec_StartupExec = [], spec_StartupPort = 0,
     spec_StartupScheme = '''', spec_StartupPath = '''', spec_HealthExec = [], spec_HealthPort = 0,
     spec_HealthScheme = '''', spec_HealthPath = '''', spec_ReadyExec = [], spec_ReadyPort = 0,
     spec_ReadyScheme = '''', spec_ReadyPath = '''', spec_CPURequest = '''', spec_CPULimit = '''',
     spec_MemoryRequest = '''', spec_MemoryLimit = '''', spec_ExtraMounts = [], spec_ExtraEnv = [],
     spec_ProbeConfs = zero_probe_confs, spec_SecurityContext = None, spec_Ports = [],
     spec_Annotations = [], spec_Privileged = False, spec_HostNetwork = False\<rparr>"

text \<open>Conversion to a 32 bit signed integer wraps around.\<close>

definition to_int32 :: "int \<Rightarrow> int" where
  "to_int32 v = (v + 2 ^ 31) mod 2 ^ 32 - 2 ^ 31"

lemma to_int32_id: "- (2 ^ 31) \<le> v \<Longrightarrow> v < 2 ^ 31 \<Longrightarrow> to_int32 v = v"
  by (simp add: to_int32_def)

lemma to_int32_range: "- (2 ^ 31) \<le> to_int32 v \<and> to_int32 v < 2 ^ 31"
proof -
  have "0 \<le> (v + 2 ^ 31) mod 2 ^ 32" "(v + 2 ^ 31) mod 2 ^ 32 < 2 ^ 32" by simp_all
  then show ?thesis by (simp add: to_int32_def)
qed

end
