(* ===== verification/Pod_Config.thy ===== *)
theory Pod_Config
  imports Pod_Types
begin

text \<open>
  \<^verbatim>\<open>pkg/podtemplate/config.go\<close>: the control plane resource and probe settings of the command line, merged
  with the defaults. The source keeps a table from setting names to pointers into the result and ranges
  over that table, a Go map: here a pointer is a selector together with an update, and the order in which
  the range statement visits the table is an argument, so that a result holds for every order.
\<close>

section \<open>Tables of settings\<close>

text \<open>
  The interface of a table of pointers into a structure: storing through one pointer changes what it
  points to and nothing that another pointer of the table points to.
\<close>

locale settings_table =
  fixes keys :: "'k list"
    and load :: "'k \<Rightarrow> 'r \<Rightarrow> 'v"
    and store :: "'k \<Rightarrow> 'v \<Rightarrow> 'r \<Rightarrow> 'r"
  assumes load_store: "k \<in> set keys \<Longrightarrow> k' \<in> set keys \<Longrightarrow>
    load k' (store k v r) = (if k' = k then v else load k' r)"
begin

text \<open>Storing the chosen values, in any order that visits every entry, gives every entry its value.\<close>

lemma load_fold_store:
  assumes "set order \<subseteq> set keys" and "k \<in> set keys"
  shows "load k (fold (\<lambda>k. case choice k of None \<Rightarrow> (\<lambda>r. r) | Some v \<Rightarrow> store k v) order r) =
    (if k \<in> set order then (case choice k of None \<Rightarrow> load k r | Some v \<Rightarrow> v) else load k r)"
  using assms
proof (induction order arbitrary: r)
  case (Cons a order)
  then show ?case by (auto simp: load_store split: option.splits)
qed simp

end

section \<open>Lists of name=value items\<close>

abbreviation comma :: char where "comma \<equiv> CHR '',''"
abbreviation equals :: char where "equals \<equiv> CHR ''=''"

text \<open>The items of a string slice: each element may hold several, separated by commas.\<close>

definition items :: "StringSlice \<Rightarrow> string list" where
  "items slices = concat (map (str_Split comma) slices)"

text \<open>\<^verbatim>\<open>for _, s := range slices { for _, raw := range strings.Split(s, ",") { ... } }\<close>\<close>

definition for_items :: "(string \<Rightarrow> 's \<Rightarrow> 's result) \<Rightarrow> StringSlice \<Rightarrow> 's \<Rightarrow> 's result" where
  "for_items body slices = fold_try (\<lambda>s. fold_try body (str_Split comma s)) slices"

lemma for_items_flat: "for_items body slices m = fold_try body (items slices) m"
proof (induction slices arbitrary: m)
  case (Cons s slices)
  then have "fold_try (\<lambda>s. fold_try body (str_Split comma s)) slices = fold_try body (items slices)"
    by (auto simp: for_items_def)
  then show ?case by (simp add: for_items_def items_def fold_try_append)
qed (simp add: for_items_def items_def)

text \<open>A loop that decodes each item and stores it: it succeeds if every item decodes, and stores them in order.\<close>

lemma fold_decode_iff:
  fixes dec :: "'i \<Rightarrow> err + ('k \<times> 'v)"
  assumes "\<And>raw m. body raw m = try_then (dec raw) (\<lambda>(k, v). Inr (gm_put k v m))"
  shows "fold_try body raws m = Inr m' \<longleftrightarrow>
    (\<forall>raw \<in> set raws. \<not> isl (dec raw)) \<and>
    m' = fold (\<lambda>(k, v). gm_put k v) (map (projr \<circ> dec) raws) m"
proof (induction raws arbitrary: m)
  case (Cons raw raws)
  show ?case
  proof (cases "dec raw")
    case (Inl e)
    then show ?thesis by (simp add: assms)
  next
    case (Inr kv)
    then have "body raw m = Inr (gm_put (fst kv) (snd kv) m)" by (simp add: assms split_beta)
    with Inr show ?thesis by (simp add: Cons.IH split_beta)
  qed
qed auto

text \<open>The name and the value of an item; the last item for a name counts.\<close>

definition split_item :: "string \<Rightarrow> string \<times> string" where
  "split_item raw = (case str_Cut equals raw of (k, v, found) \<Rightarrow> (k, v))"

definition last_setting :: "StringSlice \<Rightarrow> string \<Rightarrow> string option" where
  "last_setting slices name = map_of (rev (map split_item (items slices))) name"

definition well_formed_items :: "StringSlice \<Rightarrow> bool" where
  "well_formed_items slices \<longleftrightarrow> (\<forall>raw \<in> set (items slices). equals \<in> set raw)"

section \<open>Resources\<close>

definition resources ::
  "((string \<times> string) \<times> (ControlPlaneResources \<Rightarrow> string) \<times>
    (string \<Rightarrow> ControlPlaneResources \<Rightarrow> ControlPlaneResources)) list" where
  "resources =
    [((KubeAPIServer, CPURequest), (KubeAPIServerCPURequest, \<lambda>v r. r\<lparr>KubeAPIServerCPURequest := v\<rparr>)),
     ((KubeAPIServer, CPULimit), (KubeAPIServerCPULimit, \<lambda>v r. r\<lparr>KubeAPIServerCPULimit := v\<rparr>)),
     ((KubeAPIServer, MemoryRequest), (KubeAPIServerMemoryRequest, \<lambda>v r. r\<lparr>KubeAPIServerMemoryRequest := v\<rparr>)),
     ((KubeAPIServer, MemoryLimit), (KubeAPIServerMemoryLimit, \<lambda>v r. r\<lparr>KubeAPIServerMemoryLimit := v\<rparr>)),
     ((KubeScheduler, CPURequest), (KubeSchedulerCPURequest, \<lambda>v r. r\<lparr>KubeSchedulerCPURequest := v\<rparr>)),
     ((KubeScheduler, CPULimit), (KubeSchedulerCPULimit, \<lambda>v r. r\<lparr>KubeSchedulerCPULimit := v\<rparr>)),
     ((KubeScheduler, MemoryRequest), (KubeSchedulerMemoryRequest, \<lambda>v r. r\<lparr>KubeSchedulerMemoryRequest := v\<rparr>)),
     ((KubeScheduler, MemoryLimit), (KubeSchedulerMemoryLimit, \<lambda>v r. r\<lparr>KubeSchedulerMemoryLimit := v\<rparr>)),
     ((KubeControllerManager, CPURequest), (KubeControllerManagerCPURequest, \<lambda>v r. r\<lparr>KubeControllerManagerCPURequest := v\<rparr>)),
     ((KubeControllerManager, CPULimit), (KubeControllerManagerCPULimit, \<lambda>v r. r\<lparr>KubeControllerManagerCPULimit := v\<rparr>)),
     ((KubeControllerManager, MemoryRequest), (KubeControllerManagerMemoryRequest, \<lambda>v r. r\<lparr>KubeControllerManagerMemoryRequest := v\<rparr>)),
     ((KubeControllerManager, MemoryLimit), (KubeControllerManagerMemoryLimit, \<lambda>v r. r\<lparr>KubeControllerManagerMemoryLimit := v\<rparr>)),
     ((KubeProxy, CPURequest), (KubeProxyCPURequest, \<lambda>v r. r\<lparr>KubeProxyCPURequest := v\<rparr>)),
     ((KubeProxy, CPULimit), (KubeProxyCPULimit, \<lambda>v r. r\<lparr>KubeProxyCPULimit := v\<rparr>)),
     ((KubeProxy, MemoryRequest), (KubeProxyMemoryRequest, \<lambda>v r. r\<lparr>KubeProxyMemoryRequest := v\<rparr>)),
     ((KubeProxy, MemoryLimit), (KubeProxyMemoryLimit, \<lambda>v r. r\<lparr>KubeProxyMemoryLimit := v\<rparr>)),
     ((Etcd, CPURequest), (EtcdCPURequest, \<lambda>v r. r\<lparr>EtcdCPURequest := v\<rparr>)),
     ((Etcd, CPULimit), (EtcdCPULimit, \<lambda>v r. r\<lparr>EtcdCPULimit := v\<rparr>)),
     ((Etcd, MemoryRequest), (EtcdMemoryRequest, \<lambda>v r. r\<lparr>EtcdMemoryRequest := v\<rparr>)),
     ((Etcd, MemoryLimit), (EtcdMemoryLimit, \<lambda>v r. r\<lparr>EtcdMemoryLimit := v\<rparr>)),
     ((CloudControllerManager, CPURequest), (CloudControllerManagerCPURequest, \<lambda>v r. r\<lparr>CloudControllerManagerCPURequest := v\<rparr>)),
     ((CloudControllerManager, CPULimit), (CloudControllerManagerCPULimit, \<lambda>v r. r\<lparr>CloudControllerManagerCPULimit := v\<rparr>)),
     ((CloudControllerManager, MemoryRequest), (CloudControllerManagerMemoryRequest, \<lambda>v r. r\<lparr>CloudControllerManagerMemoryRequest := v\<rparr>)),
     ((CloudControllerManager, MemoryLimit), (CloudControllerManagerMemoryLimit, \<lambda>v r. r\<lparr>CloudControllerManagerMemoryLimit := v\<rparr>))]"

definition resource_keys :: "(string \<times> string) list" where
  "resource_keys = map fst resources"

definition load_resource :: "string \<times> string \<Rightarrow> ControlPlaneResources \<Rightarrow> string" where
  "load_resource k r = (case map_of resources k of None \<Rightarrow> '''' | Some (ld, st) \<Rightarrow> ld r)"

definition store_resource :: "string \<times> string \<Rightarrow> string \<Rightarrow> ControlPlaneResources \<Rightarrow> ControlPlaneResources" where
  "store_resource k v r = (case map_of resources k of None \<Rightarrow> r | Some (ld, st) \<Rightarrow> st v r)"

definition defaultResources :: "((string \<times> string) \<times> string) list" where
  "defaultResources =
    [((KubeAPIServer, CPURequest), ''250m''), ((KubeAPIServer, MemoryRequest), ''1024Mi''),
     ((KubeScheduler, CPURequest), ''100m''), ((KubeScheduler, MemoryRequest), ''128Mi''),
     ((KubeControllerManager, CPURequest), ''200m''), ((KubeControllerManager, MemoryRequest), ''256Mi''),
     ((KubeProxy, CPURequest), ''250m''), ((KubeProxy, MemoryRequest), ''128Mi''),
     ((Etcd, CPURequest), ''200m''), ((Etcd, MemoryRequest), ''512Mi''),
     ((CloudControllerManager, CPURequest), ''100m''), ((CloudControllerManager, MemoryRequest), ''128Mi'')]"

definition decode_resource :: "string \<Rightarrow> string \<Rightarrow> string \<Rightarrow> (string \<times> string) result" where
  "decode_resource what suffix raw =
     (let v = str_SplitN2 equals raw in
      if length v \<noteq> 2 then
        Inl (Errorf (''incorrectly formatted control plane resource '' @ what @ '' specified: '' @ raw))
      else Inr (v ! 0 @ suffix, v ! 1))"

definition parse_resource_items ::
  "string \<Rightarrow> string \<Rightarrow> StringSlice \<Rightarrow> (string, string) gomap \<Rightarrow> (string, string) gomap result" where
  "parse_resource_items what suffix =
     for_items (\<lambda>raw m. try_then (decode_resource what suffix raw) (\<lambda>(k, v). Inr (gm_put k v m)))"

definition choose_resource :: "(string, string) gomap \<Rightarrow> string \<times> string \<Rightarrow> string option" where
  "choose_resource parsed = (\<lambda>(component, resource).
     case gm_get parsed (component @ ''-'' @ resource) of
       Some val \<Rightarrow> Some val
     | None \<Rightarrow> map_of defaultResources (component, resource))"

definition parseControlPlaneResources ::
  "(string \<times> string) list \<Rightarrow> StringSlice \<Rightarrow> StringSlice \<Rightarrow> ControlPlaneResources result" where
  "parseControlPlaneResources order requests limits =
     try_then (parse_resource_items ''request'' ''-request'' requests []) (\<lambda>parsed.
     try_then (parse_resource_items ''limit'' ''-limit'' limits parsed) (\<lambda>parsed.
     Inr (fold (\<lambda>k. case choose_resource parsed k of None \<Rightarrow> (\<lambda>r. r) | Some val \<Rightarrow> store_resource k val)
            order zero_resources)))"

section \<open>Probes\<close>

definition component_targets ::
  "(string \<times> (ControlPlaneProbeConfs \<Rightarrow> ProbeConfs) \<times>
    ((ProbeConfs \<Rightarrow> ProbeConfs) \<Rightarrow> ControlPlaneProbeConfs \<Rightarrow> ControlPlaneProbeConfs)) list" where
  "component_targets =
    [(KubeAPIServer, (prb_KubeAPIServer, prb_KubeAPIServer_update)),
     (KubeScheduler, (prb_KubeScheduler, prb_KubeScheduler_update)),
     (KubeControllerManager, (prb_KubeControllerManager, prb_KubeControllerManager_update)),
     (KubeProxy, (prb_KubeProxy, prb_KubeProxy_update)),
     (Etcd, (prb_Etcd, prb_Etcd_update)),
     (CloudControllerManager, (prb_CloudControllerManager, prb_CloudControllerManager_update))]"

definition probe_targets ::
  "(string \<times> (ProbeConfs \<Rightarrow> ProbeConf) \<times> ((ProbeConf \<Rightarrow> ProbeConf) \<Rightarrow> ProbeConfs \<Rightarrow> ProbeConfs)) list" where
  "probe_targets =
    [(Liveness, (pcs_Liveness, pcs_Liveness_update)), (Readiness, (pcs_Readiness, pcs_Readiness_update)),
     (Startup, (pcs_Startup, pcs_Startup_update))]"

definition threshold_targets ::
  "(string \<times> (ProbeConf \<Rightarrow> int) \<times> ((int \<Rightarrow> int) \<Rightarrow> ProbeConf \<Rightarrow> ProbeConf)) list" where
  "threshold_targets =
    [(InitialDelaySeconds, (pc_InitialDelaySeconds, pc_InitialDelaySeconds_update)),
     (TimeoutSeconds, (pc_TimeoutSeconds, pc_TimeoutSeconds_update)),
     (FailureThreshold, (pc_FailureThreshold, pc_FailureThreshold_update)),
     (PeriodSeconds, (pc_PeriodSeconds, pc_PeriodSeconds_update))]"

type_synonym probe_key = "string \<times> string \<times> string"

definition probe_keys :: "probe_key list" where
  "probe_keys = concat (map (\<lambda>c. concat (map (\<lambda>p. map (\<lambda>t. (c, p, t)) (map fst threshold_targets))
                  (map fst probe_targets))) (map fst component_targets))"

definition load_probe :: "probe_key \<Rightarrow> ControlPlaneProbeConfs \<Rightarrow> int" where
  "load_probe = (\<lambda>(c, p, t) r.
     case (map_of component_targets c, map_of probe_targets p, map_of threshold_targets t) of
       (Some (getc, _), Some (getp, _), Some (gett, _)) \<Rightarrow> gett (getp (getc r))
     | _ \<Rightarrow> 0)"

definition store_probe :: "probe_key \<Rightarrow> int \<Rightarrow> ControlPlaneProbeConfs \<Rightarrow> ControlPlaneProbeConfs" where
  "store_probe = (\<lambda>(c, p, t) v r.
     case (map_of component_targets c, map_of probe_targets p, map_of threshold_targets t) of
       (Some (_, updc), Some (_, updp), Some (_, updt)) \<Rightarrow> updc (updp (updt (\<lambda>_. v))) r
     | _ \<Rightarrow> r)"

definition defaultProbeConf :: "((string \<times> string) \<times> int) list" where
  "defaultProbeConf =
    [((Liveness, InitialDelaySeconds), 10), ((Liveness, TimeoutSeconds), 15),
     ((Liveness, FailureThreshold), 8), ((Liveness, PeriodSeconds), 10),
     ((Readiness, InitialDelaySeconds), 0), ((Readiness, TimeoutSeconds), 15),
     ((Readiness, FailureThreshold), 3), ((Readiness, PeriodSeconds), 1),
     ((Startup, InitialDelaySeconds), 10), ((Startup, TimeoutSeconds), 15),
     ((Startup, FailureThreshold), 24), ((Startup, PeriodSeconds), 10)]"

definition decode_probe :: "string \<Rightarrow> (string \<times> int) result" where
  "decode_probe raw =
     (let v = str_SplitN2 equals raw in
      if length v \<noteq> 2 then Inl (Errorf (''incorrectly formatted control probe config specified: '' @ raw))
      else case strconv_ParseInt 32 (v ! 1) of
        Inl _ \<Rightarrow> Inl (Errorf (''invalid control plane probe config value specified: '' @ raw))
      | Inr val \<Rightarrow>
          if val < 0 then Inl (Errorf (''invalid control plane probe config value specified: '' @ raw))
          else Inr (v ! 0, to_int32 val))"

definition parse_probe_items :: "StringSlice \<Rightarrow> (string, int) gomap \<Rightarrow> (string, int) gomap result" where
  "parse_probe_items = for_items (\<lambda>raw m. try_then (decode_probe raw) (\<lambda>(k, v). Inr (gm_put k v m)))"

definition choose_probe :: "(string, int) gomap \<Rightarrow> probe_key \<Rightarrow> int option" where
  "choose_probe parsed = (\<lambda>(component, probeName, threshold).
     case gm_get parsed (component @ ''-'' @ probeName @ ''-'' @ threshold) of
       Some val \<Rightarrow> Some val
     | None \<Rightarrow> map_of defaultProbeConf (probeName, threshold))"

definition parseControlPlaneProbeConfs ::
  "probe_key list \<Rightarrow> StringSlice \<Rightarrow> ControlPlaneProbeConfs result" where
  "parseControlPlaneProbeConfs order probeConfs =
     try_then (parse_probe_items probeConfs []) (\<lambda>parsed.
     Inr (fold (\<lambda>k. case choose_probe parsed k of None \<Rightarrow> (\<lambda>r. r) | Some val \<Rightarrow> store_probe k val)
            order zero_probes))"

section \<open>Environment, mounts, configuration\<close>

definition parseControlPlaneEnv :: "ExtraEnv \<Rightarrow> ControlPlaneEnv result" where
  "parseControlPlaneEnv x = Inr
     \<lparr>env_KubeAPIServer = xe_KubeAPIServer x, env_KubeScheduler = xe_KubeScheduler x,
      env_KubeControllerManager = xe_KubeControllerManager x, env_KubeProxy = xe_KubeProxy x,
      env_Etcd = xe_Etcd x, env_CloudControllerManager = xe_CloudControllerManager x\<rparr>"

definition parseControlPlaneMounts :: "ExtraMounts \<Rightarrow> ControlPlaneMounts result" where
  "parseControlPlaneMounts x = Inr
     \<lparr>mnt_KubeAPIServer = xm_KubeAPIServer x, mnt_KubeScheduler = xm_KubeScheduler x,
      mnt_KubeControllerManager = xm_KubeControllerManager x, mnt_KubeProxy = xm_KubeProxy x,
      mnt_Etcd = xm_Etcd x, mnt_CloudControllerManager = xm_CloudControllerManager x\<rparr>"

definition NewConfigFromCLI ::
  "name_pkg \<Rightarrow> build_vars \<Rightarrow> (string \<times> string) list \<Rightarrow> probe_key list \<Rightarrow> string \<Rightarrow> cli_Config \<Rightarrow> Config result" where
  "NewConfigFromCLI pkg bv rorder porder dataDir cfg =
     try_then (NewResolver pkg bv (cc_Images cfg)) (\<lambda>resolver.
     try_then (parseControlPlaneResources rorder (cc_ControlPlaneResourceRequests cfg)
                 (cc_ControlPlaneResourceLimits cfg)) (\<lambda>resources.
     try_then (parseControlPlaneProbeConfs porder (cc_ControlPlaneProbeConf cfg)) (\<lambda>probes.
     try_then (parseControlPlaneEnv (cc_ExtraEnv cfg)) (\<lambda>env.
     try_then (parseControlPlaneMounts (cc_ExtraMounts cfg)) (\<lambda>mounts.
     Inr \<lparr>cfg_ImagesDir = filepath_Join [dataDir, ''agent'', ''images''], cfg_DataDir = dataDir,
          cfg_Resolver = resolver, cfg_Env = env, cfg_Mounts = mounts, cfg_Probes = probes,
          cfg_Resources = resources\<rparr>)))))"

section \<open>The tables are tables of independent pointers\<close>

lemma resource_rows:
  "\<forall>(k, ld, st) \<in> set resources. \<forall>(k', ld', st') \<in> set resources.
     \<forall>v r. ld' (st v r) = (if k' = k then v else ld' r)"
  by (simp add: resources_def component_names setting_names)

lemma resource_keys_distinct: "distinct (map fst resources)"
  by (simp add: resources_def component_names setting_names)

lemma resource_entry:
  assumes "k \<in> set resource_keys"
  obtains ld st where "map_of resources k = Some (ld, st)" and "(k, ld, st) \<in> set resources"
proof -
  from assms obtain x where "(k, x) \<in> set resources" by (auto simp: resource_keys_def)
  then have "map_of resources k = Some x" using resource_keys_distinct by simp
  then show thesis using that [of "fst x" "snd x"] \<open>(k, x) \<in> set resources\<close> by simp
qed

interpretation res_table: settings_table resource_keys load_resource store_resource
proof
  fix k k' v r
  assume "k \<in> set resource_keys" "k' \<in> set resource_keys"
  then obtain ld st ld' st' where
      k: "map_of resources k = Some (ld, st)" "(k, ld, st) \<in> set resources" and
      k': "map_of resources k' = Some (ld', st')" "(k', ld', st') \<in> set resources"
    by (metis resource_entry)
  have "ld' (st v r) = (if k' = k then v else ld' r)" using resource_rows k(2) k'(2) by fast
  then show "load_resource k' (store_resource k v r) = (if k' = k then v else load_resource k' r)"
    by (simp add: load_resource_def store_resource_def k(1) k'(1))
qed

text \<open>A nested pointer: a member of a member. Its parts satisfy the law for updates with a function.\<close>

lemma component_rows:
  "\<forall>(k, ld, up) \<in> set component_targets. \<forall>(k', ld', up') \<in> set component_targets.
     \<forall>f r. ld' (up f r) = (if k' = k then f (ld' r) else ld' r)"
  by (simp add: component_targets_def component_names)

lemma probe_rows:
  "\<forall>(k, ld, up) \<in> set probe_targets. \<forall>(k', ld', up') \<in> set probe_targets.
     \<forall>f r. ld' (up f r) = (if k' = k then f (ld' r) else ld' r)"
  by (simp add: probe_targets_def setting_names)

lemma threshold_rows:
  "\<forall>(k, ld, up) \<in> set threshold_targets. \<forall>(k', ld', up') \<in> set threshold_targets.
     \<forall>f r. ld' (up f r) = (if k' = k then f (ld' r) else ld' r)"
  by (simp add: threshold_targets_def setting_names)

lemma map_of_entry:
  assumes "k \<in> set (map fst t)"
  obtains ld up where "map_of t k = Some (ld, up)" and "(k, ld, up) \<in> set t"
proof -
  from assms obtain x where "map_of t k = Some x" by (metis map_of_eq_None_iff not_None_eq set_map)
  then show thesis using that [of "fst x" "snd x"] map_of_SomeD by fastforce
qed

lemma probe_keys_iff:
  "(c, p, t) \<in> set probe_keys \<longleftrightarrow>
     c \<in> set (map fst component_targets) \<and> p \<in> set (map fst probe_targets) \<and> t \<in> set (map fst threshold_targets)"
  by (auto simp: probe_keys_def)

interpretation probe_table: settings_table probe_keys load_probe store_probe
proof
  fix k k' v r
  assume k: "k \<in> set probe_keys" and k': "k' \<in> set probe_keys"
  obtain c p t c' p' t' where kk: "k = (c, p, t)" "k' = (c', p', t')" by (metis prod_cases3)
  obtain lc uc where c: "map_of component_targets c = Some (lc, uc)" "(c, lc, uc) \<in> set component_targets"
    using k by (metis kk(1) probe_keys_iff map_of_entry)
  obtain lp up where p: "map_of probe_targets p = Some (lp, up)" "(p, lp, up) \<in> set probe_targets"
    using k by (metis kk(1) probe_keys_iff map_of_entry)
  obtain lt ut where t: "map_of threshold_targets t = Some (lt, ut)" "(t, lt, ut) \<in> set threshold_targets"
    using k by (metis kk(1) probe_keys_iff map_of_entry)
  obtain lc' uc' where c': "map_of component_targets c' = Some (lc', uc')" "(c', lc', uc') \<in> set component_targets"
    using k' by (metis kk(2) probe_keys_iff map_of_entry)
  obtain lp' up' where p': "map_of probe_targets p' = Some (lp', up')" "(p', lp', up') \<in> set probe_targets"
    using k' by (metis kk(2) probe_keys_iff map_of_entry)
  obtain lt' ut' where t': "map_of threshold_targets t' = Some (lt', ut')" "(t', lt', ut') \<in> set threshold_targets"
    using k' by (metis kk(2) probe_keys_iff map_of_entry)
  have C: "\<And>f r. lc' (uc f r) = (if c' = c then f (lc' r) else lc' r)"
    using component_rows c(2) c'(2) by fast
  have P: "\<And>f r. lp' (up f r) = (if p' = p then f (lp' r) else lp' r)"
    using probe_rows p(2) p'(2) by fast
  have T: "\<And>f r. lt' (ut f r) = (if t' = t then f (lt' r) else lt' r)"
    using threshold_rows t(2) t'(2) by fast
  have eqs: "c' = c \<Longrightarrow> lc' = lc" "p' = p \<Longrightarrow> lp' = lp" "t' = t \<Longrightarrow> lt' = lt"
    using c(1) c'(1) p(1) p'(1) t(1) t'(1) by auto
  show "load_probe k' (store_probe k v r) = (if k' = k then v else load_probe k' r)"
    by (simp add: kk load_probe_def store_probe_def c(1) p(1) t(1) c'(1) p'(1) t'(1) C P T)
qed

section \<open>What the resource settings are\<close>

lemma decode_resource_iff:
  "decode_resource what suf raw =
     (if equals \<in> set raw then Inr (fst (split_item raw) @ suf, snd (split_item raw))
      else Inl (Errorf (''incorrectly formatted control plane resource '' @ what @ '' specified: '' @ raw)))"
  by (cases rule: str_SplitN2_cases [of equals raw]) (simp_all add: decode_resource_def split_item_def)

lemma parse_resource_items_iff:
  "parse_resource_items what suf slices m = Inr m' \<longleftrightarrow>
     well_formed_items slices \<and>
     m' = fold (\<lambda>(k, v). gm_put k v)
            (map (\<lambda>raw. (fst (split_item raw) @ suf, snd (split_item raw))) (items slices)) m"
proof -
    have maps: "map (projr \<circ> decode_resource what suf) (items slices) =
        map (\<lambda>raw. (fst (split_item raw) @ suf, snd (split_item raw))) (items slices)"
    if "well_formed_items slices"
    using that by (auto simp: decode_resource_iff well_formed_items_def)
  have wf: "(\<forall>raw \<in> set (items slices). \<not> isl (decode_resource what suf raw)) \<longleftrightarrow> well_formed_items slices"
    by (auto simp: decode_resource_iff well_formed_items_def)
  have "parse_resource_items what suf slices m = Inr m' \<longleftrightarrow>
      (\<forall>raw \<in> set (items slices). \<not> isl (decode_resource what suf raw)) \<and>
      m' = fold (\<lambda>(k, v). gm_put k v) (map (projr \<circ> decode_resource what suf) (items slices)) m"
    unfolding parse_resource_items_def for_items_flat by (rule fold_decode_iff) (rule refl)
  then show ?thesis unfolding wf by (cases "well_formed_items slices") (simp_all only: maps simp_thms)
qed


lemma map_of_suffix:
  "map_of (map (\<lambda>x. (f x @ suf, g x)) xs) (n @ suf) = map_of (map (\<lambda>x. (f x, g x)) xs) n"
  by (induction xs) auto

lemma map_of_other_suffix:
  assumes "\<And>a. a @ suf \<noteq> k"
  shows "map_of (map (\<lambda>x. (f x @ suf, g x)) xs) k = None"
  using assms by (induction xs) auto

lemma request_limit_suffix: "a @ ''-request'' \<noteq> n @ ''-limit''" "n @ ''-limit'' \<noteq> a @ ''-request''"
  by (auto dest: arg_cong [of _ _ rev])

lemma last_setting_suffix:
  "map_of (rev (map (\<lambda>raw. (fst (split_item raw) @ suf, snd (split_item raw))) (items slices))) (n @ suf) =
     last_setting slices n"
  unfolding last_setting_def rev_map map_of_suffix by simp

lemma parsed_resources:
  assumes "parse_resource_items ''request'' ''-request'' requests [] = Inr parsed1"
    and "parse_resource_items ''limit'' ''-limit'' limits parsed1 = Inr parsed2"
  shows "gm_get parsed2 (n @ ''-request'') = last_setting requests n"
    and "gm_get parsed2 (n @ ''-limit'') = last_setting limits n"
proof -
  let ?kv = "\<lambda>suf slices. map (\<lambda>raw. (fst (split_item raw) @ suf, snd (split_item raw))) (items slices)"
  have p: "parsed2 = fold (\<lambda>(k, v). gm_put k v) (?kv ''-limit'' limits)
                       (fold (\<lambda>(k, v). gm_put k v) (?kv ''-request'' requests) [])"
    using assms by (simp add: parse_resource_items_iff)
  have none: "map_of (rev (?kv suf slices)) k = None" if "\<And>a. a @ suf \<noteq> k" for suf slices k
    unfolding rev_map by (rule map_of_other_suffix [OF that])
  show "gm_get parsed2 (n @ ''-request'') = last_setting requests n"
    unfolding p gomap.fold_put_last last_setting_suffix
    by (simp add: none request_limit_suffix split: option.split)
  show "gm_get parsed2 (n @ ''-limit'') = last_setting limits n"
    unfolding p gomap.fold_put_last last_setting_suffix
    by (simp add: none request_limit_suffix split: option.split)
qed

text \<open>The setting the user gave for a resource of a component, from the requests or the limits.\<close>

definition user_resource :: "StringSlice \<Rightarrow> StringSlice \<Rightarrow> string \<times> string \<Rightarrow> string option" where
  "user_resource requests limits = (\<lambda>(c, k).
     if k = CPURequest then last_setting requests (c @ ''-cpu'')
     else if k = MemoryRequest then last_setting requests (c @ ''-memory'')
     else if k = CPULimit then last_setting limits (c @ ''-cpu'')
     else last_setting limits (c @ ''-memory''))"

lemma resource_kinds: "\<forall>k \<in> set resource_keys. snd k \<in> {CPURequest, CPULimit, MemoryRequest, MemoryLimit}"
  by (simp add: resource_keys_def resources_def)

lemma resource_kind_keys:
  "c @ ''-'' @ CPURequest = (c @ ''-cpu'') @ ''-request''"
  "c @ ''-'' @ MemoryRequest = (c @ ''-memory'') @ ''-request''"
  "c @ ''-'' @ CPULimit = (c @ ''-cpu'') @ ''-limit''"
  "c @ ''-'' @ MemoryLimit = (c @ ''-memory'') @ ''-limit''"
  by (simp_all add: setting_names)

lemma resource_kinds_neq:
  "CPURequest \<noteq> MemoryRequest" "CPULimit \<noteq> CPURequest" "CPULimit \<noteq> MemoryRequest"
  "MemoryLimit \<noteq> CPURequest" "MemoryLimit \<noteq> MemoryRequest" "MemoryLimit \<noteq> CPULimit"
  by (simp_all add: setting_names)

lemma choose_resource_user:
  assumes "parse_resource_items ''request'' ''-request'' requests [] = Inr parsed1"
    and "parse_resource_items ''limit'' ''-limit'' limits parsed1 = Inr parsed2"
    and "k \<in> set resource_keys"
  shows "choose_resource parsed2 k =
    (case user_resource requests limits k of Some v \<Rightarrow> Some v | None \<Rightarrow> map_of defaultResources k)"
proof -
  obtain c s where k: "k = (c, s)" by (cases k)
    have keys:
    "gm_get parsed2 (c @ ''-'' @ CPURequest) = last_setting requests (c @ ''-cpu'')"
    "gm_get parsed2 (c @ ''-'' @ MemoryRequest) = last_setting requests (c @ ''-memory'')"
    "gm_get parsed2 (c @ ''-'' @ CPULimit) = last_setting limits (c @ ''-cpu'')"
    "gm_get parsed2 (c @ ''-'' @ MemoryLimit) = last_setting limits (c @ ''-memory'')"
    unfolding resource_kind_keys by (rule parsed_resources [OF assms(1,2)])+
  have "s = CPURequest \<or> s = CPULimit \<or> s = MemoryRequest \<or> s = MemoryLimit"
    using bspec [OF resource_kinds assms(3)] unfolding k snd_conv by blast
  then have "gm_get parsed2 (c @ ''-'' @ s) = user_resource requests limits k"
    unfolding k user_resource_def prod.case
    by (elim disjE) (simp_all only: keys resource_kinds_neq resource_kinds_neq [symmetric] if_True if_False simp_thms)
  then show ?thesis unfolding k by (simp add: choose_resource_def)
qed


lemma load_zero_resource:
  assumes "k \<in> set resource_keys"
  shows "load_resource k zero_resources = ''''"
proof -
  have rows: "\<forall>(k, ld, st) \<in> set resources. ld zero_resources = ''''"
    by (simp add: resources_def zero_resources_def)
  obtain ld st where e: "map_of resources k = Some (ld, st)" "(k, ld, st) \<in> set resources"
    using assms by (rule resource_entry)
  have "ld zero_resources = ''''" using bspec [OF rows e(2)] by simp
  then show ?thesis by (simp add: load_resource_def e(1))
qed


text \<open>
  Control plane resource settings. Parsing succeeds exactly if every comma separated item of the
  requests and of the limits holds an equals sign; then, whatever order the range over the table takes,
  each of the 24 settings is the last value the user gave for that component and resource, else its
  default, else empty.
\<close>

theorem resource_settings:
  assumes "set order = set resource_keys"
  shows "((\<exists>r. parseControlPlaneResources order requests limits = Inr r) \<longleftrightarrow>
            well_formed_items requests \<and> well_formed_items limits) \<and>
         (\<forall>r. parseControlPlaneResources order requests limits = Inr r \<longrightarrow>
            (\<forall>k \<in> set resource_keys. load_resource k r =
               (case user_resource requests limits k of Some v \<Rightarrow> v
                | None \<Rightarrow> (case map_of defaultResources k of Some v \<Rightarrow> v | None \<Rightarrow> ''''))))"
proof (intro conjI allI impI ballI)
  show "(\<exists>r. parseControlPlaneResources order requests limits = Inr r) \<longleftrightarrow>
            well_formed_items requests \<and> well_formed_items limits"
    by (auto simp: parseControlPlaneResources_def try_then_Inr_iff parse_resource_items_iff)
  fix r k
  assume "parseControlPlaneResources order requests limits = Inr r" and k: "k \<in> set resource_keys"
  then obtain p1 p2 where p: "parse_resource_items ''request'' ''-request'' requests [] = Inr p1"
      "parse_resource_items ''limit'' ''-limit'' limits p1 = Inr p2"
    and r: "r = fold (\<lambda>k. case choose_resource p2 k of None \<Rightarrow> (\<lambda>r. r) | Some val \<Rightarrow> store_resource k val)
              order zero_resources"
    by (auto simp: parseControlPlaneResources_def)
  show "load_resource k r = (case user_resource requests limits k of Some v \<Rightarrow> v
                | None \<Rightarrow> (case map_of defaultResources k of Some v \<Rightarrow> v | None \<Rightarrow> ''''))"
    using k assms choose_resource_user [OF p k]
    by (auto simp: r res_table.load_fold_store load_zero_resource split: option.splits)
qed

theorem resource_settings_witness:
  "\<exists>r. parseControlPlaneResources resource_keys [''etcd-cpu=1,etcd-cpu=2''] [''etcd-memory=a=b''] = Inr r \<and>
     load_resource (Etcd, CPURequest) r = ''2'' \<and> load_resource (Etcd, MemoryLimit) r = ''a=b'' \<and>
     load_resource (KubeProxy, MemoryRequest) r = ''128Mi'' \<and> load_resource (KubeProxy, CPULimit) r = ''''"
proof -
  let ?q = "[''etcd-cpu=1,etcd-cpu=2'']" and ?l = "[''etcd-memory=a=b'']"
  have wf: "well_formed_items ?q \<and> well_formed_items ?l" by code_simp
  have keys: "(Etcd, CPURequest) \<in> set resource_keys" "(Etcd, MemoryLimit) \<in> set resource_keys"
      "(KubeProxy, MemoryRequest) \<in> set resource_keys" "(KubeProxy, CPULimit) \<in> set resource_keys"
    by code_simp+
  have vals: "user_resource ?q ?l (Etcd, CPURequest) = Some ''2''"
      "user_resource ?q ?l (Etcd, MemoryLimit) = Some ''a=b''"
      "user_resource ?q ?l (KubeProxy, MemoryRequest) = None" "user_resource ?q ?l (KubeProxy, CPULimit) = None"
      "map_of defaultResources (KubeProxy, MemoryRequest) = Some ''128Mi''"
      "map_of defaultResources (KubeProxy, CPULimit) = None"
    by code_simp+
  note main = resource_settings [OF refl, of ?q ?l]
  from main wf obtain r where r: "parseControlPlaneResources resource_keys ?q ?l = Inr r" by blast
  with main have all: "\<forall>k \<in> set resource_keys. load_resource k r =
      (case user_resource ?q ?l k of Some v \<Rightarrow> v
       | None \<Rightarrow> (case map_of defaultResources k of Some v \<Rightarrow> v | None \<Rightarrow> ''''))" by blast
  show ?thesis
    using r bspec [OF all keys(1)] bspec [OF all keys(2)] bspec [OF all keys(3)] bspec [OF all keys(4)]
    unfolding vals by simp
qed

section \<open>What the probe settings are\<close>

definition probe_number :: "string \<Rightarrow> int" where
  "probe_number s = (case strconv_ParseInt 32 s of Inr v \<Rightarrow> v | Inl _ \<Rightarrow> 0)"

definition well_formed_probe :: "string \<Rightarrow> bool" where
  "well_formed_probe raw \<longleftrightarrow> equals \<in> set raw \<and>
     (case strconv_ParseInt 32 (snd (split_item raw)) of Inr v \<Rightarrow> 0 \<le> v | Inl _ \<Rightarrow> False)"

definition well_formed_probes :: "StringSlice \<Rightarrow> bool" where
  "well_formed_probes slices \<longleftrightarrow> (\<forall>raw \<in> set (items slices). well_formed_probe raw)"

definition last_probe :: "StringSlice \<Rightarrow> string \<Rightarrow> int option" where
  "last_probe slices name = map_option probe_number (last_setting slices name)"

lemma decode_probe_ok:
  assumes "well_formed_probe raw"
  shows "decode_probe raw = Inr (fst (split_item raw), probe_number (snd (split_item raw)))"
proof -
  obtain v where v: "strconv_ParseInt 32 (snd (split_item raw)) = Inr v" "0 \<le> v"
    using assms by (auto simp: well_formed_probe_def split: sum.splits)
  then have "to_int32 v = v" using ParseInt_bounds [OF v(1)] by (intro to_int32_id) auto
  with v assms show ?thesis
    by (cases rule: str_SplitN2_cases [of equals raw])
       (auto simp: decode_probe_def split_item_def probe_number_def well_formed_probe_def)
qed

lemma decode_probe_bad: "\<not> well_formed_probe raw \<Longrightarrow> isl (decode_probe raw)"
  by (cases rule: str_SplitN2_cases [of equals raw])
     (auto simp: decode_probe_def split_item_def well_formed_probe_def split: sum.splits)

lemma parse_probe_items_iff:
  "parse_probe_items slices m = Inr m' \<longleftrightarrow>
     well_formed_probes slices \<and>
     m' = fold (\<lambda>(k, v). gm_put k v)
            (map (\<lambda>raw. (fst (split_item raw), probe_number (snd (split_item raw)))) (items slices)) m"
proof -
  have maps: "map (projr \<circ> decode_probe) (items slices) =
        map (\<lambda>raw. (fst (split_item raw), probe_number (snd (split_item raw)))) (items slices)"
    if "well_formed_probes slices"
    using that by (auto simp: decode_probe_ok well_formed_probes_def)
  have wf: "(\<forall>raw \<in> set (items slices). \<not> isl (decode_probe raw)) \<longleftrightarrow> well_formed_probes slices"
    using decode_probe_bad by (auto simp: decode_probe_ok well_formed_probes_def)
  have "parse_probe_items slices m = Inr m' \<longleftrightarrow>
      (\<forall>raw \<in> set (items slices). \<not> isl (decode_probe raw)) \<and>
      m' = fold (\<lambda>(k, v). gm_put k v) (map (projr \<circ> decode_probe) (items slices)) m"
    unfolding parse_probe_items_def for_items_flat by (rule fold_decode_iff) (rule refl)
  then show ?thesis unfolding wf by (cases "well_formed_probes slices") (simp_all only: maps simp_thms)
qed

lemma parsed_probes:
  assumes "parse_probe_items slices [] = Inr parsed"
  shows "gm_get parsed n = last_probe slices n"
proof -
  have "map_of (map (\<lambda>raw. (fst (split_item raw), probe_number (snd (split_item raw)))) ys) n =
        map_option probe_number (map_of (map split_item ys) n)" for ys
    by (induction ys) auto
  from this [of "rev (items slices)"] show ?thesis
    unfolding rev_map [symmetric]
    using assms by (auto simp: parse_probe_items_iff gomap.fold_put_last last_probe_def last_setting_def
        split: option.split)
qed

lemma last_probe_bounds:
  assumes "well_formed_probes slices" and "last_probe slices n = Some v"
  shows "0 \<le> v \<and> v < 2 ^ 31"
proof -
  from assms(2) obtain s where s: "last_setting slices n = Some s" "v = probe_number s"
    by (auto simp: last_probe_def)
  from s(1) have "(n, s) \<in> set (map split_item (items slices))"
    unfolding last_setting_def by (metis map_of_SomeD set_rev)
  then obtain raw where "raw \<in> set (items slices)" "split_item raw = (n, s)" by auto
  with assms(1) have "well_formed_probe raw" by (auto simp: well_formed_probes_def)
  with \<open>split_item raw = (n, s)\<close> obtain w where w: "strconv_ParseInt 32 s = Inr w" "0 \<le> w"
    by (auto simp: well_formed_probe_def split: sum.splits)
  then show ?thesis using ParseInt_bounds [OF w(1)] s(2) by (simp add: probe_number_def)
qed

lemma load_zero_probe: "load_probe k zero_probes = 0"
proof -
    have t: "ld zero_probe_conf = 0" if "(k, ld, up) \<in> set threshold_targets" for k ld up
    using that by (auto simp: threshold_targets_def zero_probe_conf_def)
  have p: "ld zero_probe_confs = zero_probe_conf" if "(k, ld, up) \<in> set probe_targets" for k ld up
    using that by (auto simp: probe_targets_def zero_probe_confs_def)
  have c: "ld zero_probes = zero_probe_confs" if "(k, ld, up) \<in> set component_targets" for k ld up
    using that by (auto simp: component_targets_def zero_probes_def)
  obtain a b d where "k = (a, b, d)" by (metis prod_cases3)
  then show ?thesis
    by (auto simp: load_probe_def split: option.splits dest!: map_of_SomeD) (metis t p c)
qed


lemma probe_kinds: "\<forall>(c, p, t) \<in> set probe_keys. \<exists>v. map_of defaultProbeConf (p, t) = Some v \<and> 0 \<le> v \<and> v < 2 ^ 31"
  by (simp add: probe_keys_def component_targets_def probe_targets_def threshold_targets_def
      defaultProbeConf_def setting_names)

text \<open>
  C23: control plane probe settings. Parsing succeeds exactly if every comma separated item is a name, an
  equals sign and a decimal number from 0 to the largest 32 bit signed integer; then, whatever order the
  range over the table takes, each of the 72 settings is the last number the user gave for that component,
  probe and threshold, else the default of that probe and threshold, and fits in the 32 bits of its field.
\<close>

theorem probe_settings:
  assumes "set order = set probe_keys"
  shows "((\<exists>r. parseControlPlaneProbeConfs order slices = Inr r) \<longleftrightarrow> well_formed_probes slices) \<and>
         (\<forall>r. parseControlPlaneProbeConfs order slices = Inr r \<longrightarrow>
            (\<forall>(c, p, t) \<in> set probe_keys.
               Some (load_probe (c, p, t) r) =
                 (case last_probe slices (c @ ''-'' @ p @ ''-'' @ t) of Some v \<Rightarrow> Some v
                  | None \<Rightarrow> map_of defaultProbeConf (p, t)) \<and>
               0 \<le> load_probe (c, p, t) r \<and> load_probe (c, p, t) r < 2 ^ 31))"
proof (intro conjI allI impI ballI)
  show "(\<exists>r. parseControlPlaneProbeConfs order slices = Inr r) \<longleftrightarrow> well_formed_probes slices"
    by (auto simp: parseControlPlaneProbeConfs_def try_then_Inr_iff parse_probe_items_iff)
  fix r k
  assume "parseControlPlaneProbeConfs order slices = Inr r" and k: "k \<in> set probe_keys"
  then obtain m where m: "parse_probe_items slices [] = Inr m"
    and r: "r = fold (\<lambda>k. case choose_probe m k of None \<Rightarrow> (\<lambda>r. r) | Some val \<Rightarrow> store_probe k val)
              order zero_probes"
    by (auto simp: parseControlPlaneProbeConfs_def)
  have wf: "well_formed_probes slices" using m by (simp add: parse_probe_items_iff)
  obtain c p t where kk: "k = (c, p, t)" by (metis prod_cases3)
  have choice: "choose_probe m (c, p, t) =
      (case last_probe slices (c @ ''-'' @ p @ ''-'' @ t) of Some v \<Rightarrow> Some v | None \<Rightarrow> map_of defaultProbeConf (p, t))"
    unfolding choose_probe_def prod.case parsed_probes [OF m] ..
  obtain v where d: "map_of defaultProbeConf (p, t) = Some v" "0 \<le> v" "v < 2 ^ 31"
    using bspec [OF probe_kinds k] by (auto simp: kk)
  have "load_probe (c, p, t) r = (case choose_probe m (c, p, t) of None \<Rightarrow> 0 | Some v \<Rightarrow> v)"
    using k assms by (simp add: r kk probe_table.load_fold_store load_zero_probe split: option.split)
  then show "case k of (c, p, t) \<Rightarrow>
      Some (load_probe (c, p, t) r) =
        (case last_probe slices (c @ ''-'' @ p @ ''-'' @ t) of Some v \<Rightarrow> Some v
         | None \<Rightarrow> map_of defaultProbeConf (p, t)) \<and>
      0 \<le> load_probe (c, p, t) r \<and> load_probe (c, p, t) r < 2 ^ 31"
    unfolding kk prod.case choice
    using d last_probe_bounds [OF wf] by (cases "last_probe slices (c @ ''-'' @ p @ ''-'' @ t)") auto
qed

theorem probe_settings_witness:
  "\<exists>r. parseControlPlaneProbeConfs probe_keys [''etcd-liveness-period-seconds=7''] = Inr r \<and>
     load_probe (Etcd, Liveness, PeriodSeconds) r = 7 \<and> load_probe (Etcd, Startup, FailureThreshold) r = 24"
proof -
  let ?s = "[''etcd-liveness-period-seconds=7'']"
  have wf: "well_formed_probes ?s" by code_simp
  have keys: "(Etcd, Liveness, PeriodSeconds) \<in> set probe_keys" "(Etcd, Startup, FailureThreshold) \<in> set probe_keys"
    by code_simp+
  have vals: "last_probe ?s (Etcd @ ''-'' @ Liveness @ ''-'' @ PeriodSeconds) = Some 7"
      "last_probe ?s (Etcd @ ''-'' @ Startup @ ''-'' @ FailureThreshold) = None"
      "map_of defaultProbeConf (Startup, FailureThreshold) = Some 24"
    by code_simp+
  note main = probe_settings [OF refl, of ?s]
  from main wf obtain r where r: "parseControlPlaneProbeConfs probe_keys ?s = Inr r" by blast
  have all: "\<forall>(c, p, t) \<in> set probe_keys.
      Some (load_probe (c, p, t) r) =
        (case last_probe ?s (c @ ''-'' @ p @ ''-'' @ t) of Some v \<Rightarrow> Some v
         | None \<Rightarrow> map_of defaultProbeConf (p, t)) \<and>
      0 \<le> load_probe (c, p, t) r \<and> load_probe (c, p, t) r < 2 ^ 31"
    using main r by blast
  show ?thesis
    using r bspec [OF all keys(1)] bspec [OF all keys(2)] unfolding prod.case vals by simp
qed

end
