(* ===== verification/Pod_Template.thy ===== *)
theory Pod_Template
  imports Pod_Config
begin

text \<open>
  \<^verbatim>\<open>pkg/podtemplate/podtemplate.go\<close>, \<^verbatim>\<open>spec.go\<close> and \<^verbatim>\<open>utils.go\<close>: the specification of each control plane
  pod, the pod made from a specification, the files mentioned in its arguments, and the default audit policy
  file. Parsing quantities and kubeconfig files, SHA-256 and YAML are code of other packages: the fields of
  \<open>pod_libs\<close>. The process environment is a field too.
\<close>

section \<open>Kubernetes API types\<close>

record EnvVar =
  ev_Name :: string
  ev_Value :: string

record Volume =
  vol_Name :: string
  vol_HostPath :: string
  vol_Type :: string

record VolumeMount =
  vm_Name :: string
  vm_ReadOnly :: bool
  vm_MountPath :: string

datatype ProbeHandler =
    Exec "string list"
  | HTTPGet (hg_Path: string) (hg_Host: string) (hg_Scheme: string) (hg_Port: int)

record Probe =
  probe_Handler :: ProbeHandler
  probe_InitialDelaySeconds :: int
  probe_TimeoutSeconds :: int
  probe_FailureThreshold :: int
  probe_PeriodSeconds :: int

type_synonym ResourceList = "(string, string) gomap"

record Container =
  con_Name :: string
  con_Image :: string
  con_Command :: "string list"
  con_Args :: "string list"
  con_Ports :: "ContainerPort list"
  con_Env :: "EnvVar list"
  con_Requests :: ResourceList
  con_Limits :: ResourceList
  con_LivenessProbe :: "Probe option"
  con_ReadinessProbe :: "Probe option"
  con_StartupProbe :: "Probe option"
  con_ImagePullPolicy :: string
  con_Privileged :: bool
  con_VolumeMounts :: "VolumeMount list"

record Pod =
  pod_APIVersion :: string
  pod_Kind :: string
  pod_Name :: string
  pod_Namespace :: string
  pod_Labels :: "(string, string) gomap"
  pod_Annotations :: "(string, string) gomap"
  pod_UID :: string
  pod_Container :: Container
  pod_HostNetwork :: bool
  pod_PriorityClassName :: string
  pod_SecurityContext :: "PodSecurityContext option"
  pod_Volumes :: "Volume list"

record kube_cluster =
  CertificateAuthority :: string

record kube_auth =
  ClientKey :: string
  ClientCertificate :: string

record kubeconfig =
  Clusters :: "kube_cluster list"
  AuthInfos :: "kube_auth list"

record audit_policy =
  ap_Kind :: string
  ap_APIVersion :: string
  ap_RuleLevels :: "string list"

record pod_libs =
  ParseQuantity :: "string \<Rightarrow> string result"
  LoadFromFile :: "disk \<Rightarrow> string \<Rightarrow> kubeconfig result"
  sha256_hex :: "string \<Rightarrow> string"
  os_Environ :: "string list"
  policy_yaml :: "audit_policy \<Rightarrow> string result"
  pod_yaml :: "Pod \<Rightarrow> string result"
  pod_md5_uid :: "Pod \<Rightarrow> string \<Rightarrow> string"

section \<open>Probes\<close>

definition createProbe ::
  "string list \<Rightarrow> string \<Rightarrow> string \<Rightarrow> string \<Rightarrow> int \<Rightarrow> ProbeConf \<Rightarrow> Probe option" where
  "createProbe command scheme host path port conf =
     (let mk = (\<lambda>h. \<lparr>probe_Handler = h, probe_InitialDelaySeconds = pc_InitialDelaySeconds conf,
                     probe_TimeoutSeconds = pc_TimeoutSeconds conf,
                     probe_FailureThreshold = pc_FailureThreshold conf,
                     probe_PeriodSeconds = pc_PeriodSeconds conf\<rparr>) in
      if length command \<noteq> 0 then
        let probe = mk (Exec command) in
        Some (if probe_PeriodSeconds probe < 5 then probe\<lparr>probe_PeriodSeconds := 5\<rparr> else probe)
      else if port \<noteq> 0 then
        Some (mk (HTTPGet (if path = '''' then ''/livez'' else path) host
                    (if scheme = '''' then ''HTTPS'' else scheme) port))
      else None)"

definition probe_host :: "Spec \<Rightarrow> string" where
  "probe_host s = (if spec_HostNetwork s then ''localhost'' else '''')"

definition livenessProbe :: "Spec \<Rightarrow> Probe option" where
  "livenessProbe s = createProbe (spec_HealthExec s) (spec_HealthScheme s) (probe_host s) (spec_HealthPath s)
     (spec_HealthPort s) (pcs_Liveness (spec_ProbeConfs s))"

definition readinessProbe :: "Spec \<Rightarrow> Probe option" where
  "readinessProbe s = createProbe (spec_ReadyExec s) (spec_ReadyScheme s) (probe_host s) (spec_ReadyPath s)
     (spec_ReadyPort s) (pcs_Readiness (spec_ProbeConfs s))"

definition startupProbe :: "Spec \<Rightarrow> Probe option" where
  "startupProbe s = createProbe (spec_StartupExec s) (spec_StartupScheme s) (probe_host s) (spec_StartupPath s)
     (spec_StartupPort s) (pcs_Startup (spec_ProbeConfs s))"

section \<open>Volumes, mounts, environment\<close>

datatype typeVolume = Tsocket | Tdir | Tfile

fun volume_prefix :: "typeVolume \<Rightarrow> string" where
  "volume_prefix Tsocket = ''socket''"
| "volume_prefix Tdir = ''dir''"
| "volume_prefix Tfile = ''file''"

fun volume_sourceType :: "typeVolume \<Rightarrow> string" where
  "volume_sourceType Tdir = ''DirectoryOrCreate''"
| "volume_sourceType Tsocket = ''Socket''"
| "volume_sourceType Tfile = ''File''"

fun volume_readOnly :: "typeVolume \<Rightarrow> bool" where
  "volume_readOnly Tdir = False"
| "volume_readOnly Tsocket = False"
| "volume_readOnly Tfile = True"

text \<open>Appending a volume to the pod and its mount to the first container.\<close>

definition add_mount :: "string \<Rightarrow> string \<Rightarrow> string \<Rightarrow> bool \<Rightarrow> string \<Rightarrow> Pod \<Rightarrow> Pod" where
  "add_mount name path ty ro target p =
     p\<lparr>pod_Volumes := pod_Volumes p @ [\<lparr>vol_Name = name, vol_HostPath = path, vol_Type = ty\<rparr>],
       pod_Container := (pod_Container p)\<lparr>con_VolumeMounts := con_VolumeMounts (pod_Container p) @
         [\<lparr>vm_Name = name, vm_ReadOnly = ro, vm_MountPath = target\<rparr>]\<rparr>\<rparr>"

definition addVolumes :: "Pod \<Rightarrow> string list \<Rightarrow> typeVolume \<Rightarrow> Pod" where
  "addVolumes p srcs volume =
     fold (\<lambda>(i, src). add_mount (volume_prefix volume @ itoa i) src (volume_sourceType volume)
                        (volume_readOnly volume) src)
       (enumerate 0 srcs) p"

definition colon :: char where "colon = CHR '':''"

definition detect_sourceType :: "disk \<Rightarrow> string \<Rightarrow> string" where
  "detect_sourceType d path =
     (case os_Stat d path of
        Inl _ \<Rightarrow> ''DirectoryOrCreate''
      | Inr info \<Rightarrow> (case kind info of SocketFile \<Rightarrow> ''Socket'' | Directory \<Rightarrow> ''Directory'' | _ \<Rightarrow> ''File''))"

text \<open>The source, the target, whether it is read-only and the type of one extra mount; None is skipped.\<close>

definition parse_extra_mount :: "disk \<Rightarrow> string \<Rightarrow> (string \<times> string \<times> bool \<times> string) option" where
  "parse_extra_mount d rawMount =
     (let mount = str_Split colon rawMount;
          finish = (\<lambda>ro sourceType.
            Some (mount ! 0, mount ! 1, ro,
                  if sourceType = '''' then detect_sourceType d (mount ! 0) else sourceType)) in
      if length mount = 2 then finish False ''''
      else if length mount = 3 then
        (let opt = str_ToLower (mount ! 2) in
         if opt = ''ro'' then finish True ''''
         else if opt = ''rw'' then finish False ''''
         else None)
      else if length mount = 4 then finish False (mount ! 3)
      else None)"

definition addExtraMounts :: "disk \<Rightarrow> Pod \<Rightarrow> string list \<Rightarrow> Pod" where
  "addExtraMounts d p extraMounts =
     fold (\<lambda>(i, rawMount) p.
             case parse_extra_mount d rawMount of
               None \<Rightarrow> p
             | Some (src, target, ro, ty) \<Rightarrow> add_mount (''extra-mount-'' @ itoa i) src ty ro target p)
       (enumerate 0 extraMounts) p"

definition add_env :: "string \<Rightarrow> string \<Rightarrow> Pod \<Rightarrow> Pod" where
  "add_env n v p = p\<lparr>pod_Container := (pod_Container p)\<lparr>con_Env := con_Env (pod_Container p) @
     [\<lparr>ev_Name = n, ev_Value = v\<rparr>]\<rparr>\<rparr>"

definition addExtraEnv :: "Pod \<Rightarrow> string list \<Rightarrow> Pod" where
  "addExtraEnv p extraEnv =
     fold (\<lambda>rawEnv p. let env = str_SplitN2 equals rawEnv in
             if length env \<noteq> 2 then p else add_env (env ! 0) (env ! 1) p) extraEnv p"

definition addProxyEnv :: "Pod \<Rightarrow> string list \<Rightarrow> Pod" where
  "addProxyEnv p environ =
     fold (\<lambda>env p. let parts = str_SplitN2 equals env in
             if \<not> str_Contains (str_ToLower (parts ! 0)) ''proxy'' then p
             else if length parts = 1 then add_env (parts ! 0) '''' p
             else add_env (parts ! 0) (parts ! 1) p) environ p"

section \<open>The pod\<close>

definition hashFiles :: "pod_libs \<Rightarrow> disk \<Rightarrow> string list \<Rightarrow> string result" where
  "hashFiles libs d files =
     try_then (fold_try (\<lambda>file h. try_then (os_ReadFile d file) (\<lambda>c. Inr (h @ c))) files '''')
       (\<lambda>h. Inr (sha256_hex libs h))"

definition set_quantity :: "pod_libs \<Rightarrow> string \<Rightarrow> string \<Rightarrow> ResourceList \<Rightarrow> ResourceList" where
  "set_quantity libs key text rl =
     (if text \<noteq> '''' then
        (case ParseQuantity libs text of Inl _ \<Rightarrow> rl | Inr q \<Rightarrow> gm_put key q rl)
      else rl)"

definition base_pod :: "name_pkg \<Rightarrow> Spec \<Rightarrow> string \<Rightarrow> Pod" where
  "base_pod pkg spec filehash =
     \<lparr>pod_APIVersion = ''v1'', pod_Kind = ''Pod'', pod_Name = spec_Command spec,
      pod_Namespace = ''kube-system'',
      pod_Labels = [(''component'', spec_Command spec), (''tier'', ''control-plane'')],
      pod_Annotations = spec_Annotations spec, pod_UID = '''',
      pod_Container =
        \<lparr>con_Name = spec_Command spec, con_Image = RefName pkg (spec_Image spec),
         con_Command = [spec_Command spec], con_Args = spec_Args spec, con_Ports = spec_Ports spec,
         con_Env = [\<lparr>ev_Name = ''FILE_HASH'', ev_Value = filehash\<rparr>],
         con_Requests = [], con_Limits = [],
         con_LivenessProbe = livenessProbe spec, con_ReadinessProbe = readinessProbe spec,
         con_StartupProbe = startupProbe spec, con_ImagePullPolicy = ''IfNotPresent'',
         con_Privileged = spec_Privileged spec, con_VolumeMounts = []\<rparr>,
      pod_HostNetwork = spec_HostNetwork spec, pod_PriorityClassName = ''system-cluster-critical'',
      pod_SecurityContext = spec_SecurityContext spec, pod_Volumes = []\<rparr>"

definition set_resources :: "pod_libs \<Rightarrow> Spec \<Rightarrow> Pod \<Rightarrow> Pod" where
  "set_resources libs spec p =
     p\<lparr>pod_Container := (pod_Container p)
        \<lparr>con_Requests := set_quantity libs ''memory'' (spec_MemoryRequest spec)
           (set_quantity libs ''cpu'' (spec_CPURequest spec) (con_Requests (pod_Container p))),
         con_Limits := set_quantity libs ''memory'' (spec_MemoryLimit spec)
           (set_quantity libs ''cpu'' (spec_CPULimit spec) (con_Limits (pod_Container p)))\<rparr>\<rparr>"

definition podtemplate_Pod :: "name_pkg \<Rightarrow> pod_libs \<Rightarrow> disk \<Rightarrow> Spec option \<Rightarrow> Pod option result" where
  "podtemplate_Pod pkg libs d spec =
     (case spec of None \<Rightarrow> Inr None
      | Some spec \<Rightarrow>
          try_then (with_message (''failed to hash files for pod '' @ spec_Command spec)
                      (hashFiles libs d (spec_Files spec))) (\<lambda>filehash.
          let p = set_resources libs spec (base_pod pkg spec filehash);
              p = addProxyEnv p (os_Environ libs);
              p = addVolumes p (spec_Sockets spec) Tsocket;
              p = addVolumes p (spec_Dirs spec) Tdir;
              p = addVolumes p (spec_Files spec) Tfile;
              p = addExtraMounts d p (spec_ExtraMounts spec);
              p = addExtraEnv p (spec_ExtraEnv spec)
          in Inr (Some p)))"

section \<open>Files named by the arguments\<close>

definition kubeconfigFiles :: "pod_libs \<Rightarrow> disk \<Rightarrow> string \<Rightarrow> string list result" where
  "kubeconfigFiles libs d kubeconfig =
     try_then (LoadFromFile libs d kubeconfig) (\<lambda>kc.
     Inr (concat (map (\<lambda>cluster. if CertificateAuthority cluster \<noteq> '''' then [CertificateAuthority cluster] else [])
            (Clusters kc)) @
          concat (map (\<lambda>auth. (if ClientKey auth \<noteq> '''' then [ClientKey auth] else []) @
                              (if ClientCertificate auth \<noteq> '''' then [ClientCertificate auth] else []))
            (AuthInfos kc))))"

text \<open>Whether a value names a file to mount: an absolute path to something that is not a directory.\<close>

definition names_file :: "disk \<Rightarrow> string list \<Rightarrow> string \<Rightarrow> bool" where
  "names_file d excludes v \<longleftrightarrow>
     str_HasPrefix v ''/'' \<and>
     (case os_Stat d v of Inl _ \<Rightarrow> False | Inr i \<Rightarrow> kind i \<noteq> Directory) \<and> v \<notin> set excludes"

definition read_arg ::
  "pod_libs \<Rightarrow> disk \<Rightarrow> string list \<Rightarrow> string \<Rightarrow> (string, bool) gomap \<Rightarrow> (string, bool) gomap result" where
  "read_arg libs d excludes arg files =
     (let parts = str_SplitN2 equals arg in
      if length parts = 2 \<and> names_file d excludes (parts ! 1) then
        let files = gm_put (parts ! 1) True files in
        if parts ! 0 = ''--kubeconfig'' then
          try_then (kubeconfigFiles libs d (parts ! 1)) (\<lambda>certs.
          Inr (fold (\<lambda>cert. gm_put cert True) certs files))
        else Inr files
      else Inr files)"

definition ReadFiles :: "pod_libs \<Rightarrow> disk \<Rightarrow> string list \<Rightarrow> string list \<Rightarrow> string list result" where
  "ReadFiles libs d args excludeFiles =
     try_then (fold_try (read_arg libs d excludeFiles) args []) (\<lambda>files.
     Inr (sort_Strings (gm_keys files)))"

section \<open>Utilities\<close>

definition OnlyExisting :: "disk \<Rightarrow> string list \<Rightarrow> string list" where
  "OnlyExisting d paths = filter (\<lambda>p. \<not> isl (os_Stat d p)) paths"

definition writeIfNotExists :: "string \<Rightarrow> string \<Rightarrow> disk \<Rightarrow> unit result \<times> disk" where
  "writeIfNotExists path content d =
     (case os_MkdirAll (filepath_Dir path) 493 d of
        (Inl e, d') \<Rightarrow> (Inl e, d')
      | (Inr _, d') \<Rightarrow>
          (case os_OpenExcl path 384 d' of
             (Inl e, d'') \<Rightarrow> (if os_IsExist e then Inr () else Inl e, d'')
           | (Inr _, d'') \<Rightarrow> file_Write path content d''))"

definition WriteDefaultPolicyFile :: "pod_libs \<Rightarrow> string \<Rightarrow> disk \<Rightarrow> unit result \<times> disk" where
  "WriteDefaultPolicyFile libs policyFilePath d =
     (case policy_yaml libs \<lparr>ap_Kind = ''Policy'', ap_APIVersion = ''audit.k8s.io/v1'', ap_RuleLevels = [''None'']\<rparr> of
        Inl e \<Rightarrow> (Inl e, d)
      | Inr bytes \<Rightarrow> writeIfNotExists policyFilePath bytes d)"

section \<open>Volumes and mounts of a pod\<close>

text \<open>A mount to be made: name, path on the host, type, whether it is read-only, path in the container.\<close>

type_synonym mount_entry = "string \<times> string \<times> string \<times> bool \<times> string"

definition mount_entry :: "mount_entry \<Rightarrow> Pod \<Rightarrow> Pod" where
  "mount_entry = (\<lambda>(name, path, ty, ro, target). add_mount name path ty ro target)"

definition entry_volume :: "mount_entry \<Rightarrow> Volume" where
  "entry_volume = (\<lambda>(name, path, ty, ro, target). \<lparr>vol_Name = name, vol_HostPath = path, vol_Type = ty\<rparr>)"

definition entry_mount :: "mount_entry \<Rightarrow> VolumeMount" where
  "entry_mount = (\<lambda>(name, path, ty, ro, target). \<lparr>vm_Name = name, vm_ReadOnly = ro, vm_MountPath = target\<rparr>)"

definition volume_entries :: "typeVolume \<Rightarrow> string list \<Rightarrow> mount_entry list" where
  "volume_entries v srcs = map (\<lambda>(i, src). (volume_prefix v @ itoa i, src, volume_sourceType v, volume_readOnly v, src))
     (enumerate 0 srcs)"

definition extra_entries :: "disk \<Rightarrow> string list \<Rightarrow> mount_entry list" where
  "extra_entries d raws = List.map_filter (\<lambda>(i, raw).
     map_option (\<lambda>(src, target, ro, ty). (''extra-mount-'' @ itoa i, src, ty, ro, target)) (parse_extra_mount d raw))
     (enumerate 0 raws)"

definition spec_entries :: "disk \<Rightarrow> Spec \<Rightarrow> mount_entry list" where
  "spec_entries d spec = volume_entries Tsocket (spec_Sockets spec) @ volume_entries Tdir (spec_Dirs spec) @
     volume_entries Tfile (spec_Files spec) @ extra_entries d (spec_ExtraMounts spec)"

lemma addVolumes_entries: "addVolumes p srcs v = fold mount_entry (volume_entries v srcs) p"
  by (simp add: addVolumes_def volume_entries_def fold_map mount_entry_def comp_def case_prod_unfold)

lemma addExtraMounts_entries: "addExtraMounts d p raws = fold mount_entry (extra_entries d raws) p"
proof -
  have "fold (\<lambda>(i, raw) p. case parse_extra_mount d raw of None \<Rightarrow> p
               | Some (src, target, ro, ty) \<Rightarrow> add_mount (''extra-mount-'' @ itoa i) src ty ro target p) xs p =
        fold mount_entry (List.map_filter (\<lambda>(i, raw).
          map_option (\<lambda>(src, target, ro, ty). (''extra-mount-'' @ itoa i, src, ty, ro, target))
            (parse_extra_mount d raw)) xs) p" for xs
    by (induction xs arbitrary: p) (auto simp: mount_entry_def split: option.splits)
  then show ?thesis by (simp add: addExtraMounts_def extra_entries_def)
qed

lemma fold_mount_entry:
  "pod_Volumes (fold mount_entry es p) = pod_Volumes p @ map entry_volume es"
  "con_VolumeMounts (pod_Container (fold mount_entry es p)) =
     con_VolumeMounts (pod_Container p) @ map entry_mount es"
  "con_Env (pod_Container (fold mount_entry es p)) = con_Env (pod_Container p)"
  by (induction es arbitrary: p)
     (auto simp: mount_entry_def add_mount_def entry_volume_def entry_mount_def split: prod.splits)

lemma add_env_simps [simp]:
  "pod_Volumes (add_env n v p) = pod_Volumes p"
  "con_VolumeMounts (pod_Container (add_env n v p)) = con_VolumeMounts (pod_Container p)"
  "con_Env (pod_Container (add_env n v p)) = con_Env (pod_Container p) @ [\<lparr>ev_Name = n, ev_Value = v\<rparr>]"
  by (simp_all add: add_env_def)

text \<open>The environment entries that an assignment text adds.\<close>

definition assignment_env :: "string \<Rightarrow> EnvVar list" where
  "assignment_env raw = (if equals \<in> set raw
     then [\<lparr>ev_Name = fst (split_item raw), ev_Value = snd (split_item raw)\<rparr>] else [])"

definition proxy_env :: "string \<Rightarrow> EnvVar list" where
  "proxy_env raw = (if str_Contains (str_ToLower (fst (split_item raw))) ''proxy''
     then [\<lparr>ev_Name = fst (split_item raw), ev_Value = snd (split_item raw)\<rparr>] else [])"

lemma addExtraEnv_fields:
  "pod_Volumes (addExtraEnv p raws) = pod_Volumes p"
  "con_VolumeMounts (pod_Container (addExtraEnv p raws)) = con_VolumeMounts (pod_Container p)"
  "con_Env (pod_Container (addExtraEnv p raws)) = con_Env (pod_Container p) @ concat (map assignment_env raws)"
proof (induction raws arbitrary: p)
  case (Cons raw raws)
  { case 1 show ?case using Cons.IH(1) by (simp add: addExtraEnv_def Let_def) }
  { case 2 show ?case using Cons.IH(2) by (simp add: addExtraEnv_def Let_def) }
  { case 3 show ?case
      using Cons.IH(3) by (cases rule: str_SplitN2_cases [of equals raw])
        (simp_all add: addExtraEnv_def Let_def assignment_env_def split_item_def) }
qed (simp_all add: addExtraEnv_def)

lemma addProxyEnv_fields:
  "pod_Volumes (addProxyEnv p raws) = pod_Volumes p"
  "con_VolumeMounts (pod_Container (addProxyEnv p raws)) = con_VolumeMounts (pod_Container p)"
  "con_Env (pod_Container (addProxyEnv p raws)) = con_Env (pod_Container p) @ concat (map proxy_env raws)"
proof (induction raws arbitrary: p)
  case (Cons raw raws)
  { case 1 show ?case using Cons.IH(1) by (simp add: addProxyEnv_def Let_def) }
  { case 2 show ?case using Cons.IH(2) by (simp add: addProxyEnv_def Let_def) }
  { case 3 show ?case
      using Cons.IH(3) by (cases rule: str_SplitN2_cases [of equals raw])
        (simp_all add: addProxyEnv_def Let_def proxy_env_def split_item_def str_Cut_no_sep) }
qed (simp_all add: addProxyEnv_def)

lemma pod_parts:
  assumes "podtemplate_Pod pkg libs d (Some spec) = Inr (Some p)"
  obtains h where "hashFiles libs d (spec_Files spec) = Inr h"
    and "pod_Volumes p = map entry_volume (spec_entries d spec)"
    and "con_VolumeMounts (pod_Container p) = map entry_mount (spec_entries d spec)"
    and "con_Env (pod_Container p) = \<lparr>ev_Name = ''FILE_HASH'', ev_Value = h\<rparr> #
           concat (map proxy_env (os_Environ libs)) @ concat (map assignment_env (spec_ExtraEnv spec))"
proof -
  from assms obtain h where h: "hashFiles libs d (spec_Files spec) = Inr h"
    by (auto simp: podtemplate_Pod_def)
  let ?b = "set_resources libs spec (base_pod pkg spec h)"
  have p: "p = addExtraEnv (addExtraMounts d (addVolumes (addVolumes (addVolumes (addProxyEnv ?b (os_Environ libs))
             (spec_Sockets spec) Tsocket) (spec_Dirs spec) Tdir) (spec_Files spec) Tfile) (spec_ExtraMounts spec))
             (spec_ExtraEnv spec)"
    using assms by (simp add: podtemplate_Pod_def h Let_def)
  have b: "pod_Volumes ?b = []" "con_VolumeMounts (pod_Container ?b) = []"
      "con_Env (pod_Container ?b) = [\<lparr>ev_Name = ''FILE_HASH'', ev_Value = h\<rparr>]"
    by (simp_all add: set_resources_def base_pod_def)
  show thesis
    by (rule that [OF h])
       (simp_all add: p addExtraEnv_fields addExtraMounts_entries addVolumes_entries fold_mount_entry
          addProxyEnv_fields b spec_entries_def)
qed

text \<open>Names: each kind of volume has its own prefix, and within a kind the index makes the name unique.\<close>

definition entry_name_of :: "mount_entry \<Rightarrow> string" where
  "entry_name_of e = fst e"

lemma enumerate_fst_distinct: "distinct (map fst (enumerate n xs))"
  by simp

lemma volume_entries_distinct: "distinct (map entry_name_of (volume_entries v srcs))"
proof -
  have "map entry_name_of (volume_entries v srcs) = map (\<lambda>i. volume_prefix v @ itoa i) (map fst (enumerate 0 srcs))"
    by (simp add: volume_entries_def entry_name_of_def case_prod_unfold del: map_fst_enumerate)
  then show ?thesis by (simp only: decimal.distinct_map_print enumerate_fst_distinct)
qed

lemma map_filter_names:
  assumes "\<And>x y. f x = Some y \<Longrightarrow> fst y = g (fst x)"
  shows "\<exists>ys. map fst (List.map_filter f xs) = map g ys \<and> (distinct (map fst xs) \<longrightarrow> distinct ys) \<and> set ys \<subseteq> fst ` set xs"
proof (induction xs)
  case (Cons x xs)
  then obtain ys where ys: "map fst (List.map_filter f xs) = map g ys"
      "distinct (map fst xs) \<longrightarrow> distinct ys" "set ys \<subseteq> fst ` set xs" by blast
  show ?case
  proof (cases "f x")
    case None
    with ys show ?thesis by (auto intro!: exI [of _ ys])
  next
    case (Some y)
    with ys assms [OF Some] show ?thesis by (auto intro!: exI [of _ "fst x # ys"])
  qed
qed simp

lemma extra_entries_names:
  "\<exists>is. map entry_name_of (extra_entries d raws) = map (\<lambda>i. ''extra-mount-'' @ itoa i) is \<and> distinct is"
proof -
  let ?f = "\<lambda>(i, raw). map_option (\<lambda>(src, target, ro, ty). (''extra-mount-'' @ itoa i, src, ty, ro, target))
              (parse_extra_mount d raw)"
  have "fst y = ''extra-mount-'' @ itoa (fst x)" if "?f x = Some y" for x and y :: mount_entry
    using that by (auto split: prod.splits)
  from map_filter_names [of ?f "\<lambda>i. ''extra-mount-'' @ itoa i" "enumerate 0 raws", OF this]
  show ?thesis
    unfolding extra_entries_def entry_name_of_def by auto
qed

lemma volume_entries_prefix:
  "e \<in> set (volume_entries v srcs) \<Longrightarrow> hd (entry_name_of e) = hd (volume_prefix v)"
  by (cases v) (auto simp: volume_entries_def entry_name_of_def)

lemma extra_entries_prefix: "e \<in> set (extra_entries d raws) \<Longrightarrow> hd (entry_name_of e) = CHR ''e''"
  by (auto simp: extra_entries_def entry_name_of_def map_filter_set)

lemma distinct_map_append:
  assumes "distinct (map f xs)" and "distinct (map f ys)"
    and "\<And>x. x \<in> set xs \<Longrightarrow> P (f x)" and "\<And>y. y \<in> set ys \<Longrightarrow> \<not> P (f y)"
  shows "distinct (map f (xs @ ys))"
  using assms by fastforce

lemma spec_entries_distinct: "distinct (map entry_name_of (spec_entries d spec))"
proof -
  have x: "distinct (map entry_name_of (extra_entries d (spec_ExtraMounts spec)))"
    using extra_entries_names [of d "spec_ExtraMounts spec"] decimal.distinct_map_print by metis
  note pre = volume_entries_prefix extra_entries_prefix
  have f: "distinct (map entry_name_of (volume_entries Tfile (spec_Files spec) @ extra_entries d (spec_ExtraMounts spec)))"
    by (rule distinct_map_append [where P = "\<lambda>n. hd n = CHR ''f''"])
       (auto simp: volume_entries_distinct x pre)
  have g: "distinct (map entry_name_of (volume_entries Tdir (spec_Dirs spec) @
      volume_entries Tfile (spec_Files spec) @ extra_entries d (spec_ExtraMounts spec)))"
    by (rule distinct_map_append [where P = "\<lambda>n. hd n = CHR ''d''", OF _ f])
       (auto simp: volume_entries_distinct pre)
  show ?thesis
    unfolding spec_entries_def
    by (rule distinct_map_append [where P = "\<lambda>n. hd n = CHR ''s''", OF _ g])
       (auto simp: volume_entries_distinct pre)
qed

lemma entry_names: "vol_Name (entry_volume e) = entry_name_of e" "vm_Name (entry_mount e) = entry_name_of e"
  by (simp_all add: entry_volume_def entry_mount_def entry_name_of_def split: prod.splits)

lemma volume_entries_nth:
  "src \<in> set srcs \<Longrightarrow> \<exists>n. (n, src, volume_sourceType v, volume_readOnly v, src) \<in> set (volume_entries v srcs)"
  by (force simp: volume_entries_def in_set_conv_nth enumerate_eq_zip image_iff in_set_zip)

text \<open>
  C24: the volumes of a static pod. In the pod made from any specification, no two volumes have the same
  name, the mounts of the container name exactly the volumes, in order, and each file, directory and socket
  of the specification is a volume of that host path and type mounted at the same path, files read-only.
\<close>

theorem pod_volumes:
  assumes "podtemplate_Pod pkg libs d (Some spec) = Inr (Some p)"
  shows "distinct (map vol_Name (pod_Volumes p)) \<and>
         map vm_Name (con_VolumeMounts (pod_Container p)) = map vol_Name (pod_Volumes p) \<and>
         (\<forall>(v, srcs) \<in> {(Tsocket, spec_Sockets spec), (Tdir, spec_Dirs spec), (Tfile, spec_Files spec)}.
            \<forall>src \<in> set srcs. \<exists>n.
              \<lparr>vol_Name = n, vol_HostPath = src, vol_Type = volume_sourceType v\<rparr> \<in> set (pod_Volumes p) \<and>
              \<lparr>vm_Name = n, vm_ReadOnly = volume_readOnly v, vm_MountPath = src\<rparr> \<in>
                set (con_VolumeMounts (pod_Container p)))"
proof -
  from assms obtain h where vols: "pod_Volumes p = map entry_volume (spec_entries d spec)"
    and mounts: "con_VolumeMounts (pod_Container p) = map entry_mount (spec_entries d spec)"
    by (rule pod_parts)
  have "map vol_Name (pod_Volumes p) = map entry_name_of (spec_entries d spec)"
    by (simp add: vols entry_names)
  moreover have "map vm_Name (con_VolumeMounts (pod_Container p)) = map entry_name_of (spec_entries d spec)"
    by (simp add: mounts entry_names)
  moreover have *: "\<exists>n. \<lparr>vol_Name = n, vol_HostPath = src, vol_Type = volume_sourceType v\<rparr> \<in> set (pod_Volumes p) \<and>
      \<lparr>vm_Name = n, vm_ReadOnly = volume_readOnly v, vm_MountPath = src\<rparr> \<in> set (con_VolumeMounts (pod_Container p))"
    if sub: "set (volume_entries v srcs) \<subseteq> set (spec_entries d spec)" and src: "src \<in> set srcs" for v srcs src
  proof -
    from volume_entries_nth [OF src, of v] obtain n where
      "(n, src, volume_sourceType v, volume_readOnly v, src) \<in> set (spec_entries d spec)"
      using sub by blast
    then show ?thesis
      unfolding vols mounts by (force simp: entry_volume_def entry_mount_def image_iff)
  qed
  have "\<forall>(v, srcs) \<in> {(Tsocket, spec_Sockets spec), (Tdir, spec_Dirs spec), (Tfile, spec_Files spec)}.
      set (volume_entries v srcs) \<subseteq> set (spec_entries d spec)"
    by (auto simp: spec_entries_def)
  then have "\<forall>(v, srcs) \<in> {(Tsocket, spec_Sockets spec), (Tdir, spec_Dirs spec), (Tfile, spec_Files spec)}.
      \<forall>src \<in> set srcs. \<exists>n.
        \<lparr>vol_Name = n, vol_HostPath = src, vol_Type = volume_sourceType v\<rparr> \<in> set (pod_Volumes p) \<and>
        \<lparr>vm_Name = n, vm_ReadOnly = volume_readOnly v, vm_MountPath = src\<rparr> \<in> set (con_VolumeMounts (pod_Container p))"
    using * by (intro ballI) (clarsimp split del: if_split, blast)
  moreover note spec_entries_distinct [of d spec]
  ultimately show ?thesis by presburger
qed

text \<open>
  The environment of a static pod's container: first the hash of the contents of its files, in order;
  then the proxy variables of the process; then the extra variables that have the form name=value.
\<close>

theorem pod_environment:
  assumes "podtemplate_Pod pkg libs d (Some spec) = Inr (Some p)"
  shows "\<exists>cs. map (os_ReadFile d) (spec_Files spec) = map Inr cs \<and>
    con_Env (pod_Container p) =
      \<lparr>ev_Name = ''FILE_HASH'', ev_Value = sha256_hex libs (concat cs)\<rparr> #
      concat (map proxy_env (os_Environ libs)) @ concat (map assignment_env (spec_ExtraEnv spec))"
proof -
  from assms obtain h where h: "hashFiles libs d (spec_Files spec) = Inr h"
    and env: "con_Env (pod_Container p) = \<lparr>ev_Name = ''FILE_HASH'', ev_Value = h\<rparr> #
           concat (map proxy_env (os_Environ libs)) @ concat (map assignment_env (spec_ExtraEnv spec))"
    by (rule pod_parts)
  have "\<exists>cs. map (os_ReadFile d) fs = map Inr cs \<and> t = s @ concat cs"
    if "fold_try (\<lambda>file h. try_then (os_ReadFile d file) (\<lambda>c. Inr (h @ c))) fs s = Inr t" for fs s t
    using that
  proof (induction fs arbitrary: s)
    case (Cons f fs)
    then obtain c where c: "os_ReadFile d f = Inr c"
      and rest: "fold_try (\<lambda>file h. try_then (os_ReadFile d file) (\<lambda>c. Inr (h @ c))) fs (s @ c) = Inr t" by auto
    from Cons.IH [OF rest] obtain cs where "map (os_ReadFile d) fs = map Inr cs" "t = (s @ c) @ concat cs" by blast
    with c show ?case by (auto intro!: exI [of _ "c # cs"])
  qed simp
  then show ?thesis using h env by (fastforce simp: hashFiles_def)
qed

section \<open>Probes of a pod\<close>

text \<open>
  What a probe is. There is none exactly if neither a command nor a port is set; a command gives an
  exec probe whose period is the configured one but at least 5 seconds; otherwise the probe is an HTTP get
  of the port with a scheme and a path that are never empty; the delay, the timeout and the threshold are
  the configured ones.
\<close>

theorem createProbe_spec:
  "(createProbe cmd scheme host path port conf = None \<longleftrightarrow> cmd = [] \<and> port = 0) \<and>
   (\<forall>pr. createProbe cmd scheme host path port conf = Some pr \<longrightarrow>
      probe_InitialDelaySeconds pr = pc_InitialDelaySeconds conf \<and>
      probe_TimeoutSeconds pr = pc_TimeoutSeconds conf \<and>
      probe_FailureThreshold pr = pc_FailureThreshold conf \<and>
      (if cmd \<noteq> [] then probe_Handler pr = Exec cmd \<and> probe_PeriodSeconds pr = max 5 (pc_PeriodSeconds conf)
       else probe_PeriodSeconds pr = pc_PeriodSeconds conf \<and>
            (\<exists>sch pth. probe_Handler pr = HTTPGet pth host sch port \<and> sch \<noteq> '''' \<and> pth \<noteq> '''' \<and>
               (scheme \<noteq> '''' \<longrightarrow> sch = scheme) \<and> (path \<noteq> '''' \<longrightarrow> pth = path))))"
  by (auto simp: createProbe_def Let_def max_def)

theorem createProbe_spec_witness:
  "\<exists>pr. createProbe [''kubectl''] '''' '''' '''' 0 (zero_probe_conf\<lparr>pc_PeriodSeconds := 1\<rparr>) = Some pr \<and>
        probe_PeriodSeconds pr = 5"
proof -
  let ?conf = "zero_probe_conf\<lparr>pc_PeriodSeconds := 1\<rparr>"
  have "createProbe [''kubectl''] '''' '''' '''' 0 ?conf \<noteq> None"
    using createProbe_spec [of "[''kubectl'']" "''''" "''''" "''''" 0 ?conf] by simp
  then obtain pr where pr: "createProbe [''kubectl''] '''' '''' '''' 0 ?conf = Some pr" by blast
  then show ?thesis
    using createProbe_spec [of "[''kubectl'']" "''''" "''''" "''''" 0 ?conf]
    by (simp add: zero_probe_conf_def)
qed

section \<open>Files to mount\<close>

text \<open>The files an argument brings in.\<close>

definition arg_files :: "pod_libs \<Rightarrow> disk \<Rightarrow> string list \<Rightarrow> string \<Rightarrow> string list result" where
  "arg_files libs d excludes arg =
     (if equals \<in> set arg \<and> names_file d excludes (snd (split_item arg)) then
        if fst (split_item arg) = ''--kubeconfig'' then
          try_then (kubeconfigFiles libs d (snd (split_item arg))) (\<lambda>certs. Inr (snd (split_item arg) # certs))
        else Inr [snd (split_item arg)]
      else Inr [])"

lemma keys_fold_put:
  "set (gm_keys (fold (\<lambda>c. gm_put c True) cs m)) = set cs \<union> set (gm_keys m)"
  by (induction cs arbitrary: m) (auto simp: set_keys_put)

lemma distinct_fold_put:
  "distinct (gm_keys m) \<Longrightarrow> distinct (gm_keys (fold (\<lambda>c. gm_put c True) cs m))"
  by (induction cs arbitrary: m) (auto simp: distinct_keys_put)

lemma read_arg_eq:
  "read_arg libs d ex arg files =
     try_then (arg_files libs d ex arg) (\<lambda>fs. Inr (fold (\<lambda>f. gm_put f True) fs files))"
proof (cases rule: str_SplitN2_cases [of equals arg])
  case whole
  then show ?thesis by (simp add: read_arg_def arg_files_def)
next
  case (parts b a)
  then show ?thesis
    by (cases "kubeconfigFiles libs d a") (simp_all add: read_arg_def arg_files_def split_item_def Let_def)
qed

lemma fold_read_args:
  "fold_try (read_arg libs d ex) args files = Inr files' \<Longrightarrow>
     (\<forall>arg \<in> set args. \<exists>fs. arg_files libs d ex arg = Inr fs) \<and>
     set (gm_keys files') = set (gm_keys files) \<union> (\<Union>arg \<in> set args. set (projr (arg_files libs d ex arg))) \<and>
     (distinct (gm_keys files) \<longrightarrow> distinct (gm_keys files'))"
proof (induction args arbitrary: files)
  case (Cons arg args)
  then obtain u where u: "read_arg libs d ex arg files = Inr u"
    and rest': "fold_try (read_arg libs d ex) args u = Inr files'" by auto
  from u obtain fs where fs: "arg_files libs d ex arg = Inr fs"
    and "u = fold (\<lambda>f. gm_put f True) fs files" by (auto simp: read_arg_eq)
  with rest' have rest: "fold_try (read_arg libs d ex) args (fold (\<lambda>f. gm_put f True) fs files) = Inr files'"
    by simp
  from Cons.IH [OF rest] fs show ?case by (auto simp: keys_fold_put distinct_fold_put)
qed simp

lemma fold_read_args_ok:
  "\<forall>arg \<in> set args. \<exists>fs. arg_files libs d ex arg = Inr fs \<Longrightarrow>
     \<exists>files'. fold_try (read_arg libs d ex) args files = Inr files'"
  by (induction args arbitrary: files) (auto simp: read_arg_eq)

text \<open>
  The files mounted for a pod's arguments. The list fails to be made exactly if some mentioned
  kubeconfig cannot be read; otherwise it is sorted, has no duplicates, and holds exactly the existing
  files, not directories, that an argument of the form flag=/path names and that are not excluded, together
  with the certificates and keys that a mentioned kubeconfig refers to.
\<close>

theorem ReadFiles_spec:
  "((\<exists>fs. ReadFiles libs d args ex = Inr fs) \<longleftrightarrow> (\<forall>arg \<in> set args. \<exists>fs. arg_files libs d ex arg = Inr fs)) \<and>
   (\<forall>fs. ReadFiles libs d args ex = Inr fs \<longrightarrow>
      sorted fs \<and> distinct fs \<and>
      set fs = (\<Union>arg \<in> set args. set (projr (arg_files libs d ex arg))))"
proof (intro conjI allI impI)
  show "(\<exists>fs. ReadFiles libs d args ex = Inr fs) \<longleftrightarrow> (\<forall>arg \<in> set args. \<exists>fs. arg_files libs d ex arg = Inr fs)"
  proof
    assume "\<exists>fs. ReadFiles libs d args ex = Inr fs"
    then obtain files' where "fold_try (read_arg libs d ex) args [] = Inr files'" by (auto simp: ReadFiles_def)
    then show "\<forall>arg \<in> set args. \<exists>fs. arg_files libs d ex arg = Inr fs" using fold_read_args by blast
  next
    assume "\<forall>arg \<in> set args. \<exists>fs. arg_files libs d ex arg = Inr fs"
    then obtain files' where "fold_try (read_arg libs d ex) args [] = Inr files'" using fold_read_args_ok by blast
    then show "\<exists>fs. ReadFiles libs d args ex = Inr fs" by (simp add: ReadFiles_def)
  qed
  fix fs
  assume "ReadFiles libs d args ex = Inr fs"
  then obtain files' where f: "fold_try (read_arg libs d ex) args [] = Inr files'"
    and fs: "fs = sort_Strings (gm_keys files')" by (auto simp: ReadFiles_def)
  from fold_read_args [OF f] show "sorted fs" "distinct fs"
      "set fs = (\<Union>arg \<in> set args. set (projr (arg_files libs d ex arg)))"
    by (simp_all add: fs gm_keys_def)
qed

section \<open>Witnesses\<close>

definition simple_libs :: pod_libs where
  "simple_libs =
     \<lparr>ParseQuantity = Inr,
      LoadFromFile = (\<lambda>d p. Inr \<lparr>Clusters = [\<lparr>CertificateAuthority = ''/etc/ca''\<rparr>], AuthInfos = []\<rparr>),
      sha256_hex = (\<lambda>s. s), os_Environ = [''HTTP_PROXY=p:1'', ''HOME=/root''],
      policy_yaml = (\<lambda>_. Inr ''policy''), pod_yaml = (\<lambda>p. Inr (pod_Name p)), pod_md5_uid = (\<lambda>p path. pod_Name p @ path)\<rparr>"

definition small_disk :: disk where
  "small_disk = empty_disk\<lparr>tree := [(''/etc'', new_inode Directory 493), (''/etc/a'', new_inode (Regular ''xyz'') 420)]\<rparr>"

definition small_spec :: Spec where
  "small_spec = (zero_spec (TagRef \<lparr>ref_registry = Registry ''r'', ref_repository = ''e'', ref_identifier = ''latest''\<rparr>))
     \<lparr>spec_Command := ''etcd'', spec_Files := [''/etc/a''], spec_Dirs := [''/var''], spec_ExtraEnv := [''A=b=c'', ''bad''],
      spec_ExtraMounts := [''/x:/y:ro'', ''bad'', ''/s:/t'']\<rparr>"

definition small_pod :: Pod where
  "small_pod = (case podtemplate_Pod simple_names simple_libs small_disk (Some small_spec) of
     Inr (Some p) \<Rightarrow> p | _ \<Rightarrow> base_pod simple_names small_spec '''')"

lemma small_pod_made: "podtemplate_Pod simple_names simple_libs small_disk (Some small_spec) = Inr (Some small_pod)"
proof -
  have "hashFiles simple_libs small_disk (spec_Files small_spec) = Inr ''xyz''" by code_simp
  then show ?thesis by (simp add: small_pod_def podtemplate_Pod_def Let_def)
qed

theorem pod_volumes_witness:
  "\<exists>n. \<lparr>vol_Name = n, vol_HostPath = ''/etc/a'', vol_Type = ''File''\<rparr> \<in> set (pod_Volumes small_pod) \<and>
       \<lparr>vm_Name = n, vm_ReadOnly = True, vm_MountPath = ''/etc/a''\<rparr> \<in> set (con_VolumeMounts (pod_Container small_pod))"
proof -
  have "''/etc/a'' \<in> set (spec_Files small_spec)" by (simp add: small_spec_def)
  then show ?thesis using pod_volumes [OF small_pod_made] by simp
qed

theorem pod_environment_witness:
  "con_Env (pod_Container small_pod) =
     [\<lparr>ev_Name = ''FILE_HASH'', ev_Value = ''xyz''\<rparr>, \<lparr>ev_Name = ''HTTP_PROXY'', ev_Value = ''p:1''\<rparr>,
      \<lparr>ev_Name = ''A'', ev_Value = ''b=c''\<rparr>]"
proof -
  have vals: "concat (map proxy_env (os_Environ simple_libs)) = [\<lparr>ev_Name = ''HTTP_PROXY'', ev_Value = ''p:1''\<rparr>]"
      "concat (map assignment_env (spec_ExtraEnv small_spec)) = [\<lparr>ev_Name = ''A'', ev_Value = ''b=c''\<rparr>]"
      "map (os_ReadFile small_disk) (spec_Files small_spec) = [Inr ''xyz'']"
    by code_simp+
  from pod_environment [OF small_pod_made, unfolded vals] obtain cs where
      cs: "([Inr ''xyz''] :: string result list) = map Inr cs"
    and env: "con_Env (pod_Container small_pod) =
      \<lparr>ev_Name = ''FILE_HASH'', ev_Value = sha256_hex simple_libs (concat cs)\<rparr> #
      [\<lparr>ev_Name = ''HTTP_PROXY'', ev_Value = ''p:1''\<rparr>] @ [\<lparr>ev_Name = ''A'', ev_Value = ''b=c''\<rparr>]"
    by (elim exE conjE)
  from cs have "cs = [''xyz'']" by (cases cs) simp_all
  then show ?thesis using env by (simp add: simple_libs_def)
qed

theorem ReadFiles_spec_witness:
  "\<exists>fs. ReadFiles simple_libs small_disk [''--kubeconfig=/etc/a'', ''--v=2'', ''--dir=/etc''] [] = Inr fs \<and>
        set fs = {''/etc/a'', ''/etc/ca''} \<and> distinct fs"
proof -
  let ?args = "[''--kubeconfig=/etc/a'', ''--v=2'', ''--dir=/etc'']"
  have a: "arg_files simple_libs small_disk [] ''--kubeconfig=/etc/a'' = Inr [''/etc/a'', ''/etc/ca'']"
      "arg_files simple_libs small_disk [] ''--v=2'' = Inr []" "arg_files simple_libs small_disk [] ''--dir=/etc'' = Inr []"
    by code_simp+
  then have "\<forall>arg \<in> set ?args. \<exists>fs. arg_files simple_libs small_disk [] arg = Inr fs" by simp
  then obtain fs where fs: "ReadFiles simple_libs small_disk ?args [] = Inr fs"
    using ReadFiles_spec [of simple_libs small_disk ?args "[]"] by blast
  then have "distinct fs \<and> set fs = (\<Union>arg \<in> set ?args. set (projr (arg_files simple_libs small_disk [] arg)))"
    using ReadFiles_spec [of simple_libs small_disk ?args "[]"] by blast
  with fs a show ?thesis by simp
qed

section \<open>The default audit policy file\<close>

lemma path_prefixes_not_self:
  assumes "ds \<noteq> []" and "\<forall>n \<in> set ds. is_name n" and "is_name n"
  shows "abs_path (ds @ [n]) \<notin> set (path_prefixes (abs_path ds))"
  using assms path_prefixes_not_child [of ds n] by (simp add: abs_path_snoc is_name_def)

lemma os_OpenExcl_exists:
  "gm_get (tree d) p = Some i \<Longrightarrow> os_OpenExcl p pm d = (r, d') \<Longrightarrow> (\<exists>e. r = Inl e) \<and> d' = d"
  by (auto simp: os_OpenExcl_def split: option.splits)

text \<open>
  The default audit policy file is only ever created. An existing file at that path is kept as it is,
  whatever happens; on success with no file there before, it holds the given content with mode 0600; only the
  directories on the way and the file itself change.
\<close>

theorem writeIfNotExists_spec:
  assumes "writeIfNotExists path content d = (res, d')"
    and "path = abs_path (ds @ [n])" and "ds \<noteq> []" and "\<forall>x \<in> set ds. is_name x" and "is_name n"
    and "\<forall>e. faults d OpOpen path = Some e \<longrightarrow> \<not> os_IsExist e"
  shows "(\<forall>i. gm_get (tree d) path = Some i \<longrightarrow> gm_get (tree d') path = Some i) \<and>
         (res = Inr () \<and> gm_get (tree d) path = None \<longrightarrow>
            gm_get (tree d') path = Some (new_inode (Regular content) 384)) \<and>
         touches (\<lambda>q. q \<in> set (path_prefixes (abs_path ds)) \<or> q = path) d d'"
proof -
  let ?A = "\<lambda>q. q \<in> set (path_prefixes (abs_path ds)) \<or> q = path"
  have dir: "filepath_Dir path = abs_path ds" using assms(2-5) by (simp add: Dir_abs)
  obtain r1 d1 where m: "os_MkdirAll (abs_path ds) 493 d = (r1, d1)" by (cases "os_MkdirAll (abs_path ds) 493 d")
  have t1: "touches (\<lambda>q. q \<in> set (path_prefixes (abs_path ds))) d d1" by (rule os_MkdirAll_touches [OF m])
  have same: "gm_get (tree d1) path = gm_get (tree d) path"
    using path_prefixes_not_self [OF assms(3-5)] assms(2) touches_get [OF t1] by blast
  have t1': "touches ?A d d1" using t1 by (rule touches_mono) simp
  show ?thesis
  proof (cases r1)
    case (Inl e)
    then show ?thesis using assms(1) m same t1' by (auto simp: writeIfNotExists_def dir)
  next
    case (Inr u)
    obtain r2 d2 where o: "os_OpenExcl path 384 d1 = (r2, d2)" by (cases "os_OpenExcl path 384 d1")
    have t2: "touches ?A d1 d2" by (rule os_OpenExcl_touches [OF o]) simp
    show ?thesis
    proof (cases r2)
      case (Inl e)
      have "d2 = d1" using o Inl os_OpenExcl_fail by blast
      moreover have "\<not> os_IsExist e" if "gm_get (tree d) path = None"
        using o Inl that assms(6) same touches_faults [OF t1]
        by (auto simp: os_OpenExcl_def split: option.splits if_splits)
      ultimately show ?thesis
        using assms(1) m o Inr Inl same t1' by (auto simp: writeIfNotExists_def dir split: if_splits)
    next
      case (Inr v)
      then have o': "os_OpenExcl path 384 d1 = (Inr (), d2)" using o by simp
      have w: "file_Write path content d2 = (res, d')"
        using assms(1) m \<open>r1 = Inr u\<close> o' by (simp add: writeIfNotExists_def dir)
      have "touches ?A d2 d'" by (rule file_Write_touches [OF w]) simp
      then have "touches ?A d d'" using t1' t2 touches_trans by blast
      moreover have "res = Inr () \<longrightarrow> gm_get (tree d') path = Some (new_inode (Regular content) 384)"
        using file_Write_get [OF _ os_OpenExcl_ok(2) [OF o']] w by (auto simp: new_inode_def)
      ultimately show ?thesis using os_OpenExcl_ok(1) [OF o'] same by simp
    qed
  qed
qed

theorem writeIfNotExists_spec_witness:
  "gm_get (tree (snd (writeIfNotExists ''/etc/p'' ''x'' small_disk))) ''/etc/p'' = Some (new_inode (Regular ''x'') 384)"
proof -
  let ?w = "writeIfNotExists ''/etc/p'' ''x'' small_disk"
  have 1: "?w = (fst ?w, snd ?w)" by simp
  have 2: "''/etc/p'' = abs_path ([''etc''] @ [''p''])" by code_simp
  have 3: "[''etc''] \<noteq> []" "\<forall>x \<in> set [''etc'']. is_name x" "is_name ''p''" by code_simp+
  have 4: "\<forall>e. faults small_disk OpOpen ''/etc/p'' = Some e \<longrightarrow> \<not> os_IsExist e"
    by (simp add: small_disk_def empty_disk_def)
  have 5: "fst ?w = Inr ()" "gm_get (tree small_disk) ''/etc/p'' = None" by code_simp+
  show ?thesis using writeIfNotExists_spec [OF 1 2 3 4] 5 by blast
qed

end
