(* ===== verification/Pod_Spec.thy ===== *)
theory Pod_Spec
  imports Pod_Template
begin

text \<open>
  \<^verbatim>\<open>pkg/podtemplate/spec.go\<close>: the specification of each control plane pod. Making one resolves the image and
  leaves the pre-pull file for it. The port of the API server comes from the K3s server configuration, which
  is code of another module, and is an argument.
\<close>

definition resolveAndPull ::
  "name_pkg \<Rightarrow> build_vars \<Rightarrow> Config \<Rightarrow> string \<Rightarrow> disk \<Rightarrow> reference result \<times> disk" where
  "resolveAndPull pkg bv c imageName d =
     (case GetReference pkg bv (cfg_Resolver c) imageName [] of
        Inl e \<Rightarrow> (Inl e, d)
      | Inr img \<Rightarrow>
          if cfg_ImagesDir c \<noteq> '''' then
            (case Pull pkg (cfg_ImagesDir c) imageName img d of
               (Inl e, d') \<Rightarrow> (Inl e, d')
             | (Inr _, d') \<Rightarrow> (Inr img, d'))
          else (Inr img, d))"

definition tcp_port :: "string \<Rightarrow> int \<Rightarrow> ContainerPort" where
  "tcp_port n p = \<lparr>port_Name = n, port_Protocol = ''TCP'', port_ContainerPort = p\<rparr>"

definition api_probe_command :: "string \<Rightarrow> string \<Rightarrow> string \<Rightarrow> string list" where
  "api_probe_command dataDir server endpoint =
     [''kubectl'', ''get'', ''--server='' @ server,
      ''--client-certificate='' @ dataDir @ ''/server/tls/client-kube-apiserver.crt'',
      ''--client-key='' @ dataDir @ ''/server/tls/client-kube-apiserver.key'',
      ''--certificate-authority='' @ dataDir @ ''/server/tls/server-ca.crt'',
      ''--raw='' @ endpoint]"

definition APIServer_spec ::
  "name_pkg \<Rightarrow> build_vars \<Rightarrow> nat \<Rightarrow> Config \<Rightarrow> string list \<Rightarrow> disk \<Rightarrow> Spec result \<times> disk" where
  "APIServer_spec pkg bv port c args d =
     (case resolveAndPull pkg bv c Img_KubeAPIServer d of
        (Inl e, d') \<Rightarrow> (Inl e, d')
      | (Inr img, d') \<Rightarrow>
          (Inr ((zero_spec img)
            \<lparr>spec_Command := ''kube-apiserver'',
             spec_Args := args,
             spec_StartupExec := api_probe_command (cfg_DataDir c) (''https://localhost:'' @ itoa port @ ''/'') ''/livez'',
             spec_HealthExec := api_probe_command (cfg_DataDir c) (''https://localhost:'' @ itoa port @ ''/'') ''/livez'',
             spec_ReadyExec := api_probe_command (cfg_DataDir c) (''https://localhost:'' @ itoa port @ ''/'') ''/readyz'',
             spec_Ports := [tcp_port ''apiserver'' (to_int32 (int port))],
             spec_CPURequest := KubeAPIServerCPURequest (cfg_Resources c),
             spec_CPULimit := KubeAPIServerCPULimit (cfg_Resources c),
             spec_MemoryRequest := KubeAPIServerMemoryRequest (cfg_Resources c),
             spec_MemoryLimit := KubeAPIServerMemoryLimit (cfg_Resources c),
             spec_ExtraEnv := env_KubeAPIServer (cfg_Env c),
             spec_ExtraMounts := mnt_KubeAPIServer (cfg_Mounts c),
             spec_ProbeConfs := prb_KubeAPIServer (cfg_Probes c)\<rparr>), d'))"

definition ETCD_spec ::
  "name_pkg \<Rightarrow> build_vars \<Rightarrow> Config \<Rightarrow> string list \<Rightarrow> disk \<Rightarrow> Spec result \<times> disk" where
  "ETCD_spec pkg bv c args d =
     (case resolveAndPull pkg bv c Img_ETCD d of
        (Inl e, d') \<Rightarrow> (Inl e, d')
      | (Inr img, d') \<Rightarrow>
          (Inr ((zero_spec img)
            \<lparr>spec_Command := ''etcd'',
             spec_Args := args,
             spec_HealthPort := 2381,
             spec_HealthPath := ''/health?serializable=true'',
             spec_HealthScheme := ''HTTP'',
             spec_StartupPort := 2381,
             spec_StartupPath := ''/health?serializable=true'',
             spec_StartupScheme := ''HTTP'',
             spec_Ports := [tcp_port ''client'' 2379, tcp_port ''peer'' 2380, tcp_port ''metrics'' 2381],
             spec_CPURequest := EtcdCPURequest (cfg_Resources c),
             spec_CPULimit := EtcdCPULimit (cfg_Resources c),
             spec_MemoryRequest := EtcdMemoryRequest (cfg_Resources c),
             spec_MemoryLimit := EtcdMemoryLimit (cfg_Resources c),
             spec_ExtraEnv := env_Etcd (cfg_Env c),
             spec_ExtraMounts := mnt_Etcd (cfg_Mounts c),
             spec_ProbeConfs := prb_Etcd (cfg_Probes c)\<rparr>), d'))"

definition Scheduler_spec ::
  "name_pkg \<Rightarrow> build_vars \<Rightarrow> Config \<Rightarrow> string list \<Rightarrow> disk \<Rightarrow> Spec result \<times> disk" where
  "Scheduler_spec pkg bv c args d =
     (case resolveAndPull pkg bv c Img_KubeScheduler d of
        (Inl e, d') \<Rightarrow> (Inl e, d')
      | (Inr img, d') \<Rightarrow>
          (Inr ((zero_spec img)
            \<lparr>spec_Command := ''kube-scheduler'',
             spec_Args := args,
             spec_HealthPort := 10259,
             spec_HealthScheme := ''HTTPS'',
             spec_ReadyPort := 10259,
             spec_ReadyScheme := ''HTTPS'',
             spec_ReadyPath := ''/readyz'',
             spec_StartupPort := 10259,
             spec_StartupScheme := ''HTTPS'',
             spec_Ports := [tcp_port ''metrics'' 10259],
             spec_CPURequest := KubeSchedulerCPURequest (cfg_Resources c),
             spec_CPULimit := KubeSchedulerCPULimit (cfg_Resources c),
             spec_MemoryRequest := KubeSchedulerMemoryRequest (cfg_Resources c),
             spec_MemoryLimit := KubeSchedulerMemoryLimit (cfg_Resources c),
             spec_ExtraEnv := env_KubeScheduler (cfg_Env c),
             spec_ExtraMounts := mnt_KubeScheduler (cfg_Mounts c),
             spec_ProbeConfs := prb_KubeScheduler (cfg_Probes c)\<rparr>), d'))"

definition ControllerManager_spec ::
  "name_pkg \<Rightarrow> build_vars \<Rightarrow> Config \<Rightarrow> string list \<Rightarrow> disk \<Rightarrow> Spec result \<times> disk" where
  "ControllerManager_spec pkg bv c args d =
     (case resolveAndPull pkg bv c Img_KubeControllerManager d of
        (Inl e, d') \<Rightarrow> (Inl e, d')
      | (Inr img, d') \<Rightarrow>
          (Inr ((zero_spec img)
            \<lparr>spec_Command := ''kube-controller-manager'',
             spec_Args := args,
             spec_HealthPort := 10257,
             spec_HealthScheme := ''HTTPS'',
             spec_HealthPath := ''/healthz'',
             spec_StartupPort := 10257,
             spec_StartupScheme := ''HTTPS'',
             spec_StartupPath := ''/healthz'',
             spec_Ports := [tcp_port ''metrics'' 10257],
             spec_CPURequest := KubeControllerManagerCPURequest (cfg_Resources c),
             spec_CPULimit := KubeControllerManagerCPULimit (cfg_Resources c),
             spec_MemoryRequest := KubeControllerManagerMemoryRequest (cfg_Resources c),
             spec_MemoryLimit := KubeControllerManagerMemoryLimit (cfg_Resources c),
             spec_ExtraEnv := env_KubeControllerManager (cfg_Env c),
             spec_ExtraMounts := mnt_KubeControllerManager (cfg_Mounts c),
             spec_ProbeConfs := prb_KubeControllerManager (cfg_Probes c)\<rparr>), d'))"

definition CloudControllerManager_spec ::
  "name_pkg \<Rightarrow> build_vars \<Rightarrow> Config \<Rightarrow> string list \<Rightarrow> disk \<Rightarrow> Spec result \<times> disk" where
  "CloudControllerManager_spec pkg bv c args d =
     (case resolveAndPull pkg bv c Img_CloudControllerManager d of
        (Inl e, d') \<Rightarrow> (Inl e, d')
      | (Inr img, d') \<Rightarrow>
          (Inr ((zero_spec img)
            \<lparr>spec_Command := ''cloud-controller-manager'',
             spec_Args := args,
             spec_HealthPort := 10258,
             spec_HealthScheme := ''HTTPS'',
             spec_HealthPath := ''/healthz'',
             spec_StartupPort := 10258,
             spec_StartupScheme := ''HTTPS'',
             spec_StartupPath := ''/healthz'',
             spec_Ports := [tcp_port ''metrics'' 10258],
             spec_CPURequest := CloudControllerManagerCPURequest (cfg_Resources c),
             spec_CPULimit := CloudControllerManagerCPULimit (cfg_Resources c),
             spec_MemoryRequest := CloudControllerManagerMemoryRequest (cfg_Resources c),
             spec_MemoryLimit := CloudControllerManagerMemoryLimit (cfg_Resources c),
             spec_ExtraEnv := env_CloudControllerManager (cfg_Env c),
             spec_ExtraMounts := mnt_CloudControllerManager (cfg_Mounts c),
             spec_ProbeConfs := prb_CloudControllerManager (cfg_Probes c)\<rparr>), d'))"

definition KubeProxy_spec ::
  "name_pkg \<Rightarrow> build_vars \<Rightarrow> Config \<Rightarrow> string list \<Rightarrow> disk \<Rightarrow> Spec result \<times> disk" where
  "KubeProxy_spec pkg bv c args d =
     (case resolveAndPull pkg bv c Img_KubeProxy d of
        (Inl e, d') \<Rightarrow> (Inl e, d')
      | (Inr img, d') \<Rightarrow>
          (Inr ((zero_spec img)
            \<lparr>spec_Command := ''kube-proxy'',
             spec_Args := args,
             spec_HealthPort := 10256,
             spec_HealthScheme := ''HTTP'',
             spec_Privileged := True,
             spec_Ports := [tcp_port ''metrics'' 10256],
             spec_CPURequest := KubeProxyCPURequest (cfg_Resources c),
             spec_CPULimit := KubeProxyCPULimit (cfg_Resources c),
             spec_MemoryRequest := KubeProxyMemoryRequest (cfg_Resources c),
             spec_MemoryLimit := KubeProxyMemoryLimit (cfg_Resources c),
             spec_ExtraEnv := env_KubeProxy (cfg_Env c),
             spec_ExtraMounts := mnt_KubeProxy (cfg_Mounts c),
             spec_ProbeConfs := prb_KubeProxy (cfg_Probes c)\<rparr>), d'))"

end
