(* ===== verification/Static_Manifest.thy ===== *)
theory Static_Manifest
  imports Pod_Spec
begin

text \<open>
  The part of \<^verbatim>\<open>pkg/executor/staticpod/staticpod.go\<close> that puts static pod manifests on disk for the kubelet:
  \<^verbatim>\<open>writeFile\<close>, \<^verbatim>\<open>writeTemplate\<close>, \<^verbatim>\<open>removeTemplate\<close> and \<^verbatim>\<open>chownr\<close>. The text that \<^verbatim>\<open>os.MkdirTemp\<close>
  appends to its pattern is an argument. Marshalling to YAML and the MD5 hash are fields of \<open>pod_libs\<close>.
\<close>

section \<open>The executor's configuration\<close>

datatype ProfileMode = ProfileModeNone | ProfileModeCIS | ProfileModeETCD

definition isAnyMode :: "ProfileMode \<Rightarrow> bool" where
  "isAnyMode c \<longleftrightarrow> c \<noteq> ProfileModeNone"

definition isCISMode :: "ProfileMode \<Rightarrow> bool" where
  "isCISMode c \<longleftrightarrow> c = ProfileModeCIS"

record CloudProviderConfig =
  cp_Name :: string
  cp_Path :: string

record StaticPodConfig =
  sp_Config :: Config
  sp_CloudProvider :: "CloudProviderConfig option"
  sp_RuntimeEndpoint :: string
  sp_ManifestsDir :: string
  sp_AuditPolicyFile :: string
  sp_PSAConfigFile :: string
  sp_KubeletPath :: string
  sp_IngressController :: "string list"
  sp_ProfileMode :: ProfileMode
  sp_DisableETCD :: bool
  sp_ExternalDatabase :: bool
  sp_IsServer :: bool
  sp_Prime :: bool

text \<open>What the executor takes from other modules and from the machine.\<close>

record host =
  h_pkg :: name_pkg
  h_build :: build_vars
  h_libs :: pod_libs
  h_EnableSELinux :: bool
  h_APIServerPort :: nat
  h_etcd_user :: "(string \<times> string) result"

definition etcdNameFile :: "string \<Rightarrow> string" where
  "etcdNameFile dataDir = filepath_Join [dataDir, ''server'', ''db'', ''etcd'', ''name'']"

definition kineSock :: "string \<Rightarrow> string" where
  "kineSock dataDir = filepath_Join [dataDir, ''server'', ''kine.sock'']"

text \<open>The last part of the path is a constant of K3s and an argument.\<close>

definition PodManifestsDir :: "string \<Rightarrow> string \<Rightarrow> string" where
  "PodManifestsDir podManifestPath dataDir = filepath_Join [dataDir, ''agent'', podManifestPath]"

section \<open>Writing a file in one step\<close>

definition writeFile :: "string \<Rightarrow> string \<Rightarrow> nat \<Rightarrow> string \<Rightarrow> disk \<Rightarrow> unit result \<times> disk" where
  "writeFile dest content pm rnd d =
     (let name = filepath_Base dest; dir = filepath_Dir dest in
      case os_MkdirAll dir 448 d of
        (Inl e, d1) \<Rightarrow> (Inl e, d1)
      | (Inr _, d1) \<Rightarrow>
          if os_ReadFile d1 dest = Inr content then (Inr (), d1)
          else
            (case os_MkdirTemp (filepath_Dir dir) name rnd d1 of
               (Inl e, d2) \<Rightarrow> (Inl e, d2)
             | (Inr tmpdir, d2) \<Rightarrow>
                 (let tmp = filepath_Join [tmpdir, name] in
                  case os_WriteFile tmp content pm d2 of
                    (Inl e, d3) \<Rightarrow> (Inl e, snd (os_RemoveAll tmpdir d3))
                  | (Inr _, d3) \<Rightarrow>
                      (case os_Rename tmp dest d3 of (r, d4) \<Rightarrow> (r, snd (os_RemoveAll tmpdir d4))))))"

text \<open>\<^verbatim>\<open>filepath.Walk\<close> visits the path and everything below it; the first error stops the walk.\<close>

definition walk :: "disk \<Rightarrow> string \<Rightarrow> string list" where
  "walk d path = sort_Strings (filter (under path) (gm_keys (tree d)))"

fun chown_all :: "string list \<Rightarrow> int \<Rightarrow> int \<Rightarrow> disk \<Rightarrow> unit result \<times> disk" where
  "chown_all [] u g d = (Inr (), d)"
| "chown_all (p # ps) u g d =
     (case os_Chown p u g d of (Inl e, d') \<Rightarrow> (Inl e, d') | (Inr _, d') \<Rightarrow> chown_all ps u g d')"

definition chownr :: "string \<Rightarrow> int \<Rightarrow> int \<Rightarrow> disk \<Rightarrow> unit result \<times> disk" where
  "chownr path u g d =
     (case gm_get (tree d) path of
        None \<Rightarrow> (Inl ErrNotExist, d)
      | Some _ \<Rightarrow> chown_all (walk d path) u g d)"

section \<open>Templates\<close>

definition with_selinux :: "bool \<Rightarrow> string \<Rightarrow> PodSecurityContext option \<Rightarrow> PodSecurityContext option" where
  "with_selinux enabled ty sc =
     (if enabled then
        let c = (case sc of None \<Rightarrow> \<lparr>psc_RunAsUser = None, psc_RunAsGroup = None, psc_seLinuxType = None\<rparr>
                 | Some c \<Rightarrow> c)
        in Some (if psc_seLinuxType c = None then c\<lparr>psc_seLinuxType := Some ty\<rparr> else c)
      else sc)"

definition manifestPath :: "StaticPodConfig \<Rightarrow> string \<Rightarrow> string" where
  "manifestPath s command = filepath_Join [sp_ManifestsDir s, command @ ''.yaml'']"

definition removeTemplate :: "StaticPodConfig \<Rightarrow> string \<Rightarrow> disk \<Rightarrow> unit result \<times> disk" where
  "removeTemplate s command d =
     (case os_Remove (manifestPath s command) d of
        (Inl e, d') \<Rightarrow>
          if errors_Is_ErrNotExist e then (Inr (), d')
          else (Inl (WithMessage (''failed to remove '' @ command @ '' static pod manifest'') e), d')
      | (Inr _, d') \<Rightarrow> (Inr (), d'))"

text \<open>The manifest text for a specification, or the error that prevents it.\<close>

definition template_manifest :: "host \<Rightarrow> StaticPodConfig \<Rightarrow> Spec \<Rightarrow> disk \<Rightarrow> string result" where
  "template_manifest h s spec d =
     (let spec = spec\<lparr>spec_SecurityContext :=
            with_selinux (h_EnableSELinux h) ''rke2_service_t'' (spec_SecurityContext spec)\<rparr> in
      try_then (with_message (''failed to read files for pod '' @ spec_Command spec)
                  (ReadFiles (h_libs h) d (spec_Args spec) (spec_ExcludeFiles spec))) (\<lambda>files.
      let spec = spec\<lparr>spec_Files := spec_Files spec @ files\<rparr> in
      try_then (with_message (''failed to generate pod template for '' @ spec_Command spec)
                  (podtemplate_Pod (h_pkg h) (h_libs h) d (Some spec))) (\<lambda>pod.
      case pod of None \<Rightarrow> Inl (Errorf ''nil pod'')
      | Some p \<Rightarrow> pod_yaml (h_libs h) (p\<lparr>pod_UID := pod_md5_uid (h_libs h) p (manifestPath s (spec_Command spec))\<rparr>))))"

definition writeTemplate ::
  "host \<Rightarrow> StaticPodConfig \<Rightarrow> string \<Rightarrow> Spec option \<Rightarrow> disk \<Rightarrow> unit result \<times> disk" where
  "writeTemplate h s rnd spec d =
     (case spec of None \<Rightarrow> (Inr (), d)
      | Some spec \<Rightarrow>
         (case template_manifest h s spec d of
            Inl e \<Rightarrow> (Inl e, d)
          | Inr b \<Rightarrow> writeFile (manifestPath s (spec_Command spec)) b
                       (if isAnyMode (sp_ProfileMode s) then 384 else 420) rnd d))"

section \<open>Manifests are replaced in one step\<close>

lemma is_name_append: "is_name n \<Longrightarrow> slash \<notin> set rnd \<Longrightarrow> is_name (n @ rnd)"
  by (auto simp: is_name_def append_eq_Cons_conv)

lemma under_abs:
  assumes "ds \<noteq> []" and "\<forall>x \<in> set ds. is_name x" and "is_name a" and "is_name b" and "is_name c"
    and "under (abs_path (ds @ [a])) (abs_path (ds @ [b, c]))"
  shows "a = b"
proof -
  have eq: "abs_path (ds @ [x, y]) = abs_path (ds @ [x]) @ slash # y" for x y
    using abs_path_snoc [of "ds @ [x]" y] by simp
  from assms(6) consider "abs_path (ds @ [b, c]) = abs_path (ds @ [a])"
    | t where "abs_path (ds @ [b, c]) = abs_path (ds @ [a]) @ slash # t"
    by (auto simp: under_def str_HasPrefix_iff)
  then show ?thesis
  proof cases
    case 1
    then have "ds @ [b, c] = ds @ [a]" by (rule abs_path_inj) (use assms in auto)
    then show ?thesis by simp
  next
    case 2
    then have "b @ slash # c = a @ slash # t"
      using assms(1) by (simp add: eq abs_path_snoc)
    then have "fst (str_Cut slash (b @ slash # c)) = fst (str_Cut slash (a @ slash # t))" by simp
    then show ?thesis using assms(3,4) by (simp add: is_name_def)
  qed
qed

text \<open>
  The situation of \<^verbatim>\<open>writeFile\<close>: the target is \<open>ds/m/n\<close>, and the temporary directory \<open>ds/n+rnd\<close> is a new
  name, below which there is nothing.
\<close>

definition temp_dir :: "string list \<Rightarrow> string \<Rightarrow> string \<Rightarrow> string" where
  "temp_dir ds n rnd = abs_path (ds @ [n @ rnd])"

definition write_layout :: "string list \<Rightarrow> string \<Rightarrow> string \<Rightarrow> string \<Rightarrow> bool" where
  "write_layout ds m n rnd \<longleftrightarrow>
     ds \<noteq> [] \<and> list_all is_name ds \<and> is_name m \<and> is_name n \<and> slash \<notin> set rnd \<and> n @ rnd \<noteq> m"

definition write_ready :: "string list \<Rightarrow> string \<Rightarrow> string \<Rightarrow> string \<Rightarrow> disk \<Rightarrow> bool" where
  "write_ready ds m n rnd d \<longleftrightarrow> write_layout ds m n rnd \<and>
     list_all (\<lambda>q. \<not> (under (temp_dir ds n rnd) q \<and> q \<noteq> temp_dir ds n rnd)) (gm_keys (tree d))"

lemma write_ready_layout: "write_ready ds m n rnd d \<Longrightarrow> write_layout ds m n rnd"
  by (simp add: write_ready_def)

lemma write_names:
  assumes "write_layout ds m n rnd"
  shows "ds \<noteq> []" "\<forall>x \<in> set ds. is_name x" "is_name m" "is_name n" "is_name (n @ rnd)" "n @ rnd \<noteq> m"
  using assms is_name_append by (auto simp: write_layout_def list_all_iff)

lemma abs_snoc2: "abs_path (ds @ [a, b]) = abs_path ((ds @ [a]) @ [b])"
  by simp

text \<open>The paths \<^verbatim>\<open>writeFile\<close> computes.\<close>

lemma write_path_eqs:
  assumes "write_layout ds m n rnd"
  shows "filepath_Base (abs_path (ds @ [m, n])) = n"
    and "filepath_Dir (abs_path (ds @ [m, n])) = abs_path (ds @ [m])"
    and "filepath_Dir (abs_path (ds @ [m])) = abs_path ds"
    and "abs_path ds @ ''/'' @ n @ rnd = temp_dir ds n rnd"
    and "filepath_Join [temp_dir ds n rnd, n] = abs_path (ds @ [n @ rnd, n])"
proof -
  note names = write_names [OF assms]
  show "filepath_Base (abs_path (ds @ [m, n])) = n"
    unfolding abs_snoc2 by (rule Base_abs) (use names in auto)
  show "filepath_Dir (abs_path (ds @ [m, n])) = abs_path (ds @ [m])"
    unfolding abs_snoc2 by (rule Dir_abs) (use names in auto)
  show "filepath_Dir (abs_path (ds @ [m])) = abs_path ds"
    by (rule Dir_abs) (use names in auto)
  show "abs_path ds @ ''/'' @ n @ rnd = temp_dir ds n rnd"
    using names by (simp add: temp_dir_def abs_path_snoc)
  show "filepath_Join [temp_dir ds n rnd, n] = abs_path (ds @ [n @ rnd, n])"
    unfolding temp_dir_def using Join_abs [of "ds @ [n @ rnd]" "[n]"] names by simp
qed

lemma abs_path_neq:
  "xs \<noteq> ys \<Longrightarrow> xs \<noteq> [] \<Longrightarrow> ys \<noteq> [] \<Longrightarrow> \<forall>n \<in> set xs. is_name n \<Longrightarrow> \<forall>n \<in> set ys. is_name n \<Longrightarrow>
     abs_path xs \<noteq> abs_path ys"
  using abs_path_inj by blast

lemma abs_not_prefix:
  assumes "length xs > length ds" and "ds \<noteq> []" and "\<forall>n \<in> set ds. is_name n" and "\<forall>n \<in> set xs. is_name n"
  shows "abs_path xs \<notin> set (path_prefixes (abs_path ds))"
proof
  assume "abs_path xs \<in> set (path_prefixes (abs_path ds))"
  then obtain k where k: "k \<in> set [1 ..< Suc (length ds)]" "abs_path xs = abs_path (take k ds)"
    unfolding path_prefixes_abs [OF assms(2,3)] by auto
  then have "0 < k" by (simp del: upt_Suc)
  have "xs = take k ds"
    by (rule abs_path_inj [OF k(2)]) (use assms \<open>0 < k\<close> in \<open>auto dest: in_set_takeD\<close>)
  then have "length xs = length (take k ds)" by (rule arg_cong)
  with assms(1) show False by simp
qed

text \<open>The target is none of the paths that are written before the rename.\<close>

lemma write_path_neqs:
  assumes "write_layout ds m n rnd"
  shows "abs_path (ds @ [m, n]) \<noteq> temp_dir ds n rnd"
    and "abs_path (ds @ [m, n]) \<noteq> abs_path (ds @ [n @ rnd, n])"
    and "abs_path (ds @ [n @ rnd, n]) \<noteq> temp_dir ds n rnd"
    and "\<not> under (temp_dir ds n rnd) (abs_path (ds @ [m, n]))"
    and "under (temp_dir ds n rnd) (abs_path (ds @ [n @ rnd, n]))"
    and "abs_path (ds @ [m, n]) \<notin> set (path_prefixes (abs_path (ds @ [m])))"
    and "abs_path (ds @ [n @ rnd, n]) \<notin> set (path_prefixes (abs_path (ds @ [m])))"
proof -
  note names = write_names [OF assms]
  show "abs_path (ds @ [m, n]) \<noteq> temp_dir ds n rnd" "abs_path (ds @ [n @ rnd, n]) \<noteq> temp_dir ds n rnd"
    unfolding temp_dir_def by (rule abs_path_neq; use names in force)+
  show "abs_path (ds @ [m, n]) \<noteq> abs_path (ds @ [n @ rnd, n])"
    by (rule abs_path_neq) (use names in auto)
  show "\<not> under (temp_dir ds n rnd) (abs_path (ds @ [m, n]))"
    unfolding temp_dir_def using under_abs [of ds "n @ rnd" m n] names by auto
  show "under (temp_dir ds n rnd) (abs_path (ds @ [n @ rnd, n]))"
    unfolding temp_dir_def abs_snoc2 using abs_path_snoc [of "ds @ [n @ rnd]" n]
    by (simp add: under_def str_HasPrefix_iff)
  show "abs_path (ds @ [m, n]) \<notin> set (path_prefixes (abs_path (ds @ [m])))"
      "abs_path (ds @ [n @ rnd, n]) \<notin> set (path_prefixes (abs_path (ds @ [m])))"
    by (rule abs_not_prefix; use names in auto)+
qed

lemma write_tmp_absent:
  assumes "write_ready ds m n rnd d"
  shows "gm_get (tree d) (abs_path (ds @ [n @ rnd, n])) = None"
proof (rule ccontr)
  assume "gm_get (tree d) (abs_path (ds @ [n @ rnd, n])) \<noteq> None"
  then have "abs_path (ds @ [n @ rnd, n]) \<in> set (gm_keys (tree d))" using gm_get_None_iff by metis
  then show False
    using assms write_path_neqs(3,5) [OF write_ready_layout [OF assms]] unfolding write_ready_def list_all_iff by blast
qed

text \<open>The writing of the temporary file and its renaming.\<close>

definition new_entries :: "string \<Rightarrow> inode option set" where
  "new_entries content = {Some i |i. kind i = Regular content}"

definition write_scope :: "string list \<Rightarrow> string \<Rightarrow> string \<Rightarrow> string \<Rightarrow> string \<Rightarrow> bool" where
  "write_scope ds m n rnd q \<longleftrightarrow>
     q \<in> set (path_prefixes (abs_path (ds @ [m]))) \<or> q = abs_path (ds @ [m, n]) \<or> under (temp_dir ds n rnd) q"

text \<open>Removing the temporary directory leaves the target alone.\<close>

lemma remove_temp:
  assumes "write_ready ds m n rnd d"
  shows "gm_get (tree (snd (os_RemoveAll (temp_dir ds n rnd) d4))) (abs_path (ds @ [m, n])) = gm_get (tree d4) (abs_path (ds @ [m, n]))"
    and "gm_get (tree d4) (abs_path (ds @ [m, n])) \<in> V \<Longrightarrow> sees (abs_path (ds @ [m, n])) V d4 (snd (os_RemoveAll (temp_dir ds n rnd) d4))"
    and "touches (write_scope ds m n rnd) d4 (snd (os_RemoveAll (temp_dir ds n rnd) d4))"
proof -
  let ?td = "temp_dir ds n rnd"
  note neqs = write_path_neqs [OF write_ready_layout [OF assms]]
  have rm: "touches (under ?td) d4 (snd (os_RemoveAll ?td d4))"
    by (rule os_RemoveAll_touches [of ?td d4 "fst (os_RemoveAll ?td d4)"]) simp_all
  show "gm_get (tree (snd (os_RemoveAll ?td d4))) (abs_path (ds @ [m, n])) = gm_get (tree d4) (abs_path (ds @ [m, n]))"
    by (rule touches_get [OF rm]) (rule neqs(4))
  show "sees (abs_path (ds @ [m, n])) V d4 (snd (os_RemoveAll ?td d4))" if "gm_get (tree d4) (abs_path (ds @ [m, n])) \<in> V"
    by (rule touches_sees [OF rm]) (use neqs(4) that in simp_all)
  show "touches (write_scope ds m n rnd) d4 (snd (os_RemoveAll ?td d4))"
    using touches_mono [OF rm] by (simp add: write_scope_def)
qed

lemma swap_in:
  assumes ready: "write_ready ds m n rnd d"
    and fresh: "gm_get (tree d2) (abs_path (ds @ [n @ rnd, n])) = None"
    and w: "os_WriteFile (abs_path (ds @ [n @ rnd, n])) content pm d2 = (r3, d3)"
    and fin: "(case r3 of Inl e \<Rightarrow> (Inl e, snd (os_RemoveAll (temp_dir ds n rnd) d3))
        | Inr _ \<Rightarrow> (case os_Rename (abs_path (ds @ [n @ rnd, n])) (abs_path (ds @ [m, n])) d3 of
              (r, d4) \<Rightarrow> (r, snd (os_RemoveAll (temp_dir ds n rnd) d4)))) = (res, d')"
  shows "sees (abs_path (ds @ [m, n])) (insert (gm_get (tree d2) (abs_path (ds @ [m, n]))) (new_entries content)) d2 d'"
    and "res = Inr () \<Longrightarrow> gm_get (tree d') (abs_path (ds @ [m, n])) \<in> new_entries content"
    and "res \<noteq> Inr () \<Longrightarrow> gm_get (tree d') (abs_path (ds @ [m, n])) = gm_get (tree d2) (abs_path (ds @ [m, n]))"
    and "touches (write_scope ds m n rnd) d2 d'"
proof -
  let ?dest = "abs_path (ds @ [m, n])" and ?tmp = "abs_path (ds @ [n @ rnd, n])" and ?td = "temp_dir ds n rnd"
  let ?V = "insert (gm_get (tree d2) ?dest) (new_entries content)"
  note neqs = write_path_neqs [OF write_ready_layout [OF ready]]
  have fol: "follow 40 (tree d2) ?tmp = Inr ?tmp" using fresh by simp
  have t3: "touches (\<lambda>q. q = ?tmp) d2 d3" by (rule os_WriteFile_touches [OF w fol]) simp
  have g3: "gm_get (tree d3) ?dest = gm_get (tree d2) ?dest"
    by (rule touches_get [OF t3]) (use neqs(2) in simp)
  have s3: "sees ?dest ?V d2 d3" by (rule touches_sees [OF t3]) (use neqs(2) in simp_all)
  note rg = remove_temp(1) [OF ready] and rs = remove_temp(2) [OF ready, where V = ?V]
  have sc: "touches (write_scope ds m n rnd) d2 d3" "\<And>d4. touches (write_scope ds m n rnd) d4 (snd (os_RemoveAll ?td d4))"
    using touches_mono [OF t3] neqs(5) remove_temp(3) [OF ready] by (auto simp: write_scope_def)
  have all: "sees ?dest ?V d2 d' \<and> (res = Inr () \<longrightarrow> gm_get (tree d') ?dest \<in> new_entries content) \<and>
      (res \<noteq> Inr () \<longrightarrow> gm_get (tree d') ?dest = gm_get (tree d2) ?dest) \<and> touches (write_scope ds m n rnd) d2 d'"
  proof (cases r3)
    case (Inl e)
    then have "res = Inl e" "d' = snd (os_RemoveAll ?td d3)" using fin by simp_all
    then show ?thesis
      using g3 rg [of d3] rs [of d3] s3 sc touches_trans sees_trans by auto
  next
    case (Inr u)
    obtain r4 d4 where mv: "os_Rename ?tmp ?dest d3 = (r4, d4)" by (cases "os_Rename ?tmp ?dest d3")
    have d': "res = r4" "d' = snd (os_RemoveAll ?td d4)" using fin Inr mv by simp_all
    have t4: "touches (write_scope ds m n rnd) d3 d4"
      by (rule os_Rename_touches [OF mv]) (use neqs(5) in \<open>simp_all add: write_scope_def\<close>)
    show ?thesis
    proof (cases "r4 = Inr ()")
      case True
      obtain i where i: "gm_get (tree d3) ?tmp = Some i" "gm_get (tree d4) ?dest = Some i"
          "hist d4 = hist d3 @ [tree d4]"
        using os_Rename_get [OF mv [unfolded True]] by blast
      have "os_WriteFile ?tmp content pm d2 = (Inr (), d3)" using w Inr by simp
      then have "kind i = Regular content" using os_WriteFile_get [OF _ fol] i(1) by force
      then have new: "gm_get (tree d4) ?dest \<in> new_entries content" using i(2) by (simp add: new_entries_def)
      then have "sees ?dest ?V d3 d4" using i(3) by (simp add: sees_def)
      then have "sees ?dest ?V d2 d'" using s3 rs [of d4] new d'(2) sees_trans by blast
      then show ?thesis
        using new rg [of d4] d' True sc t4 touches_trans by (metis (no_types, lifting))
    next
      case False
      then obtain e where "r4 = Inl e" by (cases r4) auto
      then have "d4 = d3" using os_Rename_fail mv by blast
      then have "sees ?dest ?V d2 d'" using s3 rs [of d4] d'(2) g3 sees_trans by blast
      then show ?thesis
        using \<open>d4 = d3\<close> False d' g3 rg [of d4] sc touches_trans by (metis (no_types, lifting))
    qed
  qed
  then show "sees ?dest ?V d2 d'" "touches (write_scope ds m n rnd) d2 d'"
      "res = Inr () \<Longrightarrow> gm_get (tree d') ?dest \<in> new_entries content"
      "res \<noteq> Inr () \<Longrightarrow> gm_get (tree d') ?dest = gm_get (tree d2) ?dest" by blast+
qed

lemma new_entries_lookup: "gm_get t p \<in> new_entries content \<Longrightarrow> \<exists>i. lookup t p = Inr i \<and> kind i = Regular content"
proof -
  assume "gm_get t p \<in> new_entries content"
  then obtain i where "gm_get t p = Some i" "kind i = Regular content" by (auto simp: new_entries_def)
  then show ?thesis using lookup_plain [of t p i] by auto
qed

lemma os_ReadFile_lookup: "os_ReadFile d p = Inr c \<Longrightarrow> \<exists>i. lookup (tree d) p = Inr i \<and> kind i = Regular c"
  by (auto simp: os_ReadFile_def split: option.splits kind.splits)

text \<open>How a write ends: before the temporary directory, at it, or with the exchange of the files.\<close>

lemma writeFile_cases:
  assumes run: "writeFile (abs_path (ds @ [m, n])) content pm rnd d = (res, d')" and lay: "write_layout ds m n rnd"
  obtains (early) r1 where "os_MkdirAll (abs_path (ds @ [m])) 448 d = (r1, d')"
      "res = Inr () \<Longrightarrow> os_ReadFile d' (abs_path (ds @ [m, n])) = Inr content"
    | (no_temp) d1 e where "os_MkdirAll (abs_path (ds @ [m])) 448 d = (Inr (), d1)"
      "os_MkdirTemp (abs_path ds) n rnd d1 = (Inl e, d')" "res = Inl e"
    | (exchange) d1 d2 r3 d3 where "os_MkdirAll (abs_path (ds @ [m])) 448 d = (Inr (), d1)"
      "os_MkdirTemp (abs_path ds) n rnd d1 = (Inr (temp_dir ds n rnd), d2)"
      "os_WriteFile (abs_path (ds @ [n @ rnd, n])) content pm d2 = (r3, d3)"
      "(case r3 of Inl e \<Rightarrow> (Inl e, snd (os_RemoveAll (temp_dir ds n rnd) d3))
        | Inr _ \<Rightarrow> (case os_Rename (abs_path (ds @ [n @ rnd, n])) (abs_path (ds @ [m, n])) d3 of
              (r, d4) \<Rightarrow> (r, snd (os_RemoveAll (temp_dir ds n rnd) d4)))) = (res, d')"
proof -
  note eqs = write_path_eqs [OF lay]
  obtain r1 d1 where mk: "os_MkdirAll (abs_path (ds @ [m])) 448 d = (r1, d1)"
    by (cases "os_MkdirAll (abs_path (ds @ [m])) 448 d")
  obtain r2 d2 where mt: "os_MkdirTemp (abs_path ds) n rnd d1 = (r2, d2)"
    by (cases "os_MkdirTemp (abs_path ds) n rnd d1")
  obtain r3 d3 where wr: "os_WriteFile (abs_path (ds @ [n @ rnd, n])) content pm d2 = (r3, d3)"
    by (cases "os_WriteFile (abs_path (ds @ [n @ rnd, n])) content pm d2")
  show thesis
  proof (cases "r1 = Inr () \<and> os_ReadFile d1 (abs_path (ds @ [m, n])) \<noteq> Inr content")
    case False
    then have "d' = d1 \<and> (res = Inr () \<longrightarrow> os_ReadFile d1 (abs_path (ds @ [m, n])) = Inr content)"
      using run mk by (auto simp: writeFile_def eqs Let_def split: sum.splits if_splits)
    with mk show thesis by (intro early) auto
  next
    case True
    show thesis
    proof (cases r2)
      case (Inl e)
      then have "res = Inl e" "d' = d2" using run mk True mt by (simp_all add: writeFile_def eqs Let_def)
      with True mk mt Inl show thesis by (intro no_temp) auto
    next
      case (Inr td)
      then have "td = temp_dir ds n rnd" using os_MkdirTemp_get(1) [of "abs_path ds" n rnd d1] mt by (simp only: eqs(4))
      then show thesis using True Inr mk mt wr run by (intro exchange) (simp_all add: writeFile_def eqs Let_def)
    qed
  qed
qed

lemma manifest_dir_made:
  assumes lay: "write_layout ds m n rnd" and mk: "os_MkdirAll (abs_path (ds @ [m])) 448 d = (r1, d1)"
    and V: "gm_get (tree d) (abs_path (ds @ [m, n])) \<in> V"
  shows "gm_get (tree d1) (abs_path (ds @ [m, n])) = gm_get (tree d) (abs_path (ds @ [m, n]))"
    and "sees (abs_path (ds @ [m, n])) V d d1" and "touches (write_scope ds m n rnd) d d1"
    and "gm_get (tree d1) (abs_path (ds @ [n @ rnd, n])) = gm_get (tree d) (abs_path (ds @ [n @ rnd, n]))"
proof -
  have t1: "touches (\<lambda>q. q \<in> set (path_prefixes (abs_path (ds @ [m])))) d d1" by (rule os_MkdirAll_touches [OF mk])
  show "gm_get (tree d1) (abs_path (ds @ [m, n])) = gm_get (tree d) (abs_path (ds @ [m, n]))"
    "sees (abs_path (ds @ [m, n])) V d d1" "touches (write_scope ds m n rnd) d d1"
    "gm_get (tree d1) (abs_path (ds @ [n @ rnd, n])) = gm_get (tree d) (abs_path (ds @ [n @ rnd, n]))"
    using touches_get [OF t1] touches_sees [OF t1, of "abs_path (ds @ [m, n])" V] touches_mono [OF t1, of "write_scope ds m n rnd"]
      write_path_neqs(6,7) [OF lay] V by (auto simp: write_scope_def)
qed

lemma temp_dir_made:
  assumes lay: "write_layout ds m n rnd" and mt: "os_MkdirTemp (abs_path ds) n rnd d1 = (r2, d2)"
  shows "gm_get (tree d2) (abs_path (ds @ [m, n])) = gm_get (tree d1) (abs_path (ds @ [m, n]))"
    and "gm_get (tree d1) (abs_path (ds @ [m, n])) \<in> V \<Longrightarrow> sees (abs_path (ds @ [m, n])) V d1 d2"
    and "touches (write_scope ds m n rnd) d1 d2"
    and "gm_get (tree d2) (abs_path (ds @ [n @ rnd, n])) = gm_get (tree d1) (abs_path (ds @ [n @ rnd, n]))"
proof -
  have t2: "touches (\<lambda>q. q = temp_dir ds n rnd) d1 d2"
    using os_MkdirTemp_touches [OF mt] by (simp only: write_path_eqs(4) [OF lay])
  show "gm_get (tree d2) (abs_path (ds @ [m, n])) = gm_get (tree d1) (abs_path (ds @ [m, n]))"
    "gm_get (tree d1) (abs_path (ds @ [m, n])) \<in> V \<Longrightarrow> sees (abs_path (ds @ [m, n])) V d1 d2"
    "touches (write_scope ds m n rnd) d1 d2"
    "gm_get (tree d2) (abs_path (ds @ [n @ rnd, n])) = gm_get (tree d1) (abs_path (ds @ [n @ rnd, n]))"
    using touches_get [OF t2] touches_sees [OF t2] touches_mono [OF t2, of "write_scope ds m n rnd"] write_path_neqs(1,3) [OF lay]
    by (auto simp: write_scope_def)
qed

lemma writeFile_parts:
  assumes run: "writeFile (abs_path (ds @ [m, n])) content pm rnd d = (res, d')"
    and ready: "write_ready ds m n rnd d"
  shows "sees (abs_path (ds @ [m, n])) (insert (gm_get (tree d) (abs_path (ds @ [m, n]))) (new_entries content)) d d'"
    and "res = Inr () \<Longrightarrow> \<exists>i. lookup (tree d') (abs_path (ds @ [m, n])) = Inr i \<and> kind i = Regular content"
    and "res \<noteq> Inr () \<Longrightarrow> gm_get (tree d') (abs_path (ds @ [m, n])) = gm_get (tree d) (abs_path (ds @ [m, n]))"
    and "touches (write_scope ds m n rnd) d d'"
proof -
  let ?dest = "abs_path (ds @ [m, n])" and ?tmp = "abs_path (ds @ [n @ rnd, n])"
  let ?V = "insert (gm_get (tree d) ?dest) (new_entries content)"
  note lay = write_ready_layout [OF ready]
  note mk = manifest_dir_made [OF lay, where V = ?V, OF _ insertI1] and mt = temp_dir_made [OF lay]
  from run lay have "sees ?dest ?V d d' \<and>
      (res = Inr () \<longrightarrow> (\<exists>i. lookup (tree d') ?dest = Inr i \<and> kind i = Regular content)) \<and>
      (res \<noteq> Inr () \<longrightarrow> gm_get (tree d') ?dest = gm_get (tree d) ?dest) \<and> touches (write_scope ds m n rnd) d d'"
  proof (cases rule: writeFile_cases)
    case (early r1)
    then show ?thesis using mk [OF early(1)] os_ReadFile_lookup by auto
  next
    case (no_temp d1 e)
    then show ?thesis using mk [OF no_temp(1)] mt [OF no_temp(2)] sees_trans touches_trans by auto
  next
    case (exchange d1 d2 r3 d3)
    note m1 = mk [OF exchange(1)] and m2 = mt [OF exchange(2)]
    have fresh: "gm_get (tree d2) ?tmp = None" using write_tmp_absent [OF ready] m1(4) m2(4) by simp
    have g2: "gm_get (tree d2) ?dest = gm_get (tree d) ?dest" and s2: "sees ?dest ?V d d2"
      using m1(1,2) m2(1,2) sees_trans by auto
    note sw = swap_in [OF ready fresh exchange(3,4)]
    show ?thesis
      using sees_trans [OF s2 sw(1) [unfolded g2]] sw(2,3) g2 new_entries_lookup
        touches_trans [OF touches_trans [OF m1(3) m2(3)] sw(4)] by metis
  qed
  then show "sees ?dest ?V d d'" "touches (write_scope ds m n rnd) d d'"
      "res = Inr () \<Longrightarrow> \<exists>i. lookup (tree d') ?dest = Inr i \<and> kind i = Regular content"
      "res \<noteq> Inr () \<Longrightarrow> gm_get (tree d') ?dest = gm_get (tree d) ?dest" by blast+
qed

text \<open>
  C21: a manifest is replaced in one step. In every tree the kubelet can see while a file is written, the
  target is either what it was or the complete new content, never a part of it; on success it reads as the
  new content, on an error it is what it was; and nothing changes in any visible tree except the directories
  on the way, the target and the temporary directory beside the manifest directory. The temporary directory
  is new and nothing lies below it beforehand.
\<close>

theorem writeFile_atomic:
  assumes "writeFile (abs_path (ds @ [m, n])) content pm rnd d = (res, d')"
    and "write_ready ds m n rnd d"
  shows "(\<forall>t \<in> set (drop (length (hist d)) (hist d')).
            gm_get t (abs_path (ds @ [m, n])) = gm_get (tree d) (abs_path (ds @ [m, n])) \<or>
            (\<exists>i. gm_get t (abs_path (ds @ [m, n])) = Some i \<and> kind i = Regular content)) \<and>
         (res = Inr () \<longrightarrow> (\<exists>i. lookup (tree d') (abs_path (ds @ [m, n])) = Inr i \<and> kind i = Regular content)) \<and>
         (res \<noteq> Inr () \<longrightarrow> gm_get (tree d') (abs_path (ds @ [m, n])) = gm_get (tree d) (abs_path (ds @ [m, n]))) \<and>
         touches (write_scope ds m n rnd) d d'"
  using writeFile_parts(2-4) [OF assms] sees_hist [OF writeFile_parts(1) [OF assms]]
  by (fastforce simp: new_entries_def)

definition manifest_disk :: disk where
  "manifest_disk = empty_disk\<lparr>tree := [(''/a'', new_inode Directory 493), (''/a/p'', new_inode Directory 448),
     (''/a/p/etcd.yaml'', new_inode (Regular ''old'') 420)]\<rparr>"

theorem writeFile_atomic_witness:
  "\<exists>i. lookup (tree (snd (writeFile ''/a/p/etcd.yaml'' ''new'' 420 ''7'' manifest_disk))) ''/a/p/etcd.yaml'' = Inr i \<and>
       kind i = Regular ''new''"
proof -
  let ?w = "writeFile (abs_path ([''a''] @ [''p'', ''etcd.yaml''])) ''new'' 420 ''7'' manifest_disk"
  have 1: "?w = (fst ?w, snd ?w)" by simp
  have 2: "write_ready [''a''] ''p'' ''etcd.yaml'' ''7'' manifest_disk" by code_simp
  have 3: "fst ?w = Inr ()" by code_simp
  have 4: "abs_path ([''a''] @ [''p'', ''etcd.yaml'']) = ''/a/p/etcd.yaml''" by code_simp
  show ?thesis using writeFile_atomic [OF 1 2] 3 unfolding 4 by blast
qed

section \<open>One manifest per command\<close>

definition manifest_name :: "string \<Rightarrow> string" where
  "manifest_name command = command @ ''.yaml''"

lemma is_name_manifest: "slash \<notin> set c \<Longrightarrow> is_name (manifest_name c)"
  by (auto simp: is_name_def manifest_name_def append_eq_Cons_conv)

lemma manifestPath_abs:
  assumes "sp_ManifestsDir s = abs_path (ds @ [m])" and "\<forall>x \<in> set ds. is_name x" and "is_name m"
    and "slash \<notin> set c"
  shows "manifestPath s c = abs_path (ds @ [m, manifest_name c])"
  using Join_abs [of "ds @ [m]" "[manifest_name c]"] assms is_name_manifest
  by (simp add: manifestPath_def manifest_name_def)

interpretation manifests: dir_layout "\<lambda>c. filepath_Join [abs_path ds, c @ ''.yaml'']"
  "\<lambda>c. ds \<noteq> [] \<and> list_all is_name ds \<and> slash \<notin> set c" for ds
proof
  fix a b
  assume a: "ds \<noteq> [] \<and> list_all is_name ds \<and> slash \<notin> set a" and b: "ds \<noteq> [] \<and> list_all is_name ds \<and> slash \<notin> set b"
    and eq: "filepath_Join [abs_path ds, a @ ''.yaml''] = filepath_Join [abs_path ds, b @ ''.yaml'']"
  have "filepath_Join [abs_path ds, c @ ''.yaml''] = abs_path (ds @ [manifest_name c])" if "slash \<notin> set c" for c
    using a that Join_abs [of ds "[manifest_name c]"] is_name_manifest [of c]
    by (simp add: list_all_iff manifest_name_def)
  with a b eq have "abs_path (ds @ [manifest_name a]) = abs_path (ds @ [manifest_name b])" by simp
  then have "ds @ [manifest_name a] = ds @ [manifest_name b]"
    by (rule abs_path_inj) (use a b is_name_manifest in \<open>auto simp: list_all_iff\<close>)
  then show "a = b" by (simp add: manifest_name_def)
qed

lemma other_manifest_out_of_scope:
  assumes "write_layout ds m (manifest_name c) rnd" and "slash \<notin> set c" and "slash \<notin> set c'" and "c' \<noteq> c"
  shows "\<not> write_scope ds m (manifest_name c) rnd (abs_path (ds @ [m, manifest_name c']))"
proof -
  note names = write_names [OF assms(1)] and n' = is_name_manifest [OF assms(3)]
  have "abs_path (ds @ [m, manifest_name c']) \<notin> set (path_prefixes (abs_path (ds @ [m])))"
    by (rule abs_not_prefix) (use names n' in auto)
  moreover have "abs_path (ds @ [m, manifest_name c']) \<noteq> abs_path (ds @ [m, manifest_name c])"
    by (rule abs_path_neq) (use names n' assms(4) in \<open>auto simp: manifest_name_def\<close>)
  moreover have "\<not> under (temp_dir ds (manifest_name c) rnd) (abs_path (ds @ [m, manifest_name c']))"
    unfolding temp_dir_def using under_abs [of ds "manifest_name c @ rnd" m "manifest_name c'"] names n' by auto
  ultimately show ?thesis by (simp add: write_scope_def)
qed

text \<open>
  C22: writing the manifest of one static pod. On success the manifest file of the pod's command reads as
  exactly the marshalled pod; in every tree the kubelet can see, the manifests of all other commands are as
  they were.
\<close>

theorem writeTemplate_spec:
  assumes "writeTemplate h s rnd (Some spec) d = (res, d')"
    and "sp_ManifestsDir s = abs_path (ds @ [m])" and "slash \<notin> set (spec_Command spec)"
    and "write_ready ds m (manifest_name (spec_Command spec)) rnd d"
  shows "(res = Inr () \<longrightarrow> (\<exists>b i. template_manifest h s spec d = Inr b \<and>
            lookup (tree d') (manifestPath s (spec_Command spec)) = Inr i \<and> kind i = Regular b)) \<and>
         (\<forall>c. slash \<notin> set c \<and> c \<noteq> spec_Command spec \<longrightarrow>
            (\<forall>t \<in> set (tree d' # drop (length (hist d)) (hist d')).
               gm_get t (manifestPath s c) = gm_get (tree d) (manifestPath s c)))"
proof -
  let ?c = "spec_Command spec"
  note names = write_names [OF write_ready_layout [OF assms(4)]]
  have path: "manifestPath s c = abs_path (ds @ [m, manifest_name c])" if "slash \<notin> set c" for c
    by (rule manifestPath_abs [OF assms(2) names(2,3) that])
  show ?thesis
  proof (cases "template_manifest h s spec d")
    case (Inl e)
    then have "res = Inl e" "d' = d" using assms(1) by (simp_all add: writeTemplate_def)
    then show ?thesis by simp
  next
    case (Inr b)
    then have w: "writeFile (abs_path (ds @ [m, manifest_name ?c])) b
        (if isAnyMode (sp_ProfileMode s) then 384 else 420) rnd d = (res, d')"
      using assms(1) by (simp add: writeTemplate_def path [OF assms(3)])
    note parts = writeFile_parts [OF w assms(4)]
    have "gm_get t (manifestPath s c) = gm_get (tree d) (manifestPath s c)"
      if "slash \<notin> set c" "c \<noteq> ?c" "t \<in> set (tree d' # drop (length (hist d)) (hist d'))" for c t
      using that other_manifest_out_of_scope [OF write_ready_layout [OF assms(4)] assms(3) that(1,2)]
        touches_get [OF parts(4)] touches_hist [OF parts(4)] unfolding path [OF that(1)] by auto
    then show ?thesis using parts(2) Inr path [OF assms(3)] by auto
  qed
qed

text \<open>Removing a manifest.\<close>

lemma removeTemplate_touches:
  "removeTemplate s c d = (res, d') \<Longrightarrow> touches (\<lambda>q. q = manifestPath s c) d d'"
  by (auto simp: removeTemplate_def split: prod.splits sum.splits if_splits dest: os_Remove_touches)

lemma removeTemplate_gone:
  assumes "removeTemplate s c d = (Inr (), d')"
    and "\<forall>e. faults d OpRemove (manifestPath s c) = Some e \<longrightarrow> \<not> errors_Is_ErrNotExist e"
  shows "gm_get (tree d') (manifestPath s c) = None"
proof -
  obtain r d1 where r: "os_Remove (manifestPath s c) d = (r, d1)" by (cases "os_Remove (manifestPath s c) d")
  then have d1: "d1 = d'" using assms(1) by (auto simp: removeTemplate_def split: sum.splits if_splits)
  show ?thesis
    using r assms unfolding d1
    by (auto simp: removeTemplate_def os_Remove_def split: option.splits if_splits)
qed

section \<open>Witnesses\<close>

definition simple_config :: Config where
  "simple_config =
     \<lparr>cfg_ImagesDir = '''', cfg_DataDir = ''/d'',
      cfg_Resolver = \<lparr>res_registry = Registry ''reg.io'', repoPath = '''', overrides = []\<rparr>,
      cfg_Env = \<lparr>env_KubeAPIServer = [], env_KubeScheduler = [], env_KubeControllerManager = [],
        env_KubeProxy = [], env_Etcd = [], env_CloudControllerManager = []\<rparr>,
      cfg_Mounts = \<lparr>mnt_KubeAPIServer = [], mnt_KubeScheduler = [], mnt_KubeControllerManager = [],
        mnt_KubeProxy = [], mnt_Etcd = [], mnt_CloudControllerManager = []\<rparr>,
      cfg_Probes = zero_probes, cfg_Resources = zero_resources\<rparr>"

definition simple_static :: StaticPodConfig where
  "simple_static =
     \<lparr>sp_Config = simple_config, sp_CloudProvider = None, sp_RuntimeEndpoint = '''', sp_ManifestsDir = ''/a/p'',
      sp_AuditPolicyFile = '''', sp_PSAConfigFile = '''', sp_KubeletPath = '''', sp_IngressController = [],
      sp_ProfileMode = ProfileModeNone, sp_DisableETCD = True, sp_ExternalDatabase = False, sp_IsServer = True,
      sp_Prime = False\<rparr>"

definition simple_host :: host where
  "simple_host =
     \<lparr>h_pkg = simple_names, h_build = simple_build, h_libs = simple_libs, h_EnableSELinux = False,
      h_APIServerPort = 9, h_etcd_user = Inr (''52034'', ''52034'')\<rparr>"

definition tiny_spec :: Spec where
  "tiny_spec = (zero_spec (TagRef \<lparr>ref_registry = Registry ''r'', ref_repository = ''e'', ref_identifier = ''latest''\<rparr>))
     \<lparr>spec_Command := ''kube-proxy'', spec_Args := [''--v=2'']\<rparr>"

theorem writeTemplate_spec_witness:
  "(\<exists>i. lookup (tree (snd (writeTemplate simple_host simple_static ''7'' (Some tiny_spec) manifest_disk)))
          ''/a/p/kube-proxy.yaml'' = Inr i \<and> kind i = Regular ''kube-proxy'') \<and>
   gm_get (tree (snd (writeTemplate simple_host simple_static ''7'' (Some tiny_spec) manifest_disk)))
     (manifestPath simple_static ''etcd'') = gm_get (tree manifest_disk) (manifestPath simple_static ''etcd'')"
proof -
  let ?w = "writeTemplate simple_host simple_static ''7'' (Some tiny_spec) manifest_disk"
  have 1: "?w = (fst ?w, snd ?w)" by simp
  have 2: "sp_ManifestsDir simple_static = abs_path ([''a''] @ [''p''])" by code_simp
  have 3: "slash \<notin> set (spec_Command tiny_spec)" by code_simp
  have 4: "write_ready [''a''] ''p'' (manifest_name (spec_Command tiny_spec)) ''7'' manifest_disk" by code_simp
  have 5: "fst ?w = Inr ()" "template_manifest simple_host simple_static tiny_spec manifest_disk = Inr ''kube-proxy''"
      "manifestPath simple_static (spec_Command tiny_spec) = ''/a/p/kube-proxy.yaml''"
      "slash \<notin> set ''etcd'' \<and> ''etcd'' \<noteq> spec_Command tiny_spec"
    by code_simp+
  note main = writeTemplate_spec [OF 1 2 3 4]
  have "\<exists>i. lookup (tree (snd ?w)) ''/a/p/kube-proxy.yaml'' = Inr i \<and> kind i = Regular ''kube-proxy''"
    using mp [OF conjunct1 [OF main] 5(1)] unfolding 5(2,3) by auto
  moreover have "gm_get (tree (snd ?w)) (manifestPath simple_static ''etcd'') =
      gm_get (tree manifest_disk) (manifestPath simple_static ''etcd'')"
    using mp [OF spec [OF conjunct2 [OF main], of "''etcd''"] 5(4)] by simp
  ultimately show ?thesis by blast
qed

end
