(* ===== verification/Static_Args.thy ===== *)
theory Static_Args
  imports Static_Manifest
begin

text \<open>
  The argument handling of \<^verbatim>\<open>StaticPodConfig.APIServer\<close>. The loop ranges over the argument slice while its
  body removes elements from it with \<^verbatim>\<open>append(args[:i], args[i+1:]...)\<close>, which moves the elements of the
  array that the range statement is still reading. The model keeps that array explicitly: \<open>Alias k\<close> says
  that the variable \<^verbatim>\<open>args\<close> is the first \<open>k\<close> elements of it, \<open>Fresh xs\<close> that it has been given an array
  of its own.
\<close>

datatype args_view = Alias nat | Fresh "string list"

record arg_state =
  as_array :: "string list"
  as_args :: args_view
  as_auditLogFile :: string
  as_typesFound :: bool

definition view_args :: "arg_state \<Rightarrow> string list" where
  "view_args st = (case as_args st of Alias k \<Rightarrow> take k (as_array st) | Fresh xs \<Rightarrow> xs)"

text \<open>\<^verbatim>\<open>args = append(args[:i], args[i+1:]...)\<close>; slicing past the length panics.\<close>

definition remove_at :: "nat \<Rightarrow> arg_state \<Rightarrow> arg_state outcome" where
  "remove_at i st =
     (case as_args st of
        Alias k \<Rightarrow>
          if i < k then
            Inr (st\<lparr>as_array := take i (as_array st) @ drop (Suc i) (take k (as_array st)) @ drop (k - 1) (as_array st),
                    as_args := Alias (k - 1)\<rparr>)
          else Inl (Panic ''slice bounds out of range'')
      | Fresh xs \<Rightarrow>
          if i < length xs then Inr (st\<lparr>as_args := Fresh (take i xs @ drop (Suc i) xs)\<rparr>)
          else Inl (Panic ''slice bounds out of range''))"

definition apiserver_arg :: "StaticPodConfig \<Rightarrow> nat \<Rightarrow> arg_state \<Rightarrow> arg_state outcome" where
  "apiserver_arg s i st =
     (case str_Cut equals (as_array st ! i) of (name, value, found) \<Rightarrow>
        if name = ''--advertise-port'' \<or> name = ''--basic-auth-file'' then remove_at i st
        else if name = ''--etcd-servers'' then
          (if sp_ExternalDatabase s then
             try_then (remove_at i st) (\<lambda>st.
             Inr (st\<lparr>as_args := Fresh ((''--etcd-servers='' @ ''unixs://'' @
                        filepath_Join [cfg_DataDir (sp_Config s), ''server'', ''kine.sock'']) # view_args st)\<rparr>))
           else Inr st)
        else if name = ''--audit-log-path'' then Inr (st\<lparr>as_auditLogFile := value\<rparr>)
        else if name = ''--kubelet-preferred-address-types'' then Inr (st\<lparr>as_typesFound := True\<rparr>)
        else Inr st)"

definition apiserver_arg_loop :: "StaticPodConfig \<Rightarrow> string list \<Rightarrow> arg_state outcome" where
  "apiserver_arg_loop s args =
     fold_try (apiserver_arg s) [0 ..< length args]
       \<lparr>as_array = args, as_args = Alias (length args), as_auditLogFile = '''', as_typesFound = False\<rparr>"

section \<open>What the loop does\<close>

definition arg_name :: "string \<Rightarrow> string" where
  "arg_name arg = fst (str_Cut equals arg)"

definition removed_flag :: "string \<Rightarrow> bool" where
  "removed_flag arg \<longleftrightarrow> arg_name arg = ''--advertise-port'' \<or> arg_name arg = ''--basic-auth-file''"

definition watched_flag :: "string \<Rightarrow> bool" where
  "watched_flag arg \<longleftrightarrow> arg_name arg = ''--audit-log-path'' \<or> arg_name arg = ''--kubelet-preferred-address-types''"

text \<open>What the loop is meant to find in the arguments it passes on.\<close>

definition audit_path_of :: "string list \<Rightarrow> string" where
  "audit_path_of args =
     (case map_of (rev (map (\<lambda>a. (arg_name a, fst (snd (str_Cut equals a)))) args)) ''--audit-log-path'' of
        None \<Rightarrow> '''' | Some v \<Rightarrow> v)"

definition types_found_in :: "string list \<Rightarrow> bool" where
  "types_found_in args \<longleftrightarrow> (\<exists>a \<in> set args. arg_name a = ''--kubelet-preferred-address-types'')"

lemma apiserver_arg_plain:
  assumes "\<not> removed_flag (as_array st ! i)"
    and "\<not> sp_ExternalDatabase s \<or> arg_name (as_array st ! i) \<noteq> ''--etcd-servers''"
  shows "apiserver_arg s i st = Inr (st
     \<lparr>as_auditLogFile := (if arg_name (as_array st ! i) = ''--audit-log-path''
                          then fst (snd (str_Cut equals (as_array st ! i))) else as_auditLogFile st),
      as_typesFound := (as_typesFound st \<or> arg_name (as_array st ! i) = ''--kubelet-preferred-address-types'')\<rparr>)"
proof -
  obtain n v f where c: "str_Cut equals (as_array st ! i) = (n, v, f)" by (metis prod_cases3)
  have n: "n \<noteq> ''--advertise-port''" "n \<noteq> ''--basic-auth-file''" "\<not> sp_ExternalDatabase s \<or> n \<noteq> ''--etcd-servers''"
    using assms by (simp_all add: removed_flag_def arg_name_def c)
  consider "n = ''--etcd-servers''" | "n = ''--audit-log-path''" | "n = ''--kubelet-preferred-address-types''"
    | "n \<noteq> ''--etcd-servers''" "n \<noteq> ''--audit-log-path''" "n \<noteq> ''--kubelet-preferred-address-types''" by blast
  then show ?thesis
    using n by cases (simp_all add: apiserver_arg_def arg_name_def c)
qed

text \<open>A run of the loop over indices whose elements it leaves in place.\<close>

definition scan_step :: "string \<Rightarrow> arg_state \<Rightarrow> arg_state" where
  "scan_step a st = st
     \<lparr>as_auditLogFile := (if arg_name a = ''--audit-log-path'' then fst (snd (str_Cut equals a)) else as_auditLogFile st),
      as_typesFound := (as_typesFound st \<or> arg_name a = ''--kubelet-preferred-address-types'')\<rparr>"

definition scan :: "string list \<Rightarrow> arg_state \<Rightarrow> arg_state" where
  "scan xs st = fold scan_step xs st"

lemma scan_step_fields [simp]:
  "as_array (scan_step a st) = as_array st" "as_args (scan_step a st) = as_args st"
  "as_typesFound (scan_step a st) = (as_typesFound st \<or> arg_name a = ''--kubelet-preferred-address-types'')"
  "as_auditLogFile (scan_step a st) =
     (if arg_name a = ''--audit-log-path'' then fst (snd (str_Cut equals a)) else as_auditLogFile st)"
  by (simp_all add: scan_step_def)

lemma scan_step_update:
  "scan_step a st\<lparr>as_array := x, as_args := v\<rparr> = scan_step a (st\<lparr>as_array := x, as_args := v\<rparr>)"
  by (cases st) (simp add: scan_step_def)

lemma scan_keeps [simp]: "as_array (scan xs st) = as_array st" "as_args (scan xs st) = as_args st"
  unfolding scan_def by (induction xs arbitrary: st) simp_all

lemma loop_scan:
  assumes "\<forall>i \<in> set is. \<not> removed_flag (as_array st ! i)"
    and "\<forall>i \<in> set is. \<not> sp_ExternalDatabase s \<or> arg_name (as_array st ! i) \<noteq> ''--etcd-servers''"
  shows "fold_try (apiserver_arg s) is st = Inr (scan (map (\<lambda>i. as_array st ! i) is) st)"
  using assms
proof (induction "is" arbitrary: st)
  case (Cons i "is")
  let ?st = "scan [as_array st ! i] st"
  have "apiserver_arg s i st = Inr ?st"
    using apiserver_arg_plain [of st i s] Cons.prems by (simp add: scan_def scan_step_def)
  moreover have "fold_try (apiserver_arg s) is ?st = Inr (scan (map (\<lambda>j. as_array ?st ! j) is) ?st)"
    using Cons by simp
  ultimately show ?case by (simp add: scan_def)
qed (simp add: scan_def)

lemma scan_audit:
  "as_auditLogFile (scan xs st) =
     (case map_of (rev (map (\<lambda>a. (arg_name a, fst (snd (str_Cut equals a)))) xs)) ''--audit-log-path'' of
        None \<Rightarrow> as_auditLogFile st | Some v \<Rightarrow> v)"
  unfolding scan_def by (induction xs arbitrary: st) (auto simp: map_add_def split: option.splits)

lemma scan_found: "as_typesFound (scan xs st) \<longleftrightarrow> as_typesFound st \<or> types_found_in xs"
  unfolding scan_def types_found_in_def by (induction xs arbitrary: st) auto

lemma scan_audit_initial: "as_auditLogFile st = '''' \<Longrightarrow> as_auditLogFile (scan xs st) = audit_path_of xs"
  by (simp add: scan_audit audit_path_of_def split: option.split)

lemma scan_found_initial: "\<not> as_typesFound st \<Longrightarrow> as_typesFound (scan xs st) = types_found_in xs"
  by (simp add: scan_found)

text \<open>
  API server arguments that hold none of the flags the loop removes are passed on unchanged, and the
  loop finds the last audit log path and whether the kubelet address types are set.
\<close>

theorem apiserver_args_unchanged:
  assumes "\<forall>a \<in> set args. \<not> removed_flag a"
    and "\<not> sp_ExternalDatabase s \<or> (\<forall>a \<in> set args. arg_name a \<noteq> ''--etcd-servers'')"
  shows "\<exists>st. apiserver_arg_loop s args = Inr st \<and> view_args st = args \<and>
           as_auditLogFile st = audit_path_of args \<and> as_typesFound st = types_found_in args"
proof -
  let ?st = "\<lparr>as_array = args, as_args = Alias (length args), as_auditLogFile = '''', as_typesFound = False\<rparr>"
  have "apiserver_arg_loop s args = Inr (scan (map (\<lambda>i. as_array ?st ! i) [0 ..< length args]) ?st)"
    unfolding apiserver_arg_loop_def by (rule loop_scan) (use assms in auto)
  also have "map (\<lambda>i. as_array ?st ! i) [0 ..< length args] = args" by (simp add: map_nth)
  finally show ?thesis
    by (auto simp: view_args_def scan_audit_initial scan_found_initial)
qed

section \<open>Removal\<close>

lemma apiserver_arg_removed:
  assumes "removed_flag (as_array st ! i)"
  shows "apiserver_arg s i st = remove_at i st"
proof -
  obtain n v f where c: "str_Cut equals (as_array st ! i) = (n, v, f)" by (metis prod_cases3)
  have "n = ''--advertise-port'' \<or> n = ''--basic-auth-file''" using assms by (simp add: removed_flag_def arg_name_def c)
  then show ?thesis unfolding apiserver_arg_def c prod.case by (simp only: if_True simp_thms)
qed

text \<open>The state after the first removable flag: the array has been shifted, its last element is still there.\<close>

definition shifted :: "string list \<Rightarrow> string \<Rightarrow> string list \<Rightarrow> arg_state" where
  "shifted xs r ys =
     scan xs \<lparr>as_array = xs @ ys @ [last (r # ys)], as_args = Alias (length xs + length ys),
              as_auditLogFile = '''', as_typesFound = False\<rparr>"

lemma scan_update:
  "scan xs st\<lparr>as_array := a, as_args := v\<rparr> = scan xs (st\<lparr>as_array := a, as_args := v\<rparr>)"
  unfolding scan_def by (induction xs arbitrary: st) (simp_all add: scan_step_update)

lemma loop_until_removed:
  assumes "\<forall>a \<in> set xs. \<not> removed_flag a" and "removed_flag r"
    and "\<not> sp_ExternalDatabase s \<or> (\<forall>a \<in> set xs. arg_name a \<noteq> ''--etcd-servers'')"
  shows "apiserver_arg_loop s (xs @ r # ys) =
     fold_try (apiserver_arg s) [Suc (length xs) ..< Suc (length xs + length ys)] (shifted xs r ys)"
proof -
  let ?args = "xs @ r # ys"
  let ?st = "\<lparr>as_array = ?args, as_args = Alias (length ?args), as_auditLogFile = '''', as_typesFound = False\<rparr>"
  have split: "[0 ..< length ?args] = [0 ..< length xs] @ length xs # [Suc (length xs) ..< Suc (length xs + length ys)]"
  proof -
    have "[0 ..< length ?args] = [0 ..< length xs] @ [length xs ..< length ?args]"
      using upt_add_eq_append [of 0 "length xs" "Suc (length ys)"] by simp
    moreover have "[length xs ..< length ?args] = length xs # [Suc (length xs) ..< Suc (length xs + length ys)]"
      by (simp add: upt_conv_Cons del: upt_Suc)
    ultimately show ?thesis by simp
  qed
  have nth: "map (\<lambda>i. as_array ?st ! i) [0 ..< length xs] = xs"
    by (rule nth_equalityI) (auto simp: nth_append)
  have first: "fold_try (apiserver_arg s) [0 ..< length xs] ?st = Inr (scan xs ?st)"
    using loop_scan [of "[0 ..< length xs]" ?st s] assms(1,3) unfolding nth by (auto simp: nth_append)
  have "apiserver_arg s (length xs) (scan xs ?st) = remove_at (length xs) (scan xs ?st)"
    by (rule apiserver_arg_removed) (simp add: assms(2) nth_append)
  also have "\<dots> = Inr (shifted xs r ys)"
  proof -
    have "drop (length xs + length ys) ?args = [last (r # ys)]"
      by (cases ys rule: rev_cases) simp_all
    then show ?thesis by (simp add: remove_at_def shifted_def scan_update)
  qed
  finally show ?thesis
    unfolding apiserver_arg_loop_def split fold_try_append first by (simp del: upt_Suc)
qed

lemma audit_dup: "audit_path_of (xs @ [z, z]) = audit_path_of (xs @ [z])"
  by (simp add: audit_path_of_def)

lemma audit_drop:
  "arg_name y \<noteq> ''--audit-log-path'' \<Longrightarrow> audit_path_of (xs @ y # zs) = audit_path_of (xs @ zs)"
  by (simp add: audit_path_of_def map_add_def split: option.split)

text \<open>The elements the loop reads after the removal: the next one is skipped, the last one is read.\<close>

lemma seen_after_removal:
  assumes "\<not> watched_flag (hd (ys @ [''''])) \<or> length ys \<le> 1"
  shows "audit_path_of (xs @ tl (ys @ [last (r # ys)])) = audit_path_of (xs @ ys) \<and>
         types_found_in (xs @ tl (ys @ [last (r # ys)])) = types_found_in (xs @ ys)"
proof (cases ys)
  case (Cons y zs)
  show ?thesis
  proof (cases zs rule: rev_cases)
    case Nil
    then show ?thesis by (simp add: Cons)
  next
    case (snoc us z)
    with assms Cons have y: "arg_name y \<noteq> ''--audit-log-path''" "arg_name y \<noteq> ''--kubelet-preferred-address-types''"
      by (auto simp: watched_flag_def)
    show ?thesis
      using audit_dup [of "xs @ us" z] audit_drop [OF y(1), of xs "us @ [z]"] y(2)
      by (auto simp: Cons snoc types_found_in_def)
  qed
qed simp

text \<open>
  One argument that is an option of K3s only is removed from the API server's arguments, all others
  are passed on in order. If the argument after it is neither the audit log path nor the address types, or
  is the last one, the loop finds those two as it does without the removed argument.
\<close>

theorem apiserver_args_one_removed:
  assumes "\<forall>a \<in> set (xs @ ys). \<not> removed_flag a" and "removed_flag r" and "\<not> sp_ExternalDatabase s"
  shows "\<exists>st. apiserver_arg_loop s (xs @ r # ys) = Inr st \<and> view_args st = xs @ ys \<and>
           (\<not> watched_flag (hd (ys @ [''''])) \<or> length ys \<le> 1 \<longrightarrow>
              as_auditLogFile st = audit_path_of (xs @ ys) \<and> as_typesFound st = types_found_in (xs @ ys))"
proof -
  let ?sh = "shifted xs r ys"
  let ?seen = "tl (ys @ [last (r # ys)])"
  have arr: "as_array ?sh = xs @ ys @ [last (r # ys)]" by (simp add: shifted_def)
  have seen: "map (\<lambda>i. as_array ?sh ! i) [Suc (length xs) ..< Suc (length xs + length ys)] = ?seen"
    by (rule nth_equalityI) (auto simp: arr nth_append nth_tl simp del: upt_Suc)
  have last_in: "set ?seen \<subseteq> set ys"
    by (cases ys) auto
  have "\<not> removed_flag (as_array ?sh ! i)" if "i \<in> set [Suc (length xs) ..< Suc (length xs + length ys)]" for i
  proof -
    from that have "as_array ?sh ! i \<in> set ?seen" unfolding seen [symmetric] by auto
    then show ?thesis using last_in assms(1) by auto
  qed
  then have run: "apiserver_arg_loop s (xs @ r # ys) = Inr (scan ?seen ?sh)"
    using loop_until_removed [of xs r s ys] loop_scan [of "[Suc (length xs) ..< Suc (length xs + length ys)]" ?sh s] assms
    unfolding seen by auto
  have sc: "scan ?seen ?sh = scan (xs @ ?seen) \<lparr>as_array = xs @ ys @ [last (r # ys)],
      as_args = Alias (length xs + length ys), as_auditLogFile = '''', as_typesFound = False\<rparr>"
    by (simp add: shifted_def scan_def)
  show ?thesis
  proof (intro exI conjI impI)
    show "apiserver_arg_loop s (xs @ r # ys) = Inr (scan ?seen ?sh)" by (rule run)
    show "view_args (scan ?seen ?sh) = xs @ ys" unfolding sc by (simp add: view_args_def)
    assume "\<not> watched_flag (hd (ys @ [''''])) \<or> length ys \<le> 1"
    note seen' = seen_after_removal [OF this, of xs r]
    show "as_auditLogFile (scan ?seen ?sh) = audit_path_of (xs @ ys)"
      unfolding sc using seen' by (subst scan_audit_initial) simp_all
    show "as_typesFound (scan ?seen ?sh) = types_found_in (xs @ ys)"
      unfolding sc using seen' by (subst scan_found_initial) simp_all
  qed
qed

text \<open>
  When the last two API server arguments are both options that the loop removes, it does not remove
  them: after the first removal the slice is shorter than the index the loop has reached, and the second
  removal panics.
\<close>

theorem apiserver_args_two_removed_panic:
  assumes "\<forall>a \<in> set xs. \<not> removed_flag a" and "removed_flag r1" and "removed_flag r2"
    and "\<not> sp_ExternalDatabase s"
  shows "apiserver_arg_loop s (xs @ [r1, r2]) = Inl (Panic ''slice bounds out of range'')"
proof -
  have "apiserver_arg_loop s (xs @ [r1, r2]) =
      fold_try (apiserver_arg s) [Suc (length xs)] (shifted xs r1 [r2])"
    using loop_until_removed [of xs r1 s "[r2]"] assms by simp
  moreover have "apiserver_arg s (Suc (length xs)) (shifted xs r1 [r2]) = remove_at (Suc (length xs)) (shifted xs r1 [r2])"
    by (rule apiserver_arg_removed) (simp add: shifted_def assms(3) nth_append)
  ultimately show ?thesis by (simp add: remove_at_def shifted_def)
qed

text \<open>
  The argument right after a removed one is not examined, unless it is the last. With an audit log
  path there, the path the user set is not found: the loop reports the audit path of the other arguments.
\<close>

theorem apiserver_args_next_skipped:
  assumes "\<forall>a \<in> set (xs @ y # ys @ [z]). \<not> removed_flag a" and "removed_flag r" and "\<not> sp_ExternalDatabase s"
  shows "\<exists>st. apiserver_arg_loop s (xs @ r # y # ys @ [z]) = Inr st \<and>
           view_args st = xs @ y # ys @ [z] \<and> as_auditLogFile st = audit_path_of (xs @ ys @ [z]) \<and>
           as_typesFound st = types_found_in (xs @ ys @ [z])"
proof -
  let ?ys = "y # ys @ [z]"
  let ?sh = "shifted xs r ?ys"
  have arr: "as_array ?sh = xs @ ?ys @ [z]" by (simp add: shifted_def)
  have seen: "map (\<lambda>i. as_array ?sh ! i) [Suc (length xs) ..< Suc (length xs + length ?ys)] = ys @ [z, z]"
    by (rule nth_equalityI) (auto simp: arr nth_append nth_Cons' simp del: upt_Suc)
  have "\<not> removed_flag (as_array ?sh ! i)" if "i \<in> set [Suc (length xs) ..< Suc (length xs + length ?ys)]" for i
  proof -
    from that have "as_array ?sh ! i \<in> set (ys @ [z, z])" unfolding seen [symmetric] by auto
    then show ?thesis using assms(1) by auto
  qed
  then have run: "apiserver_arg_loop s (xs @ r # ?ys) = Inr (scan (ys @ [z, z]) ?sh)"
    using loop_until_removed [of xs r s ?ys]
      loop_scan [of "[Suc (length xs) ..< Suc (length xs + length ?ys)]" ?sh s] assms
    unfolding seen by auto
  have sc: "scan (ys @ [z, z]) ?sh = scan (xs @ ys @ [z, z]) \<lparr>as_array = xs @ ?ys @ [z],
      as_args = Alias (length xs + length ?ys), as_auditLogFile = '''', as_typesFound = False\<rparr>"
    by (simp add: shifted_def scan_def)
  show ?thesis
    unfolding run sc using audit_dup [of "xs @ ys" z]
    by (auto simp: view_args_def scan_audit_initial scan_found_initial types_found_in_def)
qed

section \<open>Witnesses\<close>

theorem apiserver_args_unchanged_witness:
  "\<exists>st. apiserver_arg_loop simple_static [''--audit-log-path=/l'', ''--v=2''] = Inr st \<and> as_auditLogFile st = ''/l''"
proof -
  let ?a = "[''--audit-log-path=/l'', ''--v=2'']"
  have 1: "\<forall>a \<in> set ?a. \<not> removed_flag a" by code_simp
  have 2: "\<not> sp_ExternalDatabase simple_static \<or> (\<forall>a \<in> set ?a. arg_name a \<noteq> ''--etcd-servers'')" by code_simp
  have 3: "audit_path_of ?a = ''/l''" by code_simp
  show ?thesis using apiserver_args_unchanged [OF 1 2] unfolding 3 by blast
qed

theorem apiserver_args_one_removed_witness:
  "\<exists>st. apiserver_arg_loop simple_static [''--a=1'', ''--advertise-port=6443'', ''--b=2'', ''--audit-log-path=/l''] = Inr st \<and>
        view_args st = [''--a=1'', ''--b=2'', ''--audit-log-path=/l''] \<and> as_auditLogFile st = ''/l''"
proof -
  let ?xs = "[''--a=1'']" and ?r = "''--advertise-port=6443''" and ?ys = "[''--b=2'', ''--audit-log-path=/l'']"
  have 1: "\<forall>a \<in> set (?xs @ ?ys). \<not> removed_flag a" by code_simp
  have 2: "removed_flag ?r" by code_simp
  have 3: "\<not> sp_ExternalDatabase simple_static" by code_simp
  have 4: "\<not> watched_flag (hd (?ys @ ['''']))" "audit_path_of (?xs @ ?ys) = ''/l''" by code_simp+
  show ?thesis using apiserver_args_one_removed [OF 1 2 3] 4 by auto
qed

theorem apiserver_args_two_removed_panic_witness:
  "apiserver_arg_loop simple_static [''--a=1'', ''--advertise-port=6443'', ''--basic-auth-file=/f''] =
     Inl (Panic ''slice bounds out of range'')"
proof -
  let ?xs = "[''--a=1'']" and ?r = "''--advertise-port=6443''" and ?q = "''--basic-auth-file=/f''"
  have 1: "\<forall>a \<in> set ?xs. \<not> removed_flag a" by code_simp
  have 2: "removed_flag ?r" "removed_flag ?q" "\<not> sp_ExternalDatabase simple_static" by code_simp+
  show ?thesis using apiserver_args_two_removed_panic [OF 1 2] by simp
qed

theorem apiserver_args_next_skipped_witness:
  "\<exists>st. apiserver_arg_loop simple_static [''--advertise-port=6443'', ''--audit-log-path=/l'', ''--v=2''] = Inr st \<and>
        as_auditLogFile st = ''''"
proof -
  let ?r = "''--advertise-port=6443''" and ?y = "''--audit-log-path=/l''" and ?z = "''--v=2''"
  have 1: "\<forall>a \<in> set ([] @ ?y # [] @ [?z]). \<not> removed_flag a" by code_simp
  have 2: "removed_flag ?r" "\<not> sp_ExternalDatabase simple_static" by code_simp+
  have 3: "audit_path_of ([] @ [] @ [?z]) = ''''" by code_simp
  show ?thesis using apiserver_args_next_skipped [OF 1 2] unfolding 3 by auto
qed

end
