(* ===== verification/Logging.thy ===== *)
theory Logging
  imports Pod_Config
begin

text \<open>
  \<^verbatim>\<open>pkg/logging/logging.go\<close>: the klog flags are taken out of a component's arguments and configure its log
  writer. The flag set is a package variable that every call reuses; its contents come from klog and are a
  parameter: each flag has a default, the value a bare flag stands for, and the function its
  \<^verbatim>\<open>Value.Set\<close> applies to the old value. Flag names are normalised by a function of another package.
\<close>

record klog_flag =
  fl_DefValue :: string
  fl_NoOptDefVal :: string
  fl_Set :: "string \<Rightarrow> string \<Rightarrow> string"

record flag_pkg =
  normalize :: "string \<Rightarrow> string"
  packageFlags :: "(string, klog_flag) gomap"
  flag_GetUint64 :: "string \<Rightarrow> int"

type_synonym flag_values = "(string, string) gomap"

datatype log_writer = Stderr | Discard | Lumberjack string int | MultiWriter string int

definition set_flag :: "flag_pkg \<Rightarrow> string \<Rightarrow> string \<Rightarrow> flag_values \<Rightarrow> flag_values" where
  "set_flag pkg name val vals =
     (case gm_get (packageFlags pkg) name of None \<Rightarrow> vals
      | Some f \<Rightarrow> gm_put name (fl_Set f (gm_index '''' vals name) val) vals)"

definition reset_flags :: "flag_pkg \<Rightarrow> flag_values \<Rightarrow> flag_values" where
  "reset_flags pkg vals = fold (\<lambda>(name, f). set_flag pkg name (fl_DefValue f)) (packageFlags pkg) vals"

definition extract_arg :: "flag_pkg \<Rightarrow> string \<Rightarrow> string list \<times> flag_values \<Rightarrow> string list \<times> flag_values" where
  "extract_arg pkg arg = (\<lambda>(extraArgs, vals).
     let split = str_SplitN2 equals (str_TrimPrefix arg ''--''); name = normalize pkg (split ! 0) in
     case gm_get (packageFlags pkg) name of
       Some f \<Rightarrow> (extraArgs, set_flag pkg name (if length split > 1 then split ! 1 else fl_NoOptDefVal f) vals)
     | None \<Rightarrow> (extraArgs @ [arg], vals))"

definition get_bool :: "flag_values \<Rightarrow> string \<Rightarrow> bool" where
  "get_bool vals name = (case strconv_ParseBool (gm_index '''' vals name) of Inr b \<Rightarrow> b | Inl _ \<Rightarrow> False)"

definition choose_writer :: "flag_pkg \<Rightarrow> flag_values \<Rightarrow> log_writer" where
  "choose_writer pkg vals =
     (let alsoToStderr = get_bool vals ''alsologtostderr'';
          filename = gm_index '''' vals ''log-file'';
          maxSize = flag_GetUint64 pkg (gm_index '''' vals ''log-file-max-size'');
          toStderr = get_bool vals ''logtostderr'' in
      if filename = '''' then (if toStderr \<or> alsoToStderr then Stderr else Discard)
      else if alsoToStderr then MultiWriter filename maxSize
      else Lumberjack filename maxSize)"

definition ExtractFromArgs :: "flag_pkg \<Rightarrow> string list \<Rightarrow> flag_values \<Rightarrow> string list \<times> log_writer \<times> flag_values" where
  "ExtractFromArgs pkg args vals =
     (case fold (extract_arg pkg) args ([], reset_flags pkg vals) of
        (extraArgs, vals') \<Rightarrow> (extraArgs, choose_writer pkg vals', vals'))"

section \<open>What is extracted\<close>

definition is_log_arg :: "flag_pkg \<Rightarrow> string \<Rightarrow> bool" where
  "is_log_arg pkg arg \<longleftrightarrow>
     gm_get (packageFlags pkg) (normalize pkg (fst (split_item (str_TrimPrefix arg ''--'')))) \<noteq> None"

lemma splitN2_head: "str_SplitN2 equals s ! 0 = fst (split_item s)"
  by (cases rule: str_SplitN2_cases [of equals s]) (simp_all add: split_item_def str_Cut_no_sep)

lemma extract_args_rest:
  "fst (fold (extract_arg pkg) args st) = fst st @ filter (\<lambda>a. \<not> is_log_arg pkg a) args"
proof (induction args arbitrary: st)
  case (Cons a args)
  obtain e v where st: "st = (e, v)" by (cases st)
  have "fst (extract_arg pkg a st) = e @ (if is_log_arg pkg a then [] else [a])"
    by (simp add: st extract_arg_def is_log_arg_def splitN2_head Let_def split: option.split)
  then show ?case using Cons.IH [of "extract_arg pkg a st"] by (simp add: st)
qed simp

text \<open>The flags' values agree on every flag of the package.\<close>

definition same_flags :: "flag_pkg \<Rightarrow> flag_values \<Rightarrow> flag_values \<Rightarrow> bool" where
  "same_flags pkg v w \<longleftrightarrow> (\<forall>n \<in> set (gm_keys (packageFlags pkg)). gm_get v n = gm_get w n)"

lemma set_flag_same: "same_flags pkg v w \<Longrightarrow> same_flags pkg (set_flag pkg n x v) (set_flag pkg n x w)"
  by (auto simp: same_flags_def set_flag_def gm_index_def dest: gm_get_Some_in_keys split: option.split)

lemma extract_arg_same:
  assumes "same_flags pkg (snd s) (snd t)"
  shows "same_flags pkg (snd (extract_arg pkg a s)) (snd (extract_arg pkg a t))"
  using assms set_flag_same
  by (cases s; cases t) (auto simp: extract_arg_def Let_def split: option.split)

lemma fold_extract_same:
  "same_flags pkg (snd s) (snd t) \<Longrightarrow>
     same_flags pkg (snd (fold (extract_arg pkg) args s)) (snd (fold (extract_arg pkg) args t))"
  by (induction args arbitrary: s t) (simp_all add: extract_arg_same)

text \<open>Setting a flag to its default gives a value that does not depend on the one before.\<close>

definition resettable :: "flag_pkg \<Rightarrow> bool" where
  "resettable pkg \<longleftrightarrow> distinct (gm_keys (packageFlags pkg)) \<and>
     (\<forall>(n, f) \<in> set (packageFlags pkg). \<forall>o1 o2. fl_Set f o1 (fl_DefValue f) = fl_Set f o2 (fl_DefValue f))"

lemma reset_flags_get:
  assumes "resettable pkg" and "set fs \<subseteq> set (packageFlags pkg)" and "distinct (map fst fs)"
  shows "gm_get (fold (\<lambda>(name, f). set_flag pkg name (fl_DefValue f)) fs vals) n =
    (case map_of fs n of None \<Rightarrow> gm_get vals n | Some f \<Rightarrow> Some (fl_Set f '''' (fl_DefValue f)))"
  using assms(2,3)
proof (induction fs arbitrary: vals)
  case (Cons nf fs)
  obtain m f where nf: "nf = (m, f)" by (cases nf)
  have mem: "(m, f) \<in> set (packageFlags pkg)" using Cons.prems by (simp add: nf)
  then have get: "gm_get (packageFlags pkg) m = Some f"
    using assms(1) by (simp add: gm_get_def gm_keys_def resettable_def)
  have "fl_Set f (gm_index '''' vals m) (fl_DefValue f) = fl_Set f '''' (fl_DefValue f)"
    using assms(1) mem by (auto simp: resettable_def)
  then have "set_flag pkg m (fl_DefValue f) vals = gm_put m (fl_Set f '''' (fl_DefValue f)) vals"
    by (simp add: set_flag_def get)
  moreover have "map_of fs m = None" using Cons.prems(2) by (simp add: nf map_of_eq_None_iff)
  ultimately show ?case using Cons.IH Cons.prems by (auto simp: nf split: option.split)
qed simp

lemma reset_flags_same: "resettable pkg \<Longrightarrow> same_flags pkg (reset_flags pkg v) (reset_flags pkg w)"
proof -
  assume r: "resettable pkg"
  then have d: "distinct (map fst (packageFlags pkg))" by (simp add: resettable_def gm_keys_def)
  show ?thesis
    unfolding same_flags_def reset_flags_def
    using reset_flags_get [OF r subset_refl d] gm_get_None_iff [of "packageFlags pkg"]
    by (auto simp: gm_get_def split: option.split)
qed

lemma get_index_same:
  "same_flags pkg v w \<Longrightarrow> n \<in> set (gm_keys (packageFlags pkg)) \<Longrightarrow> gm_index z v n = gm_index z w n"
  by (simp add: same_flags_def gm_index_def)

text \<open>
  Extracting the logging flags is repeatable although the flag set is shared. The remaining arguments
  are exactly those that are not logging flags, in order, and the log writer is the same whatever the flag
  set was left as by earlier calls.
\<close>

theorem ExtractFromArgs_repeatable:
  assumes "resettable pkg"
    and "{''alsologtostderr'', ''log-file'', ''log-file-max-size'', ''logtostderr''} \<subseteq> set (gm_keys (packageFlags pkg))"
  shows "fst (ExtractFromArgs pkg args vals) = filter (\<lambda>a. \<not> is_log_arg pkg a) args \<and>
         fst (snd (ExtractFromArgs pkg args vals)) = fst (snd (ExtractFromArgs pkg args vals'))"
proof -
  have same: "same_flags pkg (snd (fold (extract_arg pkg) args ([], reset_flags pkg vals)))
      (snd (fold (extract_arg pkg) args ([], reset_flags pkg vals')))"
    by (rule fold_extract_same) (simp add: reset_flags_same [OF assms(1)])
  have "choose_writer pkg (snd (fold (extract_arg pkg) args ([], reset_flags pkg vals))) =
        choose_writer pkg (snd (fold (extract_arg pkg) args ([], reset_flags pkg vals')))"
    using assms(2) by (simp add: choose_writer_def get_bool_def get_index_same [OF same])
  then show ?thesis
    using extract_args_rest [of pkg args "([], reset_flags pkg vals)"]
    by (simp add: ExtractFromArgs_def split_beta)
qed

definition simple_flags :: flag_pkg where
  "simple_flags =
     \<lparr>normalize = (\<lambda>n. map (\<lambda>c. if c = CHR ''_'' then CHR ''-'' else c) n),
      packageFlags = map (\<lambda>(n, dv, no). (n, \<lparr>fl_DefValue = dv, fl_NoOptDefVal = no, fl_Set = (\<lambda>old v. v)\<rparr>))
        [(''alsologtostderr'', ''false'', ''true''), (''log-file'', '''', ''''), (''log-file-max-size'', ''1800'', ''''),
         (''logtostderr'', ''true'', ''true'')],
      flag_GetUint64 = (\<lambda>s. 0)\<rparr>"

theorem ExtractFromArgs_repeatable_witness:
  "fst (ExtractFromArgs simple_flags [''--log_file=/l'', ''--v=2'', ''--alsologtostderr''] [(''logtostderr'', ''false'')]) = [''--v=2''] \<and>
   fst (snd (ExtractFromArgs simple_flags [''--v=2''] [(''log-file'', ''/stale'')])) =
   fst (snd (ExtractFromArgs simple_flags [''--v=2''] []))"
proof -
  have 1: "resettable simple_flags"
    by (simp add: resettable_def simple_flags_def gm_keys_def)
  have 2: "{''alsologtostderr'', ''log-file'', ''log-file-max-size'', ''logtostderr''} \<subseteq> set (gm_keys (packageFlags simple_flags))"
    by (simp add: simple_flags_def gm_keys_def)
  have 3: "filter (\<lambda>a. \<not> is_log_arg simple_flags a) [''--log_file=/l'', ''--v=2'', ''--alsologtostderr''] = [''--v=2'']"
    by code_simp
  show ?thesis
    using ExtractFromArgs_repeatable [OF 1 2, of "[''--log_file=/l'', ''--v=2'', ''--alsologtostderr'']" "[(''logtostderr'', ''false'')]"]
      ExtractFromArgs_repeatable [OF 1 2, of "[''--v=2'']" "[(''log-file'', ''/stale'')]" "[]"] 3 by simp
qed

end
