(* ===== verification/Static_Executor.thy ===== *)
theory Static_Executor
  imports Static_Args Logging
begin

text \<open>
  The handlers of \<^verbatim>\<open>StaticPodConfig\<close> (\<^verbatim>\<open>pkg/executor/staticpod/staticpod.go\<close>), which K3s calls to start the
  control plane components, and the machine they form together with the goroutines they start. A handler
  that has to wait for a channel leaves a pending job: \<^verbatim>\<open>podtemplate.After(ch, f)\<close> starts a goroutine that
  runs \<^verbatim>\<open>f\<close> once \<^verbatim>\<open>ch\<close> is closed, and an error of \<^verbatim>\<open>f\<close> ends the process. The step relation interleaves
  handler calls, the closing of channels and the running of jobs in any order.
\<close>

section \<open>State\<close>

datatype chan = ApiServerReady | EtcdReady | CriReady | DataReady | CcmRBACReady

record exec =
  ex_cfg :: StaticPodConfig
  ex_boot :: bool
  ex_closed :: "chan list"
  ex_pending :: "(chan \<times> Spec) list"
  ex_disk :: disk
  ex_exited :: bool
  ex_SystemDefaultRegistry :: string
  ex_PauseImage :: string
  ex_kubelet :: "(string \<times> string list \<times> log_writer) option"
  ex_flags :: flag_values
  ex_stop_on_cancel :: bool

text \<open>The part of K3s's etcd configuration that the executor uses; its methods are parameters.\<close>

record ETCDConfig =
  ec_InitialOptions_json :: "string result"
  ec_ToConfigFile :: "string list \<Rightarrow> disk \<Rightarrow> string result \<times> disk"
  ec_DataDir :: string
  ec_ServerCertFile :: string
  ec_ServerKeyFile :: string
  ec_ServerTrustedCAFile :: string
  ec_PeerCertFile :: string
  ec_PeerKeyFile :: string
  ec_PeerTrustedCAFile :: string
  ec_ForceNewCluster :: bool

text \<open>\<^verbatim>\<open>APIServerReadyChan\<close>, \<^verbatim>\<open>ETCDReadyChan\<close>, \<^verbatim>\<open>CRIReadyChan\<close>, \<^verbatim>\<open>dataReadyChan\<close>: a nil channel panics.\<close>

definition ready_chan :: "chan \<Rightarrow> exec \<Rightarrow> chan outcome" where
  "ready_chan ch x = (if ex_boot x then Inr ch else Inl (Panic ''executor not bootstrapped''))"

text \<open>\<^verbatim>\<open>podtemplate.After\<close>.\<close>

definition After :: "chan \<Rightarrow> Spec \<Rightarrow> exec \<Rightarrow> exec" where
  "After ch spec x = x\<lparr>ex_pending := ex_pending x @ [(ch, spec)]\<rparr>"

text \<open>The job of a pending entry: write the template, or end the process.\<close>

definition run_job :: "host \<Rightarrow> string \<Rightarrow> Spec \<Rightarrow> exec \<Rightarrow> exec" where
  "run_job h rnd spec x =
     (case writeTemplate h (ex_cfg x) rnd (Some spec) (ex_disk x) of
        (Inl e, d) \<Rightarrow> x\<lparr>ex_disk := d, ex_exited := True\<rparr>
      | (Inr _, d) \<Rightarrow> x\<lparr>ex_disk := d\<rparr>)"

section \<open>Handlers\<close>

text \<open>
  The synchronous part of \<^verbatim>\<open>Bootstrap\<close>: the channels are made anew, the registry and the pause image are set,
  the stale kube-proxy manifest is removed. \<open>binDir\<close> is the result of \<^verbatim>\<open>bootstrap.BinDir\<close>.
\<close>

definition set_registry_of :: "host \<Rightarrow> string \<Rightarrow> exec \<Rightarrow> exec result" where
  "set_registry_of h reg x =
     try_then (ParseAndSetDefaultRegistry (h_pkg h) reg (cfg_Resolver (sp_Config (ex_cfg x)))) (\<lambda>r.
     Inr (x\<lparr>ex_cfg := (ex_cfg x)\<lparr>sp_Config := (sp_Config (ex_cfg x))\<lparr>cfg_Resolver := r\<rparr>\<rparr>\<rparr>))"

definition bootstrap_registry :: "host \<Rightarrow> exec \<Rightarrow> exec result" where
  "bootstrap_registry h x =
     (if ex_SystemDefaultRegistry x \<noteq> '''' then set_registry_of h (ex_SystemDefaultRegistry x) x
      else if sp_Prime (ex_cfg x) then
        let x = x\<lparr>ex_SystemDefaultRegistry := PrimeRegistry (h_build h)\<rparr> in
        set_registry_of h (ex_SystemDefaultRegistry x) x
      else Inr x)"

definition Bootstrap :: "host \<Rightarrow> (resolver \<Rightarrow> string result) \<Rightarrow> exec \<Rightarrow> unit outcome \<times> exec" where
  "Bootstrap h binDir x0 =
     (let x = x0\<lparr>ex_boot := True, ex_closed := []\<rparr> in
      case bootstrap_registry h x of
        Inl e \<Rightarrow> (Inl (Err e), x)
      | Inr x \<Rightarrow>
         (case GetReference (h_pkg h) (h_build h) (cfg_Resolver (sp_Config (ex_cfg x))) Img_Pause [] of
            Inl e \<Rightarrow> (Inl (Err e), x)
          | Inr pause \<Rightarrow>
              (let x = x\<lparr>ex_PauseImage := RefName (h_pkg h) pause\<rparr> in
               case binDir (cfg_Resolver (sp_Config (ex_cfg x))) of
                 Inl e \<Rightarrow> (Inl (Err e), x)
               | Inr _ \<Rightarrow> (Inr (), x\<lparr>ex_disk := snd (removeTemplate (ex_cfg x) ''kube-proxy'' (ex_disk x))\<rparr>))))"

definition KubeProxy_start :: "host \<Rightarrow> string \<Rightarrow> string list \<Rightarrow> exec \<Rightarrow> unit outcome \<times> exec" where
  "KubeProxy_start h rnd args x =
     (case KubeProxy_spec (h_pkg h) (h_build h) (sp_Config (ex_cfg x)) args (ex_disk x) of
        (Inl e, d) \<Rightarrow> (Inl (Err e), x\<lparr>ex_disk := d\<rparr>)
      | (Inr podSpec, d) \<Rightarrow>
          (case writeTemplate h (ex_cfg x) rnd
                  (Some (podSpec\<lparr>spec_Privileged := True, spec_HostNetwork := True\<rparr>)) d of
             (Inl e, d') \<Rightarrow> (Inl (Err e), x\<lparr>ex_disk := d'\<rparr>)
           | (Inr _, d') \<Rightarrow> (Inr (), x\<lparr>ex_disk := d'\<rparr>)))"

text \<open>The arguments of the API server after the loop, and the audit log file.\<close>

definition apiserver_base_args :: "StaticPodConfig \<Rightarrow> arg_state \<Rightarrow> string list" where
  "apiserver_base_args s st =
     (let args = view_args st;
          args = (if as_typesFound st then args
                  else ''--kubelet-preferred-address-types=InternalIP,ExternalIP,Hostname'' # args)
      in if isCISMode (sp_ProfileMode s) then ''--service-account-extend-token-expiration=false'' # args else args)"

definition apiserver_policy :: "StaticPodConfig \<Rightarrow> StaticPodConfig" where
  "apiserver_policy s =
     (if isCISMode (sp_ProfileMode s) \<and> sp_AuditPolicyFile s = ''''
      then s\<lparr>sp_AuditPolicyFile := DefaultAuditPolicyFile\<rparr> else s)"

definition apiserver_audit_args :: "StaticPodConfig \<Rightarrow> string \<Rightarrow> string list \<Rightarrow> string list \<times> string" where
  "apiserver_audit_args s auditLogFile args =
     (if sp_AuditPolicyFile s \<noteq> '''' then
        let extraArgs = [''--audit-policy-file='' @ sp_AuditPolicyFile s, ''--audit-log-maxage=30'',
                         ''--audit-log-maxbackup=10'', ''--audit-log-maxsize=100'']
        in if auditLogFile = '''' then
             let auditLogFile = filepath_Join [cfg_DataDir (sp_Config s), ''server/logs/audit.log'']
             in (extraArgs @ [''--audit-log-path='' @ auditLogFile] @ args, auditLogFile)
           else (extraArgs @ args, auditLogFile)
      else (args, auditLogFile))"

definition apiserver_dirs :: "StaticPodConfig \<Rightarrow> disk \<Rightarrow> string \<Rightarrow> string list" where
  "apiserver_dirs s d auditLogFile =
     OnlyExisting d SSLDirs @
     (if auditLogFile \<noteq> '''' \<and> auditLogFile \<noteq> ''-'' then [filepath_Dir auditLogFile] else []) @
     [filepath_Join [cfg_DataDir (sp_Config s), ''server'']]"

definition apiserver_excludes :: "StaticPodConfig \<Rightarrow> string \<Rightarrow> string list" where
  "apiserver_excludes s auditLogFile =
     (if auditLogFile \<noteq> '''' \<and> auditLogFile \<noteq> ''-'' then [auditLogFile] else []) @
     [filepath_Join [cfg_DataDir (sp_Config s), ''server/cred/encryption-config.json'']]"

definition etcd_name_files :: "StaticPodConfig \<Rightarrow> string list" where
  "etcd_name_files s = (if sp_DisableETCD s then [] else [etcdNameFile (cfg_DataDir (sp_Config s))])"

definition apiserver_final_args :: "StaticPodConfig \<Rightarrow> arg_state \<Rightarrow> string list \<times> string" where
  "apiserver_final_args s st =
     (case apiserver_audit_args s (as_auditLogFile st) (apiserver_base_args s st) of
        (args, auditLogFile) \<Rightarrow> ((''--admission-control-config-file='' @ sp_PSAConfigFile s) # args, auditLogFile))"

definition APIServer_finish :: "host \<Rightarrow> arg_state \<Rightarrow> exec \<Rightarrow> unit outcome \<times> exec" where
  "APIServer_finish h st x =
     (let s = ex_cfg x in
      case apiserver_final_args s st of
        (args, auditLogFile) \<Rightarrow>
          (let dirs = apiserver_dirs s (ex_disk x) auditLogFile in
           case APIServer_spec (h_pkg h) (h_build h) (h_APIServerPort h) (sp_Config s) args (ex_disk x) of
             (Inl e, d) \<Rightarrow> (Inl (Err e), x\<lparr>ex_disk := d\<rparr>)
           | (Inr podSpec, d) \<Rightarrow>
               (let x = x\<lparr>ex_disk := d\<rparr>;
                    podSpec = podSpec\<lparr>spec_Files := etcd_name_files s, spec_Dirs := dirs,
                      spec_ExcludeFiles := apiserver_excludes s auditLogFile, spec_HostNetwork := True\<rparr> in
                case ready_chan EtcdReady x of
                  Inl f \<Rightarrow> (Inl f, x)
                | Inr ch \<Rightarrow> (Inr (), After ch podSpec x))))"

definition APIServer_configure :: "host \<Rightarrow> string list \<Rightarrow> exec \<Rightarrow> unit outcome \<times> exec" where
  "APIServer_configure h args x =
     (case apiserver_arg_loop (ex_cfg x) args of
        Inl f \<Rightarrow> (Inl f, x)
      | Inr st \<Rightarrow>
         (let x = x\<lparr>ex_cfg := apiserver_policy (ex_cfg x)\<rparr> in
          if sp_AuditPolicyFile (ex_cfg x) \<noteq> '''' then
            (case WriteDefaultPolicyFile (h_libs h) (sp_AuditPolicyFile (ex_cfg x)) (ex_disk x) of
               (Inl e, d) \<Rightarrow> (Inl (Err e), x\<lparr>ex_disk := d\<rparr>)
             | (Inr _, d) \<Rightarrow> APIServer_finish h st (x\<lparr>ex_disk := d\<rparr>))
          else APIServer_finish h st x))"

definition APIServer_start :: "host \<Rightarrow> string list \<Rightarrow> exec \<Rightarrow> unit outcome \<times> exec" where
  "APIServer_start h args x =
     (case removeTemplate (ex_cfg x) ''kube-apiserver'' (ex_disk x) of
        (Inl e, d) \<Rightarrow> (Inl (Err e), x\<lparr>ex_disk := d\<rparr>)
      | (Inr _, d) \<Rightarrow> APIServer_configure h args (x\<lparr>ex_disk := d\<rparr>))"


definition permitPortSharingFlag :: "string list" where
  "permitPortSharingFlag = [''--permit-port-sharing=true'']"

definition Scheduler_start :: "host \<Rightarrow> string list \<Rightarrow> exec \<Rightarrow> unit outcome \<times> exec" where
  "Scheduler_start h args x =
     (case Scheduler_spec (h_pkg h) (h_build h) (sp_Config (ex_cfg x)) (permitPortSharingFlag @ args) (ex_disk x) of
        (Inl e, d) \<Rightarrow> (Inl (Err e), x\<lparr>ex_disk := d\<rparr>)
      | (Inr podSpec, d) \<Rightarrow>
          (let x = x\<lparr>ex_disk := d\<rparr>;
               podSpec = podSpec\<lparr>spec_Files := etcd_name_files (ex_cfg x), spec_HostNetwork := True\<rparr> in
           case ready_chan ApiServerReady x of
             Inl f \<Rightarrow> (Inl f, x)
           | Inr ch \<Rightarrow> (Inr (), After ch podSpec x)))"

definition cm_args :: "StaticPodConfig \<Rightarrow> string list \<Rightarrow> string list" where
  "cm_args s args =
     permitPortSharingFlag @
     [''--flex-volume-plugin-dir=/var/lib/kubelet/volumeplugins'', ''--terminated-pod-gc-threshold=1000''] @
     (case sp_CloudProvider s of None \<Rightarrow> []
      | Some cp \<Rightarrow> [''--cloud-provider='' @ cp_Name cp, ''--cloud-config='' @ cp_Path cp]) @ args"

definition ControllerManager_start :: "host \<Rightarrow> string list \<Rightarrow> exec \<Rightarrow> unit outcome \<times> exec" where
  "ControllerManager_start h args x =
     (case ControllerManager_spec (h_pkg h) (h_build h) (sp_Config (ex_cfg x)) (cm_args (ex_cfg x) args) (ex_disk x) of
        (Inl e, d) \<Rightarrow> (Inl (Err e), x\<lparr>ex_disk := d\<rparr>)
      | (Inr podSpec, d) \<Rightarrow>
          (let x = x\<lparr>ex_disk := d\<rparr>;
               podSpec = podSpec\<lparr>spec_Files := etcd_name_files (ex_cfg x), spec_Dirs := OnlyExisting d SSLDirs,
                 spec_HostNetwork := True\<rparr> in
           case ready_chan ApiServerReady x of
             Inl f \<Rightarrow> (Inl f, x)
           | Inr ch \<Rightarrow> (Inr (), After ch podSpec x)))"

definition CloudControllerManager_start :: "host \<Rightarrow> string list \<Rightarrow> exec \<Rightarrow> unit outcome \<times> exec" where
  "CloudControllerManager_start h args x =
     (case CloudControllerManager_spec (h_pkg h) (h_build h) (sp_Config (ex_cfg x)) args (ex_disk x) of
        (Inl e, d) \<Rightarrow> (Inl (Err e), x\<lparr>ex_disk := d\<rparr>)
      | (Inr podSpec, d) \<Rightarrow>
          (Inr (), After CcmRBACReady
             (podSpec\<lparr>spec_Dirs := OnlyExisting d SSLDirs, spec_HostNetwork := True\<rparr>) (x\<lparr>ex_disk := d\<rparr>)))"

definition kubelet_args :: "StaticPodConfig \<Rightarrow> string list \<Rightarrow> string list" where
  "kubelet_args s args =
     [''--volume-plugin-dir=/var/lib/kubelet/volumeplugins'', ''--file-check-frequency=5s'', ''--sync-frequency=30s''] @
     (case sp_CloudProvider s of None \<Rightarrow> [] | Some cp \<Rightarrow> [''--cloud-provider='' @ cp_Name cp]) @ args"

text \<open>The kubelet runs in a loop with these arguments until its context is cancelled.\<close>

definition Kubelet_start :: "flag_pkg \<Rightarrow> string list \<Rightarrow> exec \<Rightarrow> unit outcome \<times> exec" where
  "Kubelet_start fp args x =
     (case ExtractFromArgs fp (kubelet_args (ex_cfg x) args) (ex_flags x) of
        (args', logOut, vals) \<Rightarrow>
          (Inr (), x\<lparr>ex_kubelet := Some (sp_KubeletPath (ex_cfg x), args', logOut), ex_flags := vals\<rparr>))"

section \<open>etcd\<close>

definition etcd_spec_files :: "ETCDConfig \<Rightarrow> string list" where
  "etcd_spec_files c = [ec_ServerCertFile c, ec_ServerKeyFile c, ec_ServerTrustedCAFile c,
     ec_PeerCertFile c, ec_PeerKeyFile c, ec_PeerTrustedCAFile c]"

text \<open>In a profile mode the pod runs as the etcd user, which gets the data directory and the files.\<close>

fun chownr_all :: "string list \<Rightarrow> int \<Rightarrow> int \<Rightarrow> disk \<Rightarrow> unit result \<times> disk" where
  "chownr_all [] u g d = (Inr (), d)"
| "chownr_all (p # ps) u g d =
     (case chownr p u g d of (Inl e, d') \<Rightarrow> (Inl e, d') | (Inr _, d') \<Rightarrow> chownr_all ps u g d')"

definition etcd_run_as :: "host \<Rightarrow> Spec \<Rightarrow> disk \<Rightarrow> Spec result \<times> disk" where
  "etcd_run_as h podSpec d =
     (case try_then (h_etcd_user h) (\<lambda>(u, g).
             try_then (strconv_ParseInt 64 u) (\<lambda>uid. try_then (strconv_ParseInt 64 g) (\<lambda>gid. Inr (uid, gid)))) of
        Inl e \<Rightarrow> (Inl e, d)
      | Inr (uid, gid) \<Rightarrow>
          (let c = (case spec_SecurityContext podSpec of
                      None \<Rightarrow> \<lparr>psc_RunAsUser = None, psc_RunAsGroup = None, psc_seLinuxType = None\<rparr> | Some c \<Rightarrow> c);
               podSpec = podSpec\<lparr>spec_SecurityContext := Some (c\<lparr>psc_RunAsUser := Some uid, psc_RunAsGroup := Some gid\<rparr>)\<rparr>
           in case chownr_all (spec_Dirs podSpec @ spec_Files podSpec) uid gid d of
                (Inl e, d') \<Rightarrow> (Inl e, d')
              | (Inr _, d') \<Rightarrow> (Inr podSpec, d')))"

definition etcd_pod_spec :: "ETCDConfig \<Rightarrow> string \<Rightarrow> Spec \<Rightarrow> Spec" where
  "etcd_pod_spec c initial podSpec =
     podSpec\<lparr>spec_Annotations := [(''etcd.k3s.io/initial'', initial)], spec_Dirs := [ec_DataDir c],
       spec_Files := etcd_spec_files c, spec_HostNetwork := True\<rparr>"

definition ETCD_write :: "host \<Rightarrow> string \<Rightarrow> ETCDConfig \<Rightarrow> Spec \<Rightarrow> exec \<Rightarrow> unit outcome \<times> exec" where
  "ETCD_write h rnd c podSpec x =
     (let podSpec = podSpec\<lparr>spec_SecurityContext :=
            with_selinux (h_EnableSELinux h) ''rke2_service_db_t'' (spec_SecurityContext podSpec)\<rparr>;
          x = (if ec_ForceNewCluster c then x\<lparr>ex_stop_on_cancel := True\<rparr> else x) in
      case writeTemplate h (ex_cfg x) rnd (Some podSpec) (ex_disk x) of
        (Inl e, d) \<Rightarrow> (Inl (Err e), x\<lparr>ex_disk := d\<rparr>)
      | (Inr _, d) \<Rightarrow> (Inr (), x\<lparr>ex_disk := d\<rparr>))"

definition ETCD_run :: "host \<Rightarrow> string \<Rightarrow> ETCDConfig \<Rightarrow> Spec \<Rightarrow> exec \<Rightarrow> unit outcome \<times> exec" where
  "ETCD_run h rnd c podSpec x =
     (case (if isAnyMode (sp_ProfileMode (ex_cfg x)) then etcd_run_as h podSpec (ex_disk x)
            else (Inr podSpec, ex_disk x)) of
        (Inl e, d) \<Rightarrow> (Inl (Err e), x\<lparr>ex_disk := d\<rparr>)
      | (Inr podSpec, d) \<Rightarrow> ETCD_write h rnd c podSpec (x\<lparr>ex_disk := d\<rparr>))"

definition etcd_args :: "string \<Rightarrow> string list" where
  "etcd_args confFile = [''--config-file='' @ confFile]"

definition ETCD_start :: "host \<Rightarrow> string \<Rightarrow> ETCDConfig option \<Rightarrow> string list \<Rightarrow> exec \<Rightarrow> unit outcome \<times> exec" where
  "ETCD_start h rnd args extraArgs x =
     (case args of None \<Rightarrow> (Inr (), x)
      | Some c \<Rightarrow>
         (case ec_InitialOptions_json c of Inl e \<Rightarrow> (Inl (Err e), x)
          | Inr initial \<Rightarrow>
             (case ec_ToConfigFile c extraArgs (ex_disk x) of
                (Inl e, d) \<Rightarrow> (Inl (Err e), x\<lparr>ex_disk := d\<rparr>)
              | (Inr confFile, d) \<Rightarrow>
                 (case ETCD_spec (h_pkg h) (h_build h) (sp_Config (ex_cfg x)) (etcd_args confFile) d of
                    (Inl e, d) \<Rightarrow> (Inl (Err e), x\<lparr>ex_disk := d\<rparr>)
                  | (Inr podSpec, d) \<Rightarrow> ETCD_run h rnd c (etcd_pod_spec c initial podSpec) (x\<lparr>ex_disk := d\<rparr>)))))"


text \<open>\<^verbatim>\<open>CurrentETCDOptions\<close>; the decoders of YAML and JSON are parameters, \<open>zero\<close> is the empty option value.\<close>

definition CurrentETCDOptions ::
  "StaticPodConfig \<Rightarrow> (string \<Rightarrow> (string, string) gomap result) \<Rightarrow> (string \<Rightarrow> 'o result) \<Rightarrow> 'o \<Rightarrow> disk \<Rightarrow> 'o result" where
  "CurrentETCDOptions s yaml_annotations json_options zero d =
     (case os_ReadFile d (manifestPath s ''etcd'') of
        Inl e \<Rightarrow>
          if os_IsNotExist e then Inr zero
          else try_then (yaml_annotations '''') (\<lambda>ann.
            case gm_get ann ''etcd.k3s.io/initial'' of Some v \<Rightarrow> json_options v | None \<Rightarrow> Inr zero)
      | Inr bytes \<Rightarrow> try_then (yaml_annotations bytes) (\<lambda>ann.
            case gm_get ann ''etcd.k3s.io/initial'' of Some v \<Rightarrow> json_options v | None \<Rightarrow> Inr zero))"

section \<open>The machine\<close>

datatype event =
    Call_KubeProxy string "string list"
  | Call_APIServer "string list"
  | Call_Scheduler "string list"
  | Call_ControllerManager "string list"
  | Call_CloudControllerManager "string list"
  | Call_ETCD string "ETCDConfig option" "string list"
  | Call_Kubelet flag_pkg "string list"
  | Close_chan chan
  | Run_job nat string
  | Cancel_context

definition handle :: "host \<Rightarrow> event \<Rightarrow> exec \<Rightarrow> exec" where
  "handle h e x =
     (case e of
        Call_KubeProxy rnd args \<Rightarrow> snd (KubeProxy_start h rnd args x)
      | Call_APIServer args \<Rightarrow> snd (APIServer_start h args x)
      | Call_Scheduler args \<Rightarrow> snd (Scheduler_start h args x)
      | Call_ControllerManager args \<Rightarrow> snd (ControllerManager_start h args x)
      | Call_CloudControllerManager args \<Rightarrow> snd (CloudControllerManager_start h args x)
      | Call_ETCD rnd c extra \<Rightarrow> snd (ETCD_start h rnd c extra x)
      | Call_Kubelet fp args \<Rightarrow> snd (Kubelet_start fp args x)
      | Cancel_context \<Rightarrow> if ex_stop_on_cancel x then x\<lparr>ex_kubelet := None\<rparr> else x
      | Close_chan ch \<Rightarrow> x\<lparr>ex_closed := ch # ex_closed x\<rparr>
      | Run_job n rnd \<Rightarrow>
          (case (if n < length (ex_pending x) then Some (ex_pending x ! n) else None) of None \<Rightarrow> x
           | Some (ch, spec) \<Rightarrow>
               run_job h rnd spec (x\<lparr>ex_pending := take n (ex_pending x) @ drop (Suc n) (ex_pending x)\<rparr>)))"

text \<open>A job runs only after its channel has been closed, and nothing runs after the process has exited.\<close>

inductive exec_step :: "host \<Rightarrow> event \<Rightarrow> exec \<Rightarrow> exec \<Rightarrow> bool" for h where
  call: "\<not> ex_exited x \<Longrightarrow> (\<And>n rnd. e \<noteq> Run_job n rnd) \<Longrightarrow> exec_step h e x (handle h e x)"
| job: "\<not> ex_exited x \<Longrightarrow> n < length (ex_pending x) \<Longrightarrow> fst (ex_pending x ! n) \<in> set (ex_closed x) \<Longrightarrow>
     exec_step h (Run_job n rnd) x (handle h (Run_job n rnd) x)"

inductive_cases exec_step_cases: "exec_step h e x x'"

inductive exec_run :: "host \<Rightarrow> exec \<Rightarrow> event list \<Rightarrow> exec \<Rightarrow> bool" for h where
  stop: "exec_run h x [] x"
| step: "exec_step h e x x' \<Longrightarrow> exec_run h x' es x'' \<Longrightarrow> exec_run h x (e # es) x''"

section \<open>A path that stays absent\<close>

definition stays_absent :: "string \<Rightarrow> disk \<Rightarrow> disk \<Rightarrow> bool" where
  "stays_absent p d d' \<longleftrightarrow>
     (gm_get (tree d) p = None \<longrightarrow> gm_get (tree d') p = None \<and> sees p {None} d d')"

text \<open>A disk operation that keeps links out of the tree and does not create the path.\<close>

definition harmless :: "string \<Rightarrow> disk \<Rightarrow> disk \<Rightarrow> bool" where
  "harmless p d d' \<longleftrightarrow> (no_links (tree d) \<longrightarrow> no_links (tree d') \<and> stays_absent p d d')"

lemma harmless_refl [simp]: "harmless p d d"
  by (simp add: harmless_def stays_absent_def)

lemma harmless_trans: "harmless p d d' \<Longrightarrow> harmless p d' d'' \<Longrightarrow> harmless p d d''"
  by (auto simp: harmless_def stays_absent_def intro: sees_trans)

lemma harmlessI:
  assumes "no_links (tree d) \<Longrightarrow> no_links (tree d')" and "no_links (tree d) \<Longrightarrow> touches A d d'" and "\<not> A p"
  shows "harmless p d d'"
  using assms touches_get [of A d d' p] touches_sees [of A d d' p "{None}"]
  by (auto simp: harmless_def stays_absent_def)

lemma os_WriteFile_harmless: "os_WriteFile q c pm d = (r, d') \<Longrightarrow> q \<noteq> p \<Longrightarrow> harmless p d d'"
  by (rule harmlessI [where A = "\<lambda>x. x = q"])
     (auto intro: os_WriteFile_no_links os_WriteFile_touches no_links_follow)

lemma os_MkdirAll_harmless:
  "os_MkdirAll q pm d = (r, d') \<Longrightarrow> p \<notin> set (path_prefixes q) \<Longrightarrow> harmless p d d'"
  by (rule harmlessI [where A = "\<lambda>x. x \<in> set (path_prefixes q)"])
     (auto intro: os_MkdirAll_no_links os_MkdirAll_touches)

lemma os_Remove_harmless: "os_Remove q d = (r, d') \<Longrightarrow> harmless p d d'"
  by (auto simp: harmless_def stays_absent_def sees_def os_Remove_def split: option.splits if_splits)

lemma os_RemoveAll_harmless: "harmless p d (snd (os_RemoveAll q d))"
  by (auto simp: harmless_def stays_absent_def sees_def os_RemoveAll_def gm_get_filter [of "\<lambda>x. \<not> under q x"]
      split: option.splits)

lemma os_MkdirTemp_harmless:
  "os_MkdirTemp q n rnd d = (r, d') \<Longrightarrow> p \<noteq> q @ ''/'' @ n @ rnd \<Longrightarrow> harmless p d d'"
  by (rule harmlessI [where A = "\<lambda>x. x = q @ ''/'' @ n @ rnd"])
     (auto simp: os_MkdirTemp_def Let_def split: option.splits if_splits intro!: touches_commit)

lemma os_Rename_harmless: "os_Rename a b d = (r, d') \<Longrightarrow> p \<noteq> b \<Longrightarrow> harmless p d d'"
  by (auto simp: harmless_def stays_absent_def sees_def os_Rename_def dest: no_links_get
      intro!: no_links_put split: option.splits if_splits)

lemma os_OpenExcl_harmless: "os_OpenExcl q pm d = (r, d') \<Longrightarrow> p \<noteq> q \<Longrightarrow> harmless p d d'"
  by (auto simp: harmless_def stays_absent_def sees_def os_OpenExcl_def split: option.splits if_splits)

lemma file_Write_harmless: "file_Write q c d = (r, d') \<Longrightarrow> p \<noteq> q \<Longrightarrow> harmless p d d'"
  by (rule harmlessI [where A = "\<lambda>x. x = q"])
     (auto simp: file_Write_def split: option.splits intro!: touches_commits write_steps_agree)

lemma put_existing_harmless:
  assumes "gm_get (tree d) x = Some i" and "kind j = kind i"
  shows "harmless p d (commit (gm_put x j (tree d)) d)"
proof -
  have "no_links (gm_put x j (tree d))" if "no_links (tree d)"
    by (rule no_links_put [OF that]) (simp add: assms(2) no_links_get [OF that assms(1)])
  moreover have "gm_get (tree d) p = None \<Longrightarrow> p \<noteq> x" using assms(1) by auto
  ultimately show ?thesis by (simp add: harmless_def stays_absent_def sees_def)
qed

lemma os_Chown_harmless: "os_Chown q u g d = (r, d') \<Longrightarrow> harmless p d d'"
  unfolding os_Chown_def by (auto intro: put_existing_harmless split: option.splits sum.splits)

lemma chown_all_harmless: "chown_all ps u g d = (r, d') \<Longrightarrow> harmless p d d'"
proof (induction ps arbitrary: d)
  case (Cons q ps)
  then show ?case
    by (auto split: prod.splits sum.splits intro: harmless_trans [OF os_Chown_harmless] os_Chown_harmless)
qed simp

lemma chownr_harmless: "chownr q u g d = (r, d') \<Longrightarrow> harmless p d d'"
  by (auto simp: chownr_def split: option.splits intro: chown_all_harmless)

lemma chownr_all_harmless: "chownr_all ps u g d = (r, d') \<Longrightarrow> harmless p d d'"
proof (induction ps arbitrary: d)
  case (Cons q ps)
  then show ?case
    by (auto split: prod.splits sum.splits intro: harmless_trans [OF chownr_harmless] chownr_harmless)
qed simp

section \<open>Where the handlers write\<close>

text \<open>
  The layout of the host: the manifest directory is \<open>ds/m\<close>, where \<open>m\<close> does not end in a digit; the image
  directory is a clean absolute path; the API server manifest is none of the files the handlers write for
  other purposes, nor a directory on the way to them.
\<close>

definition apiserver_manifest :: "string list \<Rightarrow> string \<Rightarrow> string" where
  "apiserver_manifest ds m = abs_path (ds @ [m, ''kube-apiserver.yaml''])"

definition manifest_layout :: "string list \<Rightarrow> string \<Rightarrow> StaticPodConfig \<Rightarrow> bool" where
  "manifest_layout ds m s \<longleftrightarrow>
     ds \<noteq> [] \<and> list_all is_name ds \<and> is_name m \<and> digit_val (last m) = None \<and>
     sp_ManifestsDir s = abs_path (ds @ [m])"

definition images_layout :: "string \<Rightarrow> StaticPodConfig \<Rightarrow> bool" where
  "images_layout p s \<longleftrightarrow>
     (let dir = cfg_ImagesDir (sp_Config s) in
      dir = '''' \<or> p \<notin> set (path_prefixes dir) \<and>
      list_all (\<lambda>i. filepath_Join [dir, i @ ''.txt''] \<noteq> p)
        [Img_KubeAPIServer, Img_ETCD, Img_KubeScheduler, Img_KubeControllerManager, Img_CloudControllerManager,
         Img_KubeProxy])"

definition policy_layout :: "string \<Rightarrow> StaticPodConfig \<Rightarrow> bool" where
  "policy_layout p s \<longleftrightarrow>
     list_all (\<lambda>f. f \<noteq> p \<and> p \<notin> set (path_prefixes (filepath_Dir f))) [sp_AuditPolicyFile s, DefaultAuditPolicyFile]"

definition layout_ok :: "string list \<Rightarrow> string \<Rightarrow> StaticPodConfig \<Rightarrow> bool" where
  "layout_ok ds m s \<longleftrightarrow> manifest_layout ds m s \<and>
     images_layout (apiserver_manifest ds m) s \<and> policy_layout (apiserver_manifest ds m) s"

text \<open>The text that \<^verbatim>\<open>os.MkdirTemp\<close> appends is a decimal number.\<close>

definition rnd_ok :: "string \<Rightarrow> bool" where
  "rnd_ok rnd \<longleftrightarrow> rnd \<noteq> '''' \<and> list_all (\<lambda>c. digit_val c \<noteq> None) rnd"

lemma rnd_ok_itoa: "rnd_ok (itoa k)"
  using itoa_digits by (auto simp: rnd_ok_def list_all_iff)

lemma rnd_ok_last: "rnd_ok rnd \<Longrightarrow> digit_val (last rnd) \<noteq> None"
  by (auto simp: rnd_ok_def list_all_iff)

lemma rnd_ok_slash: "rnd_ok rnd \<Longrightarrow> slash \<notin> set rnd"
  by (auto simp: rnd_ok_def list_all_iff)

lemma Pull_harmless:
  assumes "Pull pkg dir i img d = (r, d')"
    and "dir = '''' \<or> p \<notin> set (path_prefixes dir) \<and> filepath_Join [dir, i @ ''.txt''] \<noteq> p"
  shows "harmless p d d'"
  using assms
  by (auto simp: Pull_def split: sum.splits bool.splits prod.splits if_splits
      intro: os_MkdirAll_harmless harmless_trans [OF os_MkdirAll_harmless os_WriteFile_harmless])

lemma resolveAndPull_harmless:
  assumes "resolveAndPull pkg bv (sp_Config s) i d = (r, d')" and "images_layout p s"
    and "i \<in> {Img_KubeAPIServer, Img_ETCD, Img_KubeScheduler, Img_KubeControllerManager, Img_CloudControllerManager,
         Img_KubeProxy}"
  shows "harmless p d d'"
proof -
  have dir: "cfg_ImagesDir (sp_Config s) = '''' \<or> p \<notin> set (path_prefixes (cfg_ImagesDir (sp_Config s))) \<and>
      filepath_Join [cfg_ImagesDir (sp_Config s), i @ ''.txt''] \<noteq> p"
    using assms(2,3) by (auto simp: images_layout_def Let_def)
  show ?thesis
    using assms(1) Pull_harmless [OF _ dir]
    by (auto simp: resolveAndPull_def split: sum.splits prod.splits if_splits)
qed

text \<open>
  The interface of the functions that make a pod specification: they differ in the image and in the
  fields, but all of them resolve one image and give the pod its command.
\<close>

locale spec_maker =
  fixes make :: "Config \<Rightarrow> string list \<Rightarrow> disk \<Rightarrow> Spec result \<times> disk"
    and img_of :: "Config \<Rightarrow> disk \<Rightarrow> reference result \<times> disk"
    and command :: string
  assumes make_image: "make c args d = (r, d') \<Longrightarrow> \<exists>q. img_of c d = (q, d')"
    and make_command: "make c args d = (Inr spec, d') \<Longrightarrow> spec_Command spec = command \<and> spec_Args spec = args"
begin

lemma make_harmless:
  "make c args d = (r, d') \<Longrightarrow> (\<And>q d''. img_of c d = (q, d'') \<Longrightarrow> harmless p d d'') \<Longrightarrow> harmless p d d'"
  using make_image by blast

end

interpretation api_maker: spec_maker "APIServer_spec pkg bv port" "\<lambda>c. resolveAndPull pkg bv c Img_KubeAPIServer"
  "''kube-apiserver''" for pkg bv port
  by unfold_locales (auto simp: APIServer_spec_def split: prod.splits sum.splits)

interpretation etcd_maker: spec_maker "ETCD_spec pkg bv" "\<lambda>c. resolveAndPull pkg bv c Img_ETCD" "''etcd''" for pkg bv
  by unfold_locales (auto simp: ETCD_spec_def split: prod.splits sum.splits)

interpretation scheduler_maker: spec_maker "Scheduler_spec pkg bv" "\<lambda>c. resolveAndPull pkg bv c Img_KubeScheduler"
  "''kube-scheduler''" for pkg bv
  by unfold_locales (auto simp: Scheduler_spec_def split: prod.splits sum.splits)

interpretation cm_maker: spec_maker "ControllerManager_spec pkg bv"
  "\<lambda>c. resolveAndPull pkg bv c Img_KubeControllerManager" "''kube-controller-manager''" for pkg bv
  by unfold_locales (auto simp: ControllerManager_spec_def split: prod.splits sum.splits)

interpretation ccm_maker: spec_maker "CloudControllerManager_spec pkg bv"
  "\<lambda>c. resolveAndPull pkg bv c Img_CloudControllerManager" "''cloud-controller-manager''" for pkg bv
  by unfold_locales (auto simp: CloudControllerManager_spec_def split: prod.splits sum.splits)

interpretation proxy_maker: spec_maker "KubeProxy_spec pkg bv" "\<lambda>c. resolveAndPull pkg bv c Img_KubeProxy"
  "''kube-proxy''" for pkg bv
  by unfold_locales (auto simp: KubeProxy_spec_def split: prod.splits sum.splits)

section \<open>The API server manifest while other components start\<close>

lemma writeFile_harmless:
  assumes "writeFile (abs_path (ds @ [m, n])) content pm rnd d = (r, d')" and lay: "write_layout ds m n rnd"
    and "is_name n'" and "n' \<noteq> n"
  shows "harmless (abs_path (ds @ [m, n'])) d d'"
proof -
  let ?p = "abs_path (ds @ [m, n'])" and ?dest = "abs_path (ds @ [m, n])" and ?tmp = "abs_path (ds @ [n @ rnd, n])"
  note names = write_names [OF lay] and eqs = write_path_eqs [OF lay]
  have p: "?p \<notin> set (path_prefixes (abs_path (ds @ [m])))"
    by (rule abs_not_prefix) (use names assms(3) in auto)
  have neq: "?p \<noteq> ?dest" "?p \<noteq> ?tmp" "?p \<noteq> temp_dir ds n rnd"
    unfolding temp_dir_def by (rule abs_path_neq; use names assms(3,4) in force)+
  have mk: "harmless ?p d d1" if "os_MkdirAll (abs_path (ds @ [m])) 448 d = (r1, d1)" for r1 d1
    by (rule os_MkdirAll_harmless [OF that p])
  have mt: "harmless ?p d1 d2" if "os_MkdirTemp (abs_path ds) n rnd d1 = (r2, d2)" for d1 r2 d2
    by (rule os_MkdirTemp_harmless [OF that]) (simp add: eqs(4) [simplified] neq(3))
  have wr: "harmless ?p d2 d3" if "os_WriteFile ?tmp content pm d2 = (r3, d3)" for d2 r3 d3
    by (rule os_WriteFile_harmless [OF that]) (use neq(2) in simp)
  have mv: "harmless ?p d3 d4" if "os_Rename ?tmp ?dest d3 = (r4, d4)" for d3 r4 d4
    by (rule os_Rename_harmless [OF that neq(1)])
  have td: "td = temp_dir ds n rnd \<and> harmless ?p d1 d2" if "os_MkdirTemp (abs_path ds) n rnd d1 = (Inr td, d2)" for d1 td d2
    using os_MkdirTemp_get(1) [OF that] eqs(4) mt [OF that] by simp
  have mtl: "harmless ?p d1 d2" if "os_MkdirTemp (abs_path ds) n rnd d1 = (Inl e, d2)" for d1 e d2
    by (rule mt [OF that])
  show ?thesis
    using assms(1) unfolding writeFile_def eqs Let_def
    by (auto split: prod.splits sum.splits if_splits simp: eqs(5) dest!: td mtl mk wr mv)
       (metis harmless_trans os_RemoveAll_harmless)+
qed

lemma layout_rnd: "manifest_layout ds m s \<Longrightarrow> rnd_ok rnd \<Longrightarrow> slash \<notin> set c \<Longrightarrow> write_layout ds m (manifest_name c) rnd"
  using rnd_ok_last [of rnd] rnd_ok_slash [of rnd] is_name_manifest [of c]
  by (auto simp: manifest_layout_def write_layout_def rnd_ok_def)

lemma writeTemplate_harmless:
  assumes "writeTemplate h s rnd (Some spec) d = (r, d')" and "manifest_layout ds m s" and "rnd_ok rnd"
    and "slash \<notin> set (spec_Command spec)" and "spec_Command spec \<noteq> ''kube-apiserver''"
  shows "harmless (apiserver_manifest ds m) d d'"
proof (cases "template_manifest h s spec d")
  case (Inl e)
  then show ?thesis using assms(1) by (simp add: writeTemplate_def)
next
  case (Inr b)
  note lay = layout_rnd [OF assms(2-4)]
  have "manifestPath s (spec_Command spec) = abs_path (ds @ [m, manifest_name (spec_Command spec)])"
    by (rule manifestPath_abs) (use assms(2,4) in \<open>auto simp: manifest_layout_def list_all_iff\<close>)
  then have w: "writeFile (abs_path (ds @ [m, manifest_name (spec_Command spec)])) b
      (if isAnyMode (sp_ProfileMode s) then 384 else 420) rnd d = (r, d')"
    using assms(1) Inr by (simp add: writeTemplate_def)
  show ?thesis
    unfolding apiserver_manifest_def
    by (rule writeFile_harmless [OF w lay]) (use assms(5) in \<open>auto simp: is_name_def manifest_name_def\<close>)
qed

text \<open>What holds of the machine: the layout, no links, and only the etcd channel releases the API server.\<close>

definition exec_inv :: "string list \<Rightarrow> string \<Rightarrow> exec \<Rightarrow> bool" where
  "exec_inv ds m x \<longleftrightarrow> layout_ok ds m (ex_cfg x) \<and> no_links (tree (ex_disk x)) \<and>
     list_all (\<lambda>(ch, spec). slash \<notin> set (spec_Command spec) \<and>
       (spec_Command spec = ''kube-apiserver'' \<longrightarrow> ch = EtcdReady)) (ex_pending x)"

text \<open>A step that keeps the invariant and does not create the API server manifest.\<close>

definition quiet :: "string list \<Rightarrow> string \<Rightarrow> exec \<Rightarrow> exec \<Rightarrow> bool" where
  "quiet ds m x x' \<longleftrightarrow>
     exec_inv ds m x' \<and> stays_absent (apiserver_manifest ds m) (ex_disk x) (ex_disk x')"

lemma quiet_disk:
  assumes "exec_inv ds m x" and "harmless (apiserver_manifest ds m) (ex_disk x) (ex_disk x')"
    and "layout_ok ds m (ex_cfg x')"
    and "set (ex_pending x') \<subseteq> set (ex_pending x) \<union> {(ch, spec)}"
    and "slash \<notin> set (spec_Command spec) \<and> (spec_Command spec = ''kube-apiserver'' \<longrightarrow> ch = EtcdReady)"
  shows "quiet ds m x x'"
  using assms by (fastforce simp: quiet_def exec_inv_def harmless_def list_all_iff)

lemmas makers_command =
  api_maker.make_command etcd_maker.make_command scheduler_maker.make_command cm_maker.make_command
  ccm_maker.make_command proxy_maker.make_command

lemma maker_harmless:
  assumes "images_layout p s"
  shows "APIServer_spec pkg bv port (sp_Config s) args d = (r, d') \<Longrightarrow> harmless p d d'"
    and "ETCD_spec pkg bv (sp_Config s) args d = (r, d') \<Longrightarrow> harmless p d d'"
    and "Scheduler_spec pkg bv (sp_Config s) args d = (r, d') \<Longrightarrow> harmless p d d'"
    and "ControllerManager_spec pkg bv (sp_Config s) args d = (r, d') \<Longrightarrow> harmless p d d'"
    and "CloudControllerManager_spec pkg bv (sp_Config s) args d = (r, d') \<Longrightarrow> harmless p d d'"
    and "KubeProxy_spec pkg bv (sp_Config s) args d = (r, d') \<Longrightarrow> harmless p d d'"
proof -
  note pull = resolveAndPull_harmless [OF _ assms]
  show "APIServer_spec pkg bv port (sp_Config s) args d = (r, d') \<Longrightarrow> harmless p d d'"
    by (rule api_maker.make_harmless) (auto intro: pull)
  show "ETCD_spec pkg bv (sp_Config s) args d = (r, d') \<Longrightarrow> harmless p d d'"
    by (rule etcd_maker.make_harmless) (auto intro: pull)
  show "Scheduler_spec pkg bv (sp_Config s) args d = (r, d') \<Longrightarrow> harmless p d d'"
    by (rule scheduler_maker.make_harmless) (auto intro: pull)
  show "ControllerManager_spec pkg bv (sp_Config s) args d = (r, d') \<Longrightarrow> harmless p d d'"
    by (rule cm_maker.make_harmless) (auto intro: pull)
  show "CloudControllerManager_spec pkg bv (sp_Config s) args d = (r, d') \<Longrightarrow> harmless p d d'"
    by (rule ccm_maker.make_harmless) (auto intro: pull)
  show "KubeProxy_spec pkg bv (sp_Config s) args d = (r, d') \<Longrightarrow> harmless p d d'"
    by (rule proxy_maker.make_harmless) (auto intro: pull)
qed

lemma layoutD:
  assumes "exec_inv ds m x"
  shows "manifest_layout ds m (ex_cfg x)" "images_layout (apiserver_manifest ds m) (ex_cfg x)"
    "policy_layout (apiserver_manifest ds m) (ex_cfg x)" "layout_ok ds m (ex_cfg x)"
  using assms by (simp_all add: exec_inv_def layout_ok_def)

lemma KubeProxy_start_quiet:
  assumes inv: "exec_inv ds m x" and rnd: "rnd_ok rnd"
  shows "quiet ds m x (snd (KubeProxy_start h rnd args x))"
proof -
  note lay = layoutD [OF inv]
  let ?p = "apiserver_manifest ds m"
  obtain r d where mk: "KubeProxy_spec (h_pkg h) (h_build h) (sp_Config (ex_cfg x)) args (ex_disk x) = (r, d)"
    by (cases "KubeProxy_spec (h_pkg h) (h_build h) (sp_Config (ex_cfg x)) args (ex_disk x)")
  have 1: "harmless ?p (ex_disk x) d" by (rule maker_harmless(6) [OF lay(2) mk])
  have "harmless ?p (ex_disk x) (ex_disk (snd (KubeProxy_start h rnd args x)))"
  proof (cases r)
    case (Inr spec)
    let ?spec = "spec\<lparr>spec_Privileged := True, spec_HostNetwork := True\<rparr>"
    have c: "spec_Command spec = ''kube-proxy''" using proxy_maker.make_command mk Inr by blast
    obtain r' d' where w: "writeTemplate h (ex_cfg x) rnd (Some ?spec) d = (r', d')"
      by (cases "writeTemplate h (ex_cfg x) rnd (Some ?spec) d")
    have "harmless ?p d d'" by (rule writeTemplate_harmless [OF w lay(1) rnd]) (simp_all add: c)
    then have "harmless ?p (ex_disk x) d'" using 1 harmless_trans by blast
    then show ?thesis by (cases r') (simp_all add: KubeProxy_start_def mk Inr w)
  qed (simp add: KubeProxy_start_def mk 1)
  then show ?thesis
    by (rule quiet_disk [OF inv, where ch = EtcdReady and spec = "undefined\<lparr>spec_Command := ''x''\<rparr>"])
       (use lay(4) in \<open>auto simp: KubeProxy_start_def split: prod.splits sum.splits\<close>)
qed

text \<open>The handlers that make a specification and leave a job.\<close>

lemma deferred_quiet:
  assumes inv: "exec_inv ds m x" and "harmless (apiserver_manifest ds m) (ex_disk x) d"
    and "layout_ok ds m s'"
    and x': "x' = x\<lparr>ex_cfg := s', ex_disk := d\<rparr> \<or> x' = After ch spec (x\<lparr>ex_cfg := s', ex_disk := d\<rparr>)"
    and "slash \<notin> set (spec_Command spec) \<and> (spec_Command spec = ''kube-apiserver'' \<longrightarrow> ch = EtcdReady)"
  shows "quiet ds m x x'"
  by (rule quiet_disk [OF inv, where ch = ch and spec = spec]) (use assms in \<open>auto simp: After_def\<close>)

lemma Scheduler_start_quiet:
  assumes inv: "exec_inv ds m x"
  shows "quiet ds m x (snd (Scheduler_start h args x))"
proof -
  note lay = layoutD [OF inv]
  obtain r d where mk: "Scheduler_spec (h_pkg h) (h_build h) (sp_Config (ex_cfg x)) (permitPortSharingFlag @ args) (ex_disk x) = (r, d)"
    by (cases "Scheduler_spec (h_pkg h) (h_build h) (sp_Config (ex_cfg x)) (permitPortSharingFlag @ args) (ex_disk x)")
  define spec where "spec = (case r of Inl e \<Rightarrow> undefined\<lparr>spec_Command := ''x''\<rparr>
      | Inr s \<Rightarrow> s\<lparr>spec_Files := etcd_name_files (ex_cfg x), spec_HostNetwork := True\<rparr>)"
  have "spec_Command spec = ''x'' \<or> spec_Command spec = ''kube-scheduler''"
    using scheduler_maker.make_command mk by (cases r) (auto simp: spec_def)
  then show ?thesis
    by (intro deferred_quiet [OF inv maker_harmless(3) [OF lay(2) mk] lay(4), where ch = ApiServerReady and spec = spec])
       (cases r; auto simp: Scheduler_start_def mk spec_def ready_chan_def)+
qed

lemma ControllerManager_start_quiet:
  assumes inv: "exec_inv ds m x"
  shows "quiet ds m x (snd (ControllerManager_start h args x))"
proof -
  note lay = layoutD [OF inv]
  obtain r d where mk: "ControllerManager_spec (h_pkg h) (h_build h) (sp_Config (ex_cfg x)) (cm_args (ex_cfg x) args) (ex_disk x) = (r, d)"
    by (cases "ControllerManager_spec (h_pkg h) (h_build h) (sp_Config (ex_cfg x)) (cm_args (ex_cfg x) args) (ex_disk x)")
  define spec where "spec = (case r of Inl e \<Rightarrow> undefined\<lparr>spec_Command := ''x''\<rparr>
      | Inr s \<Rightarrow> s\<lparr>spec_Files := etcd_name_files (ex_cfg x), spec_Dirs := OnlyExisting d SSLDirs, spec_HostNetwork := True\<rparr>)"
  have "spec_Command spec = ''x'' \<or> spec_Command spec = ''kube-controller-manager''"
    using cm_maker.make_command mk by (cases r) (auto simp: spec_def)
  then show ?thesis
    by (intro deferred_quiet [OF inv maker_harmless(4) [OF lay(2) mk] lay(4), where ch = ApiServerReady and spec = spec])
       (cases r; auto simp: ControllerManager_start_def mk spec_def ready_chan_def)+
qed

lemma CloudControllerManager_start_quiet:
  assumes inv: "exec_inv ds m x"
  shows "quiet ds m x (snd (CloudControllerManager_start h args x))"
proof -
  note lay = layoutD [OF inv]
  obtain r d where mk: "CloudControllerManager_spec (h_pkg h) (h_build h) (sp_Config (ex_cfg x)) args (ex_disk x) = (r, d)"
    by (cases "CloudControllerManager_spec (h_pkg h) (h_build h) (sp_Config (ex_cfg x)) args (ex_disk x)")
  define spec where "spec = (case r of Inl e \<Rightarrow> undefined\<lparr>spec_Command := ''x''\<rparr>
      | Inr s \<Rightarrow> s\<lparr>spec_Dirs := OnlyExisting d SSLDirs, spec_HostNetwork := True\<rparr>)"
  have "spec_Command spec = ''x'' \<or> spec_Command spec = ''cloud-controller-manager''"
    using ccm_maker.make_command mk by (cases r) (auto simp: spec_def)
  then show ?thesis
    by (intro deferred_quiet [OF inv maker_harmless(5) [OF lay(2) mk] lay(4), where ch = CcmRBACReady and spec = spec])
       (cases r; auto simp: CloudControllerManager_start_def mk spec_def)+
qed

lemma etcd_run_as_harmless: "etcd_run_as h spec d = (r, d') \<Longrightarrow> harmless p d d'"
  by (auto simp: etcd_run_as_def Let_def split: sum.splits prod.splits intro: chownr_all_harmless)

lemma etcd_run_as_command: "etcd_run_as h spec d = (Inr spec', d') \<Longrightarrow> spec_Command spec' = spec_Command spec"
  by (auto simp: etcd_run_as_def Let_def split: sum.splits prod.splits)

lemma ETCD_write_harmless:
  assumes "manifest_layout ds m (ex_cfg x)" and "rnd_ok rnd" and "spec_Command spec = ''etcd''"
  shows "harmless (apiserver_manifest ds m) (ex_disk x) (ex_disk (snd (ETCD_write h rnd c spec x)))"
proof -
  let ?spec = "spec\<lparr>spec_SecurityContext := with_selinux (h_EnableSELinux h) ''rke2_service_db_t'' (spec_SecurityContext spec)\<rparr>"
  obtain r d where w: "writeTemplate h (ex_cfg x) rnd (Some ?spec) (ex_disk x) = (r, d)"
    by (cases "writeTemplate h (ex_cfg x) rnd (Some ?spec) (ex_disk x)")
  have "harmless (apiserver_manifest ds m) (ex_disk x) d"
    by (rule writeTemplate_harmless [OF w assms(1,2)]) (simp_all add: assms(3))
  then show ?thesis by (cases r) (simp_all add: ETCD_write_def w Let_def)
qed

lemma ETCD_run_harmless:
  assumes "manifest_layout ds m (ex_cfg x)" and "rnd_ok rnd" and "spec_Command spec = ''etcd''"
  shows "harmless (apiserver_manifest ds m) (ex_disk x) (ex_disk (snd (ETCD_run h rnd c spec x)))"
proof -
  let ?run = "if isAnyMode (sp_ProfileMode (ex_cfg x)) then etcd_run_as h spec (ex_disk x) else (Inr spec, ex_disk x)"
  obtain r d where run: "?run = (r, d)" by (cases ?run)
  have h1: "harmless (apiserver_manifest ds m) (ex_disk x) d"
    using run etcd_run_as_harmless by (auto split: if_splits)
  show ?thesis
  proof (cases r)
    case (Inr spec')
    then have "spec_Command spec' = ''etcd''"
      using run assms(3) by (auto split: if_splits dest: etcd_run_as_command)
    from ETCD_write_harmless [where x = "x\<lparr>ex_disk := d\<rparr>", OF _ assms(2) this] assms(1)
    have "harmless (apiserver_manifest ds m) d (ex_disk (snd (ETCD_write h rnd c spec' (x\<lparr>ex_disk := d\<rparr>))))" by simp
    from harmless_trans [OF h1 this] show ?thesis by (simp add: ETCD_run_def run Inr)
  qed (simp add: ETCD_run_def run h1)
qed

lemma ETCD_fields:
  "ex_cfg (snd (ETCD_start h rnd args extra x)) = ex_cfg x"
  "ex_pending (snd (ETCD_start h rnd args extra x)) = ex_pending x"
  "ex_closed (snd (ETCD_start h rnd args extra x)) = ex_closed x"
proof -
  have w: "ex_cfg (snd (ETCD_write h rnd c spec y)) = ex_cfg y" "ex_pending (snd (ETCD_write h rnd c spec y)) = ex_pending y"
      "ex_closed (snd (ETCD_write h rnd c spec y)) = ex_closed y" for c spec y
    by (simp_all add: ETCD_write_def Let_def split: prod.split sum.split)
  have r: "ex_cfg (snd (ETCD_run h rnd c spec y)) = ex_cfg y" "ex_pending (snd (ETCD_run h rnd c spec y)) = ex_pending y"
      "ex_closed (snd (ETCD_run h rnd c spec y)) = ex_closed y" for c spec y
    by (simp_all add: ETCD_run_def w split: prod.split sum.split)
  show "ex_cfg (snd (ETCD_start h rnd args extra x)) = ex_cfg x"
      "ex_pending (snd (ETCD_start h rnd args extra x)) = ex_pending x"
      "ex_closed (snd (ETCD_start h rnd args extra x)) = ex_closed x"
    by (simp_all add: ETCD_start_def r split: option.split prod.split sum.split)
qed

lemma ETCD_start_quiet:
  assumes inv: "exec_inv ds m x" and rnd: "rnd_ok rnd"
    and conf: "\<And>c ea d r d'. args = Some c \<Longrightarrow> ec_ToConfigFile c ea d = (r, d') \<Longrightarrow> harmless (apiserver_manifest ds m) d d'"
  shows "quiet ds m x (snd (ETCD_start h rnd args extra x))"
proof -
  note lay = layoutD [OF inv]
  let ?p = "apiserver_manifest ds m"
  have run: "harmless ?p d (ex_disk (snd (ETCD_run h rnd c (etcd_pod_spec c initial spec) (x\<lparr>ex_disk := d\<rparr>))))"
    if "ETCD_spec (h_pkg h) (h_build h) (sp_Config (ex_cfg x)) a d0 = (Inr spec, d)" for c initial spec d d0 a
    using ETCD_run_harmless [of ds m "x\<lparr>ex_disk := d\<rparr>" rnd "etcd_pod_spec c initial spec" h c] lay(1) rnd
      etcd_maker.make_command [OF that] by (simp add: etcd_pod_spec_def)
  have "harmless ?p (ex_disk x) (ex_disk (snd (ETCD_start h rnd args extra x)))"
  proof (cases args)
    case (Some c)
    obtain r1 d1 where t1: "ec_ToConfigFile c extra (ex_disk x) = (r1, d1)" by (cases "ec_ToConfigFile c extra (ex_disk x)")
    note h1 = conf [OF Some t1]
    show ?thesis
    proof (cases "isl (ec_InitialOptions_json c) \<or> isl r1")
      case True
      then show ?thesis using h1 by (auto simp: ETCD_start_def Some t1 split: sum.split)
    next
      case False
      then obtain initial confFile where i: "ec_InitialOptions_json c = Inr initial" "r1 = Inr confFile"
        by (metis isl_def sum.exhaust)
      obtain r2 d2 where t2: "ETCD_spec (h_pkg h) (h_build h) (sp_Config (ex_cfg x)) (etcd_args confFile) d1 = (r2, d2)"
        by (cases "ETCD_spec (h_pkg h) (h_build h) (sp_Config (ex_cfg x)) (etcd_args confFile) d1")
      have h2: "harmless ?p (ex_disk x) d2"
        using harmless_trans [OF h1 maker_harmless(2) [OF lay(2) t2]] .
      show ?thesis
      proof (cases r2)
        case (Inr spec)
        then show ?thesis
          using harmless_trans [OF h2 run [OF t2 [unfolded Inr]]] by (simp add: ETCD_start_def Some i t1 t2)
      qed (simp add: ETCD_start_def Some i t1 t2 h2)
    qed
  qed (simp add: ETCD_start_def)
  then show ?thesis
    by (rule quiet_disk [OF inv, where ch = EtcdReady and spec = "undefined\<lparr>spec_Command := ''x''\<rparr>"])
       (use lay(4) in \<open>auto simp: ETCD_fields\<close>)
qed


lemma removeTemplate_harmless: "removeTemplate s c d = (r, d') \<Longrightarrow> harmless p d d'"
  by (auto simp: removeTemplate_def split: prod.splits sum.splits if_splits intro: os_Remove_harmless)

lemma WriteDefaultPolicyFile_harmless:
  assumes "WriteDefaultPolicyFile libs f d = (r, d')" and "f \<noteq> p" and "p \<notin> set (path_prefixes (filepath_Dir f))"
  shows "harmless p d d'"
proof -
  have mk: "harmless p d d1" if "os_MkdirAll (filepath_Dir f) 493 d = (r1, d1)" for r1 d1 d
    by (rule os_MkdirAll_harmless [OF that assms(3)])
  have op: "harmless p d d1" if "os_OpenExcl f 384 d = (r1, d1)" for r1 d1 d
    by (rule os_OpenExcl_harmless [OF that]) (use assms(2) in simp)
  have wr: "harmless p d d1" if "file_Write f c d = (r1, d1)" for r1 d1 d c
    by (rule file_Write_harmless [OF that]) (use assms(2) in simp)
  show ?thesis
    using assms(1)
    by (auto simp: WriteDefaultPolicyFile_def writeIfNotExists_def split: sum.splits prod.splits dest!: mk op wr)
       (metis harmless_trans)+
qed

lemma layout_policy: "layout_ok ds m s \<Longrightarrow> layout_ok ds m (apiserver_policy s)"
  by (auto simp: layout_ok_def apiserver_policy_def manifest_layout_def images_layout_def policy_layout_def Let_def)

lemma APIServer_finish_quiet:
  assumes inv: "exec_inv ds m x"
  shows "quiet ds m x (snd (APIServer_finish h st x))"
proof -
  note lay = layoutD [OF inv]
  obtain args audit where a: "apiserver_final_args (ex_cfg x) st = (args, audit)"
    by (cases "apiserver_final_args (ex_cfg x) st")
  let ?args = args
  obtain r d where mk: "APIServer_spec (h_pkg h) (h_build h) (h_APIServerPort h) (sp_Config (ex_cfg x)) ?args (ex_disk x) = (r, d)"
    by (cases "APIServer_spec (h_pkg h) (h_build h) (h_APIServerPort h) (sp_Config (ex_cfg x)) ?args (ex_disk x)")
  define spec where "spec = (case r of Inl e \<Rightarrow> undefined\<lparr>spec_Command := ''x''\<rparr>
      | Inr s \<Rightarrow> s\<lparr>spec_Files := etcd_name_files (ex_cfg x), spec_Dirs := apiserver_dirs (ex_cfg x) (ex_disk x) audit,
                   spec_ExcludeFiles := apiserver_excludes (ex_cfg x) audit, spec_HostNetwork := True\<rparr>)"
  have "spec_Command spec = ''x'' \<or> spec_Command spec = ''kube-apiserver''"
    using api_maker.make_command mk by (cases r) (auto simp: spec_def)
  then show ?thesis
    by (intro deferred_quiet [OF inv maker_harmless(1) [OF lay(2) mk] lay(4), where ch = EtcdReady and spec = spec])
       (cases r; auto simp: APIServer_finish_def a mk spec_def ready_chan_def Let_def)+
qed

lemma quiet_trans: "quiet ds m x y \<Longrightarrow> quiet ds m y z \<Longrightarrow> quiet ds m x z"
  by (auto simp: quiet_def stays_absent_def intro: sees_trans)

lemma quiet_then: "quiet ds m x y \<Longrightarrow> (exec_inv ds m y \<Longrightarrow> quiet ds m y z) \<Longrightarrow> quiet ds m x z"
  using quiet_trans by (auto simp: quiet_def)

lemma quiet_update:
  "exec_inv ds m x \<Longrightarrow> harmless (apiserver_manifest ds m) (ex_disk x) d \<Longrightarrow> quiet ds m x (x\<lparr>ex_disk := d\<rparr>)"
  by (auto simp: quiet_def exec_inv_def harmless_def)

lemma APIServer_configure_quiet:
  assumes inv: "exec_inv ds m x"
  shows "quiet ds m x (snd (APIServer_configure h args x))"
proof (cases "apiserver_arg_loop (ex_cfg x) args")
  case (Inl f)
  then show ?thesis using quiet_update [OF inv harmless_refl] by (simp add: APIServer_configure_def)
next
  case (Inr st)
  let ?s = "apiserver_policy (ex_cfg x)"
  let ?x1 = "x\<lparr>ex_cfg := ?s\<rparr>"
  have inv1: "exec_inv ds m ?x1" using inv layout_policy by (simp add: exec_inv_def)
  have q1: "quiet ds m x ?x1" using inv1 by (simp add: quiet_def stays_absent_def)
  show ?thesis
  proof (cases "sp_AuditPolicyFile ?s = ''''")
    case True
    then show ?thesis
      using quiet_trans [OF q1 APIServer_finish_quiet [OF inv1]] by (simp add: APIServer_configure_def Inr Let_def)
  next
    case pol: False
    obtain r2 d2 where w: "WriteDefaultPolicyFile (h_libs h) (sp_AuditPolicyFile ?s) (ex_disk x) = (r2, d2)"
      by (cases "WriteDefaultPolicyFile (h_libs h) (sp_AuditPolicyFile ?s) (ex_disk x)")
    have "harmless (apiserver_manifest ds m) (ex_disk ?x1) d2"
      using WriteDefaultPolicyFile_harmless [OF w] layoutD(3) [OF inv1] by (simp add: policy_layout_def)
    from quiet_update [OF inv1 this] have q2: "quiet ds m x (?x1\<lparr>ex_disk := d2\<rparr>)" by (rule quiet_trans [OF q1])
    then have "quiet ds m x (snd (APIServer_finish h st (?x1\<lparr>ex_disk := d2\<rparr>)))"
      by (rule quiet_then) (rule APIServer_finish_quiet)
    with q2 show ?thesis by (cases r2) (simp_all add: APIServer_configure_def Inr pol w Let_def)
  qed
qed

lemma APIServer_start_quiet:
  assumes inv: "exec_inv ds m x"
  shows "quiet ds m x (snd (APIServer_start h args x))"
proof -
  obtain r d where rm: "removeTemplate (ex_cfg x) ''kube-apiserver'' (ex_disk x) = (r, d)"
    by (cases "removeTemplate (ex_cfg x) ''kube-apiserver'' (ex_disk x)")
  have q: "quiet ds m x (x\<lparr>ex_disk := d\<rparr>)" by (rule quiet_update [OF inv removeTemplate_harmless [OF rm]])
  then have "quiet ds m x (snd (APIServer_configure h args (x\<lparr>ex_disk := d\<rparr>)))"
    by (rule quiet_then) (rule APIServer_configure_quiet)
  with q show ?thesis by (cases r) (simp_all add: APIServer_start_def rm)
qed


lemma run_job_quiet:
  assumes inv: "exec_inv ds m x" and rnd: "rnd_ok rnd"
    and "slash \<notin> set (spec_Command spec)" and "spec_Command spec \<noteq> ''kube-apiserver''"
  shows "quiet ds m x (run_job h rnd spec x)"
proof -
  obtain r d where w: "writeTemplate h (ex_cfg x) rnd (Some spec) (ex_disk x) = (r, d)"
    by (cases "writeTemplate h (ex_cfg x) rnd (Some spec) (ex_disk x)")
  have "harmless (apiserver_manifest ds m) (ex_disk x) d"
    by (rule writeTemplate_harmless [OF w layoutD(1) [OF inv] rnd assms(3,4)])
  with inv show ?thesis
    by (cases r) (auto simp: run_job_def w quiet_def exec_inv_def harmless_def)
qed

text \<open>
  What is assumed of the events: the random texts are decimal, and K3s's \<^verbatim>\<open>ToConfigFile\<close> writes neither links
  nor the API server manifest.
\<close>

definition event_ok :: "string list \<Rightarrow> string \<Rightarrow> event \<Rightarrow> bool" where
  "event_ok ds m e \<longleftrightarrow>
     (case e of
        Call_KubeProxy rnd _ \<Rightarrow> rnd_ok rnd
      | Run_job _ rnd \<Rightarrow> rnd_ok rnd
      | Call_ETCD rnd c _ \<Rightarrow> rnd_ok rnd \<and>
          (case c of None \<Rightarrow> True
           | Some c \<Rightarrow> \<forall>ea d. harmless (apiserver_manifest ds m) d (snd (ec_ToConfigFile c ea d)))
      | _ \<Rightarrow> True)"

lemma step_quiet:
  assumes "exec_step h e x x'" and inv: "exec_inv ds m x" and ok: "event_ok ds m e"
    and "EtcdReady \<notin> set (ex_closed x)"
  shows "quiet ds m x x'"
  using assms(1)
proof cases
  case call
  show ?thesis
  proof (cases e)
    case (Call_ETCD rnd c ea)
    have conf: "harmless (apiserver_manifest ds m) d d'" if "c = Some c'" "ec_ToConfigFile c' ea d = (r, d')" for c' ea d r d'
      using ok that by (auto simp: Call_ETCD event_ok_def dest!: spec [of _ ea] spec [of _ d])
    show ?thesis
      using ETCD_start_quiet [OF inv _ conf, of rnd c] ok by (simp add: call(1) handle_def Call_ETCD event_ok_def)
  next
    case (Close_chan ch)
    then show ?thesis using inv by (simp add: call(1) handle_def quiet_def exec_inv_def stays_absent_def)
  next
    case Cancel_context
    then show ?thesis using inv by (simp add: call(1) handle_def quiet_def exec_inv_def stays_absent_def)
  next
    case (Call_Kubelet fp args)
    then show ?thesis
      using inv by (simp add: call(1) handle_def Kubelet_start_def quiet_def exec_inv_def stays_absent_def split: prod.split)
  qed (use inv ok call KubeProxy_start_quiet APIServer_start_quiet Scheduler_start_quiet ControllerManager_start_quiet
        CloudControllerManager_start_quiet in \<open>auto simp: handle_def event_ok_def\<close>)
next
  case (job n rnd)
  obtain ch spec where p: "ex_pending x ! n = (ch, spec)" by (cases "ex_pending x ! n")
  have mem: "(ch, spec) \<in> set (ex_pending x)" using job(4) p by (metis nth_mem)
  let ?x = "x\<lparr>ex_pending := take n (ex_pending x) @ drop (Suc n) (ex_pending x)\<rparr>"
  have sub: "set (ex_pending ?x) \<subseteq> set (ex_pending x)"
    by (auto dest: in_set_takeD in_set_dropD)
  then have inv': "exec_inv ds m ?x" using inv by (auto simp: exec_inv_def list_all_iff)
  have "slash \<notin> set (spec_Command spec)" "spec_Command spec \<noteq> ''kube-apiserver''"
    using inv mem job(5) assms(4) p by (auto simp: exec_inv_def list_all_iff)
  from run_job_quiet [OF inv' _ this] ok have "quiet ds m ?x (run_job h rnd spec ?x)"
    by (simp add: job(1) event_ok_def)
  then show ?thesis using job(2,4) p by (simp add: handle_def quiet_def)
qed

lemma handler_closed:
  "ex_closed (snd (KubeProxy_start h rnd args x)) = ex_closed x"
  "ex_closed (snd (APIServer_start h args x)) = ex_closed x"
  "ex_closed (snd (Scheduler_start h args x)) = ex_closed x"
  "ex_closed (snd (ControllerManager_start h args x)) = ex_closed x"
  "ex_closed (snd (CloudControllerManager_start h args x)) = ex_closed x"
  "ex_closed (snd (Kubelet_start fp args x)) = ex_closed x"
  "ex_closed (run_job h rnd spec x) = ex_closed x"
  by (simp_all add: KubeProxy_start_def APIServer_start_def APIServer_configure_def APIServer_finish_def Scheduler_start_def
      ControllerManager_start_def CloudControllerManager_start_def Kubelet_start_def run_job_def After_def Let_def
      split: prod.split sum.split)

lemma step_closed: "exec_step h e x x' \<Longrightarrow> set (ex_closed x) \<subseteq> set (ex_closed x')"
  by (erule exec_step_cases)
     (auto simp: handle_def handler_closed ETCD_fields split: event.splits option.splits prod.splits)

lemma run_closed: "exec_run h x es x' \<Longrightarrow> set (ex_closed x) \<subseteq> set (ex_closed x')"
  by (induction rule: exec_run.induct) (use step_closed in blast)+

lemma run_quiet:
  assumes "exec_run h x es x'" and "exec_inv ds m x" and "\<forall>e \<in> set es. event_ok ds m e"
    and "EtcdReady \<notin> set (ex_closed x')"
  shows "quiet ds m x x'"
  using assms
proof (induction rule: exec_run.induct)
  case (stop x)
  then show ?case by (simp add: quiet_def stays_absent_def)
next
  case (step e x x' es x'')
  have "EtcdReady \<notin> set (ex_closed x')" "EtcdReady \<notin> set (ex_closed x)"
    using step.prems(3) run_closed [OF step.hyps(2)] step_closed [OF step.hyps(1)] by auto
  then have q: "quiet ds m x x'" using step_quiet [OF step.hyps(1)] step.prems by simp
  then have "quiet ds m x' x''" using step.IH step.prems by (simp add: quiet_def)
  with q show ?case by (rule quiet_trans)
qed



section \<open>Witnesses\<close>

definition simple_exec :: exec where
  "simple_exec =
     \<lparr>ex_cfg = simple_static, ex_boot = True, ex_closed = [], ex_pending = [],
      ex_disk = manifest_disk\<lparr>tree := (''/a/p/kube-apiserver.yaml'', new_inode (Regular ''stale'') 420) # tree manifest_disk\<rparr>,
      ex_exited = False, ex_SystemDefaultRegistry = '''', ex_PauseImage = '''', ex_kubelet = None, ex_flags = [],
      ex_stop_on_cancel = False\<rparr>"

definition simple_exec1 :: exec where
  "simple_exec1 = snd (APIServer_start simple_host [''--v=2''] simple_exec)"



end
