(* ===== verification/Manifest_Store.thy ===== *)
theory Manifest_Store
  imports Static_Executor
begin

text \<open>
  The manifest directory as an abstract store: a partial map from the names of commands to manifest texts.
  Writing a template, successful or not, and removing one act on it like an update of that map, whatever
  happens to temporary directories and files on the way. From this follows the round trip of the etcd
  options, which the executor keeps in an annotation of the etcd manifest.
\<close>

section \<open>Operations on trees without links\<close>

text \<open>An operation that adds no link and changes only entries of a set of paths.\<close>

definition alters :: "(string \<Rightarrow> bool) \<Rightarrow> disk \<Rightarrow> disk \<Rightarrow> bool" where
  "alters A d d' \<longleftrightarrow> (no_links (tree d) \<longrightarrow>
     no_links (tree d') \<and> faults d' = faults d \<and> (\<forall>q. \<not> A q \<longrightarrow> gm_get (tree d') q = gm_get (tree d) q))"

lemma alters_refl [simp]: "alters A d d"
  by (simp add: alters_def)

lemma alters_trans: "alters A d d' \<Longrightarrow> alters A d' d'' \<Longrightarrow> alters A d d''"
  by (simp add: alters_def)

lemma altersI:
  assumes "no_links (tree d) \<Longrightarrow> no_links (tree d')" and "no_links (tree d) \<Longrightarrow> touches A d d'"
  shows "alters A d d'"
  using assms touches_get [of A d d'] touches_faults [of A d d'] by (auto simp: alters_def)

lemma harmless_links: "harmless p d d' \<Longrightarrow> no_links (tree d) \<Longrightarrow> no_links (tree d')"
  by (simp add: harmless_def)

lemma alters_ops:
  "os_MkdirAll q pm d = (r, d') \<Longrightarrow> (\<And>x. x \<in> set (path_prefixes q) \<Longrightarrow> A x) \<Longrightarrow> alters A d d'"
  "os_MkdirTemp dir n rnd d = (r1, d') \<Longrightarrow> A (dir @ ''/'' @ n @ rnd) \<Longrightarrow> alters A d d'"
  "os_WriteFile q c pm d = (r2, d') \<Longrightarrow> A q \<Longrightarrow> alters A d d'"
  "os_Rename a b d = (r2, d') \<Longrightarrow> A a \<Longrightarrow> A b \<Longrightarrow> alters A d d'"
  "os_Remove q d = (r2, d') \<Longrightarrow> A q \<Longrightarrow> alters A d d'"
proof -
  show "os_MkdirAll q pm d = (r, d') \<Longrightarrow> (\<And>x. x \<in> set (path_prefixes q) \<Longrightarrow> A x) \<Longrightarrow> alters A d d'"
    by (rule altersI) (auto intro: os_MkdirAll_no_links touches_mono [OF os_MkdirAll_touches])
  show "os_MkdirTemp dir n rnd d = (r1, d') \<Longrightarrow> A (dir @ ''/'' @ n @ rnd) \<Longrightarrow> alters A d d'"
    by (rule altersI) (auto intro: harmless_links [OF os_MkdirTemp_harmless [of dir n rnd d r1 d' "''''"]]
        touches_mono [OF os_MkdirTemp_touches])
  show "os_WriteFile q c pm d = (r2, d') \<Longrightarrow> A q \<Longrightarrow> alters A d d'"
    by (rule altersI) (auto intro: os_WriteFile_no_links os_WriteFile_touches no_links_follow)
  show "os_Rename a b d = (r2, d') \<Longrightarrow> A a \<Longrightarrow> A b \<Longrightarrow> alters A d d'"
    by (rule altersI) (auto intro: harmless_links [OF os_Rename_harmless [of a b d r2 d' "b @ ''x''"]] os_Rename_touches)
  show "os_Remove q d = (r2, d') \<Longrightarrow> A q \<Longrightarrow> alters A d d'"
    by (rule altersI) (auto intro: os_Remove_no_links os_Remove_touches)
qed

lemma alters_RemoveAll: "(\<And>x. under q x \<Longrightarrow> A x) \<Longrightarrow> alters A d (snd (os_RemoveAll q d))"
  by (rule altersI)
    (auto intro: harmless_links [OF os_RemoveAll_harmless] os_RemoveAll_touches [OF prod.collapse [symmetric]])

section \<open>Writing and removing one manifest\<close>

text \<open>The temporary file is written and moved into place; the rest is left alone, the target too on failure.\<close>

lemma temp_then_rename:
  assumes lay: "write_layout ds m n rnd" and links: "no_links (tree d2)"
    and wr: "os_WriteFile (abs_path (ds @ [n @ rnd, n])) content pm d2 = (r3, d3)"
    and fin: "(case r3 of Inl e \<Rightarrow> (Inl e, snd (os_RemoveAll (temp_dir ds n rnd) d3))
        | Inr _ \<Rightarrow> (case os_Rename (abs_path (ds @ [n @ rnd, n])) (abs_path (ds @ [m, n])) d3 of
            (r, d4) \<Rightarrow> (r, snd (os_RemoveAll (temp_dir ds n rnd) d4)))) = (res, d')"
  shows "alters (write_scope ds m n rnd) d2 d'"
    and "res = Inr () \<Longrightarrow> \<exists>i. gm_get (tree d') (abs_path (ds @ [m, n])) = Some i \<and> kind i = Regular content"
    and "res \<noteq> Inr () \<Longrightarrow> gm_get (tree d') (abs_path (ds @ [m, n])) = gm_get (tree d2) (abs_path (ds @ [m, n]))"
proof -
  let ?A = "write_scope ds m n rnd" and ?td = "temp_dir ds n rnd"
  let ?dest = "abs_path (ds @ [m, n])" and ?tmp = "abs_path (ds @ [n @ rnd, n])"
  note neqs = write_path_neqs [OF lay]
  have scope: "?A ?tmp" "?A ?dest" "\<And>x. under ?td x \<Longrightarrow> ?A x"
    using neqs(5) by (auto simp: write_scope_def)
  have a3: "alters ?A d2 d3"
    by (rule alters_ops(3) [OF wr]) (rule scope(1))
  have keep3: "gm_get (tree d3) ?dest = gm_get (tree d2) ?dest"
    using alters_ops(3) [OF wr, of "\<lambda>q. q = ?tmp"] links neqs(2) by (auto simp: alters_def)
  have links3: "no_links (tree d3)"
    using a3 links by (simp add: alters_def)
  have rm: "alters ?A d (snd (os_RemoveAll ?td d))"
    "no_links (tree d) \<Longrightarrow> gm_get (tree (snd (os_RemoveAll ?td d))) ?dest = gm_get (tree d) ?dest" for d
    using alters_RemoveAll [of ?td ?A, OF scope(3)] alters_RemoveAll [of ?td "under ?td"] neqs(4) by (auto simp: alters_def)
  have "alters ?A d2 d' \<and> (res = Inr () \<longrightarrow> (\<exists>i. gm_get (tree d') ?dest = Some i \<and> kind i = Regular content)) \<and>
      (res \<noteq> Inr () \<longrightarrow> gm_get (tree d') ?dest = gm_get (tree d2) ?dest)"
  proof (cases r3)
    case (Inl e)
    then have "res = Inl e" "d' = snd (os_RemoveAll ?td d3)"
      using fin by simp_all
    then show ?thesis
      using alters_trans [OF a3 rm(1)] rm(2) [OF links3] keep3 by simp
  next
    case (Inr u)
    obtain r d4 where mv: "os_Rename ?tmp ?dest d3 = (r, d4)"
      by (cases "os_Rename ?tmp ?dest d3")
    then have res: "res = r" "d' = snd (os_RemoveAll ?td d4)"
      using fin Inr by simp_all
    have a4: "alters ?A d3 d4"
      by (rule alters_ops(4) [OF mv]) (rule scope(1), rule scope(2))
    then have links4: "no_links (tree d4)"
      using links3 by (simp add: alters_def)
    obtain i where i: "gm_get (tree d3) ?tmp = Some i" "kind i = Regular content"
      using os_WriteFile_get [of ?tmp content pm d2 d3, OF _ no_links_follow [OF links]] Inr wr by auto
    show ?thesis
      using alters_trans [OF alters_trans [OF a3 a4] rm(1)] rm(2) [OF links4] keep3 i os_Rename_fail [of ?tmp ?dest d3 _ d4] mv
      by (cases r) (auto simp: res elim!: os_Rename_get)
  qed
  then show "alters ?A d2 d'" "res = Inr () \<Longrightarrow> \<exists>i. gm_get (tree d') ?dest = Some i \<and> kind i = Regular content"
    "res \<noteq> Inr () \<Longrightarrow> gm_get (tree d') ?dest = gm_get (tree d2) ?dest"
    by blast+
qed

lemma writeFile_store:
  assumes run: "writeFile (abs_path (ds @ [m, n])) content pm rnd d = (res, d')"
    and lay: "write_layout ds m n rnd" and links: "no_links (tree d)"
  shows "alters (write_scope ds m n rnd) d d'"
    and "res = Inr () \<Longrightarrow> \<exists>i. gm_get (tree d') (abs_path (ds @ [m, n])) = Some i \<and> kind i = Regular content"
    and "res \<noteq> Inr () \<Longrightarrow> gm_get (tree d') (abs_path (ds @ [m, n])) = gm_get (tree d) (abs_path (ds @ [m, n]))"
proof -
  let ?A = "write_scope ds m n rnd" and ?dest = "abs_path (ds @ [m, n])"
  note neqs = write_path_neqs [OF lay] and eqs = write_path_eqs [OF lay]
  have mk: "alters ?A d d1" "no_links (tree d1)" "gm_get (tree d1) ?dest = gm_get (tree d) ?dest"
    if "os_MkdirAll (abs_path (ds @ [m])) 448 d = (r1, d1)" for r1 d1
    using alters_ops(1) [OF that, of ?A] alters_ops(1) [OF that, of "\<lambda>q. q \<in> set (path_prefixes (abs_path (ds @ [m])))"] links neqs(6)
    by (auto simp: alters_def write_scope_def)
  have mt: "alters ?A d1 d2" "no_links (tree d2)" "gm_get (tree d2) ?dest = gm_get (tree d1) ?dest"
    if "os_MkdirTemp (abs_path ds) n rnd d1 = (r2, d2)" "no_links (tree d1)" for r2 d1 d2
    using alters_ops(2) [OF that(1), unfolded eqs(4), of ?A] alters_ops(2) [OF that(1), unfolded eqs(4), of "\<lambda>q. q = temp_dir ds n rnd"]
      that(2) neqs(1) by (auto simp: alters_def write_scope_def)
  from run lay have "alters ?A d d' \<and> (res = Inr () \<longrightarrow> (\<exists>i. gm_get (tree d') ?dest = Some i \<and> kind i = Regular content)) \<and>
      (res \<noteq> Inr () \<longrightarrow> gm_get (tree d') ?dest = gm_get (tree d) ?dest)"
  proof (cases rule: writeFile_cases)
    case (early r1)
    have "\<exists>i. gm_get (tree d') ?dest = Some i \<and> kind i = Regular content" if "os_ReadFile d' ?dest = Inr content"
      using os_ReadFile_lookup [OF that] no_links_follow [OF mk(2) [OF early(1)]] by (auto simp: lookup_def split: option.splits)
    then show ?thesis using mk [OF early(1)] early(2) by auto
  next
    case (no_temp d1 e)
    then show ?thesis
      using mk [OF no_temp(1)] mt [OF no_temp(2)] alters_trans by auto
  next
    case (exchange d1 d2 r3 d3)
    note m1 = mk [OF exchange(1)] and m2 = mt [OF exchange(2) mk(2) [OF exchange(1)]]
    note swap = temp_then_rename [OF lay m2(2) exchange(3,4)]
    show ?thesis using alters_trans [OF alters_trans [OF m1(1) m2(1)] swap(1)] swap(2,3) m1(3) m2(3) by auto
  qed
  then show "alters ?A d d'" "res = Inr () \<Longrightarrow> \<exists>i. gm_get (tree d') ?dest = Some i \<and> kind i = Regular content"
    "res \<noteq> Inr () \<Longrightarrow> gm_get (tree d') ?dest = gm_get (tree d) ?dest"
    by blast+
qed

section \<open>The abstract store\<close>

definition manifests :: "StaticPodConfig \<Rightarrow> disk \<Rightarrow> string \<Rightarrow> string option" where
  "manifests s d c =
     (if slash \<in> set c then None
      else case gm_get (tree d) (manifestPath s c) of
        None \<Rightarrow> None
      | Some i \<Rightarrow> (case kind i of Regular b \<Rightarrow> Some b | _ \<Rightarrow> None))"

lemma manifests_cong:
  "gm_get (tree d') (manifestPath s c) = gm_get (tree d) (manifestPath s c) \<Longrightarrow> manifests s d' c = manifests s d c"
  by (simp add: manifests_def)

datatype store_op = Publish Spec string | Withdraw string

fun op_command :: "store_op \<Rightarrow> string" where
  "op_command (Publish spec rnd) = spec_Command spec"
| "op_command (Withdraw c) = c"

fun op_run :: "host \<Rightarrow> StaticPodConfig \<Rightarrow> store_op \<Rightarrow> disk \<Rightarrow> unit result \<times> disk" where
  "op_run h s (Publish spec rnd) d = writeTemplate h s rnd (Some spec) d"
| "op_run h s (Withdraw c) d = removeTemplate s c d"

text \<open>What a successful operation makes of the manifest of its command.\<close>

fun op_effect :: "host \<Rightarrow> StaticPodConfig \<Rightarrow> store_op \<Rightarrow> disk \<Rightarrow> string option" where
  "op_effect h s (Publish spec rnd) d = (case template_manifest h s spec d of Inl _ \<Rightarrow> None | Inr b \<Rightarrow> Some b)"
| "op_effect h s (Withdraw c) d = None"

fun op_ok :: "store_op \<Rightarrow> bool" where
  "op_ok (Publish spec rnd) \<longleftrightarrow> slash \<notin> set (spec_Command spec) \<and> rnd_ok rnd"
| "op_ok (Withdraw c) \<longleftrightarrow> slash \<notin> set c"

text \<open>The disk is without links, and a removal reports a file as missing only if it is.\<close>

definition store_inv :: "disk \<Rightarrow> bool" where
  "store_inv d \<longleftrightarrow> no_links (tree d) \<and> (\<forall>q e. faults d OpRemove q = Some e \<longrightarrow> \<not> errors_Is_ErrNotExist e)"


lemma layout_manifestPath:
  "manifest_layout ds m s \<Longrightarrow> slash \<notin> set c \<Longrightarrow> manifestPath s c = abs_path (ds @ [m, manifest_name c])"
  by (rule manifestPath_abs) (auto simp: manifest_layout_def list_all_iff)

lemma publish_store:
  assumes lay: "manifest_layout ds m s" and inv: "store_inv d" and rnd: "rnd_ok rnd"
    and cmd: "slash \<notin> set (spec_Command spec)" and run: "writeTemplate h s rnd (Some spec) d = (r, d')"
  shows "store_inv d'"
    and "r = Inr () \<Longrightarrow> manifests s d' = (manifests s d)(spec_Command spec := op_effect h s (Publish spec rnd) d)"
    and "r \<noteq> Inr () \<Longrightarrow> manifests s d' = manifests s d"
proof -
  let ?c = "spec_Command spec"
  have "store_inv d' \<and> (r = Inr () \<longrightarrow> manifests s d' = (manifests s d)(?c := op_effect h s (Publish spec rnd) d)) \<and>
      (r \<noteq> Inr () \<longrightarrow> manifests s d' = manifests s d)"
  proof (cases "template_manifest h s spec d")
    case (Inl e)
    then show ?thesis using run inv by (auto simp: writeTemplate_def)
  next
    case (Inr b)
    note wl = layout_rnd [OF lay rnd cmd] and path = layout_manifestPath [OF lay]
    have w: "writeFile (abs_path (ds @ [m, manifest_name ?c])) b (if isAnyMode (sp_ProfileMode s) then 384 else 420) rnd d = (r, d')"
      using run Inr path [OF cmd] by (simp add: writeTemplate_def)
    have links: "no_links (tree d)" using inv by (simp add: store_inv_def)
    note ws = writeFile_store [OF w wl links]
    have other: "manifests s d' c = manifests s d c" if "c \<noteq> ?c" for c
    proof (cases "slash \<in> set c")
      case False
      with other_manifest_out_of_scope [OF wl cmd False that] ws(1) links show ?thesis
        by (intro manifests_cong) (simp add: path alters_def)
    qed (simp add: manifests_def)
    have "manifests s d' ?c = Some b" if "r = Inr ()"
      using ws(2) [OF that] cmd path [OF cmd] by (auto simp: manifests_def)
    moreover have "manifests s d' ?c = manifests s d ?c" if "r \<noteq> Inr ()"
      using ws(3) [OF that] path [OF cmd] by (intro manifests_cong) simp
    moreover have "store_inv d'" using ws(1) links inv by (simp add: store_inv_def alters_def)
    moreover have "manifests s d' = manifests s d" if "r \<noteq> Inr ()"
      using other calculation(2) [OF that] by (metis ext)
    ultimately show ?thesis using other Inr by (auto simp: fun_eq_iff)
  qed
  then show "store_inv d'" "r = Inr () \<Longrightarrow> manifests s d' = (manifests s d)(?c := op_effect h s (Publish spec rnd) d)"
    "r \<noteq> Inr () \<Longrightarrow> manifests s d' = manifests s d"
    by blast+
qed

lemma withdraw_store:
  assumes lay: "manifest_layout ds m s" and inv: "store_inv d" and cmd: "slash \<notin> set c"
    and run: "removeTemplate s c d = (r, d')"
  shows "store_inv d'" and "r = Inr () \<Longrightarrow> manifests s d' = (manifests s d)(c := None)"
    and "r \<noteq> Inr () \<Longrightarrow> manifests s d' = manifests s d"
proof -
  have links: "no_links (tree d)" and honest: "\<forall>e. faults d OpRemove (manifestPath s c) = Some e \<longrightarrow> \<not> errors_Is_ErrNotExist e"
    using inv by (simp_all add: store_inv_def)
  obtain r0 where rm: "os_Remove (manifestPath s c) d = (r0, d')"
    using run by (cases "os_Remove (manifestPath s c) d") (auto simp: removeTemplate_def split: sum.splits if_splits)
  have alt: "alters (\<lambda>q. q = manifestPath s c) d d'" by (rule alters_ops(5) [OF rm]) simp
  then show "store_inv d'" using inv by (simp add: store_inv_def alters_def)
  have neq: "manifestPath s c' \<noteq> manifestPath s c" if "c' \<noteq> c" "slash \<notin> set c'" for c'
    using that cmd lay manifests.place_inj [of "ds @ [m]" c' c] by (auto simp: manifestPath_def manifest_layout_def)
  have other: "manifests s d' c' = manifests s d c'" if "c' \<noteq> c" for c'
  proof (cases "slash \<in> set c'")
    case False
    with neq [OF that] alt links show ?thesis by (intro manifests_cong) (simp add: alters_def)
  qed (simp add: manifests_def)
  show "manifests s d' = (manifests s d)(c := None)" if "r = Inr ()"
    using removeTemplate_gone [OF run [unfolded that] honest] other by (auto simp: fun_eq_iff manifests_def)
  show "manifests s d' = manifests s d" if "r \<noteq> Inr ()"
  proof -
    have "d' = d" using rm run that by (auto simp: removeTemplate_def os_Remove_def split: option.splits if_splits)
    then show ?thesis by simp
  qed
qed


text \<open>A sequence of operations, and the updates that its successful operations amount to.\<close>

fun run_all :: "('o \<Rightarrow> 'd \<Rightarrow> unit result \<times> 'd) \<Rightarrow> 'o list \<Rightarrow> 'd \<Rightarrow> 'd" where
  "run_all act [] d = d"
| "run_all act (p # ps) d = run_all act ps (snd (act p d))"

fun update_log ::
  "('o \<Rightarrow> 'd \<Rightarrow> unit result \<times> 'd) \<Rightarrow> ('o \<Rightarrow> string) \<Rightarrow> ('o \<Rightarrow> 'd \<Rightarrow> string option) \<Rightarrow> 'o list \<Rightarrow> 'd
     \<Rightarrow> (string \<times> string option) list" where
  "update_log act name effect [] d = []"
| "update_log act name effect (p # ps) d =
     (if isl (fst (act p d)) then [] else [(name p, effect p d)]) @ update_log act name effect ps (snd (act p d))"

definition apply_log :: "(string \<times> string option) list \<Rightarrow> (string \<Rightarrow> string option) \<Rightarrow> string \<Rightarrow> string option" where
  "apply_log us f = fold (\<lambda>(c, v) f. f(c := v)) us f"

text \<open>
  A store of named texts, seen through an abstraction of the state that implements it: an operation that
  succeeds updates one name, an operation that fails changes nothing.
\<close>

locale named_store =
  fixes view :: "'d \<Rightarrow> string \<Rightarrow> string option" and inv :: "'d \<Rightarrow> bool" and ok :: "'o \<Rightarrow> bool"
    and act :: "'o \<Rightarrow> 'd \<Rightarrow> unit result \<times> 'd" and name :: "'o \<Rightarrow> string" and effect :: "'o \<Rightarrow> 'd \<Rightarrow> string option"
  assumes act_inv: "inv d \<Longrightarrow> ok p \<Longrightarrow> act p d = (r, d') \<Longrightarrow> inv d'"
    and act_done: "inv d \<Longrightarrow> ok p \<Longrightarrow> act p d = (Inr (), d') \<Longrightarrow> view d' = (view d)(name p := effect p d)"
    and act_failed: "inv d \<Longrightarrow> ok p \<Longrightarrow> act p d = (Inl e, d') \<Longrightarrow> view d' = view d"
begin

lemma act_view:
  assumes "inv d" and "ok p"
  shows "inv (snd (act p d))"
    and "view (snd (act p d)) = (if isl (fst (act p d)) then view d else (view d)(name p := effect p d))"
proof -
  obtain r d' where a: "act p d = (r, d')"
    by (cases "act p d")
  show "inv (snd (act p d))"
    using act_inv [OF assms a] by (simp add: a)
  show "view (snd (act p d)) = (if isl (fst (act p d)) then view d else (view d)(name p := effect p d))"
    using act_done [OF assms, of d'] act_failed [OF assms, of _ d'] a by (cases r) auto
qed

lemma acts_view:
  assumes "inv d" and "list_all ok ps"
  shows "inv (run_all act ps d) \<and> view (run_all act ps d) = apply_log (update_log act name effect ps d) (view d)"
  using assms by (induction ps arbitrary: d) (auto simp: act_view apply_log_def)

lemma acts_other:
  assumes "inv d" and "list_all ok ps" and "c \<notin> name ` set ps"
  shows "view (run_all act ps d) c = view d c"
  using assms by (induction ps arbitrary: d) (auto simp: act_view)

end

interpretation executor_store: named_store "manifests s" store_inv "\<lambda>p. op_ok p \<and> manifest_layout ds m s"
  "op_run h s" op_command "op_effect h s" for s h ds m
proof
  fix d p r d'
  assume inv: "store_inv d" and ok: "op_ok p \<and> manifest_layout ds m s"
  show "op_run h s p d = (r, d') \<Longrightarrow> store_inv d'"
    using ok publish_store(1) [OF _ inv, of ds m s _ _ h r d'] withdraw_store(1) [OF _ inv, of ds m s _ r d'] by (cases p) auto
  show "op_run h s p d = (Inr (), d') \<Longrightarrow> manifests s d' = (manifests s d)(op_command p := op_effect h s p d)"
    using ok publish_store(2) [OF _ inv, of ds m s _ _ h "Inr ()" d'] withdraw_store(2) [OF _ inv, of ds m s _ "Inr ()" d']
    by (cases p) auto
  show "op_run h s p d = (Inl e, d') \<Longrightarrow> manifests s d' = manifests s d" for e
    using ok publish_store(3) [OF _ inv, of ds m s _ _ h "Inl e" d'] withdraw_store(3) [OF _ inv, of ds m s _ "Inl e" d']
    by (cases p) auto
qed


text \<open>
  C17: the manifest directory refines an abstract store. Whatever templates the executor writes and removes, in
  any order and with any of them failing at any point, the manifests on disk at the end are those of a map
  from commands to texts to which the successful operations, and no others, were applied in order.
\<close>

theorem executor_refines_store:
  assumes "manifest_layout ds m s" and "store_inv d" and "list_all op_ok ops"
  shows "manifests s (run_all (op_run h s) ops d) =
    apply_log (update_log (op_run h s) op_command (op_effect h s) ops d) (manifests s d)"
  using executor_store.acts_view [of d ds m s ops h] assms by (simp add: list_all_iff)

theorem executor_refines_store_witness:
  "manifests simple_static (run_all (op_run simple_host simple_static) [Publish tiny_spec ''7'', Withdraw ''etcd''] manifest_disk) =
   apply_log [(''kube-proxy'', Some ''kube-proxy''), (''etcd'', None)] (manifests simple_static manifest_disk)"
proof -
  let ?ops = "[Publish tiny_spec ''7'', Withdraw ''etcd'']"
  have "manifest_layout [''a''] ''p'' simple_static" "no_links (tree manifest_disk)" "list_all op_ok ?ops"
    "update_log (op_run simple_host simple_static) op_command (op_effect simple_host simple_static) ?ops manifest_disk =
      [(''kube-proxy'', Some ''kube-proxy''), (''etcd'', None)]"
    by code_simp+
  moreover have "faults manifest_disk OpRemove q = None" for q
    by (simp add: manifest_disk_def empty_disk_def)
  ultimately show ?thesis
    using executor_refines_store [of "[''a'']" "''p''" simple_static manifest_disk ?ops simple_host]
    by (simp add: store_inv_def)
qed

section \<open>The options of etcd\<close>

lemma add_mount_annotations [simp]: "pod_Annotations (add_mount n p ty ro t pod) = pod_Annotations pod"
  by (simp add: add_mount_def)

lemma add_env_annotations [simp]: "pod_Annotations (add_env n v pod) = pod_Annotations pod"
  by (simp add: add_env_def)

lemma fold_annotations:
  "(\<And>a pod. pod_Annotations (f a pod) = pod_Annotations pod) \<Longrightarrow> pod_Annotations (fold f as pod) = pod_Annotations pod"
  by (induction "as" arbitrary: pod) auto

lemma pod_keeps_annotations:
  assumes "podtemplate_Pod pkg libs d (Some spec) = Inr (Some pod)"
  shows "pod_Annotations pod = spec_Annotations spec"
proof -
  have "pod_Annotations (addVolumes p srcs v) = pod_Annotations p" for p srcs v
    unfolding addVolumes_def by (rule fold_annotations) (auto split: prod.splits)
  moreover have "pod_Annotations (addExtraMounts d p ms) = pod_Annotations p" for p ms
    unfolding addExtraMounts_def by (rule fold_annotations) (auto split: prod.splits option.splits)
  moreover have "pod_Annotations (addExtraEnv p es) = pod_Annotations p" for p es
    unfolding addExtraEnv_def by (rule fold_annotations) (auto simp: Let_def)
  moreover have "pod_Annotations (addProxyEnv p es) = pod_Annotations p" for p es
    unfolding addProxyEnv_def by (rule fold_annotations) (auto simp: Let_def)
  ultimately show ?thesis
    using assms by (auto simp: podtemplate_Pod_def Let_def set_resources_def base_pod_def)
qed


definition initial_key :: string where
  "initial_key = ''etcd.k3s.io/initial''"

lemma template_annotations:
  assumes "template_manifest h s spec d = Inr b"
  obtains pod where "pod_yaml (h_libs h) pod = Inr b" and "pod_Annotations pod = spec_Annotations spec"
proof -
  from assms obtain spec' p u where pod: "podtemplate_Pod (h_pkg h) (h_libs h) d (Some spec') = Inr (Some p)"
    and spec': "spec_Annotations spec' = spec_Annotations spec" and b: "pod_yaml (h_libs h) (p\<lparr>pod_UID := u\<rparr>) = Inr b"
    unfolding template_manifest_def Let_def by (auto split: option.splits)
  show thesis
    by (rule that [OF b]) (simp add: pod_keeps_annotations [OF pod] spec')
qed

lemma etcd_run_as_annotations:
  "etcd_run_as h spec d = (Inr spec', d') \<Longrightarrow> spec_Annotations spec' = spec_Annotations spec"
  by (auto simp: etcd_run_as_def Let_def split: sum.splits prod.splits)

text \<open>The writing at the end of a start of etcd.\<close>

lemma ETCD_writes:
  assumes run: "ETCD_start h rnd (Some c) extra x = (Inr (), x')" and initial: "ec_InitialOptions_json c = Inr initial"
    and lay: "layout_ok ds m (ex_cfg x)" and links: "no_links (tree (ex_disk x))"
    and conf: "\<And>d r d'. ec_ToConfigFile c extra d = (r, d') \<Longrightarrow> no_links (tree d) \<Longrightarrow> no_links (tree d')"
  obtains spec d where "writeTemplate h (ex_cfg x) rnd (Some spec) d = (Inr (), ex_disk x')" and "no_links (tree d)"
    and "spec_Command spec = ''etcd''" and "spec_Annotations spec = [(initial_key, initial)]"
proof -
  obtain confFile d1 where t1: "ec_ToConfigFile c extra (ex_disk x) = (Inr confFile, d1)"
    using run initial by (auto simp: ETCD_start_def split: prod.splits sum.splits)
  obtain spec d2 where t2: "ETCD_spec (h_pkg h) (h_build h) (sp_Config (ex_cfg x)) (etcd_args confFile) d1 = (Inr spec, d2)"
    using run initial t1 by (auto simp: ETCD_start_def split: prod.splits sum.splits)
  have links2: "no_links (tree d2)"
    using conf [OF t1 links] maker_harmless(2) [OF _ t2, of "apiserver_manifest ds m"] lay
    by (auto simp: layout_ok_def intro: harmless_links)
  let ?spec = "etcd_pod_spec c initial spec"
  let ?run = "if isAnyMode (sp_ProfileMode (ex_cfg x)) then etcd_run_as h ?spec d2 else (Inr ?spec, d2)"
  have run2: "ETCD_run h rnd c ?spec (x\<lparr>ex_disk := d2\<rparr>) = (Inr (), x')"
    using run initial t1 t2 by (simp add: ETCD_start_def)
  then obtain spec3 d3 where t3: "?run = (Inr spec3, d3)" and w: "ETCD_write h rnd c spec3 (x\<lparr>ex_disk := d3\<rparr>) = (Inr (), x')"
    by (cases ?run) (auto simp: ETCD_run_def cong: if_cong split: sum.splits)
  have links3: "no_links (tree d3)"
    using t3 links2 harmless_links [OF etcd_run_as_harmless] by (auto split: if_splits)
  have fields: "spec_Command spec3 = ''etcd''" "spec_Annotations spec3 = [(initial_key, initial)]"
    using t3 etcd_maker.make_command [OF t2] etcd_run_as_command [of h ?spec d2 spec3 d3] etcd_run_as_annotations [of h ?spec d2 spec3 d3]
    by (auto simp: etcd_pod_spec_def initial_key_def split: if_splits)
  let ?spec4 = "spec3\<lparr>spec_SecurityContext := with_selinux (h_EnableSELinux h) ''rke2_service_db_t'' (spec_SecurityContext spec3)\<rparr>"
  have "writeTemplate h (ex_cfg x) rnd (Some ?spec4) d3 = (Inr (), ex_disk x')"
    using w by (auto simp: ETCD_write_def Let_def split: prod.splits sum.splits if_splits)
  with links3 fields show thesis
    by (intro that [of ?spec4 d3]) simp_all
qed

text \<open>
  C20: the initial options of etcd survive a restart. After a successful start of etcd, reading the current
  options back from the manifest gives the options the start was called with, provided that YAML keeps the
  annotation it is stored in and JSON decodes what it has encoded.
\<close>

theorem etcd_options_roundtrip:
  assumes run: "ETCD_start h rnd (Some c) extra x = (Inr (), x')"
    and lay: "layout_ok ds m (ex_cfg x)" and rnd: "rnd_ok rnd" and links: "no_links (tree (ex_disk x))"
    and conf: "\<And>d r d'. ec_ToConfigFile c extra d = (r, d') \<Longrightarrow> no_links (tree d) \<Longrightarrow> no_links (tree d')"
    and json: "ec_InitialOptions_json c = Inr initial" "json_options initial = Inr opts"
    and yaml: "\<And>p b. pod_yaml (h_libs h) p = Inr b \<Longrightarrow>
      \<exists>ann. yaml_annotations b = Inr ann \<and> gm_get ann initial_key = gm_get (pod_Annotations p) initial_key"
    and readable: "faults (ex_disk x') OpReadFile (manifestPath (ex_cfg x) ''etcd'') = None"
  shows "CurrentETCDOptions (ex_cfg x') yaml_annotations json_options zero (ex_disk x') = Inr opts"
proof -
  obtain spec d where w: "writeTemplate h (ex_cfg x) rnd (Some spec) d = (Inr (), ex_disk x')" and links': "no_links (tree d)"
    and spec: "spec_Command spec = ''etcd''" "spec_Annotations spec = [(initial_key, initial)]"
    by (rule ETCD_writes [OF run json(1) lay links conf])
  have ml: "manifest_layout ds m (ex_cfg x)" and cmd: "slash \<notin> set (spec_Command spec)"
    using lay spec by (simp_all add: layout_ok_def)
  note path = layout_manifestPath [OF ml cmd]
  obtain b where b: "template_manifest h (ex_cfg x) spec d = Inr b"
    using w by (cases "template_manifest h (ex_cfg x) spec d") (auto simp: writeTemplate_def)
  then have wf: "writeFile (abs_path (ds @ [m, manifest_name (spec_Command spec)])) b
      (if isAnyMode (sp_ProfileMode (ex_cfg x)) then 384 else 420) rnd d = (Inr (), ex_disk x')"
    using w path by (simp add: writeTemplate_def)
  note ws = writeFile_store [OF wf layout_rnd [OF ml rnd cmd] links']
  obtain i where i: "gm_get (tree (ex_disk x')) (manifestPath (ex_cfg x) ''etcd'') = Some i" "kind i = Regular b"
    using ws(2) path spec by auto
  have "no_links (tree (ex_disk x'))"
    using ws(1) links' by (simp add: alters_def)
  then have read: "os_ReadFile (ex_disk x') (manifestPath (ex_cfg x) ''etcd'') = Inr b"
    using i readable lookup_plain [OF i(1)] no_links_get by (auto simp: os_ReadFile_def)
  obtain pod where "pod_yaml (h_libs h) pod = Inr b" "pod_Annotations pod = [(initial_key, initial)]"
    using template_annotations [OF b] spec by metis
  with yaml obtain ann where "yaml_annotations b = Inr ann" "gm_get ann initial_key = Some initial"
    by (fastforce simp: gm_get_def)
  moreover have "ex_cfg x' = ex_cfg x"
    using ETCD_fields(1) [of h rnd "Some c" extra x] by (simp add: run)
  ultimately show ?thesis
    using json(2) by (simp add: CurrentETCDOptions_def read initial_key_def)
qed


definition example_etcd :: ETCDConfig where
  "example_etcd = \<lparr>ec_InitialOptions_json = Inr ''{new}'', ec_ToConfigFile = (\<lambda>_ d. (Inr ''/f'', d)), ec_DataDir = ''/d'',
     ec_ServerCertFile = ''/f'', ec_ServerKeyFile = ''/f'', ec_ServerTrustedCAFile = ''/f'', ec_PeerCertFile = ''/f'',
     ec_PeerKeyFile = ''/f'', ec_PeerTrustedCAFile = ''/f'', ec_ForceNewCluster = False\<rparr>"

definition annotation_libs :: pod_libs where
  "annotation_libs = simple_libs\<lparr>pod_yaml := (\<lambda>p.
     Inr (case gm_get (pod_Annotations p) initial_key of None \<Rightarrow> '''' | Some v \<Rightarrow> ''a'' @ v))\<rparr>"

definition read_annotation :: "string \<Rightarrow> (string, string) gomap result" where
  "read_annotation b = Inr (case b of [] \<Rightarrow> [] | _ # v \<Rightarrow> [(initial_key, v)])"

definition etcd_exec :: exec where
  "etcd_exec = simple_exec\<lparr>ex_disk := (ex_disk simple_exec)\<lparr>tree := (''/f'', new_inode (Regular ''x'') 420) # tree (ex_disk simple_exec)\<rparr>\<rparr>"

abbreviation etcd_example where
  "etcd_example \<equiv> ETCD_start (simple_host\<lparr>h_libs := annotation_libs\<rparr>) ''7'' (Some example_etcd) [] etcd_exec"

theorem etcd_options_roundtrip_witness:
  "fst etcd_example = Inr () \<and>
   CurrentETCDOptions (ex_cfg (snd etcd_example)) read_annotation Inr '''' (ex_disk (snd etcd_example)) = Inr ''{new}''"
proof -
  have ok: "fst etcd_example = Inr ()"
    by code_simp
  then have run: "etcd_example = (Inr (), snd etcd_example)"
    by (metis prod.collapse)
  have "layout_ok [''a''] ''p'' (ex_cfg etcd_exec)" "rnd_ok ''7''" "no_links (tree (ex_disk etcd_exec))"
    "faults (ex_disk (snd etcd_example)) OpReadFile (manifestPath (ex_cfg etcd_exec) ''etcd'') = None"
    by code_simp+
  from etcd_options_roundtrip [OF run this(1-3) _ _ _ _ this(4), of "''{new}''" Inr "''{new}''" read_annotation] ok
  show ?thesis
    by (auto simp: example_etcd_def annotation_libs_def read_annotation_def gm_get_def split: option.splits)
qed

end
