(* ===== verification/Static_Reconcile.thy ===== *)
theory Static_Reconcile
  imports Static_Manifest
begin

text \<open>
  \<^verbatim>\<open>pkg/executor/staticpod/spw.go\<close> and the part of \<^verbatim>\<open>staticpod.go\<close> that talks to the container runtime:
  comparing the running pod sandboxes with the static pod manifests and removing the stale ones. The
  container runtime is a service: its state is of an arbitrary type and its calls are the fields of \<open>cri\<close>.
  The kubelet's rule for choosing the current sandbox, the IP parser and the manifest decoder are code of
  other modules and fields of \<open>sync_libs\<close>.
\<close>

section \<open>The container runtime\<close>

record sandbox =
  sb_Id :: string
  sb_Name :: string
  sb_Labels :: "(string, string) gomap"
  sb_Annotations :: "(string, string) gomap"

record sandbox_network =
  net_Ip :: string
  net_AdditionalIps :: "string list"

record sandbox_status =
  ss_Id :: string
  ss_Ready :: bool
  ss_Network :: "sandbox_network option"

record 'c cri =
  cri_Connection :: "string \<Rightarrow> 'c \<Rightarrow> unit result"
  ListPodSandbox :: "(string, string) gomap \<Rightarrow> 'c \<Rightarrow> sandbox list result"
  PodSandboxStatus :: "string \<Rightarrow> 'c \<Rightarrow> sandbox_status result"
  RemovePodSandbox :: "string \<Rightarrow> 'c \<Rightarrow> unit result \<times> 'c"

record PodStatus =
  ps_ID :: string
  ps_Name :: string
  ps_Namespace :: string
  ps_IPs :: "string list"
  ps_SandboxStatuses :: "sandbox_status list"

record sync_libs =
  decode_manifest :: "string \<Rightarrow> Pod result"
  PodSandboxChanged :: "Pod \<Rightarrow> PodStatus \<Rightarrow> bool \<times> string"
  ParseIPSloppy :: "string \<Rightarrow> bool"

definition ContainerdSock :: string where
  "ContainerdSock = ''/run/k3s/containerd/containerd.sock''"

text \<open>Indexing a label or annotation map: a missing key reads as the empty string.\<close>

abbreviation label :: "(string, string) gomap \<Rightarrow> string \<Rightarrow> string" where
  "label m k \<equiv> gm_index '''' m k"

section \<open>Sandbox addresses\<close>

definition determinePodSandboxIPs :: "sync_libs \<Rightarrow> sandbox_status \<Rightarrow> string list" where
  "determinePodSandboxIPs libs st =
     (case ss_Network st of None \<Rightarrow> []
      | Some net \<Rightarrow>
          if length (net_Ip net) \<noteq> 0 \<and> \<not> ParseIPSloppy libs (net_Ip net) then []
          else if list_ex (\<lambda>ip. \<not> ParseIPSloppy libs ip) (net_AdditionalIps net) then []
          else (if length (net_Ip net) \<noteq> 0 then [net_Ip net] else []) @ net_AdditionalIps net)"

section \<open>Is a manifest deployed?\<close>

definition sandbox_uid :: "sandbox \<Rightarrow> string" where
  "sandbox_uid sb = label (sb_Labels sb) ''io.kubernetes.pod.uid''"

definition manifest_filter :: "Pod \<Rightarrow> (string, string) gomap" where
  "manifest_filter pod =
     [(''component'', label (pod_Labels pod) ''component''), (''io.kubernetes.pod.namespace'', pod_Namespace pod),
      (''tier'', label (pod_Labels pod) ''tier'')]"

text \<open>The statuses of the sandboxes of the current pod; the counter is \<^verbatim>\<open>matchingPodIdx\<close>.\<close>

fun collect_statuses ::
  "'c cri \<Rightarrow> sync_libs \<Rightarrow> string \<Rightarrow> 'c \<Rightarrow> sandbox list \<Rightarrow> nat \<Rightarrow> PodStatus \<Rightarrow> PodStatus result" where
  "collect_statuses cr libs uid c [] idx ps = Inr ps"
| "collect_statuses cr libs uid c (sb # sbs) idx ps =
     (if sandbox_uid sb \<noteq> uid then collect_statuses cr libs uid c sbs idx ps
      else case PodSandboxStatus cr (sb_Id sb) c of
        Inl e \<Rightarrow>
          if e = ApiNotFound then collect_statuses cr libs uid c sbs idx ps
          else Inl (WithMessage ''failed to get pod sandbox status'' e)
      | Inr st \<Rightarrow>
          let ps = ps\<lparr>ps_SandboxStatuses := ps_SandboxStatuses ps @ [st]\<rparr>;
              ps = (if idx = 0 \<and> ss_Ready st then ps\<lparr>ps_IPs := determinePodSandboxIPs libs st\<rparr> else ps)
          in collect_statuses cr libs uid c sbs (Suc idx) ps)"

definition stale_sandbox :: "Pod \<Rightarrow> string \<Rightarrow> sandbox \<Rightarrow> bool" where
  "stale_sandbox pod sandboxID sb \<longleftrightarrow>
     sandbox_uid sb \<noteq> pod_UID pod \<or> (sandboxID \<noteq> '''' \<and> sandboxID \<noteq> sb_Id sb)"

text \<open>Removing sandboxes; failures are only logged.\<close>

definition remove_sandboxes :: "'c cri \<Rightarrow> sandbox list \<Rightarrow> 'c \<Rightarrow> 'c" where
  "remove_sandboxes cr sbs c = fold (\<lambda>sb c. snd (RemovePodSandbox cr (sb_Id sb) c)) sbs c"

definition checkManifestDeployed ::
  "'c cri \<Rightarrow> sync_libs \<Rightarrow> disk \<Rightarrow> string \<Rightarrow> 'c \<Rightarrow> unit result \<times> 'c" where
  "checkManifestDeployed cr libs d manifestFile c =
     (case os_ReadFile d manifestFile of
        Inl e \<Rightarrow> (Inl (WithMessage ''failed to open manifest'' e), c)
      | Inr content \<Rightarrow>
     (case decode_manifest libs content of
        Inl e \<Rightarrow> (Inl (WithMessage ''failed to decode manifest'' e), c)
      | Inr pod \<Rightarrow>
     (case ListPodSandbox cr (manifest_filter pod) c of
        Inl e \<Rightarrow> (Inl (WithMessage ''failed to list pod sandboxes'' e), c)
      | Inr sandboxes \<Rightarrow>
     (case collect_statuses cr libs (pod_UID pod) c sandboxes 0
             \<lparr>ps_ID = pod_UID pod, ps_Name = pod_Name pod, ps_Namespace = pod_Namespace pod, ps_IPs = [],
              ps_SandboxStatuses = []\<rparr> of
        Inl e \<Rightarrow> (Inl e, c)
      | Inr podStatus \<Rightarrow>
     (case PodSandboxChanged libs pod podStatus of (newSandboxNeeded, sandboxID) \<Rightarrow>
        let stale = filter (stale_sandbox pod sandboxID) sandboxes; c' = remove_sandboxes cr stale c in
        if stale \<noteq> [] then (Inl (Errorf ''waiting for termination of old pod sandbox''), c')
        else if newSandboxNeeded then
          (Inl (Errorf (if sandboxID \<noteq> '''' then ''pod sandbox has changed'' else ''pod sandbox not found'')), c')
        else (Inr (), c'))))))"

section \<open>Polling until the pods are in sync\<close>

definition reconcile_pods :: "string list" where
  "reconcile_pods = [''etcd'', ''kube-apiserver'']"

fun reconcile_each ::
  "'c cri \<Rightarrow> sync_libs \<Rightarrow> disk \<Rightarrow> string \<Rightarrow> string list \<Rightarrow> 'c \<Rightarrow> bool \<times> 'c" where
  "reconcile_each cr libs d manifestDir [] c = (True, c)"
| "reconcile_each cr libs d manifestDir (pod # pods) c =
     (case checkManifestDeployed cr libs d (filepath_Join [manifestDir, pod @ ''.yaml'']) c of
        (Inl e, c') \<Rightarrow>
          if errors_Is_ErrNotExist e then reconcile_each cr libs d manifestDir pods c' else (False, c')
      | (Inr _, c') \<Rightarrow> reconcile_each cr libs d manifestDir pods c')"

definition reconcile_once ::
  "'c cri \<Rightarrow> sync_libs \<Rightarrow> string \<Rightarrow> string \<Rightarrow> disk \<Rightarrow> 'c \<Rightarrow> bool \<times> 'c" where
  "reconcile_once cr libs endpoint manifestDir d c =
     (case cri_Connection cr (if endpoint = '''' then ContainerdSock else endpoint) c of
        Inl e \<Rightarrow> (False, c)
      | Inr _ \<Rightarrow> reconcile_each cr libs d manifestDir reconcile_pods c)"

text \<open>
  \<^verbatim>\<open>wait.PollUntilContextTimeout\<close>: the condition is tried until it holds or the time is over; \<open>n\<close> is the
  number of attempts that fit in the time and \<open>tick\<close> is what happens to the machine between two attempts:
  \<open>None\<close> when the context is cancelled. A timeout ends the process, a cancellation does not.
\<close>

datatype poll_end = PollDone | PollCancelled

fun reconcileStaticPods ::
  "'c cri \<Rightarrow> sync_libs \<Rightarrow> string \<Rightarrow> string \<Rightarrow> string \<Rightarrow> (disk \<times> 'c \<Rightarrow> (disk \<times> 'c) option) \<Rightarrow> nat \<Rightarrow> disk \<times> 'c
     \<Rightarrow> (poll_end \<times> disk \<times> 'c) outcome" where
  "reconcileStaticPods cr libs endpoint mp dataDir tick 0 w = Inl (Fatal ''Failed waiting for static pods to sync'')"
| "reconcileStaticPods cr libs endpoint mp dataDir tick (Suc n) w =
     (case reconcile_once cr libs endpoint (PodManifestsDir mp dataDir) (fst w) (snd w) of
        (True, c) \<Rightarrow> Inr (PollDone, fst w, c)
      | (False, c) \<Rightarrow>
          (case tick (fst w, c) of
             None \<Rightarrow> Inr (PollCancelled, fst w, c)
           | Some w' \<Rightarrow> reconcileStaticPods cr libs endpoint mp dataDir tick n w'))"


section \<open>Stopping etcd\<close>

definition etcd_filter :: "(string, string) gomap" where
  "etcd_filter = [(''component'', ''etcd''), (''io.kubernetes.pod.namespace'', ''kube-system''), (''tier'', ''control-plane'')]"

definition from_file :: "sandbox \<Rightarrow> bool" where
  "from_file sb \<longleftrightarrow> label (sb_Annotations sb) ''kubernetes.io/config.source'' = ''file''"

fun stop_each :: "'c cri \<Rightarrow> sandbox list \<Rightarrow> 'c \<Rightarrow> unit result \<times> 'c" where
  "stop_each cr [] c = (Inr (), c)"
| "stop_each cr (sb # sbs) c =
     (if \<not> from_file sb then stop_each cr sbs c
      else case RemovePodSandbox cr (sb_Id sb) c of
        (Inl e, c') \<Rightarrow> (Inl (WithMessage ''failed to terminate pod'' e), c')
      | (Inr _, c') \<Rightarrow> stop_each cr sbs c')"

definition stopEtcd :: "'c cri \<Rightarrow> StaticPodConfig \<Rightarrow> 'c \<Rightarrow> unit result \<times> 'c" where
  "stopEtcd cr s c =
     (case cri_Connection cr (sp_RuntimeEndpoint s) c of
        Inl e \<Rightarrow> (Inl (WithMessage ''failed to connect to cri'' e), c)
      | Inr _ \<Rightarrow>
         (case ListPodSandbox cr etcd_filter c of
            Inl e \<Rightarrow> (Inl (WithMessage ''failed to list pods'' e), c)
          | Inr pods \<Rightarrow> stop_each cr pods c))"

section \<open>What a check establishes\<close>

text \<open>
  What is relied on of the errors of the decoder and of the runtime: they do not wrap the error of a missing
  file.
\<close>

definition sync_errors_ok :: "'c cri \<Rightarrow> sync_libs \<Rightarrow> bool" where
  "sync_errors_ok cr libs \<longleftrightarrow>
     (\<forall>x e. decode_manifest libs x = Inl e \<longrightarrow> \<not> errors_Is_ErrNotExist e) \<and>
     (\<forall>f c e. ListPodSandbox cr f c = Inl e \<longrightarrow> \<not> errors_Is_ErrNotExist e) \<and>
     (\<forall>id c e. PodSandboxStatus cr id c = Inl e \<longrightarrow> \<not> errors_Is_ErrNotExist e)"

text \<open>
  What is relied on of the container runtime: listing returns the sandboxes that carry all the labels of the
  filter, and removing a sandbox removes that sandbox or nothing.
\<close>

definition cri_ok :: "'c cri \<Rightarrow> ('c \<Rightarrow> sandbox list) \<Rightarrow> bool" where
  "cri_ok cr all \<longleftrightarrow>
     (\<forall>f c sbs. ListPodSandbox cr f c = Inr sbs \<longrightarrow>
        set sbs = {sb \<in> set (all c). \<forall>(k, v) \<in> set f. label (sb_Labels sb) k = v}) \<and>
     (\<forall>id c. all (snd (RemovePodSandbox cr id c)) = all c \<or>
        all (snd (RemovePodSandbox cr id c)) = filter (\<lambda>sb. sb_Id sb \<noteq> id) (all c))"

definition matches :: "(string, string) gomap \<Rightarrow> sandbox \<Rightarrow> bool" where
  "matches f sb \<longleftrightarrow> (\<forall>(k, v) \<in> set f. label (sb_Labels sb) k = v)"

lemma remove_sandboxes_all:
  assumes "cri_ok cr all" and "sb \<in> set (all c)"
  shows "sb \<in> set (all (remove_sandboxes cr sbs c)) \<or> sb_Id sb \<in> sb_Id ` set sbs"
  using assms(2)
proof (induction sbs arbitrary: c)
  case (Cons x sbs)
  let ?c = "snd (RemovePodSandbox cr (sb_Id x) c)"
  have "all ?c = all c \<or> all ?c = filter (\<lambda>sb. sb_Id sb \<noteq> sb_Id x) (all c)"
    using assms(1) by (simp add: cri_ok_def)
  then show ?case using Cons.IH [of ?c] Cons.prems
    by (cases "sb_Id sb = sb_Id x") (auto simp: remove_sandboxes_def)
qed (simp add: remove_sandboxes_def)

text \<open>The branches of a check.\<close>

lemma check_cases:
  assumes "checkManifestDeployed cr libs d f c = (res, c')"
  obtains (early) "c' = c" "\<exists>e. res = Inl e"
    | (full) content pod sbs ps new id where
        "os_ReadFile d f = Inr content" "decode_manifest libs content = Inr pod"
        "ListPodSandbox cr (manifest_filter pod) c = Inr sbs" "PodSandboxChanged libs pod ps = (new, id)"
        "c' = remove_sandboxes cr (filter (stale_sandbox pod id) sbs) c"
        "res = Inr () \<longleftrightarrow> filter (stale_sandbox pod id) sbs = [] \<and> \<not> new"
proof (cases "os_ReadFile d f")
  case (Inl e)
  with assms show ?thesis by (intro early) (auto simp: checkManifestDeployed_def)
next
  case content: (Inr content)
  show ?thesis
  proof (cases "decode_manifest libs content")
    case (Inl e)
    with assms content show ?thesis by (intro early) (auto simp: checkManifestDeployed_def)
  next
    case pod: (Inr pod)
    show ?thesis
    proof (cases "ListPodSandbox cr (manifest_filter pod) c")
      case (Inl e)
      with assms content pod show ?thesis by (intro early) (auto simp: checkManifestDeployed_def)
    next
      case sbs: (Inr sbs)
      let ?ps = "\<lparr>ps_ID = pod_UID pod, ps_Name = pod_Name pod, ps_Namespace = pod_Namespace pod, ps_IPs = [],
                  ps_SandboxStatuses = []\<rparr>"
      show ?thesis
      proof (cases "collect_statuses cr libs (pod_UID pod) c sbs 0 ?ps")
        case (Inl e)
        with assms content pod sbs show ?thesis by (intro early) (auto simp: checkManifestDeployed_def)
      next
        case (Inr ps)
        obtain new id where ch: "PodSandboxChanged libs pod ps = (new, id)" by force
        show ?thesis
          using assms content pod sbs Inr ch
          by (intro full [OF content pod sbs ch]) (auto simp: checkManifestDeployed_def Let_def split: if_splits)
      qed
    qed
  qed
qed

text \<open>A manifest is in sync: every sandbox with its labels is of the pod it describes.\<close>

definition in_sync :: "sync_libs \<Rightarrow> ('c \<Rightarrow> sandbox list) \<Rightarrow> disk \<Rightarrow> string \<Rightarrow> 'c \<Rightarrow> bool" where
  "in_sync libs all d f c \<longleftrightarrow>
     (\<exists>content pod. os_ReadFile d f = Inr content \<and> decode_manifest libs content = Inr pod \<and>
        (\<forall>sb \<in> set (all c). matches (manifest_filter pod) sb \<longrightarrow> sandbox_uid sb = pod_UID pod))"

lemma check_in_sync:
  assumes "cri_ok cr all" and "checkManifestDeployed cr libs d f c = (Inr (), c')"
  shows "c' = c \<and> in_sync libs all d f c"
  using assms(2)
proof (cases rule: check_cases)
  case (full content pod sbs ps new id)
  then have none: "filter (stale_sandbox pod id) sbs = []" by simp
  have "set sbs = {sb \<in> set (all c). matches (manifest_filter pod) sb}"
    using assms(1) full(3) by (simp add: cri_ok_def matches_def)
  then have "\<forall>sb \<in> set (all c). matches (manifest_filter pod) sb \<longrightarrow> sandbox_uid sb = pod_UID pod"
    using none by (auto simp: filter_empty_conv stale_sandbox_def)
  then show ?thesis using full none by (auto simp: in_sync_def remove_sandboxes_def)
qed simp


text \<open>A node for the examples: the runtime's state is the list of its sandboxes, and nothing fails.\<close>

definition list_cri :: "sandbox list cri" where
  "list_cri = \<lparr>cri_Connection = (\<lambda>_ _. Inr ()),
     ListPodSandbox = (\<lambda>f sbs. Inr (filter (\<lambda>sb. list_all (\<lambda>(k, v). label (sb_Labels sb) k = v) f) sbs)),
     PodSandboxStatus = (\<lambda>id sbs. Inr \<lparr>ss_Id = id, ss_Ready = True, ss_Network = None\<rparr>),
     RemovePodSandbox = (\<lambda>id sbs. (Inr (), filter (\<lambda>sb. sb_Id sb \<noteq> id) sbs))\<rparr>"

definition etcd_pod :: Pod where
  "etcd_pod = (base_pod simple_names (tiny_spec\<lparr>spec_Command := ''etcd''\<rparr>) [])\<lparr>pod_UID := ''u2''\<rparr>"

definition sync_example :: sync_libs where
  "sync_example = \<lparr>decode_manifest = (\<lambda>_. Inr etcd_pod),
     PodSandboxChanged = (\<lambda>p st. case ps_SandboxStatuses st of [] \<Rightarrow> (True, '''') | x # _ \<Rightarrow> (False, ss_Id x)),
     ParseIPSloppy = (\<lambda>_. True)\<rparr>"

definition etcd_sandbox :: "string \<Rightarrow> string \<Rightarrow> sandbox" where
  "etcd_sandbox sid uid = \<lparr>sb_Id = sid, sb_Name = ''etcd'',
     sb_Labels = [(''component'', ''etcd''), (''tier'', ''control-plane''),
       (''io.kubernetes.pod.namespace'', ''kube-system''), (''io.kubernetes.pod.uid'', uid)],
     sb_Annotations = [(''kubernetes.io/config.source'', ''file'')]\<rparr>"

definition sync_disk :: disk where
  "sync_disk = empty_disk\<lparr>tree := [(''/a/agent/p/etcd.yaml'', new_inode (Regular ''x'') 420)]\<rparr>"

lemma list_cri_ok: "cri_ok list_cri id"
  by (auto simp: cri_ok_def list_cri_def list_all_iff)

lemma sync_example_errors: "sync_errors_ok list_cri sync_example"
  by (simp add: sync_errors_ok_def list_cri_def sync_example_def)



lemma collect_statuses_error:
  assumes "sync_errors_ok cr libs" and "collect_statuses cr libs uid c sbs idx ps = Inl e"
  shows "\<not> errors_Is_ErrNotExist e"
  using assms(2)
proof (induction sbs arbitrary: idx ps)
  case (Cons sb sbs)
  show ?case
  proof (cases "PodSandboxStatus cr (sb_Id sb) c")
    case (Inl e')
    then have "\<not> errors_Is_ErrNotExist e'" using assms(1) by (simp add: sync_errors_ok_def)
    then show ?thesis using Cons Inl by (auto split: if_splits)
  next
    case (Inr st)
    then show ?thesis using Cons.prems Cons.IH by (auto simp: Let_def split: if_splits)
  qed
qed simp

lemma check_not_exist:
  assumes "sync_errors_ok cr libs" and "checkManifestDeployed cr libs d f c = (Inl e, c')"
    and "errors_Is_ErrNotExist e"
  shows "c' = c \<and> (\<exists>e. os_ReadFile d f = Inl e \<and> errors_Is_ErrNotExist e)"
  using assms collect_statuses_error [OF assms(1)]
  by (auto simp: checkManifestDeployed_def sync_errors_ok_def Let_def split: sum.splits prod.splits if_splits)

lemma reconcile_each_done:
  assumes "cri_ok cr all" and "sync_errors_ok cr libs"
    and "reconcile_each cr libs d dir pods c = (True, c')"
  shows "c' = c \<and> (\<forall>pod \<in> set pods. \<forall>f. f = filepath_Join [dir, pod @ ''.yaml''] \<longrightarrow>
           in_sync libs all d f c \<or> (\<exists>e. os_ReadFile d f = Inl e \<and> errors_Is_ErrNotExist e))"
  using assms(3)
proof (induction pods)
  case (Cons pod pods)
  let ?f = "filepath_Join [dir, pod @ ''.yaml'']"
  obtain res c1 where r: "checkManifestDeployed cr libs d ?f c = (res, c1)" by force
  show ?case
  proof (cases res)
    case (Inl e)
    with r Cons.prems have "errors_Is_ErrNotExist e" by (auto split: if_splits)
    with r Inl check_not_exist [OF assms(2)] have "c1 = c" "\<exists>e. os_ReadFile d ?f = Inl e \<and> errors_Is_ErrNotExist e" by blast+
    with r Inl Cons show ?thesis by (auto split: if_splits)
  next
    case (Inr u)
    with r check_in_sync [OF assms(1)] have "c1 = c" "in_sync libs all d ?f c" by simp_all
    with r Inr Cons show ?thesis by auto
  qed
qed simp

lemma reconcile_done:
  assumes "reconcileStaticPods cr libs endpoint mp dataDir tick n w = Inr (PollDone, d, c)"
  shows "\<exists>c0. reconcile_each cr libs d (PodManifestsDir mp dataDir) reconcile_pods c0 = (True, c)"
  using assms
  by (induction n arbitrary: w)
    (auto simp: reconcile_once_def split: prod.splits bool.splits option.splits sum.splits if_splits)

text \<open>
  C26: when the synchronisation ends normally, the node runs what the manifests say: for etcd and for the API
  server, either there is no manifest, or the manifest decodes to a pod and every running sandbox with that
  pod's component, namespace and tier labels belongs to the pod with the manifest's UID.
\<close>

theorem reconcile_in_sync:
  assumes "cri_ok cr all" and "sync_errors_ok cr libs"
    and "reconcileStaticPods cr libs endpoint mp dataDir tick n w = Inr (PollDone, d, c)"
    and "pod = ''etcd'' \<or> pod = ''kube-apiserver''"
  shows "in_sync libs all d (filepath_Join [PodManifestsDir mp dataDir, pod @ ''.yaml'']) c \<or>
         (\<exists>e. os_ReadFile d (filepath_Join [PodManifestsDir mp dataDir, pod @ ''.yaml'']) = Inl e \<and> errors_Is_ErrNotExist e)"
proof -
  obtain c0 where "reconcile_each cr libs d (PodManifestsDir mp dataDir) reconcile_pods c0 = (True, c)"
    using reconcile_done [OF assms(3)] by blast
  moreover have "pod \<in> set reconcile_pods" using assms(4) by (auto simp: reconcile_pods_def)
  ultimately show ?thesis using reconcile_each_done [OF assms(1,2)] by blast
qed


text \<open>
  An attempt on the example node with an old and a new etcd sandbox removes the old one; the next attempt
  finds the node in sync.
\<close>

theorem reconcile_in_sync_witness:
  "in_sync sync_example id sync_disk (filepath_Join [PodManifestsDir ''p'' ''/a'', ''etcd'' @ ''.yaml'']) [etcd_sandbox ''s2'' ''u2'']"
proof -
  let ?w = "(sync_disk, [etcd_sandbox ''s1'' ''u1'', etcd_sandbox ''s2'' ''u2''])"
  have a: "reconcile_once list_cri sync_example '''' (PodManifestsDir ''p'' ''/a'') sync_disk (snd ?w) = (False, [etcd_sandbox ''s2'' ''u2''])"
    by code_simp
  have b: "reconcile_once list_cri sync_example '''' (PodManifestsDir ''p'' ''/a'') sync_disk [etcd_sandbox ''s2'' ''u2''] = (True, [etcd_sandbox ''s2'' ''u2''])"
    by code_simp
  have 1: "reconcileStaticPods list_cri sync_example '''' ''p'' ''/a'' Some 2 ?w
      = Inr (PollDone, sync_disk, [etcd_sandbox ''s2'' ''u2''])"
    using a by (simp add: numeral_2_eq_2 b)
  have 2: "\<not> isl (os_ReadFile sync_disk (filepath_Join [PodManifestsDir ''p'' ''/a'', ''etcd'' @ ''.yaml'']))" by code_simp
  show ?thesis using reconcile_in_sync [OF list_cri_ok sync_example_errors 1, of "''etcd''"] 2 by auto
qed

end
