(* ===== verification/Static_Cleanup.thy ===== *)
theory Static_Cleanup
  imports Static_Reconcile
begin

text \<open>
  \<^verbatim>\<open>pkg/executor/staticpod/cleanup.go\<close>: removing the manifests of disabled control-plane components and
  terminating their pods through the container runtime. The slice of components is a backing array with a
  length, because the loop over it deletes from it while it runs. The temporary containerd process and the
  clock are the environment: which of the select cases fires first is an argument.
\<close>

section \<open>The temporary containerd\<close>

definition binDir :: "string \<Rightarrow> string" where
  "binDir dataDir = filepath_Join [dataDir, ''bin'']"

definition containerd_base_args :: "string \<Rightarrow> string list" where
  "containerd_base_args dataDir =
     [''-c'', filepath_Join [dataDir, ''agent'', ''etc'', ''containerd'', ''config.toml''],
      ''-a'', ContainerdSock,
      ''--state'', filepath_Dir ContainerdSock,
      ''--root'', filepath_Join [dataDir, ''agent'', ''containerd'']]"

record cmd_env =
  ce_args :: "string list"
  ce_env :: "string list"
  ce_cenv :: "string list"

text \<open>One environment variable; indexing the missing second part of the pair panics.\<close>

definition containerd_var :: "string \<Rightarrow> string \<Rightarrow> cmd_env \<Rightarrow> cmd_env outcome" where
  "containerd_var dataDir e st =
     (let pair = str_SplitN2 (CHR ''='') e; key = pair ! 0 in
      if key = ''NOTIFY_SOCKET'' then Inr st
      else if key = ''CONTAINERD_LOG_LEVEL'' then
        if length pair < 2 then Inl (Panic ''index out of range'')
        else Inr (st\<lparr>ce_args := ce_args st @ [''--log-level'', pair ! 1]\<rparr>)
      else if str_HasPrefix key ''CONTAINERD_'' then
        Inr (st\<lparr>ce_cenv := ce_cenv st @ [str_Join (pair[0 := str_TrimPrefix key ''CONTAINERD_'']) ''='']\<rparr>)
      else if key = ''PATH'' then
        if length pair < 2 then Inl (Panic ''index out of range'')
        else Inr (st\<lparr>ce_env := ce_env st @ [''PATH='' @ binDir dataDir @ '':'' @ pair ! 1]\<rparr>)
      else Inr (st\<lparr>ce_env := ce_env st @ [str_Join pair ''='']\<rparr>))"

text \<open>The arguments and the environment of the command; the first argument is the program.\<close>

definition startContainerd :: "string \<Rightarrow> string list \<Rightarrow> (string list \<times> string list) outcome" where
  "startContainerd dataDir environ =
     try_then (fold_try (containerd_var dataDir) environ
         \<lparr>ce_args = containerd_base_args dataDir, ce_env = [], ce_cenv = []\<rparr>)
       (\<lambda>st. Inr (filepath_Join [binDir dataDir, ''containerd''] # ce_args st, ce_env st @ ce_cenv st))"

section \<open>Terminating running containers\<close>

definition component_pod :: "string \<Rightarrow> sandbox \<Rightarrow> bool" where
  "component_pod component sb \<longleftrightarrow> label (sb_Labels sb) ''component'' = component \<and> from_file sb"

text \<open>\<^verbatim>\<open>slices.DeleteFunc\<close> on the first \<open>n\<close> elements of a backing array: the freed tail is cleared.\<close>

definition slices_DeleteFunc :: "(string \<Rightarrow> bool) \<Rightarrow> string list \<times> nat \<Rightarrow> string list \<times> nat" where
  "slices_DeleteFunc del s =
     (case s of (arr, n) \<Rightarrow>
        let kept = filter (\<lambda>x. \<not> del x) (take n arr) in
        (kept @ replicate (n - length kept) '''' @ drop n arr, length kept))"

text \<open>
  \<^verbatim>\<open>for _, component := range terminatePods\<close>: the number of rounds is fixed when the loop starts, the element
  is read from the backing array in each round.
\<close>

fun terminate_each ::
  "'c cri \<Rightarrow> sandbox list \<Rightarrow> nat list \<Rightarrow> string list \<times> nat \<Rightarrow> 'c \<Rightarrow> (string list \<times> nat) \<times> 'c" where
  "terminate_each cr pods [] s c = (s, c)"
| "terminate_each cr pods (i # is) s c =
     (let component = fst s ! i;
          mine = filter (component_pod component) pods;
          c' = remove_sandboxes cr mine c;
          s' = (if mine = [] then slices_DeleteFunc (\<lambda>x. x = component) s else s)
      in terminate_each cr pods is s' c')"

definition system_filter :: "(string, string) gomap" where
  "system_filter = [(''io.kubernetes.pod.namespace'', ''kube-system'')]"

definition terminate_attempt ::
  "'c cri \<Rightarrow> string \<Rightarrow> string list \<times> nat \<Rightarrow> 'c \<Rightarrow> bool \<times> (string list \<times> nat) \<times> 'c" where
  "terminate_attempt cr endpoint s c =
     (case cri_Connection cr endpoint c of
        Inl e \<Rightarrow> (False, s, c)
      | Inr _ \<Rightarrow>
         (case ListPodSandbox cr system_filter c of
            Inl e \<Rightarrow> (False, s, c)
          | Inr pods \<Rightarrow>
             (case terminate_each cr pods [0..<snd s] s c of (s', c') \<Rightarrow> (snd s' = 0, s', c'))))"

text \<open>
  \<^verbatim>\<open>wait.PollUntilWithContext\<close>: an interval passes before each attempt; \<open>n\<close> attempts fit in the time, and
  \<open>tick\<close> is what happens to the runtime in an interval.
\<close>

fun terminate_poll ::
  "'c cri \<Rightarrow> string \<Rightarrow> ('c \<Rightarrow> 'c) \<Rightarrow> nat \<Rightarrow> string list \<times> nat \<Rightarrow> 'c \<Rightarrow> unit result \<times> 'c" where
  "terminate_poll cr endpoint tick 0 s c = (Inl (Errorf ''context deadline exceeded''), c)"
| "terminate_poll cr endpoint tick (Suc n) s c =
     (case terminate_attempt cr endpoint s (tick c) of
        (True, s', c') \<Rightarrow> (Inr (), c')
      | (False, s', c') \<Rightarrow> terminate_poll cr endpoint tick n s' c')"

definition terminateRunningContainers ::
  "'c cri \<Rightarrow> string \<Rightarrow> ('c \<Rightarrow> 'c) \<Rightarrow> nat \<Rightarrow> string list \<Rightarrow> 'c \<Rightarrow> unit result \<times> 'c" where
  "terminateRunningContainers cr endpoint tick n pods c = terminate_poll cr endpoint tick n (pods, length pods) c"

section \<open>Removing disabled pods\<close>

definition manifest_of :: "string \<Rightarrow> string \<Rightarrow> string" where
  "manifest_of manifestDir component = filepath_Join [manifestDir, component @ ''.yaml'']"

definition disabled_items :: "bool \<Rightarrow> (string, bool) gomap \<Rightarrow> (string, bool) gomap" where
  "disabled_items clusterReset given =
     (if clusterReset then gm_put ''kube-apiserver'' True (gm_put ''etcd'' True given) else given)"

text \<open>The components to terminate, in the iteration order of the map.\<close>

definition terminate_list :: "disk \<Rightarrow> string \<Rightarrow> (string, bool) gomap \<Rightarrow> string list \<Rightarrow> string list" where
  "terminate_list d manifestDir disabled order =
     filter (\<lambda>component. gm_index False disabled component \<and> \<not> isl (os_Stat d (manifest_of manifestDir component))) order"

fun remove_manifests :: "string \<Rightarrow> string list \<Rightarrow> disk \<Rightarrow> unit result \<times> disk" where
  "remove_manifests manifestDir [] d = (Inr (), d)"
| "remove_manifests manifestDir (component # cs) d =
     (case os_RemoveAll (manifest_of manifestDir component) d of
        (Inl e, d') \<Rightarrow> (Inl (WithMessage (''unable to delete '' @ component @ '' manifest'') e), d')
      | (Inr _, d') \<Rightarrow> remove_manifests manifestDir cs d')"

text \<open>
  The first event of the select: the poll ends, or, after some attempts of it, the temporary containerd
  exits or the five minutes are over. Containerd is only started for the default endpoint; for another
  endpoint only the poll sends on the channel.
\<close>

datatype cleanup_event = PollEnded nat | ContainerdExited nat "unit result" | TimedOut nat

definition await_cleanup ::
  "'c cri \<Rightarrow> string \<Rightarrow> ('c \<Rightarrow> 'c) \<Rightarrow> string list \<Rightarrow> cleanup_event \<Rightarrow> 'c \<Rightarrow> unit result \<times> 'c" where
  "await_cleanup cr endpoint tick pods ev c =
     (let poll = (\<lambda>n. terminateRunningContainers cr endpoint tick n pods c);
          unexpected = with_message ''temporary containerd process exited unexpectedly'' in
      case ev of
        PollEnded n \<Rightarrow> (unexpected (fst (poll n)), snd (poll n))
      | ContainerdExited k res \<Rightarrow>
          (unexpected (if endpoint = ContainerdSock then res else fst (poll k)), snd (poll k))
      | TimedOut k \<Rightarrow> (Inl (Errorf ''static pod cleanup timed out''), snd (poll k)))"

definition RemoveDisabledPods ::
  "'c cri \<Rightarrow> string \<Rightarrow> string \<Rightarrow> string \<Rightarrow> (string, bool) gomap \<Rightarrow> bool \<Rightarrow> string list \<Rightarrow> cleanup_event \<Rightarrow> ('c \<Rightarrow> 'c)
     \<Rightarrow> disk \<Rightarrow> 'c \<Rightarrow> unit result \<times> disk \<times> 'c" where
  "RemoveDisabledPods cr mp dataDir endpoint disabledItems clusterReset order ev tick d c =
     (let execPath = binDir dataDir; manifestDir = PodManifestsDir mp dataDir in
      if list_ex (\<lambda>path. case os_Stat d path of Inl e \<Rightarrow> os_IsNotExist e | Inr _ \<Rightarrow> False) [execPath, manifestDir]
      then (Inr (), d, c)
      else
        let disabled = disabled_items clusterReset disabledItems;
            terminatePods = terminate_list d manifestDir disabled order in
        if terminatePods = [] then (Inr (), d, c)
        else case remove_manifests manifestDir terminatePods d of
          (Inl e, d') \<Rightarrow> (Inl e, d', c)
        | (Inr _, d') \<Rightarrow>
            (case await_cleanup cr endpoint tick terminatePods ev c of (res, c') \<Rightarrow> (res, d', c')))"


section \<open>Deleting from the slice while ranging over it\<close>

definition view :: "string list \<times> nat \<Rightarrow> string list" where
  "view s = take (snd s) (fst s)"

definition slice_ok :: "string list \<times> nat \<Rightarrow> bool" where
  "slice_ok s \<longleftrightarrow> snd s \<le> length (fst s)"

lemma length_view [simp]: "slice_ok s \<Longrightarrow> length (view s) = snd s"
  by (simp add: slice_ok_def view_def)

lemma slices_DeleteFunc_props:
  assumes "slice_ok s"
  shows "view (slices_DeleteFunc del s) = filter (\<lambda>x. \<not> del x) (view s)"
    and "slice_ok (slices_DeleteFunc del s)"
    and "length (fst (slices_DeleteFunc del s)) = length (fst s)"
    and "set (fst (slices_DeleteFunc del s)) \<subseteq> insert '''' (set (fst s))"
proof -
  obtain arr n where s: "s = (arr, n)" by (cases s)
  let ?kept = "filter (\<lambda>x. \<not> del x) (take n arr)"
  have n: "n \<le> length arr" using assms s by (simp add: slice_ok_def)
  have k: "length ?kept \<le> n" using length_filter_le [of "\<lambda>x. \<not> del x" "take n arr"] n by simp
  show "view (slices_DeleteFunc del s) = filter (\<lambda>x. \<not> del x) (view s)"
    "slice_ok (slices_DeleteFunc del s)"
    "length (fst (slices_DeleteFunc del s)) = length (fst s)"
    using n k by (simp_all add: s slices_DeleteFunc_def Let_def slice_ok_def view_def)
  show "set (fst (slices_DeleteFunc del s)) \<subseteq> insert '''' (set (fst s))"
    by (auto simp: s slices_DeleteFunc_def Let_def dest: in_set_takeD in_set_dropD)
qed

section \<open>What terminating achieves\<close>

lemma remove_sandboxes_subset:
  assumes "cri_ok cr all"
  shows "set (all (remove_sandboxes cr sbs c)) \<subseteq> set (all c)"
proof (induction sbs arbitrary: c)
  case (Cons x sbs)
  have "set (all (snd (RemovePodSandbox cr (sb_Id x) c))) \<subseteq> set (all c)"
    using assms unfolding cri_ok_def by (metis filter_is_subset order_refl)
  with Cons [of "snd (RemovePodSandbox cr (sb_Id x) c)"] show ?case by (auto simp: remove_sandboxes_def)
qed (simp add: remove_sandboxes_def)

text \<open>A pass over the list: a component leaves the slice only when the listing has no pod of it.\<close>

lemma terminate_each_props:
  assumes "cri_ok cr all" and "terminate_each cr pods is s c = (s', c')" and "slice_ok s"
  shows "slice_ok s' \<and> set (all c') \<subseteq> set (all c) \<and> set (view s') \<subseteq> set (view s) \<and>
         length (view s') \<le> length (view s) \<and>
         (\<forall>x \<in> set (view s). x \<in> set (view s') \<or> (\<forall>sb \<in> set pods. \<not> component_pod x sb))"
  using assms(2,3)
proof (induction "is" arbitrary: s c)
  case (Cons i "is")
  let ?comp = "fst s ! i" and ?mine = "filter (component_pod (fst s ! i)) pods"
  let ?s = "if ?mine = [] then slices_DeleteFunc (\<lambda>x. x = ?comp) s else s"
  let ?c = "remove_sandboxes cr ?mine c"
  note del = slices_DeleteFunc_props [OF Cons.prems(2), of "\<lambda>x. x = ?comp"]
  have ok: "slice_ok ?s" using del(2) Cons.prems(2) by simp
  have step: "terminate_each cr pods is ?s ?c = (s', c')" using Cons.prems(1) by (simp add: Let_def)
  have 1: "set (view ?s) \<subseteq> set (view s)"
    "\<forall>x \<in> set (view s). x \<in> set (view ?s) \<or> (\<forall>sb \<in> set pods. \<not> component_pod x sb)"
    using del(1) by (auto simp: filter_empty_conv)
  have 2: "length (view ?s) \<le> length (view s)" unfolding if_distrib [of view] del(1) by simp
  note IH = Cons.IH [OF step ok]
  have "length (view s') \<le> length (view s)" using IH 2 by linarith
  then show ?case using IH 1 remove_sandboxes_subset [OF assms(1), of ?mine c] by blast
qed simp

text \<open>A static pod of a component in the system namespace.\<close>

definition present :: "('c \<Rightarrow> sandbox list) \<Rightarrow> 'c \<Rightarrow> string \<Rightarrow> bool" where
  "present all c x \<longleftrightarrow> (\<exists>sb \<in> set (all c). matches system_filter sb \<and> component_pod x sb)"

lemma present_mono: "present all c' x \<Longrightarrow> set (all c') \<subseteq> set (all c) \<Longrightarrow> present all c x"
  by (auto simp: present_def)

lemma listed:
  assumes "cri_ok cr all" and "ListPodSandbox cr f c = Inr pods"
  shows "set pods = {sb \<in> set (all c). matches f sb}"
  using assms by (simp add: cri_ok_def matches_def)

lemma attempt_props:
  assumes "cri_ok cr all" and "terminate_attempt cr endpoint s c = (b, s', c')" and "slice_ok s"
  shows "slice_ok s' \<and> set (all c') \<subseteq> set (all c) \<and> set (view s') \<subseteq> set (view s) \<and>
         (\<forall>x \<in> set (view s). x \<in> set (view s') \<or> \<not> present all c x) \<and> (b \<longrightarrow> view s' = [])"
proof (cases "\<exists>pods. terminate_each cr pods [0..<snd s] s c = (s', c') \<and> ListPodSandbox cr system_filter c = Inr pods \<and>
    b = (snd s' = 0)")
  case True
  then obtain pods where p: "terminate_each cr pods [0..<snd s] s c = (s', c')"
    "ListPodSandbox cr system_filter c = Inr pods" "b = (snd s' = 0)" by blast
  from terminate_each_props [OF assms(1) p(1) assms(3)] p(3) show ?thesis
    by (auto simp: present_def listed [OF assms(1) p(2)] view_def)
next
  case False
  with assms(2) have "b = False \<and> s' = s \<and> c' = c"
    by (auto simp: terminate_attempt_def split: sum.splits prod.splits)
  with assms(3) show ?thesis by auto
qed

lemma poll_done:
  assumes "cri_ok cr all" and "\<And>c. set (all (tick c)) \<subseteq> set (all c)"
    and "terminate_poll cr endpoint tick n s c = (Inr (), c')" and "slice_ok s"
  shows "set (all c') \<subseteq> set (all c) \<and> (\<forall>x \<in> set (view s). \<not> present all c' x)"
  using assms(3,4)
proof (induction n arbitrary: s c)
  case (Suc n)
  obtain b s1 c1 where a: "terminate_attempt cr endpoint s (tick c) = (b, s1, c1)" by (metis prod_cases3)
  note p = attempt_props [OF assms(1) a Suc.prems(2)]
  have sub: "set (all c1) \<subseteq> set (all c)" using p assms(2) by blast
  show ?case
  proof (cases b)
    case True
    with Suc.prems(1) a have "c' = c1" by simp
    with True p sub show ?thesis using present_mono [of all c1 _ "tick c"] by force
  next
    case False
    with Suc.prems(1) a have r: "terminate_poll cr endpoint tick n s1 c1 = (Inr (), c')" by simp
    have "set (all c') \<subseteq> set (all c1)" "\<forall>x \<in> set (view s1). \<not> present all c' x"
      using Suc.IH [OF r] p by blast+
    then show ?thesis using p sub present_mono [of all c' _ "tick c"] by blast
  qed
qed simp


section \<open>Termination within a bounded number of attempts\<close>

text \<open>A runtime that answers and carries out what it is asked.\<close>

definition cri_live :: "'c cri \<Rightarrow> ('c \<Rightarrow> sandbox list) \<Rightarrow> bool" where
  "cri_live cr all \<longleftrightarrow> cri_ok cr all \<and>
     (\<forall>e c. cri_Connection cr e c = Inr ()) \<and> (\<forall>f c. \<not> isl (ListPodSandbox cr f c)) \<and>
     (\<forall>i c. all (snd (RemovePodSandbox cr i c)) = filter (\<lambda>sb. sb_Id sb \<noteq> i) (all c))"

lemma live_removes:
  assumes "cri_live cr all"
  shows "all (remove_sandboxes cr sbs c) = filter (\<lambda>sb. sb_Id sb \<notin> sb_Id ` set sbs) (all c)"
proof (induction sbs arbitrary: c)
  case (Cons x sbs)
  have "remove_sandboxes cr (x # sbs) c = remove_sandboxes cr sbs (snd (RemovePodSandbox cr (sb_Id x) c))"
    by (simp add: remove_sandboxes_def)
  then show ?case using assms Cons by (auto simp: cri_live_def intro: filter_cong)
qed (simp add: remove_sandboxes_def)

definition todo :: "('c \<Rightarrow> sandbox list) \<Rightarrow> string list \<times> nat \<Rightarrow> 'c \<Rightarrow> nat" where
  "todo all s c = length (view s) + card {x \<in> set (view s). present all c x}"

lemma todo_bound: "slice_ok s \<Longrightarrow> todo all s c \<le> 2 * snd s"
proof -
  assume ok: "slice_ok s"
  have "card {x \<in> set (view s). present all c x} \<le> card (set (view s))" by (rule card_mono) auto
  also have "\<dots> \<le> length (view s)" by (rule card_length)
  finally show ?thesis using ok by (simp add: todo_def)
qed

lemma todo_mono:
  assumes "set (view s') \<subseteq> set (view s)" "length (view s') \<le> length (view s)" "set (all c') \<subseteq> set (all c)"
  shows "todo all s' c' \<le> todo all s c"
proof -
  have "card {x \<in> set (view s'). present all c' x} \<le> card {x \<in> set (view s). present all c x}"
    using assms by (intro card_mono) (auto dest: present_mono [of all c' _ c])
  with assms(2) show ?thesis by (simp add: todo_def)
qed

text \<open>The first component of the slice is always looked at: it leaves the slice, or its pods are removed.\<close>

lemma first_round:
  assumes "cri_live cr all" and "slice_ok s" and "view s \<noteq> []" and "x = hd (view s)"
    and "ListPodSandbox cr system_filter c = Inr pods"
    and s1: "s1 = (if filter (component_pod x) pods = [] then slices_DeleteFunc (\<lambda>y. y = x) s else s)"
    and c1: "c1 = remove_sandboxes cr (filter (component_pod x) pods) c"
  shows "todo all s1 c1 < todo all s c"
proof -
  have ok: "cri_ok cr all" using assms(1) by (simp add: cri_live_def)
  have x: "x \<in> set (view s)" using assms(3,4) by simp
  note pods = listed [OF ok assms(5)]
  show ?thesis
  proof (cases "filter (component_pod x) pods = []")
    case True
    then have v: "view s1 = filter (\<lambda>y. y \<noteq> x) (view s)" and c: "c1 = c"
      using slices_DeleteFunc_props(1) [OF assms(2)] s1 c1 by (simp_all add: remove_sandboxes_def)
    have "length (view s1) < length (view s)" unfolding v using x by (simp add: length_filter_less)
    moreover have "card {y \<in> set (view s1). present all c1 y} \<le> card {y \<in> set (view s). present all c y}"
      using v c by (intro card_mono) auto
    ultimately show ?thesis by (simp add: todo_def)
  next
    case False
    then have s: "s1 = s" using s1 by auto
    have sub: "set (all c1) \<subseteq> set (all c)" unfolding c1 by (rule remove_sandboxes_subset [OF ok])
    have px: "present all c x" using False pods by (auto simp: present_def filter_empty_conv)
    have "\<not> present all c1 x" unfolding present_def c1 live_removes [OF assms(1)] using pods by auto
    then have "{y \<in> set (view s). present all c1 y} \<subset> {y \<in> set (view s). present all c y}"
      using x px present_mono [of all c1 _ c, OF _ sub] by auto
    then have "card {y \<in> set (view s). present all c1 y} < card {y \<in> set (view s). present all c y}"
      by (intro psubset_card_mono) auto
    then show ?thesis by (simp add: todo_def s)
  qed
qed

lemma attempt_progress:
  assumes "cri_live cr all" and "slice_ok s" and "view s \<noteq> []"
    and "terminate_attempt cr endpoint s c = (b, s', c')"
  shows "slice_ok s' \<and> todo all s' c' < todo all s c \<and> (b \<longleftrightarrow> view s' = [])"
proof -
  have ok: "cri_ok cr all" using assms(1) by (simp add: cri_live_def)
  obtain pods where pods: "ListPodSandbox cr system_filter c = Inr pods"
    using assms(1) by (cases "ListPodSandbox cr system_filter c") (auto simp: cri_live_def isl_def)
  have each: "terminate_each cr pods [0..<snd s] s c = (s', c')" and b: "b = (snd s' = 0)"
    using assms(1,4) pods by (auto simp: terminate_attempt_def cri_live_def split: prod.splits)
  have pos: "0 < snd s" "fst s ! 0 = hd (view s)"
    using assms(2,3) by (auto simp: view_def slice_ok_def hd_conv_nth)
  define s1 where "s1 = (if filter (component_pod (hd (view s))) pods = [] then slices_DeleteFunc (\<lambda>y. y = hd (view s)) s else s)"
  define c1 where "c1 = remove_sandboxes cr (filter (component_pod (hd (view s))) pods) c"
  have rest: "terminate_each cr pods [1..<snd s] s1 c1 = (s', c')"
    using each pos by (simp add: upt_conv_Cons Let_def s1_def c1_def del: upt_Suc cong: if_cong)
  have ok1: "slice_ok s1" using assms(2) slices_DeleteFunc_props(2) [OF assms(2)] by (simp add: s1_def)
  note r = terminate_each_props [OF ok rest ok1]
  have "todo all s' c' \<le> todo all s1 c1" using r by (intro todo_mono) blast+
  also have "\<dots> < todo all s c" by (rule first_round [OF assms(1-3) refl pods s1_def c1_def])
  finally show ?thesis using r b by (auto simp: view_def slice_ok_def)
qed


lemma poll_live:
  assumes "cri_live cr all" and "\<And>c. set (all (tick c)) \<subseteq> set (all c)"
    and "slice_ok s" and "view s \<noteq> []" and "todo all s c \<le> n"
  shows "fst (terminate_poll cr endpoint tick n s c) = Inr ()"
  using assms(3-5)
proof (induction n arbitrary: s c)
  case 0
  then show ?case by (auto simp: todo_def simp del: length_view)
next
  case (Suc n)
  obtain b s1 c1 where a: "terminate_attempt cr endpoint s (tick c) = (b, s1, c1)" by (metis prod_cases3)
  note p = attempt_progress [OF assms(1) Suc.prems(1,2) a]
  have "todo all s (tick c) \<le> todo all s c" by (rule todo_mono) (use assms(2) in auto)
  then show ?case using p Suc.prems(3) Suc.IH [of s1 c1] a by (cases b) auto
qed

text \<open>
  C29: cleanup ends. If the runtime answers and removes what it is asked to remove and no new sandbox appears,
  polling for a non-empty list of components succeeds within two attempts per component, although the loop
  skips elements of the slice it is deleting from.
\<close>

theorem terminate_live:
  assumes "cri_live cr all" and "\<And>c. set (all (tick c)) \<subseteq> set (all c)"
    and "pods \<noteq> []" and "2 * length pods \<le> n"
  shows "fst (terminateRunningContainers cr endpoint tick n pods c) = Inr ()"
proof -
  have ok: "slice_ok (pods, length pods)" by (simp add: slice_ok_def)
  have "todo all (pods, length pods) c \<le> n" using todo_bound [OF ok, of all c] assms(4) by simp
  then show ?thesis
    unfolding terminateRunningContainers_def
    by (intro poll_live [OF assms(1,2) ok]) (auto simp: view_def assms(3))
qed

lemma list_cri_live: "cri_live list_cri id"
  using list_cri_ok by (simp add: cri_live_def list_cri_def)

theorem terminate_live_witness:
  "fst (terminateRunningContainers list_cri ''s'' id 4 [''etcd'', ''kube-apiserver''] [etcd_sandbox ''s1'' ''u1'']) = Inr ()"
  using terminate_live [OF list_cri_live, of id "[''etcd'', ''kube-apiserver'']" 4] by simp

section \<open>What is removed\<close>

lemma remove_sandboxes_filter:
  assumes "cri_ok cr all"
  shows "\<exists>P. all (remove_sandboxes cr sbs c) = filter P (all c)"
proof (induction sbs arbitrary: c)
  case Nil
  have "all (remove_sandboxes cr [] c) = filter (\<lambda>_. True) (all c)" by (simp add: remove_sandboxes_def)
  then show ?case by blast
next
  case (Cons x sbs)
  let ?c = "snd (RemovePodSandbox cr (sb_Id x) c)"
  obtain P where "all (remove_sandboxes cr sbs ?c) = filter P (all ?c)" using Cons by blast
  moreover have "\<exists>Q. all ?c = filter Q (all c)"
    using assms unfolding cri_ok_def by (metis filter_True)
  ultimately show ?case by (auto simp: remove_sandboxes_def)
qed

lemma terminate_each_scope:
  assumes "cri_ok cr all" and "terminate_each cr pods is s c = (s', c')" and "slice_ok s"
    and "\<forall>i \<in> set is. i < length (fst s)" and "set pods \<subseteq> A" and "inj_on sb_Id (A \<union> set (all c))"
    and "insert '''' (set (fst s)) \<subseteq> X"
  shows "set (fst s') \<subseteq> X \<and>
         (\<forall>sb \<in> set (all c). sb \<notin> set (all c') \<longrightarrow> sb \<in> set pods \<and> (\<exists>x \<in> X. component_pod x sb))"
  using assms(2-4,6,7)
proof (induction "is" arbitrary: s c)
  case (Cons i "is")
  let ?comp = "fst s ! i" and ?mine = "filter (component_pod (fst s ! i)) pods"
  let ?s = "if ?mine = [] then slices_DeleteFunc (\<lambda>x. x = ?comp) s else s"
  let ?c = "remove_sandboxes cr ?mine c"
  note del = slices_DeleteFunc_props [OF Cons.prems(2), of "\<lambda>x. x = ?comp"]
  have step: "terminate_each cr pods is ?s ?c = (s', c')" using Cons.prems(1) by (simp add: Let_def)
  have x: "?comp \<in> X" using Cons.prems(3,5) by auto
  have sub: "set (all ?c) \<subseteq> set (all c)" by (rule remove_sandboxes_subset [OF assms(1)])
  have arr: "insert '''' (set (fst ?s)) \<subseteq> X" using del(4) Cons.prems(5) by auto
  have inj: "inj_on sb_Id (A \<union> set (all ?c))" using Cons.prems(4) sub by (rule_tac inj_on_subset) auto
  have gone: "sb \<in> set ?mine" if sb: "sb \<in> set (all c)" "sb \<notin> set (all ?c)" for sb
  proof -
    have "sb_Id sb \<in> sb_Id ` set ?mine"
      using remove_sandboxes_all [OF assms(1) sb(1), of ?mine] sb(2) by blast
    then obtain sb' where sb': "sb' \<in> set ?mine" "sb_Id sb = sb_Id sb'" by blast
    then have "sb' \<in> A" using assms(5) by auto
    then have "sb = sb'" using inj_onD [OF Cons.prems(4) sb'(2)] sb(1) by blast
    with sb'(1) show ?thesis by simp
  qed
  have lens: "slice_ok ?s" "\<forall>i \<in> set is. i < length (fst ?s)" using del(2,3) Cons.prems(2,3) by auto
  have IH: "set (fst s') \<subseteq> X \<and> (\<forall>sb \<in> set (all ?c). sb \<notin> set (all c') \<longrightarrow> sb \<in> set pods \<and> (\<exists>x \<in> X. component_pod x sb))"
    by (rule Cons.IH [OF step lens(1) lens(2) inj arr])
  show ?case
  proof (intro conjI ballI impI)
    show "set (fst s') \<subseteq> X" using IH by blast
    fix sb assume sb: "sb \<in> set (all c)" "sb \<notin> set (all c')"
    show "sb \<in> set pods" "\<exists>x \<in> X. component_pod x sb"
      using IH gone [OF sb(1)] sb(2) x by auto
  qed
qed auto


lemma poll_scope:
  assumes "cri_ok cr all" and "\<And>c. all (tick c) = all c"
    and "slice_ok s" and "inj_on sb_Id (set (all c))" and "insert '''' (set (fst s)) \<subseteq> X"
    and "sb \<in> set (all c)" and "sb \<notin> set (all (snd (terminate_poll cr endpoint tick n s c)))"
  shows "matches system_filter sb \<and> (\<exists>x \<in> X. component_pod x sb)"
  using assms(3-7)
proof (induction n arbitrary: s c)
  case (Suc n)
  obtain b s1 c1 where a: "terminate_attempt cr endpoint s (tick c) = (b, s1, c1)" by (metis prod_cases3)
  note p = attempt_props [OF assms(1) a Suc.prems(1)]
  have sub: "set (all c1) \<subseteq> set (all c)" using p assms(2) by auto
  have scope: "set (fst s1) \<subseteq> X \<and>
      (\<forall>sb \<in> set (all c). sb \<notin> set (all c1) \<longrightarrow> matches system_filter sb \<and> (\<exists>x \<in> X. component_pod x sb))"
  proof (cases "\<exists>pods. ListPodSandbox cr system_filter (tick c) = Inr pods \<and>
      terminate_each cr pods [0..<snd s] s (tick c) = (s1, c1)")
    case True
    then obtain pods where l: "ListPodSandbox cr system_filter (tick c) = Inr pods"
      and e: "terminate_each cr pods [0..<snd s] s (tick c) = (s1, c1)" by blast
    have pods: "set pods = {sb \<in> set (all c). matches system_filter sb}"
      using listed [OF assms(1) l] assms(2) by simp
    have i: "\<forall>i \<in> set [0..<snd s]. i < length (fst s)" using Suc.prems(1) by (auto simp: slice_ok_def)
    have inj: "inj_on sb_Id (set pods \<union> set (all (tick c)))"
      using Suc.prems(2) assms(2) pods by (rule_tac inj_on_subset) auto
    show ?thesis
      using terminate_each_scope [OF assms(1) e Suc.prems(1) i order_refl inj Suc.prems(3)] pods assms(2) by auto
  next
    case False
    with a have "s1 = s" "c1 = tick c" by (auto simp: terminate_attempt_def split: sum.splits prod.splits)
    with Suc.prems(3) assms(2) show ?thesis by auto
  qed
  show ?case
  proof (cases "sb \<in> set (all c1)")
    case True
    then have "\<not> b" using Suc.prems(5) a by (auto split: bool.splits)
    then have "sb \<notin> set (all (snd (terminate_poll cr endpoint tick n s1 c1)))" using Suc.prems(5) a by simp
    moreover have "inj_on sb_Id (set (all c1))" using Suc.prems(2) sub by (rule inj_on_subset)
    ultimately show ?thesis using Suc.IH [of s1 c1] p scope Suc.prems(3) True by blast
  next
    case False
    then show ?thesis using scope Suc.prems(4) by blast
  qed
qed simp

text \<open>
  What cleanup may remove. When nothing else acts on the runtime, a sandbox that disappears while the
  listed components are terminated is a file-sourced pod of the kube-system namespace, and its component
  label is one of the list or it has none.
\<close>

theorem terminate_scope:
  assumes "cri_ok cr all" and "\<And>c. all (tick c) = all c" and "distinct (map sb_Id (all c))"
    and "sb \<in> set (all c)" and "sb \<notin> set (all (snd (terminateRunningContainers cr endpoint tick n pods c)))"
  shows "label (sb_Labels sb) ''io.kubernetes.pod.namespace'' = ''kube-system'' \<and> from_file sb \<and>
         (label (sb_Labels sb) ''component'' \<in> set pods \<or> label (sb_Labels sb) ''component'' = '''')"
proof -
  have "inj_on sb_Id (set (all c))" using assms(3) by (simp add: distinct_map)
  moreover have "slice_ok (pods, length pods)" by (simp add: slice_ok_def)
  ultimately have "matches system_filter sb \<and> (\<exists>x \<in> insert '''' (set pods). component_pod x sb)"
    using poll_scope [OF assms(1,2), of "(pods, length pods)" c _ sb endpoint n] assms(4,5)
    by (auto simp: terminateRunningContainers_def)
  then show ?thesis by (auto simp: matches_def system_filter_def component_pod_def)
qed

theorem terminate_scope_witness:
  "label (sb_Labels (etcd_sandbox ''s1'' ''u1'')) ''component'' \<in> set [''etcd''] \<and> from_file (etcd_sandbox ''s1'' ''u1'')"
proof -
  let ?c = "[etcd_sandbox ''s1'' ''u1'']"
  have 1: "distinct (map sb_Id (id ?c))" by code_simp
  have 2: "etcd_sandbox ''s1'' ''u1'' \<in> set (id ?c)" by simp
  have 3: "etcd_sandbox ''s1'' ''u1'' \<notin> set (id (snd (terminateRunningContainers list_cri ''s'' id 2 [''etcd''] ?c)))"
    by code_simp
  have 4: "label (sb_Labels (etcd_sandbox ''s1'' ''u1'')) ''component'' \<noteq> ''''" by code_simp
  show ?thesis using terminate_scope [OF list_cri_ok _ 1 2 3] 4 by simp
qed

text \<open>
  Terminating two components removes an unrelated pod when the first of them has no pods. After the first
  component is deleted from the slice the freed last place is empty, and the loop then reads that place as
  the second component: a file-sourced kube-system sandbox without a component label is removed.
\<close>

theorem unlabelled_pod_removed:
  assumes "a \<noteq> b" and "\<forall>sb \<in> set sbs. label (sb_Labels sb) ''component'' \<noteq> a"
    and "sb \<in> set sbs" and "from_file sb" and "label (sb_Labels sb) ''io.kubernetes.pod.namespace'' = ''kube-system''"
    and "label (sb_Labels sb) ''component'' = ''''"
  shows "sb \<notin> set (snd (snd (terminate_attempt list_cri endpoint ([a, b], 2) sbs)))"
proof -
  let ?pods = "filter (\<lambda>sb. label (sb_Labels sb) ''io.kubernetes.pod.namespace'' = ''kube-system'') sbs"
  have none: "filter (component_pod a) ?pods = []" using assms(2) by (simp add: component_pod_def filter_empty_conv)
  have first: "slices_DeleteFunc (\<lambda>x. x = a) ([a, b], 2) = ([b, ''''], 1)"
    using assms(1) by (simp add: slices_DeleteFunc_def)
  have sb: "sb \<in> set (filter (component_pod '''') ?pods)" using assms(3-6) by (simp add: component_pod_def)
  then have second: "sb \<notin> set (remove_sandboxes list_cri (filter (component_pod '''') ?pods) sbs)"
    using live_removes [OF list_cri_live, of "filter (component_pod '''') ?pods" sbs] by auto
  have "snd (terminate_each list_cri ?pods [0, 1] ([a, b], 2) sbs) =
      remove_sandboxes list_cri (filter (component_pod '''') ?pods) sbs"
    by (simp add: none [simplified] first Let_def remove_sandboxes_def)
  moreover have "snd (snd (terminate_attempt list_cri endpoint ([a, b], 2) sbs)) =
      snd (terminate_each list_cri ?pods [0, 1] ([a, b], 2) sbs)"
    by (simp add: terminate_attempt_def list_cri_def system_filter_def upt_conv_Cons numeral_2_eq_2 split: prod.splits)
  ultimately show ?thesis using second by simp
qed

definition mirror_sandbox :: sandbox where
  "mirror_sandbox = \<lparr>sb_Id = ''m'', sb_Name = ''mine'',
     sb_Labels = [(''io.kubernetes.pod.namespace'', ''kube-system'')],
     sb_Annotations = [(''kubernetes.io/config.source'', ''file'')]\<rparr>"

theorem unlabelled_pod_removed_witness:
  "mirror_sandbox \<notin> set (snd (snd (terminate_attempt list_cri ''s'' ([''etcd'', ''kube-apiserver''], 2) [mirror_sandbox])))"
  by (rule unlabelled_pod_removed) code_simp+

section \<open>Removing disabled pods\<close>

lemma remove_manifests_done:
  assumes "remove_manifests dir cs d = (Inr (), d')"
  shows "touches (\<lambda>q. \<exists>x \<in> set cs. under (manifest_of dir x) q) d d' \<and>
         (\<forall>q. (\<exists>x \<in> set cs. under (manifest_of dir x) q) \<longrightarrow> gm_get (tree d') q = None)"
  using assms
proof (induction cs arbitrary: d)
  case (Cons x cs)
  let ?A = "\<lambda>cs q. \<exists>x \<in> set cs. under (manifest_of dir x) q"
  obtain d1 where r: "os_RemoveAll (manifest_of dir x) d = (Inr (), d1)" "remove_manifests dir cs d1 = (Inr (), d')"
    using Cons.prems by (auto split: prod.splits sum.splits)
  note IH = Cons.IH [OF r(2)]
  have "touches (?A (x # cs)) d d1" by (rule os_RemoveAll_touches [OF r(1)]) auto
  moreover have "touches (?A (x # cs)) d1 d'" using IH by (auto intro: touches_mono)
  ultimately have "touches (?A (x # cs)) d d'" by (rule touches_trans)
  moreover have "gm_get (tree d') q = None" if q: "?A (x # cs) q" for q
  proof (cases "?A cs q")
    case False
    with q have "gm_get (tree d1) q = None" using os_RemoveAll_get [OF r(1)] by simp
    then show ?thesis using touches_get [OF IH [THEN conjunct1] False] by simp
  qed (use IH in blast)
  ultimately show ?case by blast
qed simp


text \<open>
  A cluster reset does not force termination. When none of the disabled components has a manifest on
  disk, nothing is removed and no pod is terminated, with or without cluster reset.
\<close>

theorem cluster_reset_needs_manifest:
  assumes "\<forall>x \<in> set order. isl (os_Stat d (manifest_of (PodManifestsDir mp dataDir) x))"
  shows "RemoveDisabledPods cr mp dataDir endpoint disabled True order ev tick d c = (Inr (), d, c)"
proof -
  have "terminate_list d (PodManifestsDir mp dataDir) m order = []" for m
    using assms by (simp add: terminate_list_def filter_empty_conv)
  then show ?thesis by (simp add: RemoveDisabledPods_def Let_def)
qed

definition cleanup_disk :: disk where
  "cleanup_disk = empty_disk\<lparr>tree := [(''/a/bin'', new_inode Directory 493), (''/a/agent/p'', new_inode Directory 448),
     (''/a/agent/p/etcd.yaml'', new_inode (Regular ''x'') 420)]\<rparr>"

theorem cluster_reset_needs_manifest_witness:
  "RemoveDisabledPods list_cri ''p'' ''/a'' ''s'' [] True [''kube-apiserver''] (PollEnded 3) id cleanup_disk
     [(etcd_sandbox ''s1'' ''u1'')\<lparr>sb_Labels := [(''component'', ''kube-apiserver'')]\<rparr>] =
   (Inr (), cleanup_disk, [(etcd_sandbox ''s1'' ''u1'')\<lparr>sb_Labels := [(''component'', ''kube-apiserver'')]\<rparr>])"
  by (rule cluster_reset_needs_manifest) code_simp



section \<open>The environment of the temporary containerd\<close>

definition env_key :: "string \<Rightarrow> string" where
  "env_key e = fst (str_Cut (CHR ''='') e)"

definition env_value :: "string \<Rightarrow> string" where
  "env_value e = fst (snd (str_Cut (CHR ''='') e))"

lemma env_pair:
  assumes "CHR ''='' \<in> set e"
  shows "str_SplitN2 (CHR ''='') e = [env_key e, env_value e]" and "e = env_key e @ ''='' @ env_value e"
proof -
  obtain a b where e: "e = a @ CHR ''='' # b" "CHR ''='' \<notin> set a" using split_list_first [OF assms] by blast
  then show "str_SplitN2 (CHR ''='') e = [env_key e, env_value e]" "e = env_key e @ ''='' @ env_value e"
    by (simp_all add: env_key_def env_value_def)
qed

abbreviation containerd_key :: "string \<Rightarrow> bool" where
  "containerd_key e \<equiv> str_HasPrefix (env_key e) ''CONTAINERD_''"

definition env_out :: "string \<Rightarrow> string list \<Rightarrow> string list" where
  "env_out dataDir environ =
     map (\<lambda>e. if env_key e = ''PATH'' then ''PATH='' @ binDir dataDir @ '':'' @ env_value e else e)
       (filter (\<lambda>e. env_key e \<noteq> ''NOTIFY_SOCKET'' \<and> \<not> containerd_key e) environ)"

definition cenv_out :: "string list \<Rightarrow> string list" where
  "cenv_out environ =
     map (drop (length ''CONTAINERD_'')) (filter (\<lambda>e. containerd_key e \<and> env_key e \<noteq> ''CONTAINERD_LOG_LEVEL'') environ)"

lemma containerd_vars:
  assumes "\<forall>e \<in> set environ. CHR ''='' \<in> set e"
  shows "\<exists>args. fold_try (containerd_var dataDir) environ st =
    Inr \<lparr>ce_args = ce_args st @ args, ce_env = ce_env st @ env_out dataDir environ, ce_cenv = ce_cenv st @ cenv_out environ\<rparr>"
  using assms
proof (induction environ arbitrary: st)
  case (Cons e es)
  note pair = env_pair [of e]
  have strip: "str_TrimPrefix (env_key e) ''CONTAINERD_'' @ CHR ''='' # env_value e = drop (length ''CONTAINERD_'') e"
    if c: "containerd_key e"
  proof -
    from c obtain k where k: "env_key e = ''CONTAINERD_'' @ k" unfolding str_HasPrefix_iff by blast
    have e: "e = env_key e @ ''='' @ env_value e" using pair(2) Cons.prems by simp
    show ?thesis by (subst (3) e) (simp add: k str_TrimPrefix_append [of "''CONTAINERD_''" k, simplified])
  qed
  have e: "env_key e @ CHR ''='' # env_value e = e" using pair(2) Cons.prems by simp
  let ?args = "if env_key e = ''CONTAINERD_LOG_LEVEL'' then [''--log-level'', env_value e] else []"
  let ?st = "\<lparr>ce_args = ce_args st @ ?args, ce_env = ce_env st @ env_out dataDir [e], ce_cenv = ce_cenv st @ cenv_out [e]\<rparr>"
  have p: "str_SplitN2 (CHR ''='') e = [env_key e, env_value e]" using pair(1) Cons.prems by simp
  have step: "containerd_var dataDir e st = Inr ?st"
    unfolding containerd_var_def p Let_def env_out_def cenv_out_def
    by (auto simp: strip e) (auto simp: str_HasPrefix_def)
  obtain args where "fold_try (containerd_var dataDir) es ?st =
    Inr \<lparr>ce_args = ce_args ?st @ args, ce_env = ce_env ?st @ env_out dataDir es, ce_cenv = ce_cenv ?st @ cenv_out es\<rparr>"
    using Cons.IH [of ?st] Cons.prems by (meson list.set_intros(2))
  moreover have "env_out dataDir (e # es) = env_out dataDir [e] @ env_out dataDir es"
    "cenv_out (e # es) = cenv_out [e] @ cenv_out es"
    by (simp_all add: env_out_def cenv_out_def)
  ultimately show ?case by (intro exI [of _ "?args @ args"]) (simp add: step del: append_assoc)
qed (auto simp: env_out_def cenv_out_def intro!: exI [of _ "[]"])

text \<open>
  The environment of the temporary containerd. When every variable has the form key=value, the process
  gets, in this order, all variables except the notification socket and the CONTAINERD_ ones, with the node's
  bin directory put in front of PATH, and then the CONTAINERD_ variables, except the log level, without their
  prefix.
\<close>

theorem containerd_environment:
  assumes "\<forall>e \<in> set environ. CHR ''='' \<in> set e"
  shows "\<exists>args. startContainerd dataDir environ = Inr (args,
     map (\<lambda>e. if env_key e = ''PATH'' then ''PATH='' @ binDir dataDir @ '':'' @ env_value e else e)
       (filter (\<lambda>e. env_key e \<noteq> ''NOTIFY_SOCKET'' \<and> \<not> str_HasPrefix (env_key e) ''CONTAINERD_'') environ) @
     map (drop (length ''CONTAINERD_''))
       (filter (\<lambda>e. str_HasPrefix (env_key e) ''CONTAINERD_'' \<and> env_key e \<noteq> ''CONTAINERD_LOG_LEVEL'') environ))"
  using containerd_vars [OF assms, of dataDir "\<lparr>ce_args = containerd_base_args dataDir, ce_env = [], ce_cenv = []\<rparr>"]
  by (auto simp: startContainerd_def env_out_def cenv_out_def)

theorem containerd_environment_witness:
  "\<exists>args. startContainerd ''/a'' [''PATH=/bin'', ''NOTIFY_SOCKET=s'', ''CONTAINERD_p=q''] =
     Inr (args, [''PATH=/a/bin:/bin'', ''p=q''])"
proof -
  let ?e = "[''PATH=/bin'', ''NOTIFY_SOCKET=s'', ''CONTAINERD_p=q'']"
  have 1: "\<forall>e \<in> set ?e. CHR ''='' \<in> set e" by simp
  have 2: "map (\<lambda>e. if env_key e = ''PATH'' then ''PATH='' @ binDir ''/a'' @ '':'' @ env_value e else e)
       (filter (\<lambda>e. env_key e \<noteq> ''NOTIFY_SOCKET'' \<and> \<not> str_HasPrefix (env_key e) ''CONTAINERD_'') ?e) = [''PATH=/a/bin:/bin'']"
    by code_simp
  have 3: "map (drop (length ''CONTAINERD_''))
       (filter (\<lambda>e. str_HasPrefix (env_key e) ''CONTAINERD_'' \<and> env_key e \<noteq> ''CONTAINERD_LOG_LEVEL'') ?e) = [''p=q'']"
    by code_simp
  show ?thesis using containerd_environment [OF 1, of "''/a''"] unfolding 2 3 by simp
qed

end
