(* ===== verification/Cli_Context.thy ===== *)
theory Cli_Context
  imports Go_Base
begin

text \<open>
  The command line as the sources see it through urfave/cli: reading flags and setting them, over a context
  of an arbitrary type. What is relied on is that setting a flag does not touch other flags, that setting
  the slice flag \<^verbatim>\<open>disable\<close>, which has no default, appends a value, and that setting one of the string and
  boolean flags the sources set gives it that value.
\<close>

record 'x cli_pkg =
  cli_Bool :: "'x \<Rightarrow> string \<Rightarrow> bool"
  cli_String :: "'x \<Rightarrow> string \<Rightarrow> string"
  cli_StringSlice :: "'x \<Rightarrow> string \<Rightarrow> string list"
  cli_IsSet :: "'x \<Rightarrow> string \<Rightarrow> bool"
  cli_Set :: "string \<Rightarrow> string \<Rightarrow> 'x \<Rightarrow> unit result \<times> 'x"

text \<open>\<^verbatim>\<open>clx.Set(f, v)\<close> with the error ignored.\<close>

definition set_flag_value :: "'x cli_pkg \<Rightarrow> string \<Rightarrow> string \<Rightarrow> 'x \<Rightarrow> 'x" where
  "set_flag_value cli f v x = snd (cli_Set cli f v x)"

definition string_flags :: "string list" where
  "string_flags = [''cloud-provider-name'', ''node-name'', ''system-default-registry'']"

definition bool_flags :: "string list" where
  "bool_flags = [''disable-cloud-controller'', ''protect-kernel-defaults'', ''secrets-encryption'']"

text \<open>What setting one flag keeps of another, and what it does to the flag itself.\<close>

definition cli_frame :: "'x cli_pkg \<Rightarrow> bool" where
  "cli_frame cli \<longleftrightarrow> (\<forall>f g v x. f \<noteq> g \<longrightarrow>
     cli_StringSlice cli (set_flag_value cli f v x) g = cli_StringSlice cli x g \<and>
     cli_String cli (set_flag_value cli f v x) g = cli_String cli x g \<and>
     cli_Bool cli (set_flag_value cli f v x) g = cli_Bool cli x g \<and>
     cli_IsSet cli (set_flag_value cli f v x) g = cli_IsSet cli x g)"

definition cli_sets :: "'x cli_pkg \<Rightarrow> bool" where
  "cli_sets cli \<longleftrightarrow>
     (\<forall>v x. cli_Set cli ''disable'' v x = (Inr (), set_flag_value cli ''disable'' v x) \<and>
        cli_StringSlice cli (set_flag_value cli ''disable'' v x) ''disable'' = cli_StringSlice cli x ''disable'' @ [v]) \<and>
     (\<forall>f v x. f \<in> set string_flags \<longrightarrow> cli_Set cli f v x = (Inr (), set_flag_value cli f v x) \<and>
        cli_String cli (set_flag_value cli f v x) f = v \<and> cli_IsSet cli (set_flag_value cli f v x) f) \<and>
     (\<forall>f x. f \<in> set bool_flags \<longrightarrow> cli_Set cli f ''true'' x = (Inr (), set_flag_value cli f ''true'' x) \<and>
        cli_Bool cli (set_flag_value cli f ''true'' x) f \<and> cli_IsSet cli (set_flag_value cli f ''true'' x) f)"

definition cli_laws :: "'x cli_pkg \<Rightarrow> bool" where
  "cli_laws cli \<longleftrightarrow> cli_frame cli \<and> cli_sets cli"

lemma cli_keeps:
  assumes "cli_laws cli" and "f \<noteq> g"
  shows "cli_StringSlice cli (set_flag_value cli f v x) g = cli_StringSlice cli x g"
    and "cli_String cli (set_flag_value cli f v x) g = cli_String cli x g"
    and "cli_Bool cli (set_flag_value cli f v x) g = cli_Bool cli x g"
    and "cli_IsSet cli (set_flag_value cli f v x) g = cli_IsSet cli x g"
  using assms by (auto simp: cli_laws_def cli_frame_def)

lemma cli_disable:
  assumes "cli_laws cli"
  shows "cli_Set cli ''disable'' v x = (Inr (), set_flag_value cli ''disable'' v x)"
    and "cli_StringSlice cli (set_flag_value cli ''disable'' v x) ''disable'' = cli_StringSlice cli x ''disable'' @ [v]"
  using assms by (auto simp: cli_laws_def cli_sets_def)

lemma cli_string_set:
  assumes "cli_laws cli" and "f \<in> set string_flags"
  shows "cli_Set cli f v x = (Inr (), set_flag_value cli f v x)"
    and "cli_String cli (set_flag_value cli f v x) f = v"
    and "cli_IsSet cli (set_flag_value cli f v x) f"
  using assms by (auto simp: cli_laws_def cli_sets_def)

lemma cli_bool_set:
  assumes "cli_laws cli" and "f \<in> set bool_flags"
  shows "cli_Set cli f ''true'' x = (Inr (), set_flag_value cli f ''true'' x)"
    and "cli_Bool cli (set_flag_value cli f ''true'' x) f"
    and "cli_IsSet cli (set_flag_value cli f ''true'' x) f"
  using assms by (auto simp: cli_laws_def cli_sets_def)

text \<open>Two command lines that agree on all flags but some.\<close>

definition same_off :: "'x cli_pkg \<Rightarrow> string set \<Rightarrow> 'x \<Rightarrow> 'x \<Rightarrow> bool" where
  "same_off cli F x y \<longleftrightarrow> (\<forall>g. g \<notin> F \<longrightarrow>
     cli_StringSlice cli y g = cli_StringSlice cli x g \<and> cli_String cli y g = cli_String cli x g \<and>
     cli_Bool cli y g = cli_Bool cli x g \<and> cli_IsSet cli y g = cli_IsSet cli x g)"

lemma same_offD:
  assumes "same_off cli F x y" and "g \<notin> F"
  shows "cli_StringSlice cli y g = cli_StringSlice cli x g" and "cli_String cli y g = cli_String cli x g"
    and "cli_Bool cli y g = cli_Bool cli x g" and "cli_IsSet cli y g = cli_IsSet cli x g"
  using assms by (auto simp: same_off_def)

lemma same_off_refl [simp]: "same_off cli F x x"
  by (simp add: same_off_def)

lemma same_off_trans: "same_off cli F x y \<Longrightarrow> same_off cli F y z \<Longrightarrow> same_off cli F x z"
  by (simp add: same_off_def)

lemma same_off_mono: "same_off cli F x y \<Longrightarrow> F \<subseteq> G \<Longrightarrow> same_off cli G x y"
  by (auto simp: same_off_def)

lemma same_off_value: "cli_laws cli \<Longrightarrow> f \<in> F \<Longrightarrow> same_off cli F x (set_flag_value cli f v x)"
  unfolding same_off_def using cli_keeps by metis

lemma same_off_set: "cli_laws cli \<Longrightarrow> f \<in> F \<Longrightarrow> cli_Set cli f v x = (r, y) \<Longrightarrow> same_off cli F x y"
  using same_off_value [of cli f F x v] by (simp add: set_flag_value_def)

lemma same_off_fold:
  assumes "\<And>a x. same_off cli F x (f a x)"
  shows "same_off cli F x (fold f as x)"
  by (induction "as" arbitrary: x) (auto intro: same_off_trans assms)

text \<open>Disabling several items.\<close>

definition disable_all :: "'x cli_pkg \<Rightarrow> string list \<Rightarrow> 'x \<Rightarrow> 'x" where
  "disable_all cli vs x = fold (set_flag_value cli ''disable'') vs x"

lemma disable_all_slice:
  "cli_laws cli \<Longrightarrow> cli_StringSlice cli (disable_all cli vs x) ''disable'' = cli_StringSlice cli x ''disable'' @ vs"
  by (induction vs arbitrary: x) (simp_all add: disable_all_def cli_disable)

lemma disable_all_same: "cli_laws cli \<Longrightarrow> ''disable'' \<in> F \<Longrightarrow> same_off cli F x (disable_all cli vs x)"
  unfolding disable_all_def by (rule same_off_fold) (rule same_off_value)


lemma disable_all_append: "disable_all cli (vs @ ws) x = disable_all cli ws (disable_all cli vs x)"
  by (simp add: disable_all_def)

text \<open>A command line for the examples: the flags that are set, the latest first.\<close>

definition map_cli :: "(string, string) gomap cli_pkg" where
  "map_cli = \<lparr>cli_Bool = (\<lambda>x f. gm_index '''' x f = ''true''), cli_String = gm_index '''',
     cli_StringSlice = (\<lambda>x f. rev (map snd (filter (\<lambda>p. fst p = f) x))),
     cli_IsSet = (\<lambda>x f. gm_get x f \<noteq> None), cli_Set = (\<lambda>f v x. (Inr (), (f, v) # x))\<rparr>"

lemma map_cli_laws: "cli_laws map_cli"
  by (auto simp: cli_laws_def cli_frame_def cli_sets_def map_cli_def set_flag_value_def gm_index_def)

end
