(* ===== verification/Server_Setup.thy ===== *)
theory Server_Setup
  imports Static_Cleanup Cli_Context
begin

text \<open>
  \<^verbatim>\<open>pkg/rke2/rke2_linux.go\<close>, the set-up part of \<^verbatim>\<open>rke2.go\<close>, \<^verbatim>\<open>psa.go\<close>, \<^verbatim>\<open>spc.go\<close> and
  \<^verbatim>\<open>pkg/cli/defaults\<close>: from the command line to the static pod executor. The command line context of
  urfave/cli is a record of functions over an arbitrary context type. K3s's global configuration variables
  are the records \<open>ServerConfig\<close> and \<open>AgentConfig\<close> of the world. The cloud metadata endpoint is a function
  from requests to responses, and the output of \<^verbatim>\<open>hostname -f\<close> and kine's address parser are arguments.
\<close>

section \<open>The world of the set-up\<close>

record ServerConfig =
  sc_DatastoreEndpoint :: string
  sc_DisableETCD :: bool
  sc_ClusterInit :: bool
  sc_KineTLS :: bool
  sc_DisableNPC :: bool
  sc_FlannelBackend :: string
  sc_AdvertisePort :: int
  sc_SupervisorPort :: int
  sc_HTTPSPort :: int
  sc_APIServerPort :: int
  sc_APIServerBindAddress :: string
  sc_ExtraAPIArgs :: "string list"

record AgentConfig =
  ac_ContainerRuntimeEndpoint :: string
  ac_ExtraKubeletArgs :: "string list"

record 'x world =
  w_clx :: 'x
  w_disk :: disk
  w_server :: ServerConfig
  w_agent :: AgentConfig
  w_etcd_driver :: bool

text \<open>A step that fails keeps the state it has reached.\<close>

definition and_then :: "'a result \<times> 's \<Rightarrow> ('a \<Rightarrow> 's \<Rightarrow> 'b result \<times> 's) \<Rightarrow> 'b result \<times> 's" where
  "and_then p k = (case p of (Inl e, s) \<Rightarrow> (Inl e, s) | (Inr x, s) \<Rightarrow> k x s)"

lemma and_then_simps [simp]:
  "and_then (Inl e, s) k = (Inl e, s)"
  "and_then (Inr x, s) k = k x s"
  by (simp_all add: and_then_def)

lemma and_then_InrE:
  assumes "and_then p k = (Inr y, s)"
  obtains x t where "p = (Inr x, t)" and "k x t = (Inr y, s)"
  using assms by (cases p) (auto simp: and_then_def split: sum.splits)

text \<open>A disk operation in the world.\<close>

definition on_disk :: "(disk \<Rightarrow> 'a result \<times> disk) \<Rightarrow> 'x world \<Rightarrow> 'a result \<times> 'x world" where
  "on_disk f w = (case f (w_disk w) of (r, d) \<Rightarrow> (r, w\<lparr>w_disk := d\<rparr>))"

definition on_clx :: "('x \<Rightarrow> unit result \<times> 'x) \<Rightarrow> 'x world \<Rightarrow> unit result \<times> 'x world" where
  "on_clx f w = (case f (w_clx w) of (r, x) \<Rightarrow> (r, w\<lparr>w_clx := x\<rparr>))"

definition wrap_fst :: "string \<Rightarrow> 'a result \<times> 's \<Rightarrow> 'a result \<times> 's" where
  "wrap_fst m p = (with_message m (fst p), snd p)"

section \<open>Defaults\<close>

definition createDataDir :: "string \<Rightarrow> nat \<Rightarrow> disk \<Rightarrow> unit result \<times> disk" where
  "createDataDir dataDir pm d =
     (if dataDir = '''' then (Inr (), d)
      else wrap_fst (''failed to create directory '' @ dataDir) (os_MkdirAll dataDir pm d))"

definition PrependToStringSlice :: "string list \<Rightarrow> string list \<Rightarrow> string list" where
  "PrependToStringSlice ss values = values @ ss"

definition default_server :: "ServerConfig \<Rightarrow> ServerConfig" where
  "default_server sc = sc\<lparr>sc_ClusterInit := True, sc_DisableNPC := True, sc_FlannelBackend := ''none'',
     sc_AdvertisePort := 6443, sc_SupervisorPort := 9345, sc_HTTPSPort := 6443, sc_APIServerPort := 6443,
     sc_APIServerBindAddress := ''0.0.0.0'',
     sc_ExtraAPIArgs := PrependToStringSlice (sc_ExtraAPIArgs sc) [''enable-admission-plugins=NodeRestriction'']\<rparr>"

definition default_agent :: "string \<Rightarrow> AgentConfig \<Rightarrow> AgentConfig" where
  "default_agent logsDir ac = ac\<lparr>ac_ExtraKubeletArgs := PrependToStringSlice (ac_ExtraKubeletArgs ac)
     [''stderrthreshold=FATAL'', ''log-file-max-size=50'', ''alsologtostderr=false'', ''logtostderr=false'',
      ''log-file='' @ filepath_Join [logsDir, ''kubelet.log'']]\<rparr>"

definition defaults_Set :: "string \<Rightarrow> 'x world \<Rightarrow> unit result \<times> 'x world" where
  "defaults_Set dataDir w =
     (let logsDir = filepath_Join [dataDir, ''agent'', ''logs''] in
      and_then (wrap_fst (''failed to create directory '' @ dataDir) (on_disk (createDataDir dataDir 493) w)) (\<lambda>_ w.
      and_then (wrap_fst (''failed to create directory '' @ logsDir) (on_disk (os_MkdirAll logsDir 488) w)) (\<lambda>_ w.
      (Inr (), w\<lparr>w_server := default_server (w_server w), w_agent := default_agent logsDir (w_agent w)\<rparr>))))"

section \<open>Pod security admission\<close>

definition defaultPSAConfigFile :: string where
  "defaultPSAConfigFile = ''/etc/rancher/rke2/rke2-pss.yaml''"

definition newline :: string where
  "newline = [CHR 0x0A]"

definition restrictedPSAConfig :: string where
  "restrictedPSAConfig = str_Join
     [''apiVersion: apiserver.config.k8s.io/v1'',
      ''kind: AdmissionConfiguration'',
      ''plugins:'',
      ''- name: PodSecurity'',
      ''  configuration:'',
      ''    apiVersion: pod-security.admission.config.k8s.io/v1beta1'',
      ''    kind: PodSecurityConfiguration'',
      ''    defaults:'',
      ''      enforce: \"restricted\"'',
      ''      enforce-version: \"latest\"'',
      ''      audit: \"restricted\"'',
      ''      audit-version: \"latest\"'',
      ''      warn: \"restricted\"'',
      ''      warn-version: \"latest\"'',
      ''    exemptions:'',
      ''      usernames: []'',
      ''      runtimeClasses: []'',
      ''      namespaces: [kube-system, compliance-operator-system, tigera-operator]''] newline"

definition unrestrictedPSAConfig :: string where
  "unrestrictedPSAConfig = str_Join
     [''apiVersion: apiserver.config.k8s.io/v1'',
      ''kind: AdmissionConfiguration'',
      ''plugins:'',
      ''- name: PodSecurity'',
      ''  configuration:'',
      ''    apiVersion: pod-security.admission.config.k8s.io/v1beta1'',
      ''    kind: PodSecurityConfiguration'',
      ''    defaults:'',
      ''      enforce: \"privileged\"'',
      ''      enforce-version: \"latest\"'',
      ''    exemptions:'',
      ''      usernames: []'',
      ''      runtimeClasses: []'',
      ''      namespaces: []''] newline"

definition setPSAs :: "bool \<Rightarrow> disk \<Rightarrow> unit result \<times> disk" where
  "setPSAs cisMode d =
     and_then (os_MkdirAll (filepath_Dir defaultPSAConfigFile) 493 d) (\<lambda>_ d.
       if \<not> cisMode then
         wrap_fst ''psa: failed to write psa unrestricted config'' (os_WriteFile defaultPSAConfigFile unrestrictedPSAConfig 384 d)
       else
         wrap_fst ''psa: failed to write psa restricted config'' (os_WriteFile defaultPSAConfigFile restrictedPSAConfig 384 d))"

section \<open>Host names\<close>

record http_request =
  rq_Method :: string
  rq_URL :: string
  rq_Header :: "(string \<times> string) list"

text \<open>A response: the status and the outcome of reading the body.\<close>

type_synonym http_do = "http_request \<Rightarrow> (nat \<times> string result) result"

definition body_of :: "http_do \<Rightarrow> http_request \<Rightarrow> string option" where
  "body_of http rq =
     (case http rq of
        Inl _ \<Rightarrow> None
      | Inr (status, body) \<Rightarrow> if status \<noteq> 200 then None else (case body of Inl _ \<Rightarrow> None | Inr b \<Rightarrow> Some b))"

definition hostnameFromMetadataEndpoint :: "http_do \<Rightarrow> string" where
  "hostnameFromMetadataEndpoint http =
     (let token = (case body_of http \<lparr>rq_Method = ''PUT'', rq_URL = ''http://169.254.169.254/latest/api/token'',
                     rq_Header = [(''x-aws-ec2-metadata-token-ttl-seconds'', ''60'')]\<rparr>
                   of None \<Rightarrow> '''' | Some b \<Rightarrow> b)
      in case body_of http \<lparr>rq_Method = ''GET'', rq_URL = ''http://169.254.169.254/latest/meta-data/local-hostname'',
             rq_Header = (if token \<noteq> '''' then [(''x-aws-ec2-metadata-token'', token)] else [])\<rparr>
         of None \<Rightarrow> '''' | Some b \<Rightarrow> str_TrimSpace b)"

definition hostnameFQDN :: "string result \<Rightarrow> string result" where
  "hostnameFQDN output = (case output of Inl e \<Rightarrow> Inl e | Inr b \<Rightarrow> Inr (str_TrimSpace b))"

section \<open>Profiles and files\<close>

definition ForceRestartFile :: "string \<Rightarrow> string" where
  "ForceRestartFile dataDir = filepath_Join [dataDir, ''force-restart'']"

definition cli_isCISMode :: "'x cli_pkg \<Rightarrow> 'x \<Rightarrow> bool" where
  "cli_isCISMode cli x \<longleftrightarrow> cli_String cli x ''profile'' = ''cis''"

definition profileMode :: "'x cli_pkg \<Rightarrow> 'x \<Rightarrow> ProfileMode" where
  "profileMode cli x =
     (if cli_String cli x ''profile'' = ''cis'' then ProfileModeCIS
      else if cli_String cli x ''profile'' = ''etcd'' then ProfileModeETCD
      else ProfileModeNone)"


section \<open>The static pod executor\<close>

text \<open>What the set-up takes from outside besides the command line.\<close>

record 'c outside =
  out_cri :: "'c cri"
  out_pkg :: name_pkg
  out_build :: build_vars
  out_scheme :: "string \<Rightarrow> string"
  out_http :: http_do
  out_hostname :: "string result"
  out_manifest_path :: string
  out_resource_order :: "(string \<times> string) list"
  out_probe_order :: "probe_key list"
  out_item_order :: "string list"
  out_event :: cleanup_event
  out_tick :: "'c \<Rightarrow> 'c"

text \<open>The choice of the datastore: whether etcd is disabled and whether an external database is used.\<close>

definition uses_kine_or_external :: "'x cli_pkg \<Rightarrow> 'x world \<Rightarrow> bool" where
  "uses_kine_or_external cli w \<longleftrightarrow>
     sc_DatastoreEndpoint (w_server w) \<noteq> '''' \<or>
     (cli_Bool cli (w_clx w) ''disable-etcd'' \<and> \<not> cli_IsSet cli (w_clx w) ''server'')"

definition etcd_scheme :: "string \<Rightarrow> bool" where
  "etcd_scheme scheme \<longleftrightarrow> scheme \<in> {''http'', ''https'', ''unix'', ''unixs''}"

definition choose_datastore :: "'x cli_pkg \<Rightarrow> (string \<Rightarrow> string) \<Rightarrow> 'x world \<Rightarrow> (bool \<times> bool) \<times> 'x world" where
  "choose_datastore cli scheme_of w =
     (let disableEtcd = cli_Bool cli (w_clx w) ''disable-etcd'' in
      if uses_kine_or_external cli w then
        let sc = (w_server w)\<lparr>sc_DisableETCD := False, sc_ClusterInit := False\<rparr> in
        if etcd_scheme (scheme_of (sc_DatastoreEndpoint (w_server w)))
        then ((True, False), w\<lparr>w_server := sc\<rparr>)
        else ((True, True), w\<lparr>w_server := sc\<lparr>sc_KineTLS := True\<rparr>\<rparr>)
      else ((disableEtcd, False), w\<lparr>w_etcd_driver := True\<rparr>))"

text \<open>The force-restart file: its presence is noted and it is removed.\<close>

definition check_force_restart :: "string \<Rightarrow> disk \<Rightarrow> bool result \<times> disk" where
  "check_force_restart dataDir d =
     (case os_Stat d (ForceRestartFile dataDir) of
        Inl e \<Rightarrow> if os_IsNotExist e then (Inr False, d) else (Inl e, d)
      | Inr _ \<Rightarrow> (Inr True, snd (os_Remove (ForceRestartFile dataDir) d)))"

definition rejoining :: "'x cli_pkg \<Rightarrow> bool \<Rightarrow> string \<Rightarrow> 'x world \<Rightarrow> bool" where
  "rejoining cli isServer dataDir w \<longleftrightarrow>
     (case os_Stat (w_disk w) (etcdNameFile dataDir) of Inl e \<Rightarrow> os_IsNotExist e | Inr _ \<Rightarrow> False) \<and>
     isServer \<and> \<not> cli_Bool cli (w_clx w) ''disable-etcd'' \<and> \<not> cli_IsSet cli (w_clx w) ''datastore-endpoint''"

definition add_force_restart :: "string \<Rightarrow> string \<Rightarrow> disk \<Rightarrow> unit result \<times> disk" where
  "add_force_restart restorePath dataDir d =
     (if restorePath = '''' then (Inr (), d)
      else and_then (os_MkdirAll dataDir 493 d) (\<lambda>_ d. os_WriteFile (ForceRestartFile dataDir) '''' 384 d))"

text \<open>The cloud provider: the deprecated name aws only asks for the metadata host name.\<close>

definition cloud_provider :: "cli_Config \<Rightarrow> (cli_Config \<times> CloudProviderConfig option) result" where
  "cloud_provider cfg =
     (if cc_CloudProviderConfig cfg \<noteq> '''' \<and> cc_CloudProviderName cfg = ''''
      then Inl (Errorf ''--cloud-provider-config requires --cloud-provider-name to be provided'')
      else if cc_CloudProviderName cfg = '''' then Inr (cfg, None)
      else if cc_CloudProviderName cfg = ''aws''
      then Inr (cfg\<lparr>cc_CloudProviderMetadataHostname := True, cc_CloudProviderName := ''''\<rparr>, None)
      else Inr (cfg, Some \<lparr>cp_Name = cc_CloudProviderName cfg, cp_Path = cc_CloudProviderConfig cfg\<rparr>))"

definition set_node_name :: "'x cli_pkg \<Rightarrow> http_do \<Rightarrow> string result \<Rightarrow> cli_Config \<Rightarrow> 'x world \<Rightarrow> unit result \<times> 'x world" where
  "set_node_name cli http output cfg w =
     (if \<not> cc_CloudProviderMetadataHostname cfg then (Inr (), w)
      else
        let fqdn = hostnameFromMetadataEndpoint http in
        case (if fqdn = '''' then hostnameFQDN output else Inr fqdn) of
          Inl e \<Rightarrow> (Inl e, w)
        | Inr name \<Rightarrow> on_clx (cli_Set cli ''node-name'' name) w)"

definition choose_psa :: "'x cli_pkg \<Rightarrow> 'x world \<Rightarrow> string result \<times> 'x world" where
  "choose_psa cli w =
     (let given = cli_String cli (w_clx w) ''pod-security-admission-config-file'' in
      if given \<noteq> '''' then (Inr given, w)
      else and_then (on_disk (setPSAs (cli_isCISMode cli (w_clx w))) w) (\<lambda>_ w. (Inr defaultPSAConfigFile, w)))"

definition component_disabled :: "'x cli_pkg \<Rightarrow> 'x \<Rightarrow> bool \<Rightarrow> bool \<Rightarrow> (string, bool) gomap" where
  "component_disabled cli x isServer forceRestart =
     (let off = \<not> isServer \<or> forceRestart in
      [(''cloud-controller-manager'', off \<or> cli_Bool cli x ''disable-cloud-controller''),
       (''etcd'', off \<or> cli_Bool cli x ''disable-etcd'' \<or> cli_IsSet cli x ''datastore-endpoint''),
       (''kube-apiserver'', off \<or> cli_Bool cli x ''disable-apiserver''),
       (''kube-controller-manager'', off \<or> cli_Bool cli x ''disable-controller-manager''),
       (''kube-scheduler'', off \<or> cli_Bool cli x ''disable-scheduler'')])"

text \<open>The steps before the pods of disabled components are removed.\<close>

record prepared =
  pr_dataDir :: string
  pr_Config :: Config
  pr_Cloud :: "CloudProviderConfig option"
  pr_cfg :: cli_Config
  pr_PSA :: string
  pr_Endpoint :: string
  pr_forceRestart :: bool
  pr_clusterReset :: bool
  pr_disableEtcd :: bool
  pr_externalDatabase :: bool

definition prepareExecutor ::
  "'x cli_pkg \<Rightarrow> 'c outside \<Rightarrow> cli_Config \<Rightarrow> bool \<Rightarrow> 'x world \<Rightarrow> prepared result \<times> 'x world" where
  "prepareExecutor cli out cfg isServer w =
     (case choose_datastore cli (out_scheme out) w of ((disableEtcd, externalDatabase), w) \<Rightarrow>
      let dataDir = cli_String cli (w_clx w) ''data-dir'';
          reset = cli_Bool cli (w_clx w) ''cluster-reset'';
          restorePath = cli_String cli (w_clx w) ''cluster-reset-restore-path'' in
      and_then (on_disk (check_force_restart dataDir) w) (\<lambda>forceRestart w.
      let clusterReset = (reset \<or> rejoining cli isServer dataDir w) in
      and_then (on_disk (add_force_restart restorePath dataDir) w) (\<lambda>_ w.
      and_then (cloud_provider cfg, w) (\<lambda>(cfg, cpConfig) w.
      and_then (set_node_name cli (out_http out) (out_hostname out) cfg w) (\<lambda>_ w.
      let cfg = (if cc_KubeletPath cfg = '''' then cfg\<lparr>cc_KubeletPath := ''kubelet''\<rparr> else cfg) in
      and_then (with_message ''failed to parse pod template config''
          (NewConfigFromCLI (out_pkg out) (out_build out) (out_resource_order out) (out_probe_order out) dataDir cfg), w)
        (\<lambda>templateConfig w.
      and_then (choose_psa cli w) (\<lambda>psa w.
      (Inr \<lparr>pr_dataDir = dataDir, pr_Config = templateConfig, pr_Cloud = cpConfig, pr_cfg = cfg, pr_PSA = psa,
            pr_Endpoint = (if ac_ContainerRuntimeEndpoint (w_agent w) = '''' then ContainerdSock
                           else ac_ContainerRuntimeEndpoint (w_agent w)),
            pr_forceRestart = forceRestart, pr_clusterReset = clusterReset,
            pr_disableEtcd = disableEtcd, pr_externalDatabase = externalDatabase\<rparr>, w))))))))"

definition executor_config :: "'x cli_pkg \<Rightarrow> 'x \<Rightarrow> string \<Rightarrow> string \<Rightarrow> bool \<Rightarrow> prepared \<Rightarrow> StaticPodConfig" where
  "executor_config cli x mp dataDir isServer p =
     \<lparr>sp_Config = pr_Config p, sp_CloudProvider = pr_Cloud p, sp_RuntimeEndpoint = pr_Endpoint p,
      sp_ManifestsDir = filepath_Join [dataDir, ''agent'', mp],
      sp_AuditPolicyFile = cli_String cli x ''audit-policy-file'', sp_PSAConfigFile = pr_PSA p,
      sp_KubeletPath = cc_KubeletPath (pr_cfg p), sp_IngressController = cc_IngressController (pr_cfg p),
      sp_ProfileMode = profileMode cli x, sp_DisableETCD = pr_disableEtcd p,
      sp_ExternalDatabase = pr_externalDatabase p, sp_IsServer = isServer, sp_Prime = cli_Bool cli x ''prime''\<rparr>"

definition initStaticPodExecutor ::
  "'x cli_pkg \<Rightarrow> 'c outside \<Rightarrow> cli_Config \<Rightarrow> bool \<Rightarrow> 'x world \<times> 'c \<Rightarrow> StaticPodConfig result \<times> ('x world \<times> 'c)" where
  "initStaticPodExecutor cli out cfg isServer s =
     (case s of (w, c) \<Rightarrow>
        case prepareExecutor cli out cfg isServer w of
          (Inl e, w) \<Rightarrow> (Inl e, (w, c))
        | (Inr p, w) \<Rightarrow>
            (let dataDir = pr_dataDir p in
             case RemoveDisabledPods (out_cri out) (out_manifest_path out) dataDir (pr_Endpoint p)
                    (component_disabled cli (w_clx w) isServer (pr_forceRestart p)) (pr_clusterReset p)
                    (out_item_order out) (out_event out) (out_tick out) (w_disk w) c of
               (Inl e, d, c) \<Rightarrow> (Inl e, (w\<lparr>w_disk := d\<rparr>, c))
             | (Inr _, d, c) \<Rightarrow>
                 (Inr (executor_config cli (w_clx w) (out_manifest_path out) dataDir isServer p), (w\<lparr>w_disk := d\<rparr>, c))))"

text \<open>\<^verbatim>\<open>initExecutor\<close>: the registry flag, the defaults, then the static pod executor.\<close>

definition initExecutor ::
  "'x cli_pkg \<Rightarrow> 'c outside \<Rightarrow> cli_Config \<Rightarrow> bool \<Rightarrow> 'x world \<times> 'c \<Rightarrow> StaticPodConfig result \<times> ('x world \<times> 'c)" where
  "initExecutor cli out cfg isServer s =
     (case s of (w, c) \<Rightarrow>
        let prime = (\<not> cli_IsSet cli (w_clx w) ''system-default-registry'' \<and> cli_Bool cli (w_clx w) ''prime'');
            registry = (if prime then PrimeRegistry (out_build out) else cli_String cli (w_clx w) ''system-default-registry'');
            cfg = cfg\<lparr>cc_Images := (cc_Images cfg)\<lparr>oc_SystemDefaultRegistry := registry\<rparr>\<rparr>;
            w = (if prime then snd (on_clx (cli_Set cli ''system-default-registry'' registry) w) else w) in
        case defaults_Set (cli_String cli (w_clx w) ''data-dir'') w of
          (Inl e, w) \<Rightarrow> (Inl e, (w, c))
        | (Inr _, w) \<Rightarrow> initStaticPodExecutor cli out cfg isServer (w, c))"

text \<open>\<^verbatim>\<open>setup\<close>: process 1 that is about to re-execute itself does nothing.\<close>

definition setup_executor ::
  "'x cli_pkg \<Rightarrow> 'c outside \<Rightarrow> nat \<Rightarrow> string \<Rightarrow> cli_Config \<Rightarrow> bool \<Rightarrow> 'x world \<times> 'c
     \<Rightarrow> StaticPodConfig option result \<times> ('x world \<times> 'c)" where
  "setup_executor cli out pid reexec cfg isServer s =
     (if pid = 1 \<and> reexec \<noteq> ''true'' then (Inr None, s)
      else case initExecutor cli out cfg isServer s of
        (Inl e, s') \<Rightarrow> (Inl (WithMessage ''failed to initialize executor'' e), s')
      | (Inr ex, s') \<Rightarrow> (Inr (Some ex), s'))"

section \<open>Clean-up when the node is deleted\<close>

definition static_components :: "string list" where
  "static_components = [''kube-apiserver'', ''kube-scheduler'', ''kube-controller-manager'', ''cloud-controller-manager'', ''etcd'']"

definition cleanupStaticPods :: "string \<Rightarrow> string \<Rightarrow> disk \<Rightarrow> unit result \<times> disk" where
  "cleanupStaticPods mp dataDir d = remove_manifests (PodManifestsDir mp dataDir) static_components d"


section \<open>What the preparation does\<close>

lemma choose_datastore_props:
  assumes "choose_datastore cli sch w = ((de, ext), w')"
  shows "w_disk w' = w_disk w \<and> w_clx w' = w_clx w \<and> w_agent w' = w_agent w \<and>
         de = (sc_DatastoreEndpoint (w_server w) \<noteq> '''' \<or> cli_Bool cli (w_clx w) ''disable-etcd'') \<and>
         ext = (uses_kine_or_external cli w \<and> \<not> etcd_scheme (sch (sc_DatastoreEndpoint (w_server w)))) \<and>
         w_etcd_driver w' = (w_etcd_driver w \<or> \<not> uses_kine_or_external cli w) \<and>
         sc_ClusterInit (w_server w') = (sc_ClusterInit (w_server w) \<and> \<not> uses_kine_or_external cli w)"
  using assms by (auto simp: choose_datastore_def Let_def uses_kine_or_external_def split: if_splits)

lemma prepare_cases:
  assumes "prepareExecutor cli out cfg isServer w = (Inr p, w')"
  obtains de ext w1 fr w2 w3 cfg' cp w4 psa where
    "choose_datastore cli (out_scheme out) w = ((de, ext), w1)"
    "on_disk (check_force_restart (pr_dataDir p)) w1 = (Inr fr, w2)"
    "on_disk (add_force_restart (cli_String cli (w_clx w1) ''cluster-reset-restore-path'') (pr_dataDir p)) w2 = (Inr (), w3)"
    "cloud_provider cfg = Inr (cfg', cp)"
    "set_node_name cli (out_http out) (out_hostname out) cfg' w3 = (Inr (), w4)"
    "choose_psa cli w4 = (Inr psa, w')"
    "pr_dataDir p = cli_String cli (w_clx w1) ''data-dir''" "pr_PSA p = psa"
    "pr_forceRestart p = fr" "pr_disableEtcd p = de" "pr_externalDatabase p = ext"
    "pr_clusterReset p = (cli_Bool cli (w_clx w1) ''cluster-reset'' \<or> rejoining cli isServer (pr_dataDir p) w2)"
    "pr_Cloud p = cp"
proof -
  obtain de ext w1 where 1: "choose_datastore cli (out_scheme out) w = ((de, ext), w1)" by (metis surj_pair)
  show ?thesis
    using assms unfolding prepareExecutor_def 1 Let_def prod.case
    by (elim and_then_InrE) (auto elim!: and_then_InrE simp: split_beta intro!: that [OF 1])
qed


lemma on_disk_steady:
  assumes "on_disk f w = (r, w')" and "\<And>d r d'. f d = (r, d') \<Longrightarrow> steady q d d'"
  shows "steady q (w_disk w) (w_disk w')" and "w_clx w' = w_clx w"
  using assms by (auto simp: on_disk_def split: prod.splits)

lemma check_force_restart_steady:
  "check_force_restart dataDir d = (r, d') \<Longrightarrow> q \<noteq> ForceRestartFile dataDir \<Longrightarrow> steady q d d'"
  by (auto simp: check_force_restart_def split: sum.splits if_splits intro: os_Remove_steady [OF prod.collapse [symmetric]])

lemma add_force_restart_steady:
  "add_force_restart path dataDir d = (r, d') \<Longrightarrow> q \<noteq> ForceRestartFile dataDir \<Longrightarrow> steady q d d'"
  by (auto simp: add_force_restart_def and_then_def split: prod.splits sum.splits if_splits
      intro: os_MkdirAll_steady steady_trans [OF os_MkdirAll_steady os_WriteFile_steady])

lemma setPSAs_steady: "setPSAs cis d = (r, d') \<Longrightarrow> q \<noteq> defaultPSAConfigFile \<Longrightarrow> steady q d d'"
  unfolding setPSAs_def and_then_def wrap_fst_def
  by (auto split: prod.splits sum.splits if_splits
      intro: os_MkdirAll_steady steady_trans [OF os_MkdirAll_steady os_WriteFile_steady [OF prod.collapse [symmetric]]])

lemma choose_psa_steady:
  "choose_psa cli w = (r, w') \<Longrightarrow> q \<noteq> defaultPSAConfigFile \<Longrightarrow> steady q (w_disk w) (w_disk w')"
  unfolding choose_psa_def Let_def and_then_def
  by (auto split: prod.splits sum.splits if_splits intro: on_disk_steady(1) setPSAs_steady)

lemma set_node_name_disk: "set_node_name cli http out cfg w = (r, w') \<Longrightarrow> w_disk w' = w_disk w"
  by (auto simp: set_node_name_def on_clx_def Let_def split: if_splits sum.splits prod.splits)

lemma prepare_steady:
  assumes "prepareExecutor cli out cfg isServer w = (Inr p, w')"
    and "q \<noteq> ForceRestartFile (pr_dataDir p)" and "q \<noteq> defaultPSAConfigFile"
  shows "steady q (w_disk w) (w_disk w')"
  using assms(1)
proof (cases rule: prepare_cases)
  case (1 de ext w1 fr w2 w3 cfg' cp w4 psa)
  have "steady q (w_disk w1) (w_disk w2)"
    by (rule on_disk_steady(1) [OF 1(2)]) (erule check_force_restart_steady [OF _ assms(2)])
  moreover have "steady q (w_disk w2) (w_disk w3)"
    by (rule on_disk_steady(1) [OF 1(3)]) (erule add_force_restart_steady [OF _ assms(2)])
  moreover have "steady q (w_disk w3) (w_disk w')"
    using choose_psa_steady [OF 1(6) assms(3)] set_node_name_disk [OF 1(5)] by simp
  ultimately show ?thesis using choose_datastore_props [OF 1(1)] by (metis steady_trans)
qed

section \<open>Agents run no control plane\<close>

lemma all_disabled: "component \<in> set static_components \<Longrightarrow> gm_index False (disabled_items reset (component_disabled cli x False fr)) component"
  by (auto simp: static_components_def disabled_items_def component_disabled_def gm_index_def Let_def)

lemma init_cases:
  assumes "initStaticPodExecutor cli out cfg isServer (w, c) = (Inr ex, (w', c'))"
  obtains p w1 d where "prepareExecutor cli out cfg isServer w = (Inr p, w1)"
    "RemoveDisabledPods (out_cri out) (out_manifest_path out) (pr_dataDir p) (pr_Endpoint p)
       (component_disabled cli (w_clx w1) isServer (pr_forceRestart p)) (pr_clusterReset p)
       (out_item_order out) (out_event out) (out_tick out) (w_disk w1) c = (Inr (), d, c')"
    "w' = w1\<lparr>w_disk := d\<rparr>" "ex = executor_config cli (w_clx w1) (out_manifest_path out) (pr_dataDir p) isServer p"
  using assms by (auto simp: initStaticPodExecutor_def Let_def split: prod.splits sum.splits)

text \<open>The directories of a node, with names that need no cleaning.\<close>

definition node_layout :: "string list \<Rightarrow> string \<Rightarrow> bool" where
  "node_layout ds mp \<longleftrightarrow> ds \<noteq> [] \<and> list_all is_name ds \<and> is_name mp"

lemma layout_paths:
  assumes "node_layout ds mp" and "is_name (component @ ''.yaml'')"
  shows "binDir (abs_path ds) = abs_path (ds @ [''bin''])"
    and "PodManifestsDir mp (abs_path ds) = abs_path (ds @ [''agent'', mp])"
    and "ForceRestartFile (abs_path ds) = abs_path (ds @ [''force-restart''])"
    and "manifest_of (PodManifestsDir mp (abs_path ds)) component = abs_path (ds @ [''agent'', mp, component @ ''.yaml''])"
proof -
  have ds: "ds \<noteq> []" "\<forall>n \<in> set ds. is_name n" "is_name mp" using assms(1) by (auto simp: node_layout_def list_all_iff)
  have names: "is_name ''bin''" "is_name ''agent''" "is_name ''force-restart''" by code_simp+
  show "binDir (abs_path ds) = abs_path (ds @ [''bin''])" "ForceRestartFile (abs_path ds) = abs_path (ds @ [''force-restart''])"
    using ds names by (simp_all add: binDir_def ForceRestartFile_def Join_abs)
  show dir: "PodManifestsDir mp (abs_path ds) = abs_path (ds @ [''agent'', mp])"
    using ds names by (simp add: PodManifestsDir_def Join_abs)
  show "manifest_of (PodManifestsDir mp (abs_path ds)) component = abs_path (ds @ [''agent'', mp, component @ ''.yaml''])"
    unfolding manifest_of_def dir using ds names assms(2) by (subst Join_abs) auto
qed

lemma psa_path: "defaultPSAConfigFile = abs_path [''etc'', ''rancher'', ''rke2'', ''rke2-pss.yaml'']"
  by code_simp

lemma paths_apart:
  assumes "node_layout ds mp" and "is_name (component @ ''.yaml'')"
    and "q \<in> {binDir (abs_path ds), PodManifestsDir mp (abs_path ds), manifest_of (PodManifestsDir mp (abs_path ds)) component}"
  shows "q \<noteq> ForceRestartFile (abs_path ds)" and "q \<noteq> defaultPSAConfigFile"
proof -
  let ?psa = "[''etc'', ''rancher'', ''rke2'', ''rke2-pss.yaml'']"
  have names: "\<forall>n \<in> set (ds @ [''force-restart'']). is_name n" "\<forall>n \<in> set ?psa. is_name n"
    using assms(1) by (auto simp: node_layout_def list_all_iff is_name_def)
  obtain ns where ns: "q = abs_path ns" "\<forall>n \<in> set ns. is_name n" "ns \<noteq> []"
    "ns = ds @ [''bin''] \<or> ns = ds @ [''agent'', mp] \<or> ns = ds @ [''agent'', mp, component @ ''.yaml'']"
  proof -
    have l: "\<forall>n \<in> set ds. is_name n" "is_name mp" "is_name ''bin''" "is_name ''agent''"
      using assms(1) by (auto simp: node_layout_def list_all_iff is_name_def)
    from assms(3) show thesis
      using l assms(2) that [of "ds @ [''bin'']"] that [of "ds @ [''agent'', mp]"]
        that [of "ds @ [''agent'', mp, component @ ''.yaml'']"] layout_paths [OF assms(1,2)] by auto
  qed
  have force: "ns \<noteq> ds @ [''force-restart'']" using ns(4) by auto
  have psa: "ns \<noteq> ?psa"
  proof
    assume "ns = ?psa"
    then have "rev ns = rev ?psa" by simp
    then show False using ns(4) by auto
  qed
  show "q \<noteq> ForceRestartFile (abs_path ds)"
    using abs_path_inj [of ns "ds @ [''force-restart'']"] names(1) ns(1-3) force
    unfolding layout_paths(3) [OF assms(1,2)] by auto
  show "q \<noteq> defaultPSAConfigFile"
    using abs_path_inj [of ns ?psa, OF _ ns(3) list.distinct(2) ns(2) names(2)] ns(1) psa unfolding psa_path by (metis (no_types))
qed


lemma component_names: "component \<in> set static_components \<Longrightarrow> is_name (component @ ''.yaml'')"
  by (auto simp: static_components_def is_name_def)



definition empty_cfg :: cli_Config where
  "empty_cfg = \<lparr>cc_AuditPolicyFile = '''', cc_PodSecurityAdmissionConfigFile = '''', cc_CloudProviderConfig = '''',
     cc_CloudProviderName = '''', cc_CloudProviderMetadataHostname = False,
     cc_Images = \<lparr>oc_SystemDefaultRegistry = '''', oc_KubeAPIServer = '''', oc_KubeControllerManager = '''', oc_KubeProxy = '''',
       oc_KubeScheduler = '''', oc_Pause = '''', oc_Runtime = '''', oc_ETCD = '''', oc_CloudControllerManager = ''''\<rparr>,
     cc_KubeletPath = '''', cc_ControlPlaneResourceRequests = [], cc_ControlPlaneResourceLimits = [],
     cc_ControlPlaneProbeConf = [], cc_CNI = [], cc_IngressController = [],
     cc_ExtraMounts = \<lparr>xm_KubeAPIServer = [], xm_KubeScheduler = [], xm_KubeControllerManager = [], xm_KubeProxy = [],
       xm_Etcd = [], xm_CloudControllerManager = []\<rparr>,
     cc_ExtraEnv = \<lparr>xe_KubeAPIServer = [], xe_KubeScheduler = [], xe_KubeControllerManager = [], xe_KubeProxy = [],
       xe_Etcd = [], xe_CloudControllerManager = []\<rparr>\<rparr>"

definition example_outside :: "sandbox list outside" where
  "example_outside = \<lparr>out_cri = list_cri, out_pkg = simple_names, out_build = simple_build, out_scheme = (\<lambda>_. ''''),
     out_http = (\<lambda>_. Inl (Errorf ''no route'')), out_hostname = Inr ''host'', out_manifest_path = ''p'',
     out_resource_order = [], out_probe_order = [], out_item_order = static_components, out_event = PollEnded 2,
     out_tick = id\<rparr>"

definition example_world :: "(string, string) gomap world" where
  "example_world = \<lparr>w_clx = [(''data-dir'', ''/a''), (''pod-security-admission-config-file'', ''/x'')], w_disk = cleanup_disk,
     w_server = \<lparr>sc_DatastoreEndpoint = '''', sc_DisableETCD = False, sc_ClusterInit = True, sc_KineTLS = False,
       sc_DisableNPC = True, sc_FlannelBackend = ''none'', sc_AdvertisePort = 6443, sc_SupervisorPort = 9345,
       sc_HTTPSPort = 6443, sc_APIServerPort = 6443, sc_APIServerBindAddress = ''0.0.0.0'', sc_ExtraAPIArgs = []\<rparr>,
     w_agent = \<lparr>ac_ContainerRuntimeEndpoint = ''s'', ac_ExtraKubeletArgs = []\<rparr>, w_etcd_driver = False\<rparr>"

abbreviation example_agent where
  "example_agent \<equiv> initStaticPodExecutor map_cli example_outside empty_cfg False (example_world, [etcd_sandbox ''s1'' ''u1''])"



section \<open>The datastore\<close>

text \<open>The part of the world that the steps after the datastore choice leave alone.\<close>

definition same_globals :: "'x world \<Rightarrow> 'x world \<Rightarrow> bool" where
  "same_globals w w' \<longleftrightarrow> w_server w' = w_server w \<and> w_etcd_driver w' = w_etcd_driver w"

lemma same_globals_steps:
  "on_disk f w = (r, w') \<Longrightarrow> same_globals w w'"
  "set_node_name cli http out cfg w = (r2, w') \<Longrightarrow> same_globals w w'"
  "choose_psa cli w = (r3, w') \<Longrightarrow> same_globals w w'"
  by (auto simp: same_globals_def on_disk_def set_node_name_def on_clx_def choose_psa_def and_then_def Let_def
      split: prod.splits sum.splits if_splits)

lemma same_globals_trans: "same_globals u v \<Longrightarrow> same_globals v w \<Longrightarrow> same_globals u w"
  by (simp add: same_globals_def)

lemma prepare_globals:
  assumes "prepareExecutor cli out cfg isServer w = (Inr p, w')"
  shows "\<exists>w1. choose_datastore cli (out_scheme out) w = ((pr_disableEtcd p, pr_externalDatabase p), w1) \<and> same_globals w1 w'"
  using assms
proof (cases rule: prepare_cases)
  case (1 de ext w1 fr w2 w3 cfg' cp w4 psa)
  have "same_globals w1 w'"
    using same_globals_steps(1) [OF 1(2)] same_globals_steps(1) [OF 1(3)] same_globals_steps(2) [OF 1(5)]
      same_globals_steps(3) [OF 1(6)] same_globals_trans by blast
  with 1 show ?thesis by blast
qed

text \<open>
  Which datastore a server uses. After a successful set-up etcd is disabled exactly if a datastore
  endpoint is configured or disable-etcd is given; the API server is directed to the local socket of an
  external database exactly if there is an endpoint, or disable-etcd without a server to join, and the
  endpoint's scheme is not one that etcd itself speaks; the embedded etcd driver is registered, and cluster
  initialisation kept, exactly in the other cases.
\<close>

theorem datastore_choice:
  assumes "initStaticPodExecutor cli out cfg isServer (w, c) = (Inr ex, (w', c'))"
    and "external = (sc_DatastoreEndpoint (w_server w) \<noteq> '''' \<or>
      cli_Bool cli (w_clx w) ''disable-etcd'' \<and> \<not> cli_IsSet cli (w_clx w) ''server'')"
  shows "sp_DisableETCD ex = (sc_DatastoreEndpoint (w_server w) \<noteq> '''' \<or> cli_Bool cli (w_clx w) ''disable-etcd'') \<and>
         sp_ExternalDatabase ex = (external \<and>
           out_scheme out (sc_DatastoreEndpoint (w_server w)) \<notin> {''http'', ''https'', ''unix'', ''unixs''}) \<and>
         w_etcd_driver w' = (w_etcd_driver w \<or> \<not> external) \<and>
         sc_ClusterInit (w_server w') = (sc_ClusterInit (w_server w) \<and> \<not> external)"
  using assms(1)
proof (cases rule: init_cases)
  case (1 p w1 d)
  obtain w0 where w0: "choose_datastore cli (out_scheme out) w = ((pr_disableEtcd p, pr_externalDatabase p), w0)"
    "same_globals w0 w1" using prepare_globals [OF 1(1)] by blast
  have e: "external = uses_kine_or_external cli w" using assms(2) by (simp add: uses_kine_or_external_def)
  have s: "etcd_scheme x \<longleftrightarrow> x \<in> {''http'', ''https'', ''unix'', ''unixs''}" for x by (simp add: etcd_scheme_def)
  from choose_datastore_props [OF w0(1)] w0(2) 1(3,4) show ?thesis
    unfolding e s [symmetric] by (simp add: executor_config_def same_globals_def)
qed

theorem datastore_choice_witness:
  "\<exists>ex. fst example_agent = Inr ex \<and> \<not> sp_DisableETCD ex \<and> \<not> sp_ExternalDatabase ex"
proof -
  have "\<not> isl (fst example_agent)" by code_simp
  then obtain ex where ex: "example_agent = (Inr ex, (fst (snd example_agent), snd (snd example_agent)))"
    by (cases "fst example_agent") (auto simp: prod_eq_iff)
  have f: "sc_DatastoreEndpoint (w_server example_world) = ''''" "\<not> cli_Bool map_cli (w_clx example_world) ''disable-etcd''"
    by code_simp+
  from datastore_choice [OF ex refl] f have "\<not> sp_DisableETCD ex \<and> \<not> sp_ExternalDatabase ex" by blast
  with ex show ?thesis by (metis fst_conv)
qed

section \<open>Pod security follows the profile\<close>

text \<open>
  The pod security configuration that the API server will be given is the administrator's file if one is
  configured, and then no file is written; otherwise it is the default file, which holds the restricted
  configuration under the CIS profile and the privileged one under every other.
\<close>

theorem psa_matches_profile:
  assumes "choose_psa cli w = (Inr psa, w')" and "no_links (tree (w_disk w))"
    and "given = cli_String cli (w_clx w) ''pod-security-admission-config-file''"
  shows "if given \<noteq> '''' then psa = given \<and> w' = w
         else psa = defaultPSAConfigFile \<and> (\<exists>i. gm_get (tree (w_disk w')) psa = Some i \<and>
           kind i = Regular (if cli_String cli (w_clx w) ''profile'' = ''cis'' then restrictedPSAConfig else unrestrictedPSAConfig))"
proof (cases "given = ''''")
  case True
  let ?content = "if cli_isCISMode cli (w_clx w) then restrictedPSAConfig else unrestrictedPSAConfig"
  obtain d1 where m: "os_MkdirAll (filepath_Dir defaultPSAConfigFile) 493 (w_disk w) = (Inr (), d1)"
    and wr: "os_WriteFile defaultPSAConfigFile ?content 384 d1 = (Inr (), w_disk w')" and psa: "psa = defaultPSAConfigFile"
    using assms(1) True assms(3)
    by (auto simp: choose_psa_def setPSAs_def on_disk_def wrap_fst_def Let_def and_then_def prod_eq_iff
        split: prod.splits sum.splits if_splits)
  have "follow 40 (tree d1) defaultPSAConfigFile = Inr defaultPSAConfigFile"
    by (rule no_links_follow [OF os_MkdirAll_no_links [OF m assms(2)]])
  from os_WriteFile_get [OF wr this] True psa show ?thesis by (auto simp: cli_isCISMode_def)
next
  case False
  with assms show ?thesis by (auto simp: choose_psa_def Let_def)
qed

definition cis_world :: "(string, string) gomap world" where
  "cis_world = example_world\<lparr>w_clx := [(''profile'', ''cis'')], w_disk := empty_disk\<rparr>"

lemma os_WriteFile_new:
  assumes "faults d OpOpen p = None" and "faults d OpWrite p = None" and "gm_get (tree d) p = None"
    and "is_dir (tree d) (filepath_Dir p)"
  shows "fst (os_WriteFile p c pm d) = Inr ()"
  using assms by (simp add: os_WriteFile_def)

lemma cis_psa: "fst (choose_psa map_cli cis_world) = Inr defaultPSAConfigFile"
proof -
  let ?m = "os_MkdirAll (filepath_Dir defaultPSAConfigFile) 493 (w_disk cis_world)"
  have 1: "fst ?m = Inr ()" "gm_get (tree (snd ?m)) defaultPSAConfigFile = None"
    "is_dir (tree (snd ?m)) (filepath_Dir defaultPSAConfigFile)" by code_simp+
  have 2: "faults (snd ?m) OpOpen defaultPSAConfigFile = None" "faults (snd ?m) OpWrite defaultPSAConfigFile = None" by code_simp+
  have w: "fst (os_WriteFile defaultPSAConfigFile c 384 (snd ?m)) = Inr ()" for c by (rule os_WriteFile_new [OF 2 1(2,3)])
  have 3: "cli_String map_cli (w_clx cis_world) ''pod-security-admission-config-file'' = ''''" by code_simp
  have m: "?m = (Inr (), snd ?m)" using 1(1) by (metis prod.collapse)
  have "fst (setPSAs b (w_disk cis_world)) = Inr ()" for b
    by (subst setPSAs_def, subst m) (simp add: wrap_fst_def w)
  then have "\<exists>d. setPSAs b (w_disk cis_world) = (Inr (), d)" for b by (metis prod.collapse)
  then obtain d where "setPSAs (cli_isCISMode map_cli (w_clx cis_world)) (w_disk cis_world) = (Inr (), d)" by blast
  then show ?thesis by (simp add: choose_psa_def 3 on_disk_def)
qed

theorem psa_matches_profile_witness:
  "\<exists>i. gm_get (tree (w_disk (snd (choose_psa map_cli cis_world)))) defaultPSAConfigFile = Some i \<and> kind i = Regular restrictedPSAConfig"
proof -
  have 1: "choose_psa map_cli cis_world = (Inr defaultPSAConfigFile, snd (choose_psa map_cli cis_world))"
    using cis_psa by (metis prod.collapse)
  have 2: "no_links (tree (w_disk cis_world))" by code_simp
  have 3: "'''' = cli_String map_cli (w_clx cis_world) ''pod-security-admission-config-file''" by code_simp
  have 4: "cli_String map_cli (w_clx cis_world) ''profile'' = ''cis''" by code_simp
  show ?thesis using psa_matches_profile [OF 1 2 3] 4 by simp
qed

end
