(* ===== verification/Cli_Flags.thy ===== *)
theory Cli_Flags
  imports Cli_Context Pod_Types
begin

text \<open>
  \<^verbatim>\<open>pkg/cli/cmds/k3sopts.go\<close> and the flag tables of the commands: how the commands of RKE2 are made from those
  of K3s. The K3s commands are not part of the sources, so the flags of the command to be wrapped are an
  argument. A flag is a value: the names that \<^verbatim>\<open>Names()\<close> gives, what the wrapping may change of it, and the
  field of the configuration its \<^verbatim>\<open>Destination\<close> points to.
\<close>

section \<open>Flags and options\<close>

datatype flag_kind =
    StringFlag string
  | StringSliceFlag "string list"
  | IntFlag int
  | BoolFlag bool
  | DurationFlag int
  | OtherFlag string

record cli_Flag =
  fl_kind :: flag_kind
  fl_Names :: "string list"
  fl_Usage :: string
  fl_EnvVars :: "string list"
  fl_Hidden :: bool
  fl_Destination :: string

record cli_Command =
  cmd_Name :: string
  cmd_Flags :: "cli_Flag list"

record K3SFlagOption =
  opt_Hide :: bool
  opt_Drop :: bool
  opt_Ignore :: bool
  opt_Usage :: string
  opt_Default :: string

type_synonym K3SFlagSet = "(string, K3SFlagOption option) gomap"

text \<open>The method \<^verbatim>\<open>Set\<close> of \<^verbatim>\<open>cli.StringSlice\<close>.\<close>

type_synonym slice_setter = "string \<Rightarrow> string list \<Rightarrow> string list"

definition copyFlag :: K3SFlagOption where
  "copyFlag = \<lparr>opt_Hide = False, opt_Drop = False, opt_Ignore = False, opt_Usage = '''', opt_Default = ''''\<rparr>"

definition dropFlag :: K3SFlagOption where "dropFlag = copyFlag\<lparr>opt_Drop := True\<rparr>"
definition hideFlag :: K3SFlagOption where "hideFlag = copyFlag\<lparr>opt_Hide := True\<rparr>"
definition ignoreFlag :: K3SFlagOption where "ignoreFlag = copyFlag\<lparr>opt_Ignore := True\<rparr>"

text \<open>An option written as a literal with a usage text and a default.\<close>

definition flag_texts :: "string \<Rightarrow> string \<Rightarrow> K3SFlagOption" where
  "flag_texts usage dflt = copyFlag\<lparr>opt_Usage := usage, opt_Default := dflt\<rparr>"

definition CopyInto :: "K3SFlagSet \<Rightarrow> K3SFlagSet \<Rightarrow> K3SFlagSet" where
  "CopyInto k d = fold (\<lambda>(key, val). gm_put key val) k d"

section \<open>Wrapping a command\<close>

text \<open>The first name of more than one character, else the first name.\<close>

definition parseName :: "cli_Flag \<Rightarrow> string outcome" where
  "parseName flag =
     (case filter (\<lambda>n. 1 < length n) (map str_TrimSpace (fl_Names flag)) of
        n # _ \<Rightarrow> Inr n
      | [] \<Rightarrow> (case fl_Names flag of [] \<Rightarrow> Inl (Panic ''index out of range'') | n # _ \<Rightarrow> Inr (str_TrimSpace n)))"

definition set_texts :: "K3SFlagOption \<Rightarrow> cli_Flag \<Rightarrow> cli_Flag" where
  "set_texts opt flag =
     flag\<lparr>fl_Usage := (if opt_Usage opt \<noteq> '''' then opt_Usage opt else fl_Usage flag),
          fl_Hidden := (opt_Hide opt \<or> fl_Hidden flag)\<rparr>"

text \<open>
  The type switch. Defaults are set for string and string slice flags only. A flag of another type is kept
  and an error recorded.
\<close>

definition wrap_flag :: "slice_setter \<Rightarrow> string \<Rightarrow> K3SFlagOption \<Rightarrow> cli_Flag \<Rightarrow> err list \<times> cli_Flag" where
  "wrap_flag slice_Set name opt flag =
     (case fl_kind flag of
        StringFlag v \<Rightarrow>
          ([], (set_texts opt flag)\<lparr>fl_kind := StringFlag (if opt_Default opt \<noteq> '''' then opt_Default opt else v)\<rparr>)
      | StringSliceFlag vs \<Rightarrow>
          ([], (set_texts opt flag)\<lparr>fl_kind := StringSliceFlag
             (if opt_Default opt \<noteq> '''' then fold slice_Set (str_Split (CHR '','') (opt_Default opt)) [] else vs)\<rparr>)
      | IntFlag _ \<Rightarrow> ([], set_texts opt flag)
      | BoolFlag _ \<Rightarrow> ([], set_texts opt flag)
      | DurationFlag _ \<Rightarrow> ([], set_texts opt flag)
      | OtherFlag ty \<Rightarrow> ([Errorf (''unsupported type '' @ ty @ '' for flag '' @ name)], flag))"

record wrap_state =
  ws_newFlags :: "cli_Flag list"
  ws_seen :: "string list"
  ws_errs :: "err list"

definition wrap_step :: "slice_setter \<Rightarrow> K3SFlagSet \<Rightarrow> cli_Flag \<Rightarrow> wrap_state \<Rightarrow> wrap_state outcome" where
  "wrap_step slice_Set flagOpts flag st =
     try_then (parseName flag) (\<lambda>name.
       case gm_get flagOpts name of
         None \<Rightarrow> Inr (st\<lparr>ws_errs := ws_errs st @ [Errorf (''missing flag options for k3s flag '' @ name)]\<rparr>)
       | Some opt0 \<Rightarrow>
           (let st = st\<lparr>ws_seen := name # ws_seen st\<rparr>; opt = case_option copyFlag (\<lambda>v. v) opt0 in
            if opt_Drop opt then Inr st
            else case wrap_flag slice_Set name opt flag of
              (errs, flag') \<Rightarrow> Inr (st\<lparr>ws_newFlags := ws_newFlags st @ [flag'], ws_errs := ws_errs st @ errs\<rparr>)))"

text \<open>The options that name no flag of K3s, over the map in some order; the order shows in the message only.\<close>

definition ignored :: "K3SFlagOption option \<Rightarrow> bool" where
  "ignored v = (case v of None \<Rightarrow> False | Some opt \<Rightarrow> opt_Ignore opt)"

definition unknown_options :: "string list \<Rightarrow> K3SFlagSet \<Rightarrow> err list" where
  "unknown_options seen flagOpts =
     map (\<lambda>(k, v). Errorf (''got flag options for unknown k3s flag '' @ k))
       (filter (\<lambda>(k, v). k \<notin> set seen \<and> \<not> ignored v) flagOpts)"

definition commandFromK3S :: "slice_setter \<Rightarrow> cli_Command \<Rightarrow> K3SFlagSet \<Rightarrow> (cli_Command \<times> err list) outcome" where
  "commandFromK3S slice_Set cmd flagOpts =
     try_then (fold_try (wrap_step slice_Set flagOpts) (cmd_Flags cmd)
                 \<lparr>ws_newFlags = [], ws_seen = [], ws_errs = []\<rparr>)
       (\<lambda>st. Inr (cmd\<lparr>cmd_Flags := ws_newFlags st\<rparr>, ws_errs st @ unknown_options (ws_seen st) flagOpts))"

definition mustCmdFromK3S :: "slice_setter \<Rightarrow> cli_Command \<Rightarrow> K3SFlagSet \<Rightarrow> cli_Command outcome" where
  "mustCmdFromK3S slice_Set cmd flagOpts =
     try_then (commandFromK3S slice_Set cmd flagOpts)
       (\<lambda>(cmd', errs). if errs = [] then Inr cmd' else Inl (Panic (''failed to wrap command '' @ cmd_Name cmd)))"

section \<open>The flag tables\<close>

definition rke2Path :: string where "rke2Path = ''/var/lib/rancher/rke2''"

definition server_opts :: K3SFlagSet where
  "server_opts =
    [(''config'', Some copyFlag), (''debug'', Some copyFlag), (''v'', Some hideFlag), (''vmodule'', Some hideFlag),
     (''log'', Some hideFlag), (''alsologtostderr'', Some hideFlag), (''bind-address'', Some copyFlag),
     (''https-listen-port'', Some dropFlag), (''supervisor-port'', Some dropFlag),
     (''apiserver-port'', Some dropFlag), (''apiserver-bind-address'', Some dropFlag),
     (''advertise-address'', Some copyFlag), (''advertise-port'', Some dropFlag), (''tls-san'', Some copyFlag),
     (''tls-san-security'', Some copyFlag),
     (''data-dir'', Some (flag_texts ''(data) Folder to hold state'' rke2Path)), (''disable-agent'', Some hideFlag),
     (''cluster-cidr'', Some copyFlag), (''service-cidr'', Some copyFlag), (''cluster-init'', Some dropFlag),
     (''cluster-reset'', Some copyFlag), (''cluster-reset-restore-path'', Some copyFlag),
     (''cluster-dns'', Some copyFlag), (''cluster-domain'', Some copyFlag), (''flannel-backend'', Some dropFlag),
     (''vpn-auth'', Some dropFlag), (''vpn-auth-file'', Some dropFlag), (''token'', Some copyFlag),
     (''token-file'', Some copyFlag), (''write-kubeconfig'', Some copyFlag),
     (''write-kubeconfig-mode'', Some copyFlag), (''write-kubeconfig-group'', Some copyFlag),
     (''write-kubeconfig-name'', Some copyFlag), (''kube-apiserver-arg'', Some copyFlag),
     (''etcd-arg'', Some copyFlag), (''kube-scheduler-arg'', Some copyFlag),
     (''kube-controller-arg'', Some dropFlag), (''kube-controller-manager-arg'', Some copyFlag),
     (''kube-cloud-controller-manager-arg'', Some copyFlag), (''kube-cloud-controller-arg'', Some dropFlag),
     (''datastore-endpoint'', Some copyFlag), (''datastore-cafile'', Some copyFlag),
     (''datastore-certfile'', Some copyFlag), (''datastore-keyfile'', Some copyFlag), (''kine-tls'', Some dropFlag),
     (''default-local-storage-path'', Some dropFlag),
     (''disable'', Some (flag_texts (''(components) Do not deploy packaged components and delete any deployed components (valid items: '' @ str_Join DisableItems '', '' @ '')'') '''')),
     (''disable-scheduler'', Some copyFlag), (''disable-cloud-controller'', Some copyFlag),
     (''disable-network-policy'', Some dropFlag), (''disable-kube-proxy'', Some copyFlag),
     (''disable-apiserver'', Some copyFlag), (''disable-controller-manager'', Some copyFlag),
     (''disable-etcd'', Some copyFlag), (''etcd-disable-snapshots'', Some copyFlag),
     (''etcd-snapshot-schedule-cron'', Some copyFlag), (''etcd-snapshot-reconcile-interval'', Some copyFlag),
     (''etcd-snapshot-retention'', Some copyFlag), (''etcd-snapshot-dir'', Some copyFlag),
     (''etcd-snapshot-name'', Some copyFlag), (''etcd-snapshot-compress'', Some copyFlag),
     (''node-name'', Some copyFlag), (''with-node-id'', Some copyFlag), (''node-label'', Some copyFlag),
     (''node-taint'', Some copyFlag), (''image-credential-provider-bin-dir'', Some copyFlag),
     (''image-credential-provider-config'', Some copyFlag), (''docker'', Some dropFlag),
     (''container-runtime-endpoint'', Some (flag_texts ''(agent/runtime) Disable embedded containerd and use the CRI socket at the given path'' '''')),
     (''disable-default-registry-endpoint'', Some copyFlag), (''nonroot-devices'', Some copyFlag),
     (''embedded-registry'', Some copyFlag), (''supervisor-metrics'', Some copyFlag),
     (''image-service-endpoint'', Some dropFlag), (''pause-image'', Some dropFlag),
     (''default-runtime'', Some copyFlag), (''private-registry'', Some copyFlag),
     (''system-default-registry'', Some copyFlag), (''node-ip'', Some copyFlag),
     (''node-external-ip'', Some copyFlag), (''node-internal-dns'', Some copyFlag),
     (''node-external-dns'', Some copyFlag), (''resolv-conf'', Some copyFlag), (''flannel-iface'', Some dropFlag),
     (''flannel-conf'', Some dropFlag), (''flannel-cni-conf'', Some dropFlag),
     (''flannel-ipv6-masq'', Some dropFlag), (''flannel-external-ip'', Some dropFlag),
     (''egress-selector-mode'', Some copyFlag), (''kubelet-arg'', Some copyFlag),
     (''kube-proxy-arg'', Some copyFlag), (''rootless'', Some dropFlag), (''prefer-bundled-bin'', Some dropFlag),
     (''agent-token'', Some copyFlag), (''agent-token-file'', Some copyFlag), (''server'', Some copyFlag),
     (''secrets-encryption'', Some hideFlag), (''secrets-encryption-provider'', Some copyFlag),
     (''protect-kernel-defaults'', Some copyFlag), (''snapshotter'', Some copyFlag), (''selinux'', Some copyFlag),
     (''lb-server-port'', Some copyFlag), (''service-node-port-range'', Some copyFlag),
     (''etcd-expose-metrics'', Some copyFlag), (''airgap-extra-registry'', Some copyFlag),
     (''etcd-s3'', Some copyFlag), (''etcd-s3-access-key'', Some copyFlag), (''etcd-s3-bucket'', Some copyFlag),
     (''etcd-s3-bucket-lookup-type'', Some copyFlag), (''etcd-s3-config-secret'', Some copyFlag),
     (''etcd-s3-endpoint'', Some copyFlag), (''etcd-s3-endpoint-ca'', Some copyFlag),
     (''etcd-s3-folder'', Some copyFlag), (''etcd-s3-insecure'', Some copyFlag), (''etcd-s3-proxy'', Some copyFlag),
     (''etcd-s3-region'', Some copyFlag), (''etcd-s3-secret-key'', Some copyFlag),
     (''etcd-s3-session-token'', Some copyFlag), (''etcd-s3-skip-ssl-verify'', Some copyFlag),
     (''etcd-s3-timeout'', Some copyFlag), (''etcd-s3-retention'', Some copyFlag),
     (''disable-helm-controller'', Some dropFlag), (''helm-job-image'', Some copyFlag),
     (''helm-controller-arg'', Some copyFlag), (''enable-pprof'', Some copyFlag),
     (''servicelb-namespace'', Some copyFlag)]"

definition agent_opts :: K3SFlagSet where
  "agent_opts =
    [(''config'', Some copyFlag), (''debug'', Some copyFlag), (''v'', Some hideFlag), (''vmodule'', Some hideFlag),
     (''log'', Some hideFlag), (''alsologtostderr'', Some hideFlag),
     (''data-dir'', Some (flag_texts ''(data) Folder to hold state'' rke2Path)), (''token'', Some copyFlag),
     (''token-file'', Some copyFlag), (''node-name'', Some copyFlag), (''with-node-id'', Some copyFlag),
     (''node-label'', Some copyFlag), (''node-taint'', Some copyFlag),
     (''image-credential-provider-bin-dir'', Some copyFlag), (''image-credential-provider-config'', Some copyFlag),
     (''docker'', Some dropFlag),
     (''container-runtime-endpoint'', Some (flag_texts ''(agent/runtime) Disable embedded containerd and use the CRI socket at the given path'' '''')),
     (''disable-default-registry-endpoint'', Some copyFlag), (''nonroot-devices'', Some copyFlag),
     (''image-service-endpoint'', Some dropFlag), (''pause-image'', Some dropFlag),
     (''default-runtime'', Some copyFlag), (''disable-apiserver-lb'', Some dropFlag),
     (''private-registry'', Some copyFlag), (''node-ip'', Some copyFlag), (''node-external-ip'', Some copyFlag),
     (''node-internal-dns'', Some copyFlag), (''node-external-dns'', Some copyFlag),
     (''resolv-conf'', Some copyFlag), (''flannel-iface'', Some dropFlag), (''flannel-conf'', Some dropFlag),
     (''flannel-cni-conf'', Some dropFlag), (''vpn-auth'', Some dropFlag), (''vpn-auth-file'', Some dropFlag),
     (''kubelet-arg'', Some copyFlag), (''kube-proxy-arg'', Some copyFlag), (''rootless'', Some dropFlag),
     (''prefer-bundled-bin'', Some dropFlag), (''server'', Some copyFlag),
     (''protect-kernel-defaults'', Some copyFlag), (''snapshotter'', Some copyFlag), (''selinux'', Some copyFlag),
     (''lb-server-port'', Some copyFlag), (''airgap-extra-registry'', Some copyFlag),
     (''bind-address'', Some copyFlag), (''enable-pprof'', Some copyFlag)]"

definition snapshot_opts :: K3SFlagSet where
  "snapshot_opts =
    [(''config'', Some copyFlag), (''debug'', Some copyFlag), (''log'', Some copyFlag),
     (''alsologtostderr'', Some copyFlag), (''node-name'', Some copyFlag),
     (''data-dir'', Some (flag_texts ''(data) Folder to hold state'' rke2Path)),
     (''etcd-server'', Some (flag_texts '''' ''https://127.0.0.1:9345'')), (''etcd-token'', Some copyFlag),
     (''name'', Some copyFlag), (''dir'', Some copyFlag), (''snapshot-compress'', Some copyFlag),
     (''snapshot-retention'', Some copyFlag), (''s3'', Some copyFlag), (''s3-access-key'', Some copyFlag),
     (''s3-bucket'', Some copyFlag), (''s3-bucket-lookup-type'', Some copyFlag),
     (''s3-config-secret'', Some copyFlag), (''s3-endpoint'', Some copyFlag), (''s3-endpoint-ca'', Some copyFlag),
     (''s3-folder'', Some copyFlag), (''s3-insecure'', Some copyFlag), (''s3-proxy'', Some copyFlag),
     (''s3-region'', Some copyFlag), (''s3-secret-key'', Some copyFlag), (''s3-session-token'', Some copyFlag),
     (''s3-skip-ssl-verify'', Some copyFlag), (''s3-timeout'', Some copyFlag), (''s3-retention'', Some copyFlag)]"

text \<open>Flags that RKE2 adds.\<close>

definition new_flag :: "flag_kind \<Rightarrow> string \<Rightarrow> string \<Rightarrow> string list \<Rightarrow> string \<Rightarrow> cli_Flag" where
  "new_flag k name usage env dest =
     \<lparr>fl_kind = k, fl_Names = [name], fl_Usage = usage, fl_EnvVars = env, fl_Hidden = False, fl_Destination = dest\<rparr>"

definition upper_char :: "char \<Rightarrow> char" where
  "upper_char c = (if 97 \<le> (of_char c :: nat) \<and> (of_char c :: nat) \<le> 122 then char_of ((of_char c :: nat) - 32) else c)"

definition str_ToUpper :: "string \<Rightarrow> string" where
  "str_ToUpper s = map upper_char s"

definition str_ReplaceAll1 :: "char \<Rightarrow> char \<Rightarrow> string \<Rightarrow> string" where
  "str_ReplaceAll1 a b s = map (\<lambda>c. if c = a then b else c) s"

definition env_name :: "string \<Rightarrow> string \<Rightarrow> string" where
  "env_name component suffix = ''RKE2_'' @ str_ToUpper (str_ReplaceAll1 (CHR ''-'') (CHR ''_'') component) @ suffix"

definition extra_mount_flag :: "string \<times> string \<Rightarrow> cli_Flag" where
  "extra_mount_flag = (\<lambda>(component, dest). new_flag (StringSliceFlag []) (component @ ''-extra-mount'')
     (''(components) '' @ component @ '' extra volume mounts'') [env_name component ''_EXTRA_MOUNT''] dest)"

definition extra_env_flag :: "string \<times> string \<Rightarrow> cli_Flag" where
  "extra_env_flag = (\<lambda>(component, dest). new_flag (StringSliceFlag []) (component @ ''-extra-env'')
     (''(components) '' @ component @ '' extra environment variables'') [env_name component ''_EXTRA_ENV''] dest)"

definition commonFlag :: "cli_Flag list" where
  "commonFlag =
    [new_flag (StringFlag '''') Img_KubeAPIServer
         ''(image) Override image to use for kube-apiserver''
         [''RKE2_KUBE_APISERVER_IMAGE''] ''Images.KubeAPIServer'',
     new_flag (StringFlag '''') Img_KubeControllerManager
         ''(image) Override image to use for kube-controller-manager''
         [''RKE2_KUBE_CONTROLLER_MANAGER_IMAGE''] ''Images.KubeControllerManager'',
     new_flag (StringFlag '''') Img_CloudControllerManager
         ''(image) Override image to use for cloud-controller-manager''
         [''RKE2_CLOUD_CONTROLLER_MANAGER_IMAGE''] ''Images.CloudControllerManager'',
     new_flag (StringFlag '''') Img_KubeProxy
         ''(image) Override image to use for kube-proxy'' [''RKE2_KUBE_PROXY_IMAGE''] ''Images.KubeProxy'',
     new_flag (StringFlag '''') Img_KubeScheduler
         ''(image) Override image to use for kube-scheduler''
         [''RKE2_KUBE_SCHEDULER_IMAGE''] ''Images.KubeScheduler'',
     new_flag (StringFlag '''') Img_Pause
         ''(image) Override image to use for pause'' [''RKE2_PAUSE_IMAGE''] ''Images.Pause'',
     new_flag (StringFlag '''') Img_Runtime
         ''(image) Override image to use for runtime binaries (containerd, kubectl, crictl, etc)''
         [''RKE2_RUNTIME_IMAGE''] ''Images.Runtime'',
     new_flag (StringFlag '''') Img_ETCD
         ''(image) Override image to use for etcd'' [''RKE2_ETCD_IMAGE''] ''Images.ETCD'',
     new_flag (StringFlag '''') ''kubelet-path''
         ''(experimental/agent) Override kubelet binary path'' [''RKE2_KUBELET_PATH''] ''KubeletPath'',
     new_flag (StringFlag '''') ''cloud-provider-name''
         ''(cloud provider) Cloud provider name'' [''RKE2_CLOUD_PROVIDER_NAME''] ''CloudProviderName'',
     new_flag (StringFlag '''') ''cloud-provider-config''
         ''(cloud provider) Cloud provider configuration file path''
         [''RKE2_CLOUD_PROVIDER_CONFIG''] ''CloudProviderConfig'',
     new_flag (BoolFlag False) ''node-name-from-cloud-provider-metadata''
         ''(cloud provider) Set node name from instance metadata service hostname''
         [''RKE2_NODE_NAME_FROM_CLOUD_PROVIDER_METADATA''] ''CloudProviderMetadataHostname'',
     new_flag (StringFlag '''') ''profile''
         ''(security) Validate system configuration against the selected benchmark (valid items: cis, etcd)''
         [''RKE2_CIS_PROFILE''] '''',
     new_flag (StringFlag '''') ''audit-policy-file''
         ''(security) Path to the file that defines the audit policy configuration''
         [''RKE2_AUDIT_POLICY_FILE''] ''AuditPolicyFile'',
     new_flag (StringFlag '''') ''pod-security-admission-config-file''
         ''(security) Path to the file that defines Pod Security Admission configuration''
         [''RKE2_POD_SECURITY_ADMISSION_CONFIG_FILE''] ''PodSecurityAdmissionConfigFile'',
     new_flag (StringSliceFlag []) ''control-plane-resource-requests''
         ''(components) Control Plane resource requests''
         [''RKE2_CONTROL_PLANE_RESOURCE_REQUESTS''] ''ControlPlaneResourceRequests'',
     new_flag (StringSliceFlag []) ''control-plane-resource-limits''
         ''(components) Control Plane resource limits''
         [''RKE2_CONTROL_PLANE_RESOURCE_LIMITS''] ''ControlPlaneResourceLimits'',
     new_flag (StringSliceFlag []) ''control-plane-probe-configuration''
         ''(components) Control Plane Probe configuration''
         [''RKE2_CONTROL_PLANE_PROBE_CONFIGURATION''] ''ControlPlaneProbeConf''] @
    map extra_mount_flag [(KubeAPIServer, ''ExtraMounts.KubeAPIServer''), (KubeScheduler, ''ExtraMounts.KubeScheduler''),
       (KubeControllerManager, ''ExtraMounts.KubeControllerManager''), (KubeProxy, ''ExtraMounts.KubeProxy''),
       (Etcd, ''ExtraMounts.Etcd''), (CloudControllerManager, ''ExtraMounts.CloudControllerManager'')] @
    map extra_env_flag [(KubeAPIServer, ''ExtraEnv.KubeAPIServer''), (KubeScheduler, ''ExtraEnv.KubeScheduler''),
       (KubeControllerManager, ''ExtraEnv.KubeControllerManager''), (KubeProxy, ''ExtraEnv.KubeProxy''),
       (Etcd, ''ExtraEnv.Etcd''), (CloudControllerManager, ''ExtraEnv.CloudControllerManager'')]"

definition CNIFlag :: cli_Flag where
  "CNIFlag = new_flag (StringSliceFlag [''canal'']) ''cni''
     (''(networking) CNI Plugins to deploy, one of none, '' @ str_Join CNIItems '', '' @
      ''; optionally with multus as the first value to enable the multus meta-plugin'') [''RKE2_CNI''] ''CNI''"

definition IngressControllerFlag :: cli_Flag where
  "IngressControllerFlag = new_flag (StringSliceFlag []) ''ingress-controller''
     (''(networking) Ingress Controllers to deploy, one of none, '' @ str_Join IngressItems '', '' @
      ''; the first value will be set as the default ingress class'')
     [''RKE2_INGRESS_CONTROLLER'', ''RKE_INGRESS_CONTROLLER''] ''IngressController''"

definition ServiceLBFlag :: cli_Flag where
  "ServiceLBFlag = new_flag (BoolFlag False) ''enable-servicelb''
     ''(components) Enable rke2 default cloud controller manager's service controller'' [''RKE2_ENABLE_SERVICELB''] ''''"

definition PrimeFlag :: cli_Flag where
  "PrimeFlag = (new_flag (BoolFlag False) ''prime''
     ''Configures RKE2 to utilize the Rancher Prime Registry and features'' [''RKE2_PRIME''] '''')\<lparr>fl_Hidden := True\<rparr>"

definition serverFlag :: "cli_Flag list" where
  "serverFlag = [CNIFlag, IngressControllerFlag, ServiceLBFlag, PrimeFlag]"

definition deprecatedFlags :: "cli_Flag list" where
  "deprecatedFlags = [(new_flag (StringFlag '''') ''system-default-registry''
     ''(deprecated) This flag is no longer supported on agents'' [''RKE2_SYSTEM_DEFAULT_REGISTRY''] '''')\<lparr>fl_Hidden := True\<rparr>]"

text \<open>The commands that run a node.\<close>

definition NewServerCommand :: "slice_setter \<Rightarrow> cli_Command \<Rightarrow> cli_Command outcome" where
  "NewServerCommand slice_Set k3s =
     try_then (mustCmdFromK3S slice_Set k3s server_opts)
       (\<lambda>cmd. Inr (cmd\<lparr>cmd_Flags := cmd_Flags cmd @ serverFlag @ commonFlag\<rparr>))"

definition NewAgentCommand :: "slice_setter \<Rightarrow> cli_Command \<Rightarrow> cli_Command outcome" where
  "NewAgentCommand slice_Set k3s =
     try_then (mustCmdFromK3S slice_Set k3s agent_opts)
       (\<lambda>cmd. Inr (cmd\<lparr>cmd_Flags := cmd_Flags cmd @ commonFlag @ deprecatedFlags\<rparr>))"

text \<open>
  The management commands: a command with subcommands, each wrapped with the options of its own together
  with the shared ones, or with the shared ones alone.
\<close>

definition wrap_subcommand ::
  "slice_setter \<Rightarrow> K3SFlagSet \<Rightarrow> (string, K3SFlagSet) gomap \<Rightarrow> cli_Command \<Rightarrow> cli_Command outcome" where
  "wrap_subcommand slice_Set k3sOpts subOpts sub =
     mustCmdFromK3S slice_Set sub
       (case gm_get subOpts (cmd_Name sub) of Some s \<Rightarrow> CopyInto k3sOpts s | None \<Rightarrow> k3sOpts)"

fun wrap_subcommands ::
  "slice_setter \<Rightarrow> K3SFlagSet \<Rightarrow> (string, K3SFlagSet) gomap \<Rightarrow> cli_Command list \<Rightarrow> cli_Command list outcome" where
  "wrap_subcommands slice_Set k3sOpts subOpts [] = Inr []"
| "wrap_subcommands slice_Set k3sOpts subOpts (sub # subs) =
     try_then (wrap_subcommand slice_Set k3sOpts subOpts sub) (\<lambda>sub'.
       try_then (wrap_subcommands slice_Set k3sOpts subOpts subs) (\<lambda>subs'. Inr (sub' # subs')))"

type_synonym command_group = "cli_Command \<times> cli_Command list"

definition wrap_group ::
  "slice_setter \<Rightarrow> K3SFlagSet \<Rightarrow> K3SFlagSet \<Rightarrow> (string, K3SFlagSet) gomap \<Rightarrow> command_group \<Rightarrow> command_group outcome" where
  "wrap_group slice_Set topOpts k3sOpts subOpts = (\<lambda>(command, subs).
     try_then (wrap_subcommands slice_Set k3sOpts subOpts subs) (\<lambda>subs'.
       try_then (mustCmdFromK3S slice_Set command topOpts) (\<lambda>cmd. Inr (cmd, subs'))))"

definition server_url :: string where "server_url = ''https://127.0.0.1:9345''"

definition data_dir_option :: "string \<times> K3SFlagOption option" where
  "data_dir_option = (''data-dir'', Some (flag_texts ''(data) Folder to hold state'' rke2Path))"

definition copies :: "string list \<Rightarrow> K3SFlagSet" where
  "copies names = map (\<lambda>n. (n, Some copyFlag)) names"

definition snapshot_sub_opts :: "(string, K3SFlagSet) gomap" where
  "snapshot_sub_opts = [(''ls'', copies [''output''])]"

definition NewEtcdSnapshotCommand :: "slice_setter \<Rightarrow> command_group \<Rightarrow> command_group outcome" where
  "NewEtcdSnapshotCommand slice_Set = wrap_group slice_Set snapshot_opts snapshot_opts snapshot_sub_opts"

definition token_opts :: K3SFlagSet where
  "token_opts = copies [''kubeconfig''] @ [data_dir_option]"

definition token_sub_opts :: "(string, K3SFlagSet) gomap" where
  "token_sub_opts =
     [(''create'', copies [''description'', ''groups'', ''ttl'', ''usages'']),
      (''list'', copies [''output'']),
      (''rotate'', copies [''token'', ''new-token''] @ [(''server'', Some (flag_texts '''' server_url))])]"

definition NewTokenCommand :: "slice_setter \<Rightarrow> command_group \<Rightarrow> command_group outcome" where
  "NewTokenCommand slice_Set = wrap_group slice_Set [] token_opts token_sub_opts"

definition encrypt_opts :: K3SFlagSet where
  "encrypt_opts = copies [''data-dir'', ''token''] @ [(''server'', Some (flag_texts '''' server_url))]"

definition encrypt_sub_opts :: "(string, K3SFlagSet) gomap" where
  "encrypt_sub_opts =
     [(''status'', copies [''output'']), (''prepare'', copies [''force'']), (''rotate'', copies [''force'']),
      (''reencrypt'', copies [''force'', ''skip''])]"

definition NewSecretsEncryptCommand :: "slice_setter \<Rightarrow> command_group \<Rightarrow> command_group outcome" where
  "NewSecretsEncryptCommand slice_Set = wrap_group slice_Set [] encrypt_opts encrypt_sub_opts"

definition cert_sub_opts :: "(string, K3SFlagSet) gomap" where
  "cert_sub_opts =
     [(''rotate'', copies [''alsologtostderr'', ''config'', ''debug'', ''log'', ''service''] @ [data_dir_option]),
      (''rotate-ca'', [(''server'', Some (flag_texts '''' server_url))] @ copies [''path'', ''force''] @ [data_dir_option]),
      (''check'', copies [''alsologtostderr'', ''config'', ''debug'', ''log'', ''service'', ''output''] @ [data_dir_option])]"

definition NewCertCommand :: "slice_setter \<Rightarrow> command_group \<Rightarrow> command_group outcome" where
  "NewCertCommand slice_Set = wrap_group slice_Set [] [] cert_sub_opts"

section \<open>What wrapping does\<close>

definition primary :: "cli_Flag \<Rightarrow> string" where
  "primary flag = projr (parseName flag)"

definition option_of :: "K3SFlagSet \<Rightarrow> cli_Flag \<Rightarrow> K3SFlagOption" where
  "option_of opts flag = (case gm_get opts (primary flag) of Some (Some opt) \<Rightarrow> opt | _ \<Rightarrow> copyFlag)"

definition known :: "K3SFlagSet \<Rightarrow> cli_Flag \<Rightarrow> bool" where
  "known opts flag \<longleftrightarrow> primary flag \<in> set (gm_keys opts)"

definition kept :: "K3SFlagSet \<Rightarrow> cli_Flag \<Rightarrow> bool" where
  "kept opts flag \<longleftrightarrow> known opts flag \<and> \<not> opt_Drop (option_of opts flag)"

definition wrapped :: "slice_setter \<Rightarrow> K3SFlagSet \<Rightarrow> cli_Flag \<Rightarrow> cli_Flag" where
  "wrapped slice_Set opts flag = snd (wrap_flag slice_Set (primary flag) (option_of opts flag) flag)"

definition supported :: "cli_Flag \<Rightarrow> bool" where
  "supported flag = (case fl_kind flag of OtherFlag _ \<Rightarrow> False | _ \<Rightarrow> True)"

definition flag_errors :: "slice_setter \<Rightarrow> K3SFlagSet \<Rightarrow> cli_Flag \<Rightarrow> err list" where
  "flag_errors slice_Set opts flag =
     (if \<not> known opts flag then [Errorf (''missing flag options for k3s flag '' @ primary flag)]
      else if kept opts flag then fst (wrap_flag slice_Set (primary flag) (option_of opts flag) flag) else [])"

lemma parseName_named: "fl_Names flag \<noteq> [] \<Longrightarrow> parseName flag = Inr (primary flag)"
  by (auto simp: primary_def parseName_def split: list.splits)

lemma wrap_step_spec:
  assumes "fl_Names flag \<noteq> []"
  shows "wrap_step slice_Set opts flag st = Inr (st\<lparr>
      ws_newFlags := ws_newFlags st @ (if kept opts flag then [wrapped slice_Set opts flag] else []),
      ws_seen := (if known opts flag then [primary flag] else []) @ ws_seen st,
      ws_errs := ws_errs st @ flag_errors slice_Set opts flag\<rparr>)"
proof (cases "gm_get opts (primary flag)")
  case None
  then have "\<not> known opts flag"
    by (simp add: known_def gm_get_None_iff)
  with None show ?thesis
    by (simp add: wrap_step_def parseName_named [OF assms] kept_def flag_errors_def)
next
  case (Some opt0)
  then have "known opts flag" and "option_of opts flag = case_option copyFlag (\<lambda>v. v) opt0"
    using gm_get_None_iff [of opts "primary flag"] by (auto simp: known_def option_of_def split: option.splits)
  with Some show ?thesis
    by (simp add: wrap_step_def parseName_named [OF assms] kept_def flag_errors_def wrapped_def Let_def
        split: prod.splits)
qed

lemma wrap_loop:
  assumes "\<forall>flag \<in> set flags. fl_Names flag \<noteq> []"
  shows "fold_try (wrap_step slice_Set opts) flags st = Inr (st\<lparr>
      ws_newFlags := ws_newFlags st @ map (wrapped slice_Set opts) (filter (kept opts) flags),
      ws_seen := rev (map primary (filter (known opts) flags)) @ ws_seen st,
      ws_errs := ws_errs st @ concat (map (flag_errors slice_Set opts) flags)\<rparr>)"
  using assms by (induction flags arbitrary: st) (simp_all add: wrap_step_spec)

text \<open>When the table fits the flags: every flag has an entry and can be wrapped, and every entry a flag.\<close>

definition fits :: "cli_Flag list \<Rightarrow> K3SFlagSet \<Rightarrow> bool" where
  "fits flags opts \<longleftrightarrow> (\<forall>flag \<in> set flags. known opts flag \<and> (kept opts flag \<longrightarrow> supported flag)) \<and>
     (\<forall>(k, v) \<in> set opts. k \<in> primary ` set flags \<or> ignored v)"

lemma flag_errors_empty: "flag_errors slice_Set opts flag = [] \<longleftrightarrow> known opts flag \<and> (kept opts flag \<longrightarrow> supported flag)"
  by (simp add: flag_errors_def wrap_flag_def supported_def split: flag_kind.splits)

lemma unknown_options_empty: "unknown_options seen opts = [] \<longleftrightarrow> (\<forall>(k, v) \<in> set opts. k \<in> set seen \<or> ignored v)"
  by (auto simp: unknown_options_def filter_empty_conv)

lemma must_spec:
  assumes "\<forall>flag \<in> set (cmd_Flags cmd). fl_Names flag \<noteq> []"
  shows "mustCmdFromK3S slice_Set cmd opts =
    (if fits (cmd_Flags cmd) opts
     then Inr (cmd\<lparr>cmd_Flags := map (wrapped slice_Set opts) (filter (kept opts) (cmd_Flags cmd))\<rparr>)
     else Inl (Panic (''failed to wrap command '' @ cmd_Name cmd)))"
proof -
  let ?errs = "concat (map (flag_errors slice_Set opts) (cmd_Flags cmd)) @
      unknown_options (rev (map primary (filter (known opts) (cmd_Flags cmd)))) opts"
  have "?errs = [] \<longleftrightarrow> fits (cmd_Flags cmd) opts"
    by (fastforce simp: fits_def flag_errors_empty unknown_options_empty)
  then show ?thesis
    by (simp add: mustCmdFromK3S_def commandFromK3S_def wrap_loop [OF assms])
qed


text \<open>Wrapping changes neither names nor environment variables nor destinations.\<close>

lemma wrapped_keeps [simp]:
  "fl_Names (wrapped slice_Set opts flag) = fl_Names flag"
  "fl_EnvVars (wrapped slice_Set opts flag) = fl_EnvVars flag"
  "fl_Destination (wrapped slice_Set opts flag) = fl_Destination flag"
  by (simp_all add: wrapped_def wrap_flag_def set_texts_def split: flag_kind.splits)

lemma primary_names: "fl_Names f = fl_Names g \<Longrightarrow> primary f = primary g"
  by (simp only: primary_def parseName_def)

lemma primary_wrapped [simp]: "primary (wrapped slice_Set opts flag) = primary flag"
  by (rule primary_names) simp

lemma wrapped_default:
  assumes "gm_get opts (primary flag) = Some (Some opt)" and "opt_Default opt \<noteq> ''''"
    and "fl_kind (wrapped slice_Set opts flag) = StringFlag v"
  shows "v = opt_Default opt"
  using assms by (auto simp: wrapped_def wrap_flag_def option_of_def set_texts_def split: flag_kind.splits)

text \<open>
  C40: what wrapping a K3s command gives. The command is made exactly if every K3s flag has an entry in the
  table and a kind that can be wrapped, unless it is dropped, and every entry of the table that is not marked
  as ignorable names a flag of K3s; then it has the flags that are not dropped, in the order of K3s, with
  their names, environment variables and destinations. In every other case the process panics at start.
\<close>

theorem command_wrapped:
  assumes "\<forall>flag \<in> set (cmd_Flags cmd). fl_Names flag \<noteq> []"
  shows "(fits (cmd_Flags cmd) opts \<longrightarrow> (\<exists>cmd'. mustCmdFromK3S slice_Set cmd opts = Inr cmd' \<and>
           cmd_Name cmd' = cmd_Name cmd \<and>
           map fl_Names (cmd_Flags cmd') = map fl_Names (filter (kept opts) (cmd_Flags cmd)) \<and>
           map fl_EnvVars (cmd_Flags cmd') = map fl_EnvVars (filter (kept opts) (cmd_Flags cmd)) \<and>
           map fl_Destination (cmd_Flags cmd') = map fl_Destination (filter (kept opts) (cmd_Flags cmd)))) \<and>
         (\<not> fits (cmd_Flags cmd) opts \<longrightarrow>
           mustCmdFromK3S slice_Set cmd opts = Inl (Panic (''failed to wrap command '' @ cmd_Name cmd)))"
  by (simp add: must_spec [OF assms] comp_def)

definition k3s_token_rotate :: cli_Command where
  "k3s_token_rotate = \<lparr>cmd_Name = ''rotate'', cmd_Flags =
     map (\<lambda>n. new_flag (StringFlag '''') n '''' [] '''') [''kubeconfig'', ''data-dir'', ''token'', ''server'', ''new-token'']\<rparr>"

definition token_rotate_table :: K3SFlagSet where
  "token_rotate_table = CopyInto token_opts (the (gm_get token_sub_opts ''rotate''))"

theorem command_wrapped_witness:
  "\<exists>cmd'. mustCmdFromK3S (\<lambda>v vs. vs @ [v]) k3s_token_rotate token_rotate_table = Inr cmd' \<and>
     map fl_Names (cmd_Flags cmd') = [[''kubeconfig''], [''data-dir''], [''token''], [''server''], [''new-token'']]"
proof -
  have "\<forall>flag \<in> set (cmd_Flags k3s_token_rotate). fl_Names flag \<noteq> []"
    by code_simp
  moreover have "fits (cmd_Flags k3s_token_rotate) token_rotate_table"
    by code_simp
  moreover have "map fl_Names (filter (kept token_rotate_table) (cmd_Flags k3s_token_rotate)) =
      [[''kubeconfig''], [''data-dir''], [''token''], [''server''], [''new-token'']]"
    by code_simp
  ultimately show ?thesis
    using command_wrapped [of k3s_token_rotate token_rotate_table "\<lambda>v vs. vs @ [v]"] by metis
qed

text \<open>The names of a table that are not dropped are free for no flag that RKE2 adds.\<close>

definition kept_names :: "K3SFlagSet \<Rightarrow> string list" where
  "kept_names opts = map fst (filter (\<lambda>(k, v). \<not> opt_Drop (case_option copyFlag (\<lambda>x. x) v)) opts)"

lemma kept_in_names: "kept opts flag \<Longrightarrow> primary flag \<in> set (kept_names opts)"
  using map_of_SomeD [of opts "primary flag"]
  by (auto simp: kept_def known_def kept_names_def option_of_def gm_get_def gm_keys_def image_iff
      split: option.splits dest: weak_map_of_SomeI)

lemma primary_plain: "str_TrimSpace n = n \<Longrightarrow> 1 < length n \<Longrightarrow> fl_Names f = [n] \<Longrightarrow> primary f = n"
  by (simp add: primary_def parseName_def)

lemma common_names: "map primary commonFlag =
    [''kube-apiserver-image'', ''kube-controller-manager-image'', ''cloud-controller-manager-image'',
     ''kube-proxy-image'', ''kube-scheduler-image'', ''pause-image'', ''runtime-image'', ''etcd-image'', ''kubelet-path'',
     ''cloud-provider-name'', ''cloud-provider-config'', ''node-name-from-cloud-provider-metadata'', ''profile'',
     ''audit-policy-file'', ''pod-security-admission-config-file'', ''control-plane-resource-requests'',
     ''control-plane-resource-limits'', ''control-plane-probe-configuration'', ''kube-apiserver-extra-mount'',
     ''kube-scheduler-extra-mount'', ''kube-controller-manager-extra-mount'', ''kube-proxy-extra-mount'',
     ''etcd-extra-mount'', ''cloud-controller-manager-extra-mount'', ''kube-apiserver-extra-env'',
     ''kube-scheduler-extra-env'', ''kube-controller-manager-extra-env'', ''kube-proxy-extra-env'',
     ''etcd-extra-env'', ''cloud-controller-manager-extra-env'']"
  by code_simp

lemma server_names: "map primary serverFlag = [''cni'', ''ingress-controller'', ''enable-servicelb'', ''prime'']"
  by code_simp

lemma deprecated_names: "map primary deprecatedFlags = [''system-default-registry'']"
  by code_simp

lemma added_names:
  "distinct (map primary (serverFlag @ commonFlag))" "distinct (map primary (commonFlag @ deprecatedFlags))"
  unfolding map_append common_names server_names deprecated_names by simp_all

lemma kept_server: "kept_names server_opts =
    [''config'', ''debug'', ''v'', ''vmodule'', ''log'', ''alsologtostderr'', ''bind-address'',
     ''advertise-address'', ''tls-san'', ''tls-san-security'', ''data-dir'', ''disable-agent'', ''cluster-cidr'',
     ''service-cidr'', ''cluster-reset'', ''cluster-reset-restore-path'', ''cluster-dns'', ''cluster-domain'',
     ''token'', ''token-file'', ''write-kubeconfig'', ''write-kubeconfig-mode'', ''write-kubeconfig-group'',
     ''write-kubeconfig-name'', ''kube-apiserver-arg'', ''etcd-arg'', ''kube-scheduler-arg'',
     ''kube-controller-manager-arg'', ''kube-cloud-controller-manager-arg'', ''datastore-endpoint'',
     ''datastore-cafile'', ''datastore-certfile'', ''datastore-keyfile'', ''disable'', ''disable-scheduler'',
     ''disable-cloud-controller'', ''disable-kube-proxy'', ''disable-apiserver'', ''disable-controller-manager'',
     ''disable-etcd'', ''etcd-disable-snapshots'', ''etcd-snapshot-schedule-cron'',
     ''etcd-snapshot-reconcile-interval'', ''etcd-snapshot-retention'', ''etcd-snapshot-dir'',
     ''etcd-snapshot-name'', ''etcd-snapshot-compress'', ''node-name'', ''with-node-id'', ''node-label'',
     ''node-taint'', ''image-credential-provider-bin-dir'', ''image-credential-provider-config'',
     ''container-runtime-endpoint'', ''disable-default-registry-endpoint'', ''nonroot-devices'',
     ''embedded-registry'', ''supervisor-metrics'', ''default-runtime'', ''private-registry'',
     ''system-default-registry'', ''node-ip'', ''node-external-ip'', ''node-internal-dns'', ''node-external-dns'',
     ''resolv-conf'', ''egress-selector-mode'', ''kubelet-arg'', ''kube-proxy-arg'', ''agent-token'',
     ''agent-token-file'', ''server'', ''secrets-encryption'', ''secrets-encryption-provider'',
     ''protect-kernel-defaults'', ''snapshotter'', ''selinux'', ''lb-server-port'', ''service-node-port-range'',
     ''etcd-expose-metrics'', ''airgap-extra-registry'', ''etcd-s3'', ''etcd-s3-access-key'', ''etcd-s3-bucket'',
     ''etcd-s3-bucket-lookup-type'', ''etcd-s3-config-secret'', ''etcd-s3-endpoint'', ''etcd-s3-endpoint-ca'',
     ''etcd-s3-folder'', ''etcd-s3-insecure'', ''etcd-s3-proxy'', ''etcd-s3-region'', ''etcd-s3-secret-key'',
     ''etcd-s3-session-token'', ''etcd-s3-skip-ssl-verify'', ''etcd-s3-timeout'', ''etcd-s3-retention'',
     ''helm-job-image'', ''helm-controller-arg'', ''enable-pprof'', ''servicelb-namespace'']"
  by code_simp

lemma kept_agent: "kept_names agent_opts =
    [''config'', ''debug'', ''v'', ''vmodule'', ''log'', ''alsologtostderr'', ''data-dir'', ''token'',
     ''token-file'', ''node-name'', ''with-node-id'', ''node-label'', ''node-taint'',
     ''image-credential-provider-bin-dir'', ''image-credential-provider-config'', ''container-runtime-endpoint'',
     ''disable-default-registry-endpoint'', ''nonroot-devices'', ''default-runtime'', ''private-registry'',
     ''node-ip'', ''node-external-ip'', ''node-internal-dns'', ''node-external-dns'', ''resolv-conf'',
     ''kubelet-arg'', ''kube-proxy-arg'', ''server'', ''protect-kernel-defaults'', ''snapshotter'', ''selinux'',
     ''lb-server-port'', ''airgap-extra-registry'', ''bind-address'', ''enable-pprof'']"
  by code_simp

lemma added_names_free:
  "\<forall>n \<in> set (kept_names server_opts). n \<notin> set (map primary (serverFlag @ commonFlag))"
  "\<forall>n \<in> set (kept_names agent_opts). n \<notin> set (map primary (commonFlag @ deprecatedFlags))"
  unfolding map_append common_names server_names deprecated_names kept_server kept_agent by simp_all


lemma wrapped_with_added:
  assumes named: "\<forall>flag \<in> set (cmd_Flags k3s). fl_Names flag \<noteq> []" and "distinct (map primary (cmd_Flags k3s))"
    and must: "mustCmdFromK3S slice_Set k3s opts = Inr cmd"
    and added: "distinct (map primary added)" "\<forall>n \<in> set (kept_names opts). n \<notin> set (map primary added)"
  shows "distinct (map primary (cmd_Flags cmd @ added))"
proof -
  from must have flags: "cmd_Flags cmd = map (wrapped slice_Set opts) (filter (kept opts) (cmd_Flags k3s))"
    by (auto simp: must_spec [OF named] split: if_splits)
  have "distinct (map primary (cmd_Flags cmd))"
    using assms(2) by (simp add: flags comp_def distinct_map_filter)
  moreover have "primary ` set (cmd_Flags cmd) \<subseteq> set (kept_names opts)"
    using kept_in_names by (auto simp: flags)
  ultimately show ?thesis
    using added by auto
qed

lemma wrapped_data_dir:
  assumes named: "\<forall>flag \<in> set (cmd_Flags k3s). fl_Names flag \<noteq> []"
    and must: "mustCmdFromK3S slice_Set k3s opts = Inr cmd"
    and "gm_get opts ''data-dir'' = Some (snd data_dir_option)"
    and flag: "flag \<in> set (cmd_Flags cmd)" "primary flag = ''data-dir''" "fl_kind flag = StringFlag v"
  shows "v = rke2Path"
proof -
  from must flag(1) obtain f where f: "flag = wrapped slice_Set opts f"
    by (auto simp: must_spec [OF named] split: if_splits)
  with flag have "v = opt_Default (flag_texts ''(data) Folder to hold state'' rke2Path)"
    using assms(3) by (intro wrapped_default [of opts f _ slice_Set]) (auto simp: data_dir_option_def flag_texts_def rke2Path_def)
  then show ?thesis
    by (simp add: flag_texts_def)
qed

lemma data_dir_tables:
  "gm_get server_opts ''data-dir'' = Some (snd data_dir_option)" "gm_get agent_opts ''data-dir'' = Some (snd data_dir_option)"
  by (simp_all add: gm_get_def server_opts_def agent_opts_def data_dir_option_def)

lemma data_dir_not_added:
  "''data-dir'' \<notin> set (map primary (serverFlag @ commonFlag))" "''data-dir'' \<notin> set (map primary (commonFlag @ deprecatedFlags))"
  unfolding map_append common_names server_names deprecated_names by simp_all

text \<open>
  The server and the agent command can be parsed. If the flags of the K3s command have distinct names,
  then so have those of the RKE2 command, although RKE2 adds flags of its own, one of them with the name of a
  flag of K3s; and a data directory given as a string flag defaults to that of RKE2.
\<close>

theorem node_commands:
  assumes named: "\<forall>flag \<in> set (cmd_Flags k3s). fl_Names flag \<noteq> []"
    and unique: "distinct (map primary (cmd_Flags k3s))"
    and new: "NewServerCommand slice_Set k3s = Inr cmd \<or> NewAgentCommand slice_Set k3s = Inr cmd"
  shows "distinct (map primary (cmd_Flags cmd)) \<and>
    (\<forall>flag v. flag \<in> set (cmd_Flags cmd) \<longrightarrow> primary flag = ''data-dir'' \<longrightarrow> fl_kind flag = StringFlag v \<longrightarrow> v = rke2Path)"
proof -
  from new obtain opts added cmd0 where must: "mustCmdFromK3S slice_Set k3s opts = Inr cmd0"
    and flags: "cmd_Flags cmd = cmd_Flags cmd0 @ added"
    and added: "distinct (map primary added)" "\<forall>n \<in> set (kept_names opts). n \<notin> set (map primary added)"
    and dir: "gm_get opts ''data-dir'' = Some (snd data_dir_option)" "''data-dir'' \<notin> set (map primary added)"
    using added_names added_names_free data_dir_tables data_dir_not_added
    by (fastforce simp: NewServerCommand_def NewAgentCommand_def)
  show ?thesis
    using wrapped_with_added [OF named unique must added] wrapped_data_dir [OF named must dir(1)] dir(2)
    unfolding flags set_append set_map by (metis Un_iff image_eqI)
qed

definition k3s_agent :: cli_Command where
  "k3s_agent = \<lparr>cmd_Name = ''agent'', cmd_Flags = map (\<lambda>n. new_flag (StringFlag '''') n '''' [] '''') (gm_keys agent_opts)\<rparr>"

lemma k3s_agent_names: "map primary (cmd_Flags k3s_agent) = gm_keys agent_opts"
  by code_simp

lemma k3s_agent_fits: "fits (cmd_Flags k3s_agent) agent_opts"
proof -
  have "set (map primary (cmd_Flags k3s_agent)) = set (gm_keys agent_opts)"
    by (simp only: k3s_agent_names)
  then have "known agent_opts flag" if "flag \<in> set (cmd_Flags k3s_agent)" for flag
    using that by (auto simp: known_def)
  moreover have "k \<in> primary ` set (cmd_Flags k3s_agent)" if "(k, v) \<in> set agent_opts" for k v
    using that \<open>set (map primary (cmd_Flags k3s_agent)) = set (gm_keys agent_opts)\<close>
    by (force simp: gm_keys_def)
  moreover have "supported flag" if "flag \<in> set (cmd_Flags k3s_agent)" for flag
    using that by (auto simp: k3s_agent_def supported_def new_flag_def)
  ultimately show ?thesis
    by (auto simp: fits_def)
qed

lemma agent_keys_distinct: "distinct (gm_keys agent_opts)"
  by (simp add: gm_keys_def agent_opts_def)

theorem node_commands_witness:
  "\<exists>cmd. NewAgentCommand (\<lambda>v vs. vs @ [v]) k3s_agent = Inr cmd \<and> distinct (map primary (cmd_Flags cmd))"
proof -
  have named: "\<forall>flag \<in> set (cmd_Flags k3s_agent). fl_Names flag \<noteq> []"
    by (simp add: k3s_agent_def new_flag_def)
  obtain cmd where "NewAgentCommand (\<lambda>v vs. vs @ [v]) k3s_agent = Inr cmd"
    using k3s_agent_fits by (simp add: NewAgentCommand_def must_spec [OF named])
  with node_commands [OF named, of "\<lambda>v vs. vs @ [v]" cmd] agent_keys_distinct show ?thesis
    by (auto simp: k3s_agent_names)
qed

end
