(* ===== verification/Cli_Validate.thy ===== *)
theory Cli_Validate
  imports Cli_Flags Go_Disk
begin

text \<open>
  What the server and the agent command check and change of their flags before anything runs: the cloud
  provider (\<^verbatim>\<open>pkg/cli/cmds/root.go\<close>), the profile (\<^verbatim>\<open>profile_linux.go\<close>) and the network plugins
  (\<^verbatim>\<open>server.go\<close>). The command line is passed along, since \<^verbatim>\<open>clx.Set\<close> changes it; \<^verbatim>\<open>logrus.Fatal\<close> ends the
  process and is the outcome \<^const>\<open>Fatal\<close>.
\<close>

section \<open>Cloud provider\<close>

datatype CLIRole = Agent | Server

record bundledCloudProvider =
  bp_name :: string
  bp_csi :: string
  bp_cpi :: string

definition cloudProviders :: "bundledCloudProvider list" where
  "cloudProviders =
     [\<lparr>bp_name = ''rancher-vsphere'', bp_csi = ''rancher-vsphere-csi'', bp_cpi = ''rancher-vsphere-cpi''\<rparr>,
      \<lparr>bp_name = ''harvester'', bp_csi = ''harvester-csi-driver'', bp_cpi = ''harvester-cloud-provider''\<rparr>,
      \<lparr>bp_name = ''ovirt'', bp_csi = ''rke2-ovirt-csi-driver'', bp_cpi = ''''\<rparr>]"

definition set_if :: "'x cli_pkg \<Rightarrow> bool \<Rightarrow> string \<Rightarrow> string \<Rightarrow> 'x \<Rightarrow> 'x" where
  "set_if cli b f v x = (if b then set_flag_value cli f v x else x)"

definition choose_provider :: "'x cli_pkg \<Rightarrow> CLIRole \<Rightarrow> string \<Rightarrow> bundledCloudProvider \<Rightarrow> 'x \<Rightarrow> 'x" where
  "choose_provider cli role cloudProvider p x =
     (if bp_name p = cloudProvider then
        set_if cli (role = Server \<and> bp_cpi p \<noteq> '''') ''disable-cloud-controller'' ''true''
          (set_flag_value cli ''cloud-provider-name'' ''external'' x)
      else if role = Server then
        set_if cli (bp_cpi p \<noteq> '''') ''disable'' (bp_cpi p) (set_if cli (bp_csi p \<noteq> '''') ''disable'' (bp_csi p) x)
      else x)"

definition validateCloudProvider :: "'x cli_pkg \<Rightarrow> CLIRole \<Rightarrow> 'x \<Rightarrow> unit result \<times> 'x" where
  "validateCloudProvider cli role x =
     (let cloudProvider = cli_String cli x ''cloud-provider-name'' in
      if (cli_IsSet cli x ''cloud-provider-name'' \<or> cli_IsSet cli x ''cloud-provider-config'') \<and>
         cli_IsSet cli x ''node-external-ip''
      then (Inl (Errorf ''can't set node-external-ip while using cloud provider''), x)
      else (Inr (), fold (choose_provider cli role cloudProvider) cloudProviders x))"

section \<open>Profile\<close>

definition protectKernelDefaultsFlagName :: string where
  "protectKernelDefaultsFlagName = ''protect-kernel-defaults''"

definition kernelRuntimeParameters :: "(string, int) gomap" where
  "kernelRuntimeParameters =
     [(''vm.overcommit_memory'', 1), (''vm.panic_on_oom'', 0), (''kernel.panic'', 10), (''kernel.panic_on_oops'', 1)]"

definition newline_char :: char where "newline_char = char_of (10 :: nat)"

definition sysctl :: "disk \<Rightarrow> string \<Rightarrow> int result" where
  "sysctl d s0 =
     (let s = str_ReplaceAll1 (CHR ''.'') (CHR ''/'') s0 in
      try_then (os_ReadFile d (''/proc/sys/'' @ s)) (\<lambda>v.
        if length v < 2 \<or> last v \<noteq> newline_char then Inl (Errorf (''invalid contents: '' @ s))
        else strconv_ParseInt 64 (filter (\<lambda>c. c \<noteq> newline_char) v)))"

text \<open>The loop over the parameters, in the order of the map iteration \<open>order\<close>.\<close>

definition kernel_errors :: "disk \<Rightarrow> string \<Rightarrow> err list \<Rightarrow> err list outcome" where
  "kernel_errors d kp ce =
     (case sysctl d kp of
        Inl e \<Rightarrow> Inl (Fatal ''sysctl'')
      | Inr cv \<Rightarrow> Inr (if cv \<noteq> gm_index 0 kernelRuntimeParameters kp
                      then ce @ [Errorf (''invalid kernel parameter value '' @ kp)] else ce))"

definition validateKernelReqs :: "disk \<Rightarrow> string list \<Rightarrow> err list outcome" where
  "validateKernelReqs d order = fold_try (kernel_errors d) order []"

text \<open>\<open>user\<close> and \<open>grp\<close> are the outcomes of looking up the user and the group etcd.\<close>

definition validateETCDReqs :: "CLIRole \<Rightarrow> unit result \<Rightarrow> unit result \<Rightarrow> err list" where
  "validateETCDReqs role user grp =
     (let missing = (\<lambda>r. case r of Inl e \<Rightarrow> [WithMessage ''missing required'' e] | Inr _ \<Rightarrow> []) in
      if role = Server then missing user @ missing grp else [])"

definition setCISFlags :: "'x cli_pkg \<Rightarrow> 'x \<Rightarrow> unit result \<times> 'x" where
  "setCISFlags cli x =
     (if cli_IsSet cli x protectKernelDefaultsFlagName \<and> \<not> cli_Bool cli x protectKernelDefaultsFlagName then
        (Inl (Errorf (''--'' @ protectKernelDefaultsFlagName @ '' must be true when using --profile='' @
           cli_String cli x ''profile'')), x)
      else cli_Set cli protectKernelDefaultsFlagName ''true'' x)"

definition profileCIS :: string where "profileCIS = ''cis''"
definition profileETCD :: string where "profileETCD = ''etcd''"

definition check_etcd :: "CLIRole \<Rightarrow> unit result \<Rightarrow> unit result \<Rightarrow> 'x \<Rightarrow> 'x outcome" where
  "check_etcd role user grp x =
     (if validateETCDReqs role user grp \<noteq> [] then Inl (Fatal ''etcd user or group'') else Inr x)"

definition validateProfile ::
  "'x cli_pkg \<Rightarrow> disk \<Rightarrow> string list \<Rightarrow> unit result \<Rightarrow> unit result \<Rightarrow> CLIRole \<Rightarrow> 'x \<Rightarrow> 'x outcome" where
  "validateProfile cli d order user grp role x =
     (let profile = cli_String cli x ''profile'' in
      if profile = profileCIS then
        try_then (validateKernelReqs d order) (\<lambda>ce.
          if ce \<noteq> [] then Inl (Fatal ''kernel parameters'')
          else case setCISFlags cli x of
            (Inl e, _) \<Rightarrow> Inl (Fatal ''flags'')
          | (Inr _, x') \<Rightarrow> check_etcd role user grp x')
      else if profile = profileETCD then check_etcd role user grp x
      else if profile = '''' then Inr x
      else Inl (Fatal ''invalid value provided for --profile flag''))"

section \<open>Network plugins\<close>

definition chart_names :: "string \<Rightarrow> string list" where
  "chart_names d = [''rke2-'' @ d, ''rke2-'' @ d @ ''-crd'']"

definition split_values :: "string list \<Rightarrow> string list" where
  "split_values vs = concat (map (str_Split (CHR '','')) vs)"

text \<open>The charts to disable, as a duplicate-free list that stands for the set.\<close>

definition all_charts :: "string list \<Rightarrow> string list" where
  "all_charts valid = fold (\<lambda>d. fold List.insert (chart_names d)) valid []"

definition enable_value :: "string list \<Rightarrow> string \<Rightarrow> string \<Rightarrow> string list \<Rightarrow> string list outcome" where
  "enable_value valid flagName d charts =
     (if d = ''none'' then Inr charts
      else if d \<in> set valid then Inr (filter (\<lambda>c. c \<notin> set (chart_names d)) charts)
      else Inl (Fatal (''Invalid value '' @ d @ '' for --'' @ flagName @ '' flag'')))"

text \<open>
  The validation function gives the values to use, an error, and the command line it may have changed;
  \<open>order\<close> is the order in which \<^verbatim>\<open>UnsortedList\<close> gives the members of a set.
\<close>

definition disableExceptSelected ::
  "'x cli_pkg \<Rightarrow> (string list \<Rightarrow> string list) \<Rightarrow> string list \<Rightarrow> string
     \<Rightarrow> (string list \<Rightarrow> 'x \<Rightarrow> string list result \<times> 'x) \<Rightarrow> 'x \<Rightarrow> 'x outcome" where
  "disableExceptSelected cli order valid flagName validateFunc x =
     (case validateFunc (split_values (cli_StringSlice cli x flagName)) x of
        (Inl e, _) \<Rightarrow> Inl (Fatal (''Failed to validate --'' @ flagName @ '' flag''))
      | (Inr vals, x') \<Rightarrow>
          try_then (fold_try (enable_value valid flagName) vals (all_charts valid))
            (\<lambda>charts. Inr (disable_all cli (order charts) x')))"

definition cni_values :: "'x cli_pkg \<Rightarrow> string list \<Rightarrow> 'x \<Rightarrow> string list result \<times> 'x" where
  "cni_values cli vs0 x =
     (let one = (\<lambda>vs. if hd vs = ''multus'' then (Inl (Errorf ''multus must be used alongside another primary cni selection''), x)
                      else (Inr vs, set_flag_value cli ''disable'' ''rke2-multus'' x)) in
      case vs0 of
        [] \<Rightarrow> one [''canal'']
      | [v] \<Rightarrow> one [v]
      | [v, w] \<Rightarrow> if v = ''multus'' then (Inr [w], x)
                  else (Inl (Errorf ''may only provide multiple values if multus is the first value''), x)
      | _ \<Rightarrow> (Inl (Errorf ''must specify 1 or 2 values''), x))"

definition validateCNI :: "'x cli_pkg \<Rightarrow> (string list \<Rightarrow> string list) \<Rightarrow> 'x \<Rightarrow> 'x outcome" where
  "validateCNI cli order x = disableExceptSelected cli order CNIItems ''cni'' (cni_values cli) x"

section \<open>The choice of a cloud provider\<close>

definition provider_charts :: "bundledCloudProvider \<Rightarrow> string list" where
  "provider_charts p = filter (\<lambda>c. c \<noteq> '''') [bp_csi p, bp_cpi p]"

lemma choose_provider_server:
  assumes "cli_laws cli"
  shows "cli_StringSlice cli (choose_provider cli Server cp p x) ''disable'' =
      cli_StringSlice cli x ''disable'' @ (if bp_name p = cp then [] else provider_charts p)"
    and "cli_String cli (choose_provider cli Server cp p x) ''cloud-provider-name'' =
      (if bp_name p = cp then ''external'' else cli_String cli x ''cloud-provider-name'')"
    and "cli_Bool cli (choose_provider cli Server cp p x) ''disable-cloud-controller'' =
      ((bp_name p = cp \<and> bp_cpi p \<noteq> '''') \<or> cli_Bool cli x ''disable-cloud-controller'')"
  using cli_bool_set(2) [OF assms, of "''disable-cloud-controller''"]
  by (auto simp: choose_provider_def set_if_def provider_charts_def cli_keeps [OF assms] cli_disable [OF assms]
      cli_string_set [OF assms, of "''cloud-provider-name''"] string_flags_def bool_flags_def)

lemma choose_providers_server:
  assumes "cli_laws cli"
  shows "cli_StringSlice cli (fold (choose_provider cli Server cp) ps x) ''disable'' =
      cli_StringSlice cli x ''disable'' @ concat (map provider_charts (filter (\<lambda>p. bp_name p \<noteq> cp) ps))"
    and "cli_String cli (fold (choose_provider cli Server cp) ps x) ''cloud-provider-name'' =
      (if cp \<in> bp_name ` set ps then ''external'' else cli_String cli x ''cloud-provider-name'')"
    and "cli_Bool cli (fold (choose_provider cli Server cp) ps x) ''disable-cloud-controller'' =
      ((\<exists>p \<in> set ps. bp_name p = cp \<and> bp_cpi p \<noteq> '''') \<or> cli_Bool cli x ''disable-cloud-controller'')"
  by (induction ps arbitrary: x) (auto simp: choose_provider_server [OF assms])

definition provider_flags :: "string set" where
  "provider_flags = {''disable'', ''cloud-provider-name'', ''disable-cloud-controller''}"

lemma set_if_same: "cli_laws cli \<Longrightarrow> f \<in> F \<Longrightarrow> same_off cli F x (set_if cli b f v x)"
  by (simp add: set_if_def same_off_value)

lemma choose_provider_same:
  assumes laws: "cli_laws cli" and "''disable'' \<in> F" "''cloud-provider-name'' \<in> F" "''disable-cloud-controller'' \<in> F"
  shows "same_off cli F x (choose_provider cli role cp p x)"
proof -
  note one = set_if_same [OF laws]
  show ?thesis
    unfolding choose_provider_def
    using same_off_trans [OF same_off_value [OF laws assms(3)] one [OF assms(4)]]
      same_off_trans [OF one [OF assms(2)] one [OF assms(2)]] by simp
qed

lemma choose_providers_same:
  "cli_laws cli \<Longrightarrow> same_off cli provider_flags x (fold (choose_provider cli role cp) ps x)"
  by (rule same_off_fold) (simp add: choose_provider_same provider_flags_def)


lemma validateCloudProvider_run:
  assumes "validateCloudProvider cli role x = (Inr (), x')"
  shows "x' = fold (choose_provider cli role (cli_String cli x ''cloud-provider-name'')) cloudProviders x"
  using assms by (simp add: validateCloudProvider_def Let_def split: if_splits)

text \<open>
  The choice of a bundled cloud provider on a server. Unless an external address is set as well, which is
  an error, exactly the charts of the providers that were not chosen are disabled; a chosen provider is known
  to Kubernetes as external, and the embedded cloud controller is switched off exactly for the providers that
  bring their own, so not for one with a storage driver only.
\<close>

theorem cloud_provider_selection:
  assumes "cli_laws cli" and "cp = cli_String cli x ''cloud-provider-name''"
    and "\<not> cli_IsSet cli x ''node-external-ip'' \<or>
      \<not> cli_IsSet cli x ''cloud-provider-name'' \<and> \<not> cli_IsSet cli x ''cloud-provider-config''"
  shows "\<exists>x'. validateCloudProvider cli Server x = (Inr (), x') \<and>
    cli_StringSlice cli x' ''disable'' =
      cli_StringSlice cli x ''disable'' @ concat (map provider_charts (filter (\<lambda>p. bp_name p \<noteq> cp) cloudProviders)) \<and>
    cli_String cli x' ''cloud-provider-name'' =
      (if cp \<in> {''rancher-vsphere'', ''harvester'', ''ovirt''} then ''external'' else cp) \<and>
    (cli_Bool cli x' ''disable-cloud-controller'' \<longleftrightarrow>
      cp \<in> {''rancher-vsphere'', ''harvester''} \<or> cli_Bool cli x ''disable-cloud-controller'')"
proof -
  have "validateCloudProvider cli Server x = (Inr (), fold (choose_provider cli Server cp) cloudProviders x)"
    using assms(2,3) by (auto simp: validateCloudProvider_def)
  moreover have "(cp \<in> bp_name ` set cloudProviders) = (cp \<in> {''rancher-vsphere'', ''harvester'', ''ovirt''})"
    by (simp add: cloudProviders_def)
  moreover have "(\<exists>p \<in> set cloudProviders. bp_name p = cp \<and> bp_cpi p \<noteq> '''') = (cp \<in> {''rancher-vsphere'', ''harvester''})"
    by (auto simp: cloudProviders_def)
  ultimately show ?thesis
    by (simp only: choose_providers_server [OF assms(1)] assms(2) prod.inject simp_thms ex_simps)
qed

theorem cloud_provider_selection_witness:
  "\<exists>x'. validateCloudProvider map_cli Server [(''cloud-provider-name'', ''ovirt'')] = (Inr (), x') \<and>
     cli_StringSlice map_cli x' ''disable'' =
       [''rancher-vsphere-csi'', ''rancher-vsphere-cpi'', ''harvester-csi-driver'', ''harvester-cloud-provider''] \<and>
     cli_String map_cli x' ''cloud-provider-name'' = ''external'' \<and> \<not> cli_Bool map_cli x' ''disable-cloud-controller''"
proof -
  let ?x = "[(''cloud-provider-name'', ''ovirt'')]"
  have "cli_StringSlice map_cli ?x ''disable'' @
      concat (map provider_charts (filter (\<lambda>p. bp_name p \<noteq> ''ovirt'') cloudProviders)) =
      [''rancher-vsphere-csi'', ''rancher-vsphere-cpi'', ''harvester-csi-driver'', ''harvester-cloud-provider'']"
    and "''ovirt'' = cli_String map_cli ?x ''cloud-provider-name''" and "\<not> cli_IsSet map_cli ?x ''node-external-ip''"
    and "\<not> cli_Bool map_cli ?x ''disable-cloud-controller''"
    by code_simp+
  with cloud_provider_selection [OF map_cli_laws, of "''ovirt''" ?x] show ?thesis
    by auto
qed

section \<open>The choice of a network plugin\<close>

text \<open>What the administrator asks for: whether multus is wanted and the primary plugin; None is refused.\<close>

fun cni_choice :: "string list \<Rightarrow> (bool \<times> string) option" where
  "cni_choice [] = Some (False, ''canal'')"
| "cni_choice [v] = (if v \<in> set CNIItems \<union> {''none''} then Some (False, v) else None)"
| "cni_choice [m, v] = (if m = ''multus'' \<and> v \<in> set CNIItems \<union> {''none''} then Some (True, v) else None)"
| "cni_choice _ = None"

lemma set_all_charts_aux: "set (fold (\<lambda>d. fold List.insert (chart_names d)) valid cs) = set cs \<union> (\<Union>d \<in> set valid. set (chart_names d))"
  by (induction valid arbitrary: cs) (auto simp: chart_names_def)

lemma set_all_charts: "set (all_charts valid) = (\<Union>d \<in> set valid. set (chart_names d))"
  by (simp add: all_charts_def set_all_charts_aux)

lemma charts_apart:
  assumes "d \<in> set CNIItems" and "e \<in> set CNIItems" and "d \<noteq> e"
  shows "set (chart_names d) \<inter> set (chart_names e) = {}"
  using assms by (auto simp: CNIItems_def chart_names_def)

lemma canal_valid: "''canal'' \<in> set CNIItems"
  by (simp add: CNIItems_def)

definition unselected_charts :: "string \<Rightarrow> string set" where
  "unselected_charts v = (\<Union>d \<in> set CNIItems - {v}. set (chart_names d))"

lemma enable_cni:
  "enable_value CNIItems ''cni'' v (all_charts CNIItems) =
     (if v \<in> set CNIItems \<union> {''none''} then
        Inr (if v = ''none'' then all_charts CNIItems else filter (\<lambda>c. c \<notin> set (chart_names v)) (all_charts CNIItems))
      else Inl (Fatal (''Invalid value '' @ v @ '' for --cni flag'')))"
  by (auto simp: enable_value_def)

lemma set_enabled:
  assumes "v \<in> set CNIItems \<union> {''none''}"
  shows "set (if v = ''none'' then all_charts CNIItems else filter (\<lambda>c. c \<notin> set (chart_names v)) (all_charts CNIItems))
    = unselected_charts v"
proof (cases "v = ''none''")
  case True
  moreover have "''none'' \<notin> set CNIItems"
    by (simp add: CNIItems_def)
  ultimately show ?thesis
    by (simp add: unselected_charts_def set_all_charts)
next
  case False
  with assms have "v \<in> set CNIItems"
    by simp
  with False show ?thesis
    using charts_apart [of _ v] by (fastforce simp: unselected_charts_def set_all_charts)
qed


lemma choice_values:
  assumes "cni_choice vs = Some (multus, v)"
  shows "v \<in> set CNIItems \<union> {''none''} \<and>
    cni_values cli vs x = (Inr [v], disable_all cli (if multus then [] else [''rke2-multus'']) x)"
  using assms canal_valid
  by (cases vs rule: cni_choice.cases)
    (auto simp: cni_values_def disable_all_def CNIItems_def split: if_splits)

lemma no_choice_fatal:
  "cni_choice (split_values (cli_StringSlice cli x ''cni'')) = None \<Longrightarrow> \<exists>m. validateCNI cli order x = Inl (Fatal m)"
  by (auto simp: validateCNI_def disableExceptSelected_def cni_values_def enable_cni Let_def
      split: list.splits if_splits elim: cni_choice.elims)

lemma validateCNI_run:
  assumes order: "\<And>cs. set (order cs) = set cs"
    and choice: "cni_choice (split_values (cli_StringSlice cli x ''cni'')) = Some (multus, v)"
  shows "\<exists>added. validateCNI cli order x = Inr (disable_all cli added x) \<and>
    set added = unselected_charts v \<union> (if multus then {} else {''rke2-multus''})"
proof -
  let ?pre = "if multus then [] else [''rke2-multus'']"
  let ?cs = "if v = ''none'' then all_charts CNIItems else filter (\<lambda>c. c \<notin> set (chart_names v)) (all_charts CNIItems)"
  have v: "v \<in> set CNIItems \<union> {''none''}"
    using choice_values [OF choice, of cli x] by blast
  have "validateCNI cli order x = Inr (disable_all cli (?pre @ order ?cs) x)"
    using v by (simp add: validateCNI_def disableExceptSelected_def choice_values [OF choice] enable_cni disable_all_append)
  moreover have "set (?pre @ order ?cs) = unselected_charts v \<union> (if multus then {} else {''rke2-multus''})"
    using order [of ?cs] set_enabled [OF v] by auto
  ultimately show ?thesis
    by blast
qed

text \<open>
  C38: the choice of a network plugin. If the values of the flag, split at commas, are a valid choice, then
  exactly the charts of the plugins that were not chosen are disabled, that of multus too unless it was asked
  for, and nothing else; every other combination of values ends the process with an error.
\<close>

theorem cni_selection:
  assumes "cli_laws cli" and "\<And>cs. set (order cs) = set cs"
  shows "case cni_choice (split_values (cli_StringSlice cli x ''cni'')) of
      None \<Rightarrow> \<exists>m. validateCNI cli order x = Inl (Fatal m)
    | Some (multus, v) \<Rightarrow> \<exists>x' added. validateCNI cli order x = Inr x' \<and>
        set added = unselected_charts v \<union> (if multus then {} else {''rke2-multus''}) \<and>
        cli_StringSlice cli x' ''disable'' = cli_StringSlice cli x ''disable'' @ added"
proof (cases "cni_choice (split_values (cli_StringSlice cli x ''cni''))")
  case None
  then show ?thesis
    by (simp add: no_choice_fatal)
next
  case (Some c)
  obtain multus v where c: "c = (multus, v)"
    by fastforce
  show ?thesis
    using validateCNI_run [OF assms(2) Some [unfolded c]] by (auto simp: Some c disable_all_slice [OF assms(1)])
qed


theorem cni_selection_witness:
  "(\<exists>x' added. validateCNI map_cli rev [(''cni'', ''multus,cilium'')] = Inr x' \<and> ''rke2-canal'' \<in> set added \<and>
      ''rke2-cilium'' \<notin> set added \<and> ''rke2-multus'' \<notin> set added \<and>
      cli_StringSlice map_cli x' ''disable'' = cli_StringSlice map_cli [(''cni'', ''multus,cilium'')] ''disable'' @ added)"
proof -
  have "cni_choice (split_values (cli_StringSlice map_cli [(''cni'', ''multus,cilium'')] ''cni'')) = Some (True, ''cilium'')"
    by code_simp
  moreover have "''rke2-canal'' \<in> unselected_charts ''cilium''" "''rke2-cilium'' \<notin> unselected_charts ''cilium''"
    "''rke2-multus'' \<notin> unselected_charts ''cilium''"
    by (auto simp: unselected_charts_def CNIItems_def chart_names_def)
  ultimately show ?thesis
    using cni_selection [OF map_cli_laws, of rev "[(''cni'', ''multus,cilium'')]"] by auto
qed

section \<open>The profile\<close>

lemma kernel_loop:
  "fold_try (kernel_errors d) order ce = Inr [] \<longleftrightarrow>
     ce = [] \<and> (\<forall>k \<in> set order. sysctl d k = Inr (gm_index 0 kernelRuntimeParameters k))"
  by (induction order arbitrary: ce) (auto simp: kernel_errors_def try_then_Inr_iff split: sum.splits)

lemma kernel_parameters:
  "(\<forall>k \<in> set (gm_keys kernelRuntimeParameters). sysctl d k = Inr (gm_index 0 kernelRuntimeParameters k)) \<longleftrightarrow>
     (\<forall>(k, v) \<in> set kernelRuntimeParameters. sysctl d k = Inr v)"
  by (simp add: kernelRuntimeParameters_def gm_keys_def gm_index_def gm_get_def)

definition etcd_owner :: "CLIRole \<Rightarrow> unit result \<Rightarrow> unit result \<Rightarrow> bool" where
  "etcd_owner role user grp \<longleftrightarrow> (role = Server \<longrightarrow> user = Inr () \<and> grp = Inr ())"

lemma check_etcd_iff: "check_etcd role user grp x = Inr x' \<longleftrightarrow> etcd_owner role user grp \<and> x' = x"
  by (auto simp: check_etcd_def validateETCDReqs_def etcd_owner_def Let_def split: sum.splits)

definition kernel_hardened :: "disk \<Rightarrow> bool" where
  "kernel_hardened d \<longleftrightarrow> (\<forall>(k, v) \<in> set kernelRuntimeParameters. sysctl d k = Inr v)"

lemma setCISFlags_iff:
  assumes "cli_laws cli"
  shows "setCISFlags cli x = (Inr (), x') \<longleftrightarrow>
    (cli_IsSet cli x protectKernelDefaultsFlagName \<longrightarrow> cli_Bool cli x protectKernelDefaultsFlagName) \<and>
    x' = set_flag_value cli protectKernelDefaultsFlagName ''true'' x"
  using cli_bool_set(1) [OF assms, of "''protect-kernel-defaults''" x]
  by (auto simp: setCISFlags_def protectKernelDefaultsFlagName_def bool_flags_def)

lemma profile_iff:
  assumes "cli_laws cli" and "set order = set (gm_keys kernelRuntimeParameters)"
  shows "validateProfile cli d order user grp role x = Inr x' \<longleftrightarrow>
    cli_String cli x ''profile'' = '''' \<and> x' = x \<or>
    cli_String cli x ''profile'' = ''etcd'' \<and> x' = x \<and> etcd_owner role user grp \<or>
    cli_String cli x ''profile'' = ''cis'' \<and> etcd_owner role user grp \<and> kernel_hardened d \<and>
      (cli_IsSet cli x ''protect-kernel-defaults'' \<longrightarrow> cli_Bool cli x ''protect-kernel-defaults'') \<and>
      x' = set_flag_value cli ''protect-kernel-defaults'' ''true'' x \<and> cli_Bool cli x' ''protect-kernel-defaults''"
proof -
  have kernel: "validateKernelReqs d order = Inr [] \<longleftrightarrow> kernel_hardened d"
    using kernel_parameters [of d] by (simp add: validateKernelReqs_def kernel_loop assms(2) kernel_hardened_def)
  have flags: "(\<exists>y. setCISFlags cli x = (Inr (), y) \<and> y = x') \<longleftrightarrow>
      (cli_IsSet cli x ''protect-kernel-defaults'' \<longrightarrow> cli_Bool cli x ''protect-kernel-defaults'') \<and>
      x' = set_flag_value cli ''protect-kernel-defaults'' ''true'' x"
    using setCISFlags_iff [OF assms(1)] by (auto simp: protectKernelDefaultsFlagName_def)
  have cis: "validateProfile cli d order user grp role x = Inr x' \<longleftrightarrow>
      kernel_hardened d \<and> setCISFlags cli x = (Inr (), x') \<and> etcd_owner role user grp"
    if "cli_String cli x ''profile'' = ''cis''"
    using that kernel
    by (auto simp: validateProfile_def profileCIS_def try_then_Inr_iff check_etcd_iff split: prod.splits sum.splits if_splits)
  consider "cli_String cli x ''profile'' = ''cis''" | "cli_String cli x ''profile'' \<noteq> ''cis''"
    by blast
  then show ?thesis
  proof cases
    case 1
    then show ?thesis
      using cis flags cli_bool_set(2) [OF assms(1), of "''protect-kernel-defaults''" x] by (auto simp: bool_flags_def)
  next
    case 2
    then show ?thesis
      by (auto simp: validateProfile_def profileCIS_def profileETCD_def check_etcd_iff Let_def)
  qed
qed

text \<open>
  What a profile enforces. The process goes on exactly in these cases: no profile; the etcd profile when
  on a server the user and the group etcd exist; the CIS profile when moreover every kernel parameter
  has the required value and the protection of the kernel defaults was not switched off, and then it is
  switched on. Every other state of the machine and every other profile name ends the process.
\<close>

theorem profile_enforced:
  assumes "cli_laws cli" and "set order = set (gm_keys kernelRuntimeParameters)"
  shows "validateProfile cli d order user grp role x = Inr x' \<longleftrightarrow>
    cli_String cli x ''profile'' = '''' \<and> x' = x \<or>
    cli_String cli x ''profile'' = ''etcd'' \<and> x' = x \<and> etcd_owner role user grp \<or>
    cli_String cli x ''profile'' = ''cis'' \<and> etcd_owner role user grp \<and> kernel_hardened d \<and>
      (cli_IsSet cli x ''protect-kernel-defaults'' \<longrightarrow> cli_Bool cli x ''protect-kernel-defaults'') \<and>
      x' = set_flag_value cli ''protect-kernel-defaults'' ''true'' x \<and> cli_Bool cli x' ''protect-kernel-defaults''"
  by (rule profile_iff [OF assms])

lemma profile_same:
  assumes "cli_laws cli" and "validateProfile cli d order user grp role x = Inr x'" and "''protect-kernel-defaults'' \<in> F"
  shows "same_off cli F x x'"
  using assms(2)
  by (auto simp: validateProfile_def setCISFlags_def check_etcd_def protectKernelDefaultsFlagName_def Let_def
      split: if_splits prod.splits sum.splits intro: same_off_set [OF assms(1,3)])

definition hardened_disk :: disk where
  "hardened_disk = empty_disk\<lparr>tree :=
     [(''/proc/sys/vm/overcommit_memory'', new_inode (Regular (''1'' @ [newline_char])) 420),
      (''/proc/sys/vm/panic_on_oom'', new_inode (Regular (''0'' @ [newline_char])) 420),
      (''/proc/sys/kernel/panic'', new_inode (Regular (''10'' @ [newline_char])) 420),
      (''/proc/sys/kernel/panic_on_oops'', new_inode (Regular (''1'' @ [newline_char])) 420)]\<rparr>"

theorem profile_enforced_witness:
  "validateProfile map_cli hardened_disk (rev (gm_keys kernelRuntimeParameters)) (Inr ()) (Inr ()) Server
     [(''profile'', ''cis'')] = Inr [(''protect-kernel-defaults'', ''true''), (''profile'', ''cis'')]"
proof -
  have order: "set (rev (gm_keys kernelRuntimeParameters)) = set (gm_keys kernelRuntimeParameters)"
    by simp
  have "kernel_hardened hardened_disk"
    by code_simp
  moreover have "cli_String map_cli [(''profile'', ''cis'')] ''profile'' = ''cis''"
    and "\<not> cli_IsSet map_cli [(''profile'', ''cis'')] ''protect-kernel-defaults''"
    and "set_flag_value map_cli ''protect-kernel-defaults'' ''true'' [(''profile'', ''cis'')] =
      [(''protect-kernel-defaults'', ''true''), (''profile'', ''cis'')]"
    and "cli_Bool map_cli [(''protect-kernel-defaults'', ''true''), (''profile'', ''cis'')] ''protect-kernel-defaults''"
    by code_simp+
  ultimately show ?thesis
    using profile_enforced [OF map_cli_laws order, of hardened_disk "Inr ()" "Inr ()" Server "[(''profile'', ''cis'')]"]
    by (simp add: etcd_owner_def)
qed

end
