(* ===== verification/Kube_Api.thy ===== *)
theory Kube_Api
  imports Go_Disk
begin

text \<open>
  The Kubernetes API as the server's start-up hooks and controllers use it: the fields of the objects the
  sources read and write, and the client as a record of calls over an arbitrary cluster state. The API server
  and the client library are not part of the sources; what the properties rely on is stated as the laws
  below, over a view of the stored objects. Also the retry helpers of client-go, of which only the documented
  contract is used.
\<close>

section \<open>Objects\<close>

text \<open>A map field of an object; \<open>None\<close> is the nil map.\<close>

type_synonym string_map = "(string, string) gomap option"

definition map_entries :: "string_map \<Rightarrow> (string, string) gomap" where
  "map_entries m = (case m of None \<Rightarrow> [] | Some es \<Rightarrow> es)"

record Namespace =
  ns_Name :: string
  ns_ResourceVersion :: string
  ns_Annotations :: string_map
  ns_Other :: string

datatype IntOrString = IntVal int | StrVal string

record NetworkPolicyPort =
  npp_Protocol :: string
  npp_Port :: IntOrString

record NetworkPolicyPeer =
  peer_PodSelector :: "(string, string) gomap option"
  peer_IPBlock :: "string option"

record NetworkPolicyIngressRule =
  ir_Ports :: "NetworkPolicyPort list"
  ir_From :: "NetworkPolicyPeer list"

record NetworkPolicy =
  np_Name :: string
  np_Annotations :: string_map
  np_PodSelector :: "(string, string) gomap"
  np_PolicyTypes :: "string list"
  np_Ingress :: "NetworkPolicyIngressRule list"

record ServiceAccount =
  sa_Name :: string
  sa_ResourceVersion :: string
  sa_AutomountServiceAccountToken :: "bool option"
  sa_Other :: string

record Node =
  node_Name :: string
  node_Annotations :: "(string, string) gomap"
  node_Finalizers :: "string list"
  node_Deleted :: bool
  node_PodCIDR :: string
  node_PodCIDRs :: "string list"

section \<open>The client\<close>

record 'k client =
  ns_Get :: "string \<Rightarrow> 'k \<Rightarrow> Namespace result \<times> 'k"
  ns_Update :: "Namespace \<Rightarrow> 'k \<Rightarrow> Namespace result \<times> 'k"
  pol_Get :: "string \<Rightarrow> string \<Rightarrow> 'k \<Rightarrow> NetworkPolicy result \<times> 'k"
  pol_Create :: "string \<Rightarrow> NetworkPolicy \<Rightarrow> 'k \<Rightarrow> NetworkPolicy result \<times> 'k"
  pol_Update :: "string \<Rightarrow> NetworkPolicy \<Rightarrow> 'k \<Rightarrow> NetworkPolicy result \<times> 'k"
  pol_Delete :: "string \<Rightarrow> string \<Rightarrow> 'k \<Rightarrow> unit result \<times> 'k"
  sa_Get :: "string \<Rightarrow> string \<Rightarrow> 'k \<Rightarrow> ServiceAccount result \<times> 'k"
  sa_Update :: "string \<Rightarrow> ServiceAccount \<Rightarrow> 'k \<Rightarrow> ServiceAccount result \<times> 'k"
  nodes_List :: "'k \<Rightarrow> Node list result \<times> 'k"
  node_Patch_finalizers :: "string \<Rightarrow> string list \<Rightarrow> 'k \<Rightarrow> unit result \<times> 'k"

text \<open>The predicates of \<^verbatim>\<open>apierrors\<close> look through wrapped errors.\<close>

fun cause :: "err \<Rightarrow> err" where
  "cause (WithMessage _ e) = cause e"
| "cause e = e"

definition IsNotFound :: "err \<Rightarrow> bool" where "IsNotFound e \<longleftrightarrow> cause e = ApiNotFound"
definition IsConflict :: "err \<Rightarrow> bool" where "IsConflict e \<longleftrightarrow> cause e = ApiConflict"
definition IsAlreadyExists :: "err \<Rightarrow> bool" where "IsAlreadyExists e \<longleftrightarrow> cause e = ApiAlreadyExists"

section \<open>Retrying\<close>

text \<open>
  \<open>attempts n retriable fn\<close> runs \<open>fn\<close>, and at most \<open>n\<close> more times as long as it fails with a retriable
  error. A retry helper is a function that behaves, on every call, like \<open>attempts\<close> for some number of
  retries.
\<close>

type_synonym 's retry = "(err \<Rightarrow> bool) \<Rightarrow> ('s \<Rightarrow> unit result \<times> 's) \<Rightarrow> 's \<Rightarrow> unit result \<times> 's"

fun attempts :: "nat \<Rightarrow> 's retry" where
  "attempts 0 retriable fn s = fn s"
| "attempts (Suc n) retriable fn s =
     (case fn s of
        (Inl e, s') \<Rightarrow> if retriable e then attempts n retriable fn s' else (Inl e, s')
      | (Inr u, s') \<Rightarrow> (Inr u, s'))"

definition retry_law :: "'s retry \<Rightarrow> bool" where
  "retry_law onError \<longleftrightarrow> (\<forall>retriable fn s. \<exists>n. onError retriable fn s = attempts n retriable fn s)"

lemma retry_law_attempts [simp]: "retry_law (attempts n)"
  by (auto simp: retry_law_def)

text \<open>
  What holds after every successful run of the body holds after a successful retry, if failed runs keep the
  precondition.
\<close>

lemma attempts_rule:
  assumes "attempts n retriable fn s = (res, s')" and "I s"
    and step: "\<And>s r s'. I s \<Longrightarrow> fn s = (r, s') \<Longrightarrow> (case r of Inl e \<Rightarrow> I s' | Inr _ \<Rightarrow> Q s')"
  shows "case res of Inl e \<Rightarrow> I s' | Inr _ \<Rightarrow> Q s'"
  using assms(1,2)
proof (induction n arbitrary: s)
  case 0
  then show ?case using step by simp
next
  case (Suc n)
  obtain r t where rt: "fn s = (r, t)" by force
  show ?case
  proof (cases r)
    case (Inl e)
    then have "I t" using step [OF Suc.prems(2) rt] by simp
    with Inl rt Suc show ?thesis by (auto split: if_splits)
  next
    case (Inr u)
    then show ?thesis using step [OF Suc.prems(2) rt] rt Suc.prems(1) by auto
  qed
qed

lemma retry_rule:
  assumes "retry_law onError" and "onError retriable fn s = (res, s')" and "I s"
    and "\<And>s r s'. I s \<Longrightarrow> fn s = (r, s') \<Longrightarrow> (case r of Inl e \<Rightarrow> I s' | Inr _ \<Rightarrow> Q s')"
  shows "case res of Inl e \<Rightarrow> I s' | Inr _ \<Rightarrow> Q s'"
proof -
  obtain n where "attempts n retriable fn s = (res, s')" using assms(1,2) unfolding retry_law_def by metis
  then show ?thesis by (rule attempts_rule) (use assms(3,4) in blast)+
qed

section \<open>Laws of the stored objects\<close>

text \<open>
  Network policies by namespace and name. A lookup that fails means that there is no such policy; an update
  of a namespace and a list of the nodes do not touch policies.
\<close>

type_synonym 'k policies = "'k \<Rightarrow> string \<times> string \<Rightarrow> NetworkPolicy option"

definition policy_laws :: "'k client \<Rightarrow> 'k policies \<Rightarrow> bool" where
  "policy_laws cl pols \<longleftrightarrow>
     (\<forall>ns n k r k'. pol_Get cl ns n k = (r, k') \<longrightarrow> pols k' = pols k \<and>
        (case r of Inl e \<Rightarrow> pols k (ns, n) = None | Inr p \<Rightarrow> pols k (ns, n) = Some p \<and> np_Name p = n)) \<and>
     (\<forall>ns n k r k'. pol_Delete cl ns n k = (r, k') \<longrightarrow>
        (case r of Inr _ \<Rightarrow> pols k' = (pols k)((ns, n) := None)
         | Inl e \<Rightarrow> pols k' = pols k \<and> (IsNotFound e \<longrightarrow> pols k (ns, n) = None))) \<and>
     (\<forall>ns p k r k'. pol_Create cl ns p k = (r, k') \<longrightarrow>
        (case r of Inr _ \<Rightarrow> pols k' = (pols k)((ns, np_Name p) := Some p)
         | Inl e \<Rightarrow> pols k' = pols k \<and> (IsAlreadyExists e \<longrightarrow> pols k (ns, np_Name p) \<noteq> None))) \<and>
     (\<forall>ns p k r k'. pol_Update cl ns p k = (r, k') \<longrightarrow>
        (case r of Inr _ \<Rightarrow> pols k' = (pols k)((ns, np_Name p) := Some p) | Inl e \<Rightarrow> pols k' = pols k)) \<and>
     (\<forall>n k. pols (snd (ns_Get cl n k)) = pols k) \<and> (\<forall>n k. pols (snd (ns_Update cl n k)) = pols k) \<and>
     (\<forall>k. pols (snd (nodes_List cl k)) = pols k)"

text \<open>The nodes of the cluster.\<close>

definition node_laws :: "'k client \<Rightarrow> ('k \<Rightarrow> Node list) \<Rightarrow> bool" where
  "node_laws cl nodes \<longleftrightarrow>
     (\<forall>k r k'. nodes_List cl k = (r, k') \<longrightarrow> nodes k' = nodes k \<and> (case r of Inl e \<Rightarrow> True | Inr ns \<Rightarrow> ns = nodes k)) \<and>
     (\<forall>n fs k r k'. node_Patch_finalizers cl n fs k = (r, k') \<longrightarrow>
        nodes k' = (case r of Inl e \<Rightarrow> nodes k
          | Inr _ \<Rightarrow> map (\<lambda>x. if node_Name x = n then x\<lparr>node_Finalizers := fs\<rparr> else x) (nodes k)))"

text \<open>Service accounts by namespace and name.\<close>

definition account_laws :: "'k client \<Rightarrow> ('k \<Rightarrow> string \<times> string \<Rightarrow> ServiceAccount option) \<Rightarrow> bool" where
  "account_laws cl accs \<longleftrightarrow>
     (\<forall>ns n k r k'. sa_Get cl ns n k = (r, k') \<longrightarrow> accs k' = accs k \<and>
        (case r of Inr a \<Rightarrow> accs k (ns, n) = Some a \<and> sa_Name a = n | Inl e \<Rightarrow> True)) \<and>
     (\<forall>ns a k r k'. sa_Update cl ns a k = (r, k') \<longrightarrow>
        (case r of
           Inr _ \<Rightarrow> \<exists>v. accs k' = (accs k)((ns, sa_Name a) := Some (a\<lparr>sa_ResourceVersion := v\<rparr>))
         | Inl e \<Rightarrow> accs k' = accs k))"


section \<open>A cluster in memory\<close>

text \<open>An instance of the laws, for the examples: updates succeed when the resource version is current.\<close>

record mem =
  mem_ns :: "(string, Namespace) gomap"
  mem_pols :: "(string \<times> string, NetworkPolicy) gomap"
  mem_sas :: "(string \<times> string, ServiceAccount) gomap"
  mem_nodes :: "Node list"

definition found :: "'a option \<Rightarrow> 'a result" where
  "found x = (case x of None \<Rightarrow> Inl ApiNotFound | Some v \<Rightarrow> Inr v)"

definition mem_policies :: "mem policies" where
  "mem_policies k q =
     (case gm_get (mem_pols k) q of None \<Rightarrow> None | Some p \<Rightarrow> if np_Name p = snd q then Some p else None)"

definition mem_client :: "mem client" where
  "mem_client =
     \<lparr>ns_Get = (\<lambda>n k. (found (gm_get (mem_ns k) n), k)),
      ns_Update = (\<lambda>ns k. case gm_get (mem_ns k) (ns_Name ns) of
          None \<Rightarrow> (Inl ApiNotFound, k)
        | Some old \<Rightarrow>
            if ns_ResourceVersion old \<noteq> ns_ResourceVersion ns then (Inl ApiConflict, k)
            else (let ns' = ns\<lparr>ns_ResourceVersion := CHR ''+'' # ns_ResourceVersion ns\<rparr>
                  in (Inr ns', k\<lparr>mem_ns := gm_put (ns_Name ns) ns' (mem_ns k)\<rparr>))),
      pol_Get = (\<lambda>ns n k. (found (mem_policies k (ns, n)), k)),
      pol_Create = (\<lambda>ns p k. if mem_policies k (ns, np_Name p) \<noteq> None then (Inl ApiAlreadyExists, k)
          else (Inr p, k\<lparr>mem_pols := gm_put (ns, np_Name p) p (mem_pols k)\<rparr>)),
      pol_Update = (\<lambda>ns p k. if mem_policies k (ns, np_Name p) = None then (Inl ApiNotFound, k)
          else (Inr p, k\<lparr>mem_pols := gm_put (ns, np_Name p) p (mem_pols k)\<rparr>)),
      pol_Delete = (\<lambda>ns n k. if mem_policies k (ns, n) = None then (Inl ApiNotFound, k)
          else (Inr (), k\<lparr>mem_pols := gm_del (ns, n) (mem_pols k)\<rparr>)),
      sa_Get = (\<lambda>ns n k. (case gm_get (mem_sas k) (ns, n) of
          None \<Rightarrow> Inl ApiNotFound | Some a \<Rightarrow> if sa_Name a = n then Inr a else Inl ApiNotFound, k)),
      sa_Update = (\<lambda>ns a k. case gm_get (mem_sas k) (ns, sa_Name a) of
          None \<Rightarrow> (Inl ApiNotFound, k)
        | Some old \<Rightarrow>
            if sa_ResourceVersion old \<noteq> sa_ResourceVersion a then (Inl ApiConflict, k)
            else (let a' = a\<lparr>sa_ResourceVersion := CHR ''+'' # sa_ResourceVersion a\<rparr>
                  in (Inr a', k\<lparr>mem_sas := gm_put (ns, sa_Name a) a' (mem_sas k)\<rparr>))),
      nodes_List = (\<lambda>k. (Inr (mem_nodes k), k)),
      node_Patch_finalizers = (\<lambda>n fs k. (Inr (), k\<lparr>mem_nodes :=
          map (\<lambda>x. if node_Name x = n then x\<lparr>node_Finalizers := fs\<rparr> else x) (mem_nodes k)\<rparr>))\<rparr>"

definition mem_accounts :: "mem \<Rightarrow> string \<times> string \<Rightarrow> ServiceAccount option" where
  "mem_accounts k = gm_get (mem_sas k)"

lemma mem_policy_laws: "policy_laws mem_client mem_policies"
  unfolding policy_laws_def mem_client_def
  by (intro conjI allI impI)
    (auto simp: found_def mem_policies_def fun_eq_iff Let_def IsNotFound_def IsAlreadyExists_def split: option.splits if_splits)

lemma mem_account_laws: "account_laws mem_client mem_accounts"
  unfolding account_laws_def mem_accounts_def mem_client_def
  by (intro conjI allI impI) (auto simp: fun_eq_iff Let_def split: option.splits if_splits)

lemma mem_node_laws: "node_laws mem_client mem_nodes"
  unfolding node_laws_def mem_client_def by (intro conjI allI impI) auto

end
