(* ===== verification/Server_Start.thy ===== *)
theory Server_Start
  imports Server_Setup Cli_Validate Kube_Api
begin

text \<open>
  Starting a node: \<^verbatim>\<open>ServerRun\<close> and \<^verbatim>\<open>AgentRun\<close> of \<^verbatim>\<open>pkg/cli/cmds\<close>, \<^verbatim>\<open>Server\<close> and \<^verbatim>\<open>Agent\<close> of
  \<^verbatim>\<open>pkg/rke2/rke2.go\<close>, and the small start-up hooks of \<^verbatim>\<open>kp.go\<close> and \<^verbatim>\<open>spc.go\<close>. What is handed to K3s at the
  end is a value: the hooks and the controllers. A hook is named with the arguments it was built from; what
  the larger hooks do is in the theories on network policies, cluster roles and service accounts.
\<close>

section \<open>Hooks\<close>

datatype startup_hook =
    SetNetworkPolicies bool "string list"
  | SetClusterRoles
  | RestrictServiceAccounts bool "string list"
  | SetKubeProxyDisabled
  | CleanupStaticPodsOnSelfDelete string

definition kubeProxyChart :: string where "kubeProxyChart = ''rke2-kube-proxy''"

definition setKubeProxyDisabled ::
  "(string, bool) gomap \<times> (string, bool) gomap \<Rightarrow> (string, bool) gomap \<times> (string, bool) gomap" where
  "setKubeProxyDisabled = (\<lambda>(skips, disables). (gm_put kubeProxyChart True skips, gm_put kubeProxyChart True disables))"

text \<open>An event of the watch on the local node; another object is an error of the watch.\<close>

datatype watch_event = NodeEvent Node | OtherEvent

definition removalAnnotation :: "string \<Rightarrow> string" where
  "removalAnnotation program = ''etcd.'' @ program @ ''.cattle.io/remove''"

definition node_removed :: "string \<Rightarrow> watch_event \<Rightarrow> bool result" where
  "node_removed program ev =
     (case ev of
        NodeEvent n \<Rightarrow> Inr (node_Deleted n \<or> gm_index '''' (node_Annotations n) (removalAnnotation program) = ''true'')
      | OtherEvent \<Rightarrow> Inl (Errorf ''event object not of type Node''))"

text \<open>\<^verbatim>\<open>UntilWithSync\<close> over the events that arrive; when they end the context was cancelled.\<close>

fun until_removed :: "string \<Rightarrow> watch_event list \<Rightarrow> unit result" where
  "until_removed program [] = Inl (Errorf ''context canceled'')"
| "until_removed program (ev # evs) =
     try_then (node_removed program ev) (\<lambda>b. if b then Inr () else until_removed program evs)"

definition watchForSelfDelete :: "string \<Rightarrow> string \<Rightarrow> string \<Rightarrow> watch_event list \<Rightarrow> disk \<Rightarrow> disk" where
  "watchForSelfDelete program mp dataDir evs d =
     (case until_removed program evs of Inl _ \<Rightarrow> d | Inr _ \<Rightarrow> snd (cleanupStaticPods mp dataDir d))"

definition cleanupStaticPodsOnSelfDelete ::
  "string \<Rightarrow> string \<Rightarrow> string \<Rightarrow> unit result \<Rightarrow> watch_event list \<Rightarrow> disk \<Rightarrow> disk outcome" where
  "cleanupStaticPodsOnSelfDelete program mp dataDir clientSet evs d =
     (case clientSet of Inl _ \<Rightarrow> Inl (Fatal ''spc: new k8s client'')
      | Inr _ \<Rightarrow> Inr (watchForSelfDelete program mp dataDir evs d))"

section \<open>The server and the agent\<close>

datatype leader_controller = CisController | CisCleanup

text \<open>
  What is handed to \<^verbatim>\<open>RunWithControllers\<close>. The static pod executor brings no controllers of its own, so the
  other controllers are none.
\<close>

record server_run =
  sr_hooks :: "startup_hook list"
  sr_leader :: "leader_controller list"

definition defaultNamespaces :: "string list" where
  "defaultNamespaces = [''kube-system'', ''default'', ''kube-public'']"

definition disable_item :: "'x cli_pkg \<Rightarrow> string \<Rightarrow> 'x \<Rightarrow> unit result \<times> 'x" where
  "disable_item cli raw x =
     (let item = str_TrimSpace raw in
      if cli_Bool cli x (''enable-'' @ item) then (Inr (), x) else cli_Set cli ''disable'' item x)"

fun disable_items :: "'x cli_pkg \<Rightarrow> string list \<Rightarrow> 'x \<Rightarrow> unit result \<times> 'x" where
  "disable_items cli [] x = (Inr (), x)"
| "disable_items cli (i # is) x = and_then (disable_item cli i x) (\<lambda>_. disable_items cli is)"

definition choose_leader :: "bool \<Rightarrow> string list \<Rightarrow> leader_controller" where
  "choose_leader cisMode cnis = (if cisMode \<and> (cnis = [] \<or> ''canal'' \<in> set cnis) then CisController else CisCleanup)"

definition rke2_Server ::
  "'x cli_pkg \<Rightarrow> 'c outside \<Rightarrow> nat \<Rightarrow> string \<Rightarrow> string \<Rightarrow> startup_hook list \<Rightarrow> cli_Config \<Rightarrow> 'x world \<times> 'c
     \<Rightarrow> server_run result \<times> ('x world \<times> 'c)" where
  "rke2_Server cli out pid reexec k3sDisableItems startupHooks cfg s =
     and_then (setup_executor cli out pid reexec cfg True s) (\<lambda>_ (w, c).
     case and_then (cli_Set cli ''secrets-encryption'' ''true'' (w_clx w))
            (\<lambda>_. disable_items cli (str_Split (CHR '','') k3sDisableItems)) of
       (Inl e, x) \<Rightarrow> (Inl e, (w\<lparr>w_clx := x\<rparr>, c))
     | (Inr _, x) \<Rightarrow>
         (let cisMode = cli_isCISMode cli x; dataDir = cli_String cli x ''data-dir'' in
          (Inr \<lparr>sr_hooks = startupHooks @
                  [SetNetworkPolicies cisMode defaultNamespaces, SetClusterRoles,
                   RestrictServiceAccounts cisMode defaultNamespaces, SetKubeProxyDisabled,
                   CleanupStaticPodsOnSelfDelete dataDir],
                sr_leader = [choose_leader cisMode (cli_StringSlice cli x ''cni'')]\<rparr>, (w\<lparr>w_clx := x\<rparr>, c))))"

text \<open>The agent; \<open>k3sAgent\<close> is the agent of K3s.\<close>

definition rke2_Agent ::
  "'x cli_pkg \<Rightarrow> 'c outside \<Rightarrow> nat \<Rightarrow> string \<Rightarrow> ('x world \<times> 'c \<Rightarrow> unit result \<times> ('x world \<times> 'c)) \<Rightarrow> cli_Config
     \<Rightarrow> 'x world \<times> 'c \<Rightarrow> unit result \<times> ('x world \<times> 'c)" where
  "rke2_Agent cli out pid reexec k3sAgent cfg s =
     and_then (setup_executor cli out pid reexec cfg False s) (\<lambda>_ s. k3sAgent s)"

section \<open>The commands\<close>

text \<open>
  \<open>config_of\<close> reads the configuration that the \<^verbatim>\<open>Destination\<close> of the flags points to; the other arguments are
  the orders of the two iterations and the outcomes of looking up the user and the group etcd.
\<close>

record 'x cmd_env =
  ce_config_of :: "'x \<Rightarrow> cli_Config"
  ce_kernel_order :: "string list"
  ce_chart_order :: "string list \<Rightarrow> string list"
  ce_user :: "unit result"
  ce_group :: "unit result"

text \<open>The checks of the two commands.\<close>

definition check_flags :: "'x cli_pkg \<Rightarrow> 'x cmd_env \<Rightarrow> CLIRole \<Rightarrow> disk \<Rightarrow> 'x \<Rightarrow> 'x outcome" where
  "check_flags cli env role d x =
     (case validateCloudProvider cli role x of
        (Inl e, _) \<Rightarrow> Inl (Err e)
      | (Inr _, x) \<Rightarrow> validateProfile cli d (ce_kernel_order env) (ce_user env) (ce_group env) role x)"

definition ServerRun ::
  "'x cli_pkg \<Rightarrow> 'x cmd_env \<Rightarrow> 'c outside \<Rightarrow> nat \<Rightarrow> string \<Rightarrow> string \<Rightarrow> startup_hook list \<Rightarrow> 'x world \<times> 'c
     \<Rightarrow> (server_run result \<times> ('x world \<times> 'c)) outcome" where
  "ServerRun cli env out pid reexec k3sDisableItems startupHooks = (\<lambda>(w, c).
     try_then (check_flags cli env Server (w_disk w) (w_clx w)) (\<lambda>x.
     try_then (validateCNI cli (ce_chart_order env) x) (\<lambda>x.
       Inr (rke2_Server cli out pid reexec k3sDisableItems startupHooks (ce_config_of env x) (w\<lparr>w_clx := x\<rparr>, c)))))"

text \<open>On Linux the agent is never a Windows service: \<^verbatim>\<open>StartService\<close> does nothing.\<close>

definition AgentRun ::
  "'x cli_pkg \<Rightarrow> 'x cmd_env \<Rightarrow> 'c outside \<Rightarrow> nat \<Rightarrow> string \<Rightarrow> ('x world \<times> 'c \<Rightarrow> unit result \<times> ('x world \<times> 'c))
     \<Rightarrow> 'x world \<times> 'c \<Rightarrow> (unit result \<times> ('x world \<times> 'c)) outcome" where
  "AgentRun cli env out pid reexec k3sAgent = (\<lambda>(w, c).
     try_then (check_flags cli env Agent (w_disk w) (w_clx w)) (\<lambda>x.
       Inr (rke2_Agent cli out pid reexec k3sAgent (ce_config_of env x) (w\<lparr>w_clx := x\<rparr>, c))))"

text \<open>\<^verbatim>\<open>Rotate\<close> of \<^verbatim>\<open>cert.go\<close>: the marker for the next start, then the rotation of K3s.\<close>

definition cert_Rotate :: "'x cli_pkg \<Rightarrow> ('x \<Rightarrow> disk \<Rightarrow> unit result \<times> disk) \<Rightarrow> 'x \<Rightarrow> disk \<Rightarrow> unit result \<times> disk" where
  "cert_Rotate cli k3sRotate x d =
     (let dataDir = (if cli_String cli x ''data-dir'' = '''' then rke2Path else cli_String cli x ''data-dir'') in
      and_then (os_WriteFile (ForceRestartFile dataDir) '''' 384 d) (\<lambda>_ d. k3sRotate x d))"

section \<open>What the set-up changes of the command line\<close>

definition setup_set :: "string set" where
  "setup_set = {''node-name'', ''system-default-registry''}"

lemma in_setup_set [simp]: "''node-name'' \<in> setup_set" "''system-default-registry'' \<in> setup_set"
  by (simp_all add: setup_set_def)

lemma setup_step_flags:
  assumes "cli_laws cli"
  shows "on_disk h w = (r1, w') \<Longrightarrow> same_off cli setup_set (w_clx w) (w_clx w')"
    and "set_node_name cli http out cfg w = (r2, w') \<Longrightarrow> same_off cli setup_set (w_clx w) (w_clx w')"
    and "choose_psa cli w = (r3, w') \<Longrightarrow> same_off cli setup_set (w_clx w) (w_clx w')"
    and "defaults_Set dir w = (r4, w') \<Longrightarrow> same_off cli setup_set (w_clx w) (w_clx w')"
  subgoal by (auto simp: on_disk_def split: prod.splits)
  subgoal by (auto simp: set_node_name_def on_clx_def Let_def split: prod.splits sum.splits if_splits
        intro: same_off_set [OF assms in_setup_set(1)])
  subgoal by (auto simp: choose_psa_def on_disk_def and_then_def Let_def split: prod.splits sum.splits if_splits)
  subgoal by (auto simp: defaults_Set_def on_disk_def and_then_def wrap_fst_def Let_def split: prod.splits sum.splits)
  done

lemma prepare_flags:
  assumes "cli_laws cli" and "prepareExecutor cli out cfg isServer w = (Inr p, w')"
  shows "same_off cli setup_set (w_clx w) (w_clx w')"
  using assms(2)
proof (cases rule: prepare_cases)
  case (1 de ext w1 fr w2 w3 cfg' cp w4 psa)
  note steps = setup_step_flags [OF assms(1)]
  have "w_clx w1 = w_clx w"
    using choose_datastore_props [OF 1(1)] by simp
  then show ?thesis
    using steps(1) [OF 1(2)] steps(1) [OF 1(3)] steps(2) [OF 1(5)] steps(3) [OF 1(6)] same_off_trans by metis
qed

lemma setup_flags:
  assumes laws: "cli_laws cli" and "setup_executor cli out pid reexec cfg isServer (w, c) = (Inr ex, (w', c'))"
  shows "same_off cli setup_set (w_clx w) (w_clx w')"
proof (cases "pid = 1 \<and> reexec \<noteq> ''true''")
  case True
  with assms(2) show ?thesis
    by (auto simp: setup_executor_def)
next
  case False
  let ?prime = "\<not> cli_IsSet cli (w_clx w) ''system-default-registry'' \<and> cli_Bool cli (w_clx w) ''prime''"
  let ?w0 = "if ?prime then snd (on_clx (cli_Set cli ''system-default-registry'' (PrimeRegistry (out_build out))) w) else w"
  from False assms(2) obtain e where "initExecutor cli out cfg isServer (w, c) = (Inr e, (w', c'))"
    by (auto simp: setup_executor_def split: prod.splits sum.splits)
  then obtain w1 cfg' where d: "defaults_Set (cli_String cli (w_clx ?w0) ''data-dir'') ?w0 = (Inr (), w1)"
    and i: "initStaticPodExecutor cli out cfg' isServer (w1, c) = (Inr e, (w', c'))"
    by (auto simp: initExecutor_def Let_def split: prod.splits sum.splits if_splits)
  have "same_off cli setup_set (w_clx w) (w_clx ?w0)"
    by (auto simp: on_clx_def split: prod.splits intro: same_off_set [OF laws in_setup_set(2)])
  moreover have "same_off cli setup_set (w_clx ?w0) (w_clx w1)"
    by (rule setup_step_flags(4) [OF laws d])
  moreover have "same_off cli setup_set (w_clx w1) (w_clx w')"
    using i by (cases rule: init_cases) (auto dest: prepare_flags [OF laws])
  ultimately show ?thesis
    by (blast intro: same_off_trans)
qed

lemma disable_items_spec:
  assumes "cli_laws cli"
  shows "disable_items cli is x =
    (Inr (), disable_all cli (filter (\<lambda>i. \<not> cli_Bool cli x (''enable-'' @ i)) (map str_TrimSpace is)) x)"
proof (induction "is" arbitrary: x)
  case Nil
  then show ?case
    by (simp add: disable_all_def)
next
  case (Cons i "is")
  have "cli_Bool cli (set_flag_value cli ''disable'' v x) (''enable-'' @ j) = cli_Bool cli x (''enable-'' @ j)" for v j
    by (rule cli_keeps(3) [OF assms]) simp
  with Cons show ?case
    by (simp add: disable_item_def Let_def cli_disable(1) [OF assms] disable_all_def)
qed


section \<open>What a start hands to K3s\<close>

definition k3s_items :: "'x cli_pkg \<Rightarrow> 'x \<Rightarrow> string \<Rightarrow> string list" where
  "k3s_items cli x dis =
     filter (\<lambda>i. \<not> cli_Bool cli x (''enable-'' @ i)) (map str_TrimSpace (str_Split (CHR '','') dis))"

lemma k3s_items_disabled:
  "cli_laws cli \<Longrightarrow> disable_items cli (str_Split (CHR '','') dis) x = (Inr (), disable_all cli (k3s_items cli x dis) x)"
  by (simp only: disable_items_spec k3s_items_def)

lemma k3s_items_cong:
  assumes "\<And>i. cli_Bool cli y (''enable-'' @ i) = cli_Bool cli x (''enable-'' @ i)"
  shows "k3s_items cli y dis = k3s_items cli x dis"
  by (simp only: k3s_items_def assms)

lemma secrets_flag: "''secrets-encryption'' \<in> set bool_flags"
  by (simp add: bool_flags_def)

lemma server_cases:
  assumes laws: "cli_laws cli"
    and run: "rke2_Server cli out pid reexec dis hooks cfg (w, c) = (Inr sr, (w', c'))"
  obtains ex w1 where "setup_executor cli out pid reexec cfg True (w, c) = (Inr ex, (w1, c'))"
    and "w_clx w' = disable_all cli (k3s_items cli (w_clx w1) dis) (set_flag_value cli ''secrets-encryption'' ''true'' (w_clx w1))"
    and "sr_hooks sr = hooks @
      [SetNetworkPolicies (cli_isCISMode cli (w_clx w')) defaultNamespaces, SetClusterRoles,
       RestrictServiceAccounts (cli_isCISMode cli (w_clx w')) defaultNamespaces, SetKubeProxyDisabled,
       CleanupStaticPodsOnSelfDelete (cli_String cli (w_clx w') ''data-dir'')]"
    and "sr_leader sr = [choose_leader (cli_isCISMode cli (w_clx w')) (cli_StringSlice cli (w_clx w') ''cni'')]"
proof -
  obtain r w1 c1 where s: "setup_executor cli out pid reexec cfg True (w, c) = (r, (w1, c1))"
    by (metis surj_pair)
  have "k3s_items cli (set_flag_value cli ''secrets-encryption'' ''true'' (w_clx w1)) dis = k3s_items cli (w_clx w1) dis"
    by (rule k3s_items_cong) (rule cli_keeps(3) [OF laws], simp)
  note items = k3s_items_disabled [OF laws, of dis "set_flag_value cli ''secrets-encryption'' ''true'' (w_clx w1)",
      unfolded this]
  show thesis
    using run that by (cases r) (auto simp: rke2_Server_def s cli_bool_set(1) [OF laws secrets_flag] items Let_def)
qed

lemma ServerRun_cases:
  assumes laws: "cli_laws cli" and order: "\<And>cs. set (ce_chart_order env cs) = set cs"
    and run: "ServerRun cli env out pid reexec dis hooks (w, c) = Inr (Inr sr, (w', c'))"
  obtains x1 x2 multus v added where
    "validateCloudProvider cli Server (w_clx w) = (Inr (), x1)"
    "validateProfile cli (w_disk w) (ce_kernel_order env) (ce_user env) (ce_group env) Server x1 = Inr x2"
    "cni_choice (split_values (cli_StringSlice cli x2 ''cni'')) = Some (multus, v)"
    "set added = unselected_charts v \<union> (if multus then {} else {''rke2-multus''})"
    "rke2_Server cli out pid reexec dis hooks (ce_config_of env (disable_all cli added x2))
       (w\<lparr>w_clx := disable_all cli added x2\<rparr>, c) = (Inr sr, (w', c'))"
proof -
  obtain x1 x2 x3 where 1: "validateCloudProvider cli Server (w_clx w) = (Inr (), x1)"
    and 2: "validateProfile cli (w_disk w) (ce_kernel_order env) (ce_user env) (ce_group env) Server x1 = Inr x2"
    and 3: "validateCNI cli (ce_chart_order env) x2 = Inr x3"
    and 4: "rke2_Server cli out pid reexec dis hooks (ce_config_of env x3) (w\<lparr>w_clx := x3\<rparr>, c) = (Inr sr, (w', c'))"
    using run by (auto simp: ServerRun_def check_flags_def split: prod.splits sum.splits)
  obtain multus v where choice: "cni_choice (split_values (cli_StringSlice cli x2 ''cni'')) = Some (multus, v)"
    using no_choice_fatal [of cli x2 "ce_chart_order env"] 3
    by (cases "cni_choice (split_values (cli_StringSlice cli x2 ''cni''))") auto
  from validateCNI_run [of "ce_chart_order env", OF order choice] 3 obtain added
    where "x3 = disable_all cli added x2" and "set added = unselected_charts v \<union> (if multus then {} else {''rke2-multus''})"
    by auto
  with 1 2 4 choice that show thesis
    by blast
qed


text \<open>The flags that a start may set.\<close>

definition start_flags :: "string set" where
  "start_flags = setup_set \<union> provider_flags \<union> {''protect-kernel-defaults'', ''secrets-encryption''}"

lemma start_flags_facts:
  "''protect-kernel-defaults'' \<in> start_flags" "''secrets-encryption'' \<in> start_flags" "''disable'' \<in> start_flags"
  "setup_set \<subseteq> start_flags" "provider_flags \<subseteq> start_flags" "''cni'' \<notin> start_flags" "''profile'' \<notin> start_flags"
  "''data-dir'' \<notin> start_flags" "''enable-'' @ i \<notin> start_flags"
  by (auto simp: start_flags_def provider_flags_def setup_set_def)

text \<open>The steps of a server start, each with the command line it leaves.\<close>

lemma server_steps:
  assumes laws: "cli_laws cli" and order: "\<And>cs. set (ce_chart_order env cs) = set cs"
    and run: "ServerRun cli env out pid reexec dis hooks (w, c) = Inr (Inr sr, (w', c'))"
  obtains x1 x2 multus v added x4 where
    "x1 = fold (choose_provider cli Server (cli_String cli (w_clx w) ''cloud-provider-name'')) cloudProviders (w_clx w)"
    "validateProfile cli (w_disk w) (ce_kernel_order env) (ce_user env) (ce_group env) Server x1 = Inr x2"
    "cni_choice (split_values (cli_StringSlice cli (w_clx w) ''cni'')) = Some (multus, v)"
    "set added = unselected_charts v \<union> (if multus then {} else {''rke2-multus''})"
    "same_off cli setup_set (disable_all cli added x2) x4"
    "w_clx w' = disable_all cli (k3s_items cli (w_clx w) dis) (set_flag_value cli ''secrets-encryption'' ''true'' x4)"
    "same_off cli start_flags (w_clx w) x1" "same_off cli start_flags x1 x2" "same_off cli start_flags (w_clx w) (w_clx w')"
    "sr_hooks sr = hooks @
      [SetNetworkPolicies (cli_isCISMode cli (w_clx w')) defaultNamespaces, SetClusterRoles,
       RestrictServiceAccounts (cli_isCISMode cli (w_clx w')) defaultNamespaces, SetKubeProxyDisabled,
       CleanupStaticPodsOnSelfDelete (cli_String cli (w_clx w') ''data-dir'')]"
    "sr_leader sr = [choose_leader (cli_isCISMode cli (w_clx w')) (cli_StringSlice cli (w_clx w') ''cni'')]"
proof (cases rule: ServerRun_cases [OF laws order run])
  case (1 x1 x2 multus v added)
  let ?x3 = "disable_all cli added x2"
  from server_cases [OF laws 1(5)] obtain ex w4 where
    s: "setup_executor cli out pid reexec (ce_config_of env ?x3) True (w\<lparr>w_clx := ?x3\<rparr>, c) = (Inr ex, (w4, c'))"
    and x5: "w_clx w' = disable_all cli (k3s_items cli (w_clx w4) dis) (set_flag_value cli ''secrets-encryption'' ''true'' (w_clx w4))"
    and sr: "sr_hooks sr = hooks @
      [SetNetworkPolicies (cli_isCISMode cli (w_clx w')) defaultNamespaces, SetClusterRoles,
       RestrictServiceAccounts (cli_isCISMode cli (w_clx w')) defaultNamespaces, SetKubeProxyDisabled,
       CleanupStaticPodsOnSelfDelete (cli_String cli (w_clx w') ''data-dir'')]"
      "sr_leader sr = [choose_leader (cli_isCISMode cli (w_clx w')) (cli_StringSlice cli (w_clx w') ''cni'')]"
    by blast
  note F = start_flags_facts
  have x1: "x1 = fold (choose_provider cli Server (cli_String cli (w_clx w) ''cloud-provider-name'')) cloudProviders (w_clx w)"
    by (rule validateCloudProvider_run [OF 1(1)])
  have s1: "same_off cli start_flags (w_clx w) x1"
    unfolding x1 by (rule same_off_mono [OF choose_providers_same [OF laws] F(5)])
  have s2: "same_off cli start_flags x1 x2"
    by (rule profile_same [OF laws 1(2) F(1)])
  have s12: "same_off cli start_flags (w_clx w) x2"
    by (rule same_off_trans [OF s1 s2])
  have s4: "same_off cli setup_set ?x3 (w_clx w4)"
    using setup_flags [OF laws s] by simp
  have "same_off cli start_flags x2 (w_clx w4)"
    by (rule same_off_trans [OF disable_all_same [OF laws F(3)] same_off_mono [OF s4 F(4)]])
  then have s04: "same_off cli start_flags (w_clx w) (w_clx w4)"
    by (rule same_off_trans [OF s12])
  then have items: "k3s_items cli (w_clx w4) dis = k3s_items cli (w_clx w) dis"
    by (intro k3s_items_cong) (erule same_offD(3) [OF _ F(9)])
  have s5: "same_off cli start_flags (w_clx w) (w_clx w')"
    unfolding x5
    by (rule same_off_trans [OF s04 same_off_trans [OF same_off_value [OF laws F(2)] disable_all_same [OF laws F(3)]]])
  have choice: "cni_choice (split_values (cli_StringSlice cli (w_clx w) ''cni'')) = Some (multus, v)"
    using 1(3) same_offD(1) [OF s12 F(6)] by simp
  show thesis
    by (rule that [OF x1 1(2) choice 1(4) s4 x5 [unfolded items] s1 s2 s5 sr])
qed


text \<open>
  C19: which packaged components a server disables. When a server starts without an error, the choice of a
  network plugin was valid, and the components disabled in the end are exactly those the administrator
  disabled, the charts of the cloud providers and network plugins that were not chosen, and the components of
  K3s that were not enabled one by one; and the encryption of secrets is switched on.
\<close>

theorem server_components:
  assumes laws: "cli_laws cli" and order: "\<And>cs. set (ce_chart_order env cs) = set cs"
    and run: "ServerRun cli env out pid reexec dis hooks (w, c) = Inr (Inr sr, (w', c'))"
  shows "\<exists>multus v. cni_choice (split_values (cli_StringSlice cli (w_clx w) ''cni'')) = Some (multus, v) \<and>
    set (cli_StringSlice cli (w_clx w') ''disable'') =
      set (cli_StringSlice cli (w_clx w) ''disable'') \<union>
      (\<Union>p \<in> {p \<in> set cloudProviders. bp_name p \<noteq> cli_String cli (w_clx w) ''cloud-provider-name''}. set (provider_charts p)) \<union>
      unselected_charts v \<union> (if multus then {} else {''rke2-multus''}) \<union>
      {i \<in> str_TrimSpace ` set (str_Split (CHR '','') dis). \<not> cli_Bool cli (w_clx w) (''enable-'' @ i)} \<and>
    cli_Bool cli (w_clx w') ''secrets-encryption''"
proof (cases rule: server_steps [OF laws order run])
  case (1 x1 x2 multus v added x4)
  have "''disable'' \<notin> setup_set" "''disable'' \<noteq> ''secrets-encryption''"
    by (simp_all add: setup_set_def)
  moreover have "cli_StringSlice cli x2 ''disable'' = cli_StringSlice cli x1 ''disable''"
    by (rule same_offD(1) [OF profile_same [OF laws 1(2), of "{''protect-kernel-defaults''}"]]) simp_all
  ultimately have slice: "cli_StringSlice cli (w_clx w') ''disable'' = cli_StringSlice cli (w_clx w) ''disable'' @
      concat (map provider_charts (filter (\<lambda>p. bp_name p \<noteq> cli_String cli (w_clx w) ''cloud-provider-name'') cloudProviders)) @
      added @ k3s_items cli (w_clx w) dis"
    using same_offD(1) [OF 1(5)] cli_keeps(1) [OF laws]
    by (simp add: 1(6) 1(1) disable_all_slice [OF laws] choose_providers_server [OF laws])
  have "cli_Bool cli (w_clx w') ''secrets-encryption''"
    using same_offD(3) [OF disable_all_same [OF laws, of "{''disable''}"], of "''secrets-encryption''"]
      cli_bool_set(2) [OF laws secrets_flag] by (simp add: 1(6))
  with 1(3,4) show ?thesis
    by (intro exI [of _ multus] exI [of _ v]) (simp add: slice k3s_items_def, blast)
qed

text \<open>
  C18: a server with the CIS profile. If it starts without an error, the kernel parameters, the user and the
  group etcd are as the benchmark demands, the kernel defaults are protected, and the start-up hooks restrict
  the network and the service accounts of the default namespaces.
\<close>

theorem cis_server:
  assumes laws: "cli_laws cli" and order: "\<And>cs. set (ce_chart_order env cs) = set cs"
    and kernel: "set (ce_kernel_order env) = set (gm_keys kernelRuntimeParameters)"
    and cis: "cli_String cli (w_clx w) ''profile'' = ''cis''"
    and run: "ServerRun cli env out pid reexec dis hooks (w, c) = Inr (Inr sr, (w', c'))"
  shows "kernel_hardened (w_disk w) \<and> ce_user env = Inr () \<and> ce_group env = Inr () \<and>
    cli_Bool cli (w_clx w') ''protect-kernel-defaults'' \<and>
    SetNetworkPolicies True defaultNamespaces \<in> set (sr_hooks sr) \<and>
    RestrictServiceAccounts True defaultNamespaces \<in> set (sr_hooks sr)"
proof (cases rule: server_steps [OF laws order run])
  case (1 x1 x2 multus v added x4)
  have "cli_String cli x1 ''profile'' = ''cis''"
    using cis same_offD(2) [OF 1(7) start_flags_facts(7)] by simp
  then have ok: "etcd_owner Server (ce_user env) (ce_group env)" "kernel_hardened (w_disk w)"
    "cli_Bool cli x2 ''protect-kernel-defaults''"
    using 1(2) profile_iff [OF laws kernel] by auto
  have "cli_isCISMode cli (w_clx w')"
    using cis same_offD(2) [OF 1(9) start_flags_facts(7)] by (simp add: cli_isCISMode_def)
  moreover have "cli_Bool cli (w_clx w') ''protect-kernel-defaults''"
    using ok(3) same_offD(3) [OF disable_all_same [OF laws, of "{''disable''}"], of "''protect-kernel-defaults''"]
      same_offD(3) [OF 1(5), of "''protect-kernel-defaults''"] cli_keeps(3) [OF laws]
    by (simp add: 1(6) setup_set_def)
  ultimately show ?thesis
    using ok by (simp add: 1(10) etcd_owner_def)
qed

text \<open>
  With multus and canal given as one comma separated value, a server with the CIS profile starts with
  canal enabled, but runs the clean-up of the flannel network policies where it should apply them: the choice
  of the leader's controller looks for canal without splitting the value.
\<close>

theorem comma_separated_cni:
  assumes laws: "cli_laws cli" and order: "\<And>cs. set (ce_chart_order env cs) = set cs"
    and cni: "cli_StringSlice cli (w_clx w) ''cni'' = [''multus,canal'']"
    and run: "ServerRun cli env out pid reexec dis hooks (w, c) = Inr (Inr sr, (w', c'))"
  shows "cni_choice (split_values (cli_StringSlice cli (w_clx w) ''cni'')) = Some (True, ''canal'') \<and> sr_leader sr = [CisCleanup]"
proof (cases rule: server_steps [OF laws order run])
  case (1 x1 x2 multus v added x4)
  have "cni_choice (split_values [''multus,canal'']) = Some (True, ''canal'')"
    by code_simp
  moreover have "sr_leader sr = [CisCleanup]"
    using same_offD(1) [OF 1(9) start_flags_facts(6)] by (simp add: 1(11) cni choose_leader_def)
  ultimately show ?thesis
    by (simp add: cni)
qed


section \<open>Examples\<close>

definition start_world :: "(string, string) gomap world" where
  "start_world = example_world\<lparr>
     w_clx := [(''cni'', ''multus,canal''), (''profile'', ''cis''), (''disable'', ''rke2-coredns'')] @ w_clx example_world,
     w_disk := cleanup_disk\<lparr>tree := tree cleanup_disk @ tree hardened_disk\<rparr>\<rparr>"

definition start_env :: "(string, string) gomap cmd_env" where
  "start_env = \<lparr>ce_config_of = (\<lambda>_. empty_cfg), ce_kernel_order = gm_keys kernelRuntimeParameters,
     ce_chart_order = rev, ce_user = Inr (), ce_group = Inr ()\<rparr>"

abbreviation example_start where
  "example_start \<equiv> ServerRun map_cli start_env example_outside 2 '''' ''servicelb, traefik'' []
     (start_world, [etcd_sandbox ''s1'' ''u1''])"

lemma example_start_ok: "case example_start of Inr (Inr _, _) \<Rightarrow> True | _ \<Rightarrow> False"
  by code_simp


lemma start_env_orders:
  "set (ce_chart_order start_env cs) = set cs"
  "set (ce_kernel_order start_env) = set (gm_keys kernelRuntimeParameters)"
  by (simp_all add: start_env_def)

lemma start_world_flags:
  "cli_String map_cli (w_clx start_world) ''profile'' = ''cis''"
  "cli_StringSlice map_cli (w_clx start_world) ''cni'' = [''multus,canal'']"
  by code_simp+

lemma example_start_run: "\<exists>sr w' c'. example_start = Inr (Inr sr, (w', c'))"
  using example_start_ok by (simp split: sum.splits prod.splits)

theorem server_components_witness:
  "\<exists>sr w' c'. example_start = Inr (Inr sr, (w', c')) \<and> ''traefik'' \<in> set (cli_StringSlice map_cli (w_clx w') ''disable'')"
proof -
  from example_start_run obtain sr w' c' where run: "example_start = Inr (Inr sr, (w', c'))"
    by blast
  have "''traefik'' \<in> str_TrimSpace ` set (str_Split (CHR '','') ''servicelb, traefik'')"
    and "\<not> cli_Bool map_cli (w_clx start_world) (''enable-'' @ ''traefik'')"
    by code_simp+
  with server_components [OF map_cli_laws start_env_orders(1) run] run show ?thesis
    by blast
qed

theorem cis_server_witness:
  "\<exists>sr w' c'. example_start = Inr (Inr sr, (w', c')) \<and> RestrictServiceAccounts True defaultNamespaces \<in> set (sr_hooks sr)"
proof -
  from example_start_run obtain sr w' c' where run: "example_start = Inr (Inr sr, (w', c'))"
    by blast
  show ?thesis
    using cis_server [OF map_cli_laws start_env_orders start_world_flags(1) run] run by blast
qed

theorem comma_separated_cni_witness:
  "\<exists>sr w' c'. example_start = Inr (Inr sr, (w', c')) \<and> cli_String map_cli (w_clx start_world) ''profile'' = ''cis'' \<and>
     sr_leader sr = [CisCleanup]"
proof -
  from example_start_run obtain sr w' c' where run: "example_start = Inr (Inr sr, (w', c'))"
    by blast
  show ?thesis
    using comma_separated_cni [OF map_cli_laws start_env_orders(1) start_world_flags(2) run] run start_world_flags(1) by blast
qed

section \<open>Restart after the rotation of certificates\<close>

lemma force_restart_all:
  "component \<in> set static_components \<Longrightarrow> gm_index False (component_disabled cli x isServer True) component"
  by (auto simp: static_components_def component_disabled_def gm_index_def gm_get_def Let_def)

lemma prepare_force_restart:
  assumes "prepareExecutor cli out cfg isServer w = (Inr p, w')"
    and "dataDir = cli_String cli (w_clx w) ''data-dir''"
    and "os_Stat (w_disk w) (ForceRestartFile dataDir) = Inr i"
  shows "pr_forceRestart p"
  using assms(1)
proof (cases rule: prepare_cases)
  case (1 de ext w1 fr w2 w3 cfg' cp w4 psa)
  have "w_disk w1 = w_disk w" "w_clx w1 = w_clx w"
    using choose_datastore_props [OF 1(1)] by simp_all
  with 1(2,7,9) assms(2,3) show ?thesis
    by (auto simp: on_disk_def check_force_restart_def split: prod.splits)
qed


definition rotation_disk :: disk where
  "rotation_disk = cleanup_disk\<lparr>tree := (''/a'', new_inode Directory 493) # tree cleanup_disk\<rparr>"

definition rotated_disk :: disk where
  "rotated_disk = snd (cert_Rotate map_cli (\<lambda>_ d. (Inr (), d)) [(''data-dir'', ''/a'')] rotation_disk)"

abbreviation rotated_start where
  "rotated_start \<equiv> prepareExecutor map_cli example_outside empty_cfg True (example_world\<lparr>w_disk := rotated_disk\<rparr>)"

lemma rotated_start_ok: "case rotated_start of (Inr _, _) \<Rightarrow> True | _ \<Rightarrow> False"
  by code_simp


section \<open>Deletion of the node\<close>

lemma until_removed_iff:
  "until_removed program evs = Inr () \<longleftrightarrow>
     (\<exists>pre n post. evs = map NodeEvent pre @ NodeEvent n # post \<and> node_removed program (NodeEvent n) = Inr True)"
proof (induction evs)
  case (Cons ev evs)
  show ?case
  proof (cases ev)
    case (NodeEvent n)
    have "(\<exists>pre m post. NodeEvent n # evs = map NodeEvent pre @ NodeEvent m # post \<and> node_removed program (NodeEvent m) = Inr True)
      \<longleftrightarrow> node_removed program (NodeEvent n) = Inr True \<or>
        (\<exists>pre m post. evs = map NodeEvent pre @ NodeEvent m # post \<and> node_removed program (NodeEvent m) = Inr True)"
      by (auto simp: Cons_eq_append_conv Cons_eq_map_conv) (metis list.simps(9))
    then show ?thesis
      using Cons NodeEvent by (auto simp: node_removed_def)
  next
    case OtherEvent
    then show ?thesis
      by (auto simp: node_removed_def Cons_eq_append_conv Cons_eq_map_conv)
  qed
qed simp



definition live_node :: Node where
  "live_node = \<lparr>node_Name = ''n'', node_Annotations = [], node_Finalizers = [], node_Deleted = False, node_PodCIDR = '''',
     node_PodCIDRs = []\<rparr>"


end
