(* ===== verification/Service_Accounts.thy ===== *)
theory Service_Accounts
  imports Kube_Api
begin

text \<open>
  \<^verbatim>\<open>pkg/rke2/serviceaccount.go\<close>: in CIS mode the default service account of the core namespaces must not
  mount its token. Two retries are nested: the outer one waits for the account to exist, the inner one
  resolves conflicts with other servers.
\<close>

section \<open>Definitions\<close>

definition retryError :: "err \<Rightarrow> bool" where
  "retryError e \<longleftrightarrow> IsNotFound e"

definition DefaultServiceAccountName :: string where
  "DefaultServiceAccountName = ''default''"

definition updateServiceAccountRef ::
  "'k client \<Rightarrow> string \<Rightarrow> ServiceAccount \<times> 'k \<Rightarrow> unit result \<times> (ServiceAccount \<times> 'k)" where
  "updateServiceAccountRef cl namespace s =
     (case s of (sa, k) \<Rightarrow>
        case sa_Get cl namespace (sa_Name sa) k of
          (Inl e, k') \<Rightarrow> (Inl e, (sa, k'))
        | (Inr newSA, k') \<Rightarrow> (Inr (), (newSA, k')))"

text \<open>The body of the inner retry: after a conflict the account is fetched again and the conflict is returned.\<close>

definition disable_automount ::
  "'k client \<Rightarrow> string \<Rightarrow> ServiceAccount \<times> 'k \<Rightarrow> unit result \<times> (ServiceAccount \<times> 'k)" where
  "disable_automount cl namespace s =
     (case s of (sa0, k) \<Rightarrow>
        let sa = sa0\<lparr>sa_AutomountServiceAccountToken := Some False\<rparr> in
        case sa_Update cl namespace sa k of
          (Inl e, k1) \<Rightarrow>
            if IsConflict e then
              (case updateServiceAccountRef cl namespace (sa, k1) of
                 (Inl getErr, s2) \<Rightarrow> (Inl getErr, s2)
               | (Inr _, s2) \<Rightarrow> (Inl e, s2))
            else (Inl e, (sa, k1))
        | (Inr _, k1) \<Rightarrow> (Inr (), (sa, k1)))"

definition restrict_once ::
  "'k client \<Rightarrow> (ServiceAccount \<times> 'k) retry \<Rightarrow> string \<Rightarrow> 'k \<Rightarrow> unit result \<times> 'k" where
  "restrict_once cl onConflict namespace k =
     (case sa_Get cl namespace DefaultServiceAccountName k of
        (Inl e, k1) \<Rightarrow> (Inl e, k1)
      | (Inr sa, k1) \<Rightarrow>
          (case onConflict IsConflict (disable_automount cl namespace) (sa, k1) of (res, (_, k2)) \<Rightarrow> (res, k2)))"

definition restrictServiceAccount ::
  "'k client \<Rightarrow> 'k retry \<Rightarrow> (ServiceAccount \<times> 'k) retry \<Rightarrow> string \<Rightarrow> 'k \<Rightarrow> unit result \<times> 'k" where
  "restrictServiceAccount cl onError onConflict namespace k =
     onError retryError (restrict_once cl onConflict namespace) k"

text \<open>The hook: the namespaces in order; a failure ends the process.\<close>

fun restrict_all ::
  "'k client \<Rightarrow> 'k retry \<Rightarrow> (ServiceAccount \<times> 'k) retry \<Rightarrow> string list \<Rightarrow> 'k \<Rightarrow> 'k outcome" where
  "restrict_all cl onError onConflict [] k = Inr k"
| "restrict_all cl onError onConflict (namespace # nss) k =
     (case restrictServiceAccount cl onError onConflict namespace k of
        (Inl e, k') \<Rightarrow> Inl (Fatal (''serviceAccount: namespace '' @ namespace))
      | (Inr _, k') \<Rightarrow> restrict_all cl onError onConflict nss k')"

definition restrictServiceAccounts ::
  "bool \<Rightarrow> string list \<Rightarrow> 'k client result \<Rightarrow> 'k retry \<Rightarrow> (ServiceAccount \<times> 'k) retry \<Rightarrow> 'k \<Rightarrow> 'k outcome" where
  "restrictServiceAccounts cisMode namespaces clientSet onError onConflict k =
     (if \<not> cisMode then Inr k
      else case clientSet of
        Inl e \<Rightarrow> Inl (Fatal ''serviceAccount: new k8s client'')
      | Inr cl \<Rightarrow> restrict_all cl onError onConflict (namespaces @ [''kube-node-lease'']) k)"

section \<open>Every default account is restricted\<close>

definition restricted :: "('k \<Rightarrow> string \<times> string \<Rightarrow> ServiceAccount option) \<Rightarrow> 'k \<Rightarrow> string \<Rightarrow> bool" where
  "restricted accs k namespace \<longleftrightarrow>
     (\<exists>a. accs k (namespace, DefaultServiceAccountName) = Some a \<and> sa_AutomountServiceAccountToken a = Some False)"

text \<open>Apart from the account at hand, and that one only towards being restricted, no account changes.\<close>

definition keeps_accounts :: "('k \<Rightarrow> string \<times> string \<Rightarrow> ServiceAccount option) \<Rightarrow> string \<Rightarrow> 'k \<Rightarrow> 'k \<Rightarrow> bool" where
  "keeps_accounts accs namespace k k' \<longleftrightarrow>
     (\<forall>q. q \<noteq> (namespace, DefaultServiceAccountName) \<longrightarrow> accs k' q = accs k q) \<and>
     (accs k' (namespace, DefaultServiceAccountName) = accs k (namespace, DefaultServiceAccountName) \<or>
      restricted accs k' namespace)"

lemma sa_Get_law:
  assumes "account_laws cl accs" and "sa_Get cl ns n k = (r, k')"
  shows "accs k' = accs k \<and> (case r of Inr a \<Rightarrow> accs k (ns, n) = Some a \<and> sa_Name a = n | Inl e \<Rightarrow> True)"
  using assms(1) [unfolded account_laws_def, THEN conjunct1] assms(2) by blast

lemma sa_Update_law:
  assumes "account_laws cl accs" and "sa_Update cl ns a k = (r, k')"
  shows "case r of Inr _ \<Rightarrow> \<exists>v. accs k' = (accs k)((ns, sa_Name a) := Some (a\<lparr>sa_ResourceVersion := v\<rparr>))
         | Inl e \<Rightarrow> accs k' = accs k"
  using assms(1) [unfolded account_laws_def, THEN conjunct2] assms(2) by blast

lemma disable_automount_step:
  assumes "account_laws cl accs" and "disable_automount cl ns (sa, k) = (r, (sa', k'))"
    and "sa_Name sa = DefaultServiceAccountName"
  shows "sa_Name sa' = DefaultServiceAccountName \<and>
         (case r of Inl e \<Rightarrow> accs k' = accs k | Inr _ \<Rightarrow> keeps_accounts accs ns k k' \<and> restricted accs k' ns)"
proof -
  let ?sa = "sa\<lparr>sa_AutomountServiceAccountToken := Some False\<rparr>"
  obtain u k1 where u: "sa_Update cl ns ?sa k = (u, k1)" by force
  note law = sa_Update_law [OF assms(1) u]
  show ?thesis
  proof (cases u)
    case (Inr x)
    then have "r = Inr () \<and> sa' = ?sa \<and> k' = k1" using assms(2) u by (simp add: disable_automount_def Let_def)
    with law Inr assms(3) show ?thesis by (auto simp: restricted_def keeps_accounts_def)
  next
    case (Inl e)
    obtain g k2 where g: "sa_Get cl ns (sa_Name ?sa) k1 = (g, k2)" by force
    note gl = sa_Get_law [OF assms(1) g]
    show ?thesis
      using assms(2,3) u Inl law g gl
      by (auto simp: disable_automount_def updateServiceAccountRef_def Let_def split: if_splits sum.splits)
  qed
qed

lemma restrict_once_props:
  assumes "account_laws cl accs" and "retry_law onConflict" and "restrict_once cl onConflict ns k = (r, k')"
  shows "case r of Inl e \<Rightarrow> accs k' = accs k | Inr _ \<Rightarrow> keeps_accounts accs ns k k' \<and> restricted accs k' ns"
proof -
  obtain g k1 where g: "sa_Get cl ns DefaultServiceAccountName k = (g, k1)" by force
  note gl = sa_Get_law [OF assms(1) g]
  show ?thesis
  proof (cases g)
    case (Inl e)
    with assms(3) g gl show ?thesis by (auto simp: restrict_once_def)
  next
    case (Inr sa)
    obtain sa' where o: "onConflict IsConflict (disable_automount cl ns) (sa, k1) = (r, (sa', k'))"
      using assms(3) g Inr by (auto simp: restrict_once_def split: prod.splits)
    let ?I = "\<lambda>s. sa_Name (fst s) = DefaultServiceAccountName \<and> accs (snd s) = accs k"
    let ?Q = "\<lambda>s. keeps_accounts accs ns k (snd s) \<and> restricted accs (snd s) ns"
    have start: "?I (sa, k1)" using gl Inr by simp
    have step: "case r of Inl e \<Rightarrow> ?I s' | Inr _ \<Rightarrow> ?Q s'"
      if i: "?I s" and d: "disable_automount cl ns s = (r, s')" for s r s'
    proof -
      obtain x y x' y' where s: "s = (x, y)" "s' = (x', y')" by (cases s, cases s')
      from disable_automount_step [OF assms(1) d [unfolded s]] i show ?thesis
        by (auto simp: s keeps_accounts_def split: sum.splits)
    qed
    have "case r of Inl e \<Rightarrow> ?I (sa', k') | Inr _ \<Rightarrow> ?Q (sa', k')"
      by (rule retry_rule [OF assms(2) o, of ?I, OF start]) (rule step)
    then show ?thesis by (auto split: sum.splits)
  qed
qed

lemma restrictServiceAccount_props:
  assumes "account_laws cl accs" and "retry_law onError" and "retry_law onConflict"
    and "restrictServiceAccount cl onError onConflict ns k = (Inr u, k')"
  shows "keeps_accounts accs ns k k' \<and> restricted accs k' ns"
proof -
  let ?I = "\<lambda>x. accs x = accs k"
  have "case (Inr u :: unit result) of Inl e \<Rightarrow> ?I k' | Inr _ \<Rightarrow> keeps_accounts accs ns k k' \<and> restricted accs k' ns"
    by (rule retry_rule [OF assms(2) assms(4) [unfolded restrictServiceAccount_def], of ?I])
      (auto simp: keeps_accounts_def split: sum.splits dest!: restrict_once_props [OF assms(1,3)])
  then show ?thesis by simp
qed

lemma restrict_all_props:
  assumes "account_laws cl accs" and "retry_law onError" and "retry_law onConflict"
    and "restrict_all cl onError onConflict nss k = Inr k'"
  shows "(\<forall>ns \<in> set nss. restricted accs k' ns) \<and> (\<forall>ns. restricted accs k ns \<longrightarrow> restricted accs k' ns) \<and>
         (\<forall>q. (\<forall>ns \<in> set nss. q \<noteq> (ns, DefaultServiceAccountName)) \<longrightarrow> accs k' q = accs k q)"
  using assms(4)
proof (induction nss arbitrary: k)
  case (Cons ns nss)
  obtain k1 u where r: "restrictServiceAccount cl onError onConflict ns k = (Inr u, k1)"
    and rest: "restrict_all cl onError onConflict nss k1 = Inr k'"
    using Cons.prems by (auto split: prod.splits sum.splits)
  note p = restrictServiceAccount_props [OF assms(1-3) r]
  have mono: "restricted accs k1 m" if "restricted accs k m" for m
    using that p by (cases "m = ns") (auto simp: keeps_accounts_def restricted_def)
  have other: "accs k1 q = accs k q" if "q \<noteq> (ns, DefaultServiceAccountName)" for q
    using that p unfolding keeps_accounts_def by blast
  from Cons.IH [OF rest] p mono other show ?case by (auto simp: restricted_def)
qed simp

text \<open>
  C32: in CIS mode the start-up hook either ends the process or leaves the default service account of every
  given namespace and of kube-node-lease with token mounting switched off, whatever conflicts and late
  accounts it met; no other account is changed. Outside CIS mode it changes nothing.
\<close>

theorem service_accounts_restricted:
  assumes "account_laws cl accs" and "retry_law onError" and "retry_law onConflict"
    and "restrictServiceAccounts cisMode namespaces (Inr cl) onError onConflict k = Inr k'"
  shows "if cisMode then
           (\<forall>ns \<in> set (namespaces @ [''kube-node-lease'']).
              \<exists>a. accs k' (ns, DefaultServiceAccountName) = Some a \<and> sa_AutomountServiceAccountToken a = Some False) \<and>
           (\<forall>ns n. n \<noteq> DefaultServiceAccountName \<or> ns \<notin> set (namespaces @ [''kube-node-lease'']) \<longrightarrow> accs k' (ns, n) = accs k (ns, n))
         else k' = k"
proof (cases cisMode)
  case True
  then have r: "restrict_all cl onError onConflict (namespaces @ [''kube-node-lease'']) k = Inr k'"
    using assms(4) by (simp add: restrictServiceAccounts_def)
  have "accs k' (ns, n) = accs k (ns, n)"
    if "n \<noteq> DefaultServiceAccountName \<or> ns \<notin> set (namespaces @ [''kube-node-lease''])" for ns n
    by (rule restrict_all_props [OF assms(1-3) r, THEN conjunct2, THEN conjunct2, rule_format]) (use that in auto)
  moreover have "\<forall>ns \<in> set (namespaces @ [''kube-node-lease'']). restricted accs k' ns"
    using restrict_all_props [OF assms(1-3) r] by blast
  ultimately show ?thesis using True unfolding restricted_def by auto
next
  case False
  then show ?thesis using assms(4) by (simp add: restrictServiceAccounts_def)
qed

definition lease_cluster :: mem where
  "lease_cluster = \<lparr>mem_ns = [], mem_pols = [], mem_sas = [((''kube-node-lease'', ''default''),
       \<lparr>sa_Name = ''default'', sa_ResourceVersion = ''1'', sa_AutomountServiceAccountToken = None, sa_Other = ''''\<rparr>)],
     mem_nodes = []\<rparr>"

theorem service_accounts_restricted_witness:
  "\<exists>k' a. restrictServiceAccounts True [] (Inr mem_client) (attempts 9) (attempts 4) lease_cluster = Inr k' \<and>
     mem_accounts k' (''kube-node-lease'', ''default'') = Some a \<and> sa_AutomountServiceAccountToken a = Some False"
proof -
  have "\<not> isl (restrictServiceAccounts True [] (Inr mem_client) (attempts 9) (attempts 4) lease_cluster)" by code_simp
  then obtain k' where r: "restrictServiceAccounts True [] (Inr mem_client) (attempts 9) (attempts 4) lease_cluster = Inr k'"
    by (cases "restrictServiceAccounts True [] (Inr mem_client) (attempts 9) (attempts 4) lease_cluster") auto
  from service_accounts_restricted [OF mem_account_laws retry_law_attempts retry_law_attempts r] r
  show ?thesis by (auto simp: DefaultServiceAccountName_def)
qed

end
