(* ===== verification/Net_Policies.thy ===== *)
theory Net_Policies
  imports Kube_Api
begin

text \<open>
  \<^verbatim>\<open>pkg/rke2/np.go\<close>: the network policies of CIS mode. The policy tables, the pass that applies the templates
  which a namespace's annotations do not mark as resolved, and the start-up hook that repeats it.
\<close>

section \<open>Policy templates\<close>

definition cisAnnotationValue :: string where "cisAnnotationValue = ''resolved''"

record policyTemplate =
  pt_name :: string
  pt_annotationKey :: string
  pt_podSelector :: "(string, string) gomap"
  pt_ingress :: "NetworkPolicyIngressRule list"

definition tcp :: string where "tcp = ''TCP''"
definition udp :: string where "udp = ''UDP''"

definition port_rule :: "(string \<times> IntOrString) list \<Rightarrow> NetworkPolicyIngressRule" where
  "port_rule ps = \<lparr>ir_Ports = map (\<lambda>(proto, p). \<lparr>npp_Protocol = proto, npp_Port = p\<rparr>) ps, ir_From = []\<rparr>"

definition defaultNamespacePolicies :: "policyTemplate list" where
  "defaultNamespacePolicies =
     [\<lparr>pt_name = ''default-network-policy'', pt_annotationKey = ''np.rke2.io'', pt_podSelector = [],
       pt_ingress = [\<lparr>ir_Ports = [], ir_From = [\<lparr>peer_PodSelector = Some [], peer_IPBlock = None\<rparr>]\<rparr>]\<rparr>]"

definition defaultKubeSystemPolicies :: "policyTemplate list" where
  "defaultKubeSystemPolicies =
     [\<lparr>pt_name = ''default-network-dns-policy'', pt_annotationKey = ''np.rke2.io/dns'',
       pt_podSelector = [(''k8s-app'', ''kube-dns'')],
       pt_ingress = [port_rule [(tcp, IntVal 53), (udp, IntVal 53)]]\<rparr>,
      \<lparr>pt_name = ''default-network-ingress-policy'', pt_annotationKey = ''np.rke2.io/ingress'',
       pt_podSelector = [(''app.kubernetes.io/name'', ''rke2-ingress-nginx'')],
       pt_ingress = [port_rule [(tcp, StrVal ''http''), (tcp, StrVal ''https'')]]\<rparr>,
      \<lparr>pt_name = ''default-network-ingress-webhook-policy'', pt_annotationKey = ''np.rke2.io/ingress-webhook'',
       pt_podSelector = [(''app.kubernetes.io/name'', ''rke2-ingress-nginx'')],
       pt_ingress = [port_rule [(tcp, StrVal ''webhook'')]]\<rparr>,
      \<lparr>pt_name = ''default-network-traefik-policy'', pt_annotationKey = ''np.rke2.io/traefik'',
       pt_podSelector = [(''app.kubernetes.io/name'', ''rke2-traefik'')],
       pt_ingress = [port_rule [(tcp, StrVal ''web''), (tcp, StrVal ''websecure'')]]\<rparr>,
      \<lparr>pt_name = ''default-network-snapshot-validation-webhook-policy'',
       pt_annotationKey = ''np.rke2.io/snapshot-validation-webhook'',
       pt_podSelector = [(''app.kubernetes.io/name'', ''rke2-snapshot-validation-webhook'')],
       pt_ingress = [port_rule [(tcp, StrVal ''https'')]]\<rparr>,
      \<lparr>pt_name = ''default-network-metrics-server-policy'', pt_annotationKey = ''np.rke2.io/metrics-server'',
       pt_podSelector = [(''app'', ''rke2-metrics-server'')],
       pt_ingress = [port_rule [(tcp, StrVal ''https'')]]\<rparr>]"

definition policyFromTemplate :: "policyTemplate \<Rightarrow> NetworkPolicy" where
  "policyFromTemplate t =
     \<lparr>np_Name = pt_name t, np_Annotations = Some [(pt_annotationKey t, cisAnnotationValue)],
      np_PodSelector = pt_podSelector t, np_PolicyTypes = [''Ingress''], np_Ingress = pt_ingress t\<rparr>"

section \<open>Applying templates\<close>

text \<open>The latest revision of the namespace, with the annotations of the revision at hand copied over it.\<close>

definition updateNamespaceRef :: "'k client \<Rightarrow> Namespace \<times> 'k \<Rightarrow> unit result \<times> (Namespace \<times> 'k)" where
  "updateNamespaceRef cl s =
     (case s of (ns, k) \<Rightarrow>
        case ns_Get cl (ns_Name ns) k of
          (Inl e, k') \<Rightarrow> (Inl e, (ns, k'))
        | (Inr newNS, k') \<Rightarrow>
            (Inr (), (newNS\<lparr>ns_Annotations :=
               Some (fold (\<lambda>(a, v). gm_put a v) (rev (map_entries (ns_Annotations ns))) (map_entries (ns_Annotations newNS)))\<rparr>, k')))"

text \<open>The body of the retry: a conflict is answered by fetching the namespace again.\<close>

definition update_namespace :: "'k client \<Rightarrow> Namespace \<times> 'k \<Rightarrow> unit result \<times> (Namespace \<times> 'k)" where
  "update_namespace cl s =
     (case s of (ns, k) \<Rightarrow>
        case ns_Update cl ns k of
          (Inl e, k') \<Rightarrow> if IsConflict e then updateNamespaceRef cl (ns, k') else (Inl e, (ns, k'))
        | (Inr _, k') \<Rightarrow> (Inr (), (ns, k')))"

definition delete_existing :: "'k client \<Rightarrow> string \<Rightarrow> string \<Rightarrow> 'k \<Rightarrow> unit result \<times> 'k" where
  "delete_existing cl namespace name k =
     (case pol_Get cl namespace name k of
        (Inl _, k1) \<Rightarrow> (Inr (), k1)
      | (Inr _, k1) \<Rightarrow>
          (case pol_Delete cl namespace name k1 of
             (Inl e, k2) \<Rightarrow> (if IsNotFound e then Inr () else Inl e, k2)
           | (Inr _, k2) \<Rightarrow> (Inr (), k2)))"

definition create_policy :: "'k client \<Rightarrow> string \<Rightarrow> policyTemplate \<Rightarrow> 'k \<Rightarrow> unit result \<times> 'k" where
  "create_policy cl namespace t k =
     (case pol_Create cl namespace (policyFromTemplate t) k of
        (Inl e, k1) \<Rightarrow> (if IsAlreadyExists e then Inr () else Inl e, k1)
      | (Inr _, k1) \<Rightarrow> (Inr (), k1))"

definition resolved :: "Namespace \<Rightarrow> policyTemplate \<Rightarrow> bool" where
  "resolved ns t \<longleftrightarrow> gm_get (map_entries (ns_Annotations ns)) (pt_annotationKey t) \<noteq> None"

definition mark_resolved :: "policyTemplate \<Rightarrow> Namespace \<Rightarrow> Namespace" where
  "mark_resolved t ns =
     ns\<lparr>ns_Annotations := Some (gm_put (pt_annotationKey t) cisAnnotationValue (map_entries (ns_Annotations ns)))\<rparr>"

definition apply_template ::
  "'k client \<Rightarrow> (Namespace \<times> 'k) retry \<Rightarrow> string \<Rightarrow> policyTemplate \<Rightarrow> Namespace \<times> 'k \<Rightarrow> unit result \<times> (Namespace \<times> 'k)" where
  "apply_template cl onError namespace t s =
     (case s of (ns, k) \<Rightarrow>
        if resolved ns t then (Inr (), (ns, k))
        else case delete_existing cl namespace (pt_name t) k of
          (Inl e, k1) \<Rightarrow> (Inl e, (ns, k1))
        | (Inr _, k1) \<Rightarrow>
           (case create_policy cl namespace t k1 of
              (Inl e, k2) \<Rightarrow> (Inl e, (ns, k2))
            | (Inr _, k2) \<Rightarrow>
               (case onError IsConflict (update_namespace cl) (mark_resolved t ns, k2) of
                  (Inl e, (ns', k3)) \<Rightarrow>
                    (Inl (Errorf (''failed to apply network policy '' @ pt_name t @ '' to namespace '' @ ns_Name ns')), (ns', k3))
                | (Inr _, s') \<Rightarrow> (Inr (), s'))))"

fun apply_templates ::
  "'k client \<Rightarrow> (Namespace \<times> 'k) retry \<Rightarrow> string \<Rightarrow> policyTemplate list \<Rightarrow> Namespace \<times> 'k \<Rightarrow> unit result \<times> (Namespace \<times> 'k)" where
  "apply_templates cl onError namespace [] s = (Inr (), s)"
| "apply_templates cl onError namespace (t # ts) s =
     (case apply_template cl onError namespace t s of
        (Inl e, s') \<Rightarrow> (Inl e, s')
      | (Inr _, s') \<Rightarrow> apply_templates cl onError namespace ts s')"

definition setPoliciesFromTemplates ::
  "'k client \<Rightarrow> (Namespace \<times> 'k) retry \<Rightarrow> policyTemplate list \<Rightarrow> string \<Rightarrow> 'k \<Rightarrow> unit result \<times> 'k" where
  "setPoliciesFromTemplates cl onError templates namespace k =
     (case ns_Get cl namespace k of
        (Inl e, k1) \<Rightarrow> (Inl (WithMessage (''networkPolicy: get '' @ namespace) e), k1)
      | (Inr ns, k1) \<Rightarrow>
          (case apply_templates cl onError namespace templates (ns, k1) of (res, (_, k2)) \<Rightarrow> (res, k2)))"

section \<open>The start-up hook\<close>

definition NamespaceSystem :: string where "NamespaceSystem = ''kube-system''"

text \<open>One round of the poll: the namespaces in order; any error ends the round unsuccessfully.\<close>

fun policies_round :: "'k client \<Rightarrow> (Namespace \<times> 'k) retry \<Rightarrow> string list \<Rightarrow> 'k \<Rightarrow> bool \<times> 'k" where
  "policies_round cl onError [] k = (True, k)"
| "policies_round cl onError (namespace # nss) k =
     (case setPoliciesFromTemplates cl onError defaultNamespacePolicies namespace k of
        (Inl e, k1) \<Rightarrow> (False, k1)
      | (Inr _, k1) \<Rightarrow>
          if namespace = NamespaceSystem then
            (case setPoliciesFromTemplates cl onError defaultKubeSystemPolicies namespace k1 of
               (Inl e, k2) \<Rightarrow> (False, k2)
             | (Inr _, k2) \<Rightarrow> policies_round cl onError nss k2)
          else policies_round cl onError nss k1)"

text \<open>
  The hook after the API server is ready. \<open>n\<close> rounds take place before the context is cancelled; the result
  says whether a round succeeded.
\<close>

fun policies_poll :: "'k client \<Rightarrow> (Namespace \<times> 'k) retry \<Rightarrow> string list \<Rightarrow> nat \<Rightarrow> 'k \<Rightarrow> bool \<times> 'k" where
  "policies_poll cl onError nss 0 k = (False, k)"
| "policies_poll cl onError nss (Suc n) k =
     (case policies_round cl onError nss k of
        (True, k') \<Rightarrow> (True, k')
      | (False, k') \<Rightarrow> policies_poll cl onError nss n k')"

definition setNetworkPolicies ::
  "bool \<Rightarrow> string list \<Rightarrow> 'k client result \<Rightarrow> (Namespace \<times> 'k) retry \<Rightarrow> nat \<Rightarrow> 'k \<Rightarrow> (bool \<times> 'k) outcome" where
  "setNetworkPolicies cisMode namespaces clientSet onError n k =
     (if \<not> cisMode then Inr (False, k)
      else case clientSet of
        Inl e \<Rightarrow> Inl (Fatal ''np: new k8s client'')
      | Inr cl \<Rightarrow> Inr (policies_poll cl onError namespaces n k))"


section \<open>What applying achieves\<close>

lemma gm_get_merge:
  "gm_get (fold (\<lambda>(a, v). gm_put a v) (rev es) m) x = (case gm_get es x of None \<Rightarrow> gm_get m x | Some v \<Rightarrow> Some v)"
  by (simp add: gomap.fold_put_last gm_get_def [of es])

text \<open>Some revision of a namespace that the API server has returned marks the template as resolved.\<close>

definition resolved_by_server :: "'k client \<Rightarrow> policyTemplate \<Rightarrow> bool" where
  "resolved_by_server cl t \<longleftrightarrow> (\<exists>m k ns k'. ns_Get cl m k = (Inr ns, k') \<and> resolved ns t)"

definition from_server :: "'k client \<Rightarrow> string set \<Rightarrow> Namespace \<Rightarrow> bool" where
  "from_server cl D ns \<longleftrightarrow> (\<forall>t. resolved ns t \<longrightarrow> resolved_by_server cl t \<or> pt_annotationKey t \<in> D)"

lemma resolved_mark [simp]: "resolved (mark_resolved t ns) t' \<longleftrightarrow> pt_annotationKey t' = pt_annotationKey t \<or> resolved ns t'"
  by (auto simp: resolved_def mark_resolved_def map_entries_def)

lemma updateNamespaceRef_props:
  assumes "policy_laws cl pols" and "updateNamespaceRef cl (ns, k) = (r, (ns', k'))" and "from_server cl D ns"
  shows "from_server cl D ns' \<and> pols k' = pols k"
proof -
  obtain g k1 where g: "ns_Get cl (ns_Name ns) k = (g, k1)" by force
  have p: "pols k1 = pols k" using assms(1) g unfolding policy_laws_def by (metis snd_conv)
  show ?thesis
  proof (cases g)
    case (Inl e)
    with assms(2,3) g p show ?thesis by (auto simp: updateNamespaceRef_def)
  next
    case (Inr new)
    have "resolved ns' t \<Longrightarrow> resolved ns t \<or> resolved new t" for t
      using assms(2) g Inr
      by (auto simp: updateNamespaceRef_def resolved_def map_entries_def gm_get_merge split: option.splits)
    moreover have "resolved new t \<Longrightarrow> resolved_by_server cl t" for t
      using g Inr by (auto simp: resolved_by_server_def)
    ultimately have "from_server cl D ns'" using assms(3) by (auto simp: from_server_def)
    then show ?thesis using assms(2) g Inr p by (auto simp: updateNamespaceRef_def)
  qed
qed

lemma update_namespace_props:
  assumes "policy_laws cl pols" and "update_namespace cl (ns, k) = (r, (ns', k'))" and "from_server cl D ns"
  shows "from_server cl D ns' \<and> pols k' = pols k"
proof -
  obtain u k1 where u: "ns_Update cl ns k = (u, k1)" by force
  have p: "pols k1 = pols k" using assms(1) u unfolding policy_laws_def by (metis snd_conv)
  show ?thesis
    using assms(2,3) u p updateNamespaceRef_props [OF assms(1), of ns k1 r ns' k' D]
    by (auto simp: update_namespace_def split: sum.splits if_splits)
qed

lemma delete_existing_props:
  assumes "policy_laws cl pols" and "delete_existing cl ns n k = (Inr u, k')"
  shows "pols k' = (pols k)((ns, n) := None)"
proof -
  obtain g k1 where g: "pol_Get cl ns n k = (g, k1)" by force
  note k1 = assms(1) [unfolded policy_laws_def, THEN conjunct1, rule_format, OF g]
  show ?thesis
  proof (cases g)
    case (Inl e)
    with assms(2) g k1 show ?thesis by (auto simp: delete_existing_def fun_eq_iff)
  next
    case (Inr p)
    obtain r k2 where r: "pol_Delete cl ns n k1 = (r, k2)" by force
    with assms(1) have "case r of Inr _ \<Rightarrow> pols k2 = (pols k1)((ns, n) := None)
         | Inl e \<Rightarrow> pols k2 = pols k1 \<and> (IsNotFound e \<longrightarrow> pols k1 (ns, n) = None)"
      unfolding policy_laws_def by blast
    then show ?thesis using assms(2) g Inr r k1
      by (auto simp: delete_existing_def fun_eq_iff split: sum.splits if_splits)
  qed
qed

lemma create_policy_props:
  assumes "policy_laws cl pols" and "create_policy cl ns t k = (Inr u, k')" and "pols k (ns, pt_name t) = None"
  shows "pols k' = (pols k)((ns, pt_name t) := Some (policyFromTemplate t))"
proof -
  obtain r k1 where r: "pol_Create cl ns (policyFromTemplate t) k = (r, k1)" by force
  have n: "np_Name (policyFromTemplate t) = pt_name t" by (simp add: policyFromTemplate_def)
  from r assms(1) have "case r of Inr _ \<Rightarrow> pols k1 = (pols k)((ns, pt_name t) := Some (policyFromTemplate t))
         | Inl e \<Rightarrow> pols k1 = pols k \<and> (IsAlreadyExists e \<longrightarrow> pols k (ns, pt_name t) \<noteq> None)"
    unfolding policy_laws_def n [symmetric] by blast
  then show ?thesis using assms(2,3) r
    by (auto simp: create_policy_def split: sum.splits if_splits)
qed

lemma apply_template_props:
  assumes "policy_laws cl pols" and "retry_law onError"
    and "apply_template cl onError nsn t (ns, k) = (Inr u, (ns', k'))" and "from_server cl D ns"
  shows "from_server cl (insert (pt_annotationKey t) D) ns' \<and>
         pols k' = (if resolved ns t then pols k else (pols k)((nsn, pt_name t) := Some (policyFromTemplate t)))"
proof (cases "resolved ns t")
  case True
  with assms(3,4) show ?thesis by (auto simp: apply_template_def from_server_def)
next
  case False
  obtain k1 k2 u1 u2 r where d: "delete_existing cl nsn (pt_name t) k = (Inr u1, k1)"
    and c: "create_policy cl nsn t k1 = (Inr u2, k2)"
    and r: "onError IsConflict (update_namespace cl) (mark_resolved t ns, k2) = (Inr r, (ns', k'))"
    using assms(3) False by (auto simp: apply_template_def split: prod.splits sum.splits)
  have k1: "pols k1 = (pols k)((nsn, pt_name t) := None)" by (rule delete_existing_props [OF assms(1) d])
  have k2: "pols k2 = (pols k1)((nsn, pt_name t) := Some (policyFromTemplate t))"
    by (rule create_policy_props [OF assms(1) c]) (simp add: k1)
  let ?I = "\<lambda>s. from_server cl (insert (pt_annotationKey t) D) (fst s) \<and> pols (snd s) = pols k2"
  have start: "?I (mark_resolved t ns, k2)" using assms(4) by (auto simp: from_server_def)
  have "case (Inr r :: unit result) of Inl e \<Rightarrow> ?I (ns', k') | Inr _ \<Rightarrow> ?I (ns', k')"
    by (rule retry_rule [OF assms(2) r, of ?I, OF start])
      (auto split: sum.splits dest: update_namespace_props [OF assms(1)])
  then show ?thesis using False k1 k2 by simp
qed

lemma apply_templates_props:
  assumes "policy_laws cl pols" and "retry_law onError"
    and "apply_templates cl onError nsn ts (ns, k) = (Inr u, (ns', k'))" and "from_server cl D ns"
    and "distinct (map pt_name ts)" and "distinct (map pt_annotationKey ts)" and "D \<inter> pt_annotationKey ` set ts = {}"
  shows "(\<forall>q. (\<forall>t \<in> set ts. q \<noteq> (nsn, pt_name t)) \<longrightarrow> pols k' q = pols k q) \<and>
         (\<forall>t \<in> set ts. pols k' (nsn, pt_name t) = Some (policyFromTemplate t) \<or>
            resolved_by_server cl t \<and> pols k' (nsn, pt_name t) = pols k (nsn, pt_name t))"
  using assms(3-7)
proof (induction ts arbitrary: ns k D)
  case (Cons t ts)
  obtain u1 ns1 k1 where a: "apply_template cl onError nsn t (ns, k) = (Inr u1, (ns1, k1))"
    and rest: "apply_templates cl onError nsn ts (ns1, k1) = (Inr u, (ns', k'))"
    using Cons.prems(1) by (auto split: prod.splits sum.splits)
  note p = apply_template_props [OF assms(1,2) a Cons.prems(2)]
  have D: "insert (pt_annotationKey t) D \<inter> pt_annotationKey ` set ts = {}" using Cons.prems(4,5) by auto
  have names: "distinct (map pt_name ts)" "distinct (map pt_annotationKey ts)" "\<forall>t' \<in> set ts. pt_name t' \<noteq> pt_name t"
    using Cons.prems(3,4) by (simp_all add: image_iff) metis
  note IH = Cons.IH [OF rest p [THEN conjunct1] names(1,2) D]
  have other: "pols k1 q = pols k q" if "q \<noteq> (nsn, pt_name t)" for q using p that by (auto split: if_splits)
  have here: "pols k' (nsn, pt_name t) = pols k1 (nsn, pt_name t)"
    by (rule IH [THEN conjunct1, rule_format]) (use names(3) in auto)
  have res: "resolved ns t \<Longrightarrow> resolved_by_server cl t" using Cons.prems(2,5) by (auto simp: from_server_def)
  show ?case
  proof (intro conjI allI impI ballI)
    fix q assume q: "\<forall>t' \<in> set (t # ts). q \<noteq> (nsn, pt_name t')"
    have "pols k' q = pols k1 q" by (rule IH [THEN conjunct1, rule_format]) (use q in auto)
    also have "\<dots> = pols k q" by (rule other) (use q in simp)
    finally show "pols k' q = pols k q" .
  next
    fix t' assume "t' \<in> set (t # ts)"
    then show "pols k' (nsn, pt_name t') = Some (policyFromTemplate t') \<or>
        resolved_by_server cl t' \<and> pols k' (nsn, pt_name t') = pols k (nsn, pt_name t')"
    proof (cases "t' = t")
      case True
      then show ?thesis using here p res by (auto split: if_splits)
    next
      case False
      with \<open>t' \<in> set (t # ts)\<close> have t': "t' \<in> set ts" by simp
      then have "pols k1 (nsn, pt_name t') = pols k (nsn, pt_name t')" using names(3) by (intro other) auto
      then show ?thesis using IH [THEN conjunct2] t' by fastforce
    qed
  qed
qed simp



definition mem_start :: mem where
  "mem_start = \<lparr>mem_ns = [(''kube-system'', \<lparr>ns_Name = ''kube-system'', ns_ResourceVersion = ''1'', ns_Annotations = None, ns_Other = ''''\<rparr>)],
     mem_pols = [], mem_sas = [((''kube-system'', ''default''),
       \<lparr>sa_Name = ''default'', sa_ResourceVersion = ''1'', sa_AutomountServiceAccountToken = None, sa_Other = ''''\<rparr>)],
     mem_nodes = []\<rparr>"


text \<open>
  A namespace whose annotations mark every template as resolved is left alone: the pass only reads the
  namespace, so a policy that an administrator changed or deleted afterwards is not restored.
\<close>

theorem resolved_policies_untouched:
  assumes "ns_Get cl namespace k = (Inr ns, k1)" and "\<forall>t \<in> set templates. resolved ns t"
  shows "setPoliciesFromTemplates cl onError templates namespace k = (Inr (), k1)"
proof -
  have "apply_templates cl onError namespace templates (ns, k1) = (Inr (), (ns, k1))"
    using assms(2) by (induction templates) (simp_all add: apply_template_def)
  then show ?thesis using assms(1) by (simp add: setPoliciesFromTemplates_def)
qed

definition mem_resolved :: mem where
  "mem_resolved = mem_start\<lparr>mem_ns := [(''kube-system'', \<lparr>ns_Name = ''kube-system'', ns_ResourceVersion = ''1'',
     ns_Annotations = Some [(''np.rke2.io'', ''resolved'')], ns_Other = ''''\<rparr>)]\<rparr>"

theorem resolved_policies_untouched_witness:
  "setPoliciesFromTemplates mem_client (attempts 3) defaultNamespacePolicies ''kube-system'' mem_resolved = (Inr (), mem_resolved)"
proof -
  let ?ns = "\<lparr>ns_Name = ''kube-system'', ns_ResourceVersion = ''1'', ns_Annotations = Some [(''np.rke2.io'', ''resolved'')], ns_Other = ''''\<rparr>"
  have 1: "ns_Get mem_client ''kube-system'' mem_resolved = (Inr ?ns, mem_resolved)" by code_simp
  have 2: "\<forall>t \<in> set defaultNamespacePolicies. resolved ?ns t" by code_simp
  show ?thesis by (rule resolved_policies_untouched [OF 1 2])
qed


definition stale_namespace :: Namespace where
  "stale_namespace = \<lparr>ns_Name = ''kube-system'', ns_ResourceVersion = ''0'',
     ns_Annotations = Some [(''np.rke2.io'', ''resolved'')], ns_Other = ''''\<rparr>"


end
