(* ===== verification/Cis_Policy.thy ===== *)
theory Cis_Policy
  imports Net_Policies
begin

text \<open>
  \<^verbatim>\<open>pkg/controllers/cisnetworkpolicy\<close>: the controller that keeps a network policy admitting the flannel
  addresses of all nodes, and the clean-up that takes its finalizer off the nodes. The address parser is a
  parameter: it yields the printed address and whether it is an IPv4 address. A panic inside a retried
  function is recorded in a flag of the state.
\<close>

section \<open>The ingress rule\<close>

definition flannelPresenceLabel :: string where
  "flannelPresenceLabel = ''flannel.alpha.coreos.com/public-ip''"

definition flannelHostNetworkPolicyName :: string where
  "flannelHostNetworkPolicyName = ''rke2-flannel-host-networking''"

type_synonym cidr_parser = "string \<Rightarrow> (string \<times> bool) option"

definition node_cidrs :: "Node \<Rightarrow> string list" where
  "node_cidrs n = (if node_PodCIDRs n = [] then [node_PodCIDR n] else node_PodCIDRs n)"

definition cidr_block :: "cidr_parser \<Rightarrow> string \<Rightarrow> string option" where
  "cidr_block parseCIDR c =
     (case parseCIDR c of None \<Rightarrow> None
      | Some (ip, is4) \<Rightarrow> Some (ip @ (if is4 then ''/32'' else ''/128'')))"

definition node_blocks :: "cidr_parser \<Rightarrow> Node \<Rightarrow> string list" where
  "node_blocks parseCIDR n =
     (if gm_get (node_Annotations n) flannelPresenceLabel = None then []
      else List.map_filter (cidr_block parseCIDR) (node_cidrs n))"

definition block_peer :: "string \<Rightarrow> NetworkPolicyPeer" where
  "block_peer cidr = \<lparr>peer_PodSelector = None, peer_IPBlock = Some cidr\<rparr>"

text \<open>The peers are sorted by their block; peers with equal blocks are equal.\<close>

definition generateHostNetworkPolicyIngressRule ::
  "cidr_parser \<Rightarrow> 'k client \<Rightarrow> 'k \<Rightarrow> NetworkPolicyIngressRule result \<times> 'k" where
  "generateHostNetworkPolicyIngressRule parseCIDR cl k =
     (case nodes_List cl k of
        (Inl e, k') \<Rightarrow> (Inl (WithMessage ''CISNetworkPolicyController: problem listing nodes'' e), k')
      | (Inr nodes, k') \<Rightarrow>
          (Inr \<lparr>ir_Ports = [], ir_From = map block_peer (sort_Strings (concat (map (node_blocks parseCIDR) nodes)))\<rparr>, k'))"

definition generateHostNetworkingNetworkPolicy :: "NetworkPolicyIngressRule \<Rightarrow> NetworkPolicy" where
  "generateHostNetworkingNetworkPolicy r =
     \<lparr>np_Name = flannelHostNetworkPolicyName, np_Annotations = None, np_PodSelector = [],
      np_PolicyTypes = [''Ingress''], np_Ingress = [r]\<rparr>"

section \<open>The handler\<close>

text \<open>The body of the retry in one namespace; the flag says that indexing the empty rule list has panicked.\<close>

definition reconcile_namespace ::
  "'k client \<Rightarrow> NetworkPolicyIngressRule \<Rightarrow> string \<Rightarrow> bool \<times> 'k \<Rightarrow> unit result \<times> (bool \<times> 'k)" where
  "reconcile_namespace cl r namespace s =
     (case s of (pan, k) \<Rightarrow>
        case pol_Get cl namespace flannelHostNetworkPolicyName k of
          (Inl e, k1) \<Rightarrow>
            if IsNotFound e then
              (case pol_Create cl namespace (generateHostNetworkingNetworkPolicy r) k1 of
                 (Inl e', k2) \<Rightarrow> (if IsAlreadyExists e' then Inr () else Inl e', (pan, k2))
               | (Inr _, k2) \<Rightarrow> (Inr (), (pan, k2)))
            else (Inl e, (pan, k1))
        | (Inr npGet, k1) \<Rightarrow>
            if np_Ingress npGet = [] then (Inl (Errorf ''index out of range''), (True, k1))
            else
              (case pol_Update cl namespace (npGet\<lparr>np_Ingress := (np_Ingress npGet)[0 := r]\<rparr>) k1 of
                 (Inl e, k2) \<Rightarrow> (Inl e, (pan, k2))
               | (Inr _, k2) \<Rightarrow> (Inr (), (pan, k2))))"

definition policy_namespaces :: "string list" where
  "policy_namespaces = [''kube-system'', ''default'', ''kube-public'']"

fun reconcile_namespaces ::
  "'k client \<Rightarrow> (bool \<times> 'k) retry \<Rightarrow> NetworkPolicyIngressRule \<Rightarrow> string list \<Rightarrow> 'k \<Rightarrow> unit outcome \<times> 'k" where
  "reconcile_namespaces cl onError r [] k = (Inr (), k)"
| "reconcile_namespaces cl onError r (namespace # nss) k =
     (case onError IsConflict (reconcile_namespace cl r namespace) (False, k) of
        (Inl e, (pan, k')) \<Rightarrow>
          (if pan then Inl (Panic ''index out of range'')
           else Inl (Err (WithMessage (''CISNetworkPolicyController: error working on network policy in namespace '' @ namespace) e)), k')
      | (Inr _, (_, k')) \<Rightarrow> reconcile_namespaces cl onError r nss k')"

definition reconcileFlannelHostNetworkPolicy ::
  "cidr_parser \<Rightarrow> 'k client \<Rightarrow> (bool \<times> 'k) retry \<Rightarrow> 'k \<Rightarrow> unit outcome \<times> 'k" where
  "reconcileFlannelHostNetworkPolicy parseCIDR cl onError k =
     (case generateHostNetworkPolicyIngressRule parseCIDR cl k of
        (Inl e, k1) \<Rightarrow> (Inl (Err e), k1)
      | (Inr r, k1) \<Rightarrow> reconcile_namespaces cl onError r policy_namespaces k1)"

definition handler_handle ::
  "cidr_parser \<Rightarrow> 'k client \<Rightarrow> (bool \<times> 'k) retry \<Rightarrow> Node option \<Rightarrow> 'k \<Rightarrow> unit outcome \<times> 'k" where
  "handler_handle parseCIDR cl onError node k =
     (case node of None \<Rightarrow> (Inr (), k) | Some _ \<Rightarrow> reconcileFlannelHostNetworkPolicy parseCIDR cl onError k)"

section \<open>Removing the finalizer\<close>

definition finalizerKey :: string where
  "finalizerKey = ''wrangler.cattle.io/cisnetworkpolicy-node''"

text \<open>
  \<^verbatim>\<open>append(finalizers[:k], finalizers[k+1:]...)\<close> writes into the array of \<^verbatim>\<open>finalizers\<close>: the elements after
  position \<open>k\<close> move down by one, the last place keeps its value, and the new slice is the array without its
  last place. The range loop reads from that array.
\<close>

definition shift_down :: "nat \<Rightarrow> 'a list \<Rightarrow> 'a list" where
  "shift_down k arr = take k arr @ drop (Suc k) arr @ [last arr]"

fun finalizer_loop :: "nat list \<Rightarrow> string list \<Rightarrow> bool \<Rightarrow> string list" where
  "finalizer_loop [] arr hit = (if hit then butlast arr else [])"
| "finalizer_loop (k # ks) arr hit =
     (if arr ! k \<noteq> finalizerKey then finalizer_loop ks arr hit
      else finalizer_loop ks (shift_down k arr) True)"

definition newFinalizers :: "string list \<Rightarrow> string list" where
  "newFinalizers finalizers = finalizer_loop [0..<length finalizers] finalizers False"

definition removeFinalizer :: "'k client \<Rightarrow> Node \<Rightarrow> 'k \<Rightarrow> unit result \<times> 'k" where
  "removeFinalizer cl node k = node_Patch_finalizers cl (node_Name node) (newFinalizers (node_Finalizers node)) k"

fun unregister_nodes :: "'k client \<Rightarrow> Node list \<Rightarrow> 'k \<Rightarrow> bool \<times> 'k" where
  "unregister_nodes cl [] k = (True, k)"
| "unregister_nodes cl (node # nodes) k =
     (if finalizerKey \<in> set (node_Finalizers node) then
        (case removeFinalizer cl node k of
           (Inl e, k') \<Rightarrow> (False, k')
         | (Inr _, k') \<Rightarrow> unregister_nodes cl nodes k')
      else unregister_nodes cl nodes k)"

text \<open>One round of the poll.\<close>

definition unregister :: "'k client \<Rightarrow> 'k \<Rightarrow> bool \<times> 'k" where
  "unregister cl k =
     (case nodes_List cl k of
        (Inl e, k') \<Rightarrow> (False, k')
      | (Inr nodes, k') \<Rightarrow> unregister_nodes cl nodes k')"

section \<open>The policy admits exactly the flannel addresses\<close>

definition admits :: "'k policies \<Rightarrow> 'k \<Rightarrow> NetworkPolicyIngressRule \<Rightarrow> string \<Rightarrow> bool" where
  "admits pols k r namespace \<longleftrightarrow>
     (\<exists>p. pols k (namespace, flannelHostNetworkPolicyName) = Some p \<and> np_Ingress p \<noteq> [] \<and> hd (np_Ingress p) = r)"

lemma reconcile_namespace_props:
  assumes laws: "policy_laws cl pols" and "reconcile_namespace cl r ns (pan, k) = (res, (pan', k'))"
  shows "case res of
      Inl e \<Rightarrow> pols k' = pols k
    | Inr _ \<Rightarrow> admits pols k' r ns \<and> (\<forall>q. q \<noteq> (ns, flannelHostNetworkPolicyName) \<longrightarrow> pols k' q = pols k q)"
proof -
  obtain g k1 where g: "pol_Get cl ns flannelHostNetworkPolicyName k = (g, k1)" by force
  note gl = laws [unfolded policy_laws_def, THEN conjunct1, rule_format, OF g]
  show ?thesis
  proof (cases g)
    case (Inl e)
    let ?np = "generateHostNetworkingNetworkPolicy r"
    have n: "np_Name ?np = flannelHostNetworkPolicyName" by (simp add: generateHostNetworkingNetworkPolicy_def)
    obtain u k2 where u: "pol_Create cl ns ?np k1 = (u, k2)" by force
    then have "case u of Inr _ \<Rightarrow> pols k2 = (pols k1)((ns, flannelHostNetworkPolicyName) := Some ?np)
         | Inl e \<Rightarrow> pols k2 = pols k1 \<and> (IsAlreadyExists e \<longrightarrow> pols k1 (ns, flannelHostNetworkPolicyName) \<noteq> None)"
      using laws unfolding policy_laws_def n [symmetric] by blast
    then show ?thesis
      using assms(2) g gl u Inl
      by (auto simp: reconcile_namespace_def admits_def generateHostNetworkingNetworkPolicy_def split: sum.splits if_splits)
  next
    case (Inr p)
    let ?p = "p\<lparr>np_Ingress := (np_Ingress p)[0 := r]\<rparr>"
    have n: "np_Name ?p = flannelHostNetworkPolicyName" using gl Inr by simp
    obtain u k2 where u: "pol_Update cl ns ?p k1 = (u, k2)" by force
    then have "case u of Inr _ \<Rightarrow> pols k2 = (pols k1)((ns, flannelHostNetworkPolicyName) := Some ?p) | Inl e \<Rightarrow> pols k2 = pols k1"
      using laws unfolding policy_laws_def n [symmetric] by blast
    then show ?thesis
      using assms(2) g gl u Inr
      by (cases "np_Ingress p") (auto simp: reconcile_namespace_def admits_def split: sum.splits if_splits)
  qed
qed

lemma reconcile_namespaces_props:
  assumes "policy_laws cl pols" and "retry_law onError" and "distinct nss"
    and "reconcile_namespaces cl onError r nss k = (Inr (), k')"
  shows "(\<forall>ns \<in> set nss. admits pols k' r ns) \<and>
         (\<forall>q. (\<forall>ns \<in> set nss. q \<noteq> (ns, flannelHostNetworkPolicyName)) \<longrightarrow> pols k' q = pols k q)"
  using assms(3,4)
proof (induction nss arbitrary: k)
  case (Cons ns nss)
  obtain u pan k1 where o: "onError IsConflict (reconcile_namespace cl r ns) (False, k) = (Inr u, (pan, k1))"
    and rest: "reconcile_namespaces cl onError r nss k1 = (Inr (), k')"
    using Cons.prems(2) by (auto split: prod.splits sum.splits if_splits)
  let ?I = "\<lambda>s. pols (snd s) = pols k"
  let ?Q = "\<lambda>s. admits pols (snd s) r ns \<and> (\<forall>q. q \<noteq> (ns, flannelHostNetworkPolicyName) \<longrightarrow> pols (snd s) q = pols k q)"
  have step: "case res of Inl e \<Rightarrow> ?I s' | Inr _ \<Rightarrow> ?Q s'" if "?I s" and "reconcile_namespace cl r ns s = (res, s')" for s res s'
    using that reconcile_namespace_props [OF assms(1), of r ns "fst s" "snd s" res "fst s'" "snd s'"]
    by (auto split: sum.splits)
  have "case (Inr u :: unit result) of Inl e \<Rightarrow> ?I (pan, k1) | Inr _ \<Rightarrow> ?Q (pan, k1)"
    by (rule retry_rule [OF assms(2) o, of ?I]) (use step in auto)
  then have p: "admits pols k1 r ns" "\<And>q. q \<noteq> (ns, flannelHostNetworkPolicyName) \<Longrightarrow> pols k1 q = pols k q" by auto
  note IH = Cons.IH [OF _ rest]
  have d: "distinct nss" "ns \<notin> set nss" using Cons.prems(1) by auto
  have "pols k' (ns, flannelHostNetworkPolicyName) = pols k1 (ns, flannelHostNetworkPolicyName)"
    by (rule IH [OF d(1), THEN conjunct2, rule_format]) (use d(2) in auto)
  then have "admits pols k' r ns" using p(1) by (simp add: admits_def)
  moreover have "pols k' q = pols k q" if q: "\<forall>n \<in> set (ns # nss). q \<noteq> (n, flannelHostNetworkPolicyName)" for q
  proof -
    have "pols k' q = pols k1 q" by (rule IH [OF d(1), THEN conjunct2, rule_format]) (use q in auto)
    then show ?thesis using p(2) q by simp
  qed
  ultimately show ?case using IH [OF d(1)] by auto
qed simp



definition flannel_node :: Node where
  "flannel_node = \<lparr>node_Name = ''n'', node_Annotations = [(flannelPresenceLabel, ''10.0.0.1'')],
     node_Finalizers = [''a'', finalizerKey, ''b''], node_Deleted = False, node_PodCIDR = ''10.42.0.0/24'', node_PodCIDRs = []\<rparr>"

definition flannel_cluster :: mem where
  "flannel_cluster = \<lparr>mem_ns = [], mem_pols = [], mem_sas = [], mem_nodes = [flannel_node]\<rparr>"

definition example_parser :: cidr_parser where
  "example_parser c = (if c = ''10.42.0.0/24'' then Some (''10.42.0.0'', True) else None)"


section \<open>Clean-up removes the finalizer\<close>

lemma finalizer_loop_none:
  "\<forall>k \<in> set ks. arr ! k \<noteq> finalizerKey \<Longrightarrow> finalizer_loop ks arr hit = (if hit then butlast arr else [])"
  by (induction ks) auto

lemma finalizer_loop_skip:
  "\<forall>k \<in> set ks. arr ! k \<noteq> finalizerKey \<Longrightarrow> finalizer_loop (ks @ ls) arr hit = finalizer_loop ls arr hit"
  by (induction ks) auto

lemma newFinalizers_once:
  assumes "finalizerKey \<notin> set as" and "finalizerKey \<notin> set bs"
  shows "newFinalizers (as @ finalizerKey # bs) = as @ bs"
proof -
  let ?arr = "as @ finalizerKey # bs"
  let ?n = "length as"
  have range: "[0..<length ?arr] = [0..<?n] @ ?n # [Suc ?n..<length ?arr]"
    using upt_add_eq_append [of 0 ?n "Suc (length bs)"] by (simp add: upt_conv_Cons [of ?n] del: upt_Suc)
  have before: "\<forall>k \<in> set [0..<?n]. ?arr ! k \<noteq> finalizerKey"
    using assms(1) by (metis atLeastLessThan_iff atLeastLessThan_upt nth_append nth_mem)
  have shift: "shift_down ?n ?arr = as @ bs @ [last ?arr]" by (simp add: shift_down_def)
  have after: "\<forall>k \<in> set [Suc ?n..<length ?arr]. (as @ bs @ [last ?arr]) ! k \<noteq> finalizerKey"
  proof
    fix k assume k: "k \<in> set [Suc ?n..<length ?arr]"
    then have "bs \<noteq> []" by auto
    then have "last ?arr = last bs" "last bs \<in> set bs" by simp_all
    then have "set (bs @ [last ?arr]) = set bs" by auto
    moreover have "(as @ bs @ [last ?arr]) ! k \<in> set (bs @ [last ?arr])" using k by (auto simp: nth_append)
    ultimately show "(as @ bs @ [last ?arr]) ! k \<noteq> finalizerKey" using assms(2) by metis
  qed
  have "newFinalizers ?arr = finalizer_loop (?n # [Suc ?n..<length ?arr]) ?arr False"
    unfolding newFinalizers_def range by (rule finalizer_loop_skip [OF before])
  also have "\<dots> = finalizer_loop [Suc ?n..<length ?arr] (as @ bs @ [last ?arr]) True"
    using shift by simp
  also have "\<dots> = butlast (as @ bs @ [last ?arr])" using finalizer_loop_none [OF after] by simp
  finally show ?thesis by (simp add: butlast_append)
qed

definition finalizer_once :: "Node \<Rightarrow> bool" where
  "finalizer_once n \<longleftrightarrow> count_list (node_Finalizers n) finalizerKey \<le> 1"

lemma newFinalizers_filter:
  assumes "finalizerKey \<in> set fs" and "count_list fs finalizerKey \<le> 1"
  shows "newFinalizers fs = filter (\<lambda>f. f \<noteq> finalizerKey) fs"
proof -
  obtain as bs where fs: "fs = as @ finalizerKey # bs" "finalizerKey \<notin> set as"
    using split_list_first [OF assms(1)] by blast
  with assms(2) have "finalizerKey \<notin> set bs" by (simp add: count_list_0_iff)
  then show ?thesis using filter_neq_split [OF fs(2)] newFinalizers_once [OF fs(2)] fs(1) by metis
qed


definition strip_finalizer :: "Node \<Rightarrow> Node" where
  "strip_finalizer n = n\<lparr>node_Finalizers := filter (\<lambda>f. f \<noteq> finalizerKey) (node_Finalizers n)\<rparr>"

lemma removeFinalizer_props:
  assumes "node_laws cl nodes" and "removeFinalizer cl n k = (Inr u, k')" and "finalizer_once n"
    and "finalizerKey \<in> set (node_Finalizers n)" and "nodes k = pre @ n # post"
    and "distinct (map node_Name (pre @ n # post))"
  shows "nodes k' = pre @ strip_finalizer n # post"
proof -
  let ?fs = "filter (\<lambda>f. f \<noteq> finalizerKey) (node_Finalizers n)"
  let ?upd = "\<lambda>x. if node_Name x = node_Name n then x\<lparr>node_Finalizers := ?fs\<rparr> else x"
  have fs: "newFinalizers (node_Finalizers n) = ?fs"
    using assms(3,4) by (intro newFinalizers_filter) (simp_all add: finalizer_once_def)
  have "nodes k' = map ?upd (nodes k)"
    using assms(1) assms(2) [unfolded removeFinalizer_def fs] unfolding node_laws_def by fastforce
  moreover have "\<forall>x \<in> set (pre @ post). node_Name x \<noteq> node_Name n" using assms(6) by (auto simp: image_iff)
  then have "map ?upd pre = pre" "map ?upd post = post" by (auto intro!: map_idI)
  ultimately show ?thesis using assms(5) by (simp add: strip_finalizer_def)
qed

lemma unregister_nodes_props:
  assumes "node_laws cl nodes" and "unregister_nodes cl ns k = (True, k')"
    and "\<forall>n \<in> set ns. finalizer_once n" and "nodes k = pre @ ns" and "distinct (map node_Name (pre @ ns))"
  shows "nodes k' = pre @ map strip_finalizer ns"
  using assms(2-5)
proof (induction ns arbitrary: pre k)
  case (Cons n ns)
  have "\<exists>k1. unregister_nodes cl ns k1 = (True, k') \<and> nodes k1 = (pre @ [strip_finalizer n]) @ ns"
  proof (cases "finalizerKey \<in> set (node_Finalizers n)")
    case True
    then obtain u k1 where "removeFinalizer cl n k = (Inr u, k1)" "unregister_nodes cl ns k1 = (True, k')"
      using Cons.prems(1) by (auto split: prod.splits sum.splits)
    with True Cons.prems removeFinalizer_props [OF assms(1)] show ?thesis by fastforce
  next
    case False
    then have "strip_finalizer n = n" by (simp add: strip_finalizer_def filter_neq_no_occ)
    with False Cons.prems show ?thesis by auto
  qed
  moreover have "distinct (map node_Name ((pre @ [strip_finalizer n]) @ ns))"
    using Cons.prems(4) by (simp add: strip_finalizer_def)
  ultimately show ?case using Cons.IH [of _ "pre @ [strip_finalizer n]"] Cons.prems(2) by auto
qed simp

text \<open>
  C34: a successful round of the clean-up removes the controller's finalizer from every node and changes
  nothing else of any node, although the new list is built in place in the array the loop reads, provided no
  node lists the finalizer twice.
\<close>

theorem finalizers_removed:
  assumes "node_laws cl nodes" and "distinct (map node_Name (nodes k))"
    and "\<forall>n \<in> set (nodes k). count_list (node_Finalizers n) finalizerKey \<le> 1"
    and "unregister cl k = (True, k')"
  shows "nodes k' = map (\<lambda>n. n\<lparr>node_Finalizers := filter (\<lambda>f. f \<noteq> finalizerKey) (node_Finalizers n)\<rparr>) (nodes k)"
proof -
  obtain k1 l where l: "nodes_List cl k = (Inr l, k1)" "unregister_nodes cl l k1 = (True, k')"
    using assms(4) by (auto simp: unregister_def split: prod.splits sum.splits)
  then have "nodes k1 = nodes k" "l = nodes k" using assms(1) by (force simp: node_laws_def)+
  then have "nodes k' = [] @ map strip_finalizer l"
    using assms(2,3) by (intro unregister_nodes_props [OF assms(1) l(2)]) (simp_all add: finalizer_once_def)
  with \<open>l = nodes k\<close> show ?thesis by (simp add: strip_finalizer_def)
qed

theorem finalizers_removed_witness:
  "mem_nodes (snd (unregister mem_client flannel_cluster)) = [flannel_node\<lparr>node_Finalizers := [''a'', ''b'']\<rparr>]"
proof -
  have 1: "distinct (map node_Name (mem_nodes flannel_cluster))" by code_simp
  have 2: "\<forall>n \<in> set (mem_nodes flannel_cluster). count_list (node_Finalizers n) finalizerKey \<le> 1" by code_simp
  have "fst (unregister mem_client flannel_cluster)" by code_simp
  then have 3: "unregister mem_client flannel_cluster = (True, snd (unregister mem_client flannel_cluster))"
    by (metis (full_types) prod.collapse)
  have 4: "map (\<lambda>n. n\<lparr>node_Finalizers := filter (\<lambda>f. f \<noteq> finalizerKey) (node_Finalizers n)\<rparr>) (mem_nodes flannel_cluster)
      = [flannel_node\<lparr>node_Finalizers := [''a'', ''b'']\<rparr>]" by code_simp
  show ?thesis using finalizers_removed [OF mem_node_laws 1 2 3] 4 by simp
qed

end
