(* ===== verification/Rbac_Bootstrap.thy ===== *)
theory Rbac_Bootstrap
  imports Kube_Api
begin

text \<open>
  \<^verbatim>\<open>pkg/rke2/clusterrole_bootstrap.go\<close> and \<^verbatim>\<open>clusterrole.go\<close>: the roles and bindings that the server creates
  for its own controllers. The builders of Kubernetes' RBAC helpers, the reconciliation of the built-in
  policy and the annotation key of that reconciliation are parameters. A builder method ending in OrDie
  panics when the object is not valid.
\<close>

section \<open>Objects\<close>

record ObjectMeta =
  om_Name :: string
  om_Namespace :: string
  om_Labels :: string_map
  om_Annotations :: string_map

record PolicyRule =
  rule_Verbs :: "string list"
  rule_APIGroups :: "string list"
  rule_Resources :: "string list"

record Subject =
  sub_APIGroup :: string
  sub_Kind :: string
  sub_Namespace :: string
  sub_Name :: string

record ClusterRole =
  cr_Meta :: ObjectMeta
  cr_Rules :: "PolicyRule list"

text \<open>A binding, namespaced or not.\<close>

record Binding =
  bd_Meta :: ObjectMeta
  bd_RoleRef :: string
  bd_Subjects :: "Subject list"

record rbac_helpers =
  hp_RuleOrDie :: "string list \<Rightarrow> string list \<Rightarrow> string list \<Rightarrow> PolicyRule outcome"
  hp_NewClusterBinding :: "string \<Rightarrow> Binding"
  hp_NewRoleBinding :: "string \<Rightarrow> string \<Rightarrow> Binding"
  hp_Users :: "string list \<Rightarrow> Binding \<Rightarrow> Binding"
  hp_BindingOrDie :: "Binding \<Rightarrow> Binding outcome"
  hp_AutoUpdateAnnotationKey :: string

section \<open>Names\<close>

definition kubeletAPIServerRoleBindingName :: string where "kubeletAPIServerRoleBindingName = ''kube-apiserver-kubelet-admin''"
definition kubeProxyName :: string where "kubeProxyName = ''system:kube-proxy''"
definition tunnelControllerName :: string where "tunnelControllerName = ''system:rke2-controller''"
definition cloudControllerManagerName :: string where "cloudControllerManagerName = ''rke2-cloud-controller-manager''"
definition appsGroup :: string where "appsGroup = ''apps''"
definition coordinationGroup :: string where "coordinationGroup = ''coordination.k8s.io''"
definition helmGroup :: string where "helmGroup = ''helm.cattle.io''"
definition legacyGroup :: string where "legacyGroup = ''''"
definition networkingGroup :: string where "networkingGroup = ''networking.k8s.io''"
definition discoveryGroup :: string where "discoveryGroup = ''discovery.k8s.io''"

definition bootstrap_label :: "(string, string) gomap" where
  "bootstrap_label = [(''rke2.io/bootstrapping'', ''rbac-defaults'')]"

definition bootstrap_annotation :: "rbac_helpers \<Rightarrow> (string, string) gomap" where
  "bootstrap_annotation hp = [(hp_AutoUpdateAnnotationKey hp, ''true'')]"

section \<open>Building the objects\<close>

definition addDefaultMetadata :: "rbac_helpers \<Rightarrow> ObjectMeta \<Rightarrow> ObjectMeta" where
  "addDefaultMetadata hp m =
     m\<lparr>om_Labels := Some (fold (\<lambda>(k, v). gm_put k v) bootstrap_label (map_entries (om_Labels m))),
       om_Annotations := Some (fold (\<lambda>(k, v). gm_put k v) (bootstrap_annotation hp) (map_entries (om_Annotations m)))\<rparr>"

definition addClusterRoleLabel :: "rbac_helpers \<Rightarrow> ClusterRole list \<Rightarrow> ClusterRole list" where
  "addClusterRoleLabel hp roles = map (\<lambda>r. r\<lparr>cr_Meta := addDefaultMetadata hp (cr_Meta r)\<rparr>) roles"

definition addClusterRoleBindingLabel :: "rbac_helpers \<Rightarrow> Binding list \<Rightarrow> Binding list" where
  "addClusterRoleBindingLabel hp bs = map (\<lambda>b. b\<lparr>bd_Meta := addDefaultMetadata hp (bd_Meta b)\<rparr>) bs"

definition named_meta :: "string \<Rightarrow> ObjectMeta" where
  "named_meta n = \<lparr>om_Name = n, om_Namespace = '''', om_Labels = None, om_Annotations = None\<rparr>"

text \<open>The rules of each role: verbs, group, resources.\<close>

definition role_rules :: "(string \<times> (string list \<times> string \<times> string list) list) list" where
  "role_rules =
     [(kubeProxyName,
       [([''get'', ''list''], legacyGroup, [''nodes''])]),
      (tunnelControllerName,
       [([''get''], legacyGroup, [''nodes'']),
        ([''list'', ''watch''], legacyGroup, [''namespaces'']),
        ([''list'', ''watch''], networkingGroup, [''networkpolicies'']),
        ([''list'', ''watch'', ''get''], legacyGroup, [''endpoints'', ''pods'']),
        ([''list'', ''watch'', ''get''], discoveryGroup, [''endpointslices'']),
        ([''create''], legacyGroup, [''serviceaccounts/token'']),
        ([''list'', ''get''], helmGroup, [''helmcharts'', ''helmchartconfigs''])]),
      (cloudControllerManagerName,
       [([''get'', ''create'', ''update''], coordinationGroup, [''leases'']),
        ([''create'', ''patch'', ''update''], legacyGroup, [''events'']),
        ([''*''], legacyGroup, [''nodes'']),
        ([''patch''], legacyGroup, [''nodes/status'', ''services/status'']),
        ([''get'', ''list'', ''watch'', ''patch'', ''update''], legacyGroup, [''services'', ''pods'']),
        ([''create'', ''get''], legacyGroup, [''serviceaccounts'']),
        ([''create'', ''get''], '''', [''namespaces'']),
        ([''*''], appsGroup, [''daemonsets'']),
        ([''get'', ''list'', ''watch''], discoveryGroup, [''endpointslices''])])]"

fun map_outcome :: "('a \<Rightarrow> 'b outcome) \<Rightarrow> 'a list \<Rightarrow> 'b list outcome" where
  "map_outcome f [] = Inr []"
| "map_outcome f (x # xs) = try_then (f x) (\<lambda>y. try_then (map_outcome f xs) (\<lambda>ys. Inr (y # ys)))"

definition clusterRoles :: "rbac_helpers \<Rightarrow> ClusterRole list outcome" where
  "clusterRoles hp =
     try_then (map_outcome (\<lambda>(name, rules).
         try_then (map_outcome (\<lambda>(verbs, group, res). hp_RuleOrDie hp verbs [group] res) rules)
           (\<lambda>rs. Inr \<lparr>cr_Meta = named_meta name, cr_Rules = rs\<rparr>)) role_rules)
       (\<lambda>roles. Inr (addClusterRoleLabel hp roles))"

definition rename_binding :: "string \<Rightarrow> Binding \<Rightarrow> Binding" where
  "rename_binding name b = b\<lparr>bd_Meta := (bd_Meta b)\<lparr>om_Name := name\<rparr>\<rparr>"

definition namespaced_users :: "string \<Rightarrow> string list \<Rightarrow> Binding \<Rightarrow> Binding" where
  "namespaced_users namespace users b =
     b\<lparr>bd_Subjects := bd_Subjects b @ map (\<lambda>u. \<lparr>sub_APIGroup = ''rbac.authorization.k8s.io'', sub_Kind = ''User'',
         sub_Namespace = namespace, sub_Name = u\<rparr>) users\<rparr>"

definition clusterRoleBindings :: "rbac_helpers \<Rightarrow> Binding list outcome" where
  "clusterRoleBindings hp =
     try_then (map_outcome (hp_BindingOrDie hp)
         [rename_binding kubeletAPIServerRoleBindingName
            (hp_Users hp [''kube-apiserver''] (hp_NewClusterBinding hp ''system:kubelet-api-admin'')),
          namespaced_users ''kube-system'' [cloudControllerManagerName]
            (rename_binding (cloudControllerManagerName @ ''-auth-delegator'') (hp_NewClusterBinding hp ''system:auth-delegator'')),
          namespaced_users ''kube-system'' [cloudControllerManagerName] (hp_NewClusterBinding hp cloudControllerManagerName),
          hp_Users hp [kubeProxyName] (hp_NewClusterBinding hp kubeProxyName),
          hp_Users hp [tunnelControllerName] (hp_NewClusterBinding hp tunnelControllerName)])
       (\<lambda>bs. Inr (addClusterRoleBindingLabel hp bs))"

definition rbac_roles :: "(string, Binding list) gomap" where
  "rbac_roles = []"

definition roleBindings :: "rbac_helpers \<Rightarrow> (string, Binding list) gomap outcome" where
  "roleBindings hp =
     try_then (hp_BindingOrDie hp (namespaced_users ''kube-system'' [cloudControllerManagerName]
         (rename_binding (cloudControllerManagerName @ ''-authentication-reader'')
           (hp_NewRoleBinding hp ''extension-apiserver-authentication-reader'' ''kube-system''))))
       (\<lambda>b. Inr [(''kube-system'', [b\<lparr>bd_Meta := addDefaultMetadata hp (bd_Meta b)\<rparr>])])"

section \<open>The hook\<close>

record policy_data =
  pd_ClusterRoles :: "ClusterRole list"
  pd_ClusterRoleBindings :: "Binding list"
  pd_RoleBindings :: "(string, Binding list) gomap"

definition rbac_policy :: "rbac_helpers \<Rightarrow> policy_data outcome" where
  "rbac_policy hp =
     try_then (clusterRoles hp) (\<lambda>crs.
     try_then (clusterRoleBindings hp) (\<lambda>crbs.
     try_then (roleBindings hp) (\<lambda>rbs.
     Inr \<lparr>pd_ClusterRoles = crs, pd_ClusterRoleBindings = crbs, pd_RoleBindings = rbs\<rparr>)))"

record 'k rbac_client =
  rc_Ensure :: "policy_data \<Rightarrow> 'k \<Rightarrow> unit result \<times> 'k"
  rc_PatchRoleBinding :: "string \<Rightarrow> string \<Rightarrow> Subject list \<Rightarrow> 'k \<Rightarrow> unit result \<times> 'k"
  rc_PatchClusterRoleBinding :: "string \<Rightarrow> Subject list \<Rightarrow> 'k \<Rightarrow> unit result \<times> 'k"

text \<open>The remediation: the subjects of each binding are set; failures are only logged.\<close>

definition patch_bindings :: "'k rbac_client \<Rightarrow> policy_data \<Rightarrow> 'k \<Rightarrow> 'k" where
  "patch_bindings rc pd k =
     (let k1 = fold (\<lambda>(ns, rbs) k. fold (\<lambda>rb k. snd (rc_PatchRoleBinding rc ns (om_Name (bd_Meta rb)) (bd_Subjects rb) k)) rbs k)
                 (pd_RoleBindings pd) k
      in fold (\<lambda>crb k. snd (rc_PatchClusterRoleBinding rc (om_Name (bd_Meta crb)) (bd_Subjects crb) k))
           (pd_ClusterRoleBindings pd) k1)"

definition setClusterRoles :: "rbac_helpers \<Rightarrow> 'k rbac_client result \<Rightarrow> 'k \<Rightarrow> 'k outcome" where
  "setClusterRoles hp clientSet k =
     (case clientSet of
        Inl e \<Rightarrow> Inl (Fatal ''clusterrole: new k8s client'')
      | Inr rc \<Rightarrow>
          try_then (rbac_policy hp) (\<lambda>pd.
            case rc_Ensure rc pd k of
              (Inl e, _) \<Rightarrow> Inl (Fatal ''clusterrole: EnsureRBACPolicy failed'')
            | (Inr _, k') \<Rightarrow> Inr (patch_bindings rc pd k')))"

section \<open>Metadata\<close>

definition bootstrapped :: "rbac_helpers \<Rightarrow> ObjectMeta \<Rightarrow> bool" where
  "bootstrapped hp m \<longleftrightarrow>
     gm_get (map_entries (om_Labels m)) ''rke2.io/bootstrapping'' = Some ''rbac-defaults'' \<and>
     gm_get (map_entries (om_Annotations m)) (hp_AutoUpdateAnnotationKey hp) = Some ''true''"

lemma bootstrapped_addDefaultMetadata [simp]: "bootstrapped hp (addDefaultMetadata hp m)"
  by (simp add: bootstrapped_def addDefaultMetadata_def bootstrap_label_def bootstrap_annotation_def map_entries_def)

lemma map_outcome_Inr: "map_outcome f xs = Inr ys \<Longrightarrow> list_all2 (\<lambda>x y. f x = Inr y) xs ys"
  by (induction xs arbitrary: ys) auto

text \<open>
  Every role and binding that the server bootstraps carries the bootstrapping label and the annotation
  that makes Kubernetes keep it up to date, there is one role for each entry of the rule table with the
  entry's name, and its rules are the built rules of the entry in order.
\<close>

theorem rbac_policy_complete:
  assumes "rbac_policy hp = Inr pd"
  shows "(\<forall>r \<in> set (pd_ClusterRoles pd). bootstrapped hp (cr_Meta r)) \<and>
         (\<forall>b \<in> set (pd_ClusterRoleBindings pd). bootstrapped hp (bd_Meta b)) \<and>
         (\<forall>(ns, bs) \<in> set (pd_RoleBindings pd). \<forall>b \<in> set bs. bootstrapped hp (bd_Meta b)) \<and>
         list_all2 (\<lambda>(name, rules) r. om_Name (cr_Meta r) = name \<and>
             list_all2 (\<lambda>(verbs, group, res) rule. hp_RuleOrDie hp verbs [group] res = Inr rule) rules (cr_Rules r))
           role_rules (pd_ClusterRoles pd)"
proof -
  let ?build = "\<lambda>(name, rules). try_then (map_outcome (\<lambda>(verbs, group, res). hp_RuleOrDie hp verbs [group] res) rules)
           (\<lambda>rs. Inr \<lparr>cr_Meta = named_meta name, cr_Rules = rs\<rparr>)"
  obtain crs bs where c: "map_outcome ?build role_rules = Inr crs" "pd_ClusterRoles pd = addClusterRoleLabel hp crs"
    and rest: "pd_ClusterRoleBindings pd = addClusterRoleBindingLabel hp bs"
      "\<exists>b. pd_RoleBindings pd = [(''kube-system'', [b\<lparr>bd_Meta := addDefaultMetadata hp (bd_Meta b)\<rparr>])]"
    using assms by (auto simp: rbac_policy_def clusterRoles_def clusterRoleBindings_def roleBindings_def) blast
  have rules: "list_all2 (\<lambda>(verbs, group, res) rule. hp_RuleOrDie hp verbs [group] res = Inr rule) rules rs"
    if "map_outcome (\<lambda>(verbs, group, res). hp_RuleOrDie hp verbs [group] res) rules = Inr rs" for rules rs
    using map_outcome_Inr [OF that] by (rule list_all2_mono) auto
  have "list_all2 (\<lambda>x r. ?build x = Inr r) role_rules crs" by (rule map_outcome_Inr [OF c(1)])
  then have "list_all2 (\<lambda>(name, rules) r. om_Name (cr_Meta r) = name \<and>
             list_all2 (\<lambda>(verbs, group, res) rule. hp_RuleOrDie hp verbs [group] res = Inr rule) rules (cr_Rules r))
           role_rules (addClusterRoleLabel hp crs)"
    unfolding addClusterRoleLabel_def list_all2_map2
    by (rule list_all2_mono) (auto simp: addDefaultMetadata_def named_meta_def intro: rules)
  then show ?thesis
    using c rest by (auto simp: addClusterRoleLabel_def addClusterRoleBindingLabel_def)
qed

definition example_helpers :: rbac_helpers where
  "example_helpers = \<lparr>hp_RuleOrDie = (\<lambda>v g r. Inr \<lparr>rule_Verbs = v, rule_APIGroups = g, rule_Resources = r\<rparr>),
     hp_NewClusterBinding = (\<lambda>n. \<lparr>bd_Meta = named_meta n, bd_RoleRef = n, bd_Subjects = []\<rparr>),
     hp_NewRoleBinding = (\<lambda>n ns. \<lparr>bd_Meta = (named_meta n)\<lparr>om_Namespace := ns\<rparr>, bd_RoleRef = n, bd_Subjects = []\<rparr>),
     hp_Users = (\<lambda>us b. b\<lparr>bd_Subjects := bd_Subjects b @ map (\<lambda>u. \<lparr>sub_APIGroup = ''g'', sub_Kind = ''User'', sub_Namespace = '''', sub_Name = u\<rparr>) us\<rparr>),
     hp_BindingOrDie = (\<lambda>b. if bd_Subjects b = [] then Inl (Panic ''subjects are required'') else Inr b),
     hp_AutoUpdateAnnotationKey = ''rbac.authorization.kubernetes.io/autoupdate''\<rparr>"

theorem rbac_policy_complete_witness:
  "\<exists>pd. rbac_policy example_helpers = Inr pd \<and> length (pd_ClusterRoles pd) = 3"
proof -
  have "\<not> isl (rbac_policy example_helpers)" by code_simp
  then obtain pd where pd: "rbac_policy example_helpers = Inr pd" by (cases "rbac_policy example_helpers") auto
  have "length role_rules = 3" by code_simp
  with rbac_policy_complete [OF pd] pd show ?thesis by (auto dest!: list_all2_lengthD)
qed

end
