(* ===== verification/Bootstrap_Stage.thy ===== *)
theory Bootstrap_Stage
  imports Images
begin

text \<open>
  The first half of \<^verbatim>\<open>pkg/bootstrap/bootstrap.go\<close>: unpacking the binaries and charts of the runtime image
  into a directory of their own for each release, switching the link to the current binaries, and removing
  the directories of old releases that no running container needs. Finding an image in a tarball, pulling it
  and extracting it are done by other packages and are arguments.
\<close>

section \<open>Directories\<close>

definition taskDir :: string where
  "taskDir = ''/run/k3s/containerd/io.containerd.runtime.v2.task/k8s.io''"

definition binDirForDigest :: "string \<Rightarrow> string \<Rightarrow> string" where
  "binDirForDigest dataDir refDigest = filepath_Join [dataDir, ''data'', refDigest, ''bin'']"

definition chartsDirForDigest :: "string \<Rightarrow> string \<Rightarrow> string" where
  "chartsDirForDigest dataDir refDigest = filepath_Join [dataDir, ''data'', refDigest, ''charts'']"

definition completionMarkerForDigest :: "string \<Rightarrow> string \<Rightarrow> string" where
  "completionMarkerForDigest dataDir refDigest = filepath_Join [dataDir, ''data'', refDigest, ''.extracted'']"

definition manifestsDir :: "string \<Rightarrow> string" where
  "manifestsDir dataDir = filepath_Join [dataDir, ''server'', ''manifests'']"

definition imagesDir :: "string \<Rightarrow> string" where
  "imagesDir dataDir = filepath_Join [dataDir, ''agent'', ''images'']"

definition symlinkBinDir :: "string \<Rightarrow> string" where
  "symlinkBinDir dataDir = filepath_Join [dataDir, ''bin'']"

definition dirExists :: "disk \<Rightarrow> string \<Rightarrow> bool" where
  "dirExists d dir = (case os_Stat d dir of Inr i \<Rightarrow> kind i = Directory | Inl _ \<Rightarrow> False)"

definition isRegular :: "disk \<Rightarrow> string \<Rightarrow> bool" where
  "isRegular d f = (case os_Stat d f of Inr i \<Rightarrow> (case kind i of Regular _ \<Rightarrow> True | _ \<Rightarrow> False) | Inl _ \<Rightarrow> False)"

section \<open>Old releases\<close>

text \<open>The pattern \<^verbatim>\<open>^v[0-9]\<close>.\<close>

fun releasePattern :: "string \<Rightarrow> bool" where
  "releasePattern (v # n # s) \<longleftrightarrow> v = CHR ''v'' \<and> digit_val n \<noteq> None"
| "releasePattern _ \<longleftrightarrow> False"

definition shim_of :: "disk \<Rightarrow> string \<Rightarrow> string result" where
  "shim_of d n = os_ReadFile d (filepath_Join [taskDir, n, ''shim-binary-path''])"

definition dirHasShims :: "disk \<Rightarrow> string \<Rightarrow> bool" where
  "dirHasShims d dirPath =
     (case os_ReadDir d taskDir of
        Inl _ \<Rightarrow> True
      | Inr entries \<Rightarrow> list_ex (\<lambda>(n, i). kind i = Directory \<and>
          (case shim_of d n of Inl _ \<Rightarrow> False | Inr shimPath \<Rightarrow> str_HasPrefix shimPath dirPath)) entries)"

definition clean_entry :: "string \<Rightarrow> string \<Rightarrow> string \<times> inode \<Rightarrow> disk \<Rightarrow> disk" where
  "clean_entry datapath refDigest = (\<lambda>(n, i) d.
     if kind i \<noteq> Directory then d
     else if n = refDigest then d
     else if \<not> releasePattern n then d
     else if dirHasShims d (filepath_Join [datapath, n]) then d
     else snd (os_RemoveAll (filepath_Join [datapath, n]) d))"

definition cleanDataDirs :: "string \<Rightarrow> string \<Rightarrow> disk \<Rightarrow> unit result \<times> disk" where
  "cleanDataDirs dataDir refDigest d =
     (let datapath = filepath_Join [dataDir, ''data''] in
      case os_ReadDir d datapath of
        Inl e \<Rightarrow> if os_IsNotExist e then (Inr (), d) else (Inl e, d)
      | Inr entries \<Rightarrow> (Inr (), fold (clean_entry datapath refDigest) entries d))"

section \<open>The name of a release\<close>

text \<open>\<open>sha256_hex\<close> is the hexadecimal SHA256 hash of a string.\<close>

definition releaseRefDigest :: "name_pkg \<Rightarrow> (string \<Rightarrow> string) \<Rightarrow> reference \<Rightarrow> string result" where
  "releaseRefDigest pkg sha256_hex ref =
     (let bad = Inl (Errorf (''Runtime image '' @ RefName pkg ref @
        '' is not a not a reference to a digest or version tag matching pattern ^v[0-9]'')) in
      case ref of
        TagRef t \<Rightarrow>
          if releasePattern (ref_identifier t)
          then Inr (ref_identifier t @ ''-'' @ take 12 (sha256_hex (RefString pkg ref))) else bad
      | DigestRef t \<Rightarrow>
          (let parts = str_SplitN2 (CHR '':'') (ref_identifier t) in
           if length parts = 2 then Inr (parts ! 1) else Inr (parts ! 0))
      | OtherRef _ \<Rightarrow> bad)"

text \<open>The reference of the runtime image and the name of its release.\<close>

definition runtime_ref :: "name_pkg \<Rightarrow> build_vars \<Rightarrow> (string \<Rightarrow> string) \<Rightarrow> resolver \<Rightarrow> (reference \<times> string) result" where
  "runtime_ref pkg bv sha r =
     try_then (GetReference pkg bv r Img_Runtime []) (\<lambda>ref.
     try_then (releaseRefDigest pkg sha ref) (\<lambda>refDigest. Inr (ref, refDigest)))"

definition BinDir :: "name_pkg \<Rightarrow> build_vars \<Rightarrow> (string \<Rightarrow> string) \<Rightarrow> resolver \<Rightarrow> string \<Rightarrow> string result" where
  "BinDir pkg bv sha r dataDir =
     try_then (runtime_ref pkg bv sha r) (\<lambda>(ref, refDigest). Inr (binDirForDigest dataDir refDigest))"

section \<open>Staging\<close>

text \<open>
  What other packages do: looking for an image in the tarballs of a directory, which gives an image and an
  error independently; the registry configuration, read from a file that the settings name; the credential
  plugins, when there are any; the pull; and the extraction of directories of an image.
\<close>

record 'i stage_env =
  se_FindImage :: "disk \<Rightarrow> string \<Rightarrow> reference \<Rightarrow> 'i option \<times> err option"
  se_PrivateRegistry :: string
  se_Registries :: "unit result"
  se_Plugins :: "unit result option"
  se_Image :: "reference \<Rightarrow> 'i result"
  se_ExtractDirs :: "'i \<Rightarrow> (string \<times> string) list \<Rightarrow> disk \<Rightarrow> unit result \<times> disk"

fun find_first :: "'i stage_env \<Rightarrow> disk \<Rightarrow> string \<Rightarrow> reference list \<Rightarrow> 'i option result" where
  "find_first env d dir [] = Inr None"
| "find_first env d dir (ref # refs) =
     (case se_FindImage env d dir ref of
        (Some img, Some e) \<Rightarrow> Inl e
      | (Some img, None) \<Rightarrow> Inr (Some img)
      | (None, _) \<Rightarrow> find_first env d dir refs)"

definition preloadBootstrapFromRuntime ::
  "name_pkg \<Rightarrow> build_vars \<Rightarrow> 'i stage_env \<Rightarrow> resolver \<Rightarrow> string \<Rightarrow> disk \<Rightarrow> 'i option result" where
  "preloadBootstrapFromRuntime pkg bv env r dir d =
     try_then (GetReference pkg bv r Img_Runtime []) (\<lambda>runtimeRef.
       if RegistryName pkg (ref_registry (ref_context runtimeRef)) = DefaultRegistry bv
       then find_first env d dir [runtimeRef]
       else try_then (GetReference pkg bv r Img_Runtime [WithRegistry pkg (DefaultRegistry bv)])
              (\<lambda>defaultRef. find_first env d dir [defaultRef, runtimeRef]))"

text \<open>The image from the registry; the request to load it into containerd as well may fail.\<close>

definition pull_runtime ::
  "name_pkg \<Rightarrow> 'i stage_env \<Rightarrow> string \<Rightarrow> reference \<Rightarrow> disk \<Rightarrow> 'i result \<times> disk" where
  "pull_runtime pkg env dir ref d =
     (case se_Registries env of
        Inl e \<Rightarrow> (Inl (WithMessage (''failed to load private registry configuration from '' @ se_PrivateRegistry env) e), d)
      | Inr _ \<Rightarrow>
         (case se_Plugins env of
            Some (Inl e) \<Rightarrow> (Inl e, d)
          | _ \<Rightarrow> (with_message (''failed to get runtime image '' @ RefName pkg ref) (se_Image env ref),
                  snd (Pull pkg dir Img_Runtime ref d))))"

definition get_runtime ::
  "name_pkg \<Rightarrow> build_vars \<Rightarrow> 'i stage_env \<Rightarrow> resolver \<Rightarrow> string \<Rightarrow> reference \<Rightarrow> disk \<Rightarrow> 'i result \<times> disk" where
  "get_runtime pkg bv env r dir ref d =
     (case preloadBootstrapFromRuntime pkg bv env r dir d of
        Inl e \<Rightarrow> (Inl e, d)
      | Inr (Some img) \<Rightarrow> (Inr img, d)
      | Inr None \<Rightarrow> pull_runtime pkg env dir ref d)"

definition extract_runtime ::
  "name_pkg \<Rightarrow> 'i stage_env \<Rightarrow> string \<Rightarrow> string \<Rightarrow> reference \<Rightarrow> 'i \<Rightarrow> disk \<Rightarrow> unit result \<times> disk" where
  "extract_runtime pkg env dataDir refDigest ref img d =
     (let refBinDir = binDirForDigest dataDir refDigest in
      case se_ExtractDirs env img [(''/bin'', refBinDir), (''/charts'', chartsDirForDigest dataDir refDigest)] d of
        (Inl e, d) \<Rightarrow> (Inl (WithMessage ''failed to extract runtime image'' e), d)
      | (Inr _, d) \<Rightarrow>
         (case os_Chmod refBinDir 493 d of
            (Inl e, d) \<Rightarrow> (Inl e, d)
          | (Inr _, d) \<Rightarrow> os_WriteFile (completionMarkerForDigest dataDir refDigest) (RefName pkg ref) 420 d))"

definition staged :: "disk \<Rightarrow> string \<Rightarrow> string \<Rightarrow> bool" where
  "staged d dataDir refDigest \<longleftrightarrow> dirExists d (binDirForDigest dataDir refDigest) \<and>
     dirExists d (chartsDirForDigest dataDir refDigest) \<and> isRegular d (completionMarkerForDigest dataDir refDigest)"

definition unpack ::
  "name_pkg \<Rightarrow> build_vars \<Rightarrow> 'i stage_env \<Rightarrow> resolver \<Rightarrow> string \<Rightarrow> string \<Rightarrow> reference \<Rightarrow> disk \<Rightarrow> unit result \<times> disk" where
  "unpack pkg bv env r dataDir refDigest ref d =
     (if staged d dataDir refDigest then (Inr (), d)
      else case get_runtime pkg bv env r (imagesDir dataDir) ref d of
        (Inl e, d) \<Rightarrow> (Inl e, d)
      | (Inr img, d) \<Rightarrow> extract_runtime pkg env dataDir refDigest ref img d)"

text \<open>Errors of the last steps are ignored.\<close>

definition switch_release :: "string \<Rightarrow> string \<Rightarrow> disk \<Rightarrow> disk" where
  "switch_release dataDir refDigest d =
     snd (cleanDataDirs dataDir refDigest
       (snd (os_Symlink (binDirForDigest dataDir refDigest) (symlinkBinDir dataDir)
         (snd (os_RemoveAll (symlinkBinDir dataDir) d)))))"

definition Stage ::
  "name_pkg \<Rightarrow> build_vars \<Rightarrow> (string \<Rightarrow> string) \<Rightarrow> 'i stage_env \<Rightarrow> resolver \<Rightarrow> string \<Rightarrow> disk \<Rightarrow> unit result \<times> disk" where
  "Stage pkg bv sha env r dataDir d =
     (case runtime_ref pkg bv sha r of
        Inl e \<Rightarrow> (Inl e, d)
      | Inr (ref, refDigest) \<Rightarrow>
         (case unpack pkg bv env r dataDir refDigest ref d of
            (Inl e, d) \<Rightarrow> (Inl e, d)
          | (Inr _, d) \<Rightarrow> (Inr (), switch_release dataDir refDigest d)))"

section \<open>The data directory and the task directory\<close>

lemma abs_path_first:
  assumes "ds \<noteq> []" and "\<forall>n \<in> set ds. is_name n" and "under (abs_path ds) q"
  shows "takeWhile (\<lambda>c. c \<noteq> slash) (tl q) = hd ds"
proof -
  obtain n ns where ds: "ds = n # ns"
    using assms(1) by (cases ds) auto
  have n: "takeWhile (\<lambda>c. c \<noteq> slash) n = n"
    using assms(2) by (auto simp: ds is_name_def takeWhile_eq_all_conv)
  obtain s where q: "q = abs_path ds @ s" and s: "s = [] \<or> hd s = slash"
    using assms(3) by (auto simp: under_def str_HasPrefix_iff)
  have "\<exists>r. tl q = n @ r \<and> (r = [] \<or> hd r = slash)"
    using s by (cases ns) (auto simp: q abs_path_def ds)
  then obtain r where r: "tl q = n @ r" "r = [] \<or> hd r = slash"
    by blast
  then show ?thesis
    using n assms(2) by (cases r) (auto simp: ds is_name_def takeWhile_append)
qed

lemma run_apart:
  assumes "ds \<noteq> []" and "\<forall>n \<in> set ds. is_name n" and "hd ds \<noteq> ''run''" and "under (abs_path ds) q"
  shows "\<not> under ''/run'' q"
proof
  assume "under ''/run'' q"
  moreover have "abs_path [''run''] = ''/run''" "is_name ''run''"
    by code_simp+
  ultimately show False
    using abs_path_first [of "[''run'']" q] abs_path_first [OF assms(1,2,4)] assms(3) by simp
qed

lemma under_trans: "under p q \<Longrightarrow> under q r \<Longrightarrow> under p r"
  by (auto simp: under_def str_HasPrefix_iff)

lemma under_child: "under p q \<Longrightarrow> under p (q @ ''/'' @ r)"
  by (auto simp: under_def str_HasPrefix_iff)

lemma task_under_run: "under ''/run'' taskDir"
  by code_simp

lemma shim_under_run:
  assumes "slash \<notin> set n" and "n \<noteq> ''''"
  shows "under ''/run'' (filepath_Join [taskDir, n, ''shim-binary-path''])"
proof (cases "n = ''.'' \<or> n = ''..''")
  case True
  moreover have "under ''/run'' (filepath_Join [taskDir, ''.'', ''shim-binary-path''])"
    "under ''/run'' (filepath_Join [taskDir, ''..'', ''shim-binary-path''])"
    by code_simp+
  ultimately show ?thesis
    by blast
next
  case False
  let ?ds = "[''run'', ''k3s'', ''containerd'', ''io.containerd.runtime.v2.task'', ''k8s.io'']"
  have dir: "abs_path ?ds = taskDir" and names: "\<forall>m \<in> set ?ds. is_name m" "is_name ''shim-binary-path''"
    by code_simp+
  have "filepath_Join [taskDir, n, ''shim-binary-path''] = abs_path (?ds @ [n, ''shim-binary-path''])"
    using Join_abs [of ?ds "[n, ''shim-binary-path'']"] names False assms by (simp add: dir is_name_def)
  also have "\<dots> = taskDir @ ''/'' @ n @ ''/shim-binary-path''"
    unfolding dir [symmetric] by (simp add: abs_path_def)
  finally show ?thesis
    using under_child [OF task_under_run] by metis
qed

text \<open>Trees that agree below \<^verbatim>\<open>/run\<close>, where there are no links.\<close>

definition run_plain :: "tree \<Rightarrow> bool" where
  "run_plain t \<longleftrightarrow> (\<forall>q i tgt. under ''/run'' q \<longrightarrow> gm_get t q = Some i \<longrightarrow> kind i \<noteq> Symlink tgt)"

definition same_run :: "disk \<Rightarrow> disk \<Rightarrow> bool" where
  "same_run d d' \<longleftrightarrow> faults d' = faults d \<and> (\<forall>q. under ''/run'' q \<longrightarrow> gm_get (tree d') q = gm_get (tree d) q)"

lemma same_run_trans: "same_run d d' \<Longrightarrow> same_run d' d'' \<Longrightarrow> same_run d d''"
  by (simp add: same_run_def)

lemma run_plain_lookup:
  assumes "run_plain t" and "under ''/run'' q"
  shows "lookup t q = (case gm_get t q of None \<Rightarrow> Inl ErrNotExist | Some i \<Rightarrow> Inr i)"
proof (cases "gm_get t q")
  case None
  then show ?thesis
    by (simp add: lookup_def follow_40_absent)
next
  case (Some i)
  with assms show ?thesis
    using lookup_plain [OF Some] by (auto simp: run_plain_def)
qed

lemma same_run_plain: "same_run d d' \<Longrightarrow> run_plain (tree d) \<Longrightarrow> run_plain (tree d')"
  by (simp add: same_run_def run_plain_def)

lemma same_run_lookup:
  assumes "same_run d d'" and "run_plain (tree d)" and "under ''/run'' q"
  shows "lookup (tree d') q = lookup (tree d) q"
  using run_plain_lookup [OF assms(2,3)] run_plain_lookup [OF same_run_plain [OF assms(1,2)] assms(3)] assms(1,3)
  by (simp add: same_run_def)

lemma entry_name_SomeD: "entry_name p q = Some n \<Longrightarrow> q = p @ ''/'' @ n \<and> n \<noteq> '''' \<and> slash \<notin> set n"
  by (auto simp: entry_name_def Let_def str_HasPrefix_iff split: if_splits)

lemma task_names:
  assumes "same_run d d'"
  shows "set (List.map_filter (entry_name taskDir) (gm_keys (tree d'))) = set (List.map_filter (entry_name taskDir) (gm_keys (tree d)))"
proof -
  have key: "q \<in> set (gm_keys (tree d')) \<longleftrightarrow> q \<in> set (gm_keys (tree d))" if "entry_name taskDir q = Some n" for q n
  proof -
    have "under ''/run'' q"
      using entry_name_SomeD [OF that] under_child [OF task_under_run] by metis
    then show ?thesis
      using assms gm_get_None_iff [of "tree d" q] gm_get_None_iff [of "tree d'" q] by (auto simp: same_run_def)
  qed
  show ?thesis
    using key by (fastforce simp: List.map_filter_def image_iff)
qed


lemma task_entries:
  assumes same: "same_run d d'" and plain: "run_plain (tree d)"
  shows "os_ReadDir d' taskDir = os_ReadDir d taskDir"
proof -
  let ?ns = "\<lambda>d. sort_Strings (remdups (List.map_filter (entry_name taskDir) (gm_keys (tree d))))"
  have dir: "is_dir (tree d') taskDir = is_dir (tree d) taskDir"
    by (simp add: is_dir_def same_run_lookup [OF same plain task_under_run])
  have ns: "?ns d' = ?ns d"
    by (rule sort_Strings_set_eq) (simp_all add: task_names [OF same])
  have "gm_get (tree d') (taskDir @ ''/'' @ n) = gm_get (tree d) (taskDir @ ''/'' @ n)" for n
    using same under_child [OF task_under_run, of n] by (simp add: same_run_def)
  then show ?thesis
    using same unfolding os_ReadDir_def dir ns by (auto simp: same_run_def split: option.splits)
qed

lemma entries_named:
  assumes "os_ReadDir d p = Inr entries" and "(n, i) \<in> set entries"
  shows "n \<noteq> ''''" and "slash \<notin> set n" and "gm_get (tree d) (p @ ''/'' @ n) = Some i"
proof -
  from assms obtain q where q: "q \<in> set (gm_keys (tree d))" "entry_name p q = Some n"
    and i: "i = the (gm_get (tree d) (p @ ''/'' @ n))"
    by (auto simp: os_ReadDir_def List.map_filter_def split: option.splits if_splits)
  from entry_name_SomeD [OF q(2)] show "n \<noteq> ''''" "slash \<notin> set n"
    by simp_all
  show "gm_get (tree d) (p @ ''/'' @ n) = Some i"
    using q(1) gm_get_None_iff [of "tree d" q] entry_name_SomeD [OF q(2)] i by auto
qed

lemma shims_stable:
  assumes same: "same_run d d'" and plain: "run_plain (tree d)"
  shows "dirHasShims d' p = dirHasShims d p"
proof (cases "os_ReadDir d taskDir")
  case (Inl e)
  then show ?thesis
    by (simp add: dirHasShims_def task_entries [OF assms])
next
  case (Inr entries)
  have "shim_of d' n = shim_of d n" if "(n, i) \<in> set entries" for n i
    using entries_named [OF Inr that] same_run_lookup [OF same plain shim_under_run] same
    by (simp add: shim_of_def os_ReadFile_def same_run_def split: option.split)
  then have "list_ex (\<lambda>(n, i). kind i = Directory \<and>
        (case shim_of d' n of Inl _ \<Rightarrow> False | Inr shimPath \<Rightarrow> str_HasPrefix shimPath p)) entries =
      list_ex (\<lambda>(n, i). kind i = Directory \<and>
        (case shim_of d n of Inl _ \<Rightarrow> False | Inr shimPath \<Rightarrow> str_HasPrefix shimPath p)) entries"
    by (intro list_ex_cong refl) auto
  then show ?thesis
    by (simp add: dirHasShims_def task_entries [OF assms] Inr)
qed

section \<open>Which directories are removed\<close>

definition reclaimable :: "disk \<Rightarrow> string \<Rightarrow> string \<Rightarrow> string \<Rightarrow> bool" where
  "reclaimable d datapath refDigest n \<longleftrightarrow>
     n \<noteq> refDigest \<and> releasePattern n \<and> \<not> dirHasShims d (filepath_Join [datapath, n])"

lemma release_name: "releasePattern n \<Longrightarrow> slash \<notin> set n \<Longrightarrow> is_name n"
  by (cases n rule: releasePattern.cases) (auto simp: is_name_def)

lemma removed_touches: "touches (under p) d (snd (os_RemoveAll p d))"
  by (rule os_RemoveAll_touches [OF prod.collapse [symmetric]])

lemma entry_keeps_absent:
  "gm_get (tree d) q = None \<Longrightarrow> gm_get (tree (clean_entry datapath refDigest e d)) q = None"
  by (cases e) (auto simp: clean_entry_def os_RemoveAll_def gm_get_filter [of "\<lambda>x. \<not> under _ x"] split: option.splits)

lemma fold_keeps_absent:
  "gm_get (tree d) q = None \<Longrightarrow> gm_get (tree (fold (clean_entry datapath refDigest) es d)) q = None"
proof (induction es arbitrary: d)
  case (Cons e es)
  from Cons.IH [OF entry_keeps_absent [OF Cons.prems]] show ?case
    by simp
qed simp

text \<open>One pass over the entries: the changes are below directories that could be reclaimed from the start.\<close>

lemma clean_fold:
  assumes dir: "datapath = abs_path ds" "ds \<noteq> []" "\<forall>n \<in> set ds. is_name n" "hd ds \<noteq> ''run''"
    and plain: "run_plain (tree d0)"
    and entries: "\<forall>(n, i) \<in> set entries. slash \<notin> set n" and start: "same_run d0 d"
  shows "touches (\<lambda>q. \<exists>n. slash \<notin> set n \<and> reclaimable d0 datapath refDigest n \<and> under (filepath_Join [datapath, n]) q)
      d (fold (clean_entry datapath refDigest) entries d)"
    and "(n, i) \<in> set entries \<Longrightarrow> kind i = Directory \<Longrightarrow> reclaimable d0 datapath refDigest n \<Longrightarrow>
      faults d0 OpRemove (filepath_Join [datapath, n]) = None \<Longrightarrow> under (filepath_Join [datapath, n]) q \<Longrightarrow>
      gm_get (tree (fold (clean_entry datapath refDigest) entries d)) q = None"
proof -
  let ?A = "\<lambda>q. \<exists>n. slash \<notin> set n \<and> reclaimable d0 datapath refDigest n \<and> under (filepath_Join [datapath, n]) q"
  let ?f = "clean_entry datapath refDigest"
  have child: "filepath_Join [datapath, n] = datapath @ ''/'' @ n" if "slash \<notin> set n" "releasePattern n" for n
    using Join_abs [OF dir(2,3), of "[n]"] release_name [OF that(2,1)] dir(2) by (simp add: dir(1) abs_path_snoc)
  have off_run: "\<not> ?A q" if "under ''/run'' q" for q
    using run_apart [OF dir(2-4)] that under_trans under_child [of datapath datapath] child
    unfolding reclaimable_def dir(1) by (metis under_refl)
  have one: "touches ?A d (?f (n, i) d)" if "same_run d0 d" "slash \<notin> set n" for n i d
    using shims_stable [OF that(1) plain] that(2)
    by (auto simp: clean_entry_def reclaimable_def intro!: touches_mono [OF removed_touches] exI [of _ n])
  have keep: "same_run d0 (?f (n, i) d)" if "same_run d0 d" "slash \<notin> set n" for n i d
    using one [OF that] that(1) off_run touches_get [OF one [OF that]] touches_faults [OF one [OF that]]
    by (auto simp: same_run_def)
  have "touches ?A d (fold ?f es d) \<and> same_run d0 (fold ?f es d)"
    if "same_run d0 d" "\<forall>(n, i) \<in> set es. slash \<notin> set n" for es d
    using that
  proof (induction es arbitrary: d)
    case (Cons e es)
    then show ?case
      using one [of d "fst e" "snd e"] keep [of d "fst e" "snd e"] by (cases e) (auto intro: touches_trans)
  qed simp
  note all = this
  show "touches ?A d (fold ?f entries d)"
    using all [OF start entries] by blast
  show "gm_get (tree (fold ?f entries d)) q = None"
    if e: "(n, i) \<in> set entries" "kind i = Directory" and r: "reclaimable d0 datapath refDigest n"
      "faults d0 OpRemove (filepath_Join [datapath, n]) = None" and q: "under (filepath_Join [datapath, n]) q"
  proof -
    from e(1) obtain pre post where split: "entries = pre @ (n, i) # post"
      by (meson split_list)
    let ?d = "fold ?f pre d"
    have same: "same_run d0 ?d"
      using all [OF start, of pre] entries by (auto simp: split)
    have "gm_get (tree (?f (n, i) ?d)) q = None"
      using r q e(2) shims_stable [OF same plain] same os_RemoveAll_get [of "filepath_Join [datapath, n]" ?d, OF _ q]
      by (auto simp: clean_entry_def reclaimable_def os_RemoveAll_def same_run_def)
    from fold_keeps_absent [OF this, where es = post] show ?thesis
      by (simp add: split)
  qed
qed

text \<open>
  C9: old releases are reclaimed, and nothing else. Removing old data directories changes only what lies in
  directories named like a release, other than the current one, to which no running container's shim refers;
  and each such directory is gone afterwards unless its removal fails. Without a readable list of
  the running containers nothing is removed.
\<close>

theorem old_releases_removed:
  assumes dir: "dataDir = abs_path ds" "ds \<noteq> []" "\<forall>n \<in> set ds. is_name n" "hd ds \<noteq> ''run''"
    and plain: "run_plain (tree d)"
    and path: "datapath = filepath_Join [dataDir, ''data'']"
    and run: "cleanDataDirs dataDir refDigest d = (Inr (), d')"
  shows "touches (\<lambda>q. \<exists>n. slash \<notin> set n \<and> reclaimable d datapath refDigest n \<and> under (filepath_Join [datapath, n]) q) d d' \<and>
    (\<forall>entries n i q. os_ReadDir d datapath = Inr entries \<longrightarrow> (n, i) \<in> set entries \<longrightarrow> kind i = Directory \<longrightarrow>
       reclaimable d datapath refDigest n \<longrightarrow> faults d OpRemove (filepath_Join [datapath, n]) = None \<longrightarrow>
       under (filepath_Join [datapath, n]) q \<longrightarrow> gm_get (tree d') q = None) \<and>
    (isl (os_ReadDir d taskDir) \<longrightarrow> tree d' = tree d)"
proof (cases "os_ReadDir d datapath")
  case (Inl e)
  then show ?thesis
    using run path by (auto simp: cleanDataDirs_def Let_def split: if_splits)
next
  case (Inr entries)
  have data: "datapath = abs_path (ds @ [''data''])" "\<forall>n \<in> set (ds @ [''data'']). is_name n"
    using Join_abs [OF dir(2,3), of "[''data'']"] dir(3) by (auto simp: path dir(1) is_name_def)
  have d': "d' = fold (clean_entry datapath refDigest) entries d"
    using run Inr path by (simp add: cleanDataDirs_def Let_def)
  have named: "\<forall>(n, i) \<in> set entries. slash \<notin> set n"
    using entries_named(2) [OF Inr] by blast
  have "hd (ds @ [''data'']) \<noteq> ''run''"
    using dir by simp
  note run = clean_fold(1) [OF data(1) _ data(2) this plain named, of d refDigest]
    clean_fold(2) [OF data(1) _ data(2) this plain named, of d _ _ refDigest]
  have "fold (clean_entry datapath refDigest) es d = d" if "isl (os_ReadDir d taskDir)" for es
    using that by (induction es) (auto simp: clean_entry_def dirHasShims_def split: sum.splits)
  then show ?thesis
    using run Inr unfolding d' by (auto simp: same_run_def)
qed

text \<open>A data directory with two old releases; a container still runs from the first.\<close>

definition sample_releases :: disk where
  "sample_releases = empty_disk\<lparr>tree :=
     [(''/var/data'', new_inode Directory 493),
      (''/var/data/v1'', new_inode Directory 493), (''/var/data/v1/bin'', new_inode Directory 493),
      (''/var/data/v2'', new_inode Directory 493), (''/var/data/v2/bin'', new_inode Directory 493),
      (''/var/data/v3'', new_inode Directory 493),
      (taskDir, new_inode Directory 493), (taskDir @ ''/a'', new_inode Directory 493),
      (taskDir @ ''/a/shim-binary-path'', new_inode (Regular ''/var/data/v1/bin/shim'') 420)]\<rparr>"

lemma no_links_run_plain: "no_links t \<Longrightarrow> run_plain t"
  using no_links_get by (simp add: run_plain_def)

theorem old_releases_removed_witness:
  "gm_get (tree (snd (cleanDataDirs ''/var'' ''v3'' sample_releases))) ''/var/data/v2/bin'' = None \<and>
   gm_get (tree (snd (cleanDataDirs ''/var'' ''v3'' sample_releases))) ''/var/data/v1/bin'' \<noteq> None"
proof -
  let ?d = sample_releases and ?c = "cleanDataDirs ''/var'' ''v3'' sample_releases"
  have dir: "''/var'' = abs_path [''var'']" "[''var''] \<noteq> []" "\<forall>n \<in> set [''var'']. is_name n" "hd [''var''] \<noteq> ''run''"
    by code_simp+
  have plain: "run_plain (tree ?d)"
    by (rule no_links_run_plain) code_simp
  have run: "?c = (Inr (), snd ?c)"
    by (rule prod_eqI, simp_all only: fst_conv snd_conv) code_simp
  have path: "filepath_Join [''/var'', ''data''] = ''/var/data''"
    by code_simp
  have reclaim: "reclaimable ?d ''/var/data'' ''v3'' ''v2''" "kind (new_inode Directory 493) = Directory"
    "faults ?d OpRemove (filepath_Join [''/var/data'', ''v2'']) = None" "under (filepath_Join [''/var/data'', ''v2'']) ''/var/data/v2/bin''"
    by code_simp+
  have listed: "os_ReadDir ?d ''/var/data'' = Inr (map (\<lambda>n. (n, new_inode Directory 493)) [''v1'', ''v2'', ''v3''])"
    by code_simp
  note spec = old_releases_removed [OF dir plain path [symmetric] run]
  have "gm_get (tree (snd ?c)) ''/var/data/v2/bin'' = None"
    using spec listed reclaim by (auto simp: insert_commute)
  moreover have "gm_get (tree (snd ?c)) ''/var/data/v1/bin'' \<noteq> None"
    by code_simp
  ultimately show ?thesis
    by blast
qed

end
