(* ===== verification/Bootstrap_Safety.thy ===== *)
theory Bootstrap_Safety
  imports Bootstrap_Stage
begin

text \<open>
  Staging a release is safe against interruption: the file that marks a release as extracted appears only
  after everything was extracted, and after a successful start the link to the binaries leads to the release
  of this version, which a later start finds again without a registry.
\<close>

section \<open>Trees between two disks\<close>

text \<open>A property of every tree an observer can see between two disks, the last one included.\<close>

definition all_seen :: "(tree \<Rightarrow> bool) \<Rightarrow> disk \<Rightarrow> disk \<Rightarrow> bool" where
  "all_seen P d d' \<longleftrightarrow> (\<exists>ts. hist d' = hist d @ ts \<and> list_all P ts)"

lemma all_seen_refl [simp]: "all_seen P d d"
  by (simp add: all_seen_def)

lemma all_seen_trans:
  assumes "all_seen P d d'" and "all_seen P d' d''"
  shows "all_seen P d d''"
proof -
  from assms obtain ts us where "hist d' = hist d @ ts" "hist d'' = hist d' @ us" "list_all P ts" "list_all P us"
    by (auto simp: all_seen_def)
  then show ?thesis
    by (auto simp: all_seen_def intro!: exI [of _ "ts @ us"])
qed

lemma touches_all_seen: "touches A d d' \<Longrightarrow> (\<And>t. agree_off A (tree d) t \<Longrightarrow> P t) \<Longrightarrow> all_seen P d d'"
  by (auto simp: touches_def all_seen_def list_all_iff)

lemma all_seenD: "all_seen P d d' \<Longrightarrow> t \<in> set (drop (length (hist d)) (hist d')) \<Longrightarrow> P t"
  by (auto simp: all_seen_def list_all_iff)

definition not_link :: "tree \<Rightarrow> string \<Rightarrow> bool" where
  "not_link t p \<longleftrightarrow> (\<forall>i q. gm_get t p = Some i \<longrightarrow> kind i \<noteq> Symlink q)"

lemma not_link_follow: "not_link t p \<Longrightarrow> follow 40 t p = Inr p"
  using follow_40_absent follow_40_plain by (metis not_link_def option.exhaust)

lemma not_link_lookup:
  "not_link t p \<Longrightarrow> lookup t p = (case gm_get t p of None \<Rightarrow> Inl ErrNotExist | Some i \<Rightarrow> Inr i)"
  by (simp add: lookup_def not_link_follow)

lemma os_Chmod_touches:
  "os_Chmod p pm d = (r, d') \<Longrightarrow> follow 40 (tree d) p = Inr q \<Longrightarrow> A q \<Longrightarrow> touches A d d'"
  by (auto simp: os_Chmod_def split: option.splits sum.splits intro!: touches_commit)

lemma os_Chmod_get:
  assumes "os_Chmod p pm d = (Inr (), d')" and "follow 40 (tree d) p = Inr p" and "gm_get (tree d) p = Some i"
  shows "\<exists>j. gm_get (tree d') p = Some j \<and> kind j = kind i"
  using assms by (auto simp: os_Chmod_def split: option.splits)

section \<open>Paths of a release\<close>

definition release_paths :: "string \<Rightarrow> string list \<Rightarrow> string \<Rightarrow> bool" where
  "release_paths dataDir ds refDigest \<longleftrightarrow> dataDir = abs_path ds \<and> ds \<noteq> [] \<and> list_all is_name ds \<and>
     hd ds \<noteq> ''run'' \<and> is_name refDigest"

lemma under_split:
  assumes "xs \<noteq> []" "list_all is_name xs" "under (abs_path xs) q"
  shows "\<exists>zs. str_Split slash q = '''' # xs @ zs"
proof (cases "q = abs_path xs")
  case True
  then show ?thesis
    using assms split_abs [of xs] by (simp add: list_all_iff)
next
  case False
  with assms(3) obtain r where r: "q = abs_path xs @ ''/'' @ r"
    by (auto simp: under_def str_HasPrefix_iff)
  have "q = str_Join ('''' # xs @ str_Split slash r) [slash]"
    using assms(1) by (simp add: r abs_path_def str_Join_cons str_Join_append str_Join_Split)
  moreover have "\<forall>n \<in> set ('''' # xs @ str_Split slash r). slash \<notin> set n"
    using assms(2) str_Split_parts_no_sep by (auto simp: list_all_iff is_name_def)
  ultimately show ?thesis
    using str_Split_Join [of "'''' # xs @ str_Split slash r" slash] by blast
qed

text \<open>Two directories with a common entry below them lie one in the other.\<close>

lemma under_comparable:
  assumes "xs \<noteq> []" "ys \<noteq> []" "list_all is_name xs" "list_all is_name ys" "under (abs_path xs) q" "under (abs_path ys) q"
  shows "\<exists>zs. xs @ zs = ys \<or> ys @ zs = xs"
proof -
  obtain us vs where "str_Split slash q = '''' # xs @ us" "str_Split slash q = '''' # ys @ vs"
    using under_split [OF assms(1,3,5)] under_split [OF assms(2,4,6)] by blast
  then have "xs @ us = ys @ vs"
    by simp
  then show ?thesis
    by (auto simp: append_eq_append_conv2)
qed

lemma under_names:
  assumes "xs \<noteq> []" "ys \<noteq> []" "list_all is_name xs" "list_all is_name ys" "under (abs_path xs) (abs_path ys)"
  shows "\<exists>zs. ys = xs @ zs"
  using under_split [OF assms(1,3,5)] split_abs [of ys] assms(2,4) by (simp add: list_all_iff)


lemma release_dirs:
  assumes "release_paths dataDir ds g"
  shows "binDirForDigest dataDir g = abs_path (ds @ [''data'', g, ''bin''])"
    and "chartsDirForDigest dataDir g = abs_path (ds @ [''data'', g, ''charts''])"
    and "completionMarkerForDigest dataDir g = abs_path (ds @ [''data'', g, ''.extracted''])"
    and "symlinkBinDir dataDir = abs_path (ds @ [''bin''])"
    and "imagesDir dataDir = abs_path (ds @ [''agent'', ''images''])"
    and "filepath_Join [dataDir, ''data''] = abs_path (ds @ [''data''])"
proof -
  have names: "is_name ''data''" "is_name ''bin''" "is_name ''charts''" "is_name ''.extracted''" "is_name ''agent''" "is_name ''images''"
    by code_simp+
  have join: "filepath_Join (dataDir # ns) = abs_path (ds @ ns)" if "list_all is_name ns" for ns
    using Join_abs [of ds ns] assms that by (simp add: release_paths_def list_all_iff)
  have g: "is_name g"
    using assms by (simp add: release_paths_def)
  show "binDirForDigest dataDir g = abs_path (ds @ [''data'', g, ''bin''])"
    and "chartsDirForDigest dataDir g = abs_path (ds @ [''data'', g, ''charts''])"
    and "completionMarkerForDigest dataDir g = abs_path (ds @ [''data'', g, ''.extracted''])"
    and "symlinkBinDir dataDir = abs_path (ds @ [''bin''])"
    and "imagesDir dataDir = abs_path (ds @ [''agent'', ''images''])"
    and "filepath_Join [dataDir, ''data''] = abs_path (ds @ [''data''])"
    by (simp_all add: binDirForDigest_def chartsDirForDigest_def completionMarkerForDigest_def symlinkBinDir_def
        imagesDir_def join names g)
qed

text \<open>The paths of a release, the link to the current binaries and the image list are apart.\<close>

lemma release_names:
  assumes "release_paths dataDir ds g"
  shows "ds \<noteq> []" "list_all is_name ds" "dataDir = abs_path ds"
    and "list_all is_name (ds @ [''data'', g, ''bin''])" "list_all is_name (ds @ [''data'', g, ''charts''])"
    and "list_all is_name (ds @ [''data'', g, ''.extracted''])" "list_all is_name (ds @ [''bin''])"
    and "list_all is_name (ds @ [''agent'', ''images''])" "list_all is_name (ds @ [''agent'', ''images'', ''runtime-image.txt''])"
proof -
  have "is_name ''data''" "is_name ''bin''" "is_name ''charts''" "is_name ''.extracted''" "is_name ''agent''" "is_name ''images''"
    "is_name ''runtime-image.txt''"
    by code_simp+
  with assms show "ds \<noteq> []" "list_all is_name ds" "dataDir = abs_path ds"
    and "list_all is_name (ds @ [''data'', g, ''bin''])" "list_all is_name (ds @ [''data'', g, ''charts''])"
    and "list_all is_name (ds @ [''data'', g, ''.extracted''])" "list_all is_name (ds @ [''bin''])"
    and "list_all is_name (ds @ [''agent'', ''images''])" "list_all is_name (ds @ [''agent'', ''images'', ''runtime-image.txt''])"
    by (simp_all add: release_paths_def)
qed

lemma marker_apart:
  assumes "release_paths dataDir ds g" and "p = binDirForDigest dataDir g \<or> p = chartsDirForDigest dataDir g"
  shows "\<not> under p (completionMarkerForDigest dataDir g)" and "\<not> under (completionMarkerForDigest dataDir g) p"
    and "p \<noteq> completionMarkerForDigest dataDir g"
proof -
  note ns = release_names [OF assms(1)]
  show "\<not> under p (completionMarkerForDigest dataDir g)" "\<not> under (completionMarkerForDigest dataDir g) p"
    using under_names [OF _ _ ns(4,6)] under_names [OF _ _ ns(5,6)] under_names [OF _ _ ns(6,4)] under_names [OF _ _ ns(6,5)] assms(2)
    by (auto simp: release_dirs [OF assms(1)])
  then show "p \<noteq> completionMarkerForDigest dataDir g"
    by auto
qed

text \<open>What is removed or replaced after unpacking does not belong to the release.\<close>

definition outdated :: "string \<Rightarrow> string \<Rightarrow> string \<Rightarrow> bool" where
  "outdated dataDir g q \<longleftrightarrow>
     (\<exists>n. slash \<notin> set n \<and> n \<noteq> g \<and> releasePattern n \<and> under (filepath_Join [filepath_Join [dataDir, ''data''], n]) q)"

definition replaced :: "string \<Rightarrow> string \<Rightarrow> string \<Rightarrow> bool" where
  "replaced dataDir g q \<longleftrightarrow> under (symlinkBinDir dataDir) q \<or> outdated dataDir g q"

lemma old_release_path:
  assumes "release_paths dataDir ds g" and "slash \<notin> set n" and "releasePattern n"
  shows "filepath_Join [filepath_Join [dataDir, ''data''], n] = abs_path (ds @ [''data'', n])"
    and "list_all is_name (ds @ [''data'', n])"
proof -
  have data: "is_name ''data''"
    by code_simp
  note n = data release_name [OF assms(3,2)]
  then show "list_all is_name (ds @ [''data'', n])"
    using release_names(2) [OF assms(1)] by simp
  show "filepath_Join [filepath_Join [dataDir, ''data''], n] = abs_path (ds @ [''data'', n])"
    using Join_abs [of "ds @ [''data'']" "[n]"] release_names(2) [OF assms(1)] n
    by (simp add: release_dirs [OF assms(1)] list_all_iff)
qed

lemma replaced_apart:
  assumes "release_paths dataDir ds g"
    and "under (binDirForDigest dataDir g) q \<or> under (chartsDirForDigest dataDir g) q \<or> q = completionMarkerForDigest dataDir g"
  shows "\<not> replaced dataDir g q"
proof -
  note ns = release_names [OF assms(1)] and dirs = release_dirs [OF assms(1)]
  obtain f where f: "under (abs_path (ds @ [''data'', g, f])) q" "list_all is_name (ds @ [''data'', g, f])"
    using assms(2) ns(4-6) unfolding dirs by (metis under_refl)
  have "\<not> under (symlinkBinDir dataDir) q"
    unfolding dirs using under_comparable [OF _ _ ns(7) f(2) _ f(1)] by auto
  moreover have "\<not> under (abs_path (ds @ [''data'', n])) q" if "list_all is_name (ds @ [''data'', n])" "n \<noteq> g" for n
    using under_comparable [OF _ _ that(1) f(2) _ f(1)] that(2) by auto
  ultimately show ?thesis
    using old_release_path [OF assms(1)] by (auto simp: replaced_def outdated_def)
qed

section \<open>Steps of the staging\<close>

text \<open>
  What is assumed of the extraction: it changes only what lies in the directories it was given and makes
  those on the way to them, and a successful extraction leaves directories there.
\<close>

definition extracts_ok :: "'i stage_env \<Rightarrow> bool" where
  "extracts_ok env \<longleftrightarrow> (\<forall>img ps d r d'. se_ExtractDirs env img ps d = (r, d') \<longrightarrow>
     touches (\<lambda>q. \<exists>t \<in> snd ` set ps. under t q \<or> under q t \<and> gm_get (tree d) q = None) d d' \<and>
     (r = Inr () \<longrightarrow> (\<forall>t \<in> snd ` set ps. not_link (tree d) t \<longrightarrow>
        (\<exists>i. gm_get (tree d') t = Some i \<and> kind i = Directory))))"

text \<open>A tree whose binaries and charts are those a successful extraction left.\<close>

definition extracted :: "'i stage_env \<Rightarrow> string \<Rightarrow> string \<Rightarrow> tree \<Rightarrow> bool" where
  "extracted env dataDir g t \<longleftrightarrow> (\<exists>img d1 d2.
     se_ExtractDirs env img [(''/bin'', binDirForDigest dataDir g), (''/charts'', chartsDirForDigest dataDir g)] d1 = (Inr (), d2) \<and>
     (\<forall>q. (under (binDirForDigest dataDir g) q \<or> under (chartsDirForDigest dataDir g) q) \<and> q \<noteq> binDirForDigest dataDir g \<longrightarrow>
        gm_get t q = gm_get (tree d2) q))"

abbreviation marked_ok :: "'i stage_env \<Rightarrow> string \<Rightarrow> string \<Rightarrow> tree \<Rightarrow> bool" where
  "marked_ok env dataDir g t \<equiv> gm_get t (completionMarkerForDigest dataDir g) \<noteq> None \<longrightarrow> extracted env dataDir g t"

definition installed :: "string \<Rightarrow> string \<Rightarrow> tree \<Rightarrow> bool" where
  "installed dataDir g t \<longleftrightarrow>
     (\<exists>i. gm_get t (binDirForDigest dataDir g) = Some i \<and> kind i = Directory) \<and>
     (\<exists>i. gm_get t (chartsDirForDigest dataDir g) = Some i \<and> kind i = Directory) \<and>
     (\<exists>i c. gm_get t (completionMarkerForDigest dataDir g) = Some i \<and> kind i = Regular c)"

text \<open>None of the paths of a release is a symbolic link.\<close>

definition plain_release :: "string \<Rightarrow> string \<Rightarrow> tree \<Rightarrow> bool" where
  "plain_release dataDir g t \<longleftrightarrow> not_link t (binDirForDigest dataDir g) \<and> not_link t (chartsDirForDigest dataDir g) \<and>
     not_link t (completionMarkerForDigest dataDir g)"

definition stat_works :: "string \<Rightarrow> string \<Rightarrow> disk \<Rightarrow> bool" where
  "stat_works dataDir g d \<longleftrightarrow> faults d OpStat (binDirForDigest dataDir g) = None \<and>
     faults d OpStat (chartsDirForDigest dataDir g) = None \<and> faults d OpStat (completionMarkerForDigest dataDir g) = None"

lemma staged_installed:
  assumes "staged d dataDir g" and "plain_release dataDir g (tree d)"
  shows "installed dataDir g (tree d)"
  using assms not_link_lookup [of "tree d"]
  by (auto simp: staged_def dirExists_def isRegular_def os_Stat_ok_iff installed_def plain_release_def
      split: sum.splits kind.splits option.splits)

lemma installed_staged:
  assumes "installed dataDir g (tree d)" and "stat_works dataDir g d"
  shows "staged d dataDir g"
  using assms lookup_plain [of "tree d"]
  by (auto simp: staged_def dirExists_def isRegular_def os_Stat_def installed_def stat_works_def
      split: sum.splits kind.splits option.splits)

lemma extracted_agree:
  assumes "extracted env dataDir g t" and "agree_off A t u"
    and "\<And>q. under (binDirForDigest dataDir g) q \<or> under (chartsDirForDigest dataDir g) q \<Longrightarrow>
       q \<noteq> binDirForDigest dataDir g \<Longrightarrow> \<not> A q"
  shows "extracted env dataDir g u"
  using assms unfolding extracted_def agree_off_def by metis

text \<open>After the extraction: permissions of the binaries and the marker.\<close>

lemma finish_steps:
  assumes paths: "release_paths dataDir ds g"
    and b: "gm_get (tree d) (binDirForDigest dataDir g) = Some i" "kind i = Directory"
    and c: "\<exists>i. gm_get (tree d) (chartsDirForDigest dataDir g) = Some i \<and> kind i = Directory"
    and m: "not_link (tree d) (completionMarkerForDigest dataDir g)"
    and run: "(case os_Chmod (binDirForDigest dataDir g) 493 d of (Inl e, d) \<Rightarrow> (Inl e, d)
       | (Inr _, d) \<Rightarrow> os_WriteFile (completionMarkerForDigest dataDir g) content 420 d) = (r, d')"
  shows "touches (\<lambda>q. q = binDirForDigest dataDir g \<or> q = completionMarkerForDigest dataDir g) d d'" (is "touches ?A d d'")
    and "r = Inr () \<Longrightarrow> installed dataDir g (tree d')"
proof -
  let ?b = "binDirForDigest dataDir g" and ?m = "completionMarkerForDigest dataDir g"
  obtain r1 d1 where ch: "os_Chmod ?b 493 d = (r1, d1)"
    by (cases "os_Chmod ?b 493 d")
  have fb: "follow 40 (tree d) ?b = Inr ?b"
    by (rule follow_40_plain [OF b(1)]) (simp add: b(2))
  note t1 = os_Chmod_touches [OF ch fb]
  have same: "gm_get (tree d1) q = gm_get (tree d) q" if "q \<noteq> ?b" for q
    using touches_get [OF t1 [of "\<lambda>x. x = ?b"]] that by simp
  have "follow 40 (tree d1) ?m = Inr ?m"
    using m same [of ?m] marker_apart(3) [OF paths, of ?b] by (intro not_link_follow) (auto simp: not_link_def)
  note w = os_WriteFile_touches [of ?m content 420 d1 r d' ?m, OF _ this] and got = os_WriteFile_get [of ?m content 420 d1 d' ?m, OF _ this]
  show "touches ?A d d'"
    using run ch t1 [of ?A] w [of ?A] by (cases r1) (auto intro: touches_trans)
  show "installed dataDir g (tree d')" if ok: "r = Inr ()"
  proof -
    obtain u where r1: "r1 = Inr u" and wr: "os_WriteFile ?m content 420 d1 = (Inr (), d')"
      using run ch ok by (cases r1) auto
    have off: "gm_get (tree d') q = gm_get (tree d1) q" if "q \<noteq> ?m" for q
      using touches_get [OF os_WriteFile_touches [OF wr \<open>follow 40 (tree d1) ?m = Inr ?m\<close>, of "\<lambda>x. x = ?m"]] that by simp
    have "\<exists>j. gm_get (tree d1) ?b = Some j \<and> kind j = Directory"
      using os_Chmod_get [of ?b 493 d d1 i] ch r1 fb b by simp
    moreover have "\<exists>i. gm_get (tree d1) (chartsDirForDigest dataDir g) = Some i \<and> kind i = Directory"
      using c same [of "chartsDirForDigest dataDir g"] calculation by (cases "chartsDirForDigest dataDir g = ?b") auto
    ultimately show ?thesis
      using got [OF wr] off marker_apart(3) [OF paths] by (auto simp: installed_def)
  qed
qed

lemma extract_steps:
  assumes paths: "release_paths dataDir ds g" and env: "extracts_ok env" and plain: "plain_release dataDir g (tree d)"
    and run: "extract_runtime pkg env dataDir g ref img d = (r, d')"
  shows "touches (\<lambda>q. under (binDirForDigest dataDir g) q \<or> under (chartsDirForDigest dataDir g) q \<or>
       (under q (binDirForDigest dataDir g) \<or> under q (chartsDirForDigest dataDir g)) \<and> gm_get (tree d) q = None \<or>
       q = completionMarkerForDigest dataDir g) d d'" (is "touches ?A d d'")
    and "r = Inr () \<Longrightarrow> installed dataDir g (tree d')"
    and "gm_get (tree d) (completionMarkerForDigest dataDir g) = None \<Longrightarrow>
       all_seen (marked_ok env dataDir g) d d' \<and> marked_ok env dataDir g (tree d')"
proof -
  let ?b = "binDirForDigest dataDir g" and ?c = "chartsDirForDigest dataDir g" and ?m = "completionMarkerForDigest dataDir g"
  let ?ps = "[(''/bin'', ?b), (''/charts'', ?c)]"
  note apart = marker_apart [OF paths]
  obtain r1 d1 where x: "se_ExtractDirs env img ?ps d = (r1, d1)"
    by (cases "se_ExtractDirs env img ?ps d")
  let ?X = "\<lambda>q. \<exists>t \<in> snd ` set ?ps. under t q \<or> under q t \<and> gm_get (tree d) q = None"
  have tx: "touches ?X d d1"
    and dirs: "r1 = Inr () \<Longrightarrow> \<exists>i. gm_get (tree d1) ?b = Some i \<and> kind i = Directory"
      "r1 = Inr () \<Longrightarrow> \<exists>i. gm_get (tree d1) ?c = Some i \<and> kind i = Directory"
    using env x plain by (fastforce simp: extracts_ok_def plain_release_def)+
  have "\<not> ?X ?m"
    using apart by auto
  note m1 = touches_get [OF tx this]
    have plain1: "not_link (tree d1) ?m"
    using plain m1 by (simp add: plain_release_def not_link_def)
  have scope: "touches ?A d d1"
    using tx by (rule touches_mono) auto
  have early: "all_seen (marked_ok env dataDir g) d d1" if "gm_get (tree d) ?m = None"
    using \<open>\<not> ?X ?m\<close> that by (intro touches_all_seen [OF tx]) (simp add: agree_off_def)
  consider (failed) e where "r1 = Inl e" "r \<noteq> Inr ()" "d' = d1"
    | (ok) "r1 = Inr ()" and "(case os_Chmod ?b 493 d1 of (Inl e, d) \<Rightarrow> (Inl e, d)
        | (Inr _, d) \<Rightarrow> os_WriteFile ?m (RefName pkg ref) 420 d) = (r, d')"
    using run x by (cases r1) (auto simp: extract_runtime_def Let_def)
  then have "touches ?A d d' \<and> (r = Inr () \<longrightarrow> installed dataDir g (tree d')) \<and> (gm_get (tree d) ?m = None \<longrightarrow>
      all_seen (marked_ok env dataDir g) d d' \<and> marked_ok env dataDir g (tree d'))"
  proof cases
    case failed
    then show ?thesis
      using scope early m1 by simp
  next
    case ok
    obtain i where i: "gm_get (tree d1) ?b = Some i" "kind i = Directory"
      using dirs(1) [OF ok(1)] by blast
    note fin = finish_steps [OF paths i dirs(2) [OF ok(1)] plain1 ok(2)]
    have "extracted env dataDir g (tree d1)"
      using x ok(1) by (auto simp: extracted_def)
    then have good: "extracted env dataDir g t" if "agree_off (\<lambda>q. q = ?b \<or> q = ?m) (tree d1) t" for t
      using extracted_agree [OF _ that] apart(1) by blast
    have "all_seen (marked_ok env dataDir g) d1 d'" "extracted env dataDir g (tree d')"
      using touches_all_seen [OF fin(1), of "marked_ok env dataDir g"] good fin(1) by (auto simp: touches_def)
    moreover have "touches ?A d1 d'"
      using fin(1) by (rule touches_mono) auto
    ultimately show ?thesis
      using touches_trans [OF scope] fin(2) early all_seen_trans by blast
  qed
  then show "touches ?A d d'" and "r = Inr () \<Longrightarrow> installed dataDir g (tree d')"
    and "gm_get (tree d) ?m = None \<Longrightarrow> all_seen (marked_ok env dataDir g) d d' \<and> marked_ok env dataDir g (tree d')"
    by blast+
qed

lemma runtime_dest: "pull_dest p Img_Runtime = p @ ''/runtime-image.txt''"
  by (simp add: pull_dest_def Img_Runtime_def)

text \<open>Before the extraction only the list of images and the directories that lead to it change.\<close>

lemma get_runtime_steps:
  assumes paths: "release_paths dataDir ds g"
    and dest: "not_link (tree d) (pull_dest (imagesDir dataDir) Img_Runtime)"
    and run: "get_runtime pkg bv env r (imagesDir dataDir) ref d = (res, d')"
  shows "touches (\<lambda>q. q \<in> set (path_prefixes (imagesDir dataDir)) \<or> q = pull_dest (imagesDir dataDir) Img_Runtime) d d'"
proof -
  note ns = release_names [OF paths]
  have "slash \<notin> set Img_Runtime"
    by code_simp
  then have "touches (\<lambda>q. q \<in> set (path_prefixes (imagesDir dataDir)) \<or> q = pull_dest (imagesDir dataDir) Img_Runtime)
      d (snd (Pull pkg (imagesDir dataDir) Img_Runtime ref d))"
    using Pull_parts(1) [OF prod.collapse [symmetric] release_dirs(5) [OF paths]] ns(8) dest by (simp add: list_all_iff not_link_def)
  then show ?thesis
    using run by (auto simp: get_runtime_def pull_runtime_def split: sum.splits option.splits)
qed

text \<open>Nothing that was there is changed, but for the list of images.\<close>

lemma Pull_keeps:
  assumes "gm_get (tree d) q = Some i" and "dir = abs_path ds" "ds \<noteq> []" "\<forall>n \<in> set ds. is_name n" "slash \<notin> set name"
    and "\<forall>i q. gm_get (tree d) (pull_dest dir name) = Some i \<longrightarrow> kind i \<noteq> Symlink q" and "q \<noteq> pull_dest dir name"
  shows "gm_get (tree (snd (Pull pkg dir name img d))) q = Some i"
proof -
  obtain r1 d1 where mk: "os_MkdirAll dir 493 d = (r1, d1)"
    by (cases "os_MkdirAll dir 493 d")
  have q: "gm_get (tree d1) q = Some i"
    using os_MkdirAll_keeps [OF mk assms(1)] .
  have "gm_get (tree (snd (os_WriteFile (pull_dest dir name) c 420 d1))) q = Some i" for c
    using touches_get [OF os_WriteFile_touches [OF prod.collapse [symmetric] Pull_mkdir(2) [OF mk assms(2-6)], of "\<lambda>x. x = pull_dest dir name"]]
      q assms(7) by simp
  then show ?thesis
    using q assms(1) mk pull_dest_join [OF assms(3-5)] by (auto simp: Pull_def assms(2) split: sum.split bool.split)
qed

lemma get_runtime_keeps:
  assumes paths: "release_paths dataDir ds g"
    and dest: "not_link (tree d) (pull_dest (imagesDir dataDir) Img_Runtime)"
    and run: "get_runtime pkg bv env r (imagesDir dataDir) ref d = (res, d')"
    and q: "gm_get (tree d) q = Some i" "q \<noteq> pull_dest (imagesDir dataDir) Img_Runtime"
  shows "gm_get (tree d') q = Some i"
proof -
  have "slash \<notin> set Img_Runtime"
    by code_simp
  then have "gm_get (tree (snd (Pull pkg (imagesDir dataDir) Img_Runtime ref d))) q = Some i"
    using Pull_keeps [OF q(1) release_dirs(5) [OF paths]] release_names(8) [OF paths] dest q(2)
    by (simp add: list_all_iff not_link_def)
  then show ?thesis
    using run q(1) by (auto simp: get_runtime_def pull_runtime_def split: sum.splits option.splits)
qed

lemma images_dest:
  assumes "release_paths dataDir ds g"
  shows "pull_dest (imagesDir dataDir) Img_Runtime = abs_path (ds @ [''agent'', ''images'', ''runtime-image.txt''])"
  using abs_path_snoc [of "ds @ [''agent'', ''images'']" "''runtime-image.txt''"] unfolding runtime_dest release_dirs [OF assms] by simp

lemma images_apart:
  assumes paths: "release_paths dataDir ds g"
    and q: "q = binDirForDigest dataDir g \<or> q = chartsDirForDigest dataDir g \<or> q = completionMarkerForDigest dataDir g"
  shows "q \<notin> set (path_prefixes (imagesDir dataDir))" and "q \<noteq> pull_dest (imagesDir dataDir) Img_Runtime"
proof -
  note ns = release_names [OF paths] and dirs = release_dirs [OF paths]
  obtain f where f: "q = abs_path (ds @ [''data'', g, f])" "list_all is_name (ds @ [''data'', g, f])"
    using q ns(4-6) unfolding dirs by metis
  have inj: "q \<noteq> abs_path xs" if "xs \<noteq> []" "list_all is_name xs" "xs \<noteq> ds @ [''data'', g, f]" for xs
    using abs_path_inj [of "ds @ [''data'', g, f]" xs] f that by (auto simp: list_all_iff)
  have "take k (ds @ [''agent'', ''images'']) \<noteq> ds @ [''data'', g, f]" for k
  proof
    assume "take k (ds @ [''agent'', ''images'']) = ds @ [''data'', g, f]"
    then have "length (take k (ds @ [''agent'', ''images''])) = length (ds @ [''data'', g, f])"
      by (rule arg_cong)
    then show False
      by simp
  qed
  then have "q \<noteq> abs_path (take k (ds @ [''agent'', ''images'']))" if "0 < k" for k
    using that ns(1,8) by (intro inj) (auto simp: list_all_iff dest: in_set_takeD)
  moreover have "path_prefixes (imagesDir dataDir) =
      map (\<lambda>k. abs_path (take k (ds @ [''agent'', ''images'']))) [1 ..< Suc (length (ds @ [''agent'', ''images'']))]"
    unfolding dirs by (rule path_prefixes_abs) (use ns(8) in \<open>auto simp: list_all_iff\<close>)
  ultimately show "q \<notin> set (path_prefixes (imagesDir dataDir))"
    by (simp add: image_iff Suc_le_eq del: take_append upt_Suc)
  show "q \<noteq> pull_dest (imagesDir dataDir) Img_Runtime"
    using inj [OF _ ns(9)] images_dest [OF paths] by simp
qed

lemma clean_touches: "touches (outdated dataDir g) d (snd (cleanDataDirs dataDir g d))"
proof (cases "os_ReadDir d (filepath_Join [dataDir, ''data''])")
  case (Inr entries)
  have one: "touches (outdated dataDir g) d (clean_entry (filepath_Join [dataDir, ''data'']) g (n, i) d)" if "slash \<notin> set n" for n i d
    using that by (auto simp: clean_entry_def outdated_def intro!: touches_mono [OF removed_touches])
  have "touches (outdated dataDir g) d (fold (clean_entry (filepath_Join [dataDir, ''data'']) g) es d)"
    if "\<forall>(n, i) \<in> set es. slash \<notin> set n" for es d
    using that
  proof (induction es arbitrary: d)
    case (Cons e es)
    then show ?case
      using one [of "fst e" d "snd e"] by (cases e) (auto intro: touches_trans)
  qed simp
  then show ?thesis
    using Inr entries_named(2) [OF Inr] by (fastforce simp: cleanDataDirs_def Let_def)
qed (simp add: cleanDataDirs_def Let_def)

lemma switch_touches: "touches (replaced dataDir g) d (switch_release dataDir g d)"
proof -
  let ?s = "symlinkBinDir dataDir"
  have "touches (replaced dataDir g) d (snd (os_RemoveAll ?s d))"
    by (rule touches_mono [OF removed_touches]) (simp add: replaced_def)
  moreover have "touches (replaced dataDir g) e (snd (os_Symlink tgt ?s e))" for e tgt
    by (rule os_Symlink_touches [OF prod.collapse [symmetric]]) (simp add: replaced_def)
  ultimately show ?thesis
    using touches_mono [OF clean_touches, where B = "replaced dataDir g"]
    unfolding switch_release_def by (meson replaced_def touches_trans)
qed

text \<open>The link is replaced when the data directory is there and the environment allows it.\<close>

lemma switch_link:
  assumes paths: "release_paths dataDir ds g"
    and dir: "gm_get (tree d) dataDir = Some i" "kind i = Directory"
    and works: "faults d OpRemove (symlinkBinDir dataDir) = None" "faults d OpSymlink (symlinkBinDir dataDir) = None"
  shows "gm_get (tree (switch_release dataDir g d)) (symlinkBinDir dataDir) =
    Some (new_inode (Symlink (binDirForDigest dataDir g)) 511)"
proof -
  let ?s = "symlinkBinDir dataDir"
  note ns = release_names [OF paths] and dirs = release_dirs [OF paths]
  obtain d1 where d1: "os_RemoveAll ?s d = (Inr (), d1)"
    using works by (simp add: os_RemoveAll_def)
  have gone: "gm_get (tree d1) ?s = None"
    using os_RemoveAll_get [OF d1 under_refl] .
  have "\<not> under ?s dataDir"
    using under_names [OF _ ns(1) ns(7) ns(2)] unfolding dirs ns(3) [symmetric] by auto
  then have kept: "gm_get (tree d1) dataDir = Some i"
    using touches_get [OF os_RemoveAll_touches [OF d1, of "under ?s"]] dir by simp
  have parent: "filepath_Dir ?s = dataDir"
    using Dir_abs [OF ns(1), of "''bin''"] ns(2,7) unfolding dirs ns(3) [symmetric] by (simp add: list_all_iff)
  have "is_dir (tree d1) dataDir"
    using lookup_plain [OF kept] dir(2) by (simp add: is_dir_def)
  then have linked: "gm_get (tree (snd (os_Symlink tgt ?s d1))) ?s = Some (new_inode (Symlink tgt) 511)" for tgt
    using gone works d1 by (auto simp: os_Symlink_def parent os_RemoveAll_def split: option.splits)
  have "\<not> outdated dataDir g ?s"
  proof
    assume "outdated dataDir g ?s"
    then obtain n where n: "slash \<notin> set n" "releasePattern n" "under (abs_path (ds @ [''data'', n])) (abs_path (ds @ [''bin'']))"
      using old_release_path [OF paths] unfolding outdated_def dirs by metis
    then show False
      using under_names [OF _ _ old_release_path(2) [OF paths n(1,2)] ns(7) n(3)] by auto
  qed
  then show ?thesis
    using touches_get [OF clean_touches] linked by (simp add: switch_release_def d1)
qed

lemma unpack_steps:
  assumes paths: "release_paths dataDir ds g" and env: "extracts_ok env" and plain: "plain_release dataDir g (tree d)"
    and dest: "not_link (tree d) (pull_dest (imagesDir dataDir) Img_Runtime)"
    and run: "unpack pkg bv env r dataDir g ref d = (res, d')"
  shows "faults d' = faults d"
    and "res = Inr () \<Longrightarrow> installed dataDir g (tree d')"
    and "gm_get (tree d) (completionMarkerForDigest dataDir g) = None \<Longrightarrow>
       all_seen (marked_ok env dataDir g) d d' \<and> marked_ok env dataDir g (tree d')"
proof -
  let ?m = "completionMarkerForDigest dataDir g"
  obtain r1 d1 where got: "get_runtime pkg bv env r (imagesDir dataDir) ref d = (r1, d1)"
    by (cases "get_runtime pkg bv env r (imagesDir dataDir) ref d")
  note t1 = get_runtime_steps [OF paths dest got]
  have same: "gm_get (tree d1) q = gm_get (tree d) q"
    if "q = binDirForDigest dataDir g \<or> q = chartsDirForDigest dataDir g \<or> q = ?m" for q
    using touches_get [OF t1] images_apart [OF paths that] by simp
  have plain1: "plain_release dataDir g (tree d1)"
    using plain same by (simp add: plain_release_def not_link_def)
  have early: "all_seen (marked_ok env dataDir g) d d1 \<and> marked_ok env dataDir g (tree d1)" if "gm_get (tree d) ?m = None"
    using that images_apart [OF paths, of ?m] same [of ?m] by (auto intro!: touches_all_seen [OF t1] simp: agree_off_def)
  consider (kept) "staged d dataDir g" "d' = d"
    | (failed) e where "r1 = Inl e" "res = Inl e" "d' = d1"
    | (ok) img where "extract_runtime pkg env dataDir g ref img d1 = (res, d')"
    using run got by (cases r1) (auto simp: unpack_def split: if_splits)
  then have "faults d' = faults d \<and> (res = Inr () \<longrightarrow> installed dataDir g (tree d')) \<and>
      (gm_get (tree d) ?m = None \<longrightarrow> all_seen (marked_ok env dataDir g) d d' \<and> marked_ok env dataDir g (tree d'))"
  proof cases
    case kept
    then show ?thesis
      using staged_installed plain by simp
  next
    case failed
    then show ?thesis
      using touches_faults [OF t1] early by simp
  next
    case (ok img)
    note ex = extract_steps [OF paths env plain1 ok]
    have "faults d' = faults d"
      using touches_faults [OF t1] touches_faults [OF ex(1)] by simp
    moreover have "all_seen (marked_ok env dataDir g) d d'" if "gm_get (tree d) ?m = None"
      using all_seen_trans [OF conjunct1 [OF early [OF that]]] ex(3) same [of ?m] that by simp
    ultimately show ?thesis
      using ex(2,3) same [of ?m] by simp
  qed
  then show "faults d' = faults d" and "res = Inr () \<Longrightarrow> installed dataDir g (tree d')"
    and "gm_get (tree d) ?m = None \<Longrightarrow> all_seen (marked_ok env dataDir g) d d' \<and> marked_ok env dataDir g (tree d')"
    by blast+
qed

lemma unpack_keeps_dir:
  assumes paths: "release_paths dataDir ds g" and env: "extracts_ok env" and plain: "plain_release dataDir g (tree d)"
    and dest: "not_link (tree d) (pull_dest (imagesDir dataDir) Img_Runtime)"
    and run: "unpack pkg bv env r dataDir g ref d = (res, d')" and dir: "gm_get (tree d) dataDir = Some i"
  shows "gm_get (tree d') dataDir = Some i"
proof -
  note ns = release_names [OF paths] and dirs = release_dirs [OF paths]
  obtain r1 d1 where got: "get_runtime pkg bv env r (imagesDir dataDir) ref d = (r1, d1)"
    by (cases "get_runtime pkg bv env r (imagesDir dataDir) ref d")
  note t1 = get_runtime_steps [OF paths dest got]
  have longer: "dataDir \<noteq> p" if "p = abs_path (ds @ xs)" "xs \<noteq> []" "list_all is_name (ds @ xs)" for p xs
    using abs_path_inj [of ds "ds @ xs"] ns(1-3) that by (auto simp: list_all_iff)
  have "dataDir \<noteq> pull_dest (imagesDir dataDir) Img_Runtime"
    using longer [of "pull_dest (imagesDir dataDir) Img_Runtime" "[''agent'', ''images'', ''runtime-image.txt'']"] ns(9) images_dest [OF paths]
    by simp
  from get_runtime_keeps [OF paths dest got dir this] have d1: "gm_get (tree d1) dataDir = Some i" .
  have plain1: "plain_release dataDir g (tree d1)"
    using plain touches_get [OF t1] images_apart [OF paths] by (simp add: plain_release_def not_link_def)
  have "\<not> under (binDirForDigest dataDir g) dataDir" "\<not> under (chartsDirForDigest dataDir g) dataDir" "dataDir \<noteq> completionMarkerForDigest dataDir g"
    using under_names [OF _ ns(1) ns(4) ns(2)] under_names [OF _ ns(1) ns(5) ns(2)] longer [OF _ _ ns(6)]
    unfolding dirs ns(3) [symmetric] by auto
  then have "gm_get (tree d') dataDir = Some i" if "extract_runtime pkg env dataDir g ref img d1 = (res, d')" for img
    using touches_get [OF extract_steps(1) [OF paths env plain1 that], of dataDir] d1 by simp
  then show ?thesis
    using run got dir d1 by (cases r1) (auto simp: unpack_def split: if_splits)
qed

lemma switch_keeps:
  assumes paths: "release_paths dataDir ds g"
    and "under (binDirForDigest dataDir g) q \<or> under (chartsDirForDigest dataDir g) q \<or> q = completionMarkerForDigest dataDir g"
  shows "gm_get (tree (switch_release dataDir g d)) q = gm_get (tree d) q"
  by (rule touches_get [OF switch_touches]) (rule replaced_apart [OF assms])

lemma switch_installed:
  assumes "release_paths dataDir ds g" and "installed dataDir g (tree d)"
  shows "installed dataDir g (tree (switch_release dataDir g d))"
  using assms(2) switch_keeps [OF assms(1)] by (simp add: installed_def)

lemma switch_marked:
  assumes paths: "release_paths dataDir ds g" and "marked_ok env dataDir g (tree d)"
  shows "all_seen (marked_ok env dataDir g) d (switch_release dataDir g d)"
    and "marked_ok env dataDir g (tree (switch_release dataDir g d))"
proof -
  have ok: "marked_ok env dataDir g t" if t: "agree_off (replaced dataDir g) (tree d) t" for t
    using assms(2) extracted_agree [OF _ t] replaced_apart [OF paths] t by (auto simp: agree_off_def)
  show "all_seen (marked_ok env dataDir g) d (switch_release dataDir g d)"
    by (rule touches_all_seen [OF switch_touches ok])
  show "marked_ok env dataDir g (tree (switch_release dataDir g d))"
    by (rule ok) (use switch_touches in \<open>auto simp: touches_def\<close>)
qed

section \<open>Interrupted and completed staging\<close>

text \<open>
  C7: an interrupted staging is never taken for a complete one. Wherever the staging of a release that was
  not staged before stops, and whatever fails, a tree in which the marker file of the release exists holds
  exactly the binaries and charts that a successful extraction of the runtime image left, so the check for
  the marker at the next start skips only complete extractions. This rests on the extraction changing
  only the directories it was given.
\<close>

theorem marker_after_extraction:
  assumes paths: "release_paths dataDir ds g" and env: "extracts_ok env" and plain: "plain_release dataDir g (tree d)"
    and dest: "not_link (tree d) (pull_dest (imagesDir dataDir) Img_Runtime)"
    and ref: "runtime_ref pkg bv sha r = Inr (ref, g)"
    and fresh: "gm_get (tree d) (completionMarkerForDigest dataDir g) = None"
    and run: "Stage pkg bv sha env r dataDir d = (res, d')"
    and t: "t \<in> set (drop (length (hist d)) (hist d')) \<or> t = tree d'"
    and marked: "gm_get t (completionMarkerForDigest dataDir g) \<noteq> None"
  shows "extracted env dataDir g t"
proof -
  obtain r1 d1 where u: "unpack pkg bv env r dataDir g ref d = (r1, d1)"
    by (cases "unpack pkg bv env r dataDir g ref d")
  note steps = unpack_steps(3) [OF paths env plain dest u fresh]
  have "all_seen (marked_ok env dataDir g) d d' \<and> marked_ok env dataDir g (tree d')"
    using run ref u steps switch_marked [OF paths, where env = env and d = d1] all_seen_trans
    by (cases r1) (auto simp: Stage_def)
  with t marked show ?thesis
    using all_seenD by blast
qed

text \<open>
  C8: after a successful staging the release is found complete at the next start, whatever the registry
  and the image tarballs then give, and the link to the current binaries leads to it, provided the
  environment lets the link be replaced and the data directory is there.
\<close>

theorem staged_for_next_start:
  assumes paths: "release_paths dataDir ds g" and env: "extracts_ok env" and plain: "plain_release dataDir g (tree d)"
    and dest: "not_link (tree d) (pull_dest (imagesDir dataDir) Img_Runtime)"
    and ref: "runtime_ref pkg bv sha r = Inr (ref, g)" and stat: "stat_works dataDir g d"
    and run: "Stage pkg bv sha env r dataDir d = (Inr (), d')"
  shows "staged d' dataDir g \<and> (\<forall>env'. fst (Stage pkg bv sha env' r dataDir d') = Inr ()) \<and>
    ((\<exists>i. gm_get (tree d) dataDir = Some i \<and> kind i = Directory) \<and> faults d OpRemove (symlinkBinDir dataDir) = None \<and>
       faults d OpSymlink (symlinkBinDir dataDir) = None \<longrightarrow>
     gm_get (tree d') (symlinkBinDir dataDir) = Some (new_inode (Symlink (binDirForDigest dataDir g)) 511))"
proof -
  obtain d1 where u: "unpack pkg bv env r dataDir g ref d = (Inr (), d1)" and d': "d' = switch_release dataDir g d1"
    using run ref by (auto simp: Stage_def split: sum.splits prod.splits)
  note steps = unpack_steps(1,2) [OF paths env plain dest u]
  have "faults d' = faults d"
    using steps(1) touches_faults [OF switch_touches] by (simp add: d')
  then have "staged d' dataDir g"
    using installed_staged [of dataDir g d'] switch_installed [OF paths steps(2)] stat by (simp add: d' stat_works_def)
  moreover have "fst (Stage pkg bv sha env' r dataDir d') = Inr ()" for env'
    using calculation by (simp add: Stage_def ref unpack_def)
  ultimately show ?thesis
    using unpack_keeps_dir [OF paths env plain dest u] switch_link [OF paths, of d1] steps(1) by (auto simp: d')
qed

section \<open>An instance\<close>

text \<open>An extraction that makes the directories given to it, and the other services absent.\<close>

definition mkdir_all :: "string list \<Rightarrow> disk \<Rightarrow> unit result \<times> disk" where
  "mkdir_all ts d = (if list_all (\<lambda>t. gm_get (tree d) t = None) ts
     then (Inr (), fold (\<lambda>t d. commit (gm_put t (new_inode Directory 493) (tree d)) d) ts d)
     else (Inl ErrExist, d))"

definition sample_env :: "unit stage_env" where
  "sample_env =
     \<lparr>se_FindImage = (\<lambda>d dir ref. (Some (), None)), se_PrivateRegistry = '''', se_Registries = Inr (), se_Plugins = None,
      se_Image = (\<lambda>ref. Inr ()), se_ExtractDirs = (\<lambda>img ps. mkdir_all (map snd ps))\<rparr>"

lemma mkdirs_touches:
  assumes "list_all (\<lambda>t. t \<in> S) ts"
  shows "touches (\<lambda>q. q \<in> S) d (fold (\<lambda>t d. commit (gm_put t (new_inode Directory 493) (tree d)) d) ts d)"
  using assms
proof (induction ts arbitrary: d)
  case (Cons t ts)
  have "touches (\<lambda>q. q \<in> S) d (commit (gm_put t (new_inode Directory 493) (tree d)) d)"
    by (rule touches_commit) (use Cons.prems in simp)
  with Cons show ?case
    by (auto intro: touches_trans)
qed simp

lemma mkdirs_get:
  "t \<in> set ts \<or> gm_get (tree d) t = Some (new_inode Directory 493) \<Longrightarrow>
   gm_get (tree (fold (\<lambda>t d. commit (gm_put t (new_inode Directory 493) (tree d)) d) ts d)) t = Some (new_inode Directory 493)"
  by (induction ts arbitrary: d) auto

lemma sample_env_ok: "extracts_ok sample_env"
proof -
  have "touches (\<lambda>q. \<exists>t \<in> snd ` set ps. under t q \<or> under q t \<and> gm_get (tree d) q = None) d d' \<and>
      (r = Inr () \<longrightarrow> (\<forall>t \<in> snd ` set ps. not_link (tree d) t \<longrightarrow> (\<exists>i. gm_get (tree d') t = Some i \<and> kind i = Directory)))"
    if "mkdir_all (map snd ps) d = (r, d')" for ps :: "(string \<times> string) list" and d r d'
  proof (rule conjI)
    show "touches (\<lambda>q. \<exists>t \<in> snd ` set ps. under t q \<or> under q t \<and> gm_get (tree d) q = None) d d'"
      using that mkdirs_touches [of "snd ` set ps" "map snd ps" d]
      by (auto simp: mkdir_all_def list_all_iff split: if_splits elim!: touches_mono intro!: bexI)
    show "r = Inr () \<longrightarrow> (\<forall>t \<in> snd ` set ps. not_link (tree d) t \<longrightarrow> (\<exists>i. gm_get (tree d') t = Some i \<and> kind i = Directory))"
      using that mkdirs_get [of _ "map snd ps" d] by (fastforce simp: mkdir_all_def split: if_splits)
  qed
  then show ?thesis
    by (simp add: extracts_ok_def sample_env_def)
qed


definition sample_names :: name_pkg where
  "sample_names = simple_names\<lparr>ParseReference := (\<lambda>s. Inr (TagRef \<lparr>ref_registry = Registry ''r'', ref_repository = s, ref_identifier = ''v3''\<rparr>))\<rparr>"

definition sample_resolver :: resolver where
  "sample_resolver = the_resolver (NewResolver sample_names simple_build (simple_overrides '''' ''''))"

definition sample_data :: disk where
  "sample_data = empty_disk\<lparr>tree :=
     [(''/var'', new_inode Directory 493), (''/var/data'', new_inode Directory 493), (''/var/data/v3-c'', new_inode Directory 493)]\<rparr>"

lemma no_links_not_link: "no_links t \<Longrightarrow> not_link t p"
  using no_links_get by (simp add: not_link_def)

lemma sample_layout:
  "release_paths ''/var'' [''var''] ''v3-c''" "stat_works ''/var'' ''v3-c'' sample_data"
  "runtime_ref sample_names simple_build (\<lambda>s. ''c'') sample_resolver =
     Inr (TagRef \<lparr>ref_registry = Registry ''index.docker.io'', ref_repository = ''r/runtime'', ref_identifier = ''v3''\<rparr>, ''v3-c'')"
  by code_simp+

lemma sample_plain:
  "plain_release ''/var'' ''v3-c'' (tree sample_data)" "not_link (tree sample_data) (pull_dest (imagesDir ''/var'') Img_Runtime)"
proof -
  have "no_links (tree sample_data)"
    by code_simp
  then show "plain_release ''/var'' ''v3-c'' (tree sample_data)" "not_link (tree sample_data) (pull_dest (imagesDir ''/var'') Img_Runtime)"
    by (simp_all add: plain_release_def no_links_not_link)
qed

abbreviation sample_stage :: "unit result \<times> disk" where
  "sample_stage \<equiv> Stage sample_names simple_build (\<lambda>s. ''c'') sample_env sample_resolver ''/var'' sample_data"

lemma sample_run: "fst sample_stage = Inr ()"
  by code_simp

theorem marker_after_extraction_witness:
  "extracted sample_env ''/var'' ''v3-c'' (tree (snd sample_stage))"
proof -
  have fresh: "gm_get (tree sample_data) (completionMarkerForDigest ''/var'' ''v3-c'') = None"
    and marked: "gm_get (tree (snd sample_stage)) (completionMarkerForDigest ''/var'' ''v3-c'') \<noteq> None"
    by code_simp+
  show ?thesis
    by (rule marker_after_extraction [OF sample_layout(1) sample_env_ok sample_plain sample_layout(3) fresh
        prod.collapse [symmetric] disjI2 [OF refl] marked])
qed

theorem staged_for_next_start_witness:
  "staged (snd sample_stage) ''/var'' ''v3-c'' \<and>
   gm_get (tree (snd sample_stage)) ''/var/bin'' = Some (new_inode (Symlink ''/var/data/v3-c/bin'') 511)"
proof -
  have run: "sample_stage = (Inr (), snd sample_stage)"
    by (rule prod_eqI) (simp_all add: sample_run)
  have dir: "gm_get (tree sample_data) ''/var'' = Some (new_inode Directory 493)" "kind (new_inode Directory 493) = Directory"
    "faults sample_data OpRemove (symlinkBinDir ''/var'') = None" "faults sample_data OpSymlink (symlinkBinDir ''/var'') = None"
    by code_simp+
  have path: "symlinkBinDir ''/var'' = ''/var/bin''" "binDirForDigest ''/var'' ''v3-c'' = ''/var/data/v3-c/bin''"
    by code_simp+
  show ?thesis
    using staged_for_next_start [OF sample_layout(1) sample_env_ok sample_plain sample_layout(3,2) run] dir
    unfolding path by blast
qed

end
