(* ===== verification/Bootstrap_Charts.thy ===== *)
theory Bootstrap_Charts
  imports Bootstrap_Safety Pod_Types
begin

text \<open>
  The second half of \<^verbatim>\<open>pkg/bootstrap/bootstrap.go\<close>: copying the staged Helm charts into the manifest directory
  and writing settings of the cluster into every chart found there. Decoding and encoding manifests, reading
  and setting a nested field of an object, and copying directories are done by other packages and are
  arguments. The iteration orders of the maps of settings and of files are arguments as well.
\<close>

section \<open>Manifest objects\<close>

text \<open>
  What the sources use of other packages: \<open>ml_setting\<close> reads the string under \<^verbatim>\<open>spec.set\<close> with a key, which is
  empty when there is none, and fails on a value of another type; \<open>ml_set\<close> stores one there, in the
  object itself, and fails when \<^verbatim>\<open>spec\<close> or \<^verbatim>\<open>spec.set\<close> is not a map. The group, version and kind are absent
  for an object that is not unstructured.
\<close>

record 'o manifest_libs =
  ml_ToObjects :: "string \<Rightarrow> 'o list result"
  ml_Export :: "'o list \<Rightarrow> string result"
  ml_GVK :: "'o \<Rightarrow> (string \<times> string \<times> string) option"
  ml_Annotations :: "'o \<Rightarrow> (string, string) gomap"
  ml_setting :: "'o \<Rightarrow> string \<Rightarrow> string result"
  ml_set :: "string \<Rightarrow> string \<Rightarrow> 'o \<Rightarrow> unit result \<times> 'o"
  ml_NewErrors :: "err list \<Rightarrow> err"
  ml_helmVersion :: "string \<times> string"
  ml_Program :: string
  ml_ProgramUpper :: string
  ml_Getenv :: "string \<Rightarrow> string"

definition helmChartGVK :: "'o manifest_libs \<Rightarrow> string \<times> string \<times> string" where
  "helmChartGVK lib = (fst (ml_helmVersion lib), snd (ml_helmVersion lib), ''HelmChart'')"

definition injectAnnotationKey :: "'o manifest_libs \<Rightarrow> string" where
  "injectAnnotationKey lib = ml_Program lib @ ''.cattle.io/inject-cluster-config''"

definition injectEnvKey :: "'o manifest_libs \<Rightarrow> string" where
  "injectEnvKey lib = ml_ProgramUpper lib @ ''_INJECT_CLUSTER_CONFIG''"

definition injectDefault :: bool where
  "injectDefault = False"

definition getInjectDefault :: "'o manifest_libs \<Rightarrow> bool" where
  "getInjectDefault lib =
     (case strconv_ParseBool (ml_Getenv lib (injectEnvKey lib)) of Inr b \<Rightarrow> b | Inl _ \<Rightarrow> injectDefault)"

definition isInjectEnabled :: "'o manifest_libs \<Rightarrow> 'o \<Rightarrow> bool" where
  "isInjectEnabled lib obj =
     (case gm_get (ml_Annotations lib obj) (injectAnnotationKey lib) of
        Some v \<Rightarrow> (case strconv_ParseBool v of Inr b \<Rightarrow> b | Inl _ \<Rightarrow> getInjectDefault lib)
      | None \<Rightarrow> getInjectDefault lib)"

section \<open>Settings of a chart\<close>

text \<open>
  The loop over the settings for one object: whether the object counts as changed, and the object. An error
  leaves the loop with the settings stored so far in the object, which then does not count as changed.
\<close>

fun set_values :: "'o manifest_libs \<Rightarrow> (string \<times> string) list \<Rightarrow> bool \<Rightarrow> 'o \<Rightarrow> bool \<times> 'o" where
  "set_values lib [] contentChanged obj = (contentChanged, obj)"
| "set_values lib ((k, v) # kvs) contentChanged obj =
     (case ml_setting lib obj k of
        Inl _ \<Rightarrow> (False, obj)
      | Inr cv \<Rightarrow>
          if cv \<noteq> v then
            (case ml_set lib k v obj of
               (Inl _, obj') \<Rightarrow> (False, obj')
             | (Inr _, obj') \<Rightarrow> set_values lib kvs True obj')
          else set_values lib kvs contentChanged obj)"

definition rewrite_object :: "'o manifest_libs \<Rightarrow> (string \<times> string) list \<Rightarrow> 'o \<Rightarrow> bool \<times> 'o" where
  "rewrite_object lib kvs obj =
     (if ml_GVK lib obj \<noteq> Some (helmChartGVK lib) then (False, obj)
      else if \<not> isInjectEnabled lib obj then (False, obj)
      else set_values lib kvs False obj)"

text \<open>The loop over the objects of a file; \<open>ord n\<close> is the order in which the \<open>n\<close>-th object gets the settings.\<close>

fun rewrite_objects :: "'o manifest_libs \<Rightarrow> (nat \<Rightarrow> (string \<times> string) list) \<Rightarrow> nat \<Rightarrow> 'o list \<Rightarrow> bool \<times> 'o list" where
  "rewrite_objects lib ord n [] = (False, [])"
| "rewrite_objects lib ord n (obj # objs) =
     (case rewrite_object lib (ord n) obj of (c, obj') \<Rightarrow>
      case rewrite_objects lib ord (Suc n) objs of (cs, objs') \<Rightarrow> (c \<or> cs, obj' # objs'))"

section \<open>Files\<close>

text \<open>Opening an existing file for reading and writing gives the file that links lead to.\<close>

definition os_OpenRW :: "string \<Rightarrow> disk \<Rightarrow> (string \<times> inode) result" where
  "os_OpenRW p d =
     (case faults d OpOpen p of Some e \<Rightarrow> Inl e
      | None \<Rightarrow> try_then (follow 40 (tree d) p)
          (\<lambda>q. case gm_get (tree d) q of
             None \<Rightarrow> Inl ErrNotExist
           | Some i \<Rightarrow> if kind i = Directory then Inl (Errorf ''is a directory'') else Inr (q, i)))"

definition file_ReadAll :: "string \<Rightarrow> inode \<Rightarrow> disk \<Rightarrow> string result" where
  "file_ReadAll p i d =
     (case faults d OpReadFile p of Some e \<Rightarrow> Inl e
      | None \<Rightarrow> (case kind i of Regular c \<Rightarrow> Inr c | _ \<Rightarrow> Inl (Errorf ''is not a regular file'')))"

text \<open>Back to the start, truncate, write and flush: the last part of \<^verbatim>\<open>rewriteChart\<close>.\<close>

definition overwrite :: "string \<Rightarrow> string \<Rightarrow> inode \<Rightarrow> string \<Rightarrow> disk \<Rightarrow> unit result \<times> disk" where
  "overwrite p q i data d =
     (case faults d OpSeek p of Some e \<Rightarrow> (Inl (WithMessage (''failed to seek in manifest '' @ p) e), d)
      | None \<Rightarrow>
     (case faults d OpTruncate p of Some e \<Rightarrow> (Inl (WithMessage (''failed to truncate manifest '' @ p) e), d)
      | None \<Rightarrow>
     (case faults d OpWrite p of
        Some e \<Rightarrow> (Inl (WithMessage (''failed to write modified manifest '' @ p) e),
                   commit (gm_put q (i\<lparr>kind := Regular ''''\<rparr>) (tree d)) d)
      | None \<Rightarrow>
          (let d' = commits (write_steps (tree d) q i data) d in
           case faults d OpSync p of Some e \<Rightarrow> (Inl (WithMessage (''failed to sync modified manifest '' @ p) e), d')
           | None \<Rightarrow> (Inr (), d')))))"

definition rewriteChart ::
  "'o manifest_libs \<Rightarrow> (nat \<Rightarrow> (string \<times> string) list) \<Rightarrow> string \<Rightarrow> disk \<Rightarrow> unit result \<times> disk" where
  "rewriteChart lib ord fileName d =
     (case os_OpenRW fileName d of
        Inl e \<Rightarrow> (Inl (WithMessage (''failed to open manifest '' @ fileName) e), d)
      | Inr (q, i) \<Rightarrow>
         (case try_then (file_ReadAll fileName i d) (ml_ToObjects lib) of
            Inl e \<Rightarrow> (Inr (), d)
          | Inr objs \<Rightarrow>
             (case rewrite_objects lib ord 0 objs of (changed, objs') \<Rightarrow>
                if \<not> changed then (Inr (), d)
                else (case ml_Export lib objs' of
                   Inl e \<Rightarrow> (Inl (WithMessage (''failed to export modified manifest '' @ fileName) e), d)
                 | Inr data \<Rightarrow> overwrite fileName q i data d))))"

text \<open>Settings of the node, with lists of addresses already joined.\<close>

record node_values =
  nv_clusterCIDR :: string
  nv_clusterCIDRv4 :: string
  nv_clusterCIDRv6 :: string
  nv_clusterDNS :: string
  nv_ClusterDomain :: string
  nv_DataDir :: string
  nv_serviceCIDR :: string
  nv_SystemDefaultRegistry :: string

definition chartValues :: "string \<Rightarrow> node_values \<Rightarrow> bool \<Rightarrow> (string, string) gomap" where
  "chartValues ingressController nv prime =
     [(''global.clusterCIDR'', nv_clusterCIDR nv),
      (''global.clusterCIDRv4'', nv_clusterCIDRv4 nv),
      (''global.clusterCIDRv6'', nv_clusterCIDRv6 nv),
      (''global.clusterDNS'', nv_clusterDNS nv),
      (''global.clusterDomain'', nv_ClusterDomain nv),
      (''global.rke2DataDir'', nv_DataDir nv),
      (''global.serviceCIDR'', nv_serviceCIDR nv),
      (''global.systemDefaultIngressClass'', ingressController),
      (''global.prime.enabled'', if prime then ''true'' else ''false''),
      (''global.systemDefaultRegistry'', nv_SystemDefaultRegistry nv),
      (''global.cattle.systemDefaultRegistry'', nv_SystemDefaultRegistry nv)]"

text \<open>
  \<^verbatim>\<open>filepath.Walk\<close> over a directory ends with the first error of reading an entry or a directory; otherwise
  the files with the suffixes of manifests are collected. Links are not followed.
\<close>

definition walk_error :: "disk \<Rightarrow> string \<Rightarrow> err option" where
  "walk_error d q =
     (case faults d OpStat q of Some e \<Rightarrow> Some e
      | None \<Rightarrow> (case gm_get (tree d) q of
           Some i \<Rightarrow> if kind i = Directory then faults d OpReadDir q else None
         | None \<Rightarrow> None))"

definition is_manifest :: "disk \<Rightarrow> string \<Rightarrow> bool" where
  "is_manifest d q \<longleftrightarrow> (case gm_get (tree d) q of Some i \<Rightarrow> kind i \<noteq> Directory | None \<Rightarrow> False) \<and>
     (str_HasSuffix q ''.yml'' \<or> str_HasSuffix q ''.yaml'')"

definition walk_manifests :: "disk \<Rightarrow> string \<Rightarrow> string list result" where
  "walk_manifests d dir =
     (case gm_get (tree d) dir of
        None \<Rightarrow> Inl (case faults d OpStat dir of Some e \<Rightarrow> e | None \<Rightarrow> ErrNotExist)
      | Some _ \<Rightarrow>
         (let paths = sort_Strings (remdups (filter (under dir) (gm_keys (tree d)))) in
          case List.map_filter (walk_error d) paths of
            e # _ \<Rightarrow> Inl e
          | [] \<Rightarrow> Inr (filter (is_manifest d) paths)))"

text \<open>The loop over the files goes on after an error and collects the errors.\<close>

fun rewrite_files ::
  "'o manifest_libs \<Rightarrow> (string \<Rightarrow> nat \<Rightarrow> (string \<times> string) list) \<Rightarrow> string list \<Rightarrow> disk \<Rightarrow> err list \<times> disk" where
  "rewrite_files lib ord [] d = ([], d)"
| "rewrite_files lib ord (f # fs) d =
     (case rewriteChart lib (ord f) f d of (r, d1) \<Rightarrow>
      case rewrite_files lib ord fs d1 of (es, d2) \<Rightarrow>
        (case r of Inl e \<Rightarrow> (e # es, d2) | Inr _ \<Rightarrow> (es, d2)))"

text \<open>\<open>files\<close> is the order in which the map of files is traversed, \<open>ord\<close> those of the map of settings.\<close>

record map_orders =
  mo_files :: "string list \<Rightarrow> string list"
  mo_values :: "(string, string) gomap \<Rightarrow> string \<Rightarrow> nat \<Rightarrow> (string \<times> string) list"

definition setChartValues ::
  "'o manifest_libs \<Rightarrow> map_orders \<Rightarrow> string \<Rightarrow> string \<Rightarrow> node_values \<Rightarrow> bool \<Rightarrow> disk \<Rightarrow> unit result \<times> disk" where
  "setChartValues lib mo dir ingressController nv prime d =
     (case walk_manifests d dir of
        Inl e \<Rightarrow> (Inl e, d)
      | Inr files \<Rightarrow>
         (case rewrite_files lib (mo_values mo (chartValues ingressController nv prime)) (mo_files mo files) d of
            ([], d') \<Rightarrow> (Inr (), d')
          | (errs, d') \<Rightarrow> (Inl (ml_NewErrors lib errs), d')))"

section \<open>The ingress controller\<close>

datatype intstr = IntVal int | StrVal string

record HelmChart =
  hc_Name :: string
  hc_Set :: "(string, intstr) gomap"

fun ingress_class :: "HelmChart list \<Rightarrow> string" where
  "ingress_class [] = IngressItems ! 0"
| "ingress_class (h # hs) =
     (if hc_Name h = ''rke2-ingress-nginx'' \<or> hc_Name h = ''rke2-traefik'' then
        (case gm_get (hc_Set h) ''global.systemDefaultIngressClass'' of
           Some (StrVal v) \<Rightarrow> v
         | _ \<Rightarrow> ingress_class hs)
      else ingress_class hs)"

text \<open>\<open>charts\<close> is the answer of the API server to the request for all charts.\<close>

definition getDefaultIngressClassFromCharts :: "HelmChart list result \<Rightarrow> string result" where
  "getDefaultIngressClassFromCharts charts = try_then charts (\<lambda>hl. Inr (ingress_class hl))"

text \<open>Truncating an existing file and writing a text, with errors ignored.\<close>

definition truncate_with :: "string \<Rightarrow> string \<Rightarrow> disk \<Rightarrow> disk" where
  "truncate_with p s d =
     (case os_OpenRW p d of
        Inl _ \<Rightarrow> d
      | Inr (q, i) \<Rightarrow>
         (case kind i of
            Regular _ \<Rightarrow>
              (case faults d OpWrite p of
                 Some _ \<Rightarrow> commit (gm_put q (i\<lparr>kind := Regular ''''\<rparr>) (tree d)) d
               | None \<Rightarrow> commits (write_steps (tree d) q i s) d)
          | _ \<Rightarrow> d))"

definition disabled_text :: string where
  "disabled_text = ''# disabled by configuration\<newline>''"

definition ingress_files :: "string \<Rightarrow> string list" where
  "ingress_files name = [''rke2-'' @ name @ ''.yaml'', ''rke2-'' @ name @ ''-crd.yaml'']"

definition disable_ingress :: "string \<Rightarrow> string list \<Rightarrow> disk \<Rightarrow> disk" where
  "disable_ingress dir controllers d =
     fold (\<lambda>name d. if name \<in> set controllers then d
       else fold (\<lambda>f. truncate_with (filepath_Join [dir, f]) disabled_text) (ingress_files name) d) IngressItems d"

section \<open>Updating the manifests\<close>

definition choose_ingress :: "HelmChart list result \<Rightarrow> string list \<Rightarrow> string list result" where
  "choose_ingress charts ingressController =
     (if ingressController = [] then
        (case getDefaultIngressClassFromCharts charts of
           Inl e \<Rightarrow> Inl (WithMessage ''failed to determine default ingress-controller from deployed charts'' e)
         | Inr defaultIngress \<Rightarrow> Inr [defaultIngress])
      else Inr ingressController)"

text \<open>From the copy of the bundled charts on; the temporary directory is removed however the function ends.\<close>

definition install_charts ::
  "'o manifest_libs \<Rightarrow> map_orders \<Rightarrow> (string \<Rightarrow> string \<Rightarrow> disk \<Rightarrow> unit result \<times> disk) \<Rightarrow> string \<Rightarrow> string \<Rightarrow> string \<Rightarrow>
   string list \<Rightarrow> node_values \<Rightarrow> bool \<Rightarrow> disk \<Rightarrow> unit result \<times> disk" where
  "install_charts lib mo copyDir refChartsDir tempChartsDir dir ingressController nv prime d =
     (case copyDir tempChartsDir refChartsDir d of
        (Inl e, d) \<Rightarrow> (Inl (WithMessage ''failed to copy temporary charts'' e), d)
      | (Inr _, d) \<Rightarrow>
         (let cleanup = (\<lambda>(r, d). (r, snd (os_RemoveAll tempChartsDir d))) in
          cleanup
           (case setChartValues lib mo tempChartsDir (ingressController ! 0) nv prime
                   (disable_ingress tempChartsDir ingressController d) of
              (Inl e, d) \<Rightarrow> (Inl (WithMessage ''failed to rewrite bundled HelmChart manifests to pass through CLI values'' e), d)
            | (Inr _, d) \<Rightarrow>
               (case copyDir dir tempChartsDir d of
                  (Inl e, d) \<Rightarrow> (Inl (WithMessage ''failed to copy runtime charts'' e), d)
                | (Inr _, d) \<Rightarrow>
                    (Inr (), snd (setChartValues lib mo dir (ingressController ! 0) nv prime d))))))"

definition updateManifests ::
  "name_pkg \<Rightarrow> build_vars \<Rightarrow> (string \<Rightarrow> string) \<Rightarrow> 'o manifest_libs \<Rightarrow> map_orders \<Rightarrow>
   (string \<Rightarrow> string \<Rightarrow> disk \<Rightarrow> unit result \<times> disk) \<Rightarrow> HelmChart list result \<Rightarrow> resolver \<Rightarrow> string list \<Rightarrow> node_values \<Rightarrow> bool \<Rightarrow>
   disk \<Rightarrow> unit result \<times> disk" where
  "updateManifests pkg bv sha lib mo copyDir charts r ingressController nv prime d =
     (case runtime_ref pkg bv sha r of
        Inl e \<Rightarrow> (Inl e, d)
      | Inr (ref, refDigest) \<Rightarrow>
         (let refChartsDir = chartsDirForDigest (nv_DataDir nv) refDigest;
              dir = manifestsDir (nv_DataDir nv);
              d = snd (os_MkdirAll dir 448 d) in
          case choose_ingress charts ingressController of
            Inl e \<Rightarrow> (Inl e, d)
          | Inr ingressController \<Rightarrow>
              install_charts lib mo copyDir refChartsDir (refChartsDir @ ''.tmp'') dir ingressController nv prime
                (snd (os_RemoveAll (refChartsDir @ ''.tmp'') d))))"

text \<open>The process is asked to shut down when the update fails.\<close>

definition UpdateManifests ::
  "name_pkg \<Rightarrow> build_vars \<Rightarrow> (string \<Rightarrow> string) \<Rightarrow> 'o manifest_libs \<Rightarrow> map_orders \<Rightarrow>
   (string \<Rightarrow> string \<Rightarrow> disk \<Rightarrow> unit result \<times> disk) \<Rightarrow> HelmChart list result \<Rightarrow> resolver \<Rightarrow> string list \<Rightarrow> node_values \<Rightarrow> bool \<Rightarrow>
   disk \<Rightarrow> err option \<times> disk" where
  "UpdateManifests pkg bv sha lib mo copyDir charts r ingressController nv prime d =
     (case updateManifests pkg bv sha lib mo copyDir charts r ingressController nv prime d of
        (Inl e, d) \<Rightarrow> (Some (WithMessage ''failed to update manifests'' e), d)
      | (Inr _, d) \<Rightarrow> (None, d))"

section \<open>Laws of the libraries\<close>

text \<open>
  What is assumed of the nested fields of an object: a stored setting is read back, the other settings, the
  kind and the annotations stay, and further settings can be stored; storing fails for every setting or for
  none, and a failure leaves the object as it is.
\<close>

definition settable :: "'o manifest_libs \<Rightarrow> 'o \<Rightarrow> bool" where
  "settable lib obj \<longleftrightarrow> (\<forall>k v. \<exists>obj'. ml_set lib k v obj = (Inr (), obj'))"

definition setting_laws :: "'o manifest_libs \<Rightarrow> bool" where
  "setting_laws lib \<longleftrightarrow>
     (\<forall>k v obj obj'. ml_set lib k v obj = (Inr (), obj') \<longrightarrow>
        (\<forall>k'. ml_setting lib obj' k' = (if k' = k then Inr v else ml_setting lib obj k')) \<and>
        ml_GVK lib obj' = ml_GVK lib obj \<and> ml_Annotations lib obj' = ml_Annotations lib obj \<and>
        settable lib obj \<and> settable lib obj') \<and>
     (\<forall>k v obj e obj'. ml_set lib k v obj = (Inl e, obj') \<longrightarrow> obj' = obj \<and> \<not> settable lib obj)"

text \<open>A text made of objects decodes to these objects.\<close>

definition export_law :: "'o manifest_libs \<Rightarrow> bool" where
  "export_law lib \<longleftrightarrow> (\<forall>objs data. ml_Export lib objs = Inr data \<longrightarrow> ml_ToObjects lib data = Inr objs)"

text \<open>When an object counts as changed: all settings can be read, some differs, and settings can be stored.\<close>

definition needs_values :: "'o manifest_libs \<Rightarrow> (string \<times> string) set \<Rightarrow> 'o \<Rightarrow> bool" where
  "needs_values lib vs obj \<longleftrightarrow> (\<forall>(k, v) \<in> vs. \<not> isl (ml_setting lib obj k)) \<and>
     (\<exists>(k, v) \<in> vs. ml_setting lib obj k \<noteq> Inr v) \<and> settable lib obj"

definition has_values :: "'o manifest_libs \<Rightarrow> (string \<times> string) set \<Rightarrow> 'o \<Rightarrow> bool" where
  "has_values lib vs obj \<longleftrightarrow> (\<forall>(k, v) \<in> vs. ml_setting lib obj k = Inr v)"

lemma set_laws:
  assumes "setting_laws lib" and "ml_set lib k v obj = (Inr (), obj')"
  shows "ml_setting lib obj' k' = (if k' = k then Inr v else ml_setting lib obj k')"
    and "ml_GVK lib obj' = ml_GVK lib obj" and "ml_Annotations lib obj' = ml_Annotations lib obj"
    and "settable lib obj" and "settable lib obj'"
  using assms by (auto simp: setting_laws_def)

lemma set_fails: "setting_laws lib \<Longrightarrow> ml_set lib k v obj = (Inl e, obj') \<Longrightarrow> obj' = obj \<and> \<not> settable lib obj"
  by (simp add: setting_laws_def)

text \<open>
  One pass over the settings: which objects count as changed does not depend on the order, and neither does
  what such an object then holds.
\<close>

lemma set_values_spec:
  assumes "setting_laws lib" and "distinct (map fst kvs)" and "set_values lib kvs ch obj = (c, obj')"
    and "ch \<longrightarrow> settable lib obj"
  shows "(c \<longleftrightarrow> (\<forall>(k, v) \<in> set kvs. \<not> isl (ml_setting lib obj k)) \<and> (ch \<or> needs_values lib (set kvs) obj)) \<and>
    (c \<longrightarrow> has_values lib (set kvs) obj') \<and> (\<not> c \<longrightarrow> \<not> needs_values lib (set kvs) obj') \<and>
    (\<forall>k. k \<notin> fst ` set kvs \<longrightarrow> ml_setting lib obj' k = ml_setting lib obj k) \<and>
    ml_GVK lib obj' = ml_GVK lib obj \<and> ml_Annotations lib obj' = ml_Annotations lib obj"
  using assms(2-)
proof (induction kvs arbitrary: ch obj)
  case Nil
  then show ?case
    by (auto simp: needs_values_def has_values_def)
next
  case (Cons kv kvs)
  obtain k v where kv: "kv = (k, v)"
    by (cases kv)
  have fresh: "k \<notin> fst ` set kvs"
    using Cons.prems(1) by (simp add: kv)
  consider (unreadable) e where "ml_setting lib obj k = Inl e" "c = False" "obj' = obj"
    | (same) "ml_setting lib obj k = Inr v" "set_values lib kvs ch obj = (c, obj')"
    | (failed) cv e where "ml_setting lib obj k = Inr cv" "cv \<noteq> v" "ml_set lib k v obj = (Inl e, obj')" "c = False"
    | (stored) cv o1 where "ml_setting lib obj k = Inr cv" "cv \<noteq> v" "ml_set lib k v obj = (Inr (), o1)"
        "set_values lib kvs True o1 = (c, obj')"
    using Cons.prems(2) by (auto simp: kv split: sum.splits prod.splits if_splits)
  then show ?case
  proof cases
    case unreadable
    then show ?thesis
      by (auto simp: kv needs_values_def)
  next
    case same
    from Cons.IH [OF _ same(2)] Cons.prems show ?thesis
      using same(1) fresh by (auto simp: kv needs_values_def has_values_def)
  next
    case failed
    with set_fails [OF assms(1) failed(3)] Cons.prems(3) show ?thesis
      by (auto simp: kv needs_values_def)
  next
    case stored
    note laws = set_laws [OF assms(1) stored(3)]
    have "ml_setting lib o1 k' = ml_setting lib obj k'" if "k' \<in> fst ` set kvs" for k'
      using laws(1) fresh that by auto
    then have same: "(\<forall>(k, v) \<in> set kvs. \<not> isl (ml_setting lib o1 k)) \<longleftrightarrow> (\<forall>(k, v) \<in> set kvs. \<not> isl (ml_setting lib obj k))"
      by (auto simp: image_iff split: prod.splits) force+
    from Cons.IH [OF _ stored(4)] Cons.prems laws show ?thesis
      using stored(1,2) fresh same by (auto simp: kv needs_values_def has_values_def)
  qed
qed

section \<open>Rewriting a manifest\<close>

definition injected :: "'o manifest_libs \<Rightarrow> 'o \<Rightarrow> bool" where
  "injected lib obj \<longleftrightarrow> ml_GVK lib obj = Some (helmChartGVK lib) \<and> isInjectEnabled lib obj"

text \<open>An order of the settings lists each of them once.\<close>

definition lists_values :: "(string \<times> string) set \<Rightarrow> (nat \<Rightarrow> (string \<times> string) list) \<Rightarrow> bool" where
  "lists_values vs ord \<longleftrightarrow> (\<forall>n. set (ord n) = vs \<and> distinct (map fst (ord n)))"

definition rewritten :: "'o manifest_libs \<Rightarrow> (string \<times> string) set \<Rightarrow> 'o \<Rightarrow> 'o \<Rightarrow> bool" where
  "rewritten lib vs obj obj' \<longleftrightarrow>
     (injected lib obj \<and> needs_values lib vs obj \<longrightarrow> has_values lib vs obj') \<and> (\<not> injected lib obj \<longrightarrow> obj' = obj) \<and>
     (\<forall>k. k \<notin> fst ` vs \<longrightarrow> ml_setting lib obj' k = ml_setting lib obj k)"

lemma has_not_needs: "has_values lib vs obj \<Longrightarrow> \<not> needs_values lib vs obj"
  by (auto simp: has_values_def needs_values_def)

lemma rewrite_object_spec:
  assumes "setting_laws lib" and "set kvs = vs" "distinct (map fst kvs)" and "rewrite_object lib kvs obj = (c, obj')"
  shows "c \<longleftrightarrow> injected lib obj \<and> needs_values lib vs obj"
    and "rewritten lib vs obj obj'"
    and "\<not> (injected lib obj' \<and> needs_values lib vs obj')"
proof -
  have "(c \<longleftrightarrow> injected lib obj \<and> needs_values lib vs obj) \<and> rewritten lib vs obj obj' \<and> \<not> (injected lib obj' \<and> needs_values lib vs obj')"
  proof (cases "injected lib obj")
    case True
    then have run: "set_values lib kvs False obj = (c, obj')"
      using assms(4) by (simp add: rewrite_object_def injected_def)
    note spec = set_values_spec [OF assms(1,3) run, unfolded assms(2)]
    have "c \<longleftrightarrow> needs_values lib vs obj"
      using spec by (auto simp: needs_values_def)
    then show ?thesis
      using True spec has_not_needs [of lib vs obj'] unfolding rewritten_def by blast
  next
    case False
    then show ?thesis
      using assms(4) by (auto simp: rewrite_object_def injected_def rewritten_def split: if_splits)
  qed
  then show "c \<longleftrightarrow> injected lib obj \<and> needs_values lib vs obj" "rewritten lib vs obj obj'"
      "\<not> (injected lib obj' \<and> needs_values lib vs obj')"
    by blast+
qed

lemma rewrite_objects_spec:
  assumes "setting_laws lib" and "lists_values vs ord" and "rewrite_objects lib ord n objs = (c, objs')"
  shows "c \<longleftrightarrow> (\<exists>obj \<in> set objs. injected lib obj \<and> needs_values lib vs obj)"
    and "list_all2 (rewritten lib vs) objs objs'"
    and "\<forall>obj \<in> set objs'. \<not> (injected lib obj \<and> needs_values lib vs obj)"
proof -
  have "(c \<longleftrightarrow> (\<exists>obj \<in> set objs. injected lib obj \<and> needs_values lib vs obj)) \<and> list_all2 (rewritten lib vs) objs objs' \<and>
      (\<forall>obj \<in> set objs'. \<not> (injected lib obj \<and> needs_values lib vs obj))"
    using assms(3)
  proof (induction objs arbitrary: n c objs')
    case (Cons obj objs)
    obtain c1 o1 cs os where one: "rewrite_object lib (ord n) obj = (c1, o1)" and rest: "rewrite_objects lib ord (Suc n) objs = (cs, os)"
      by (meson surj_pair)
    have "set (ord n) = vs" "distinct (map fst (ord n))"
      using assms(2) by (simp_all add: lists_values_def)
    note spec = rewrite_object_spec [OF assms(1) this one]
    show ?case
      using Cons.prems Cons.IH [OF rest] spec by (auto simp: one rest)
  qed auto
  then show "c \<longleftrightarrow> (\<exists>obj \<in> set objs. injected lib obj \<and> needs_values lib vs obj)"
    "list_all2 (rewritten lib vs) objs objs'" "\<forall>obj \<in> set objs'. \<not> (injected lib obj \<and> needs_values lib vs obj)"
    by blast+
qed

lemma follow_put:
  "follow n t p = Inr q \<Longrightarrow> (\<And>r. kind i \<noteq> Symlink r) \<Longrightarrow> follow n (gm_put q i t) p = Inr q"
proof (induction n arbitrary: p)
  case (Suc n)
  then show ?case
    by (auto split: option.splits kind.splits)
qed simp

text \<open>The objects of a manifest.\<close>

definition chart_objects :: "'o manifest_libs \<Rightarrow> string \<Rightarrow> disk \<Rightarrow> 'o list result" where
  "chart_objects lib f d =
     try_then (os_OpenRW f d) (\<lambda>(q, i). try_then (file_ReadAll f i d) (ml_ToObjects lib))"

lemma OpenRW_put:
  assumes "os_OpenRW p d = Inr (q, i)" and "faults d' = faults d" and "tree d' = gm_put q j (tree d)" and "kind j = Regular c"
  shows "os_OpenRW p d' = Inr (q, j)"
proof -
  have "follow 40 (tree d) p = Inr q" "faults d OpOpen p = None"
    using assms(1) by (auto simp: os_OpenRW_def split: option.splits if_splits)
  then show ?thesis
    using follow_put [of 40 "tree d" p q j] assms(2-4) by (simp add: os_OpenRW_def)
qed

lemma overwrite_ok:
  assumes "overwrite p q i data d = (Inr (), d')"
  shows "faults d' = faults d" and "tree d' = gm_put q (i\<lparr>kind := Regular data\<rparr>) (tree d)"
  using assms by (auto simp: overwrite_def Let_def split: option.splits)

text \<open>Nothing to store in any object: the file is left alone.\<close>

lemma rewriteChart_idle:
  assumes "setting_laws lib" and "lists_values vs ord" and "os_OpenRW f d = Inr (q, i)"
    and "\<And>objs. chart_objects lib f d = Inr objs \<Longrightarrow> \<forall>obj \<in> set objs. \<not> (injected lib obj \<and> needs_values lib vs obj)"
  shows "rewriteChart lib ord f d = (Inr (), d)"
proof (cases "chart_objects lib f d")
  case (Inl e)
  then show ?thesis
    using assms(3) by (simp add: rewriteChart_def chart_objects_def)
next
  case (Inr objs)
  obtain c objs' where c: "rewrite_objects lib ord 0 objs = (c, objs')"
    by (meson surj_pair)
  then have "\<not> c"
    using rewrite_objects_spec(1) [OF assms(1,2) c] assms(4) [OF Inr] by blast
  then show ?thesis
    using Inr assms(3) c by (simp add: rewriteChart_def chart_objects_def)
qed


section \<open>Disabled ingress controllers\<close>

text \<open>The file at a path holds a text.\<close>

definition holds :: "disk \<Rightarrow> string \<Rightarrow> string \<Rightarrow> bool" where
  "holds d p c \<longleftrightarrow> (\<exists>i. gm_get (tree d) p = Some i \<and> kind i = Regular c)"

definition plain_under :: "tree \<Rightarrow> string \<Rightarrow> bool" where
  "plain_under t dir \<longleftrightarrow> (\<forall>q. under dir q \<longrightarrow> not_link t q)"

text \<open>
  What is assumed of the copy of a directory: it changes only the target and makes missing directories on the
  way to it, and a successful copy to a directory without links has each file of the source.
\<close>

definition copy_law :: "(string \<Rightarrow> string \<Rightarrow> disk \<Rightarrow> unit result \<times> disk) \<Rightarrow> bool" where
  "copy_law copyDir \<longleftrightarrow> (\<forall>tgt src d r d'. copyDir tgt src d = (r, d') \<longrightarrow>
     touches (\<lambda>q. under tgt q \<or> under q tgt \<and> gm_get (tree d) q = None) d d' \<and>
     (r = Inr () \<and> plain_under (tree d) tgt \<longrightarrow>
        (\<forall>n c. n \<noteq> '''' \<and> slash \<notin> set n \<longrightarrow> holds d (src @ ''/'' @ n) c \<longrightarrow> holds d' (tgt @ ''/'' @ n) c)))"

text \<open>Steps that change files only by giving existing files another text.\<close>

definition retexts :: "disk \<Rightarrow> disk \<Rightarrow> bool" where
  "retexts d d' \<longleftrightarrow> faults d' = faults d \<and> (\<forall>p. not_link (tree d) p \<longrightarrow> not_link (tree d') p) \<and>
     (\<forall>p c. holds d p c \<longrightarrow> (\<exists>c'. holds d' p c')) \<and> (\<forall>p. gm_get (tree d) p \<noteq> None \<longrightarrow> gm_get (tree d') p \<noteq> None)"

lemma retexts_refl [simp]: "retexts d d"
  by (auto simp: retexts_def)

lemma retexts_trans: "retexts d d' \<Longrightarrow> retexts d' d'' \<Longrightarrow> retexts d d''"
  unfolding retexts_def by metis

lemma retexts_put:
  assumes "gm_get (tree d) q = Some i" and "tree d' = gm_put q (i\<lparr>kind := Regular c\<rparr>) (tree d)" and "faults d' = faults d"
  shows "retexts d d'"
  using assms by (auto simp: retexts_def holds_def not_link_def)

lemma OpenRW_get: "os_OpenRW p d = Inr (q, i) \<Longrightarrow> gm_get (tree d) q = Some i"
  by (auto simp: os_OpenRW_def split: option.splits if_splits)

lemma overwrite_cases:
  assumes "overwrite p q i data d = (r, d')"
  shows "d' = d \<or> faults d' = faults d \<and> (\<exists>c. tree d' = gm_put q (i\<lparr>kind := Regular c\<rparr>) (tree d))"
  using assms by (auto simp: overwrite_def Let_def split: option.splits)

lemma rewriteChart_cases:
  assumes "rewriteChart lib ord f d = (r, d')"
  shows "d' = d \<or> (\<exists>q i c objs. os_OpenRW f d = Inr (q, i) \<and> faults d' = faults d \<and>
      tree d' = gm_put q (i\<lparr>kind := Regular c\<rparr>) (tree d) \<and> chart_objects lib f d = Inr objs \<and> fst (rewrite_objects lib ord 0 objs))"
proof (cases "\<exists>q i objs. os_OpenRW f d = Inr (q, i) \<and> chart_objects lib f d = Inr objs \<and> fst (rewrite_objects lib ord 0 objs)")
  case True
  then obtain q i objs where open': "os_OpenRW f d = Inr (q, i)" and objs: "chart_objects lib f d = Inr objs" "fst (rewrite_objects lib ord 0 objs)"
    by blast
  then have "d' = d \<or> (\<exists>data. overwrite f q i data d = (r, d'))"
    using assms by (auto simp: rewriteChart_def chart_objects_def split: sum.splits prod.splits)
  then show ?thesis
    using overwrite_cases open' objs by blast
next
  case False
  then show ?thesis
    using assms by (auto simp: rewriteChart_def chart_objects_def split: sum.splits prod.splits if_splits)
qed

lemma rewriteChart_retexts: "rewriteChart lib ord f d = (r, d') \<Longrightarrow> retexts d d'"
  using rewriteChart_cases [of lib ord f d r d'] OpenRW_get retexts_put by (metis retexts_refl)

text \<open>A text without objects is never rewritten.\<close>

lemma rewriteChart_keeps:
  assumes "rewriteChart lib ord f d = (r, d')" and "ml_ToObjects lib c = Inr []" and "holds d p c"
  shows "holds d' p c"
proof -
  have "chart_objects lib f d = Inr objs \<Longrightarrow> os_OpenRW f d = Inr (p, i) \<Longrightarrow> objs = []" for objs i
    using assms(2,3) OpenRW_get [of f d p i]
    by (auto simp: chart_objects_def file_ReadAll_def holds_def split: option.splits)
  then show ?thesis
    using rewriteChart_cases [OF assms(1)] assms(3) by (auto simp: holds_def)
qed

lemma rewrite_files_props:
  assumes "rewrite_files lib ord fs d = (es, d')"
  shows "retexts d d'" and "ml_ToObjects lib c = Inr [] \<Longrightarrow> holds d p c \<Longrightarrow> holds d' p c"
proof -
  have "retexts d d' \<and> (ml_ToObjects lib c = Inr [] \<longrightarrow> holds d p c \<longrightarrow> holds d' p c)"
    using assms
  proof (induction fs arbitrary: d es)
    case (Cons f fs)
    obtain r d1 es1 d2 where one: "rewriteChart lib (ord f) f d = (r, d1)" and rest: "rewrite_files lib ord fs d1 = (es1, d2)"
      by (meson surj_pair)
    have "d2 = d'"
      using Cons.prems by (cases r) (auto simp: one rest)
    then show ?case
      using Cons.IH [OF rest [unfolded \<open>d2 = d'\<close>]] rewriteChart_retexts [OF one] rewriteChart_keeps [OF one] retexts_trans by metis
  qed simp
  then show "retexts d d'" and "ml_ToObjects lib c = Inr [] \<Longrightarrow> holds d p c \<Longrightarrow> holds d' p c"
    by blast+
qed

lemma setChartValues_props:
  assumes "setChartValues lib mo dir ing nv prime d = (r, d')"
  shows "retexts d d'" and "ml_ToObjects lib c = Inr [] \<Longrightarrow> holds d p c \<Longrightarrow> holds d' p c"
proof -
  have "d' = d \<or> (\<exists>fs es. rewrite_files lib (mo_values mo (chartValues ing nv prime)) fs d = (es, d'))"
    using assms unfolding setChartValues_def by (auto split: sum.splits prod.splits list.splits)
  then show "retexts d d'" and "ml_ToObjects lib c = Inr [] \<Longrightarrow> holds d p c \<Longrightarrow> holds d' p c"
    using rewrite_files_props by (metis retexts_refl)+
qed

lemma truncate_cases:
  assumes "\<forall>p. faults d OpWrite p = None"
  shows "truncate_with p s d = d \<or> (\<exists>q i. os_OpenRW p d = Inr (q, i) \<and> faults (truncate_with p s d) = faults d \<and>
     tree (truncate_with p s d) = gm_put q (i\<lparr>kind := Regular s\<rparr>) (tree d))"
  using assms by (auto simp: truncate_with_def split: sum.splits kind.splits)

lemma truncate_retexts: "\<forall>p. faults d OpWrite p = None \<Longrightarrow> retexts d (truncate_with p s d)"
  using truncate_cases [of d p s] OpenRW_get retexts_put by (metis retexts_refl)

lemma truncate_holds:
  assumes "\<forall>p. faults d OpWrite p = None"
  shows "holds d q s \<Longrightarrow> holds (truncate_with p s d) q s"
    and "holds d p c \<Longrightarrow> faults d OpOpen p = None \<Longrightarrow> holds (truncate_with p s d) p s"
proof -
  show "holds d q s \<Longrightarrow> holds (truncate_with p s d) q s"
    using truncate_cases [OF assms, of p s] by (auto simp: holds_def)
  show "holds (truncate_with p s d) p s" if c: "holds d p c" "faults d OpOpen p = None"
  proof -
    obtain i where i: "gm_get (tree d) p = Some i" "kind i = Regular c"
      using c(1) by (auto simp: holds_def)
    then have "os_OpenRW p d = Inr (p, i)"
      using c(2) follow_40_plain [OF i(1)] by (simp add: os_OpenRW_def)
    then show ?thesis
      using assms i(2) by (simp add: truncate_with_def holds_def)
  qed
qed

lemma truncates_retexts: "\<forall>p. faults d OpWrite p = None \<Longrightarrow> retexts d (fold (\<lambda>p. truncate_with p s) ps d)"
proof (induction ps arbitrary: d)
  case (Cons p ps)
  have re: "retexts d (truncate_with p s d)"
    by (rule truncate_retexts [OF Cons.prems])
  then show ?case
    using Cons.IH Cons.prems retexts_trans [OF re] by (simp add: retexts_def)
qed simp

lemma truncates_holds:
  assumes "\<forall>p. faults d OpWrite p = None" and "holds d q c" and "faults d OpOpen q = None"
  shows "retexts d (fold (\<lambda>p. truncate_with p s) ps d)"
    and "q \<in> set ps \<or> c = s \<Longrightarrow> holds (fold (\<lambda>p. truncate_with p s) ps d) q s"
proof -
  have "retexts d (fold (\<lambda>p. truncate_with p s) ps d) \<and> (q \<in> set ps \<or> c = s \<longrightarrow> holds (fold (\<lambda>p. truncate_with p s) ps d) q s)"
    using assms
  proof (induction ps arbitrary: d c)
    case (Cons p ps)
    let ?d = "truncate_with p s d"
    have re: "retexts d ?d"
      by (rule truncate_retexts [OF Cons.prems(1)])
    then have works: "\<forall>p. faults ?d OpWrite p = None" "faults ?d OpOpen q = None"
      using Cons.prems by (simp_all add: retexts_def)
    obtain c' where c': "holds ?d q c'"
      using re Cons.prems(2) by (auto simp: retexts_def)
    show ?case
    proof (cases "q = p \<or> c = s")
      case True
      then have "holds ?d q s"
        using truncate_holds [OF Cons.prems(1)] Cons.prems(2,3) by blast
      then show ?thesis
        using Cons.IH [OF works(1) _ works(2)] retexts_trans [OF re] by auto
    next
      case False
      then show ?thesis
        using Cons.IH [OF works(1) c' works(2)] retexts_trans [OF re] by auto
    qed
  qed auto
  then show "retexts d (fold (\<lambda>p. truncate_with p s) ps d)"
    and "q \<in> set ps \<or> c = s \<Longrightarrow> holds (fold (\<lambda>p. truncate_with p s) ps d) q s"
    by blast+
qed

text \<open>The files that are truncated, as one list.\<close>

definition disabled_files :: "string list \<Rightarrow> string list" where
  "disabled_files controllers = concat (map ingress_files (filter (\<lambda>name. name \<notin> set controllers) IngressItems))"

lemma disable_ingress_eq:
  "disable_ingress dir controllers d =
     fold (\<lambda>p. truncate_with p disabled_text) (map (\<lambda>f. filepath_Join [dir, f]) (disabled_files controllers)) d"
  by (simp add: disable_ingress_def disabled_files_def IngressItems_def ingress_files_def)

lemma disabled_names: "f \<in> set (disabled_files controllers) \<Longrightarrow> is_name f"
proof -
  assume "f \<in> set (disabled_files controllers)"
  then have "f \<in> set (disabled_files [])"
    by (auto simp: disabled_files_def)
  moreover have "\<forall>f \<in> set (disabled_files []). is_name f"
    by code_simp
  ultimately show ?thesis
    by blast
qed

definition temp_charts :: "string \<Rightarrow> string \<Rightarrow> string" where
  "temp_charts dataDir g = chartsDirForDigest dataDir g @ ''.tmp''"

lemma chart_paths:
  assumes "release_paths dataDir ds g"
  shows "temp_charts dataDir g = abs_path (ds @ [''data'', g, ''charts.tmp''])"
    and "manifestsDir dataDir = abs_path (ds @ [''server'', ''manifests''])"
    and "list_all is_name (ds @ [''data'', g, ''charts.tmp''])" and "list_all is_name (ds @ [''server'', ''manifests''])"
proof -
  note ns = release_names [OF assms] and dirs = release_dirs [OF assms]
  have names: "is_name ''charts.tmp''" "is_name ''server''" "is_name ''manifests''"
    by code_simp+
  show "list_all is_name (ds @ [''data'', g, ''charts.tmp''])" "list_all is_name (ds @ [''server'', ''manifests''])"
    using ns(4) names by simp_all
  show "temp_charts dataDir g = abs_path (ds @ [''data'', g, ''charts.tmp''])"
    using abs_path_snoc [of "ds @ [''data'', g]" "''charts''"] abs_path_snoc [of "ds @ [''data'', g]" "''charts.tmp''"]
    unfolding temp_charts_def dirs(2) by simp
  show "manifestsDir dataDir = abs_path (ds @ [''server'', ''manifests''])"
    using Join_abs [of ds "[''server'', ''manifests'']"] ns(1-3) names by (simp add: manifestsDir_def list_all_iff)
qed

lemma temp_apart:
  assumes "release_paths dataDir ds g"
  shows "under (manifestsDir dataDir) q \<Longrightarrow> \<not> under (temp_charts dataDir g) q \<and> \<not> under q (temp_charts dataDir g)"
    and "under (chartsDirForDigest dataDir g) q \<Longrightarrow> \<not> under (temp_charts dataDir g) q"
proof -
  note ns = release_names [OF assms] and ps = chart_paths [OF assms]
  show "under (manifestsDir dataDir) q \<Longrightarrow> \<not> under (temp_charts dataDir g) q \<and> \<not> under q (temp_charts dataDir g)"
    using under_comparable [OF _ _ ps(4,3), of q] under_comparable [OF _ _ ps(4,3), of "temp_charts dataDir g"] under_trans
    unfolding ps(1,2) by fastforce
  show "under (chartsDirForDigest dataDir g) q \<Longrightarrow> \<not> under (temp_charts dataDir g) q"
    using under_comparable [OF _ _ ns(5) ps(3), of q] unfolding ps(1) release_dirs [OF assms] by fastforce
qed

lemma remove_plain: "not_link (tree d) q \<Longrightarrow> not_link (tree (snd (os_RemoveAll p d))) q"
  by (auto simp: os_RemoveAll_def not_link_def gm_get_filter [of "\<lambda>x. \<not> under p x"] split: option.splits)

lemma mkdir_plain:
  assumes "os_MkdirAll p pm d = (r, d')" and "not_link (tree d) q"
  shows "not_link (tree d') q"
proof -
  have "not_link (tree u) q" if "fold_try (mkdir_one pm) (path_prefixes p) d = Inr u" for u
    using that assms(2)
    by (rule fold_try_invariant) (auto simp: mkdir_one_def not_link_def split: if_splits option.splits)
  with assms show ?thesis
    by (auto simp: os_MkdirAll_def split: option.splits sum.splits)
qed

lemma install_disables:
  assumes paths: "release_paths dataDir ds g" and copy: "copy_law copyDir" and decode: "ml_ToObjects lib disabled_text = Inr []"
    and plain: "plain_under (tree d) (manifestsDir dataDir)" "plain_under (tree d) (temp_charts dataDir g)"
    and works: "\<forall>p. faults d OpWrite p = None" "faults d OpOpen (temp_charts dataDir g @ ''/'' @ f) = None"
    and f: "f \<in> set (disabled_files controllers)" "holds d (chartsDirForDigest dataDir g @ ''/'' @ f) c"
    and run: "install_charts lib mo copyDir (chartsDirForDigest dataDir g) (temp_charts dataDir g) (manifestsDir dataDir) controllers nv prime d = (Inr (), d')"
  shows "holds d' (manifestsDir dataDir @ ''/'' @ f) disabled_text"
proof -
  let ?C = "chartsDirForDigest dataDir g" and ?T = "temp_charts dataDir g" and ?M = "manifestsDir dataDir"
  note ps = chart_paths [OF paths] and ns = release_names [OF paths] and name = disabled_names [OF f(1)]
  have noslash: "f \<noteq> '''' \<and> slash \<notin> set f"
    using name by (simp add: is_name_def)
  obtain d1 d2 d3 where d1: "copyDir ?T ?C d = (Inr (), d1)"
    and d2: "setChartValues lib mo ?T (controllers ! 0) nv prime (disable_ingress ?T controllers d1) = (Inr (), d2)"
    and d3: "copyDir ?M ?T d2 = (Inr (), d3)"
    and d': "d' = snd (os_RemoveAll ?T (snd (setChartValues lib mo ?M (controllers ! 0) nv prime d3)))"
    using run unfolding install_charts_def Let_def by (auto split: prod.splits sum.splits)
  obtain r4 d4 where d4: "setChartValues lib mo ?M (controllers ! 0) nv prime d3 = (r4, d4)"
    by (meson surj_pair)
  have t1: "touches (\<lambda>q. under ?T q \<or> under q ?T \<and> gm_get (tree d) q = None) d d1" and h1: "holds d1 (?T @ ''/'' @ f) c"
    using copy d1 plain(2) f(2) noslash unfolding copy_law_def by blast+
  let ?e = "disable_ingress ?T controllers d1"
  have joined: "filepath_Join [?T, f] = ?T @ ''/'' @ f"
    using Join_abs [of "ds @ [''data'', g, ''charts.tmp'']" "[f]"] ps(3) name abs_path_snoc [of "ds @ [''data'', g, ''charts.tmp'']" f]
    unfolding ps(1) by (simp add: list_all_iff)
  have works1: "\<forall>p. faults d1 OpWrite p = None" "faults d1 OpOpen (?T @ ''/'' @ f) = None"
    using works touches_faults [OF t1] by simp_all
  have "?T @ ''/'' @ f \<in> set (map (\<lambda>f. filepath_Join [?T, f]) (disabled_files controllers))"
    using f(1) joined by (auto simp: image_iff intro!: bexI [of _ f])
  then have e: "holds ?e (?T @ ''/'' @ f) disabled_text" and re: "retexts d1 ?e"
    using truncates_holds [OF works1(1) h1 works1(2)] unfolding disable_ingress_eq by blast+
  have h2: "holds d2 (?T @ ''/'' @ f) disabled_text" and r2: "retexts ?e d2"
    using setChartValues_props(2) [OF d2 decode e] setChartValues_props(1) [OF d2] by blast+
  have "not_link (tree d1) q" if "under ?M q" for q
    using touches_get [OF t1] temp_apart(1) [OF paths that] plain(1) that by (auto simp: plain_under_def not_link_def)
  then have "plain_under (tree d2) ?M"
    using re r2 by (auto simp: plain_under_def retexts_def)
  then have "holds d3 (?M @ ''/'' @ f) disabled_text"
    using copy d3 h2 noslash unfolding copy_law_def by blast
  then have "holds d4 (?M @ ''/'' @ f) disabled_text"
    by (rule setChartValues_props(2) [OF d4 decode])
  moreover have "gm_get (tree d') (?M @ ''/'' @ f) = gm_get (tree d4) (?M @ ''/'' @ f)"
    unfolding d' d4 snd_conv by (rule touches_get [OF removed_touches]) (use temp_apart(1) [OF paths under_child [OF under_refl]] in blast)
  ultimately show ?thesis
    by (simp add: holds_def)
qed

text \<open>
  C11: an ingress controller that is not selected is switched off. After a successful update of the manifests,
  the chart of every ingress controller that is not among the selected ones, or not the one deployed when
  none is selected, is an empty manifest in the directory from which charts are deployed, if the release
  has it. This rests on the copy of a directory, on an empty manifest decoding to no objects, and on the
  directory of manifests holding no links.
\<close>

theorem ingress_disabled:
  assumes paths: "release_paths (nv_DataDir nv) ds g" and ref: "runtime_ref pkg bv sha r = Inr (ref, g)"
    and copy: "copy_law copyDir" and decode: "ml_ToObjects lib disabled_text = Inr []"
    and plain: "plain_under (tree d) (manifestsDir (nv_DataDir nv))"
    and works: "\<forall>p. faults d OpWrite p = None" "faults d OpOpen (temp_charts (nv_DataDir nv) g @ ''/'' @ f) = None"
      "faults d OpRemove (temp_charts (nv_DataDir nv) g) = None"
    and choice: "choose_ingress charts ingressController = Inr controllers"
    and f: "name \<in> set IngressItems" "name \<notin> set controllers" "f \<in> set (ingress_files name)"
      "holds d (chartsDirForDigest (nv_DataDir nv) g @ ''/'' @ f) c"
    and run: "updateManifests pkg bv sha lib mo copyDir charts r ingressController nv prime d = (Inr (), d')"
  shows "holds d' (manifestsDir (nv_DataDir nv) @ ''/'' @ f) disabled_text"
proof -
  let ?D = "nv_DataDir nv"
  let ?T = "temp_charts ?D g" and ?M = "manifestsDir ?D" and ?C = "chartsDirForDigest ?D g"
  obtain r1 d1 where d1: "os_MkdirAll ?M 448 d = (r1, d1)"
    by (cases "os_MkdirAll ?M 448 d")
  let ?d = "snd (os_RemoveAll ?T d1)"
  have faults: "faults d1 = faults d" "faults ?d = faults d"
    using os_MkdirAll_touches [OF d1, of "\<lambda>_. True"] touches_faults [OF removed_touches [of ?T d1]] touches_faults by fastforce+
  have run': "install_charts lib mo copyDir ?C ?T ?M controllers nv prime ?d = (Inr (), d')"
    using run ref choice d1 by (simp add: updateManifests_def temp_charts_def Let_def)
  have "plain_under (tree ?d) ?M"
    using plain remove_plain mkdir_plain [OF d1] by (simp add: plain_under_def)
  moreover have "gm_get (tree ?d) q = None" if "under ?T q" for q
    using os_RemoveAll_get [of ?T d1 ?d q] that works(3) faults(1) by (simp add: os_RemoveAll_def)
  then have "plain_under (tree ?d) ?T"
    by (simp add: plain_under_def not_link_def)
  moreover have "f \<in> set (disabled_files controllers)"
    using f(1-3) by (auto simp: disabled_files_def)
  moreover have "gm_get (tree ?d) (?C @ ''/'' @ f) = gm_get (tree d1) (?C @ ''/'' @ f)"
    by (rule touches_get [OF removed_touches]) (use temp_apart(2) [OF paths under_child [OF under_refl]] in blast)
  then have "holds ?d (?C @ ''/'' @ f) c"
    using f(4) os_MkdirAll_keeps [OF d1] by (auto simp: holds_def)
  ultimately show ?thesis
    using install_disables [OF paths copy decode _ _ _ _ _ _ run'] works faults by simp
qed

section \<open>An instance\<close>

text \<open>
  Objects that are maps of settings. A manifest is empty, a comment, or one object with one setting. A copy
  is a copy of the files of the source.
\<close>

definition line_libs :: "(string, string) gomap manifest_libs" where
  "line_libs =
     \<lparr>ml_ToObjects = (\<lambda>s. case str_Cut (CHR ''='') s of (k, v, True) \<Rightarrow> Inr [[(k, v)]] | _ \<Rightarrow> Inr []),
      ml_Export = (\<lambda>objs. case objs of [[(k, v)]] \<Rightarrow> if CHR ''='' \<in> set k then Inl (Errorf ''bad key'') else Inr (k @ ''='' @ v)
                  | _ \<Rightarrow> Inl (Errorf ''not one setting'')),
      ml_GVK = (\<lambda>obj. Some (''helm.cattle.io'', ''v1'', ''HelmChart'')), ml_Annotations = (\<lambda>obj. []),
      ml_setting = (\<lambda>obj k. Inr (gm_index '''' obj k)), ml_set = (\<lambda>k v obj. (Inr (), gm_put k v obj)),
      ml_NewErrors = hd, ml_helmVersion = (''helm.cattle.io'', ''v1''), ml_Program = ''rke2'', ml_ProgramUpper = ''RKE2'',
      ml_Getenv = (\<lambda>_. ''true'')\<rparr>"

lemma line_libs_laws: "setting_laws line_libs" "export_law line_libs"
proof -
  show "setting_laws line_libs"
    by (simp add: setting_laws_def settable_def line_libs_def gm_index_def)
  show "export_law line_libs"
    by (auto simp: export_law_def line_libs_def str_Cut_sep split: list.splits prod.splits if_splits)
qed

definition copy_entry :: "string \<Rightarrow> string \<Rightarrow> string \<times> inode \<Rightarrow> disk \<Rightarrow> disk" where
  "copy_entry tgt src e d =
     (case entry_name src (fst e) of Some n \<Rightarrow> commit (gm_put (tgt @ ''/'' @ n) (snd e) (tree d)) d | None \<Rightarrow> d)"

definition copy_files :: "string \<Rightarrow> string \<Rightarrow> disk \<Rightarrow> unit result \<times> disk" where
  "copy_files tgt src d =
     (Inr (), fold (copy_entry tgt src) (rev (tree d))
        (if gm_get (tree d) tgt = None then commit (gm_put tgt (new_inode Directory 493) (tree d)) d else d))"

lemma copy_entries_touch: "touches (under tgt) d (fold (copy_entry tgt src) es d)"
proof (induction es arbitrary: d)
  case (Cons e es)
  have "touches (under tgt) d (copy_entry tgt src e d)"
    using under_child [OF under_refl] by (auto simp: copy_entry_def split: option.split intro!: touches_commit)
  then show ?case
    using Cons.IH touches_trans by simp
qed simp

lemma copy_entries_get:
  assumes "slash \<notin> set n" and "n \<noteq> ''''"
  shows "gm_get (tree (fold (copy_entry tgt src) (rev es) d)) (tgt @ ''/'' @ n) =
     (case gm_get es (src @ ''/'' @ n) of Some i \<Rightarrow> Some i | None \<Rightarrow> gm_get (tree d) (tgt @ ''/'' @ n))"
proof (induction es arbitrary: d)
  case (Cons e es)
  have named: "entry_name src (src @ ''/'' @ n) = Some n"
    using assms by (simp add: entry_name_def str_HasPrefix_iff)
  show ?case
  proof (cases "entry_name src (fst e)")
    case None
    then have "fst e \<noteq> src @ ''/'' @ n"
      using named by auto
    then show ?thesis
      using Cons.IH None by (cases e) (simp add: copy_entry_def)
  next
    case (Some m)
    then have "fst e = src @ ''/'' @ m"
      using entry_name_SomeD by blast
    then show ?thesis
      using Cons.IH Some by (cases e) (simp add: copy_entry_def)
  qed
qed simp

lemma copy_files_touch: "touches (under tgt) d (snd (copy_files tgt src d))"
proof -
  have "touches (under tgt) d (if gm_get (tree d) tgt = None then commit (gm_put tgt (new_inode Directory 493) (tree d)) d else d)"
    by (simp add: touches_commit)
  from touches_trans [OF this copy_entries_touch] show ?thesis
    by (simp add: copy_files_def)
qed

lemma copy_files_law: "copy_law copy_files"
proof -
  have "holds d' (tgt @ ''/'' @ n) c"
    if "copy_files tgt src d = (r, d')" "n \<noteq> ''''" "slash \<notin> set n" "holds d (src @ ''/'' @ n) c" for tgt src d r d' n c
    using that copy_entries_get [of n tgt src "tree d"] by (auto simp: copy_files_def holds_def)
  moreover have "touches (\<lambda>q. under tgt q \<or> under q tgt \<and> gm_get (tree d) q = None) d d'"
    if "copy_files tgt src d = (r, d')" for tgt src d r d'
    using touches_mono [OF copy_files_touch [of tgt d src]] that by simp
  ultimately show ?thesis
    by (simp add: copy_law_def)
qed

definition sample_values :: node_values where
  "sample_values = \<lparr>nv_clusterCIDR = ''10.42.0.0/16'', nv_clusterCIDRv4 = '''', nv_clusterCIDRv6 = '''', nv_clusterDNS = '''',
     nv_ClusterDomain = '''', nv_DataDir = ''/var'', nv_serviceCIDR = '''', nv_SystemDefaultRegistry = ''''\<rparr>"

definition sample_charts :: disk where
  "sample_charts = empty_disk\<lparr>tree :=
     [(''/var'', new_inode Directory 493), (''/var/data/v3-c/charts'', new_inode Directory 493),
      (''/var/data/v3-c/charts/rke2-traefik.yaml'', new_inode (Regular ''x'') 420)]\<rparr>"

definition sample_orders :: map_orders where
  "sample_orders = \<lparr>mo_files = (\<lambda>fs. fs), mo_values = (\<lambda>vs f n. vs)\<rparr>"

definition empty_libs :: "(string, string) gomap manifest_libs" where
  "empty_libs = line_libs\<lparr>ml_ToObjects := (\<lambda>_. Inr [])\<rparr>"

abbreviation sample_update :: "unit result \<times> disk" where
  "sample_update \<equiv> updateManifests sample_names simple_build (\<lambda>s. ''c'') empty_libs sample_orders copy_files (Inr [])
     sample_resolver [''ingress-nginx''] sample_values False sample_charts"

lemma rewrite_empty:
  assumes "\<forall>f \<in> set fs. \<not> isl (os_OpenRW f d)"
  shows "rewrite_files empty_libs ord fs d = ([], d)"
  using assms by (induction fs) (auto simp: rewriteChart_def empty_libs_def try_then_def split: sum.splits prod.splits)

lemma setChartValues_empty:
  assumes "\<forall>x p. faults d x p = None" and "\<forall>p. not_link (tree d) p" and "gm_get (tree d) dir \<noteq> None"
  shows "setChartValues empty_libs sample_orders dir ing nv prime d = (Inr (), d)"
proof -
  have err: "walk_error d q = None" for q
    using assms(1) by (simp add: walk_error_def split: option.split)
  have "\<not> isl (os_OpenRW f d)" if "is_manifest d f" for f
    using that assms(1,2) not_link_follow [of "tree d" f] by (auto simp: os_OpenRW_def is_manifest_def split: option.splits)
  moreover obtain files where "walk_manifests d dir = Inr (filter (is_manifest d) files)"
    using assms(3) err by (auto simp: walk_manifests_def Let_def List.map_filter_def)
  ultimately show ?thesis
    using rewrite_empty [of "filter (is_manifest d) files" d] by (simp add: setChartValues_def sample_orders_def)
qed

lemma sample_update_ok: "fst sample_update = Inr ()"
proof -
  let ?c = "copy_files (temp_charts ''/var'' ''v3-c'') (chartsDirForDigest ''/var'' ''v3-c'')
    (snd (os_RemoveAll (temp_charts ''/var'' ''v3-c'') (snd (os_MkdirAll (manifestsDir ''/var'') 448 sample_charts))))"
  let ?e = "disable_ingress (temp_charts ''/var'' ''v3-c'') [''ingress-nginx''] (snd ?c)"
  have "no_links (tree (snd ?c))" "gm_get (tree (snd ?c)) (temp_charts ''/var'' ''v3-c'') \<noteq> None"
    by code_simp+
  moreover have works: "faults (snd ?c) x p = None" for x p
    using touches_faults [OF copy_files_touch] touches_faults [OF removed_touches]
      touches_faults [OF os_MkdirAll_touches [OF prod.collapse [symmetric], where A = "\<lambda>_. True"]]
    by (simp add: sample_charts_def empty_disk_def)
  moreover have "retexts (snd ?c) ?e"
    using truncates_retexts works unfolding disable_ingress_eq by blast
  ultimately have "setChartValues empty_libs sample_orders (temp_charts ''/var'' ''v3-c'') ing nv prime ?e = (Inr (), ?e)" for ing nv prime
    by (intro setChartValues_empty) (auto simp: retexts_def no_links_not_link)
  moreover have "fst ?c = Inr ()" "nv_DataDir sample_values = ''/var''" "choose_ingress (Inr []) [''ingress-nginx''] = Inr [''ingress-nginx'']"
    by (simp_all add: copy_files_def sample_values_def choose_ingress_def)
  moreover have "copy_files tgt src d \<noteq> (Inl e, d')" for tgt src d e d'
    by (simp add: copy_files_def)
  ultimately show ?thesis
    by (auto simp: updateManifests_def install_charts_def Let_def sample_layout(3) temp_charts_def [symmetric] split: prod.splits sum.splits)
qed

theorem ingress_disabled_witness:
  "holds (snd sample_update) ''/var/server/manifests/rke2-traefik.yaml'' disabled_text"
proof -
  have dir: "nv_DataDir sample_values = ''/var''" "manifestsDir ''/var'' = ''/var/server/manifests''"
    by code_simp+
  have decode: "ml_ToObjects empty_libs disabled_text = Inr []"
    by (simp add: empty_libs_def)
  have plain: "plain_under (tree sample_charts) (manifestsDir (nv_DataDir sample_values))"
    by (simp add: plain_under_def no_links_not_link sample_charts_def no_links_def new_inode_def)
  have works: "\<forall>p. faults sample_charts OpWrite p = None"
    "faults sample_charts OpOpen (temp_charts (nv_DataDir sample_values) ''v3-c'' @ ''/'' @ ''rke2-traefik.yaml'') = None"
    "faults sample_charts OpRemove (temp_charts (nv_DataDir sample_values) ''v3-c'') = None"
    by (simp_all add: sample_charts_def empty_disk_def)
  have choice: "choose_ingress (Inr []) [''ingress-nginx''] = Inr [''ingress-nginx'']"
    by (simp add: choose_ingress_def)
  have f: "''traefik'' \<in> set IngressItems" "''traefik'' \<notin> set [''ingress-nginx'']" "''rke2-traefik.yaml'' \<in> set (ingress_files ''traefik'')"
    by code_simp+
  have src: "holds sample_charts (chartsDirForDigest (nv_DataDir sample_values) ''v3-c'' @ ''/'' @ ''rke2-traefik.yaml'') ''x''"
  proof -
    have "gm_get (tree sample_charts) (chartsDirForDigest (nv_DataDir sample_values) ''v3-c'' @ ''/'' @ ''rke2-traefik.yaml'') = Some (new_inode (Regular ''x'') 420)"
      by code_simp
    then show ?thesis
      by (simp add: holds_def)
  qed
  have run: "sample_update = (Inr (), snd sample_update)"
    by (rule prod_eqI) (simp_all only: fst_conv snd_conv sample_update_ok)
  have "''/var/server/manifests'' @ ''/'' @ ''rke2-traefik.yaml'' = ''/var/server/manifests/rke2-traefik.yaml''"
    by simp
  with ingress_disabled [OF sample_layout(1) [folded dir(1)] sample_layout(3) copy_files_law decode plain works choice f src run]
  show ?thesis
    unfolding dir by metis
qed


end
