(* ===== verification/Win_Base.thy ===== *)
theory Win_Base
  imports Go_Path "HOL-Library.Monad_Syntax"
begin

text \<open>
  What the parts for Windows nodes use of the Go library: paths with drive letters, a store of files, polling
  with a time limit, and processes that are started again whenever they end. Paths that begin with two
  separators (network shares) are not modelled.
\<close>

section \<open>Paths\<close>

abbreviation backslash :: char where
  "backslash \<equiv> CHR 0x5C"

definition is_sep :: "char \<Rightarrow> bool" where
  "is_sep c \<longleftrightarrow> c = slash \<or> c = backslash"

definition win_volume :: "string \<Rightarrow> string" where
  "win_volume p = (if 2 \<le> length p \<and> p ! 1 = CHR '':'' then take 2 p else '''')"

text \<open>Forward slashes become backslashes, so that one separator is left.\<close>

definition from_slash :: "string \<Rightarrow> string" where
  "from_slash = map (\<lambda>c. if c = slash then backslash else c)"

definition win_Clean :: "string \<Rightarrow> string" where
  "win_Clean p =
     (let vol = win_volume p; rest = from_slash (drop (length vol) p) in
      if rest = '''' then p @ ''.''
      else let rooted = (hd rest = backslash); cs = clean_comps rooted (str_Split backslash rest) in
        vol @ (if rooted then [backslash] @ str_Join cs [backslash]
               else if cs = [] then ''.'' else str_Join cs [backslash]))"

text \<open>
  One more element: after a separator its leading separators are dropped, after a colon it is appended as it
  is, and otherwise a separator is put in between.
\<close>

fun win_append :: "string \<Rightarrow> string \<Rightarrow> string" where
  "win_append b e =
     (if b = '''' then e
      else if is_sep (last b) then b @ dropWhile is_sep e
      else if last b = CHR '':'' then b @ e
      else b @ [backslash] @ e)"

definition win_Join :: "string list \<Rightarrow> string" where
  "win_Join elems = (let b = foldl win_append '''' elems in if b = '''' then '''' else win_Clean b)"

definition win_Dir :: "string \<Rightarrow> string" where
  "win_Dir p =
     (let vol = win_volume p; rest = drop (length vol) p;
          base = takeWhile (\<lambda>c. \<not> is_sep c) (rev rest)
      in vol @ win_Clean (take (length rest - length base) rest))"

text \<open>The last name of a joined path is the last element, if that is a plain name.\<close>

definition win_name :: "string \<Rightarrow> bool" where
  "win_name n \<longleftrightarrow> n \<noteq> '''' \<and> n \<noteq> ''.'' \<and> n \<noteq> ''..'' \<and> slash \<notin> set n \<and> backslash \<notin> set n \<and> CHR '':'' \<notin> set n"

definition win_base :: "string \<Rightarrow> string" where
  "win_base p = rev (takeWhile (\<lambda>c. c \<noteq> backslash \<and> c \<noteq> CHR '':'') (rev p))"

definition ends_dir :: "string \<Rightarrow> bool" where
  "ends_dir d \<longleftrightarrow> d = '''' \<or> is_sep (last d) \<or> last d = CHR '':''"

lemma win_base_append:
  assumes "win_name n" and "d = '''' \<or> last d = backslash \<or> last d = CHR '':''"
  shows "win_base (d @ n) = n"
proof -
  have "takeWhile (\<lambda>c. c \<noteq> backslash \<and> c \<noteq> CHR '':'') (rev n @ rev d) = rev n"
    using assms by (subst takeWhile_append2) (cases d rule: rev_cases; auto simp: win_name_def)+
  then show ?thesis
    by (simp add: win_base_def)
qed

lemma str_Split_append_name: "c \<notin> set n \<Longrightarrow> str_Split c (r @ n) = butlast (str_Split c r) @ [last (str_Split c r) @ n]"
proof (induction r)
  case Nil
  then show ?case
    by (simp add: str_Split_no_sep)
next
  case (Cons x r)
  then show ?case
    by (cases "str_Split c r") (auto split: list.splits)
qed

lemma last_Split_dir: "r = '''' \<or> last r = c \<Longrightarrow> last (str_Split c r) = ''''"
proof (induction r)
  case (Cons x r)
  then show ?case
    by (cases "str_Split c r"; cases r) (auto split: list.splits if_splits)
qed simp

lemma last_last_Split: "r \<noteq> '''' \<Longrightarrow> last r \<noteq> c \<Longrightarrow> last (last (str_Split c r)) = last r"
proof (induction r)
  case (Cons x r)
  then show ?case
    by (cases "str_Split c r"; cases r) (auto split: list.splits if_splits)
qed simp

lemma clean_comps_snoc:
  assumes "x \<noteq> ''''" "x \<noteq> ''.''" "x \<noteq> ''..''"
  shows "clean_comps rooted (cs @ [x]) = clean_comps rooted cs @ [x]"
  using assms by (simp add: clean_comps_def)

lemma win_volume_name:
  assumes "win_name n" and "ends_dir a"
  shows "\<exists>r. drop (length (win_volume (a @ n))) (a @ n) = r @ n \<and> ends_dir r \<and> (win_volume (a @ n) = '''' \<or> last (win_volume (a @ n)) = CHR '':'')"
proof (cases "2 \<le> length (a @ n) \<and> (a @ n) ! 1 = CHR '':''")
  case True
  have "2 \<le> length a"
  proof (rule ccontr)
    assume "\<not> 2 \<le> length a"
    then have "n ! (1 - length a) \<in> set n" "(a @ n) ! 1 = n ! (1 - length a)"
      using True by (force intro!: nth_mem) (use \<open>\<not> 2 \<le> length a\<close> in \<open>simp add: nth_append\<close>)
    then show False
      using True assms(1) by (auto simp: win_name_def)
  qed
  then obtain x y b where a: "a = x # y # b"
    by (metis One_nat_def Suc_le_length_iff numeral_2_eq_2)
  then have "ends_dir b"
    using assms(2) by (auto simp: ends_dir_def)
  then show ?thesis
    using True a by (auto simp: win_volume_def)
qed (use assms in \<open>auto simp: win_volume_def\<close>)

lemma ends_dir_from_slash: "ends_dir r \<Longrightarrow> from_slash r = '''' \<or> last (from_slash r) = backslash \<or> last (from_slash r) = CHR '':''"
  by (cases r rule: rev_cases) (auto simp: ends_dir_def from_slash_def is_sep_def)

lemma win_base_Clean:
  assumes n: "win_name n" and a: "ends_dir a"
  shows "win_base (win_Clean (a @ n)) = n"
proof -
  let ?v = "win_volume (a @ n)"
  obtain r where r: "drop (length ?v) (a @ n) = r @ n" "ends_dir r" and v: "?v = '''' \<or> last ?v = CHR '':''"
    using win_volume_name [OF n a] by blast
  let ?r = "from_slash r" and ?m = "last (str_Split backslash (from_slash r))"
  have fn: "from_slash n = n"
    using n by (auto simp: win_name_def from_slash_def intro: map_idI)
  have n0: "n \<noteq> ''''" "backslash \<notin> set n" "hd n \<noteq> backslash"
    using n by (cases n; auto simp: win_name_def)+
  have m: "?m = '''' \<or> last ?m = CHR '':''"
    using ends_dir_from_slash [OF r(2)] last_Split_dir [of ?r backslash] last_last_Split [of ?r backslash]
    by (cases "?r = ''''") auto
  have x: "?m @ n \<noteq> ''''" "?m @ n \<noteq> ''.''" "?m @ n \<noteq> ''..''"
    using m n by (auto simp: win_name_def append_eq_Cons_conv)
  have split: "str_Split backslash (?r @ n) = butlast (str_Split backslash ?r) @ [?m @ n]"
    using n0 by (simp add: str_Split_append_name)
  define cs where "cs rooted = clean_comps rooted (butlast (str_Split backslash ?r))" for rooted
  have join: "str_Join (cs k @ [?m @ n]) [backslash] = (if cs k = [] then '''' else str_Join (cs k) [backslash] @ [backslash]) @ ?m @ n" for k
    by (simp add: str_Join_append)
  have rest: "from_slash (drop (length ?v) (a @ n)) = ?r @ n"
    unfolding r(1) using fn by (simp add: from_slash_def)
  define rooted where "rooted = (hd (?r @ n) = backslash)"
  have "win_Clean (a @ n) = ?v @ (if rooted then [backslash] else []) @ str_Join (cs rooted @ [?m @ n]) [backslash]"
    unfolding win_Clean_def Let_def rest split clean_comps_snoc [OF x] rooted_def cs_def using n0 by simp
  then obtain d where d: "win_Clean (a @ n) = ?v @ d @ ?m @ n" "d = '''' \<or> last d = backslash"
    unfolding join by (cases rooted; cases "cs rooted = []") auto
  have "?v @ d @ ?m = '''' \<or> last (?v @ d @ ?m) = backslash \<or> last (?v @ d @ ?m) = CHR '':''"
    using v d(2) m by (auto simp: last_append)
  then show ?thesis
    using win_base_append [OF n, of "?v @ d @ ?m"] d(1) by simp
qed

lemma win_base_Join:
  assumes "win_name n"
  shows "win_base (win_Join [a, n]) = n"
proof -
  have drop: "dropWhile is_sep n = n"
    using assms by (cases n) (auto simp: win_name_def is_sep_def)
  define b where "b = (if a = '''' \<or> is_sep (last a) \<or> last a = CHR '':'' then a else a @ [backslash])"
  have b: "win_append (win_append '''' a) n = b @ n" "ends_dir b"
    by (auto simp: b_def drop ends_dir_def is_sep_def)
  then show ?thesis
    using win_base_Clean [OF assms b(2)] assms by (simp add: win_Join_def win_name_def)
qed

text \<open>Joining a name to a joined path on drive C is joining it at once.\<close>

definition plain :: "string \<Rightarrow> bool" where
  "plain c \<longleftrightarrow> c \<noteq> '''' \<and> c \<noteq> ''.'' \<and> c \<noteq> ''..''"

lemma clean_step_plain: "plain s \<Longrightarrow> clean_step rooted out s = s # out"
  by (simp add: plain_def)

lemma clean_step_dots: "list_all plain out \<Longrightarrow> \<not> plain s \<Longrightarrow> clean_step True out s = out \<or> clean_step True out s = tl out"
  by (cases out) (auto simp: plain_def)

lemma clean_steps_plain: "list_all plain out \<Longrightarrow> list_all plain (foldl (clean_step True) out cs)"
proof (induction cs arbitrary: out)
  case (Cons s cs)
  have "list_all plain (clean_step True out s)"
  proof (cases "plain s")
    case True
    then show ?thesis
      using Cons.prems by (simp add: clean_step_plain del: clean_step.simps)
  next
    case False
    then show ?thesis
      using Cons.prems clean_step_dots [of out s] by (cases out) (auto simp del: clean_step.simps)
  qed
  then show ?case
    unfolding foldl_Cons by (rule Cons.IH)
qed simp

lemma clean_comps_plain: "list_all plain (clean_comps True cs)"
  using clean_steps_plain [of "[]" cs] by (simp add: clean_comps_def del: clean_step.simps)

lemma clean_comps_sub:
  assumes "list_all P cs" and "P ''..''"
  shows "list_all P (clean_comps rooted cs)"
proof -
  have "list_all P (foldl (clean_step rooted) out cs)" if "list_all P out" for out
    using that assms
  proof (induction cs arbitrary: out)
    case (Cons s cs)
    have "list_all P (clean_step rooted out s)"
      using Cons.prems by (cases out) auto
    then show ?case
      unfolding foldl_Cons using Cons.IH Cons.prems by (auto simp del: clean_step.simps)
  qed simp
  then show ?thesis
    by (simp add: clean_comps_def del: clean_step.simps)
qed

lemma clean_comps_idem: "list_all plain cs \<Longrightarrow> clean_comps rooted cs = cs"
proof -
  have "list_all plain cs \<Longrightarrow> foldl (clean_step rooted) out cs = rev cs @ out" for out
    by (induction cs arbitrary: out) (simp_all add: clean_step_plain del: clean_step.simps)
  then show "list_all plain cs \<Longrightarrow> clean_comps rooted cs = cs"
    by (simp add: clean_comps_def)
qed

lemma str_Split_snoc: "c \<notin> set n \<Longrightarrow> str_Split c (a @ c # n) = str_Split c a @ [n]"
proof (induction a)
  case Nil
  then show ?case
    by (simp add: str_Split_no_sep)
next
  case (Cons x a)
  then show ?case
    by (cases "str_Split c a") auto
qed

lemma win_Clean_c:
  "win_Clean (''c:'' @ backslash # s) =
     ''c:'' @ backslash # str_Join (clean_comps True (str_Split backslash (backslash # from_slash s))) [backslash]"
  by (simp add: win_Clean_def win_volume_def from_slash_def Let_def)

lemma from_slash_no_slash: "slash \<notin> set s \<Longrightarrow> from_slash s = s"
  by (auto simp: from_slash_def intro: map_idI)

lemma Split_no_char: "x \<notin> set s \<Longrightarrow> list_all (\<lambda>p. x \<notin> set p) (str_Split c s)"
proof (induction s)
  case (Cons y s)
  then show ?case
    by (cases "str_Split c s") auto
qed simp

lemma Join_no_char: "list_all (\<lambda>p. x \<notin> set p) ps \<Longrightarrow> x \<notin> set sep \<Longrightarrow> x \<notin> set (str_Join ps sep)"
  by (induction ps sep rule: str_Join.induct) auto

text \<open>The components of a path on drive C.\<close>

definition c_comps :: "string \<Rightarrow> string list" where
  "c_comps s = clean_comps True (str_Split backslash (backslash # from_slash s))"

lemma c_comps_laws:
  "list_all plain (c_comps s)" "list_all (\<lambda>p. slash \<notin> set p) (c_comps s)" "list_all (\<lambda>p. backslash \<notin> set p) (c_comps s)"
proof -
  show "list_all plain (c_comps s)"
    by (simp add: c_comps_def clean_comps_plain)
  have "slash \<notin> set (backslash # from_slash s)"
    by (auto simp: from_slash_def)
  from Split_no_char [OF this, of backslash] show "list_all (\<lambda>p. slash \<notin> set p) (c_comps s)"
    unfolding c_comps_def by (intro clean_comps_sub) simp_all
  have "list_all (\<lambda>p. backslash \<notin> set p) (str_Split backslash (backslash # from_slash s))"
    using str_Split_parts_no_sep by (auto simp: list_all_iff)
  then show "list_all (\<lambda>p. backslash \<notin> set p) (c_comps s)"
    unfolding c_comps_def by (intro clean_comps_sub) simp_all
qed

lemma c_comps_snoc:
  assumes "win_name n"
  shows "c_comps (s @ backslash # n) = c_comps s @ [n]"
proof -
  have n: "backslash \<notin> set n" "from_slash n = n" "n \<noteq> ''''" "n \<noteq> ''.''" "n \<noteq> ''..''"
    using assms by (auto simp: win_name_def intro: from_slash_no_slash)
  have "backslash # from_slash (s @ backslash # n) = (backslash # from_slash s) @ backslash # n"
    using n(2) by (simp add: from_slash_def)
  then show ?thesis
    unfolding c_comps_def by (simp only: str_Split_snoc [OF n(1)] clean_comps_snoc [OF n(3-5)])
qed

lemma c_comps_join:
  assumes "list_all plain cs" "list_all (\<lambda>p. slash \<notin> set p) cs" "list_all (\<lambda>p. backslash \<notin> set p) cs"
  shows "c_comps (str_Join cs [backslash]) = cs"
proof (cases "cs = []")
  case False
  have "from_slash (str_Join cs [backslash]) = str_Join cs [backslash]"
    using Join_no_char [OF assms(2), of "[backslash]"] by (intro from_slash_no_slash) simp
  moreover have "str_Split backslash (str_Join cs [backslash]) = cs"
    using assms(3) False by (intro str_Split_Join) (auto simp: list_all_iff)
  ultimately show ?thesis
    using assms(1) by (simp add: c_comps_def clean_comps_idem)
qed (simp add: c_comps_def clean_comps_def from_slash_def)

lemma win_Clean_again:
  assumes "win_name n"
  shows "win_Clean (win_Clean (''c:'' @ backslash # s) @ backslash # n) = win_Clean (''c:'' @ backslash # s @ backslash # n)"
proof -
  have clean: "win_Clean (''c:'' @ backslash # s) = ''c:'' @ backslash # str_Join (c_comps s) [backslash]" for s
    by (simp add: win_Clean_c [simplified] c_comps_def)
  have "c_comps (str_Join (c_comps s) [backslash] @ backslash # n) = c_comps (s @ backslash # n)"
    by (simp add: c_comps_snoc [OF assms] c_comps_join [OF c_comps_laws])
  then show ?thesis
    using clean [of s] clean [of "s @ backslash # n"] clean [of "str_Join (c_comps s) [backslash] @ backslash # n"] by simp
qed

lemma win_base_last: "win_base p \<noteq> '''' \<Longrightarrow> last p = last (win_base p) \<and> p \<noteq> ''''"
  by (cases p rule: rev_cases) (auto simp: win_base_def split: if_splits)

lemma win_append_name:
  assumes "win_name n"
  shows "\<exists>b. win_append a n = b @ n \<and> ends_dir b \<and> (\<forall>t. a = ''c:'' @ backslash # t \<longrightarrow> (\<exists>u. b = ''c:'' @ backslash # u))"
proof -
  have drop: "dropWhile is_sep n = n"
    using assms by (cases n) (auto simp: win_name_def is_sep_def)
  show ?thesis
    by (rule exI [of _ "if a = '''' \<or> is_sep (last a) \<or> last a = CHR '':'' then a else a @ [backslash]"])
      (auto simp: drop ends_dir_def is_sep_def)
qed

lemma win_Join_name:
  assumes "win_name m" and "win_name n"
  shows "win_Join [win_Join [''c:'' @ [backslash], d, m], n] = win_Join [''c:'' @ [backslash], d, m, n]"
proof -
  have "is_sep backslash"
    by (simp add: is_sep_def)
  then have d: "win_append (''c:'' @ [backslash]) d = ''c:'' @ backslash # dropWhile is_sep d"
    by simp
  obtain u where u: "win_append (win_append (''c:'' @ [backslash]) d) m = (''c:'' @ backslash # u) @ m" "ends_dir (''c:'' @ backslash # u)"
    using win_append_name [OF assms(1), of "win_append (''c:'' @ [backslash]) d"] d by metis
  have m: "m \<noteq> ''''" "\<not> is_sep (last m)" "last m \<noteq> CHR '':''"
    using assms(1) by (cases m rule: rev_cases; auto simp: win_name_def is_sep_def)+
  let ?J = "win_Clean (''c:'' @ backslash # u @ m)"
  have J: "win_Join [''c:'' @ [backslash], d, m] = ?J"
    using u(1) by (simp add: win_Join_def del: win_append.simps) (simp)
  have base: "win_base ?J = m"
    using win_base_Clean [OF assms(1) u(2)] by simp
  have "last ?J = last m \<and> ?J \<noteq> ''''"
    using base m(1) by (metis win_base_last)
  then have "win_append ?J n = ?J @ backslash # n"
    using m by simp
  then have 1: "win_Join [win_Join [''c:'' @ [backslash], d, m], n] = win_Clean (?J @ backslash # n)"
    unfolding J by (simp add: win_Join_def)
  have "win_append ((''c:'' @ backslash # u) @ m) n = ''c:'' @ backslash # (u @ m) @ backslash # n"
    using m by simp
  then have 2: "win_Join [''c:'' @ [backslash], d, m, n] = win_Clean (''c:'' @ backslash # (u @ m) @ backslash # n)"
    using u(1) by (simp add: win_Join_def del: win_append.simps) simp
  show ?thesis
    unfolding 1 2 using win_Clean_again [OF assms(2), of "u @ m"] by simp
qed

section \<open>Files\<close>

text \<open>
  The files by their path, and the error each operation reports on a path, if any. Directories are not
  recorded: an operation that fails for want of one is a fault.
\<close>

datatype wop = WMkdir | WCreate | WWrite | WRead | WStat | WRemove | WExecute

record wfs =
  w_files :: "(string, string) gomap"
  w_faults :: "wop \<Rightarrow> string \<Rightarrow> err option"

definition w_MkdirAll :: "string \<Rightarrow> wfs \<Rightarrow> unit result" where
  "w_MkdirAll p w = (case w_faults w WMkdir p of Some e \<Rightarrow> Inl e | None \<Rightarrow> Inr ())"

definition w_put :: "string \<Rightarrow> string \<Rightarrow> wfs \<Rightarrow> wfs" where
  "w_put p c w = w\<lparr>w_files := gm_put p c (w_files w)\<rparr>"

definition w_Create :: "string \<Rightarrow> wfs \<Rightarrow> unit result \<times> wfs" where
  "w_Create p w = (case w_faults w WCreate p of Some e \<Rightarrow> (Inl e, w) | None \<Rightarrow> (Inr (), w_put p '''' w))"

definition w_WriteFile :: "string \<Rightarrow> string \<Rightarrow> wfs \<Rightarrow> unit result \<times> wfs" where
  "w_WriteFile p c w =
     (case w_faults w WCreate p of Some e \<Rightarrow> (Inl e, w)
      | None \<Rightarrow> (case w_faults w WWrite p of Some e \<Rightarrow> (Inl e, w_put p '''' w) | None \<Rightarrow> (Inr (), w_put p c w)))"

definition w_ReadFile :: "string \<Rightarrow> wfs \<Rightarrow> string result" where
  "w_ReadFile p w =
     (case w_faults w WRead p of Some e \<Rightarrow> Inl e
      | None \<Rightarrow> (case gm_get (w_files w) p of None \<Rightarrow> Inl ErrNotExist | Some c \<Rightarrow> Inr c))"

definition w_Exists :: "string \<Rightarrow> wfs \<Rightarrow> bool" where
  "w_Exists p w \<longleftrightarrow> w_faults w WStat p = None \<and> gm_get (w_files w) p \<noteq> None"

definition w_Remove :: "string \<Rightarrow> wfs \<Rightarrow> unit result \<times> wfs" where
  "w_Remove p w =
     (case w_faults w WRemove p of Some e \<Rightarrow> (Inl e, w)
      | None \<Rightarrow> (case gm_get (w_files w) p of None \<Rightarrow> (Inl ErrNotExist, w)
                 | Some _ \<Rightarrow> (Inr (), w\<lparr>w_files := gm_del p (w_files w)\<rparr>)))"

text \<open>A successful write is read back, and an operation on one path leaves the others alone.\<close>

lemma w_put_get [simp]: "gm_get (w_files (w_put p c w)) q = (if q = p then Some c else gm_get (w_files w) q)"
  by (simp add: w_put_def)

lemma w_put_faults [simp]: "w_faults (w_put p c w) = w_faults w"
  by (simp add: w_put_def)

lemma w_WriteFile_ok:
  assumes "w_WriteFile p c w = (Inr (), w')"
  shows "w' = w_put p c w"
  using assms by (auto simp: w_WriteFile_def split: option.splits)

lemma w_WriteFile_other:
  assumes "w_WriteFile p c w = (r, w')" and "q \<noteq> p"
  shows "gm_get (w_files w') q = gm_get (w_files w) q" and "w_faults w' = w_faults w"
  using assms by (auto simp: w_WriteFile_def split: option.splits)

section \<open>Polling\<close>

text \<open>
  \<^verbatim>\<open>wait.PollUntilContextTimeout\<close>: the condition is tried until it holds, it fails, or the time is up, which is
  after \<open>n\<close> attempts. The state stands for the world as it changes from one attempt to the next.
\<close>

definition ErrDeadline :: err where
  "ErrDeadline = Errorf ''context deadline exceeded''"

fun poll_until :: "nat \<Rightarrow> ('s \<Rightarrow> bool result \<times> 's) \<Rightarrow> 's \<Rightarrow> unit result \<times> 's" where
  "poll_until 0 cond s = (Inl ErrDeadline, s)"
| "poll_until (Suc n) cond s =
     (case cond s of
        (Inl e, s') \<Rightarrow> (Inl e, s')
      | (Inr True, s') \<Rightarrow> (Inr (), s')
      | (Inr False, s') \<Rightarrow> poll_until n cond s')"

lemma poll_until_ok:
  assumes "poll_until n cond s = (Inr (), s')"
  obtains t where "cond t = (Inr True, s')"
  using assms
proof (induction n arbitrary: s)
  case (Suc n)
  then show ?case
    by (auto split: prod.splits sum.splits bool.splits)
qed simp

text \<open>If the condition never fails and holds after finitely many attempts, enough attempts succeed.\<close>

lemma poll_until_live:
  assumes "\<And>i. i < k \<Longrightarrow> fst (cond (((\<lambda>s. snd (cond s)) ^^ i) s)) = Inr False"
    and "fst (cond (((\<lambda>s. snd (cond s)) ^^ k) s)) = Inr True" and "k < n"
  shows "fst (poll_until n cond s) = Inr ()"
  using assms
proof (induction n arbitrary: s k)
  case (Suc n)
  show ?case
  proof (cases k)
    case 0
    with Suc.prems(2) show ?thesis
      by (cases "cond s") auto
  next
    case (Suc j)
    obtain s' where s': "cond s = (Inr False, s')"
      using Suc.prems(1) [of 0] Suc by (cases "cond s") auto
    have shift: "((\<lambda>s. snd (cond s)) ^^ Suc i) s = ((\<lambda>s. snd (cond s)) ^^ i) s'" for i
      unfolding funpow_Suc_right by (simp add: s')
    have "fst (poll_until n cond s') = Inr ()"
      using Suc.IH [of j s'] Suc.prems Suc shift by (metis Suc_less_eq)
    then show ?thesis
      by (simp add: s')
  qed
qed simp

section \<open>Supervised processes\<close>

text \<open>
  A process is run, and run again when it has ended unless the loop is left. The loop may go on forever, which
  is the result \<open>None\<close>.
\<close>

partial_function (option) supervise :: "('s \<Rightarrow> 's) \<Rightarrow> ('s \<Rightarrow> bool) \<Rightarrow> 's \<Rightarrow> 's option" where
  [code]: "supervise run stop s = (let s' = run s in if stop s' then Some s' else supervise run stop s')"

lemma supervise_runs:
  assumes "\<forall>i < n. \<not> stop ((run ^^ Suc i) s)" and "stop ((run ^^ Suc n) s)"
  shows "supervise run stop s = Some ((run ^^ Suc n) s)"
  using assms
proof (induction n arbitrary: s)
  case 0
  then show ?case
    by (simp add: supervise.simps)
next
  case (Suc n)
  have shift: "(run ^^ Suc i) (run s) = (run ^^ Suc (Suc i)) s" for i
    by (simp only: funpow_Suc_right comp_def)
  have "supervise run stop (run s) = Some ((run ^^ Suc (Suc n)) s)"
    using Suc.IH [of "run s"] Suc.prems shift by (metis Suc_less_eq)
  moreover have "\<not> stop (run s)"
    using Suc.prems(1) by force
  ultimately show ?case
    by (simp add: supervise.simps [of run stop s] Let_def)
qed

lemma supervise_sound:
  assumes "supervise run stop s = Some t"
  shows "\<exists>n. t = (run ^^ Suc n) s \<and> stop t \<and> (\<forall>i < n. \<not> stop ((run ^^ Suc i) s))"
proof (rule supervise.raw_induct [where P = "\<lambda>run stop s t. \<exists>n. t = (run ^^ Suc n) s \<and> stop t \<and> (\<forall>i < n. \<not> stop ((run ^^ Suc i) s))",
      OF _ assms])
  fix sup :: "('a \<Rightarrow> 'a) \<Rightarrow> ('a \<Rightarrow> bool) \<Rightarrow> 'a \<Rightarrow> 'a option" and run stop and s t :: 'a
  assume 1: "\<And>run stop s t. sup run stop s = Some t \<Longrightarrow> \<exists>n. t = (run ^^ Suc n) s \<and> stop t \<and> (\<forall>i < n. \<not> stop ((run ^^ Suc i) s))"
    "(let s' = run s in if stop s' then Some s' else sup run stop s') = Some t"
  show "\<exists>n. t = (run ^^ Suc n) s \<and> stop t \<and> (\<forall>i < n. \<not> stop ((run ^^ Suc i) s))"
  proof (cases "stop (run s)")
    case True
    then show ?thesis
      using 1(2) by (intro exI [of _ 0]) (simp add: Let_def)
  next
    case False
    then have "sup run stop (run s) = Some t"
      using 1(2) by (simp add: Let_def)
    from 1(1) [OF this] obtain n where n: "t = (run ^^ Suc n) (run s)" "stop t" "\<forall>i < n. \<not> stop ((run ^^ Suc i) (run s))"
      by blast
    have shift: "(run ^^ Suc i) (run s) = (run ^^ Suc (Suc i)) s" for i
      by (simp only: funpow_Suc_right comp_def)
    have "\<not> stop ((run ^^ Suc i) s)" if "i < Suc n" for i
      using n(3) False shift that by (cases i) auto
    then show ?thesis
      using n(1,2) shift by (intro exI [of _ "Suc n"]) auto
  qed
qed


end
