(* ===== verification/Embedded_Registry.thy ===== *)
theory Embedded_Registry
  imports Win_Base
begin

text \<open>
  \<^verbatim>\<open>pkg/bootstrap/spegel.go\<close>: before the runtime image is fetched, the executors of both systems wait for the
  embedded registry when it is in use. \<open>valid\<close> tells whether a mirror parses as the host of a URL and \<open>isLocal\<close>
  whether it is this host. The order of the mirrors does not matter.
\<close>

definition isEmbeddedRegistryConfigured :: "(string \<Rightarrow> bool) \<Rightarrow> (string \<Rightarrow> bool) \<Rightarrow> string list \<Rightarrow> bool \<Rightarrow> bool \<Rightarrow> bool" where
  "isEmbeddedRegistryConfigured valid isLocal mirrors enabled running \<longleftrightarrow>
     list_ex (\<lambda>host. valid (''https://'' @ host) \<and> \<not> isLocal host) mirrors \<and> enabled \<and> running"

definition WaitForEmbeddedRegistry :: "bool \<Rightarrow> nat \<Rightarrow> ('h \<Rightarrow> bool \<times> 'h) \<Rightarrow> 'h \<Rightarrow> unit result \<times> 'h" where
  "WaitForEmbeddedRegistry configured n isReady h =
     (if configured then poll_until n (\<lambda>h. case isReady h of (ready, h) \<Rightarrow> (Inr ready, h)) h else (Inr (), h))"

text \<open>The wait only ever fails because the time is over.\<close>

lemma WaitForEmbeddedRegistry_error:
  "fst (WaitForEmbeddedRegistry configured n isReady h) = Inl e \<Longrightarrow> configured \<and> e = ErrDeadline"
proof -
  have "fst (poll_until n (\<lambda>h. case isReady h of (ready, h) \<Rightarrow> (Inr ready, h)) h) = Inl e \<Longrightarrow> e = ErrDeadline"
    by (induction n arbitrary: h) (auto split: prod.splits bool.splits)
  then show "fst (WaitForEmbeddedRegistry configured n isReady h) = Inl e \<Longrightarrow> configured \<and> e = ErrDeadline"
    by (auto simp: WaitForEmbeddedRegistry_def split: if_splits)
qed

end
