(* ===== verification/Static_Runtime.thy ===== *)
theory Static_Runtime
  imports Static_Executor Static_Reconcile Bootstrap_Charts Embedded_Registry
begin

text \<open>
  The goroutines of \<^verbatim>\<open>StaticPodConfig\<close> (\<^verbatim>\<open>pkg/executor/staticpod/staticpod.go\<close>) and the handlers that wait for them:
  \<^verbatim>\<open>Bootstrap\<close> starts the staging of the runtime image and the synchronisation of the static pods, \<^verbatim>\<open>Containerd\<close>,
  \<^verbatim>\<open>Docker\<close> and \<^verbatim>\<open>CRI\<close> wait for the staged data, and \<^verbatim>\<open>APIServerHandlers\<close> waits for the API server. The machine
  interleaves them with the handlers of \<open>Static_Executor\<close> and with arbitrary changes of the world outside,
  and so joins the executor with the staging of \<open>Bootstrap_Stage\<close> and the checks of \<open>Static_Reconcile\<close>.
\<close>

section \<open>State\<close>

text \<open>Goroutines that have been started and have not ended, and calls that wait for a channel.\<close>

datatype task = Staging | Update_manifests | Sync_pods | Await_apiserver | Test_etcd

datatype rt_call = Call_Containerd | Call_Docker | Call_CRI string | Call_APIServerHandlers

record 'w rt =
  rt_exec :: exec
  rt_world :: 'w
  rt_PATH :: string
  rt_tasks :: "task list"
  rt_calls :: "rt_call list"
  rt_shutdown :: "err list"

text \<open>
  What other packages do. The world outside is what the container runtime, the embedded registry and the
  services in \<^verbatim>\<open>containerd.Run\<close>, \<^verbatim>\<open>cridockerd.Run\<close> and \<^verbatim>\<open>cri.WaitForService\<close> change.
\<close>

record ('w, 'i, 'o) rt_env =
  re_host :: host
  re_sha :: "string \<Rightarrow> string"
  re_stage :: "'i stage_env"
  re_DataDir :: string
  re_ContainerRuntimeEndpoint :: string
  re_PodManifestPath :: string
  re_registry :: bool
  re_registry_polls :: nat
  re_registry_Ready :: "'w \<Rightarrow> bool \<times> 'w"
  re_libs :: "'o manifest_libs"
  re_orders :: map_orders
  re_copyDir :: "string \<Rightarrow> string \<Rightarrow> disk \<Rightarrow> unit result \<times> disk"
  re_charts :: "HelmChart list result"
  re_values :: node_values
  re_cri :: "'w cri"
  re_sync :: sync_libs
  re_containerd :: "'w \<Rightarrow> unit result \<times> 'w"
  re_cridockerd :: "'w \<Rightarrow> unit result \<times> 'w"
  re_WaitForService :: "string \<Rightarrow> 'w \<Rightarrow> unit result \<times> 'w"
  re_GetClientSet :: "string \<Rightarrow> unit result"
  re_Program :: string

abbreviation rt_resolver :: "'w rt \<Rightarrow> resolver" where
  "rt_resolver x \<equiv> cfg_Resolver (sp_Config (ex_cfg (rt_exec x)))"

abbreviation rt_disk :: "'w rt \<Rightarrow> disk" where
  "rt_disk x \<equiv> ex_disk (rt_exec x)"

abbreviation rt_closed :: "'w rt \<Rightarrow> chan list" where
  "rt_closed x \<equiv> ex_closed (rt_exec x)"

definition set_disk :: "disk \<Rightarrow> 'w rt \<Rightarrow> 'w rt" where
  "set_disk d x = x\<lparr>rt_exec := (rt_exec x)\<lparr>ex_disk := d\<rparr>\<rparr>"

text \<open>A panic or a fatal error ends the process.\<close>

definition exit_process :: "'w rt \<Rightarrow> 'w rt" where
  "exit_process x = x\<lparr>rt_exec := (rt_exec x)\<lparr>ex_exited := True\<rparr>\<rparr>"

definition close_ready :: "chan \<Rightarrow> 'w rt \<Rightarrow> unit outcome \<times> 'w rt" where
  "close_ready ch x =
     (if \<not> ex_boot (rt_exec x) then (Inl (Panic ''close of nil channel''), exit_process x)
      else if ch \<in> set (rt_closed x) then (Inl (Panic ''close of closed channel''), exit_process x)
      else (Inr (), x\<lparr>rt_exec := (rt_exec x)\<lparr>ex_closed := ch # rt_closed x\<rparr>\<rparr>))"

section \<open>Bootstrap and staging\<close>

text \<open>
  The synchronisation is started first, so it runs even when a later part of \<^verbatim>\<open>Bootstrap\<close> fails. The directory
  of the binaries is put in front of the search path before they are staged.
\<close>

definition rt_binDir :: "('w, 'i, 'o) rt_env \<Rightarrow> resolver \<Rightarrow> string result" where
  "rt_binDir env r = BinDir (h_pkg (re_host env)) (h_build (re_host env)) (re_sha env) r (re_DataDir env)"

definition rt_Bootstrap :: "('w, 'i, 'o) rt_env \<Rightarrow> 'w rt \<Rightarrow> unit outcome \<times> 'w rt" where
  "rt_Bootstrap env x0 =
     (let x = x0\<lparr>rt_tasks := rt_tasks x0 @ [Sync_pods]\<rparr> in
      case Bootstrap (re_host env) (rt_binDir env) (rt_exec x) of
        (Inl f, e) \<Rightarrow> (Inl f, x\<lparr>rt_exec := e\<rparr>)
      | (Inr _, e) \<Rightarrow>
         (let x = x\<lparr>rt_exec := e\<rparr> in
          case rt_binDir env (rt_resolver x) of
            Inl err \<Rightarrow> (Inl (Err err), x)
          | Inr binDir \<Rightarrow> (Inr (), x\<lparr>rt_PATH := binDir @ '':'' @ rt_PATH x, rt_tasks := rt_tasks x @ [Staging]\<rparr>)))"

abbreviation rt_Stage :: "('w, 'i, 'o) rt_env \<Rightarrow> resolver \<Rightarrow> disk \<Rightarrow> unit result \<times> disk" where
  "rt_Stage env r d \<equiv>
     Stage (h_pkg (re_host env)) (h_build (re_host env)) (re_sha env) (re_stage env) r (re_DataDir env) d"

text \<open>The result of the wait for the embedded registry is only logged.\<close>

definition stageData :: "('w, 'i, 'o) rt_env \<Rightarrow> 'w rt \<Rightarrow> unit result \<times> 'w rt" where
  "stageData env x0 =
     (let x = x0\<lparr>rt_world := snd (WaitForEmbeddedRegistry (re_registry env) (re_registry_polls env)
                                    (re_registry_Ready env) (rt_world x0))\<rparr> in
      case rt_Stage env (rt_resolver x) (rt_disk x) of
        (Inl e, d) \<Rightarrow> (Inl e, set_disk d x)
      | (Inr _, d) \<Rightarrow>
          (Inr (), set_disk d (if sp_IsServer (ex_cfg (rt_exec x))
                               then x\<lparr>rt_tasks := rt_tasks x @ [Update_manifests]\<rparr> else x)))"

definition run_staging :: "('w, 'i, 'o) rt_env \<Rightarrow> 'w rt \<Rightarrow> 'w rt" where
  "run_staging env x =
     (case stageData env x of
        (Inl e, x) \<Rightarrow> x\<lparr>rt_shutdown := rt_shutdown x @ [e]\<rparr>
      | (Inr _, x) \<Rightarrow> snd (close_ready DataReady x))"

definition run_update :: "('w, 'i, 'o) rt_env \<Rightarrow> 'w rt \<Rightarrow> 'w rt" where
  "run_update env x =
     (let s = ex_cfg (rt_exec x) in
      case UpdateManifests (h_pkg (re_host env)) (h_build (re_host env)) (re_sha env) (re_libs env) (re_orders env)
             (re_copyDir env) (re_charts env) (cfg_Resolver (sp_Config s)) (sp_IngressController s) (re_values env) (sp_Prime s)
             (rt_disk x) of
        (Some e, d) \<Rightarrow> set_disk d (x\<lparr>rt_shutdown := rt_shutdown x @ [e]\<rparr>)
      | (None, d) \<Rightarrow> set_disk d x)"

section \<open>Handlers that wait\<close>

text \<open>
  The authenticator of bootstrap tokens: tokens are looked up among the secrets of a namespace, accepted for
  an audience, and authenticated requests are put into the group of authenticated users.
\<close>

record authenticator =
  au_file :: string
  au_namespace :: string
  au_audiences :: "string list"
  au_authenticated_group :: bool

definition BootstrapTokenAuthenticator :: "(string \<Rightarrow> unit result) \<Rightarrow> string \<Rightarrow> string \<Rightarrow> authenticator result" where
  "BootstrapTokenAuthenticator getClientSet program file =
     try_then (getClientSet file) (\<lambda>_. Inr
       \<lparr>au_file = file, au_namespace = ''kube-system'', au_audiences = [program], au_authenticated_group = True\<rparr>)"

definition APIServerHandlers_ready :: "('w, 'i, 'o) rt_env \<Rightarrow> 'w rt \<Rightarrow> authenticator result" where
  "APIServerHandlers_ready env x =
     BootstrapTokenAuthenticator (re_GetClientSet env) (re_Program env)
       (filepath_Join [cfg_DataDir (sp_Config (ex_cfg (rt_exec x))), ''server'', ''cred'', ''api-server.kubeconfig''])"

fun wait_chan :: "rt_call \<Rightarrow> chan" where
  "wait_chan Call_APIServerHandlers = ApiServerReady"
| "wait_chan _ = DataReady"

fun start_runtime :: "('w, 'i, 'o) rt_env \<Rightarrow> rt_call \<Rightarrow> 'w \<Rightarrow> unit result \<times> 'w" where
  "start_runtime env Call_Containerd w = re_containerd env w"
| "start_runtime env Call_Docker w = re_cridockerd env w"
| "start_runtime env (Call_CRI endpoint) w =
     (if endpoint \<noteq> ''/dev/null'' then re_WaitForService env endpoint w else (Inr (), w))"
| "start_runtime env Call_APIServerHandlers w = (Inr (), w)"

definition rt_arrive :: "rt_call \<Rightarrow> 'w rt \<Rightarrow> unit outcome \<times> 'w rt" where
  "rt_arrive c x =
     (case ready_chan (wait_chan c) (rt_exec x) of
        Inl f \<Rightarrow> (Inl f, exit_process x)
      | Inr _ \<Rightarrow> (Inr (), x\<lparr>rt_calls := rt_calls x @ [c]\<rparr>))"

text \<open>
  The channel of the container runtime is closed unless its start fails, which the caller is told. The caller of
  \<^verbatim>\<open>APIServerHandlers\<close> gets the authenticator and a handler that knows no path, or the error.
\<close>

definition rt_resume :: "('w, 'i, 'o) rt_env \<Rightarrow> rt_call \<Rightarrow> 'w rt \<Rightarrow> unit outcome \<times> 'w rt" where
  "rt_resume env c x =
     (if c = Call_APIServerHandlers then (lift_err (map_sum id (\<lambda>_. ()) (APIServerHandlers_ready env x)), x)
      else case start_runtime env c (rt_world x) of
        (Inl e, w) \<Rightarrow> (Inl (Err e), x\<lparr>rt_world := w\<rparr>)
      | (Inr _, w) \<Rightarrow> close_ready CriReady (x\<lparr>rt_world := w\<rparr>))"

definition rt_CNI :: "'w rt \<Rightarrow> unit outcome \<times> 'w rt" where
  "rt_CNI x = (Inr (), x)"

definition rt_IsSelfHosted :: bool where
  "rt_IsSelfHosted = True"

section \<open>The machine\<close>

text \<open>What an observer sees: staging with its result, the start of a container runtime, and the end of the synchronisation.\<close>

datatype 'w label =
    Staged disk "unit result" disk
  | Runtime rt_call "unit result"
  | Synced disk 'w
  | Sync_cancelled
  | Silent

text \<open>
  One attempt of the synchronisation is one step, which ends the goroutine's loop or leaves it; it may also be
  ended by the time limit, which is fatal, or by the cancellation of its context. Channels of the executor are
  closed by its own goroutines only.
\<close>

definition own_close :: "event \<Rightarrow> bool" where
  "own_close e \<longleftrightarrow> e \<in> Close_chan ` {ApiServerReady, EtcdReady, CriReady, DataReady}"

definition new_tasks :: "event \<Rightarrow> task list" where
  "new_tasks e = (case e of Call_ETCD _ _ _ \<Rightarrow> [Test_etcd] | _ \<Rightarrow> [])"

definition drop_task :: "task \<Rightarrow> 'w rt \<Rightarrow> 'w rt" where
  "drop_task t x = x\<lparr>rt_tasks := remove1 t (rt_tasks x)\<rparr>"

definition sync_attempt :: "('w, 'i, 'o) rt_env \<Rightarrow> 'w rt \<Rightarrow> bool \<times> 'w" where
  "sync_attempt env x =
     reconcile_once (re_cri env) (re_sync env) (re_ContainerRuntimeEndpoint env)
       (PodManifestsDir (re_PodManifestPath env) (re_DataDir env)) (rt_disk x) (rt_world x)"

definition staged_label :: "('w, 'i, 'o) rt_env \<Rightarrow> 'w rt \<Rightarrow> 'w label" where
  "staged_label env x =
     (case rt_Stage env (rt_resolver x) (rt_disk x) of (r, d) \<Rightarrow> Staged (rt_disk x) r d)"

definition runtime_label :: "('w, 'i, 'o) rt_env \<Rightarrow> rt_call \<Rightarrow> 'w rt \<Rightarrow> 'w label" where
  "runtime_label env c x =
     (if c = Call_APIServerHandlers then Silent else Runtime c (fst (start_runtime env c (rt_world x))))"

abbreviation live :: "'w rt \<Rightarrow> bool" where
  "live x \<equiv> \<not> ex_exited (rt_exec x)"

inductive rt_step :: "('w, 'i, 'o) rt_env \<Rightarrow> 'w label \<Rightarrow> 'w rt \<Rightarrow> 'w rt \<Rightarrow> bool" for env where
  handler: "live x \<Longrightarrow> exec_step (re_host env) e (rt_exec x) y \<Longrightarrow> \<not> own_close e \<Longrightarrow>
     rt_step env Silent x (x\<lparr>rt_exec := y, rt_tasks := rt_tasks x @ new_tasks e\<rparr>)"
| arrive: "live x \<Longrightarrow> rt_step env Silent x (snd (rt_arrive c x))"
| resume: "live x \<Longrightarrow> c \<in> set (rt_calls x) \<Longrightarrow> wait_chan c \<in> set (rt_closed x) \<Longrightarrow>
     rt_step env (runtime_label env c x) x (snd (rt_resume env c (x\<lparr>rt_calls := remove1 c (rt_calls x)\<rparr>)))"
| staging: "live x \<Longrightarrow> Staging \<in> set (rt_tasks x) \<Longrightarrow>
     rt_step env (staged_label env x) x (run_staging env (drop_task Staging x))"
| update: "live x \<Longrightarrow> Update_manifests \<in> set (rt_tasks x) \<Longrightarrow>
     rt_step env Silent x (run_update env (drop_task Update_manifests x))"
| synced: "live x \<Longrightarrow> Sync_pods \<in> set (rt_tasks x) \<Longrightarrow> sync_attempt env x = (True, w) \<Longrightarrow>
     rt_step env (Synced (rt_disk x) w) x
       ((drop_task Sync_pods x)\<lparr>rt_world := w, rt_tasks := remove1 Sync_pods (rt_tasks x) @ [Await_apiserver]\<rparr>)"
| sync_again: "live x \<Longrightarrow> Sync_pods \<in> set (rt_tasks x) \<Longrightarrow> sync_attempt env x = (False, w) \<Longrightarrow>
     rt_step env Silent x (x\<lparr>rt_world := w\<rparr>)"
| sync_timeout: "live x \<Longrightarrow> Sync_pods \<in> set (rt_tasks x) \<Longrightarrow> rt_step env Silent x (exit_process x)"
| sync_cancelled: "live x \<Longrightarrow> Sync_pods \<in> set (rt_tasks x) \<Longrightarrow>
     rt_step env Sync_cancelled x (x\<lparr>rt_tasks := remove1 Sync_pods (rt_tasks x) @ [Await_apiserver]\<rparr>)"
| apiserver_ready: "live x \<Longrightarrow> Await_apiserver \<in> set (rt_tasks x) \<Longrightarrow>
     rt_step env Silent x (snd (close_ready ApiServerReady (drop_task Await_apiserver x)))"
| etcd_ready: "live x \<Longrightarrow> Test_etcd \<in> set (rt_tasks x) \<Longrightarrow>
     rt_step env Silent x (snd (close_ready EtcdReady (drop_task Test_etcd x)))"
| etcd_cancelled: "live x \<Longrightarrow> Test_etcd \<in> set (rt_tasks x) \<Longrightarrow> rt_step env Silent x (drop_task Test_etcd x)"
| world: "live x \<Longrightarrow> rt_step env Silent x (x\<lparr>rt_world := w\<rparr>)"

inductive_cases rt_stepE: "rt_step env l x y"

text \<open>Runs grow at their end, so that an invariant relates a state to everything observed before it.\<close>

inductive rt_run :: "('w, 'i, 'o) rt_env \<Rightarrow> 'w rt \<Rightarrow> 'w label list \<Rightarrow> 'w rt \<Rightarrow> bool" for env x where
  start: "rt_run env x [] x"
| step: "rt_run env x ls y \<Longrightarrow> rt_step env l y z \<Longrightarrow> rt_run env x (ls @ [l]) z"

section \<open>What a run keeps\<close>

lemma apiserver_policy_Config [simp]: "sp_Config (apiserver_policy s) = sp_Config s"
  by (simp add: apiserver_policy_def)

lemma APIServer_finish_cfg: "ex_cfg (snd (APIServer_finish h st x)) = ex_cfg x"
  by (simp add: APIServer_finish_def After_def Let_def split: prod.split sum.split)

lemma APIServer_configure_Config: "sp_Config (ex_cfg (snd (APIServer_configure h args x))) = sp_Config (ex_cfg x)"
  by (simp add: APIServer_configure_def APIServer_finish_cfg Let_def split: prod.split sum.split)

lemma handler_resolver:
  "sp_Config (ex_cfg (snd (KubeProxy_start h rnd args x))) = sp_Config (ex_cfg x)"
  "sp_Config (ex_cfg (snd (APIServer_start h args x))) = sp_Config (ex_cfg x)"
  "sp_Config (ex_cfg (snd (Scheduler_start h args x))) = sp_Config (ex_cfg x)"
  "sp_Config (ex_cfg (snd (ControllerManager_start h args x))) = sp_Config (ex_cfg x)"
  "sp_Config (ex_cfg (snd (CloudControllerManager_start h args x))) = sp_Config (ex_cfg x)"
  "sp_Config (ex_cfg (snd (Kubelet_start fp args x))) = sp_Config (ex_cfg x)"
  "sp_Config (ex_cfg (run_job h rnd spec x)) = sp_Config (ex_cfg x)"
  by (simp_all add: KubeProxy_start_def APIServer_start_def APIServer_configure_Config Scheduler_start_def
      ControllerManager_start_def CloudControllerManager_start_def Kubelet_start_def run_job_def After_def Let_def
      split: prod.split sum.split)

lemma exec_step_resolver: "exec_step h e x x' \<Longrightarrow> sp_Config (ex_cfg x') = sp_Config (ex_cfg x)"
  by (erule exec_step_cases)
     (auto simp: handle_def handler_resolver ETCD_fields split: event.splits option.splits prod.splits)

lemma exec_step_own:
  assumes "exec_step h e x x'" and "\<not> own_close e" and "ch \<in> {ApiServerReady, EtcdReady, CriReady, DataReady}"
  shows "ch \<in> set (ex_closed x') \<longleftrightarrow> ch \<in> set (ex_closed x)"
  using assms
  by (elim exec_step_cases)
     (auto simp: handle_def handler_closed ETCD_fields own_close_def split: event.splits option.splits prod.splits)


lemmas rt_defs = set_disk_def exit_process_def drop_task_def close_ready_def rt_arrive_def rt_resume_def

lemma close_ready_fields:
  "rt_resolver (snd (close_ready ch x)) = rt_resolver x" "rt_PATH (snd (close_ready ch x)) = rt_PATH x"
  "rt_tasks (snd (close_ready ch x)) = rt_tasks x" "rt_shutdown (snd (close_ready ch x)) = rt_shutdown x"
  "set (rt_closed (snd (close_ready ch x))) \<subseteq> insert ch (set (rt_closed x))"
  "rt_disk (snd (close_ready ch x)) = rt_disk x"
  by (auto simp: rt_defs)

lemma rt_arrive_fields:
  "rt_resolver (snd (rt_arrive c x)) = rt_resolver x" "rt_PATH (snd (rt_arrive c x)) = rt_PATH x"
  "rt_tasks (snd (rt_arrive c x)) = rt_tasks x" "rt_shutdown (snd (rt_arrive c x)) = rt_shutdown x"
  "rt_closed (snd (rt_arrive c x)) = rt_closed x"
  by (simp_all add: rt_defs split: sum.split)

lemma rt_resume_fields:
  "rt_resolver (snd (rt_resume env c x)) = rt_resolver x" "rt_PATH (snd (rt_resume env c x)) = rt_PATH x"
  "rt_tasks (snd (rt_resume env c x)) = rt_tasks x" "rt_shutdown (snd (rt_resume env c x)) = rt_shutdown x"
  "set (rt_closed (snd (rt_resume env c x))) \<subseteq> insert CriReady (set (rt_closed x))"
  by (auto simp: rt_resume_def close_ready_fields dest: subsetD [OF close_ready_fields(5)] split: sum.splits prod.splits if_splits)

lemma rt_resume_cri:
  assumes "CriReady \<in> set (rt_closed (snd (rt_resume env c x)))" and "CriReady \<notin> set (rt_closed x)"
  shows "c \<noteq> Call_APIServerHandlers \<and> fst (start_runtime env c (rt_world x)) = Inr ()"
  using assms by (auto simp: rt_resume_def split: sum.splits prod.splits if_splits)

lemma run_update_fields:
  "rt_resolver (run_update env x) = rt_resolver x" "rt_PATH (run_update env x) = rt_PATH x"
  "rt_tasks (run_update env x) = rt_tasks x" "set (rt_shutdown x) \<subseteq> set (rt_shutdown (run_update env x))"
  "rt_closed (run_update env x) = rt_closed x"
  by (auto simp: run_update_def Let_def set_disk_def split: prod.split option.split)

lemma run_staging_fields:
  "rt_resolver (run_staging env x) = rt_resolver x" "rt_PATH (run_staging env x) = rt_PATH x"
  "set (rt_shutdown x) \<subseteq> set (rt_shutdown (run_staging env x))"
  "count_list (rt_tasks (run_staging env x)) Staging = count_list (rt_tasks x) Staging"
  "Await_apiserver \<in> set (rt_tasks (run_staging env x)) \<longleftrightarrow> Await_apiserver \<in> set (rt_tasks x)"
  by (auto simp: run_staging_def stageData_def Let_def set_disk_def close_ready_fields split: prod.split sum.split)

lemma run_staging_closed:
  assumes "rt_Stage env (rt_resolver x) (rt_disk x) = (r, d)"
  shows "set (rt_closed (run_staging env x)) \<subseteq> set (rt_closed x) \<union> (if r = Inr () then {DataReady} else {})"
    and "r = Inl e \<Longrightarrow> e \<in> set (rt_shutdown (run_staging env x))"
proof -
  show "set (rt_closed (run_staging env x)) \<subseteq> set (rt_closed x) \<union> (if r = Inr () then {DataReady} else {})"
    using assms close_ready_fields(5)
    by (cases r) (fastforce simp: run_staging_def stageData_def Let_def set_disk_def split: if_splits)+
  show "r = Inl e \<Longrightarrow> e \<in> set (rt_shutdown (run_staging env x))"
    using assms by (simp add: run_staging_def stageData_def Let_def set_disk_def)
qed

lemma drop_task_fields [simp]:
  "rt_exec (drop_task t x) = rt_exec x" "rt_PATH (drop_task t x) = rt_PATH x" "rt_shutdown (drop_task t x) = rt_shutdown x"
  "rt_tasks (drop_task t x) = remove1 t (rt_tasks x)"
  by (simp_all add: drop_task_def)

lemma exit_process_fields [simp]:
  "rt_resolver (exit_process x) = rt_resolver x" "rt_PATH (exit_process x) = rt_PATH x" "rt_tasks (exit_process x) = rt_tasks x"
  "rt_shutdown (exit_process x) = rt_shutdown x" "rt_closed (exit_process x) = rt_closed x"
  by (simp_all add: exit_process_def)

lemmas rt_fields = close_ready_fields(1-4,6) rt_arrive_fields rt_resume_fields(1-4) run_update_fields(1-3,5) run_staging_fields(1,2,4,5)

lemma rt_step_keeps:
  assumes "rt_step env l x y"
  shows "rt_resolver y = rt_resolver x" and "rt_PATH y = rt_PATH x" and "set (rt_shutdown x) \<subseteq> set (rt_shutdown y)"
proof -
  show "rt_resolver y = rt_resolver x"
    using assms by (elim rt_stepE) (auto simp: rt_fields exec_step_resolver)
  show "rt_PATH y = rt_PATH x"
    using assms by (elim rt_stepE) (auto simp: rt_fields)
  show "set (rt_shutdown x) \<subseteq> set (rt_shutdown y)"
    using assms
    by (elim rt_stepE)
       (auto simp: rt_fields intro!: subsetD [OF run_update_fields(4)] subsetD [OF run_staging_fields(3)])
qed


lemma rt_step_data:
  assumes "rt_step env l x y" and "DataReady \<in> set (rt_closed y)" and "DataReady \<notin> set (rt_closed x)"
  shows "\<exists>d d'. l = Staged d (Inr ()) d'"
  using assms
proof cases
  case (staging)
  obtain r d where s: "rt_Stage env (rt_resolver x) (rt_disk x) = (r, d)"
    by (cases "rt_Stage env (rt_resolver x) (rt_disk x)")
  have "r = Inr ()"
    using run_staging_closed(1) [of env "drop_task Staging x" r d] s staging(2) assms(2,3) by (auto split: if_splits)
  with s staging(1) show ?thesis by (simp add: staged_label_def)
next
  case (resume c)
  then show ?thesis using assms(2,3) rt_resume_fields(5) [of env c "x\<lparr>rt_calls := remove1 c (rt_calls x)\<rparr>"] by auto
next
  case (apiserver_ready)
  then show ?thesis using assms(2,3) close_ready_fields(5) [of ApiServerReady "drop_task Await_apiserver x"] by auto
next
  case (etcd_ready)
  then show ?thesis using assms(2,3) close_ready_fields(5) [of EtcdReady "drop_task Test_etcd x"] by auto
qed (auto simp: rt_fields dest: exec_step_own)

lemma rt_step_cri:
  assumes "rt_step env l x y" and "CriReady \<in> set (rt_closed y)" and "CriReady \<notin> set (rt_closed x)"
  shows "\<exists>c. l = Runtime c (Inr ())"
  using assms
proof cases
  case (staging)
  obtain r d where "rt_Stage env (rt_resolver x) (rt_disk x) = (r, d)"
    by (cases "rt_Stage env (rt_resolver x) (rt_disk x)")
  then show ?thesis
    using run_staging_closed(1) [of env "drop_task Staging x" r d] staging(2) assms(2,3) by (auto split: if_splits)
next
  case (resume c)
  then show ?thesis
    using assms(2,3) rt_resume_cri [of env c "x\<lparr>rt_calls := remove1 c (rt_calls x)\<rparr>"] by (auto simp: runtime_label_def)
next
  case (apiserver_ready)
  then show ?thesis using assms(2,3) close_ready_fields(5) [of ApiServerReady "drop_task Await_apiserver x"] by auto
next
  case (etcd_ready)
  then show ?thesis using assms(2,3) close_ready_fields(5) [of EtcdReady "drop_task Test_etcd x"] by auto
qed (auto simp: rt_fields dest: exec_step_own)

text \<open>The API server is awaited, or reported ready, only after the synchronisation has ended.\<close>

abbreviation past_sync :: "'w rt \<Rightarrow> bool" where
  "past_sync x \<equiv> ApiServerReady \<in> set (rt_closed x) \<or> Await_apiserver \<in> set (rt_tasks x)"

lemma rt_step_sync:
  assumes "rt_step env l x y" and "past_sync y" and "\<not> past_sync x"
  shows "(\<exists>d w. l = Synced d w) \<or> l = Sync_cancelled"
  using assms
proof cases
  case (staging)
  obtain r d where "rt_Stage env (rt_resolver x) (rt_disk x) = (r, d)"
    by (cases "rt_Stage env (rt_resolver x) (rt_disk x)")
  then show ?thesis
    using run_staging_closed(1) [of env "drop_task Staging x" r d] staging(2) assms(2,3)
    by (auto simp: run_staging_fields(5) split: if_splits dest: set_remove1_subset [THEN subsetD])
next
  case (resume c)
  then show ?thesis
    using assms(2,3) rt_resume_fields(5) [of env c "x\<lparr>rt_calls := remove1 c (rt_calls x)\<rparr>"] by (auto simp: rt_fields)
next
  case (etcd_ready)
  then show ?thesis
    using assms(2,3) close_ready_fields(5) [of EtcdReady "drop_task Test_etcd x"]
    by (auto simp: rt_fields dest: set_remove1_subset [THEN subsetD])
next
  case (handler e y')
  then show ?thesis using assms(2,3) by (auto simp: new_tasks_def dest: exec_step_own split: event.splits)
qed (auto simp: rt_fields dest: set_remove1_subset [THEN subsetD])

lemma rt_step_synced:
  assumes "rt_step env (Synced d w) x y"
  shows "reconcile_each (re_cri env) (re_sync env) d (PodManifestsDir (re_PodManifestPath env) (re_DataDir env)) reconcile_pods
      (rt_world x) = (True, w)"
  using assms
  by cases (auto simp: runtime_label_def staged_label_def sync_attempt_def reconcile_once_def split: if_splits prod.splits sum.splits)

lemma wait_chan_data: "c \<noteq> Call_APIServerHandlers \<Longrightarrow> wait_chan c = DataReady"
  by (cases c) simp_all

lemma rt_step_runtime:
  assumes "rt_step env (Runtime c r) x y"
  shows "DataReady \<in> set (rt_closed x)"
  using assms by cases (auto simp: runtime_label_def staged_label_def wait_chan_data split: if_splits prod.splits)

text \<open>Staging is run once.\<close>

definition is_staged :: "'w label \<Rightarrow> bool" where
  "is_staged l = (case l of Staged _ _ _ \<Rightarrow> True | _ \<Rightarrow> False)"

lemma count_list_remove1: "count_list (remove1 x xs) y = count_list xs y - (if x = y then 1 else 0)"
  by (induction xs) (auto simp: count_list_0_iff)

lemma rt_step_staging:
  assumes "rt_step env l x y"
  shows "count_list (rt_tasks y) Staging + (if is_staged l then 1 else 0) = count_list (rt_tasks x) Staging"
    and "l = Staged d r d' \<Longrightarrow> rt_Stage env (rt_resolver x) d = (r, d')"
    and "l = Staged d (Inl e) d' \<Longrightarrow> e \<in> set (rt_shutdown y)"
proof -
  show "count_list (rt_tasks y) Staging + (if is_staged l then 1 else 0) = count_list (rt_tasks x) Staging"
    using assms
  proof cases
    case (staging)
    then have "0 < count_list (rt_tasks x) Staging"
      by (metis count_list_0_iff gr0I)
    with staging show ?thesis
      by (simp add: run_staging_fields(4) count_list_remove1 staged_label_def is_staged_def split: prod.split)
  qed (auto simp: rt_fields is_staged_def runtime_label_def new_tasks_def count_list_remove1 split: event.splits)
  show "rt_Stage env (rt_resolver x) d = (r, d')" if "l = Staged d r d'"
    using assms that by cases (auto simp: runtime_label_def staged_label_def split: if_splits prod.splits)
  show "e \<in> set (rt_shutdown y)" if "l = Staged d (Inl e) d'"
    using assms that
    by cases (auto simp: runtime_label_def staged_label_def split: if_splits prod.splits intro!: run_staging_closed(2))
qed

section \<open>Runs\<close>

abbreviation staged_ok :: "'w label list \<Rightarrow> bool" where
  "staged_ok ls \<equiv> \<exists>d d'. Staged d (Inr ()) d' \<in> set ls"

text \<open>What holds after any run of a machine that has just been bootstrapped.\<close>

definition rt_inv :: "('w, 'i, 'o) rt_env \<Rightarrow> 'w rt \<Rightarrow> 'w label list \<Rightarrow> 'w rt \<Rightarrow> bool" where
  "rt_inv env x ls y \<longleftrightarrow>
     rt_resolver y = rt_resolver x \<and> rt_PATH y = rt_PATH x \<and>
     count_list (rt_tasks y) Staging + length (filter is_staged ls) \<le> 1 \<and>
     (\<forall>d r d'. Staged d r d' \<in> set ls \<longrightarrow> rt_Stage env (rt_resolver x) d = (r, d')) \<and>
     (\<forall>d e d'. Staged d (Inl e) d' \<in> set ls \<longrightarrow> e \<in> set (rt_shutdown y)) \<and>
     (DataReady \<in> set (rt_closed y) \<longrightarrow> staged_ok ls) \<and>
     (CriReady \<in> set (rt_closed y) \<longrightarrow> (\<exists>c. Runtime c (Inr ()) \<in> set ls)) \<and>
     (past_sync y \<longrightarrow> (\<exists>d w. Synced d w \<in> set ls) \<or> Sync_cancelled \<in> set ls)"

lemma rt_invD:
  assumes "rt_inv env x ls y"
  shows "rt_resolver y = rt_resolver x" "rt_PATH y = rt_PATH x"
    "count_list (rt_tasks y) Staging + length (filter is_staged ls) \<le> 1"
    "\<And>d r d'. Staged d r d' \<in> set ls \<Longrightarrow> rt_Stage env (rt_resolver x) d = (r, d')"
    "\<And>d e d'. Staged d (Inl e) d' \<in> set ls \<Longrightarrow> e \<in> set (rt_shutdown y)"
    "DataReady \<in> set (rt_closed y) \<Longrightarrow> staged_ok ls"
    "CriReady \<in> set (rt_closed y) \<Longrightarrow> \<exists>c. Runtime c (Inr ()) \<in> set ls"
    "past_sync y \<Longrightarrow> (\<exists>d w. Synced d w \<in> set ls) \<or> Sync_cancelled \<in> set ls"
  using assms unfolding rt_inv_def by blast+

definition fresh_rt :: "'w rt \<Rightarrow> bool" where
  "fresh_rt x \<longleftrightarrow> rt_tasks x = [] \<and> rt_calls x = [] \<and> rt_shutdown x = []"

lemma Bootstrap_closed: "ex_closed (snd (Bootstrap h b x)) = [] \<and> ex_boot (snd (Bootstrap h b x))"
  by (auto simp: Bootstrap_def bootstrap_registry_def set_registry_of_def try_then_def Let_def split: sum.splits if_splits)

lemma rt_Bootstrap_start:
  assumes "rt_Bootstrap env x0 = (Inr (), x)" and "fresh_rt x0"
  shows "rt_closed x = []" and "rt_tasks x = [Sync_pods, Staging]" and "rt_shutdown x = []"
    and "\<exists>b. rt_binDir env (rt_resolver x) = Inr b \<and> rt_PATH x = b @ '':'' @ rt_PATH x0"
  using assms Bootstrap_closed [of "re_host env" "rt_binDir env" "rt_exec x0"]
  by (auto simp: rt_Bootstrap_def fresh_rt_def Let_def split: prod.splits sum.splits)

lemma rt_run_inv:
  assumes "rt_run env x ls y" and "rt_Bootstrap env x0 = (Inr (), x)" and "fresh_rt x0"
  shows "rt_inv env x ls y"
  using assms(1)
proof induction
  case start
  then show ?case using rt_Bootstrap_start [OF assms(2,3)] by (simp add: rt_inv_def)
next
  case (step ls y l z)
  note s = step.hyps(2) and inv = rt_invD [OF step.IH]
  have 1: "e \<in> set (rt_shutdown z)" if "Staged d (Inl e) d' \<in> set (ls @ [l])" for d e d'
    using that inv(5) [of d e d'] rt_step_keeps(3) [OF s] rt_step_staging(3) [OF s] by auto
  have 2: "count_list (rt_tasks z) Staging + length (filter is_staged (ls @ [l])) \<le> 1"
  proof -
    have "length (filter is_staged (ls @ [l])) = length (filter is_staged ls) + (if is_staged l then 1 else 0)"
      by simp
    then show ?thesis using inv(3) rt_step_staging(1) [OF s] by linarith
  qed
  have 3: "rt_Stage env (rt_resolver x) d = (r, d')" if "Staged d r d' \<in> set (ls @ [l])" for d r d'
    using that inv(1,4) rt_step_staging(2) [OF s] by auto
  have 4: "staged_ok (ls @ [l])" if "DataReady \<in> set (rt_closed z)"
    using inv(6) rt_step_data [OF s that] by (cases "DataReady \<in> set (rt_closed y)") auto
  have 5: "\<exists>c. Runtime c (Inr ()) \<in> set (ls @ [l])" if "CriReady \<in> set (rt_closed z)"
    using inv(7) rt_step_cri [OF s that] by (cases "CriReady \<in> set (rt_closed y)") auto
  have 6: "(\<exists>d w. Synced d w \<in> set (ls @ [l])) \<or> Sync_cancelled \<in> set (ls @ [l])" if "past_sync z"
    using inv(8) rt_step_sync [OF s that] by (cases "past_sync y") auto
  show ?case
    unfolding rt_inv_def using 1 2 3 4 5 6 inv(1,2) rt_step_keeps(1,2) [OF s] by (intro conjI allI impI) auto
qed


lemma rt_run_split:
  assumes "rt_run env x (ls @ l # ls') z"
  shows "\<exists>u v. rt_run env x ls u \<and> rt_step env l u v"
  using assms
proof (induction ls' arbitrary: z rule: rev_induct)
  case Nil
  from Nil.prems show ?case by (cases rule: rt_run.cases) auto
next
  case (snoc l' ls')
  from snoc.prems obtain y where "rt_run env x (ls @ l # ls') y"
    by (cases rule: rt_run.cases) auto
  with snoc.IH show ?case by blast
qed

lemma staged_once:
  assumes "length (filter P xs) \<le> 1" and "a \<in> set xs" "b \<in> set xs" "P a" "P b"
  shows "a = b"
proof -
  have "a \<in> set (filter P xs)" "b \<in> set (filter P xs)" using assms by simp_all
  with assms(1) show ?thesis by (cases "filter P xs") auto
qed

lemma failed_or_staged:
  assumes "rt_inv env x ls y" and "Staged d (Inl e) d' \<in> set ls"
  shows "\<not> staged_ok ls"
proof
  assume "staged_ok ls"
  then obtain d1 d2 where "Staged d1 (Inr ()) d2 \<in> set ls" by blast
  moreover have "length (filter is_staged ls) \<le> 1" using rt_invD(3) [OF assms(1)] by simp
  ultimately show False
    using staged_once [of is_staged ls "Staged d1 (Inr ()) d2" "Staged d (Inl e) d'"] assms(2) by (simp add: is_staged_def)
qed

lemma runtime_staged:
  assumes "rt_run env x (ls1 @ Runtime c r # ls2) y" and "rt_Bootstrap env x0 = (Inr (), x)" and "fresh_rt x0"
  shows "staged_ok ls1"
proof -
  obtain u v where "rt_run env x ls1 u" "rt_step env (Runtime c r) u v"
    using rt_run_split [OF assms(1)] by blast
  then show ?thesis
    using rt_invD(6) [OF rt_run_inv [OF _ assms(2,3)]] rt_step_runtime by blast
qed

text \<open>A successful staging leaves the binaries, the charts and the marker of the release.\<close>

lemma Stage_installed:
  assumes "release_paths dataDir ds g" and "extracts_ok env" and "plain_release dataDir g (tree d)"
    and "not_link (tree d) (pull_dest (imagesDir dataDir) Img_Runtime)"
    and "runtime_ref pkg bv sha r = Inr (ref, g)" and "Stage pkg bv sha env r dataDir d = (Inr (), d')"
  shows "installed dataDir g (tree d')"
proof -
  obtain d1 where u: "unpack pkg bv env r dataDir g ref d = (Inr (), d1)" and d': "d' = switch_release dataDir g d1"
    using assms(5,6) by (auto simp: Stage_def split: sum.splits prod.splits)
  show ?thesis
    using unpack_steps(2) [OF assms(1-4) u] switch_installed [OF assms(1)] by (simp add: d')
qed

abbreviation rt_release :: "('w, 'i, 'o) rt_env \<Rightarrow> 'w rt \<Rightarrow> (reference \<times> string) result" where
  "rt_release env x \<equiv> runtime_ref (h_pkg (re_host env)) (h_build (re_host env)) (re_sha env) (rt_resolver x)"

text \<open>
  C3: the container runtime is started from staged binaries. In every run of the executor after a successful
  \<^verbatim>\<open>Bootstrap\<close>, whatever the handlers, the goroutines and the world do and in whatever order, a start of
  containerd, of the Docker shim or of the wait for another runtime is preceded by a staging of the runtime image
  that succeeded and left the binaries, the charts and the marker file of the release, and the directory of
  those binaries is the first of the search path.
\<close>

theorem runtime_after_staging:
  assumes "rt_Bootstrap env x0 = (Inr (), x)" and "fresh_rt x0" and "rt_run env x (ls1 @ Runtime c r # ls2) y"
    and "rt_release env x = Inr (ref, g)" and "release_paths (re_DataDir env) ds g" and "extracts_ok (re_stage env)"
  shows "rt_PATH y = binDirForDigest (re_DataDir env) g @ '':'' @ rt_PATH x0 \<and>
     (\<exists>d d'. Staged d (Inr ()) d' \<in> set ls1 \<and>
        (plain_release (re_DataDir env) g (tree d) \<and> not_link (tree d) (pull_dest (imagesDir (re_DataDir env)) Img_Runtime) \<longrightarrow>
         installed (re_DataDir env) g (tree d')))"
proof -
  note inv = rt_invD [OF rt_run_inv [OF assms(3,1,2)]]
  have "rt_binDir env (rt_resolver x) = Inr (binDirForDigest (re_DataDir env) g)"
    using assms(4) by (simp add: rt_binDir_def BinDir_def)
  then have path: "rt_PATH y = binDirForDigest (re_DataDir env) g @ '':'' @ rt_PATH x0"
    using rt_Bootstrap_start(4) [OF assms(1,2)] inv(2) by auto
  obtain d d' where s: "Staged d (Inr ()) d' \<in> set ls1"
    using runtime_staged [OF assms(3,1,2)] by blast
  then have "rt_Stage env (rt_resolver x) d = (Inr (), d')"
    using inv(4) by simp
  then show ?thesis
    using path s Stage_installed [OF assms(5,6) _ _ assms(4)] by blast
qed

text \<open>
  C4: when the staging fails, its error is given to the shutdown of the process, and in no run does a container
  runtime start or is one reported ready.
\<close>

theorem failed_staging:
  assumes "rt_Bootstrap env x0 = (Inr (), x)" and "fresh_rt x0" and "rt_run env x ls y" and "Staged d (Inl e) d' \<in> set ls"
  shows "e \<in> set (rt_shutdown y) \<and> (\<forall>c r. Runtime c r \<notin> set ls) \<and>
     DataReady \<notin> set (rt_closed y) \<and> CriReady \<notin> set (rt_closed y)"
proof -
  have inv: "rt_inv env x ls y" by (rule rt_run_inv [OF assms(3,1,2)])
  have none: "Runtime c r \<notin> set ls" for c r
  proof
    assume "Runtime c r \<in> set ls"
    then obtain ls1 ls2 where "ls = ls1 @ Runtime c r # ls2" by (meson split_list)
    with runtime_staged assms(1-3) failed_or_staged [OF inv assms(4)] show False by fastforce
  qed
  then show ?thesis
    using rt_invD(5) [OF inv assms(4)] rt_invD(6,7) [OF inv] failed_or_staged [OF inv assms(4)] by blast
qed

text \<open>
  C6: the API server is reported ready, and the jobs that wait for it are released, only after the synchronisation
  of the static pods has ended: unless its context was cancelled, there was a moment at which etcd and the API
  server had no manifest or ran only the pod of their manifest.
\<close>

theorem apiserver_ready_synced:
  assumes "rt_Bootstrap env x0 = (Inr (), x)" and "fresh_rt x0" and "rt_run env x ls y" and "ApiServerReady \<in> set (rt_closed y)"
    and "Sync_cancelled \<notin> set ls" and "cri_ok (re_cri env) all" and "sync_errors_ok (re_cri env) (re_sync env)"
  shows "\<exists>d w. Synced d w \<in> set ls \<and>
     (\<forall>pod f. (pod = ''etcd'' \<or> pod = ''kube-apiserver'') \<and>
        f = filepath_Join [PodManifestsDir (re_PodManifestPath env) (re_DataDir env), pod @ ''.yaml''] \<longrightarrow>
        in_sync (re_sync env) all d f w \<or> (\<exists>e. os_ReadFile d f = Inl e \<and> errors_Is_ErrNotExist e))"
proof -
  obtain d w where s: "Synced d w \<in> set ls"
    using rt_invD(8) [OF rt_run_inv [OF assms(3,1,2)]] assms(4,5) by blast
  then obtain ls1 ls2 where "ls = ls1 @ Synced d w # ls2" by (meson split_list)
  with assms(3) obtain u v where "rt_step env (Synced d w) u v" using rt_run_split by blast
  note synced = reconcile_each_done [OF assms(6,7) rt_step_synced [OF this]]
  show ?thesis
    using s synced by (intro exI [of _ d] exI [of _ w]) (auto simp: reconcile_pods_def)
qed


section \<open>Waiting calls are released\<close>

lemma run_staging_ok:
  assumes "fst (rt_Stage env (rt_resolver x) (rt_disk x)) = Inr ()" and "ex_boot (rt_exec x)" and "DataReady \<notin> set (rt_closed x)"
  shows "rt_closed (run_staging env x) = DataReady # rt_closed x" "ex_boot (rt_exec (run_staging env x))"
    "ex_exited (rt_exec (run_staging env x)) = ex_exited (rt_exec x)" "rt_calls (run_staging env x) = rt_calls x"
  using assms
  by (cases "rt_Stage env (rt_resolver x) (rt_disk x)"; simp add: run_staging_def stageData_def Let_def set_disk_def close_ready_def)+

lemma run_staging_boot: "ex_boot (rt_exec (run_staging env x)) = ex_boot (rt_exec x)"
  by (simp add: run_staging_def stageData_def Let_def set_disk_def close_ready_def exit_process_def split: prod.split sum.split)

lemma handler_boot:
  "ex_boot (snd (KubeProxy_start h rnd args x)) = ex_boot x"
  "ex_boot (snd (APIServer_start h args x)) = ex_boot x"
  "ex_boot (snd (Scheduler_start h args x)) = ex_boot x"
  "ex_boot (snd (ControllerManager_start h args x)) = ex_boot x"
  "ex_boot (snd (CloudControllerManager_start h args x)) = ex_boot x"
  "ex_boot (snd (Kubelet_start fp args x)) = ex_boot x"
  "ex_boot (run_job h rnd spec x) = ex_boot x"
  by (simp_all add: KubeProxy_start_def APIServer_start_def APIServer_configure_def APIServer_finish_def Scheduler_start_def
      ControllerManager_start_def CloudControllerManager_start_def Kubelet_start_def run_job_def After_def Let_def
      split: prod.split sum.split)

lemma ETCD_boot: "ex_boot (snd (ETCD_start h rnd args extra x)) = ex_boot x"
proof -
  have w: "ex_boot (snd (ETCD_write h rnd c spec y)) = ex_boot y" for c spec y
    by (simp add: ETCD_write_def Let_def split: prod.split sum.split)
  have r: "ex_boot (snd (ETCD_run h rnd c spec y)) = ex_boot y" for c spec y
    by (simp add: ETCD_run_def w split: prod.split sum.split)
  show ?thesis
    by (simp add: ETCD_start_def r split: prod.split sum.split option.split)
qed

lemma exec_step_boot: "exec_step h e x x' \<Longrightarrow> ex_boot x' = ex_boot x"
  by (erule exec_step_cases)
     (auto simp: handle_def handler_boot ETCD_boot split: event.splits option.splits prod.splits)

lemma rt_step_boot: "rt_step env l x y \<Longrightarrow> ex_boot (rt_exec y) = ex_boot (rt_exec x)"
  by (elim rt_stepE)
     (auto simp: run_staging_boot exec_step_boot rt_defs run_update_def Let_def split: sum.splits prod.splits option.splits if_splits)

lemma rt_run_boot:
  "rt_run env x ls y \<Longrightarrow> rt_Bootstrap env x0 = (Inr (), x) \<Longrightarrow> ex_boot (rt_exec y)"
proof (induction rule: rt_run.induct)
  case start
  then show ?case
    using Bootstrap_closed [of "re_host env" "rt_binDir env" "rt_exec x0"]
    by (auto simp: rt_Bootstrap_def Let_def split: prod.splits sum.splits)
qed (simp add: rt_step_boot)

lemma rt_step_closed: "rt_step env l x y \<Longrightarrow> set (rt_closed x) \<subseteq> set (rt_closed y)"
proof (elim rt_stepE)
  show "set (rt_closed x) \<subseteq> set (rt_closed y)" if "y = run_staging env (drop_task Staging x)"
    unfolding that
    by (auto simp: run_staging_def stageData_def Let_def set_disk_def close_ready_def exit_process_def split: prod.split sum.split)
qed (auto simp: rt_defs run_update_def Let_def dest: step_closed split: sum.splits prod.splits option.splits if_splits)

text \<open>Staging is still to come, has released the calls that wait for it, or has failed.\<close>

lemma staging_pending:
  assumes "rt_run env x ls y" and "rt_Bootstrap env x0 = (Inr (), x)" and "fresh_rt x0" and "\<And>d e d'. Staged d (Inl e) d' \<notin> set ls"
  shows "Staging \<in> set (rt_tasks y) \<or> DataReady \<in> set (rt_closed y)"
  using assms(1,4)
proof (induction rule: rt_run.induct)
  case start
  then show ?case using rt_Bootstrap_start(2) [OF assms(2,3)] by simp
next
  case (step ls y l z)
  note s = step.hyps(2)
  show ?case
  proof (cases "is_staged l")
    case False
    then have "count_list (rt_tasks z) Staging = count_list (rt_tasks y) Staging"
      using rt_step_staging(1) [OF s] by simp
    then have "Staging \<in> set (rt_tasks z) \<longleftrightarrow> Staging \<in> set (rt_tasks y)"
      by (metis count_list_0_iff)
    then show ?thesis
      using step.IH step.prems rt_step_closed [OF s] by auto
  next
    case True
    then obtain d r d' where l: "l = Staged d r d'" by (auto simp: is_staged_def split: label.splits)
    have inv: "rt_inv env x ls y" by (rule rt_run_inv [OF step.hyps(1) assms(2,3)])
    have "0 < count_list (rt_tasks y) Staging"
      using rt_step_staging(1) [OF s] True by simp
    then have "length (filter is_staged ls) = 0" using rt_invD(3) [OF inv] by linarith
    then have "\<forall>k \<in> set ls. \<not> is_staged k" by (simp add: filter_empty_conv)
    then have "\<not> staged_ok ls" by (auto simp: is_staged_def)
    then have "DataReady \<notin> set (rt_closed y)" using rt_invD(6) [OF inv] by blast
    moreover have "r = Inr ()" using step.prems [of d _ d'] l by (cases r) auto
    ultimately show ?thesis
      using s l run_staging_ok(1) [of env "drop_task Staging y"] rt_run_boot [OF step.hyps(1) assms(2)]
      by (elim rt_stepE) (auto simp: runtime_label_def staged_label_def split: if_splits prod.splits)
  qed
qed

text \<open>
  C5: no waiting call is lost. In every state of a live process in which the staging has not failed, a call that
  waits for the staged data can start its container runtime within two more steps, provided that the staging,
  if it is still to come, succeeds.
\<close>

theorem runtime_call_released:
  assumes "rt_Bootstrap env x0 = (Inr (), x)" and "fresh_rt x0" and "rt_run env x ls y" and "live y"
    and "c \<in> set (rt_calls y)" and "c \<noteq> Call_APIServerHandlers" and "\<forall>d e d'. Staged d (Inl e) d' \<notin> set ls"
    and "DataReady \<notin> set (rt_closed y) \<longrightarrow> fst (rt_Stage env (rt_resolver y) (rt_disk y)) = Inr ()"
  shows "\<exists>ls' z. length ls' \<le> 1 \<and>
    rt_run env x (ls @ ls' @ [Runtime c (fst (start_runtime env c (rt_world z)))])
      (snd (rt_resume env c (z\<lparr>rt_calls := remove1 c (rt_calls z)\<rparr>)))"
proof -
  have go: "rt_step env (Runtime c (fst (start_runtime env c (rt_world z)))) z
      (snd (rt_resume env c (z\<lparr>rt_calls := remove1 c (rt_calls z)\<rparr>)))"
    if "live z" "c \<in> set (rt_calls z)" "DataReady \<in> set (rt_closed z)" for z
    using rt_step.resume [OF that(1,2), of env] that(3) assms(6) by (simp add: wait_chan_data runtime_label_def)
  show ?thesis
  proof (cases "DataReady \<in> set (rt_closed y)")
    case True
    then show ?thesis
      using rt_run.step [OF assms(3) go [OF assms(4,5)]] by (intro exI [of _ "[]"] exI [of _ y]) simp
  next
    case False
    let ?z = "run_staging env (drop_task Staging y)"
    have st: "Staging \<in> set (rt_tasks y)" using staging_pending [OF assms(3,1,2)] assms(7) False by blast
    have ok: "fst (rt_Stage env (rt_resolver y) (rt_disk y)) = Inr ()" using assms(8) False by blast
    note z = run_staging_ok [of env "drop_task Staging y", simplified, OF ok rt_run_boot [OF assms(3,1)] False]
    have "rt_step env (Runtime c (fst (start_runtime env c (rt_world ?z)))) ?z
        (snd (rt_resume env c (?z\<lparr>rt_calls := remove1 c (rt_calls ?z)\<rparr>)))"
      by (rule go) (use z assms(4,5) in \<open>simp_all add: drop_task_def\<close>)
    from rt_run.step [OF rt_run.step [OF assms(3) rt_step.staging [OF assms(4) st]] this] show ?thesis
      by (intro exI [of _ "[staged_label env y]"] exI [of _ ?z]) simp
  qed
qed

section \<open>Witnesses\<close>

definition demo_env :: "(sandbox list, unit, (string, string) gomap) rt_env" where
  "demo_env =
     \<lparr>re_host = simple_host\<lparr>h_pkg := sample_names\<rparr>, re_sha = (\<lambda>s. ''c''), re_stage = sample_env, re_DataDir = ''/var'',
      re_ContainerRuntimeEndpoint = '''', re_PodManifestPath = ''p'', re_registry = False, re_registry_polls = 15,
      re_registry_Ready = (\<lambda>w. (False, w)), re_libs = empty_libs, re_orders = sample_orders, re_copyDir = copy_files,
      re_charts = Inr [], re_values = sample_values, re_cri = list_cri, re_sync = sync_example,
      re_containerd = (\<lambda>w. (Inr (), w)), re_cridockerd = (\<lambda>w. (Inl (Errorf ''no docker''), w)),
      re_WaitForService = (\<lambda>p w. (Inr (), w)), re_GetClientSet = (\<lambda>f. Inr ()), re_Program = ''rke2''\<rparr>"

definition demo_new :: "sandbox list rt" where
  "demo_new =
     \<lparr>rt_exec = simple_exec\<lparr>ex_cfg := simple_static\<lparr>sp_Config := simple_config\<lparr>cfg_Resolver := sample_resolver\<rparr>\<rparr>, ex_boot := False,
        ex_disk := sample_data\<lparr>tree := (''/var/agent/p/etcd.yaml'', new_inode (Regular ''x'') 420) # tree sample_data\<rparr>\<rparr>,
      rt_world = [etcd_sandbox ''s2'' ''u2''], rt_PATH = ''/usr/bin'', rt_tasks = [], rt_calls = [], rt_shutdown = []\<rparr>"

definition demo_booted :: "sandbox list rt" where
  "demo_booted = snd (rt_Bootstrap demo_env demo_new)"

definition demo_failing :: "(sandbox list, unit, (string, string) gomap) rt_env" where
  "demo_failing = demo_env\<lparr>re_stage := sample_env\<lparr>se_ExtractDirs := (\<lambda>img ps d. (Inl (Errorf ''no space''), d))\<rparr>\<rparr>"

lemma demo_fresh: "fresh_rt demo_new"
  by (simp add: fresh_rt_def demo_new_def)

lemma demo_boot: "rt_Bootstrap demo_env demo_new = (Inr (), demo_booted)" "rt_Bootstrap demo_failing demo_new = (Inr (), demo_booted)"
proof -
  have "fst (rt_Bootstrap demo_env demo_new) = Inr ()" by code_simp
  then show 1: "rt_Bootstrap demo_env demo_new = (Inr (), demo_booted)"
    unfolding demo_booted_def by (metis prod.collapse)
  have eqs: "rt_binDir demo_failing = rt_binDir demo_env" "re_host demo_failing = re_host demo_env"
    by (simp_all add: fun_eq_iff rt_binDir_def demo_failing_def)
  have "rt_Bootstrap demo_failing demo_new = rt_Bootstrap demo_env demo_new"
    unfolding rt_Bootstrap_def eqs ..
  with 1 show "rt_Bootstrap demo_failing demo_new = (Inr (), demo_booted)" by simp
qed

definition demo_staged :: "sandbox list rt" where
  "demo_staged = snd (rt_arrive Call_Containerd (run_staging demo_env (drop_task Staging demo_booted)))"

definition demo_running :: "sandbox list rt" where
  "demo_running = snd (rt_resume demo_env Call_Containerd (demo_staged\<lparr>rt_calls := remove1 Call_Containerd (rt_calls demo_staged)\<rparr>))"

lemma demo_booted_state:
  "live demo_booted" "ex_boot (rt_exec demo_booted)" "rt_closed demo_booted = []"
  "rt_tasks demo_booted = [Sync_pods, Staging]" "fst (rt_Stage demo_env (rt_resolver demo_booted) (rt_disk demo_booted)) = Inr ()"
  by code_simp+

lemma demo_run:
  "rt_run demo_env demo_booted ([staged_label demo_env demo_booted, Silent] @ Runtime Call_Containerd (Inr ()) # []) demo_running"
proof -
  let ?x = "run_staging demo_env (drop_task Staging demo_booted)"
  note st = run_staging_ok [of demo_env "drop_task Staging demo_booted", simplified, OF demo_booted_state(5,2)]
  have 1: "rt_step demo_env (staged_label demo_env demo_booted) demo_booted ?x"
    by (rule rt_step.staging) (simp_all add: demo_booted_state)
  have 2: "rt_step demo_env Silent ?x demo_staged"
    unfolding demo_staged_def by (rule rt_step.arrive) (simp add: st demo_booted_state)
  have "live demo_staged" "Call_Containerd \<in> set (rt_calls demo_staged)" "wait_chan Call_Containerd \<in> set (rt_closed demo_staged)"
    by (simp_all add: demo_staged_def rt_arrive_def ready_chan_def st demo_booted_state)
  from rt_step.resume [OF this, of demo_env]
  have 3: "rt_step demo_env (Runtime Call_Containerd (Inr ())) demo_staged demo_running"
    by (simp add: demo_running_def runtime_label_def demo_env_def)
  show ?thesis
    using rt_run.step [OF rt_run.step [OF rt_run.step [OF rt_run.start 1] 2] 3] by simp
qed

theorem runtime_after_staging_witness:
  "rt_PATH demo_running = ''/var/data/v3-c/bin:/usr/bin'' \<and>
   installed ''/var'' ''v3-c'' (tree (snd (rt_Stage demo_env (rt_resolver demo_booted) (rt_disk demo_booted))))"
proof -
  let ?r = "rt_Stage demo_env (rt_resolver demo_booted) (rt_disk demo_booted)"
  have 1: "rt_release demo_env demo_booted =
      Inr (TagRef \<lparr>ref_registry = Registry ''index.docker.io'', ref_repository = ''r/runtime'', ref_identifier = ''v3''\<rparr>, ''v3-c'')"
    by code_simp
  have 2: "re_DataDir demo_env = ''/var''" "re_stage demo_env = sample_env" by (simp_all add: demo_env_def)
  have 3: "release_paths (re_DataDir demo_env) [''var''] ''v3-c''" "extracts_ok (re_stage demo_env)"
    unfolding 2 by (rule sample_layout sample_env_ok)+
  have "no_links (tree (rt_disk demo_booted))" by code_simp
  then have 4: "plain_release ''/var'' ''v3-c'' (tree (rt_disk demo_booted))"
      "not_link (tree (rt_disk demo_booted)) (pull_dest (imagesDir ''/var'') Img_Runtime)"
    by (simp_all add: plain_release_def no_links_not_link)
  have 5: "staged_label demo_env demo_booted = Staged (rt_disk demo_booted) (fst ?r) (snd ?r)"
    by (simp add: staged_label_def split: prod.split)
  have 6: "binDirForDigest ''/var'' ''v3-c'' @ '':'' @ rt_PATH demo_new = ''/var/data/v3-c/bin:/usr/bin''" by code_simp
  show ?thesis
    using runtime_after_staging [OF demo_boot(1) demo_fresh demo_run 1 3] 4 unfolding 2 5 6 by auto
qed

theorem failed_staging_witness:
  "\<exists>e. e \<in> set (rt_shutdown (run_staging demo_failing (drop_task Staging demo_booted)))"
proof -
  let ?y = "run_staging demo_failing (drop_task Staging demo_booted)"
  let ?r = "rt_Stage demo_failing (rt_resolver demo_booted) (rt_disk demo_booted)"
  have "rt_step demo_failing (staged_label demo_failing demo_booted) demo_booted ?y"
    by (rule rt_step.staging) (simp_all add: demo_booted_state)
  from rt_run.step [OF rt_run.start this]
  have 1: "rt_run demo_failing demo_booted [staged_label demo_failing demo_booted] ?y" by simp
  have "isl (fst ?r)" by code_simp
  then obtain e where "fst ?r = Inl e" by (cases "fst ?r") simp_all
  then have 2: "Staged (rt_disk demo_booted) (Inl e) (snd ?r) \<in> set [staged_label demo_failing demo_booted]"
    by (cases ?r) (simp add: staged_label_def)
  show ?thesis using failed_staging [OF demo_boot(2) demo_fresh 1 2] by blast
qed

definition demo_synced :: "sandbox list rt" where
  "demo_synced = (drop_task Sync_pods demo_booted)\<lparr>rt_world := [etcd_sandbox ''s2'' ''u2''], rt_tasks := [Staging, Await_apiserver]\<rparr>"

theorem apiserver_ready_synced_witness:
  "\<exists>d w. in_sync sync_example id d ''/var/agent/p/etcd.yaml'' w"
proof -
  let ?y = "snd (close_ready ApiServerReady (drop_task Await_apiserver demo_synced))"
  let ?f = "''/var/agent/p/etcd.yaml''"
  have a: "sync_attempt demo_env demo_booted = (True, [etcd_sandbox ''s2'' ''u2''])" by code_simp
  have b: "remove1 Sync_pods (rt_tasks demo_booted) @ [Await_apiserver] = [Staging, Await_apiserver]"
    by (simp add: demo_booted_state)
  have "live demo_booted" "Sync_pods \<in> set (rt_tasks demo_booted)" by (simp_all add: demo_booted_state)
  from rt_step.synced [OF this a]
  have 1: "rt_step demo_env (Synced (rt_disk demo_booted) [etcd_sandbox ''s2'' ''u2'']) demo_booted demo_synced"
    by (simp add: demo_synced_def b)
  have 2: "rt_step demo_env Silent demo_synced ?y"
    by (rule rt_step.apiserver_ready) (simp_all add: demo_synced_def demo_booted_state)
  have 3: "rt_run demo_env demo_booted [Synced (rt_disk demo_booted) [etcd_sandbox ''s2'' ''u2''], Silent] ?y"
    using rt_run.step [OF rt_run.step [OF rt_run.start 1] 2] by simp
  have 4: "ApiServerReady \<in> set (rt_closed ?y)" by (simp add: close_ready_def demo_synced_def demo_booted_state)
  have 5: "re_cri demo_env = list_cri" "re_sync demo_env = sync_example" by (simp_all add: demo_env_def)
  have 6: "filepath_Join [PodManifestsDir (re_PodManifestPath demo_env) (re_DataDir demo_env), ''etcd'' @ ''.yaml''] = ?f" by code_simp
  have 7: "\<not> isl (os_ReadFile (rt_disk demo_booted) ?f)" by code_simp
  obtain d w where dw: "Synced d w \<in> set [Synced (rt_disk demo_booted) [etcd_sandbox ''s2'' ''u2''], Silent]"
      "in_sync sync_example id d ?f w \<or> (\<exists>e. os_ReadFile d ?f = Inl e \<and> errors_Is_ErrNotExist e)"
    using apiserver_ready_synced [OF demo_boot(1) demo_fresh 3 4, unfolded 5, OF _ list_cri_ok sync_example_errors] 6 by auto
  then show ?thesis using 7 by auto
qed


theorem runtime_call_released_witness:
  "\<exists>ls z. length ls \<le> 1 \<and>
     rt_run demo_env demo_booted ([Silent] @ ls @ [Runtime Call_Containerd (fst (start_runtime demo_env Call_Containerd (rt_world z)))])
       (snd (rt_resume demo_env Call_Containerd (z\<lparr>rt_calls := remove1 Call_Containerd (rt_calls z)\<rparr>)))"
proof -
  let ?y = "snd (rt_arrive Call_Containerd demo_booted)"
  have arrived: "?y = demo_booted\<lparr>rt_calls := rt_calls demo_booted @ [Call_Containerd]\<rparr>"
    by (simp add: rt_arrive_def ready_chan_def demo_booted_state)
  have 1: "rt_run demo_env demo_booted [Silent] ?y"
    using rt_run.step [OF rt_run.start rt_step.arrive [OF demo_booted_state(1)]] by simp
  have 2: "live ?y" "Call_Containerd \<in> set (rt_calls ?y)" "Call_Containerd \<noteq> Call_APIServerHandlers"
    unfolding arrived by (simp_all add: demo_booted_state)
  have 3: "\<forall>d e d'. Staged d (Inl e) d' \<notin> set [Silent]" by simp
  have 4: "DataReady \<notin> set (rt_closed ?y) \<longrightarrow> fst (rt_Stage demo_env (rt_resolver ?y) (rt_disk ?y)) = Inr ()"
    unfolding arrived using demo_booted_state(5) by simp
  show ?thesis by (rule runtime_call_released [OF demo_boot(1) demo_fresh 1 2 3 4])
qed

end
