(* ===== verification/Shell_Completion.thy ===== *)
theory Shell_Completion
  imports Cli_Flags Go_Disk
begin

text \<open>
  \<^verbatim>\<open>pkg/cli/cmds/completion.go\<close>: the completion scripts for bash and zsh, which are printed or, on request,
  loaded from the start file of the shell. The name of the program is a constant of the build and an argument.
\<close>

section \<open>Scripts\<close>

text \<open>A script is a format for \<^verbatim>\<open>fmt.Sprintf\<close> with one argument, which may occur several times.\<close>

datatype piece = Lit string | Arg

definition sprintf1 :: "piece list \<Rightarrow> string \<Rightarrow> string" where
  "sprintf1 ps arg = concat (map (\<lambda>p. case p of Lit s \<Rightarrow> s | Arg \<Rightarrow> arg) ps)"

definition ends_line :: "string list \<Rightarrow> string" where
  "ends_line ls = concat (map (\<lambda>l. l @ ''\<newline>'') ls)"

definition tabbed :: "string \<Rightarrow> string" where
  "tabbed l = CHR 0x09 # l"

definition bashScript :: "piece list" where
  \<open>bashScript =
     [Lit (ends_line
        [''#! /bin/bash'',
         ''_cli_bash_autocomplete() {'',
         ''if ['' @ ''[ "${COMP_WORDS[0]}" != "source" ]'' @ '']; then'',
         tabbed ''local cur opts base'',
         tabbed ''COMPREPLY=()'',
         tabbed ''cur="${COMP_WORDS[COMP_CWORD]}"'',
         tabbed ''if ['' @ ''[ "$cur" == "-"* ]'' @ '']; then'',
         tabbed ''opts=$( ${COMP_WORDS[@]:0:$COMP_CWORD} ${cur} --generate-bash-completion )'',
         tabbed ''else'',
         tabbed ''opts=$( ${COMP_WORDS[@]:0:$COMP_CWORD} --generate-bash-completion )'',
         tabbed ''fi'',
         tabbed ''COMPREPLY=( $(compgen -W "${opts}" -- ${cur}) )'',
         tabbed ''return 0'',
         ''fi'',
         ''}'',
         '''']),
      Lit ''complete -o bashdefault -o default -o nospace -F _cli_bash_autocomplete '', Arg, Lit ''\<newline>'']\<close>

definition zshScript :: "piece list" where
  \<open>zshScript =
     [Lit ''#compdef '', Arg, Lit ''\<newline>'',
      Lit (ends_line
        [''_cli_zsh_autocomplete() {'',
         '''',
         tabbed ''local -a opts'',
         tabbed ''local cur'',
         tabbed ''cur=${words[-1]}'',
         tabbed ''if ['' @ ''[ "$cur" == "-"* ]'' @ '']; then'',
         tabbed ''opts=("${(@f)$(_CLI_ZSH_AUTOCOMPLETE_HACK=1 ${words[@]:0:#words[@]-1} ${cur} --generate-bash-completion)}")'',
         tabbed ''else'',
         tabbed ''opts=("${(@f)$(_CLI_ZSH_AUTOCOMPLETE_HACK=1 ${words[@]:0:#words[@]-1} --generate-bash-completion)}")'',
         tabbed ''fi'',
         '''',
         tabbed ''if ['' @ ''[ "${opts[1]}" != "" ]'' @ '']; then'',
         tabbed ''_describe 'values' opts'',
         tabbed ''else'',
         tabbed ''_files'',
         tabbed ''fi'',
         '''',
         tabbed ''return'',
         ''}'',
         '''']),
      Lit ''compdef _cli_zsh_autocomplete '', Arg, Lit ''\<newline>'']\<close>

definition kubectl_exports :: "string list" where
  "kubectl_exports = [''export KUBECONFIG=/etc/rancher/rke2/rke2.yaml'']"

definition crictl_exports :: "string list" where
  "crictl_exports = [''export CRI_CONFIG_FILE=/var/lib/rancher/rke2/agent/etc/crictl.yaml'']"

definition ctr_exports :: "string list" where
  "ctr_exports = [''export CONTAINERD_ADDRESS=/run/k3s/containerd/containerd.sock'', ''export CONTAINERD_NAMESPACE=k8s.io'']"

definition add_exports :: "bool \<Rightarrow> string list \<Rightarrow> string \<Rightarrow> string" where
  "add_exports b ls script = (if b then script @ ''\<newline>'' @ ends_line ls @ ''    '' else script)"

definition genCompletionScript :: "string \<Rightarrow> piece list \<Rightarrow> bool \<Rightarrow> bool \<Rightarrow> bool \<Rightarrow> string" where
  "genCompletionScript program script kubectl crictl ctr =
     add_exports ctr ctr_exports (add_exports crictl crictl_exports (add_exports kubectl kubectl_exports (sprintf1 script program)))"

section \<open>The start file of the shell\<close>

definition isKubectlSet :: "bool \<Rightarrow> string" where
  "isKubectlSet kubectl = (if kubectl then '' --kubectl'' else '''')"

definition isCrictlSet :: "bool \<Rightarrow> string" where
  "isCrictlSet crictl = (if crictl then '' --crictl'' else '''')"

definition isCtrSet :: "bool \<Rightarrow> string" where
  "isCtrSet ctr = (if ctr then '' --ctr'' else '''')"

text \<open>
  \<^verbatim>\<open>os.OpenFile(p, O_APPEND|O_CREATE|O_WRONLY, pm)\<close> gives the file that links lead to and makes it when it is
  missing; a write goes to the end of the file.
\<close>

definition os_OpenAppend :: "string \<Rightarrow> nat \<Rightarrow> disk \<Rightarrow> string result \<times> disk" where
  "os_OpenAppend p pm d =
     (case faults d OpOpen p of Some e \<Rightarrow> (Inl e, d)
      | None \<Rightarrow>
         (case follow 40 (tree d) p of Inl e \<Rightarrow> (Inl e, d)
          | Inr q \<Rightarrow>
             (case gm_get (tree d) q of
                None \<Rightarrow>
                  if is_dir (tree d) (filepath_Dir q)
                  then (Inr q, commit (gm_put q (new_inode (Regular '''') pm) (tree d)) d) else (Inl ErrNotExist, d)
              | Some i \<Rightarrow> (case kind i of Regular _ \<Rightarrow> (Inr q, d) | _ \<Rightarrow> (Inl (Errorf ''is not a regular file''), d)))))"

definition file_Append :: "string \<Rightarrow> string \<Rightarrow> disk \<Rightarrow> unit result \<times> disk" where
  "file_Append q s d =
     (case faults d OpWrite q of Some e \<Rightarrow> (Inl e, d)
      | None \<Rightarrow>
         (case gm_get (tree d) q of
            Some i \<Rightarrow>
              (case kind i of Regular c \<Rightarrow> (Inr (), commit (gm_put q (i\<lparr>kind := Regular (c @ s)\<rparr>) (tree d)) d)
               | _ \<Rightarrow> (Inl ErrNotExist, d))
          | None \<Rightarrow> (Inl ErrNotExist, d)))"

definition start_marker :: "string \<Rightarrow> string" where
  "start_marker program = ''# >> '' @ program @ '' command completion (start)''"

definition end_marker :: "string \<Rightarrow> string" where
  "end_marker program = ''# >> '' @ program @ '' command completion (end)''"

definition source_line :: "string \<Rightarrow> string \<Rightarrow> bool \<Rightarrow> bool \<Rightarrow> bool \<Rightarrow> string" where
  "source_line program shell kubectl crictl ctr =
     ''. <('' @ program @ '' completion '' @ shell @ isKubectlSet kubectl @ isCrictlSet crictl @ isCtrSet ctr @ '')''"

definition bashEntry :: "string \<Rightarrow> string \<Rightarrow> bool \<Rightarrow> bool \<Rightarrow> bool \<Rightarrow> string" where
  "bashEntry program shell kubectl crictl ctr =
     start_marker program @ ''\<newline>'' @ source_line program shell kubectl crictl ctr @ ''\<newline>'' @ end_marker program"

text \<open>The disk and what has been printed; \<open>home\<close> is the result of \<^verbatim>\<open>os.UserHomeDir\<close>, whose error is dropped.\<close>

record console =
  con_disk :: disk
  con_out :: "string list"

definition println :: "string \<Rightarrow> console \<Rightarrow> console" where
  "println s c = c\<lparr>con_out := con_out c @ [s]\<rparr>"

definition writeToRC ::
  "string \<Rightarrow> string result \<Rightarrow> string \<Rightarrow> string \<Rightarrow> bool \<Rightarrow> bool \<Rightarrow> bool \<Rightarrow> console \<Rightarrow> unit result \<times> console" where
  "writeToRC program home shell fileName kubectl crictl ctr c =
     (case home of Inl e \<Rightarrow> (Inr (), c)
      | Inr dir \<Rightarrow>
         (let rcFileName = dir @ fileName in
          case os_OpenAppend rcFileName 420 (con_disk c) of
            (Inl e, d) \<Rightarrow> (Inl e, c\<lparr>con_disk := d\<rparr>)
          | (Inr f, d) \<Rightarrow>
             (case file_Append f (bashEntry program shell kubectl crictl ctr) d of
                (Inl e, d) \<Rightarrow> (Inl e, c\<lparr>con_disk := d\<rparr>)
              | (Inr _, d) \<Rightarrow>
                  (Inr (), println (''Autocomplete for '' @ shell @ '' added to: '' @ rcFileName) (c\<lparr>con_disk := d\<rparr>)))))"

section \<open>Commands\<close>

text \<open>The actions of the two subcommands; \<open>Bool\<close> gives the boolean flags of the command line.\<close>

definition completion_action ::
  "string \<Rightarrow> string result \<Rightarrow> piece list \<Rightarrow> string \<Rightarrow> string \<Rightarrow> (string \<Rightarrow> bool) \<Rightarrow> console \<Rightarrow> unit result \<times> console" where
  "completion_action program home script shell fileName Bool c =
     (if Bool ''i'' then writeToRC program home shell fileName (Bool ''kubectl'') (Bool ''crictl'') (Bool ''ctr'') c
      else (Inr (), println (genCompletionScript program script (Bool ''kubectl'') (Bool ''crictl'') (Bool ''ctr'')) c))"

definition Bash :: "string \<Rightarrow> string result \<Rightarrow> (string \<Rightarrow> bool) \<Rightarrow> console \<Rightarrow> unit result \<times> console" where
  "Bash program home = completion_action program home bashScript ''bash'' ''/.bashrc''"

definition Zsh :: "string \<Rightarrow> string result \<Rightarrow> (string \<Rightarrow> bool) \<Rightarrow> console \<Rightarrow> unit result \<times> console" where
  "Zsh program home = completion_action program home zshScript ''zsh'' ''/.zshrc''"

definition completionFlags :: "cli_Flag list" where
  "completionFlags =
     [new_flag (BoolFlag False) ''kubectl'' ''(kubectl) export kubeconfig'' [] '''',
      new_flag (BoolFlag False) ''crictl'' ''(crictl) export crictl config file'' [] '''',
      new_flag (BoolFlag False) ''ctr'' ''(ctr) export containerd sock file and set namespace'' [] '''']"

definition NewCompletionCommand :: "slice_setter \<Rightarrow> command_group \<Rightarrow> command_group outcome" where
  "NewCompletionCommand slice_Set = (\<lambda>(command, subs).
     try_then (mustCmdFromK3S slice_Set command []) (\<lambda>cmd.
       Inr (cmd, map (\<lambda>sub. sub\<lparr>cmd_Flags := cmd_Flags sub @ completionFlags\<rparr>) subs)))"

section \<open>Effect on the start file\<close>

text \<open>The lines of a text that a shell runs: neither empty nor a comment.\<close>

definition runs :: "string \<Rightarrow> bool" where
  "runs l \<longleftrightarrow> l \<noteq> '''' \<and> \<not> str_HasPrefix l ''#''"

definition commands :: "string \<Rightarrow> string list" where
  "commands s = filter runs (str_Split (CHR 0x0A) s)"

lemma str_Split_append:
  "str_Split c (x @ y) = butlast (str_Split c x) @ (last (str_Split c x) @ hd (str_Split c y)) # tl (str_Split c y)"
proof (induction x)
  case Nil
  show ?case by (cases "str_Split c y") simp_all
next
  case (Cons a x)
  then show ?case
    by (cases "str_Split c x") (auto split: list.split)
qed

text \<open>A name that does not end a line.\<close>

abbreviation one_line :: "string \<Rightarrow> bool" where
  "one_line s \<equiv> CHR 0x0A \<notin> set s"

lemma bashEntry_lines:
  assumes "one_line program" and "one_line shell"
  shows "str_Split (CHR 0x0A) (bashEntry program shell k cr ct) =
    [start_marker program, source_line program shell k cr ct, end_marker program]"
proof -
  have 1: "one_line (start_marker program)" "one_line (source_line program shell k cr ct)" "one_line (end_marker program)"
    using assms by (auto simp: start_marker_def source_line_def end_marker_def isKubectlSet_def isCrictlSet_def isCtrSet_def)
  then show ?thesis
    by (simp add: bashEntry_def str_Split_append_sep str_Split_no_sep)
qed

lemma runs_lines:
  "\<not> runs (start_marker p @ s)" "\<not> runs (end_marker p @ s)" "runs (source_line p sh k cr ct)"
  by (simp_all add: runs_def start_marker_def end_marker_def source_line_def str_HasPrefix_def)


lemma commands_entry:
  assumes "one_line program" and "one_line shell"
  shows "commands (s @ bashEntry program shell k cr ct) =
    (if runs (last (str_Split (CHR 0x0A) s)) then butlast (commands s) @ [last (commands s) @ start_marker program] else commands s) @
    [source_line program shell k cr ct]"
proof -
  let ?L = "str_Split (CHR 0x0A) s"
  have split: "commands s = filter runs (butlast ?L) @ filter runs [last ?L]"
    unfolding commands_def by (metis append_butlast_last_id filter_append str_Split_nonempty)
  have "runs (last ?L @ start_marker program) \<longleftrightarrow> runs (last ?L)"
    using runs_lines(1) [of program "[]"] by (cases "last ?L") (simp_all add: runs_def str_HasPrefix_def)
  moreover have "\<not> runs (end_marker program)"
    using runs_lines(2) [of program "[]"] by simp
  ultimately show ?thesis
    unfolding split by (simp add: commands_def str_Split_append bashEntry_lines [OF assms] runs_lines(3))
qed

lemma last_line_entry:
  assumes "one_line program" and "one_line shell"
  shows "\<not> runs (last (str_Split (CHR 0x0A) (s @ bashEntry program shell k cr ct)))"
  using runs_lines(2) [of program "[]"] by (simp add: str_Split_append bashEntry_lines [OF assms])

text \<open>The text of a start file, which is empty when the file can be made.\<close>

definition rc_text :: "disk \<Rightarrow> string \<Rightarrow> string option" where
  "rc_text d p =
     (case gm_get (tree d) p of
        None \<Rightarrow> if is_dir (tree d) (filepath_Dir p) then Some '''' else None
      | Some i \<Rightarrow> (case kind i of Regular s \<Rightarrow> Some s | _ \<Rightarrow> None))"

lemma open_append:
  assumes "rc_text d p = Some s" and "faults d OpOpen p = None"
  shows "\<exists>d'. os_OpenAppend p pm d = (Inr p, d') \<and> faults d' = faults d \<and> (\<exists>i. gm_get (tree d') p = Some i \<and> kind i = Regular s) \<and>
    (\<forall>q. q \<noteq> p \<longrightarrow> gm_get (tree d') q = gm_get (tree d) q)"
  using assms follow_40_plain [of "tree d" p]
  by (auto simp: rc_text_def os_OpenAppend_def split: option.splits kind.splits if_splits)

lemma file_append:
  assumes "gm_get (tree d) p = Some i" and "kind i = Regular s" and "faults d OpWrite p = None"
  shows "\<exists>d'. file_Append p t d = (Inr (), d') \<and> faults d' = faults d \<and> rc_text d' p = Some (s @ t) \<and>
    (\<forall>q. q \<noteq> p \<longrightarrow> gm_get (tree d') q = gm_get (tree d) q)"
  using assms by (simp add: file_Append_def rc_text_def)

lemma writeToRC_ok:
  assumes "rc_text (con_disk c) (dir @ f) = Some s"
    and "faults (con_disk c) OpOpen (dir @ f) = None" and "faults (con_disk c) OpWrite (dir @ f) = None"
  shows "\<exists>c'. writeToRC program (Inr dir) shell f k cr ct c = (Inr (), c') \<and> faults (con_disk c') = faults (con_disk c) \<and>
    rc_text (con_disk c') (dir @ f) = Some (s @ bashEntry program shell k cr ct) \<and>
    (\<forall>q. q \<noteq> dir @ f \<longrightarrow> gm_get (tree (con_disk c')) q = gm_get (tree (con_disk c)) q)"
proof -
  obtain d1 i where 1: "os_OpenAppend (dir @ f) 420 (con_disk c) = (Inr (dir @ f), d1)" "faults d1 = faults (con_disk c)"
      "gm_get (tree d1) (dir @ f) = Some i" "kind i = Regular s" "\<forall>q. q \<noteq> dir @ f \<longrightarrow> gm_get (tree d1) q = gm_get (tree (con_disk c)) q"
    using open_append [OF assms(1,2)] by blast
  obtain d2 where 2: "file_Append (dir @ f) (bashEntry program shell k cr ct) d1 = (Inr (), d2)" "faults d2 = faults d1"
      "rc_text d2 (dir @ f) = Some (s @ bashEntry program shell k cr ct)" "\<forall>q. q \<noteq> dir @ f \<longrightarrow> gm_get (tree d2) q = gm_get (tree d1) q"
    using file_append [OF 1(3,4)] 1(2) assms(3) by metis
  show ?thesis
    using 1 2 by (simp add: writeToRC_def Let_def println_def)
qed

text \<open>The start file of a user in which nothing but the write to its end can happen.\<close>

abbreviation rc_works :: "console \<Rightarrow> string \<Rightarrow> bool" where
  "rc_works c p \<equiv> faults (con_disk c) OpOpen p = None \<and> faults (con_disk c) OpWrite p = None"

lemma Bash_installs:
  assumes "Bool ''i''" and "rc_text (con_disk c) (dir @ ''/.bashrc'') = Some s" and "rc_works c (dir @ ''/.bashrc'')"
  obtains c' where "Bash program (Inr dir) Bool c = (Inr (), c')" "rc_works c' (dir @ ''/.bashrc'')"
    "rc_text (con_disk c') (dir @ ''/.bashrc'') =
       Some (s @ bashEntry program ''bash'' (Bool ''kubectl'') (Bool ''crictl'') (Bool ''ctr''))"
    "\<And>q. q \<noteq> dir @ ''/.bashrc'' \<Longrightarrow> gm_get (tree (con_disk c')) q = gm_get (tree (con_disk c)) q"
proof -
  obtain c' where c': "writeToRC program (Inr dir) ''bash'' ''/.bashrc'' (Bool ''kubectl'') (Bool ''crictl'') (Bool ''ctr'') c = (Inr (), c')"
      "faults (con_disk c') = faults (con_disk c)"
      "rc_text (con_disk c') (dir @ ''/.bashrc'') = Some (s @ bashEntry program ''bash'' (Bool ''kubectl'') (Bool ''crictl'') (Bool ''ctr''))"
      "\<forall>q. q \<noteq> dir @ ''/.bashrc'' \<longrightarrow> gm_get (tree (con_disk c')) q = gm_get (tree (con_disk c)) q"
    using writeToRC_ok [OF assms(2) conjunct1 [OF assms(3)] conjunct2 [OF assms(3)]] by blast
  show thesis
    by (rule that [of c']) (use assms c' in \<open>simp_all add: Bash_def completion_action_def\<close>)
qed

definition installs :: "string \<Rightarrow> string \<Rightarrow> (string \<Rightarrow> bool) \<Rightarrow> nat \<Rightarrow> console \<Rightarrow> console" where
  "installs program dir Bool n c = ((\<lambda>c. snd (Bash program (Inr dir) Bool c)) ^^ n) c"

text \<open>
  C39: installing the completion any number of times adds exactly one command per installation to the start file,
  which loads the script with the chosen exports, and keeps every command and every other file, provided the
  file is missing, or its last line is empty or a comment.
\<close>

theorem completion_installed:
  assumes "one_line program" and "Bool ''i''" and "rc_text (con_disk c) (dir @ ''/.bashrc'') = Some s"
    and "rc_works c (dir @ ''/.bashrc'')" and "\<not> runs (last (str_Split (CHR 0x0A) s))"
  shows "(\<exists>s'. rc_text (con_disk (installs program dir Bool n c)) (dir @ ''/.bashrc'') = Some s' \<and>
      commands s' = commands s @ replicate n (source_line program ''bash'' (Bool ''kubectl'') (Bool ''crictl'') (Bool ''ctr''))) \<and>
    (\<forall>q. q \<noteq> dir @ ''/.bashrc'' \<longrightarrow> gm_get (tree (con_disk (installs program dir Bool n c))) q = gm_get (tree (con_disk c)) q)"
  using assms(3-5)
proof (induction n arbitrary: c s)
  case 0
  then show ?case by (simp add: installs_def)
next
  case (Suc n)
  let ?e = "bashEntry program ''bash'' (Bool ''kubectl'') (Bool ''crictl'') (Bool ''ctr'')"
  obtain c1 where c1: "Bash program (Inr dir) Bool c = (Inr (), c1)" "rc_works c1 (dir @ ''/.bashrc'')"
      "rc_text (con_disk c1) (dir @ ''/.bashrc'') = Some (s @ ?e)"
      "\<And>q. q \<noteq> dir @ ''/.bashrc'' \<Longrightarrow> gm_get (tree (con_disk c1)) q = gm_get (tree (con_disk c)) q"
    by (rule Bash_installs [where Bool = Bool, OF assms(2) Suc.prems(1,2)]) blast
  have bash: "one_line ''bash''" by simp
  have "installs program dir Bool (Suc n) c = installs program dir Bool n c1"
    unfolding installs_def funpow_Suc_right by (simp add: c1(1))
  moreover note Suc.IH [OF c1(3,2) last_line_entry [OF assms(1) bash]]
  moreover have "commands (s @ ?e) = commands s @ [source_line program ''bash'' (Bool ''kubectl'') (Bool ''crictl'') (Bool ''ctr'')]"
    by (simp add: commands_entry [OF assms(1) bash] Suc.prems(3))
  ultimately show ?case using c1(4) by simp
qed

text \<open>
  When the file ends in a command without a newline, the marker of the entry becomes a part of that command: a
  shell takes a number sign inside a word for a part of the word.
\<close>

theorem last_command_changed:
  assumes "one_line program" and "one_line shell" and "runs (last (str_Split (CHR 0x0A) s))"
  shows "commands (s @ bashEntry program shell k cr ct) =
    butlast (commands s) @ [last (commands s) @ start_marker program, source_line program shell k cr ct]"
  using commands_entry [OF assms(1,2), of s] assms(3) by simp

definition demo_console :: console where
  "demo_console = \<lparr>con_disk = empty_disk\<lparr>tree := [(''/root'', new_inode Directory 448),
     (''/root/.bashrc'', new_inode (Regular ''alias k=kubectl\<newline>'') 420)]\<rparr>, con_out = []\<rparr>"

theorem completion_installed_witness:
  "\<exists>s'. rc_text (con_disk (installs ''rke2'' ''/root'' (\<lambda>f. f \<in> {''i'', ''ctr''}) 2 demo_console)) ''/root/.bashrc'' = Some s' \<and>
     commands s' = [''alias k=kubectl'', ''. <(rke2 completion bash --ctr)'', ''. <(rke2 completion bash --ctr)'']"
proof -
  let ?s = "''alias k=kubectl\<newline>''" and ?B = "\<lambda>f. f \<in> {''i'', ''ctr''}"
  have 1: "one_line ''rke2''" "?B ''i''" by simp_all
  have path: "''/root'' @ ''/.bashrc'' = ''/root/.bashrc''" by simp
  have 2: "rc_text (con_disk demo_console) ''/root/.bashrc'' = Some ?s" by code_simp
  have 3: "rc_works demo_console ''/root/.bashrc''" by (simp add: demo_console_def empty_disk_def)
  have 4: "\<not> runs (last (str_Split (CHR 0x0A) ?s))" by code_simp
  have 5: "commands ?s @ replicate 2 (source_line ''rke2'' ''bash'' (?B ''kubectl'') (?B ''crictl'') (?B ''ctr'')) =
      [''alias k=kubectl'', ''. <(rke2 completion bash --ctr)'', ''. <(rke2 completion bash --ctr)'']" by code_simp
  show ?thesis
    using completion_installed [where program = "''rke2''" and Bool = ?B and c = demo_console and dir = "''/root''" and s = ?s and n = 2,
        unfolded path, OF 1 2 3 4, unfolded 5] by (rule conjunct1)
qed

end
