(* ===== verification/Cli_Main.thy ===== *)
theory Cli_Main
  imports Shell_Completion
begin

text \<open>
  \<^verbatim>\<open>main.go\<close>, \<^verbatim>\<open>NewApp\<close> and \<^verbatim>\<open>init\<close> of \<^verbatim>\<open>pkg/cli/cmds/root.go\<close>: the application with its commands, and the flags that the
  parser of the configuration file accepts for each command, which the functions that make a command register.
\<close>

section \<open>The application\<close>

record cli_App =
  app_Name :: string
  app_EnableBashCompletion :: bool
  app_DisableSliceFlagSeparator :: bool
  app_Usage :: string
  app_Version :: string
  app_Commands :: "command_group list"

definition NewApp :: "string \<Rightarrow> string \<Rightarrow> string \<Rightarrow> cli_App" where
  "NewApp arg0 version gitCommit =
     \<lparr>app_Name = filepath_Base arg0, app_EnableBashCompletion = True, app_DisableSliceFlagSeparator = True,
      app_Usage = ''Rancher Kubernetes Engine 2'', app_Version = version @ '' ('' @ gitCommit @ '')'', app_Commands = []\<rparr>"

definition VersionPrinter :: "string \<Rightarrow> cli_App \<Rightarrow> string list" where
  "VersionPrinter go_version app = [app_Name app @ '' version '' @ app_Version app, ''go version '' @ go_version]"

text \<open>The resolver of the Go library reads this variable; a space keeps the order of files before name servers.\<close>

definition init_env :: "(string, string) gomap \<Rightarrow> (string, string) gomap" where
  "init_env env =
     (if (case gm_get env ''RES_OPTIONS'' of None \<Rightarrow> '''' | Some v \<Rightarrow> v) = '''' then gm_put ''RES_OPTIONS'' '' '' env else env)"

section \<open>Commands\<close>

text \<open>The commands of K3s that are wrapped, those for management with their subcommands.\<close>

record k3s_commands =
  k_server :: cli_Command
  k_agent :: cli_Command
  k_snapshot :: command_group
  k_cert :: command_group
  k_encrypt :: command_group
  k_token :: command_group
  k_completion :: command_group

type_synonym valid_flags = "(string, cli_Flag list) gomap"

definition register :: "cli_Command \<Rightarrow> valid_flags \<Rightarrow> valid_flags" where
  "register cmd valid = gm_put (cmd_Name cmd) (cmd_Flags cmd) valid"

text \<open>
  For certificates and tokens the flags of the command of K3s are registered, otherwise those of the wrapped
  command; encryption and completion register none. The subcommand of the agent manages the Windows service.
\<close>

definition rke2_commands ::
  "slice_setter \<Rightarrow> cli_Command \<Rightarrow> k3s_commands \<Rightarrow> valid_flags \<Rightarrow> (command_group list \<times> valid_flags) outcome" where
  "rke2_commands slice_Set serviceSubcommand k valid =
     try_then (NewServerCommand slice_Set (k_server k)) (\<lambda>server.
     try_then (NewAgentCommand slice_Set (k_agent k)) (\<lambda>agent.
     try_then (NewEtcdSnapshotCommand slice_Set (k_snapshot k)) (\<lambda>snapshot.
     try_then (NewCertCommand slice_Set (k_cert k)) (\<lambda>cert.
     try_then (NewSecretsEncryptCommand slice_Set (k_encrypt k)) (\<lambda>encrypt.
     try_then (NewTokenCommand slice_Set (k_token k)) (\<lambda>token.
     try_then (NewCompletionCommand slice_Set (k_completion k)) (\<lambda>completion.
       Inr ([(server, []), (agent, [serviceSubcommand]), snapshot, cert, encrypt, token, completion],
            register (fst (k_token k)) (register (fst (k_cert k)) (register (fst snapshot)
              (register agent (register server valid))))))))))))"

text \<open>
  The program: \<open>MustParse\<close> puts the settings of the configuration file into the arguments, for which it has the
  registered flags, and \<open>run\<close> runs the application. An error other than the cancellation of the context is fatal.
\<close>

definition rke2_main ::
  "slice_setter \<Rightarrow> cli_Command \<Rightarrow> k3s_commands \<Rightarrow> valid_flags \<Rightarrow> (valid_flags \<Rightarrow> string list \<Rightarrow> string list) \<Rightarrow>
   (cli_App \<Rightarrow> string list \<Rightarrow> 'w \<Rightarrow> err option \<times> 'w) \<Rightarrow> (err \<Rightarrow> bool) \<Rightarrow> string \<Rightarrow> string \<Rightarrow> string list \<Rightarrow> 'w \<Rightarrow> unit outcome \<times> 'w" where
  "rke2_main slice_Set sub k valid MustParse run is_Canceled version gitCommit args w =
     (case rke2_commands slice_Set sub k valid of
        Inl f \<Rightarrow> (Inl f, w)
      | Inr (cmds, valid) \<Rightarrow>
         (case run ((NewApp (case args of [] \<Rightarrow> '''' | a # _ \<Rightarrow> a) version gitCommit)\<lparr>app_Commands := cmds\<rparr>) (MustParse valid args) w of
            (None, w) \<Rightarrow> (Inr (), w)
          | (Some e, w) \<Rightarrow> (if is_Canceled e then Inr () else Inl (Fatal ''Error''), w)))"

section \<open>The configuration file and the command line agree\<close>

lemma mustCmdFromK3S_name:
  assumes "mustCmdFromK3S slice_Set cmd opts = Inr cmd'"
  shows "cmd_Name cmd' = cmd_Name cmd"
  using assms by (auto simp: mustCmdFromK3S_def commandFromK3S_def split: sum.splits if_splits prod.splits)

lemma wrap_group_name: "wrap_group slice_Set a b c g = Inr g' \<Longrightarrow> cmd_Name (fst g') = cmd_Name (fst g)"
  by (cases g) (auto simp: wrap_group_def mustCmdFromK3S_name)

lemma command_names:
  "NewServerCommand s c = Inr c' \<Longrightarrow> cmd_Name c' = cmd_Name c"
  "NewAgentCommand s c = Inr c' \<Longrightarrow> cmd_Name c' = cmd_Name c"
  "NewEtcdSnapshotCommand s g = Inr g' \<Longrightarrow> cmd_Name (fst g') = cmd_Name (fst g)"
  "NewCertCommand s g = Inr g' \<Longrightarrow> cmd_Name (fst g') = cmd_Name (fst g)"
  "NewSecretsEncryptCommand s g = Inr g' \<Longrightarrow> cmd_Name (fst g') = cmd_Name (fst g)"
  "NewTokenCommand s g = Inr g' \<Longrightarrow> cmd_Name (fst g') = cmd_Name (fst g)"
  "NewCompletionCommand s g = Inr g' \<Longrightarrow> cmd_Name (fst g') = cmd_Name (fst g)"
  by (auto simp: NewServerCommand_def NewAgentCommand_def NewEtcdSnapshotCommand_def NewCertCommand_def NewSecretsEncryptCommand_def
      NewTokenCommand_def NewCompletionCommand_def wrap_group_name mustCmdFromK3S_name split: prod.splits)

definition k3s_names :: "k3s_commands \<Rightarrow> string list" where
  "k3s_names k = map cmd_Name [k_server k, k_agent k, fst (k_snapshot k), fst (k_cert k), fst (k_encrypt k), fst (k_token k), fst (k_completion k)]"

text \<open>
  The application has the seven commands of K3s in their order. A configuration file may set exactly the flags
  that the command line of a server, an agent or a snapshot accepts, since no later command registers under
  one of their names.
\<close>

lemma config_file_flags:
  assumes "rke2_commands slice_Set sub k valid = Inr (cmds, valid')" and "distinct (k3s_names k)"
  shows "map (cmd_Name \<circ> fst) cmds = k3s_names k"
    and "\<forall>g \<in> set (take 3 cmds). gm_get valid' (cmd_Name (fst g)) = Some (cmd_Flags (fst g))"
    and "\<forall>n. n \<notin> set (k3s_names k) \<longrightarrow> gm_get valid' n = gm_get valid n"
  using assms
  by (auto simp: rke2_commands_def k3s_names_def register_def try_then_Inr_iff dest!: command_names)

end
