(* ===== verification/Win_Net.thy ===== *)
theory Win_Net
  imports Win_Base "HOL-Library.Word"
begin

text \<open>
  \<^verbatim>\<open>pkg/windows/utils.go\<close>: the host network service, network interfaces and the cloud platform of a Windows
  node. The network service, the interfaces, the HTTP client, the router and regular expressions are
  parameters; each call may change the state \<open>'h\<close> of the world, which also stands for the passing of time.
\<close>

section \<open>The world\<close>

record Subnet =
  sn_AddressPrefix :: string
  sn_GatewayAddress :: string
  sn_Policies :: "string list"

record HNSNetwork =
  hn_Type :: string
  hn_Name :: string
  hn_NetworkAdapterName :: string
  hn_ManagementIP :: string
  hn_Subnets :: "Subnet list"

text \<open>
  Errors of the HTTP client by their Go type: a URL error, with the time-out of its cause if that is a network
  error, a network error, an error of a network operation, or another one.
\<close>

datatype http_err = UrlError "bool option" string | NetError bool string | OpError bool string | OtherError string

text \<open>An interface: its name, and its addresses or the error of asking for them.\<close>

type_synonym iface = "string \<times> string list result"

record ('h, 'ip, 'net) win_env =
  GetHNSNetworkByName :: "string \<Rightarrow> 'h \<Rightarrow> HNSNetwork result \<times> 'h"
  HNSListNetworks :: "'h \<Rightarrow> HNSNetwork list result \<times> 'h"
  HNS_Create :: "HNSNetwork \<Rightarrow> 'h \<Rightarrow> unit result \<times> 'h"
  HNS_Delete :: "HNSNetwork \<Rightarrow> 'h \<Rightarrow> unit result \<times> 'h"
  FirewallRuleAdd :: "string \<Rightarrow> string \<Rightarrow> 'h \<Rightarrow> bool result \<times> 'h"
  net_Interfaces :: "'h \<Rightarrow> iface list result \<times> 'h"
  http_Get :: "string \<Rightarrow> (string \<times> string) list \<Rightarrow> 'h \<Rightarrow> (nat option \<times> http_err option) \<times> 'h"
  http_NewRequest :: "string \<Rightarrow> unit result"
  net_Dial :: "string \<Rightarrow> 'h \<Rightarrow> string option result \<times> 'h"
  netroute_New :: "unit result"
  netroute_Route :: "'ip \<Rightarrow> 'ip result"
  netroute_RouteWithSrc :: "'ip \<Rightarrow> 'ip option \<Rightarrow> unit result"
  net_ParseIP :: "string \<Rightarrow> 'ip option"
  net_ParseCIDR :: "string \<Rightarrow> 'net result"
  net_Contains :: "'net \<Rightarrow> 'ip \<Rightarrow> bool"
  regexp_Compile :: "string \<Rightarrow> (string \<Rightarrow> bool) option"

definition CalicoHnsNetworkName :: string where
  "CalicoHnsNetworkName = ''External''"

section \<open>The network of the nodes\<close>

definition calico_network :: "string \<Rightarrow> string \<Rightarrow> HNSNetwork" where
  "calico_network backend networkAdapter =
     (if backend = ''vxlan'' then
        \<lparr>hn_Type = ''Overlay'', hn_Name = CalicoHnsNetworkName, hn_NetworkAdapterName = networkAdapter, hn_ManagementIP = '''',
         hn_Subnets = [\<lparr>sn_AddressPrefix = ''192.168.255.0/30'', sn_GatewayAddress = ''192.168.255.1'',
           sn_Policies = [''{ \"Type\": \"VSID\", \"VSID\": 9999 }'']\<rparr>]\<rparr>
      else
        \<lparr>hn_Type = ''L2Bridge'', hn_Name = CalicoHnsNetworkName, hn_NetworkAdapterName = networkAdapter, hn_ManagementIP = '''',
         hn_Subnets = [\<lparr>sn_AddressPrefix = ''192.168.255.0/30'', sn_GatewayAddress = ''192.168.255.1'', sn_Policies = []\<rparr>]\<rparr>)"

text \<open>The loop that waits for the network: \<open>n\<close> is the number of requests that five minutes allow.\<close>

fun await_network :: "('h, 'ip, 'net) win_env \<Rightarrow> nat \<Rightarrow> 'h \<Rightarrow> string result \<times> 'h" where
  "await_network env 0 h = (Inl (Errorf (''failed to create '' @ CalicoHnsNetworkName @ '' network'')), h)"
| "await_network env (Suc n) h =
     (case GetHNSNetworkByName env CalicoHnsNetworkName h of
        (Inr network, h') \<Rightarrow> (Inr (hn_ManagementIP network), h')
      | (Inl _, h') \<Rightarrow> await_network env n h')"

definition createHnsNetwork :: "('h, 'ip, 'net) win_env \<Rightarrow> nat \<Rightarrow> string \<Rightarrow> string \<Rightarrow> 'h \<Rightarrow> string result \<times> 'h" where
  "createHnsNetwork env n backend networkAdapter h =
     (case GetHNSNetworkByName env CalicoHnsNetworkName h of
        (Inr hcsnetwork, h) \<Rightarrow> (Inr (hn_ManagementIP hcsnetwork), h)
      | (Inl _, h) \<Rightarrow>
         (case (if backend = ''vxlan'' then FirewallRuleAdd env ''OverlayTraffic4789UDP'' ''4789'' h else (Inr True, h)) of
            (Inl e, h) \<Rightarrow> (Inl (WithMessage ''error creating firewall rules'' e), h)
          | (Inr _, h) \<Rightarrow>
             (case HNS_Create env (calico_network backend networkAdapter) h of
                (Inl e, h) \<Rightarrow> (Inl (WithMessage (''error creating the '' @ CalicoHnsNetworkName @ '' network'') e), h)
              | (Inr _, h) \<Rightarrow> await_network env n h)))"

text \<open>How the operator is told to find the address of a node.\<close>

record NodeAddressAutodetection =
  na_FirstFound :: "bool option"
  na_CanReach :: string
  na_Interface :: string
  na_CIDRS :: "string list"

definition nodeAddressAutodetection :: "NodeAddressAutodetection \<Rightarrow> string result" where
  "nodeAddressAutodetection autoDetect =
     (if na_FirstFound autoDetect = Some True then Inr ''first-found''
      else if na_CanReach autoDetect \<noteq> '''' then Inr (''can-reach='' @ na_CanReach autoDetect)
      else if na_Interface autoDetect \<noteq> '''' then Inr (''interface='' @ na_Interface autoDetect)
      else if na_CIDRS autoDetect \<noteq> [] then Inr (''cidrs='' @ str_Join (na_CIDRS autoDetect) '','')
      else Inl (Errorf ''the passed autoDetect value is not supported''))"

section \<open>Interfaces\<close>

text \<open>The first interface one of whose addresses contains a text.\<close>

fun find_containing :: "string \<Rightarrow> iface list \<Rightarrow> string result" where
  "find_containing ip [] = Inl (Errorf (''no interface has the ip: '' @ ip))"
| "find_containing ip ((name, addrs) # ifaces) =
     try_then addrs (\<lambda>as. if list_ex (\<lambda>a. str_Contains a ip) as then Inr name else find_containing ip ifaces)"

definition findInterface :: "('h, 'ip, 'net) win_env \<Rightarrow> string \<Rightarrow> 'h \<Rightarrow> string result \<times> 'h" where
  "findInterface env ip h = (case net_Interfaces env h of (ifs, h') \<Rightarrow> (try_then ifs (find_containing ip), h'))"

text \<open>White space around the commas of a list is dropped, as splitting at the pattern \<^verbatim>\<open>\s*,\s*\<close> does.\<close>

definition is_re_space :: "char \<Rightarrow> bool" where
  "is_re_space c \<longleftrightarrow> c \<in> {CHR '' '', CHR 0x09, CHR 0x0A, CHR 0x0C, CHR 0x0D}"

definition trim_left :: "string \<Rightarrow> string" where
  "trim_left = dropWhile is_re_space"

definition trim_right :: "string \<Rightarrow> string" where
  "trim_right s = rev (trim_left (rev s))"

definition split_commas :: "string \<Rightarrow> string list" where
  "split_commas s =
     (let ps = str_Split (CHR '','') s; n = length ps in
      map (\<lambda>(i, p). let p = (if i = 0 then p else trim_left p) in if Suc i = n then p else trim_right p) (enumerate 0 ps))"

text \<open>The error of a bad expression is not looked at: with an interface to try, the nil expression panics.\<close>

fun find_matching :: "(string \<Rightarrow> bool) option \<Rightarrow> iface list \<Rightarrow> string outcome" where
  "find_matching re [] = Inl (Err (Errorf ''no interface matches the set expression''))"
| "find_matching re ((name, addrs) # ifaces) =
     (case re of
        None \<Rightarrow> Inl (Panic ''nil pointer dereference'')
      | Some matches \<Rightarrow> if matches name then Inr name else find_matching re ifaces)"

definition findInterfaceRegEx :: "('h, 'ip, 'net) win_env \<Rightarrow> string \<Rightarrow> 'h \<Rightarrow> string outcome \<times> 'h" where
  "findInterfaceRegEx env expression h =
     (let re = regexp_Compile env (''('' @ str_Join (split_commas expression) '')|('' @ '')'') in
      case net_Interfaces env h of
        (Inl _, h') \<Rightarrow> (find_matching re [], h')
      | (Inr ifs, h') \<Rightarrow> (find_matching re ifs, h'))"

definition findInterfaceReach :: "('h, 'ip, 'net) win_env \<Rightarrow> string \<Rightarrow> 'h \<Rightarrow> string result \<times> 'h" where
  "findInterfaceReach env dest h =
     (case net_Dial env (''['' @ dest @ '']:80'') h of
        (Inl e, h) \<Rightarrow> (Inl e, h)
      | (Inr None, h) \<Rightarrow> (Inl (Errorf (''no interface can route IP: '' @ dest)), h)
      | (Inr (Some local), h) \<Rightarrow> findInterface env (str_Split (CHR '':'') local ! 0) h)"

text \<open>The three nested loops over networks, interfaces and addresses; the accumulator is the interface found.\<close>

definition in_network :: "('h, 'ip, 'net) win_env \<Rightarrow> 'net \<Rightarrow> string \<Rightarrow> bool" where
  "in_network env network a =
     (case net_ParseIP env (str_Split slash a ! 0) of None \<Rightarrow> False | Some ip \<Rightarrow> net_Contains env network ip)"

definition cidr_addr :: "('h, 'ip, 'net) win_env \<Rightarrow> 'net \<Rightarrow> string \<Rightarrow> string \<Rightarrow> string \<Rightarrow> string result" where
  "cidr_addr env network name a foundIf =
     (if in_network env network a then
        if foundIf \<noteq> '''' \<and> foundIf \<noteq> name then Inl (Errorf ''the passed CIDRs are routed in different interfaces'') else Inr name
      else Inr foundIf)"

definition cidr_iface :: "('h, 'ip, 'net) win_env \<Rightarrow> 'net \<Rightarrow> iface \<Rightarrow> string \<Rightarrow> string result" where
  "cidr_iface env network = (\<lambda>(name, addrs) foundIf. try_then addrs (\<lambda>as. fold_try (cidr_addr env network name) as foundIf))"

fun find_cidrs :: "('h, 'ip, 'net) win_env \<Rightarrow> string list \<Rightarrow> string \<Rightarrow> 'h \<Rightarrow> string result \<times> 'h" where
  "find_cidrs env [] foundIf h = (Inr foundIf, h)"
| "find_cidrs env (cidr # cidrs) foundIf h =
     (case net_ParseCIDR env cidr of
        Inl e \<Rightarrow> (Inl e, h)
      | Inr network \<Rightarrow>
         (case net_Interfaces env h of
            (Inl e, h) \<Rightarrow> (Inl e, h)
          | (Inr ifs, h) \<Rightarrow>
             (case fold_try (cidr_iface env network) ifs foundIf of
                Inl e \<Rightarrow> (Inl e, h)
              | Inr foundIf \<Rightarrow> find_cidrs env cidrs foundIf h)))"

definition findInterfaceCIDR :: "('h, 'ip, 'net) win_env \<Rightarrow> string list \<Rightarrow> 'h \<Rightarrow> string result \<times> 'h" where
  "findInterfaceCIDR env cidrs h = find_cidrs env cidrs '''' h"

section \<open>Removing networks\<close>

fun delete_networks :: "('h, 'ip, 'net) win_env \<Rightarrow> HNSNetwork list \<Rightarrow> string list \<Rightarrow> 'h \<Rightarrow> string list result \<times> 'h" where
  "delete_networks env [] ips h = (Inr ips, h)"
| "delete_networks env (network # networks) ips h =
     (if hn_Name network \<noteq> ''nat'' then
        (case HNS_Delete env network h of
           (Inl e, h) \<Rightarrow> (Inl e, h)
         | (Inr _, h) \<Rightarrow> delete_networks env networks (ips @ [hn_ManagementIP network]) h)
      else delete_networks env networks ips h)"

text \<open>Whether every address is back on an interface.\<close>

fun all_back :: "('h, 'ip, 'net) win_env \<Rightarrow> string list \<Rightarrow> 'h \<Rightarrow> bool result \<times> 'h" where
  "all_back env [] h = (Inr True, h)"
| "all_back env (ip # ips) h =
     (case findInterface env ip h of
        (Inl _, h) \<Rightarrow> (Inr False, h)
      | (Inr _, h) \<Rightarrow> all_back env ips h)"

definition deleteAllNetworks :: "('h, 'ip, 'net) win_env \<Rightarrow> nat \<Rightarrow> 'h \<Rightarrow> unit result \<times> 'h" where
  "deleteAllNetworks env n h =
     (case HNSListNetworks env h of
        (Inl e, h) \<Rightarrow> (Inl e, h)
      | (Inr networks, h) \<Rightarrow>
         (case delete_networks env networks [] h of
            (Inl e, h) \<Rightarrow> (Inl e, h)
          | (Inr ips, h) \<Rightarrow>
             (case poll_until n (all_back env ips) h of
                (Inl e, h) \<Rightarrow>
                  (Inl (if e = ErrDeadline then Errorf ''timed out waiting for the network interfaces to come back'' else e), h)
              | (Inr _, h) \<Rightarrow> (Inr (), h))))"

section \<open>The platform\<close>

fun hasTimedOut :: "http_err option \<Rightarrow> bool" where
  "hasTimedOut None = False"
| "hasTimedOut (Some (UrlError t s)) = (t = Some True \<or> str_Contains s ''use of closed network connection'')"
| "hasTimedOut (Some (NetError t s)) = (t \<or> str_Contains s ''use of closed network connection'')"
| "hasTimedOut (Some (OpError t s)) = (t \<or> str_Contains s ''use of closed network connection'')"
| "hasTimedOut (Some (OtherError s)) = str_Contains s ''use of closed network connection''"

definition hostnameEc2Uri :: string where
  "hostnameEc2Uri = ''http://169.254.169.254/latest/meta-data/local-hostname''"

definition hostnameGoogleUri :: string where
  "hostnameGoogleUri = ''http://metadata.google.internal/computeMetadata/v1/instance/hostname''"

text \<open>From the request to the Google metadata server on, and from that to the Amazon one on.\<close>

definition platform_gce :: "('h, 'ip, 'net) win_env \<Rightarrow> 'h \<Rightarrow> string result \<times> 'h" where
  "platform_gce env h =
     (case http_NewRequest env hostnameGoogleUri of
        Inl e \<Rightarrow> (Inl e, h)
      | Inr _ \<Rightarrow>
         (case http_Get env hostnameGoogleUri [(''Metadata-Flavor'', ''Google'')] h of
            ((resp, err), h) \<Rightarrow>
              if hasTimedOut err then (Inr ''bare-metal'', h)
              else if resp = Some 200 then (Inr ''gce'', h) else (Inr ''bare-metal'', h)))"

definition platform_cloud :: "('h, 'ip, 'net) win_env \<Rightarrow> 'h \<Rightarrow> string result \<times> 'h" where
  "platform_cloud env h =
     (case http_Get env hostnameEc2Uri [] h of
        ((resp, err), h) \<Rightarrow>
          if hasTimedOut err then (Inr ''bare-metal'', h)
          else if resp = Some 200 then (Inr ''ec2'', h) else platform_gce env h)"

definition platformType :: "('h, 'ip, 'net) win_env \<Rightarrow> 'h \<Rightarrow> string result \<times> 'h" where
  "platformType env h =
     (case GetHNSNetworkByName env ''azure'' h of
        (Inr _, h) \<Rightarrow> (Inr ''aks'', h)
      | (Inl _, h) \<Rightarrow>
         (case GetHNSNetworkByName env ''vpcbr*'' h of
            (Inr _, h) \<Rightarrow> (Inr ''eks'', h)
          | (Inl _, h) \<Rightarrow> platform_cloud env h))"

definition autoConfigureIpam :: "string \<Rightarrow> bool" where
  "autoConfigureIpam it \<longleftrightarrow> it = ''host-local''"

definition setMetaDataServerRoute :: "('h, 'ip, 'net) win_env \<Rightarrow> string \<Rightarrow> unit result" where
  "setMetaDataServerRoute env mgmt =
     (case net_ParseIP env mgmt of
        None \<Rightarrow> Inl (Errorf ''not a valid ip'')
      | Some ip \<Rightarrow>
          (let metaIp = net_ParseIP env ''169.254.169.254/32'' in
           try_then (netroute_New env) (\<lambda>_.
           try_then (netroute_Route env ip) (\<lambda>preferredSrc. netroute_RouteWithSrc env preferredSrc metaIp))))"

section \<open>Choice of an interface\<close>

text \<open>The three loops as one pass over the names of the interfaces that were hit, in their order.\<close>

definition pick :: "string \<Rightarrow> string \<Rightarrow> string result" where
  "pick name foundIf =
     (if foundIf \<noteq> '''' \<and> foundIf \<noteq> name then Inl (Errorf ''the passed CIDRs are routed in different interfaces'') else Inr name)"

definition iface_hits :: "('h, 'ip, 'net) win_env \<Rightarrow> 'net \<Rightarrow> iface \<Rightarrow> string list" where
  "iface_hits env network = (\<lambda>(name, addrs). case addrs of Inl _ \<Rightarrow> [] | Inr as \<Rightarrow> map (\<lambda>_. name) (filter (in_network env network) as))"

definition cidr_hits :: "('h, 'ip, 'net) win_env \<Rightarrow> iface list \<Rightarrow> string \<Rightarrow> string list" where
  "cidr_hits env ifs cidr =
     (case net_ParseCIDR env cidr of Inl _ \<Rightarrow> [] | Inr network \<Rightarrow> concat (map (iface_hits env network) ifs))"

definition readable :: "iface list \<Rightarrow> bool" where
  "readable ifs \<longleftrightarrow> list_all (\<lambda>(name, addrs). name \<noteq> '''' \<and> \<not> isl addrs) ifs"

lemma cidr_addrs: "fold_try (cidr_addr env network name) as found = fold_try pick (map (\<lambda>_. name) (filter (in_network env network) as)) found"
  by (induction as arbitrary: found) (simp_all add: cidr_addr_def pick_def)

lemma cidr_ifaces:
  "readable ifs \<Longrightarrow> fold_try (cidr_iface env network) ifs found = fold_try pick (concat (map (iface_hits env network) ifs)) found"
proof (induction ifs arbitrary: found)
  case (Cons i ifs)
  obtain name as where i: "i = (name, Inr as)"
    using Cons.prems by (cases i; cases "snd i") (auto simp: readable_def)
  have "readable ifs"
    using Cons.prems by (simp add: readable_def)
  then have "fold_try (cidr_iface env network) ifs = fold_try pick (concat (map (iface_hits env network) ifs))"
    using Cons.IH by blast
  then show ?case
    by (simp add: i cidr_iface_def iface_hits_def cidr_addrs fold_try_append)
qed simp

lemma find_cidrs_hits:
  assumes "\<forall>h. net_Interfaces env h = (Inr ifs, h)" and "readable ifs" and "\<forall>c \<in> set cidrs. \<not> isl (net_ParseCIDR env c)"
  shows "find_cidrs env cidrs found h = (fold_try pick (concat (map (cidr_hits env ifs) cidrs)) found, h)"
  using assms(3)
proof (induction cidrs arbitrary: found)
  case (Cons c cidrs)
  then obtain network where c: "net_ParseCIDR env c = Inr network"
    by (cases "net_ParseCIDR env c") auto
  have hits: "cidr_hits env ifs c = concat (map (iface_hits env network) ifs)"
    by (simp add: cidr_hits_def c)
  show ?case
    using Cons.IH Cons.prems assms(1) by (simp add: c hits cidr_ifaces [OF assms(2)] fold_try_append split: sum.split)
qed simp

lemma picks_iff:
  assumes "'''' \<notin> set hits"
  shows "fold_try pick hits found = Inr f \<longleftrightarrow> (if hits = [] then f = found else set hits = {f} \<and> (found = '''' \<or> found = f))"
  using assms
proof (induction hits arbitrary: found)
  case (Cons n hits)
  have "set hits = {f} \<longleftrightarrow> set (n # hits) = {f}" if "n = f" "hits \<noteq> []"
    using that by (cases hits) auto
  then show ?case
    using Cons by (cases "hits = []") (auto simp: pick_def)
qed auto

lemma picks_spec:
  assumes "'''' \<notin> set hits"
  shows "fold_try pick hits '''' = Inr f \<longleftrightarrow> (if f = '''' then \<forall>n. n \<notin> set hits else \<forall>n. n \<in> set hits \<longleftrightarrow> n = f)"
    and "isl (fold_try pick hits '''') \<longleftrightarrow> (\<exists>m n. m \<in> set hits \<and> n \<in> set hits \<and> m \<noteq> n)"
proof -
  note iff = picks_iff [OF assms, of "''''"]
  show "fold_try pick hits '''' = Inr f \<longleftrightarrow> (if f = '''' then \<forall>n. n \<notin> set hits else \<forall>n. n \<in> set hits \<longleftrightarrow> n = f)"
    unfolding iff using assms by (cases hits) auto
  show "isl (fold_try pick hits '''') \<longleftrightarrow> (\<exists>m n. m \<in> set hits \<and> n \<in> set hits \<and> m \<noteq> n)"
  proof (cases "fold_try pick hits ''''")
    case (Inl e)
    have "hits \<noteq> []" "set hits \<noteq> {f}" for f
      using iff [of f] iff [of "''''"] Inl by (auto split: if_splits)
    then obtain m where m: "m \<in> set hits" "set hits \<noteq> {m}"
      by (cases hits) auto
    then show ?thesis
      using Inl by auto
  next
    case (Inr f)
    then show ?thesis
      using iff [of f] by (auto split: if_splits)
  qed
qed

lemma hits_named: "readable ifs \<Longrightarrow> n \<in> set (cidr_hits env ifs c) \<Longrightarrow> n \<noteq> ''''"
  by (auto simp: cidr_hits_def iface_hits_def readable_def list_all_iff split: sum.splits)

text \<open>An interface has an address in one of the networks.\<close>

definition routes :: "('h, 'ip, 'net) win_env \<Rightarrow> iface list \<Rightarrow> string list \<Rightarrow> string \<Rightarrow> bool" where
  "routes env ifs cidrs name \<longleftrightarrow> (\<exists>c network as a. c \<in> set cidrs \<and> net_ParseCIDR env c = Inr network \<and>
     (name, Inr as) \<in> set ifs \<and> a \<in> set as \<and> in_network env network a)"

lemma routes_hits: "routes env ifs cidrs name \<longleftrightarrow> name \<in> set (concat (map (cidr_hits env ifs) cidrs))"
proof -
  have "name \<in> set (iface_hits env network i) \<longleftrightarrow> (\<exists>as. i = (name, Inr as) \<and> (\<exists>a \<in> set as. in_network env network a))" for network i
    by (cases i; cases "snd i") (auto simp: iface_hits_def)
  then have "name \<in> set (cidr_hits env ifs c) \<longleftrightarrow>
      (\<exists>network as a. net_ParseCIDR env c = Inr network \<and> (name, Inr as) \<in> set ifs \<and> a \<in> set as \<and> in_network env network a)" for c
    by (cases "net_ParseCIDR env c") (auto simp: cidr_hits_def)
  then show ?thesis
    by (auto simp: routes_def)
qed

text \<open>
  The interface for a list of networks. On a node whose interfaces and addresses can be read, and with
  networks that parse, the search yields a name exactly if that interface alone has addresses in the networks;
  it yields the empty name, and no error, exactly if no interface has one; otherwise, with two interfaces
  in the networks, it is an error, however the addresses are spread over the networks.
\<close>

theorem interface_of_networks:
  assumes "\<forall>h. net_Interfaces env h = (Inr ifs, h)" and "readable ifs" and "\<forall>c \<in> set cidrs. \<not> isl (net_ParseCIDR env c)"
  shows "(\<forall>f. findInterfaceCIDR env cidrs h = (Inr f, h) \<longleftrightarrow>
      (if f = '''' then \<forall>n. \<not> routes env ifs cidrs n else \<forall>n. routes env ifs cidrs n \<longleftrightarrow> n = f)) \<and>
    (isl (fst (findInterfaceCIDR env cidrs h)) \<longleftrightarrow> (\<exists>m n. routes env ifs cidrs m \<and> routes env ifs cidrs n \<and> m \<noteq> n))"
proof -
  let ?hits = "concat (map (cidr_hits env ifs) cidrs)"
  have found: "findInterfaceCIDR env cidrs h = (fold_try pick ?hits '''', h)"
    using find_cidrs_hits [OF assms] by (simp add: findInterfaceCIDR_def)
  have named: "'''' \<notin> set ?hits"
    using hits_named [OF assms(2)] by auto
    show ?thesis
    unfolding found routes_hits by (simp del: set_concat add: picks_spec [OF named])
qed


text \<open>
  The interface of a node address is found by its text. The search takes the first interface with an
  address that contains the given one as a text, so with the address 10.0.0.1 of the second interface it
  yields the first interface if that has the address 10.0.0.10, whatever the addresses are exactly.
\<close>

theorem wrong_interface:
  "findInterface (env\<lparr>net_Interfaces := (\<lambda>h. (Inr [(n1, Inr [ip @ d # rest1]), (n2, Inr [ip @ slash # rest2])], h))\<rparr>) ip h =
     (Inr n1, h)"
  by (auto simp: findInterface_def str_Contains_iff)

section \<open>An instance with 32 bit addresses\<close>

text \<open>IPv4 addresses and networks: four decimal numbers up to 255, and the number of leading bits that count.\<close>

definition parse_octet :: "string \<Rightarrow> nat option" where
  "parse_octet s = (case atoi_nat s of Some n \<Rightarrow> if n < 256 then Some n else None | None \<Rightarrow> None)"

definition parse_ip4 :: "string \<Rightarrow> 32 word option" where
  "parse_ip4 s =
     (case map parse_octet (str_Split (CHR ''.'') s) of
        [Some a, Some b, Some c, Some d] \<Rightarrow> Some (word_of_int (((int a * 256 + int b) * 256 + int c) * 256 + int d))
      | _ \<Rightarrow> None)"

definition parse_cidr4 :: "string \<Rightarrow> (32 word \<times> nat) result" where
  "parse_cidr4 s =
     (case str_Split slash s of
        [a, n] \<Rightarrow> (case (parse_ip4 a, atoi_nat n) of
           (Some ip, Some k) \<Rightarrow> if k \<le> 32 then Inr (ip, k) else Inl (Errorf ''invalid CIDR address'')
         | _ \<Rightarrow> Inl (Errorf ''invalid CIDR address''))
      | _ \<Rightarrow> Inl (Errorf ''invalid CIDR address''))"

definition contains4 :: "32 word \<times> nat \<Rightarrow> 32 word \<Rightarrow> bool" where
  "contains4 network ip = (case network of (a, k) \<Rightarrow> drop_bit (32 - k) a = drop_bit (32 - k) ip)"

definition ip4_env :: "iface list \<Rightarrow> (unit, 32 word, 32 word \<times> nat) win_env" where
  "ip4_env ifs =
     \<lparr>GetHNSNetworkByName = (\<lambda>n h. (Inl ErrNotExist, h)), HNSListNetworks = (\<lambda>h. (Inr [], h)), HNS_Create = (\<lambda>n h. (Inr (), h)),
      HNS_Delete = (\<lambda>n h. (Inr (), h)), FirewallRuleAdd = (\<lambda>n p h. (Inr True, h)), net_Interfaces = (\<lambda>h. (Inr ifs, h)),
      http_Get = (\<lambda>u hd h. ((None, Some (OtherError '''')), h)), http_NewRequest = (\<lambda>u. Inr ()), net_Dial = (\<lambda>a h. (Inr None, h)),
      netroute_New = Inr (), netroute_Route = Inr, netroute_RouteWithSrc = (\<lambda>s d. Inr ()), net_ParseIP = parse_ip4,
      net_ParseCIDR = parse_cidr4, net_Contains = contains4, regexp_Compile = (\<lambda>e. None)\<rparr>"

theorem interface_of_networks_witness:
  "findInterfaceCIDR (ip4_env [(''eth0'', Inr [''192.168.0.4/24'']), (''eth1'', Inr [''10.1.2.3/16'', ''10.2.0.1/16''])])
     [''10.1.0.0/16'', ''10.2.0.0/15''] () = (Inr ''eth1'', ())"
proof -
  let ?ifs = "[(''eth0'', Inr [''192.168.0.4/24'']), (''eth1'', Inr [''10.1.2.3/16'', ''10.2.0.1/16''])]"
  let ?cs = "[''10.1.0.0/16'', ''10.2.0.0/15'']"
  have ifs: "\<forall>h. net_Interfaces (ip4_env ?ifs) h = (Inr ?ifs, h)"
    by (simp add: ip4_env_def)
  have ok: "readable ?ifs" "\<forall>c \<in> set ?cs. \<not> isl (net_ParseCIDR (ip4_env ?ifs) c)"
    by code_simp+
  have hits: "set (concat (map (cidr_hits (ip4_env ?ifs) ?ifs) ?cs)) = {''eth1''}"
    by code_simp
  show ?thesis
    using interface_of_networks [OF ifs ok, of "()"] unfolding routes_hits hits by auto
qed

section \<open>What is left of the networks\<close>

text \<open>
  What is known of the network service, with \<open>nets\<close> the networks of the world: they are listed as they are,
  deleting one leaves the others, and asking for the interfaces changes none.
\<close>

definition network_laws :: "('h, 'ip, 'net) win_env \<Rightarrow> ('h \<Rightarrow> HNSNetwork list) \<Rightarrow> bool" where
  "network_laws env nets \<longleftrightarrow>
     (\<forall>h r h'. HNSListNetworks env h = (r, h') \<longrightarrow> nets h' = nets h \<and> (\<forall>ns. r = Inr ns \<longrightarrow> ns = nets h)) \<and>
     (\<forall>n h h'. HNS_Delete env n h = (Inr (), h') \<longrightarrow> nets h' = removeAll n (nets h)) \<and>
     (\<forall>h. nets (snd (net_Interfaces env h)) = nets h)"

lemma poll_until_keeps:
  assumes "\<And>s. f (snd (cond s)) = f s"
  shows "f (snd (poll_until n cond s)) = f s"
proof (induction n arbitrary: s)
  case (Suc n)
  show ?case
    using Suc.IH [of "snd (cond s)"] assms [of s] by (auto split: prod.splits sum.splits bool.splits)
qed simp

lemma delete_networks_left:
  assumes "network_laws env nets"
  shows "delete_networks env ns ips h = (Inr ips', h') \<Longrightarrow> nets h' = filter (\<lambda>n. hn_Name n = ''nat'' \<or> n \<notin> set ns) (nets h)"
proof (induction ns arbitrary: ips h)
  case (Cons n ns)
  show ?case
  proof (cases "hn_Name n = ''nat''")
    case True
    then have "nets h' = filter (\<lambda>n. hn_Name n = ''nat'' \<or> n \<notin> set ns) (nets h)"
      using Cons.IH Cons.prems by simp
    also have "\<dots> = filter (\<lambda>m. hn_Name m = ''nat'' \<or> m \<notin> set (n # ns)) (nets h)"
      using True by (intro filter_cong) auto
    finally show ?thesis .
  next
    case False
    then obtain k where k: "HNS_Delete env n h = (Inr (), k)" "delete_networks env ns (ips @ [hn_ManagementIP n]) k = (Inr ips', h')"
      using Cons.prems by (auto split: prod.splits sum.splits)
    have "nets k = removeAll n (nets h)"
      using assms k(1) by (auto simp: network_laws_def)
    then show ?thesis
      using Cons.IH [OF k(2)] False by (auto simp: removeAll_filter_not_eq intro!: filter_cong)
  qed
qed simp

lemma all_back_keeps: "network_laws env nets \<Longrightarrow> nets (snd (all_back env ips h)) = nets h"
proof (induction ips arbitrary: h)
  case (Cons ip ips)
  have "nets (snd (findInterface env ip h)) = nets h"
    using Cons.prems by (auto simp: findInterface_def network_laws_def split: prod.splits) (metis snd_conv)
  then show ?case
    using Cons.IH [OF Cons.prems] by (auto split: prod.splits sum.splits)
qed simp

lemma deleteAllNetworks_left:
  assumes laws: "network_laws env nets" and ok: "deleteAllNetworks env n h = (Inr (), h')"
  shows "nets h' = filter (\<lambda>n. hn_Name n = ''nat'') (nets h)"
proof -
  obtain h1 h2 ips where l: "HNSListNetworks env h = (Inr (nets h), h1)" and d: "delete_networks env (nets h) [] h1 = (Inr ips, h2)"
    and p: "poll_until n (all_back env ips) h2 = (Inr (), h')"
  proof -
    obtain r h1 where l: "HNSListNetworks env h = (r, h1)"
      by (cases "HNSListNetworks env h")
    then obtain ns where r: "r = Inr ns"
      using ok by (cases r) (auto simp: deleteAllNetworks_def)
    have ns: "ns = nets h"
      using laws l r unfolding network_laws_def by blast
    obtain ips h2 where "delete_networks env (nets h) [] h1 = (Inr ips, h2)" "poll_until n (all_back env ips) h2 = (Inr (), h')"
      using ok by (auto simp: deleteAllNetworks_def l r ns split: prod.splits sum.splits)
    then show ?thesis
      using that [of h1 ips h2] l r ns by simp
  qed
  have "nets h' = nets h2"
    using poll_until_keeps [of nets "all_back env ips" n h2, OF all_back_keeps [OF laws]] p by simp
  also have "\<dots> = filter (\<lambda>n. hn_Name n = ''nat'' \<or> n \<notin> set (nets h)) (nets h1)"
    by (rule delete_networks_left [OF laws d])
  also have "nets h1 = nets h"
    using laws l unfolding network_laws_def by blast
  also have "filter (\<lambda>n. hn_Name n = ''nat'' \<or> n \<notin> set (nets h)) (nets h) = filter (\<lambda>n. hn_Name n = ''nat'') (nets h)"
    by (rule filter_cong) simp_all
  finally show ?thesis .
qed

end
