(* ===== verification/Win_Plugin.thy ===== *)
theory Win_Plugin
  imports Win_Net Kube_Api
begin

text \<open>
  \<^verbatim>\<open>pkg/windows/types.go\<close> and \<^verbatim>\<open>none.go\<close>: the configuration of a network plugin on a Windows node, the
  contract \<^verbatim>\<open>CNIPlugin\<close> that the executor relies on, and the plugin of a cluster that brings its own network.
\<close>

section \<open>Configuration\<close>

record KubeConfig =
  kc_CertificateAuthority :: string
  kc_Server :: string
  kc_Token :: string
  kc_Path :: string

record CNICommonConfig =
  cn_Name :: string
  cn_OverlayNetName :: string
  cn_OverlayEncap :: string
  cn_Hostname :: string
  cn_ConfigPath :: string
  cn_CNIConfDir :: string
  cn_CNIBinDir :: string
  cn_ClusterCIDR :: string
  cn_ServiceCIDR :: string
  cn_NodeIP :: string
  cn_VxlanVNI :: string
  cn_VxlanPort :: string
  cn_Interface :: string
  cn_IpamType :: string
  cn_CNIVersion :: string
  cn_VIPAddress :: string
  cn_KubeConfig :: "KubeConfig option"

record CalicoConfig = CNICommonConfig +
  cc_KubeNetwork :: string
  cc_DNSServers :: string
  cc_DNSSearch :: string
  cc_DatastoreType :: string
  cc_NodeNameFile :: string
  cc_Platform :: string
  cc_IPAutoDetectionMethod :: string
  cc_ETCDEndpoints :: string
  cc_ETCDKeyFile :: string
  cc_ETCDCertFile :: string
  cc_ETCDCaCertFile :: string

type_synonym FlannelConfig = CNICommonConfig

text \<open>The zero value of the common part.\<close>

definition empty_config :: CNICommonConfig where
  "empty_config =
     \<lparr>cn_Name = '''', cn_OverlayNetName = '''', cn_OverlayEncap = '''', cn_Hostname = '''', cn_ConfigPath = '''',
      cn_CNIConfDir = '''', cn_CNIBinDir = '''', cn_ClusterCIDR = '''', cn_ServiceCIDR = '''', cn_NodeIP = '''',
      cn_VxlanVNI = '''', cn_VxlanPort = '''', cn_Interface = '''', cn_IpamType = '''', cn_CNIVersion = '''',
      cn_VIPAddress = '''', cn_KubeConfig = None\<rparr>"

text \<open>The user's settings for Calico, of which the plugin reads two.\<close>

record CalicoInstallation =
  ci_NodeAddressAutodetectionV4 :: "NodeAddressAutodetection option"
  ci_BGP :: "string option"

text \<open>What the plugins read of \<^verbatim>\<open>nodeConfig.AgentConfig\<close>; addresses and networks as their texts.\<close>

record agent_config =
  ag_NodeName :: string
  ag_CNIConfDir :: string
  ag_CNIBinDir :: string
  ag_ClusterCIDR :: string
  ag_ServiceCIDR :: string
  ag_NodeIP :: string
  ag_ClusterDNS :: string
  ag_ClusterDomain :: string

section \<open>Templates\<close>

text \<open>\<^verbatim>\<open>replaceSlashWin\<close> doubles backslashes, for a path inside a JSON string.\<close>

definition replaceSlashWin :: "string \<Rightarrow> string" where
  "replaceSlashWin s = concat (map (\<lambda>c. if c = backslash then [backslash, backslash] else [c]) s)"

text \<open>Reading a JSON string without control characters and with no escape but that of the backslash.\<close>

fun json_unescape :: "string \<Rightarrow> string" where
  "json_unescape [] = []"
| "json_unescape [c] = [c]"
| "json_unescape (c # d # s) = (if c = backslash \<and> d = backslash then backslash # json_unescape s else c # json_unescape (d # s))"

lemma json_unescape_Cons: "c \<noteq> backslash \<Longrightarrow> json_unescape (c # s) = c # json_unescape s"
  by (cases s) simp_all

lemma unescape_replaceSlashWin: "json_unescape (replaceSlashWin s) = s"
  by (induction s) (simp_all add: replaceSlashWin_def json_unescape_Cons)

abbreviation tab :: char where
  "tab \<equiv> CHR 0x09"

abbreviation unlines :: "string list \<Rightarrow> string" where
  "unlines ls \<equiv> str_Join ls [CHR 0x0A]"

section \<open>Processes and the cluster\<close>

text \<open>A command: its environment is that of the program if none is given; its output goes to a log.\<close>

record cmd =
  cm_Path :: string
  cm_Args :: "string list"
  cm_Env :: "string list option"
  cm_Stdin :: string
  cm_Log :: string

text \<open>
  What the plugins call outside the repository: the API server, Helm settings, the host network service,
  processes and the clock. \<open>ce_Attempts\<close> is the number of attempts that the time limit of a polling loop
  leaves, one number for all loops, and \<open>ce_Done\<close> tells whether the context is cancelled.
\<close>

record ('h, 'ip, 'net) cni_env =
  ce_net :: "('h, 'ip, 'net) win_env"
  ce_Attempts :: nat
  ce_NewForConfig :: "unit result"
  ce_CreateToken :: "string \<Rightarrow> string \<Rightarrow> 'h \<Rightarrow> string result \<times> 'h"
  ce_NodeGet :: "string \<Rightarrow> 'h \<Rightarrow> unit result \<times> 'h"
  ce_HelmFactory :: "unit result"
  ce_HelmChartConfigGet :: "string \<Rightarrow> string \<Rightarrow> 'h \<Rightarrow> string option result \<times> 'h"
  ce_BGPEnabled :: string
  ce_yaml_Unmarshal :: "string \<Rightarrow> CalicoInstallation result"
  ce_yaml_Marshal :: "CalicoInstallation \<Rightarrow> string result"
  ce_GetHNSEndpointByName :: "string \<Rightarrow> 'h \<Rightarrow> string result \<times> 'h"
  ce_HNSListPolicies :: "'h \<Rightarrow> string list \<times> 'h"
  ce_PolicyDelete :: "string \<Rightarrow> 'h \<Rightarrow> 'h"
  ce_Run :: "cmd \<Rightarrow> 'h \<Rightarrow> (unit result \<times> string) \<times> 'h"
  ce_Chdir :: "string \<Rightarrow> 'h \<Rightarrow> 'h"
  ce_Done :: "'h \<Rightarrow> bool"
  ce_BootTime :: "'h \<Rightarrow> string"
  ce_Environ :: "string list"
  ce_HostLocalStore :: "string \<Rightarrow> string \<Rightarrow> 'h \<Rightarrow> unit result \<times> 'h"
  ce_HostLocalGetByID :: "string \<Rightarrow> string \<Rightarrow> 'h \<Rightarrow> string list"
  ce_json_Addresses :: "string \<Rightarrow> string list result"

text \<open>
  The value of a variable in an environment; with two settings of a variable the last one counts. Names are
  compared as they are, although Windows does not distinguish upper and lower case in them.
\<close>

definition env_pair :: "string \<Rightarrow> string \<times> string" where
  "env_pair e = (case str_Cut (CHR ''='') e of (k, v, _) \<Rightarrow> (k, v))"

definition env_lookup :: "string list \<Rightarrow> string \<Rightarrow> string option" where
  "env_lookup es k = map_of (rev (map env_pair es)) k"

definition os_Getenv :: "('h, 'ip, 'net) cni_env \<Rightarrow> string \<Rightarrow> string" where
  "os_Getenv env k = (case env_lookup (ce_Environ env) k of None \<Rightarrow> '''' | Some v \<Rightarrow> v)"

text \<open>Calls that return an error or a value and change the world.\<close>

definition bind_h :: "('e + 'a) \<times> 'h \<Rightarrow> ('a \<Rightarrow> 'h \<Rightarrow> ('e + 'b) \<times> 'h) \<Rightarrow> ('e + 'b) \<times> 'h" where
  "bind_h r k = (case r of (Inl e, h) \<Rightarrow> (Inl e, h) | (Inr x, h) \<Rightarrow> k x h)"

definition lift_h :: "'a result \<times> 'h \<Rightarrow> 'a outcome \<times> 'h" where
  "lift_h = (\<lambda>(r, h). (lift_err r, h))"

lemma bind_h_simps [simp]:
  "bind_h (Inl e, h) k = (Inl e, h)"
  "bind_h (Inr x, h) k = k x h"
  by (simp_all add: bind_h_def)

lemma lift_h_simps [simp]: "lift_h (r, h) = (lift_err r, h)"
  by (simp add: lift_h_def)

lemma lift_h_Inr_iff [simp]: "lift_h rh = (Inr x, h) \<longleftrightarrow> rh = (Inr x, h)"
  by (cases rh) auto

lemma bind_h_Inr_iff: "bind_h r k = (Inr y, h') \<longleftrightarrow> (\<exists>x h. r = (Inr x, h) \<and> k x h = (Inr y, h'))"
  by (cases r; cases "fst r") auto

section \<open>The plugin contract\<close>

text \<open>The state a plugin works on: its configuration and client, the files, the world, and what it started.\<close>

datatype job = JobFelix CalicoConfig string | JobConfd CalicoConfig string | JobFlannel FlannelConfig string

record ('c, 'h) cni_world =
  cw_cfg :: "'c option"
  cw_client :: bool
  cw_fs :: wfs
  cw_h :: 'h
  cw_jobs :: "job list"

abbreviation nil_deref :: failure where
  "nil_deref \<equiv> Panic ''nil pointer dereference''"

text \<open>
  After its set-up a plugin has a configuration with the name of its network and the address it found in the
  settings of the node, and no start changes them, also if it fails; it may find the address for kube-proxy.
\<close>

locale cni_plugin =
  fixes do_setup :: "agent_config \<Rightarrow> string \<Rightarrow> 's \<Rightarrow> unit outcome \<times> 's"
    and do_start :: "'s \<Rightarrow> unit outcome \<times> 's"
    and get_config :: "'s \<Rightarrow> CNICommonConfig outcome"
    and network :: string
    and address :: "agent_config \<Rightarrow> string"
  assumes setup_names: "do_setup ag d s = (Inr (), s') \<Longrightarrow>
      \<exists>c. get_config s' = Inr c \<and> cn_OverlayNetName c = network \<and> cn_NodeIP c = address ag"
    and start_keeps: "do_start s = (r, s') \<Longrightarrow> get_config s = Inr c \<Longrightarrow>
      \<exists>v. get_config s' = Inr (c\<lparr>cn_VIPAddress := v\<rparr>)"
begin

lemma ready_names:
  assumes "do_setup ag d s = (Inr (), s')" and "do_start s' = (Inr (), t)"
  shows "\<exists>c. get_config t = Inr c \<and> cn_OverlayNetName c = network \<and> cn_NodeIP c = address ag"
proof -
  obtain c where c: "get_config s' = Inr c" "cn_OverlayNetName c = network" "cn_NodeIP c = address ag"
    using setup_names [OF assms(1)] by blast
  obtain v where "get_config t = Inr (c\<lparr>cn_VIPAddress := v\<rparr>)"
    using start_keeps [OF assms(2) c(1)] by blast
  with c show ?thesis
    by simp
qed

end

section \<open>No plugin\<close>

definition None_Setup :: "agent_config \<Rightarrow> string \<Rightarrow> ('c, 'h) cni_world \<Rightarrow> unit outcome \<times> ('c, 'h) cni_world" where
  "None_Setup ag dataDir w = (Inr (), w)"

definition None_Start :: "('c, 'h) cni_world \<Rightarrow> unit outcome \<times> ('c, 'h) cni_world" where
  "None_Start w = (Inr (), w)"

definition None_GetConfig :: "('c, 'h) cni_world \<Rightarrow> CNICommonConfig outcome" where
  "None_GetConfig w = Inr empty_config"

interpretation none: cni_plugin None_Setup None_Start None_GetConfig "''''" "\<lambda>ag. ''''"
  by unfold_locales (auto simp: None_Setup_def None_Start_def None_GetConfig_def empty_config_def)

end
