(* ===== verification/Win_Calico.thy ===== *)
theory Win_Calico
  imports Win_Plugin
begin

text \<open>
  \<^verbatim>\<open>pkg/windows/calico.go\<close>: the Calico plugin of a Windows node: its configuration files, the overlay network,
  the start of its processes and the address it reserves for kube-proxy.
\<close>

section \<open>Files\<close>

definition CalicoConfigName :: string where "CalicoConfigName = ''10-calico.conf''"
definition CalicoKubeConfigName :: string where "CalicoKubeConfigName = ''calico.kubeconfig''"
definition CalicoNodeNameFileName :: string where "CalicoNodeNameFileName = ''calico_node_name''"
definition CalicoSystemNamespace :: string where "CalicoSystemNamespace = ''calico-system''"
definition CalicoChart :: string where "CalicoChart = ''rke2-calico''"
definition calicoNode :: string where "calicoNode = ''calico-node''"

definition calicoKubeConfigTemplate :: "KubeConfig \<Rightarrow> string" where
  "calicoKubeConfigTemplate kc = unlines
     [''apiVersion: v1'',
      ''kind: Config'',
      ''clusters:'',
      ''- name: kubernetes'',
      ''  cluster:'',
      ''    certificate-authority: '' @ kc_CertificateAuthority kc,
      ''    server: '' @ kc_Server kc,
      ''contexts:'',
      ''- name: calico-windows@kubernetes'',
      ''  context:'',
      ''    cluster: kubernetes'',
      ''    namespace: kube-system'',
      ''    user: calico-windows'',
      ''current-context: calico-windows@kubernetes'',
      ''users:'',
      ''- name: calico-windows'',
      ''  user:'',
      ''    token: '' @ kc_Token kc,
      '''']"

definition calicoConfigTemplate :: "KubeConfig \<Rightarrow> CalicoConfig \<Rightarrow> string" where
  "calicoConfigTemplate kc c = unlines
     [''{'',
      ''  \"name\": \"'' @ cn_Name c @ ''\",'',
      ''  \"windows_use_single_network\": true,'',
      ''  \"cniVersion\": \"'' @ cn_CNIVersion c @ ''\",'',
      ''  \"type\": \"calico\",'',
      ''  \"mode\": \"'' @ cn_OverlayEncap c @ ''\",'',
      ''  \"vxlan_mac_prefix\": \"0E-2A\",'',
      ''  \"vxlan_vni\": '' @ cn_VxlanVNI c @ '','',
      ''  \"policy\": {'',
      ''    \"type\": \"k8s\"'',
      ''  },'',
      ''  \"log_level\": \"info\",'',
      ''  \"capabilities\": {\"dns\": true},'',
      ''  \"DNS\": {'',
      ''    \"Nameservers\": ['',
      [tab, tab] @ ''\"'' @ cc_DNSServers c @ ''\"'',
      ''    ],'',
      ''    \"Search\":  ['',
      ''      \"svc.cluster.local\"'',
      ''    ]'',
      ''  },'',
      ''  \"nodename_file\": \"'' @ replaceSlashWin (cc_NodeNameFile c) @ ''\",'',
      ''  \"datastore_type\": \"'' @ cc_DatastoreType c @ ''\",'',
      ''  \"etcd_endpoints\": \"'' @ cc_ETCDEndpoints c @ ''\",'',
      ''  \"etcd_key_file\": \"'' @ cc_ETCDKeyFile c @ ''\",'',
      ''  \"etcd_cert_file\": \"'' @ cc_ETCDCertFile c @ ''\",'',
      ''  \"etcd_ca_cert_file\": \"'' @ cc_ETCDCaCertFile c @ ''\",'',
      ''  \"kubernetes\": {'',
      ''    \"kubeconfig\": \"'' @ replaceSlashWin (kc_Path kc) @ ''\"'',
      ''  },'',
      ''  \"ipam\": {'',
      ''    \"type\": \"'' @ cn_IpamType c @ ''\",'',
      ''    \"subnet\": \"usePodCidr\"'',
      ''  },'',
      ''  \"policies\":  ['',
      ''    {'',
      ''      \"Name\":  \"EndpointPolicy\",'',
      ''      \"Value\":  {'',
      ''        \"Type\":  \"OutBoundNAT\",'',
      ''        \"ExceptionList\":  ['',
      ''          \"'' @ cn_ServiceCIDR c @ ''\"'',
      ''        ]'',
      ''      }'',
      ''    },'',
      ''    {'',
      ''      \"Name\":  \"EndpointPolicy\",'',
      ''      \"Value\":  {'',
      ''        \"Type\":  \"SDNROUTE\",'',
      ''        \"DestinationPrefix\":  \"'' @ cn_ServiceCIDR c @ ''\",'',
      ''        \"NeedEncap\": '' @ (if cn_OverlayEncap c = ''vxlan'' then ''true'' else ''false''),
      ''      }'',
      ''    }'',
      ''  ]'',
      ''}'',
      '''']"

text \<open>The file is created and then filled; an error of filling it is not looked at and leaves it empty.\<close>

definition renderCalicoConfig :: "string \<Rightarrow> string \<Rightarrow> wfs \<Rightarrow> unit result \<times> wfs" where
  "renderCalicoConfig path rendered fs =
     (case w_MkdirAll (win_Dir path) fs of
        Inl e \<Rightarrow> (Inl e, fs)
      | Inr _ \<Rightarrow>
         (case w_Create path fs of
            (Inl e, fs) \<Rightarrow> (Inl e, fs)
          | (Inr _, fs) \<Rightarrow> (Inr (), if w_faults fs WExecute path = None then w_put path rendered fs else fs)))"

definition calico_writeConfigFiles :: "CalicoConfig \<Rightarrow> wfs \<Rightarrow> unit outcome \<times> wfs" where
  "calico_writeConfigFiles c fs =
     (case cn_KubeConfig c of
        None \<Rightarrow> (Inl nil_deref, fs)
      | Some kc \<Rightarrow>
          lift_h (bind_h (renderCalicoConfig (kc_Path kc) (calicoKubeConfigTemplate kc) fs) (\<lambda>_ fs.
          bind_h (renderCalicoConfig (win_Join [cn_CNIConfDir c, CalicoConfigName]) (calicoConfigTemplate kc c) fs) (\<lambda>_ fs.
          w_WriteFile (win_Join [cn_ConfigPath c, CalicoNodeNameFileName]) (cn_Hostname c) fs))))"

section \<open>Set-up\<close>

definition calico_GetConfig :: "(CalicoConfig, 'h) cni_world \<Rightarrow> CNICommonConfig outcome" where
  "calico_GetConfig w = (case cw_cfg w of None \<Rightarrow> Inl nil_deref | Some c \<Rightarrow> Inr (CNICommonConfig.truncate c))"

definition calico_createKubeConfigAndClient ::
  "('h, 'ip, 'net) cni_env \<Rightarrow> CalicoConfig \<Rightarrow> 'h \<Rightarrow> KubeConfig result \<times> 'h" where
  "calico_createKubeConfigAndClient env c h =
     (case ce_NewForConfig env of
        Inl e \<Rightarrow> (Inl e, h)
      | Inr _ \<Rightarrow>
         (case ce_CreateToken env CalicoSystemNamespace calicoNode h of
            (Inl e, h) \<Rightarrow> (Inl (WithMessage (''failed to create token for service account ('' @ CalicoSystemNamespace @ ''/'' @
              calicoNode @ '')'') e), h)
          | (Inr token, h) \<Rightarrow>
              (Inr \<lparr>kc_CertificateAuthority = win_Join [cn_ConfigPath c, ''server-ca.crt''], kc_Server = ''https://127.0.0.1:6443'',
                    kc_Token = token, kc_Path = win_Join [cn_ConfigPath c, CalicoKubeConfigName]\<rparr>, h)))"

definition calico_defaults :: "agent_config \<Rightarrow> string \<Rightarrow> string \<Rightarrow> CalicoConfig" where
  "calico_defaults ag dataDir platform =
     \<lparr>cn_Name = ''Calico'', cn_OverlayNetName = ''Calico'', cn_OverlayEncap = ''vxlan'', cn_Hostname = ag_NodeName ag,
      cn_ConfigPath = win_Join [''c:'' @ [backslash], dataDir, ''agent''], cn_CNIConfDir = ag_CNIConfDir ag,
      cn_CNIBinDir = ag_CNIBinDir ag, cn_ClusterCIDR = ag_ClusterCIDR ag, cn_ServiceCIDR = ag_ServiceCIDR ag,
      cn_NodeIP = ag_NodeIP ag, cn_VxlanVNI = ''4096'', cn_VxlanPort = ''4789'', cn_Interface = '''', cn_IpamType = ''calico-ipam'',
      cn_CNIVersion = ''0.3.1'', cn_VIPAddress = '''', cn_KubeConfig = None,
      cc_KubeNetwork = ''Calico.*'', cc_DNSServers = ag_ClusterDNS ag, cc_DNSSearch = ''svc.'' @ ag_ClusterDomain ag,
      cc_DatastoreType = ''kubernetes'', cc_NodeNameFile = win_Join [''c:'' @ [backslash], dataDir, ''agent'', CalicoNodeNameFileName],
      cc_Platform = platform, cc_IPAutoDetectionMethod = ''first-found'', cc_ETCDEndpoints = '''', cc_ETCDKeyFile = '''',
      cc_ETCDCertFile = '''', cc_ETCDCaCertFile = ''''\<rparr>"

definition calico_initializeConfig ::
  "('h, 'ip, 'net) cni_env \<Rightarrow> agent_config \<Rightarrow> string \<Rightarrow> (CalicoConfig, 'h) cni_world \<Rightarrow>
   unit outcome \<times> (CalicoConfig, 'h) cni_world" where
  "calico_initializeConfig env ag dataDir w =
     (case platformType (ce_net env) (cw_h w) of
        (Inl e, h) \<Rightarrow> (Inl (Err e), w\<lparr>cw_h := h\<rparr>)
      | (Inr platform, h) \<Rightarrow>
         (let c = calico_defaults ag dataDir platform in
          case calico_createKubeConfigAndClient env c h of
            (Inl e, h) \<Rightarrow> (Inl (Err e), w\<lparr>cw_cfg := Some (c\<lparr>cn_KubeConfig := None\<rparr>), cw_client := False, cw_h := h\<rparr>)
          | (Inr kc, h) \<Rightarrow> (Inr (), w\<lparr>cw_cfg := Some (c\<lparr>cn_KubeConfig := Some kc\<rparr>), cw_client := True, cw_h := h\<rparr>)))"

definition findCalicoInterface ::
  "('h, 'ip, 'net) win_env \<Rightarrow> NodeAddressAutodetection \<Rightarrow> 'h \<Rightarrow> (string \<times> string) outcome \<times> 'h" where
  "findCalicoInterface env nodeV4 h =
     (case nodeAddressAutodetection nodeV4 of
        Inl e \<Rightarrow> (Inl (Err e), h)
      | Inr m \<Rightarrow>
          bind_h (if str_Contains m ''cidrs'' then lift_h (findInterfaceCIDR env (na_CIDRS nodeV4) h) else (Inr '''', h)) (\<lambda>i h.
          bind_h (if str_Contains m ''interface'' then findInterfaceRegEx env (na_Interface nodeV4) h else (Inr i, h)) (\<lambda>i h.
          bind_h (if str_Contains m ''can-reach'' then lift_h (findInterfaceReach env (na_CanReach nodeV4) h) else (Inr i, h)) (\<lambda>i h.
          (Inr (m, i), h)))))"

text \<open>An interface that is not found leaves the method and the interface empty.\<close>

definition override_address ::
  "('h, 'ip, 'net) cni_env \<Rightarrow> CalicoInstallation \<Rightarrow> CalicoConfig \<Rightarrow> 'h \<Rightarrow> unit outcome \<times> CalicoConfig \<times> 'h" where
  "override_address env ov c h =
     (case ci_NodeAddressAutodetectionV4 ov of
        None \<Rightarrow> (Inr (), c, h)
      | Some nodeV4 \<Rightarrow>
         (case findCalicoInterface (ce_net env) nodeV4 h of
            (Inl e, h) \<Rightarrow> (Inl e, c\<lparr>cc_IPAutoDetectionMethod := '''', cn_Interface := ''''\<rparr>, h)
          | (Inr (m, i), h) \<Rightarrow> (Inr (), c\<lparr>cc_IPAutoDetectionMethod := m, cn_Interface := i\<rparr>, h)))"

definition override_bgp :: "('h, 'ip, 'net) cni_env \<Rightarrow> CalicoInstallation \<Rightarrow> CalicoConfig \<Rightarrow> CalicoConfig" where
  "override_bgp env ov c = (if ci_BGP ov = Some (ce_BGPEnabled env) then c\<lparr>cn_OverlayEncap := ''windows-bgp''\<rparr> else c)"

definition overrideCalicoConfigByHelm ::
  "('h, 'ip, 'net) cni_env \<Rightarrow> CalicoConfig \<Rightarrow> 'h \<Rightarrow> unit outcome \<times> CalicoConfig \<times> 'h" where
  "overrideCalicoConfigByHelm env c h =
     (case ce_HelmFactory env of
        Inl e \<Rightarrow> (Inl (Err e), c, h)
      | Inr _ \<Rightarrow>
         (case ce_HelmChartConfigGet env ''kube-system'' CalicoChart h of
            (Inl e, h) \<Rightarrow>
              if IsNotFound e then (Inr (), c, h)
              else (Inl (Err (Errorf (''failed to check for '' @ CalicoChart @ '' HelmChartConfig''))), c, h)
          | (Inr None, h) \<Rightarrow> (Inr (), c, h)
          | (Inr (Some values), h) \<Rightarrow>
             (case ce_yaml_Unmarshal env values of
                Inl e \<Rightarrow> (Inl (Err e), c, h)
              | Inr ov \<Rightarrow>
                 (case ce_yaml_Marshal env ov of
                    Inl e \<Rightarrow> (Inl (Err e), c, h)
                  | Inr _ \<Rightarrow>
                     (case override_address env ov c h of
                        (Inl e, c, h) \<Rightarrow> (Inl e, c, h)
                      | (Inr _, c, h) \<Rightarrow> (Inr (), override_bgp env ov c, h))))))"

definition calico_Setup ::
  "('h, 'ip, 'net) cni_env \<Rightarrow> agent_config \<Rightarrow> string \<Rightarrow> (CalicoConfig, 'h) cni_world \<Rightarrow>
   unit outcome \<times> (CalicoConfig, 'h) cni_world" where
  "calico_Setup env ag dataDir w =
     bind_h (calico_initializeConfig env ag dataDir w) (\<lambda>_ w.
       case cw_cfg w of
         None \<Rightarrow> (Inl nil_deref, w)
       | Some c \<Rightarrow>
          (case overrideCalicoConfigByHelm env c (cw_h w) of
             (Inl e, c, h) \<Rightarrow> (Inl e, w\<lparr>cw_cfg := Some c, cw_h := h\<rparr>)
           | (Inr _, c, h) \<Rightarrow>
              (case calico_writeConfigFiles c (cw_fs w) of
                 (r, fs) \<Rightarrow> (r, w\<lparr>cw_cfg := Some c, cw_h := h, cw_fs := fs\<rparr>))))"

section \<open>Networks\<close>

definition lastBootPath :: "CalicoConfig \<Rightarrow> string" where
  "lastBootPath c = win_Join [cn_ConfigPath c, ''lastBootTime.txt'']"

definition getStoredLastBootTime :: "CalicoConfig \<Rightarrow> wfs \<Rightarrow> string result" where
  "getStoredLastBootTime c fs =
     (case w_ReadFile (lastBootPath c) fs of
        Inl e \<Rightarrow> if os_IsNotExist e then Inr '''' else Inl e
      | Inr t \<Rightarrow> Inr t)"

definition setStoredLastBootTime :: "CalicoConfig \<Rightarrow> string \<Rightarrow> wfs \<Rightarrow> unit result \<times> wfs" where
  "setStoredLastBootTime c lastBootTime fs = w_WriteFile (lastBootPath c) lastBootTime fs"

definition isNodeRebooted :: "CalicoConfig \<Rightarrow> string \<Rightarrow> wfs \<Rightarrow> bool result \<times> wfs" where
  "isNodeRebooted c lastReboot fs =
     (case getStoredLastBootTime c fs of
        Inl e \<Rightarrow> (Inl e, fs)
      | Inr prevLastReboot \<Rightarrow>
          if lastReboot = prevLastReboot then (Inr False, fs)
          else bind_h (setStoredLastBootTime c lastReboot fs) (\<lambda>_ fs. (Inr True, fs)))"

definition delete_after_reboot ::
  "('h, 'ip, 'net) cni_env \<Rightarrow> CalicoConfig \<Rightarrow> wfs \<Rightarrow> 'h \<Rightarrow> unit result \<times> wfs \<times> 'h" where
  "delete_after_reboot env c fs h =
     (case isNodeRebooted c (ce_BootTime env h) fs of
        (Inl e, fs) \<Rightarrow> (Inl (WithMessage ''failed to check last node reboot time'' e), fs, h)
      | (Inr False, fs) \<Rightarrow> (Inr (), fs, h)
      | (Inr True, fs) \<Rightarrow>
         (case deleteAllNetworks (ce_net env) (ce_Attempts env) h of
            (Inl e, h) \<Rightarrow> (Inl (WithMessage ''failed to delete all networks before bootstrapping calico'' e), fs, h)
          | (Inr _, h) \<Rightarrow> (Inr (), fs, h)))"

text \<open>The adapter: the environment, the interface of the Helm settings, that of the node address, or none.\<close>

definition choose_adapter :: "('h, 'ip, 'net) cni_env \<Rightarrow> CalicoConfig \<Rightarrow> 'h \<Rightarrow> string result \<times> 'h" where
  "choose_adapter env c h =
     (let networkAdapter = os_Getenv env ''VXLAN_ADAPTER'' in
      if networkAdapter = '''' then
        if cn_Interface c \<noteq> '''' then (Inr (cn_Interface c), h)
        else if cn_NodeIP c \<noteq> '''' then findInterface (ce_net env) (cn_NodeIP c) h
        else (Inr '''', h)
      else (Inr networkAdapter, h))"

definition generateCalicoNetworks ::
  "('h, 'ip, 'net) cni_env \<Rightarrow> CalicoConfig \<Rightarrow> wfs \<Rightarrow> 'h \<Rightarrow> unit result \<times> wfs \<times> 'h" where
  "generateCalicoNetworks env c fs h =
     (case delete_after_reboot env c fs h of
        (Inl e, fs, h) \<Rightarrow> (Inl e, fs, h)
      | (Inr _, fs, h) \<Rightarrow>
         (case bind_h (choose_adapter env c h) (\<lambda>networkAdapter h.
               bind_h (createHnsNetwork (ce_net env) (ce_Attempts env) (cn_OverlayEncap c) networkAdapter h) (\<lambda>mgmt h.
               (if cc_Platform c = ''ec2'' \<or> cc_Platform c = ''gce'' then setMetaDataServerRoute (ce_net env) mgmt else Inr (), h))) of
            (r, h) \<Rightarrow> (r, fs, h)))"

section \<open>Processes\<close>

definition generateGeneralCalicoEnvs :: "CalicoConfig \<Rightarrow> string list" where
  "generateGeneralCalicoEnvs c =
     [''KUBE_NETWORK='' @ cc_KubeNetwork c,
      ''KUBECONFIG='' @ win_Join [cn_ConfigPath c, CalicoKubeConfigName],
      ''NODENAME='' @ cn_Hostname c,
      ''CALICO_K8S_NODE_REF='' @ cn_Hostname c,
      ''IP='' @ cn_NodeIP c,
      ''USE_POD_CIDR='' @ (if autoConfigureIpam (cn_IpamType c) then ''true'' else ''false'')]"

definition confd_cmd :: "('h, 'ip, 'net) cni_env \<Rightarrow> CalicoConfig \<Rightarrow> string \<Rightarrow> cmd" where
  "confd_cmd env c logPath =
     \<lparr>cm_Path = ''calico-node.exe'',
      cm_Args = [''-confd'', ''-confd-confdir='' @ win_Join [cn_CNIBinDir c, ''confd'']],
      cm_Env = Some (generateGeneralCalicoEnvs c @ [''PATH='' @ os_Getenv env ''PATH'']),
      cm_Stdin = '''', cm_Log = win_Join [logPath, ''confd.log'']\<rparr>"

definition felix_cmd :: "('h, 'ip, 'net) cni_env \<Rightarrow> CalicoConfig \<Rightarrow> string \<Rightarrow> cmd" where
  "felix_cmd env c logPath =
     \<lparr>cm_Path = ''calico-node.exe'', cm_Args = [''-felix''],
      cm_Env = Some (generateGeneralCalicoEnvs c @
        [''FELIX_FELIXHOSTNAME='' @ cn_Hostname c, ''FELIX_VXLANVNI='' @ cn_VxlanVNI c, ''FELIX_DATASTORETYPE='' @ cc_DatastoreType c] @
        filter (\<lambda>e. str_HasPrefix e ''FELIX_'') (ce_Environ env)),
      cm_Stdin = '''', cm_Log = win_Join [logPath, ''felix.log'']\<rparr>"

definition startup_cmd :: "('h, 'ip, 'net) cni_env \<Rightarrow> CalicoConfig \<Rightarrow> string \<Rightarrow> cmd" where
  "startup_cmd env c logPath =
     \<lparr>cm_Path = ''calico-node.exe'', cm_Args = [''-startup''],
      cm_Env = Some (generateGeneralCalicoEnvs c @
        [''CALICO_NODENAME_FILE='' @ cc_NodeNameFile c, ''CALICO_NETWORKING_BACKEND='' @ cn_OverlayEncap c,
         ''CALICO_DATASTORE_TYPE='' @ cc_DatastoreType c, ''IP_AUTODETECTION_METHOD='' @ cc_IPAutoDetectionMethod c,
         ''VXLAN_VNI='' @ cn_VxlanVNI c] @
        filter (\<lambda>e. str_HasPrefix e ''CALICO_'') (ce_Environ env)),
      cm_Stdin = '''', cm_Log = win_Join [logPath, ''calico-node.log'']\<rparr>"

text \<open>The loops end only when the context is cancelled after a run; the result is the world then.\<close>

definition runConfd :: "('h, 'ip, 'net) cni_env \<Rightarrow> CalicoConfig \<Rightarrow> string \<Rightarrow> 'h \<Rightarrow> 'h option" where
  "runConfd env c logPath h =
     (if cn_OverlayEncap c \<noteq> ''windows-bgp'' then Some h
      else supervise (\<lambda>h. snd (ce_Run env (confd_cmd env c logPath) (ce_Chdir env (win_Join [cn_CNIBinDir c, ''confd'']) h))) (ce_Done env) h)"

definition runFelix :: "('h, 'ip, 'net) cni_env \<Rightarrow> CalicoConfig \<Rightarrow> string \<Rightarrow> 'h \<Rightarrow> 'h option" where
  "runFelix env c logPath h = supervise (\<lambda>h. snd (ce_Run env (felix_cmd env c logPath) h)) (ce_Done env) h"

definition startCalico :: "('h, 'ip, 'net) cni_env \<Rightarrow> CalicoConfig \<Rightarrow> string \<Rightarrow> 'h \<Rightarrow> unit result \<times> 'h" where
  "startCalico env c logPath h = (case ce_Run env (startup_cmd env c logPath) h of ((r, _), h) \<Rightarrow> (r, h))"

definition reserve_attempt :: "('h, 'ip, 'net) cni_env \<Rightarrow> CalicoConfig \<times> 'h \<Rightarrow> bool result \<times> CalicoConfig \<times> 'h" where
  "reserve_attempt env = (\<lambda>(c, h).
     case ce_GetHNSEndpointByName env ''Calico_ep'' h of
       (Inl _, h) \<Rightarrow> (Inr False, c, h)
     | (Inr addr, h) \<Rightarrow> (Inr True, c\<lparr>cn_VIPAddress := addr\<rparr>, h))"

definition reserveCalicoVIP ::
  "('h, 'ip, 'net) cni_env \<Rightarrow> CalicoConfig \<Rightarrow> 'h \<Rightarrow> unit result \<times> CalicoConfig \<times> 'h" where
  "reserveCalicoVIP env c h = poll_until (ce_Attempts env) (reserve_attempt env) (c, h)"

section \<open>Start\<close>

definition start_attempt :: "('h, 'ip, 'net) cni_env \<Rightarrow> CalicoConfig \<Rightarrow> string \<Rightarrow> 'h \<Rightarrow> bool result \<times> 'h" where
  "start_attempt env c logPath h =
     (case ce_NodeGet env (cn_Hostname c) h of
        (Inl _, h) \<Rightarrow> (Inr False, h)
      | (Inr _, h) \<Rightarrow>
         (case startCalico env c logPath h of
            (Inl _, h) \<Rightarrow> (Inr False, h)
          | (Inr _, h) \<Rightarrow> (Inr True, h)))"

definition delete_policies :: "('h, 'ip, 'net) cni_env \<Rightarrow> 'h \<Rightarrow> 'h" where
  "delete_policies env h = (case ce_HNSListPolicies env h of (policies, h) \<Rightarrow> fold (ce_PolicyDelete env) policies h)"

text \<open>From the point where the networks exist.\<close>

definition spawn_calico ::
  "('h, 'ip, 'net) cni_env \<Rightarrow> CalicoConfig \<Rightarrow> (CalicoConfig, 'h) cni_world \<Rightarrow> unit outcome \<times> (CalicoConfig, 'h) cni_world" where
  "spawn_calico env c w =
     (let logPath = win_Join [cn_ConfigPath c, ''logs''] in
      if \<not> cw_client w then (Inl nil_deref, w)
      else
        (case poll_until (ce_Attempts env) (start_attempt env c logPath) (cw_h w) of
           (Inl e, h) \<Rightarrow> (Inl (Err e), w\<lparr>cw_h := h\<rparr>)
         | (Inr _, h) \<Rightarrow>
            (case reserveCalicoVIP env c (delete_policies env h) of
               (r, c', h) \<Rightarrow>
                 (lift_err r, w\<lparr>cw_cfg := Some c', cw_h := h, cw_jobs := cw_jobs w @ [JobFelix c logPath, JobConfd c logPath]\<rparr>))))"

definition calico_Start ::
  "('h, 'ip, 'net) cni_env \<Rightarrow> (CalicoConfig, 'h) cni_world \<Rightarrow> unit outcome \<times> (CalicoConfig, 'h) cni_world" where
  "calico_Start env w =
     (case cw_cfg w of
        None \<Rightarrow> (Inl nil_deref, w)
      | Some c \<Rightarrow>
         (case generateCalicoNetworks env c (cw_fs w) (cw_h w) of
            (Inl e, fs, h) \<Rightarrow> (Inl (Err e), w\<lparr>cw_fs := fs, cw_h := h\<rparr>)
          | (Inr _, fs, h) \<Rightarrow> spawn_calico env c (w\<lparr>cw_fs := fs, cw_h := h\<rparr>)))"

section \<open>The plugin keeps its contract\<close>

lemma renderCalicoConfig_faults:
  "renderCalicoConfig p t fs = (r, fs') \<Longrightarrow> w_faults fs' = w_faults fs"
  by (auto simp: renderCalicoConfig_def w_Create_def split: sum.splits option.splits if_splits)

lemma renderCalicoConfig_ok:
  assumes "renderCalicoConfig p t fs = (Inr (), fs')" and "w_faults fs WExecute p = None"
  shows "gm_get (w_files fs') q = (if q = p then Some t else gm_get (w_files fs) q)"
  using assms by (auto simp: renderCalicoConfig_def w_Create_def split: sum.splits option.splits if_splits)

text \<open>The settings of the user change the interface, the detection method and the encapsulation only.\<close>

definition helm_variant :: "CalicoConfig \<Rightarrow> CalicoConfig \<Rightarrow> bool" where
  "helm_variant c c' \<longleftrightarrow> (\<exists>m i b. c' = c\<lparr>cc_IPAutoDetectionMethod := m, cn_Interface := i, cn_OverlayEncap := b\<rparr>)"

lemma helm_variant_refl: "helm_variant c c"
  unfolding helm_variant_def
  by (rule exI [of _ "cc_IPAutoDetectionMethod c"], rule exI [of _ "cn_Interface c"], rule exI [of _ "cn_OverlayEncap c"]) simp

lemma override_address_variant:
  assumes "override_address env ov c h = (r, c', h')"
  shows "helm_variant c c'"
proof -
  have "helm_variant c (c\<lparr>cc_IPAutoDetectionMethod := m, cn_Interface := i\<rparr>)" for m i
    unfolding helm_variant_def by (rule exI [of _ m], rule exI [of _ i], rule exI [of _ "cn_OverlayEncap c"]) simp
  then show ?thesis
    using assms helm_variant_refl by (auto simp: override_address_def split: option.splits prod.splits sum.splits)
qed

lemma override_bgp_variant:
  assumes "helm_variant c c'"
  shows "helm_variant c (override_bgp env ov c')"
proof -
  obtain m i b where c': "c' = c\<lparr>cc_IPAutoDetectionMethod := m, cn_Interface := i, cn_OverlayEncap := b\<rparr>"
    using assms by (auto simp: helm_variant_def)
  show ?thesis
    unfolding helm_variant_def
    by (rule exI [of _ m], rule exI [of _ i], rule exI [of _ "if ci_BGP ov = Some (ce_BGPEnabled env) then ''windows-bgp'' else b"])
      (simp add: c' override_bgp_def)
qed

lemma overrideCalicoConfigByHelm_keeps:
  "overrideCalicoConfigByHelm env c h = (r, c', h') \<Longrightarrow> helm_variant c c'"
  unfolding overrideCalicoConfigByHelm_def
  by (auto simp: helm_variant_refl override_bgp_variant override_address_variant
      split: sum.splits prod.splits option.splits if_splits)

lemma calico_initializeConfig_ok:
  assumes "calico_initializeConfig env ag dataDir w = (Inr (), w')"
  obtains platform kc where "cw_cfg w' = Some ((calico_defaults ag dataDir platform)\<lparr>cn_KubeConfig := Some kc\<rparr>)"
    and "kc_Path kc = win_Join [cn_ConfigPath (calico_defaults ag dataDir platform), CalicoKubeConfigName]"
    and "cw_client w'" and "cw_fs w' = cw_fs w"
  using assms by (auto simp: calico_initializeConfig_def calico_createKubeConfigAndClient_def Let_def split: sum.splits prod.splits)

lemma calico_Setup_ok:
  assumes "calico_Setup env ag dataDir w = (Inr (), w')"
  obtains platform kc m i b where
    "cw_cfg w' = Some ((calico_defaults ag dataDir platform)\<lparr>cn_KubeConfig := Some kc, cc_IPAutoDetectionMethod := m, cn_Interface := i, cn_OverlayEncap := b\<rparr>)"
    and "kc_Path kc = win_Join [cn_ConfigPath (calico_defaults ag dataDir platform), CalicoKubeConfigName]" and "cw_client w'"
    and "calico_writeConfigFiles (the (cw_cfg w')) (cw_fs w) = (Inr (), cw_fs w')"
proof -
  obtain w1 where w1: "calico_initializeConfig env ag dataDir w = (Inr (), w1)"
    using assms by (auto simp: calico_Setup_def bind_h_Inr_iff)
  obtain platform kc where c1: "cw_cfg w1 = Some ((calico_defaults ag dataDir platform)\<lparr>cn_KubeConfig := Some kc\<rparr>)"
    and kc: "kc_Path kc = win_Join [cn_ConfigPath (calico_defaults ag dataDir platform), CalicoKubeConfigName]"
    and cl: "cw_client w1" and fs1: "cw_fs w1 = cw_fs w"
    using calico_initializeConfig_ok [OF w1] .
  obtain c2 h2 fs where ov: "overrideCalicoConfigByHelm env (the (cw_cfg w1)) (cw_h w1) = (Inr (), c2, h2)"
    and wr: "calico_writeConfigFiles c2 (cw_fs w) = (Inr (), fs)" and w': "w' = w1\<lparr>cw_cfg := Some c2, cw_h := h2, cw_fs := fs\<rparr>"
    using assms c1 fs1 by (auto simp: calico_Setup_def w1 split: sum.splits prod.splits)
  obtain m i b where "c2 = (the (cw_cfg w1))\<lparr>cc_IPAutoDetectionMethod := m, cn_Interface := i, cn_OverlayEncap := b\<rparr>"
    using overrideCalicoConfigByHelm_keeps [OF ov] unfolding helm_variant_def by blast
  then show thesis
    using that [where platform = platform and kc = kc and m = m and i = i and b = b] c1 kc cl w' wr by simp
qed

lemma reserve_keeps:
  "poll_until n (reserve_attempt env) (c, h) = (r, c', h') \<Longrightarrow> \<exists>v. c' = c\<lparr>cn_VIPAddress := v\<rparr>"
proof (induction n arbitrary: h)
  case 0
  then show ?case
    by (auto intro: exI [of _ "cn_VIPAddress c"])
next
  case (Suc n)
  then show ?case
    by (cases "ce_GetHNSEndpointByName env ''Calico_ep'' h"; cases "fst (ce_GetHNSEndpointByName env ''Calico_ep'' h)")
      (auto simp: reserve_attempt_def)
qed

lemma calico_Start_ok:
  assumes "calico_Start env w = (r, w')" and "cw_cfg w = Some c"
  obtains v where "cw_cfg w' = Some (c\<lparr>cn_VIPAddress := v\<rparr>)"
proof -
  have same: "cw_cfg w' = Some c \<Longrightarrow> \<exists>v. cw_cfg w' = Some (c\<lparr>cn_VIPAddress := v\<rparr>)"
    by (intro exI [of _ "cn_VIPAddress c"]) simp
  have "cw_cfg w' = Some c \<or> (\<exists>h q c' h'. reserveCalicoVIP env c h = (q, c', h') \<and> cw_cfg w' = Some c')"
    using assms by (auto simp: calico_Start_def spawn_calico_def Let_def split: sum.splits prod.splits if_splits)
  then have "\<exists>v. cw_cfg w' = Some (c\<lparr>cn_VIPAddress := v\<rparr>)"
    using same reserve_keeps unfolding reserveCalicoVIP_def by metis
  then show thesis
    using that by blast
qed

lemma truncate_vip: "CNICommonConfig.truncate (c\<lparr>cn_VIPAddress := v\<rparr>) = (CNICommonConfig.truncate c)\<lparr>cn_VIPAddress := v\<rparr>"
  by (simp add: CNICommonConfig.truncate_def)

interpretation calico: cni_plugin "calico_Setup env" "calico_Start env" calico_GetConfig "''Calico''" ag_NodeIP
proof
  fix ag d w w'
  assume "calico_Setup env ag d w = (Inr (), w')"
  then obtain platform kc m i b where
    "cw_cfg w' = Some ((calico_defaults ag d platform)\<lparr>cn_KubeConfig := Some kc, cc_IPAutoDetectionMethod := m, cn_Interface := i, cn_OverlayEncap := b\<rparr>)"
    by (rule calico_Setup_ok)
  then show "\<exists>c. calico_GetConfig w' = Inr c \<and> cn_OverlayNetName c = ''Calico'' \<and> cn_NodeIP c = ag_NodeIP ag"
    by (simp add: calico_GetConfig_def CNICommonConfig.truncate_def calico_defaults_def)
next
  fix w w' c
  fix r
  assume start: "calico_Start env w = (r, w')" and "calico_GetConfig w = Inr c"
  then obtain cc where cc: "cw_cfg w = Some cc" "c = CNICommonConfig.truncate cc"
    by (auto simp: calico_GetConfig_def split: option.splits)
  obtain v where "cw_cfg w' = Some (cc\<lparr>cn_VIPAddress := v\<rparr>)"
    using calico_Start_ok [OF start cc(1)] .
  then show "\<exists>v. calico_GetConfig w' = Inr (c\<lparr>cn_VIPAddress := v\<rparr>)"
    using cc(2) by (auto simp: calico_GetConfig_def truncate_vip)
qed

section \<open>Configuration files\<close>

lemma calico_names: "win_name CalicoKubeConfigName" "win_name CalicoConfigName" "win_name CalicoNodeNameFileName" "win_name ''agent''"
  by (simp_all add: win_name_def CalicoKubeConfigName_def CalicoConfigName_def CalicoNodeNameFileName_def)

lemma calico_paths_differ:
  "win_Join [a, CalicoKubeConfigName] \<noteq> win_Join [b, CalicoConfigName]"
  "win_Join [a, CalicoKubeConfigName] \<noteq> win_Join [b, CalicoNodeNameFileName]"
  "win_Join [a, CalicoConfigName] \<noteq> win_Join [b, CalicoNodeNameFileName]"
proof -
  have diff: "CalicoKubeConfigName \<noteq> CalicoConfigName" "CalicoKubeConfigName \<noteq> CalicoNodeNameFileName" "CalicoConfigName \<noteq> CalicoNodeNameFileName"
    by (simp_all add: CalicoKubeConfigName_def CalicoConfigName_def CalicoNodeNameFileName_def)
  show "win_Join [a, CalicoKubeConfigName] \<noteq> win_Join [b, CalicoConfigName]"
    "win_Join [a, CalicoKubeConfigName] \<noteq> win_Join [b, CalicoNodeNameFileName]"
    "win_Join [a, CalicoConfigName] \<noteq> win_Join [b, CalicoNodeNameFileName]"
    using diff win_base_Join calico_names by metis+
qed

text \<open>The name file that the configuration points to is the one that is written.\<close>

lemma node_name_file:
  "cc_NodeNameFile (calico_defaults ag dataDir platform) = win_Join [cn_ConfigPath (calico_defaults ag dataDir platform), CalicoNodeNameFileName]"
  using win_Join_name [OF calico_names(4) calico_names(3), of dataDir] by (simp add: calico_defaults_def)

lemma calico_writeConfigFiles_ok:
  assumes "calico_writeConfigFiles c fs = (Inr (), fs')" and "cn_KubeConfig c = Some kc"
    and "kc_Path kc = win_Join [cn_ConfigPath c, CalicoKubeConfigName]" and "\<forall>p. w_faults fs WExecute p = None"
  shows "gm_get (w_files fs') p =
     (if p = win_Join [cn_ConfigPath c, CalicoKubeConfigName] then Some (calicoKubeConfigTemplate kc)
      else if p = win_Join [cn_CNIConfDir c, CalicoConfigName] then Some (calicoConfigTemplate kc c)
      else if p = win_Join [cn_ConfigPath c, CalicoNodeNameFileName] then Some (cn_Hostname c)
      else gm_get (w_files fs) p)"
proof -
  obtain f1 f2 where 1: "renderCalicoConfig (win_Join [cn_ConfigPath c, CalicoKubeConfigName]) (calicoKubeConfigTemplate kc) fs = (Inr (), f1)"
    and 2: "renderCalicoConfig (win_Join [cn_CNIConfDir c, CalicoConfigName]) (calicoConfigTemplate kc c) f1 = (Inr (), f2)"
    and 3: "w_WriteFile (win_Join [cn_ConfigPath c, CalicoNodeNameFileName]) (cn_Hostname c) f2 = (Inr (), fs')"
    using assms(1-3) by (auto simp: calico_writeConfigFiles_def bind_h_Inr_iff)
  have "w_faults f1 = w_faults fs"
    using renderCalicoConfig_faults [OF 1] .
  then show ?thesis
    using renderCalicoConfig_ok [OF 1] renderCalicoConfig_ok [OF 2] w_WriteFile_ok [OF 3] assms(4) calico_paths_differ by simp
qed

text \<open>
  The files of Calico. After a successful set-up in which no template fails to be written, the kubeconfig
  with the new token is at the path that the processes are given in their environment and that the network
  configuration names, the network configuration is in the directory of the container runtime, the file that
  the settings name as node name file holds the name of the node, and no other file has changed.
\<close>

theorem calico_files:
  assumes "calico_Setup env ag dataDir w = (Inr (), w')" and "\<forall>p. w_faults (cw_fs w) WExecute p = None"
  shows "\<exists>c kc. cw_cfg w' = Some c \<and> cn_KubeConfig c = Some kc \<and> ''KUBECONFIG='' @ kc_Path kc \<in> set (generateGeneralCalicoEnvs c) \<and>
    (\<forall>p. gm_get (w_files (cw_fs w')) p =
       (if p = kc_Path kc then Some (calicoKubeConfigTemplate kc)
        else if p = win_Join [ag_CNIConfDir ag, CalicoConfigName] then Some (calicoConfigTemplate kc c)
        else if p = cc_NodeNameFile c then Some (ag_NodeName ag)
        else gm_get (w_files (cw_fs w)) p))"
proof -
  obtain platform kc m i b where c: "cw_cfg w' = Some ((calico_defaults ag dataDir platform)\<lparr>cn_KubeConfig := Some kc,
      cc_IPAutoDetectionMethod := m, cn_Interface := i, cn_OverlayEncap := b\<rparr>)" (is "_ = Some ?c")
    and kc: "kc_Path kc = win_Join [cn_ConfigPath (calico_defaults ag dataDir platform), CalicoKubeConfigName]"
    and "cw_client w'" and wr: "calico_writeConfigFiles (the (cw_cfg w')) (cw_fs w) = (Inr (), cw_fs w')"
    using calico_Setup_ok [OF assms(1)] .
  have f: "cn_ConfigPath ?c = cn_ConfigPath (calico_defaults ag dataDir platform)" "cn_CNIConfDir ?c = ag_CNIConfDir ag" "cn_KubeConfig ?c = Some kc"
    "cn_Hostname ?c = ag_NodeName ag" "cc_NodeNameFile ?c = cc_NodeNameFile (calico_defaults ag dataDir platform)"
    by (simp_all add: calico_defaults_def)
  note files = calico_writeConfigFiles_ok [OF wr [unfolded c option.sel] f(3), unfolded f(1,2,4), OF kc assms(2), folded node_name_file kc]
  show ?thesis
    by (rule exI [of _ ?c], rule exI [of _ kc]) (simp only: c files f kc generateGeneralCalicoEnvs_def, simp)
qed

section \<open>The cluster domain\<close>

lemma override_search:
  "overrideCalicoConfigByHelm env (c\<lparr>cc_DNSSearch := s\<rparr>) h =
     (case overrideCalicoConfigByHelm env c h of (r, c', h') \<Rightarrow> (r, c'\<lparr>cc_DNSSearch := s\<rparr>, h'))"
proof -
  have addr: "override_address env ov (c\<lparr>cc_DNSSearch := s\<rparr>) h =
      (case override_address env ov c h of (r, c', h') \<Rightarrow> (r, c'\<lparr>cc_DNSSearch := s\<rparr>, h'))" for ov h
    by (simp add: override_address_def split: option.splits prod.splits sum.splits)
  have bgp: "override_bgp env ov (c\<lparr>cc_DNSSearch := s\<rparr>) = (override_bgp env ov c)\<lparr>cc_DNSSearch := s\<rparr>" for ov c
    by (simp add: override_bgp_def)
  show ?thesis
    by (auto simp: overrideCalicoConfigByHelm_def addr bgp split: sum.splits prod.splits option.splits)
qed

lemma write_search: "calico_writeConfigFiles (c\<lparr>cc_DNSSearch := s\<rparr>) fs = calico_writeConfigFiles c fs"
  by (cases "cn_KubeConfig c") (simp_all add: calico_writeConfigFiles_def calicoConfigTemplate_def)

lemma initialize_search:
  "calico_initializeConfig env (ag\<lparr>ag_ClusterDomain := d\<rparr>) dataDir w =
     (case calico_initializeConfig env ag dataDir w of
        (r, w') \<Rightarrow> (r, if isl (fst (platformType (ce_net env) (cw_h w))) then w'
          else w'\<lparr>cw_cfg := map_option (\<lambda>c. c\<lparr>cc_DNSSearch := ''svc.'' @ d\<rparr>) (cw_cfg w')\<rparr>))"
  by (auto simp: calico_initializeConfig_def calico_createKubeConfigAndClient_def calico_defaults_def Let_def split: sum.splits prod.splits)

text \<open>
  The cluster domain does not reach Calico. Set-up computes the search domain of the cluster and puts it in
  the settings, but the result and every file it writes are the same for any two cluster domains: the network
  configuration always tells pods to search \<^verbatim>\<open>svc.cluster.local\<close>.
\<close>

theorem cluster_domain_ignored:
  "fst (calico_Setup env (ag\<lparr>ag_ClusterDomain := d\<rparr>) dataDir w) = fst (calico_Setup env ag dataDir w) \<and>
   cw_fs (snd (calico_Setup env (ag\<lparr>ag_ClusterDomain := d\<rparr>) dataDir w)) = cw_fs (snd (calico_Setup env ag dataDir w))"
proof (cases "calico_initializeConfig env ag dataDir w")
  case (Pair r w')
  show ?thesis
  proof (cases r)
    case (Inl e)
    then show ?thesis
      by (simp add: calico_Setup_def initialize_search Pair)
  next
    case (Inr u)
    then have "\<not> isl (fst (platformType (ce_net env) (cw_h w)))"
      using Pair by (auto simp: calico_initializeConfig_def split: sum.splits prod.splits)
    then show ?thesis
      using Inr by (auto simp: calico_Setup_def initialize_search Pair override_search write_search split: option.splits sum.splits prod.splits)
  qed
qed

section \<open>Networks after a reboot\<close>

lemma isNodeRebooted_cases:
  assumes "w_faults fs WRead (lastBootPath c) = None" and "boot \<noteq> ''''" and "isNodeRebooted c boot fs = (Inr b, fs')"
  shows "b \<longleftrightarrow> gm_get (w_files fs) (lastBootPath c) \<noteq> Some boot" and "fs' = (if b then w_put (lastBootPath c) boot fs else fs)"
proof -
  have stored: "getStoredLastBootTime c fs = Inr (case gm_get (w_files fs) (lastBootPath c) of None \<Rightarrow> '''' | Some t \<Rightarrow> t)"
    using assms(1) by (auto simp: getStoredLastBootTime_def w_ReadFile_def split: option.splits)
  have eq: "boot = (case gm_get (w_files fs) (lastBootPath c) of None \<Rightarrow> '''' | Some t \<Rightarrow> t) \<longleftrightarrow> gm_get (w_files fs) (lastBootPath c) = Some boot"
    using assms(2) by (auto split: option.splits)
  show "b \<longleftrightarrow> gm_get (w_files fs) (lastBootPath c) \<noteq> Some boot"
    using assms(3) unfolding isNodeRebooted_def stored
    by (auto simp: eq bind_h_Inr_iff split: if_splits)
  show "fs' = (if b then w_put (lastBootPath c) boot fs else fs)"
    using assms(3) unfolding isNodeRebooted_def stored
    by (auto simp: bind_h_Inr_iff setStoredLastBootTime_def dest: w_WriteFile_ok split: if_splits)
qed


text \<open>
  A failed reset is not tried again. If the deletion of the networks fails, the start fails, but the time of
  the boot is already stored: any later start in the same boot takes the networks as they are and goes on.
\<close>

theorem failed_reset_not_retried:
  assumes "w_faults fs WRead (lastBootPath c) = None" and "ce_BootTime env h \<noteq> ''''"
    and "delete_after_reboot env c fs h = (Inl (WithMessage ''failed to delete all networks before bootstrapping calico'' e), fs', h')"
    and "ce_BootTime env later = ce_BootTime env h"
  shows "delete_after_reboot env c fs' later = (Inr (), fs', later)"
proof -
  obtain b fs1 where b: "isNodeRebooted c (ce_BootTime env h) fs = (Inr b, fs1)"
    using assms(3) by (auto simp: delete_after_reboot_def split: prod.splits sum.splits)
  then have fs': "fs' = fs1" "b"
    using assms(3) by (auto simp: delete_after_reboot_def split: prod.splits sum.splits bool.splits)
  then have "gm_get (w_files fs') (lastBootPath c) = Some (ce_BootTime env h)" "w_faults fs' WRead (lastBootPath c) = None"
    using isNodeRebooted_cases(2) [OF assms(1,2) b] assms(1) by simp_all
  then show ?thesis
    using assms(4) by (simp add: delete_after_reboot_def isNodeRebooted_def getStoredLastBootTime_def w_ReadFile_def)
qed

section \<open>Environments of the processes\<close>

lemma env_pair_key: "fst (env_pair e) = takeWhile (\<lambda>c. c \<noteq> CHR ''='') e"
proof -
  have "fst (str_Cut (CHR ''='') e) = takeWhile (\<lambda>c. c \<noteq> CHR ''='') e"
    by (induction e) (auto split: prod.splits)
  then show ?thesis
    by (cases "str_Cut (CHR ''='') e") (simp add: env_pair_def)
qed

lemma env_pair_prefix:
  assumes "CHR ''='' \<notin> set p"
  shows "str_HasPrefix (fst (env_pair e)) p \<longleftrightarrow> str_HasPrefix e p"
  unfolding env_pair_key using assms
proof (induction p arbitrary: e)
  case Nil
  then show ?case
    by (simp add: str_HasPrefix_def)
next
  case (Cons x p)
  then show ?case
    by (cases e) (auto simp: str_HasPrefix_def)
qed

lemma env_lookup_append: "env_lookup (xs @ ys) k = (case env_lookup ys k of None \<Rightarrow> env_lookup xs k | Some v \<Rightarrow> Some v)"
  unfolding env_lookup_def by (simp add: map_add_def)

lemma env_lookup_Cons:
  "env_lookup (e # es) k = (case env_lookup es k of None \<Rightarrow> if k = fst (env_pair e) then Some (snd (env_pair e)) else None | Some v \<Rightarrow> Some v)"
proof -
  have "env_lookup [e] k = (if k = fst (env_pair e) then Some (snd (env_pair e)) else None)"
    by (cases "env_pair e") (simp add: env_lookup_def)
  then show ?thesis
    using env_lookup_append [of "[e]" es k] by (cases "env_lookup es k") simp_all
qed

lemma env_lookup_Nil [simp]: "env_lookup [] k = None"
  by (simp add: env_lookup_def)

lemma env_lookup_filter:
  assumes "CHR ''='' \<notin> set p" and "str_HasPrefix k p"
  shows "env_lookup (filter (\<lambda>e. str_HasPrefix e p) es) k = env_lookup es k"
proof (induction es)
  case (Cons e es)
  have "fst (env_pair e) \<noteq> k" if "\<not> str_HasPrefix e p"
    using that env_pair_prefix [OF assms(1)] assms(2) by auto
  then show ?case
    using Cons by (auto simp: env_lookup_Cons split: option.splits)
qed simp

lemma env_pairs:
  "env_pair (''KUBE_NETWORK='' @ v) = (''KUBE_NETWORK'', v)" "env_pair (''KUBECONFIG='' @ v) = (''KUBECONFIG'', v)"
  "env_pair (''NODENAME='' @ v) = (''NODENAME'', v)" "env_pair (''CALICO_K8S_NODE_REF='' @ v) = (''CALICO_K8S_NODE_REF'', v)"
  "env_pair (''IP='' @ v) = (''IP'', v)" "env_pair (''USE_POD_CIDR='' @ v) = (''USE_POD_CIDR'', v)"
  "env_pair (''FELIX_FELIXHOSTNAME='' @ v) = (''FELIX_FELIXHOSTNAME'', v)" "env_pair (''FELIX_VXLANVNI='' @ v) = (''FELIX_VXLANVNI'', v)"
  "env_pair (''FELIX_DATASTORETYPE='' @ v) = (''FELIX_DATASTORETYPE'', v)" "env_pair (''CALICO_NODENAME_FILE='' @ v) = (''CALICO_NODENAME_FILE'', v)"
  "env_pair (''CALICO_NETWORKING_BACKEND='' @ v) = (''CALICO_NETWORKING_BACKEND'', v)"
  "env_pair (''CALICO_DATASTORE_TYPE='' @ v) = (''CALICO_DATASTORE_TYPE'', v)"
  "env_pair (''IP_AUTODETECTION_METHOD='' @ v) = (''IP_AUTODETECTION_METHOD'', v)" "env_pair (''VXLAN_VNI='' @ v) = (''VXLAN_VNI'', v)"
  by (simp_all add: env_pair_def)

lemma general_env:
  "env_lookup (generateGeneralCalicoEnvs c) k =
     map_of [(''USE_POD_CIDR'', if autoConfigureIpam (cn_IpamType c) then ''true'' else ''false''), (''IP'', cn_NodeIP c),
       (''CALICO_K8S_NODE_REF'', cn_Hostname c), (''NODENAME'', cn_Hostname c),
       (''KUBECONFIG'', win_Join [cn_ConfigPath c, CalicoKubeConfigName]), (''KUBE_NETWORK'', cc_KubeNetwork c)] k"
  unfolding generateGeneralCalicoEnvs_def env_lookup_def list.map env_pairs by simp

lemma felix_env:
  "env_lookup [''FELIX_FELIXHOSTNAME='' @ cn_Hostname c, ''FELIX_VXLANVNI='' @ cn_VxlanVNI c, ''FELIX_DATASTORETYPE='' @ cc_DatastoreType c] k =
     map_of [(''FELIX_DATASTORETYPE'', cc_DatastoreType c), (''FELIX_VXLANVNI'', cn_VxlanVNI c), (''FELIX_FELIXHOSTNAME'', cn_Hostname c)] k"
  unfolding env_lookup_def list.map env_pairs by simp

lemma startup_env:
  "env_lookup [''CALICO_NODENAME_FILE='' @ cc_NodeNameFile c, ''CALICO_NETWORKING_BACKEND='' @ cn_OverlayEncap c,
         ''CALICO_DATASTORE_TYPE='' @ cc_DatastoreType c, ''IP_AUTODETECTION_METHOD='' @ cc_IPAutoDetectionMethod c,
         ''VXLAN_VNI='' @ cn_VxlanVNI c] k =
     map_of [(''VXLAN_VNI'', cn_VxlanVNI c), (''IP_AUTODETECTION_METHOD'', cc_IPAutoDetectionMethod c), (''CALICO_DATASTORE_TYPE'', cc_DatastoreType c),
       (''CALICO_NETWORKING_BACKEND'', cn_OverlayEncap c), (''CALICO_NODENAME_FILE'', cc_NodeNameFile c)] k"
  unfolding env_lookup_def list.map env_pairs by simp

text \<open>
  Variables of the user override the settings. A variable whose name begins with \<^verbatim>\<open>FELIX_\<close> has for Felix
  the value that the environment of the program gives it, and only otherwise the one from the settings; the
  same holds for names with \<^verbatim>\<open>CALICO_\<close> and the start-up of Calico.
\<close>

theorem user_environment:
  "(str_HasPrefix k ''FELIX_'' \<longrightarrow>
     env_lookup (the (cm_Env (felix_cmd env c logPath))) k =
       (case env_lookup (ce_Environ env) k of Some v \<Rightarrow> Some v
        | None \<Rightarrow> map_of [(''FELIX_FELIXHOSTNAME'', cn_Hostname c), (''FELIX_VXLANVNI'', cn_VxlanVNI c),
                         (''FELIX_DATASTORETYPE'', cc_DatastoreType c)] k)) \<and>
   (str_HasPrefix k ''CALICO_'' \<longrightarrow>
     env_lookup (the (cm_Env (startup_cmd env c logPath))) k =
       (case env_lookup (ce_Environ env) k of Some v \<Rightarrow> Some v
        | None \<Rightarrow> map_of [(''CALICO_NODENAME_FILE'', cc_NodeNameFile c), (''CALICO_NETWORKING_BACKEND'', cn_OverlayEncap c),
                         (''CALICO_DATASTORE_TYPE'', cc_DatastoreType c), (''CALICO_K8S_NODE_REF'', cn_Hostname c)] k))"
proof -
  have "env_lookup (the (cm_Env (felix_cmd env c logPath))) k =
       (case env_lookup (ce_Environ env) k of Some v \<Rightarrow> Some v
        | None \<Rightarrow> map_of [(''FELIX_FELIXHOSTNAME'', cn_Hostname c), (''FELIX_VXLANVNI'', cn_VxlanVNI c),
                         (''FELIX_DATASTORETYPE'', cc_DatastoreType c)] k)" if k: "str_HasPrefix k ''FELIX_''"
  proof -
    have "k \<noteq> ''KUBE_NETWORK''" "k \<noteq> ''KUBECONFIG''" "k \<noteq> ''NODENAME''" "k \<noteq> ''CALICO_K8S_NODE_REF''" "k \<noteq> ''IP''" "k \<noteq> ''USE_POD_CIDR''"
      using k by (auto simp: str_HasPrefix_def)
    moreover have "env_lookup (filter (\<lambda>e. str_HasPrefix e ''FELIX_'') (ce_Environ env)) k = env_lookup (ce_Environ env) k"
      by (rule env_lookup_filter [OF _ k]) simp
    ultimately show ?thesis
      unfolding felix_cmd_def cmd.simps option.sel env_lookup_append general_env felix_env by (simp split: option.splits)
  qed
  moreover have "env_lookup (the (cm_Env (startup_cmd env c logPath))) k =
       (case env_lookup (ce_Environ env) k of Some v \<Rightarrow> Some v
        | None \<Rightarrow> map_of [(''CALICO_NODENAME_FILE'', cc_NodeNameFile c), (''CALICO_NETWORKING_BACKEND'', cn_OverlayEncap c),
                         (''CALICO_DATASTORE_TYPE'', cc_DatastoreType c), (''CALICO_K8S_NODE_REF'', cn_Hostname c)] k)"
    if k: "str_HasPrefix k ''CALICO_''"
  proof -
    have "k \<noteq> ''KUBE_NETWORK''" "k \<noteq> ''KUBECONFIG''" "k \<noteq> ''NODENAME''" "k \<noteq> ''IP''" "k \<noteq> ''USE_POD_CIDR''"
      "k \<noteq> ''IP_AUTODETECTION_METHOD''" "k \<noteq> ''VXLAN_VNI''"
      using k by (auto simp: str_HasPrefix_def)
    moreover have "env_lookup (filter (\<lambda>e. str_HasPrefix e ''CALICO_'') (ce_Environ env)) k = env_lookup (ce_Environ env) k"
      by (rule env_lookup_filter [OF _ k]) simp
    ultimately show ?thesis
      unfolding startup_cmd_def cmd.simps option.sel env_lookup_append general_env startup_env by (simp split: option.splits)
  qed
  ultimately show ?thesis
    by blast
qed

section \<open>A node in memory\<close>

text \<open>The world is the list of networks; every management address is on one interface.\<close>

definition list_net :: "(HNSNetwork list, 32 word, 32 word \<times> nat) win_env" where
  "list_net =
     \<lparr>GetHNSNetworkByName = (\<lambda>n h. (case find (\<lambda>x. hn_Name x = n) h of Some x \<Rightarrow> Inr x | None \<Rightarrow> Inl ErrNotExist, h)),
      HNSListNetworks = (\<lambda>h. (Inr h, h)), HNS_Create = (\<lambda>n h. (Inr (), h @ [n])), HNS_Delete = (\<lambda>n h. (Inr (), removeAll n h)),
      FirewallRuleAdd = (\<lambda>n p h. (Inr True, h)), net_Interfaces = (\<lambda>h. (Inr [(''Ethernet'', Inr [''10.0.0.5/24''])], h)),
      http_Get = (\<lambda>u hd h. ((None, Some (UrlError (Some True) '''')), h)), http_NewRequest = (\<lambda>u. Inr ()), net_Dial = (\<lambda>a h. (Inr None, h)),
      netroute_New = Inr (), netroute_Route = Inr, netroute_RouteWithSrc = (\<lambda>s d. Inr ()), net_ParseIP = parse_ip4,
      net_ParseCIDR = parse_cidr4, net_Contains = contains4, regexp_Compile = (\<lambda>e. None)\<rparr>"

definition list_cni :: "(HNSNetwork list, 32 word, 32 word \<times> nat) cni_env" where
  "list_cni =
     \<lparr>ce_net = list_net, ce_Attempts = 3, ce_NewForConfig = Inr (), ce_CreateToken = (\<lambda>ns n h. (Inr ''token'', h)),
      ce_NodeGet = (\<lambda>n h. (Inr (), h)), ce_HelmFactory = Inr (), ce_HelmChartConfigGet = (\<lambda>ns n h. (Inl ApiNotFound, h)),
      ce_BGPEnabled = ''Enabled'', ce_yaml_Unmarshal = (\<lambda>s. Inl (Errorf ''yaml'')), ce_yaml_Marshal = (\<lambda>v. Inr ''''),
      ce_GetHNSEndpointByName = (\<lambda>n h. (Inr ''10.42.1.2'', h)), ce_HNSListPolicies = (\<lambda>h. ([], h)), ce_PolicyDelete = (\<lambda>p h. h),
      ce_Run = (\<lambda>c h. ((Inr (), ''''), h)), ce_Chdir = (\<lambda>d h. h), ce_Done = (\<lambda>h. True),
      ce_BootTime = (\<lambda>h. ''Mon Jan  2 15:04:05 UTC 2006''), ce_Environ = [''FELIX_VXLANVNI=7'', ''PATH=C:''],
      ce_HostLocalStore = (\<lambda>n d h. (Inr (), h)), ce_HostLocalGetByID = (\<lambda>i n h. [''10.42.1.2'']), ce_json_Addresses = (\<lambda>s. Inr [])\<rparr>"

definition no_files :: wfs where
  "no_files = \<lparr>w_files = [], w_faults = (\<lambda>p q. None)\<rparr>"

definition sample_agent :: agent_config where
  "sample_agent = \<lparr>ag_NodeName = ''win1'', ag_CNIConfDir = ''c:'' @ [backslash] @ ''cni'', ag_CNIBinDir = ''c:'' @ [backslash] @ ''bin'',
     ag_ClusterCIDR = ''10.42.0.0/16'', ag_ServiceCIDR = ''10.43.0.0/16'', ag_NodeIP = ''10.0.0.5'', ag_ClusterDNS = ''10.43.0.10'',
     ag_ClusterDomain = ''cluster.local''\<rparr>"

definition sample_calico :: CalicoConfig where
  "sample_calico = calico_defaults sample_agent ''/var/lib/rancher/rke2'' ''bare-metal''"

definition plain_network :: "string \<Rightarrow> HNSNetwork" where
  "plain_network n = \<lparr>hn_Type = ''L2Bridge'', hn_Name = n, hn_NetworkAdapterName = '''', hn_ManagementIP = ''10.0.0.5'', hn_Subnets = []\<rparr>"

lemma list_net_laws: "network_laws (ce_net list_cni) (\<lambda>h. h)"
  by (simp add: network_laws_def list_cni_def list_net_def)


theorem failed_reset_not_retried_witness:
  "let env = list_cni\<lparr>ce_net := list_net\<lparr>HNS_Delete := (\<lambda>n h. (Inl ErrExist, h))\<rparr>\<rparr>;
       fs = fst (snd (delete_after_reboot env sample_calico no_files [plain_network ''External'']))
   in delete_after_reboot env sample_calico fs [plain_network ''External''] = (Inr (), fs, [plain_network ''External''])"
proof -
  let ?env = "list_cni\<lparr>ce_net := list_net\<lparr>HNS_Delete := (\<lambda>n h. (Inl ErrExist, h))\<rparr>\<rparr>" and ?h = "[plain_network ''External'']"
  let ?d = "delete_after_reboot ?env sample_calico no_files ?h"
  have "fst ?d = Inl (WithMessage ''failed to delete all networks before bootstrapping calico'' ErrExist)"
    by code_simp
  then have d: "?d = (Inl (WithMessage ''failed to delete all networks before bootstrapping calico'' ErrExist), fst (snd ?d), snd (snd ?d))"
    by (simp add: prod_eq_iff)
  have "w_faults no_files WRead (lastBootPath sample_calico) = None" "ce_BootTime ?env ?h \<noteq> ''''"
    by (simp_all add: no_files_def list_cni_def)
  from failed_reset_not_retried [OF this d refl] show ?thesis
    by simp
qed

theorem user_environment_witness:
  "env_lookup (the (cm_Env (felix_cmd list_cni sample_calico ''logs''))) ''FELIX_VXLANVNI'' = Some ''7'' \<and>
   env_lookup (the (cm_Env (startup_cmd list_cni sample_calico ''logs''))) ''CALICO_K8S_NODE_REF'' = Some ''win1''"
proof -
  have 1: "str_HasPrefix ''FELIX_VXLANVNI'' ''FELIX_''" "env_lookup (ce_Environ list_cni) ''FELIX_VXLANVNI'' = Some ''7''"
    by code_simp+
  have 2: "str_HasPrefix ''CALICO_K8S_NODE_REF'' ''CALICO_''" "env_lookup (ce_Environ list_cni) ''CALICO_K8S_NODE_REF'' = None"
    "cn_Hostname sample_calico = ''win1''"
    by code_simp+
  show ?thesis
    using user_environment [of "''FELIX_VXLANVNI''" list_cni sample_calico "''logs''"] user_environment [of "''CALICO_K8S_NODE_REF''" list_cni sample_calico "''logs''"]
      1 2 by simp
qed

theorem calico_files_witness:
  "\<exists>c. cw_cfg (snd (calico_Setup list_cni sample_agent ''/var/lib/rancher/rke2'' \<lparr>cw_cfg = None, cw_client = False, cw_fs = no_files, cw_h = [], cw_jobs = []\<rparr>)) = Some c \<and>
     gm_get (w_files (cw_fs (snd (calico_Setup list_cni sample_agent ''/var/lib/rancher/rke2''
       \<lparr>cw_cfg = None, cw_client = False, cw_fs = no_files, cw_h = [], cw_jobs = []\<rparr>)))) (cc_NodeNameFile c) \<noteq> None"
proof -
  let ?w = "\<lparr>cw_cfg = None, cw_client = False, cw_fs = no_files, cw_h = [] :: HNSNetwork list, cw_jobs = []\<rparr>"
  let ?s = "calico_Setup list_cni sample_agent ''/var/lib/rancher/rke2'' ?w"
  have "fst ?s = Inr ()"
    by code_simp
  then have s: "?s = (Inr (), snd ?s)"
    by (simp add: prod_eq_iff)
  have "\<forall>p. w_faults (cw_fs ?w) WExecute p = None"
    by (simp add: no_files_def)
  from calico_files [OF s this] show ?thesis
    by auto
qed

end
