(* ===== verification/Win_Flannel.thy ===== *)
theory Win_Flannel
  imports Win_Calico
begin

text \<open>
  \<^verbatim>\<open>pkg/windows/flannel.go\<close>: the Flannel plugin of a Windows node: its configuration files, the daemon, and the
  address that is reserved for kube-proxy with the host-local plugin.
\<close>

section \<open>Files\<close>

definition flannelConfigName :: string where "flannelConfigName = ''07-flannel.conflist''"
definition flannelKubeConfigName :: string where "flannelKubeConfigName = ''flannel.kubeconfig''"
definition flanneldConfigName :: string where "flanneldConfigName = ''flanneld-net-conf.json''"
definition FlannelChart :: string where "FlannelChart = ''rke2-flannel''"
definition hostlocalContainerID :: string where "hostlocalContainerID = ''kube-proxy''"
definition hostlocalInterfaceName :: string where "hostlocalInterfaceName = ''source-vip''"
definition hostLocalDataDir :: string where "hostLocalDataDir = ''/var/lib/cni/networks''"

text \<open>Without credentials the template stops at the first field of them.\<close>

definition flannelKubeConfigTemplate :: "KubeConfig option \<Rightarrow> string" where
  "flannelKubeConfigTemplate o_kc = (case o_kc of
     None \<Rightarrow> unlines [''apiVersion: v1'', ''kind: Config'', ''clusters:'', ''- name: kubernetes'', ''  cluster:'', ''    certificate-authority: '']
   | Some kc \<Rightarrow> unlines
     [''apiVersion: v1'',
      ''kind: Config'',
      ''clusters:'',
      ''- name: kubernetes'',
      ''  cluster:'',
      ''    certificate-authority: '' @ kc_CertificateAuthority kc,
      ''    server: '' @ kc_Server kc,
      ''contexts:'',
      ''- name: flannel@kubernetes'',
      ''  context:'',
      ''    cluster: kubernetes'',
      ''    namespace: kube-system'',
      ''    user: flannel'',
      ''current-context: flannel@kubernetes'',
      ''users:'',
      ''- name: flannel'',
      ''  user:'',
      ''    token: '' @ kc_Token kc,
      ''''])"

definition flanneldConfigTemplate :: "FlannelConfig \<Rightarrow> string" where
  "flanneldConfigTemplate c = unlines
     [''{'',
      ''\"Network\": \"'' @ cn_ClusterCIDR c @ ''\", '',
      ''\"Backend\": {'',
      ''  \"Type\": \"'' @ cn_OverlayEncap c @ ''\",'',
      ''  \"VNI\": '' @ cn_VxlanVNI c @ '','',
      ''  \"Port\": '' @ cn_VxlanPort c,
      ''  }'',
      ''}'']"

definition flannelCniConflistTemplate :: "FlannelConfig \<Rightarrow> string" where
  "flannelCniConflistTemplate c = unlines
     [''{'',
      [tab] @ ''\"name\":\"flannel.4096\",  '',
      [tab] @ ''\"cniVersion\":\"'' @ cn_CNIVersion c @ ''\",'',
      [tab] @ ''\"plugins\":['',
      [tab] @ ''  {'',
      [tab, tab] @ ''\"type\":\"flannel\",'',
      [tab, tab] @ ''\"capabilities\": {'',
      [tab, tab] @ ''  \"portMappings\": true,'',
      [tab, tab] @ ''  \"dns\": true'',
      [tab, tab] @ ''},'',
      [tab, tab] @ ''\"delegate\": {'',
      [tab, tab] @ ''  \"type\": \"win-overlay\",'',
      [tab, tab] @ ''  \"apiVersion\": 2,'',
      [tab, tab] @ ''  \"Policies\": [{'',
      [tab, tab, tab] @ ''  \"Name\": \"EndpointPolicy\",'',
      [tab, tab, tab] @ ''  \"Value\": {'',
      [tab, tab, tab, tab] @ ''  \"Type\": \"OutBoundNAT\",'',
      [tab, tab, tab, tab] @ ''  \"Settings\": {'',
      [tab, tab, tab, tab, tab] @ ''\"Exceptions\": ['',
      [tab, tab, tab, tab, tab] @ ''  \"'' @ cn_ClusterCIDR c @ ''\", \"'' @ cn_ServiceCIDR c @ ''\"'',
      [tab, tab, tab, tab, tab] @ '']'',
      [tab, tab, tab, tab] @ ''  }'',
      [tab, tab, tab] @ ''  }'',
      [tab, tab] @ ''  }, {'',
      [tab, tab, tab] @ ''  \"Name\": \"EndpointPolicy\",'',
      [tab, tab, tab] @ ''  \"Value\": {'',
      [tab, tab, tab, tab] @ ''  \"Type\": \"SDNRoute\",'',
      [tab, tab, tab, tab] @ ''  \"Settings\": {'',
      [tab, tab, tab, tab, tab] @ ''\"DestinationPrefix\": \"'' @ cn_ServiceCIDR c @ ''\",'',
      [tab, tab, tab, tab, tab] @ ''\"NeedEncap\": true'',
      [tab, tab, tab, tab] @ ''  }'',
      [tab, tab, tab] @ ''  }'',
      [tab, tab] @ ''  }, {'',
      [tab, tab, tab] @ ''  \"name\": \"EndpointPolicy\",'',
      [tab, tab, tab] @ ''  \"value\": {'',
      [tab, tab, tab, tab] @ ''  \"Type\": \"ProviderAddress\",'',
      [tab, tab, tab, tab] @ ''  \"Settings\": {'',
      [tab, tab, tab, tab, tab] @ ''  \"ProviderAddress\": \"'' @ cn_NodeIP c @ ''\"'',
      [tab, tab, tab, tab] @ ''  }'',
      [tab, tab, tab] @ ''  } '',
      [tab, tab] @ ''  }]'',
      [tab, tab] @ ''}'',
      [tab] @ ''  }'',
      [tab] @ '']'',
      ''  }'',
      '''']"

text \<open>The same text as the one of Calico.\<close>

definition renderFlannelConfig :: "string \<Rightarrow> string \<Rightarrow> wfs \<Rightarrow> unit result \<times> wfs" where
  "renderFlannelConfig path rendered fs = renderCalicoConfig path rendered fs"

definition flannel_writeConfigFiles :: "FlannelConfig \<Rightarrow> wfs \<Rightarrow> unit result \<times> wfs" where
  "flannel_writeConfigFiles c fs =
     bind_h (renderFlannelConfig (win_Join [cn_ConfigPath c, flannelKubeConfigName]) (flannelKubeConfigTemplate (cn_KubeConfig c)) fs) (\<lambda>_ fs.
     bind_h (renderFlannelConfig (win_Join [cn_ConfigPath c, flanneldConfigName]) (flanneldConfigTemplate c) fs) (\<lambda>_ fs.
     renderFlannelConfig (win_Join [cn_CNIConfDir c, flannelConfigName]) (flannelCniConflistTemplate c) fs))"

section \<open>Set-up\<close>

definition flannel_GetConfig :: "(FlannelConfig, 'h) cni_world \<Rightarrow> CNICommonConfig outcome" where
  "flannel_GetConfig w = (case cw_cfg w of None \<Rightarrow> Inl nil_deref | Some c \<Rightarrow> Inr c)"

definition flannel_createKubeConfigAndClient ::
  "('h, 'ip, 'net) cni_env \<Rightarrow> FlannelConfig \<Rightarrow> 'h \<Rightarrow> KubeConfig result \<times> 'h" where
  "flannel_createKubeConfigAndClient env c h =
     (case ce_NewForConfig env of
        Inl e \<Rightarrow> (Inl e, h)
      | Inr _ \<Rightarrow>
         (case ce_CreateToken env ''kube-system'' ''flannel'' h of
            (Inl e, h) \<Rightarrow> (Inl (WithMessage ''failed to create token for service account (kube-system/flannel)'' e), h)
          | (Inr token, h) \<Rightarrow>
              (Inr \<lparr>kc_CertificateAuthority = win_Join [cn_ConfigPath c, ''server-ca.crt''], kc_Server = ''https://127.0.0.1:6443'',
                    kc_Token = token, kc_Path = ''''\<rparr>, h)))"

definition flannel_defaults :: "agent_config \<Rightarrow> string \<Rightarrow> FlannelConfig" where
  "flannel_defaults ag dataDir = empty_config
     \<lparr>cn_Name := ''flannel'', cn_OverlayNetName := ''flannel.4096'', cn_Hostname := ag_NodeName ag,
      cn_ConfigPath := win_Join [''c:'' @ [backslash], dataDir, ''agent''], cn_OverlayEncap := ''vxlan'', cn_VxlanVNI := ''4096'',
      cn_VxlanPort := ''4789'', cn_ServiceCIDR := ag_ServiceCIDR ag, cn_ClusterCIDR := ag_ClusterCIDR ag,
      cn_CNIConfDir := ag_CNIConfDir ag, cn_NodeIP := ag_NodeIP ag, cn_CNIBinDir := ag_CNIBinDir ag, cn_CNIVersion := ''1.0.0'',
      cn_Interface := ag_NodeIP ag\<rparr>"

definition flannel_initializeConfig ::
  "('h, 'ip, 'net) cni_env \<Rightarrow> agent_config \<Rightarrow> string \<Rightarrow> (FlannelConfig, 'h) cni_world \<Rightarrow>
   unit outcome \<times> (FlannelConfig, 'h) cni_world" where
  "flannel_initializeConfig env ag dataDir w =
     (let c = flannel_defaults ag dataDir in
      case flannel_createKubeConfigAndClient env c (cw_h w) of
        (Inl e, h) \<Rightarrow> (Inl (Err e), w\<lparr>cw_cfg := Some (c\<lparr>cn_KubeConfig := None\<rparr>), cw_client := False, cw_h := h\<rparr>)
      | (Inr kc, h) \<Rightarrow> (Inr (), w\<lparr>cw_cfg := Some (c\<lparr>cn_KubeConfig := Some kc\<rparr>), cw_client := True, cw_h := h\<rparr>))"

definition flannel_Setup ::
  "('h, 'ip, 'net) cni_env \<Rightarrow> agent_config \<Rightarrow> string \<Rightarrow> (FlannelConfig, 'h) cni_world \<Rightarrow>
   unit outcome \<times> (FlannelConfig, 'h) cni_world" where
  "flannel_Setup env ag dataDir w =
     bind_h (flannel_initializeConfig env ag dataDir w) (\<lambda>_ w.
       case cw_cfg w of
         None \<Rightarrow> (Inl nil_deref, w)
       | Some c \<Rightarrow> (case flannel_writeConfigFiles c (cw_fs w) of (r, fs) \<Rightarrow> (lift_err r, w\<lparr>cw_fs := fs\<rparr>)))"

section \<open>Start\<close>

definition flanneld_cmd :: "('h, 'ip, 'net) cni_env \<Rightarrow> FlannelConfig \<Rightarrow> string \<Rightarrow> cmd" where
  "flanneld_cmd env c logPath =
     \<lparr>cm_Path = ''flanneld.exe'',
      cm_Args = [''--kubeconfig-file='' @ win_Join [cn_ConfigPath c, flannelKubeConfigName], ''--ip-masq'', ''--kube-subnet-mgr'',
        ''--iptables-forward-rules=false'', ''--iface='' @ cn_Interface c,
        ''--net-config-path='' @ win_Join [cn_ConfigPath c, flanneldConfigName]],
      cm_Env = Some [''NODE_NAME='' @ cn_Hostname c, ''PATH='' @ os_Getenv env ''PATH''],
      cm_Stdin = '''', cm_Log = win_Join [logPath, ''flanneld.log'']\<rparr>"

definition startFlannel :: "('h, 'ip, 'net) cni_env \<Rightarrow> FlannelConfig \<Rightarrow> string \<Rightarrow> 'h \<Rightarrow> 'h option" where
  "startFlannel env c logPath h = supervise (\<lambda>h. snd (ce_Run env (flanneld_cmd env c logPath) h)) (ce_Done env) h"

definition flannel_network_ready ::
  "('h, 'ip, 'net) cni_env \<Rightarrow> string \<Rightarrow> HNSNetwork option \<times> 'h \<Rightarrow> bool result \<times> HNSNetwork option \<times> 'h" where
  "flannel_network_ready env name = (\<lambda>(_, h).
     case GetHNSNetworkByName (ce_net env) name h of
       (Inl _, h) \<Rightarrow> (Inr False, None, h)
     | (Inr network, h) \<Rightarrow> (Inr (hn_ManagementIP network \<noteq> ''''), Some network, h))"

definition hostlocal_config :: "string \<Rightarrow> string \<Rightarrow> string" where
  "hostlocal_config name subnet = unlines
     [''{'',
      [tab, tab] @ ''\"cniVersion\": \"1.0.0\",'',
      [tab, tab] @ ''\"name\": \"'' @ name @ ''\",'',
      [tab, tab] @ ''\"ipam\": {'',
      [tab, tab, tab] @ ''\"type\": \"host-local\",'',
      [tab, tab, tab] @ ''\"ranges\": [[{\"subnet\":\"'' @ subnet @ ''\"}]],'',
      [tab, tab, tab] @ ''\"dataDir\": \"'' @ hostLocalDataDir @ ''\"'',
      [tab, tab] @ ''}'',
      [tab] @ ''}'']"

definition hostlocal_cmd :: "('h, 'ip, 'net) cni_env \<Rightarrow> FlannelConfig \<Rightarrow> string \<Rightarrow> cmd" where
  "hostlocal_cmd env c subnet =
     \<lparr>cm_Path = ''host-local.exe'', cm_Args = [],
      cm_Env = Some (ce_Environ env @ [''CNI_COMMAND=ADD'', ''CNI_CONTAINERID='' @ hostlocalContainerID, ''CNI_NETNS=kube-proxy'',
        ''CNI_IFNAME='' @ hostlocalInterfaceName, ''CNI_PATH='' @ cn_CNIBinDir c]),
      cm_Stdin = hostlocal_config (cn_OverlayNetName c) subnet, cm_Log = ''''\<rparr>"

definition vip_of :: "string \<Rightarrow> string" where
  "vip_of a = str_TrimSpace (str_Split slash a ! 0)"

text \<open>No address is reserved yet: the host-local plugin is run in the subnet of the network.\<close>

definition reserve_new ::
  "('h, 'ip, 'net) cni_env \<Rightarrow> FlannelConfig \<Rightarrow> HNSNetwork \<Rightarrow> 'h \<Rightarrow> unit outcome \<times> FlannelConfig \<times> 'h" where
  "reserve_new env c network h =
     (case hn_Subnets network of
        [] \<Rightarrow> (Inl (Panic ''index out of range''), c, h)
      | s # _ \<Rightarrow>
         (case ce_Run env (hostlocal_cmd env c (sn_AddressPrefix s)) h of
            ((Inl e, out), h) \<Rightarrow> (Inl (Err e), c, h)
          | ((Inr _, out), h) \<Rightarrow>
             (case ce_json_Addresses env out of
                Inl e \<Rightarrow> (Inl (Err e), c, h)
              | Inr [] \<Rightarrow> (Inl (Err (Errorf ''no source vip reserved'')), c, h)
              | Inr (a # _) \<Rightarrow> (Inr (), c\<lparr>cn_VIPAddress := vip_of a\<rparr>, h))))"

definition reserveFlannelVIP ::
  "('h, 'ip, 'net) cni_env \<Rightarrow> FlannelConfig \<Rightarrow> 'h \<Rightarrow> unit outcome \<times> FlannelConfig \<times> 'h" where
  "reserveFlannelVIP env c h =
     (case poll_until (ce_Attempts env) (flannel_network_ready env (cn_OverlayNetName c)) (None, h) of
        (Inl e, _, h) \<Rightarrow> (Inl (Err e), c, h)
      | (Inr _, network, h) \<Rightarrow>
         (case ce_HostLocalStore env (cn_OverlayNetName c) hostLocalDataDir h of
            (Inl e, h) \<Rightarrow> (Inl (Err (WithMessage ''failed to create host-local store'' e)), c, h)
          | (Inr _, h) \<Rightarrow>
             (case ce_HostLocalGetByID env hostlocalContainerID hostlocalInterfaceName h of
                ip # _ \<Rightarrow> (Inr (), c\<lparr>cn_VIPAddress := vip_of ip\<rparr>, h)
              | [] \<Rightarrow> (case network of None \<Rightarrow> (Inl nil_deref, c, h) | Some n \<Rightarrow> reserve_new env c n h))))"

definition node_registered :: "('h, 'ip, 'net) cni_env \<Rightarrow> string \<Rightarrow> 'h \<Rightarrow> bool result \<times> 'h" where
  "node_registered env hostname h = (case ce_NodeGet env hostname h of (Inl _, h) \<Rightarrow> (Inr False, h) | (Inr _, h) \<Rightarrow> (Inr True, h))"

definition flannel_Start ::
  "('h, 'ip, 'net) cni_env \<Rightarrow> (FlannelConfig, 'h) cni_world \<Rightarrow> unit outcome \<times> (FlannelConfig, 'h) cni_world" where
  "flannel_Start env w =
     (case cw_cfg w of
        None \<Rightarrow> (Inl nil_deref, w)
      | Some c \<Rightarrow>
         if \<not> cw_client w then (Inl nil_deref, w)
         else
           (case poll_until (ce_Attempts env) (node_registered env (cn_Hostname c)) (cw_h w) of
              (Inl e, h) \<Rightarrow> (Inl (Err e), w\<lparr>cw_h := h\<rparr>)
            | (Inr _, h) \<Rightarrow>
               (case reserveFlannelVIP env c h of
                  (r, c', h) \<Rightarrow>
                    (r, w\<lparr>cw_cfg := Some c', cw_h := h, cw_jobs := cw_jobs w @ [JobFlannel c (win_Join [cn_ConfigPath c, ''logs''])]\<rparr>))))"

section \<open>The plugin keeps its contract\<close>

lemma reserveFlannelVIP_keeps:
  assumes "reserveFlannelVIP env c h = (r, c', h')"
  shows "\<exists>v. c' = c\<lparr>cn_VIPAddress := v\<rparr>"
proof -
  have "c' = c \<or> (\<exists>v. c' = c\<lparr>cn_VIPAddress := v\<rparr>)"
    using assms by (auto simp: reserveFlannelVIP_def reserve_new_def split: prod.splits sum.splits list.splits option.splits)
  then show ?thesis
    by (metis CNICommonConfig.surjective CNICommonConfig.update_convs(16))
qed

interpretation flannel: cni_plugin "flannel_Setup env" "flannel_Start env" flannel_GetConfig "''flannel.4096''" ag_NodeIP
proof
  fix ag d w w'
  assume "flannel_Setup env ag d w = (Inr (), w')"
  then obtain kc where "cw_cfg w' = Some ((flannel_defaults ag d)\<lparr>cn_KubeConfig := Some kc\<rparr>)"
    by (auto simp: flannel_Setup_def bind_h_Inr_iff flannel_initializeConfig_def Let_def split: prod.splits sum.splits)
  then show "\<exists>c. flannel_GetConfig w' = Inr c \<and> cn_OverlayNetName c = ''flannel.4096'' \<and> cn_NodeIP c = ag_NodeIP ag"
    by (simp add: flannel_GetConfig_def flannel_defaults_def)
next
  fix w w' c
  fix r
  assume start: "flannel_Start env w = (r, w')" and "flannel_GetConfig w = Inr c"
  then have c: "cw_cfg w = Some c"
    by (auto simp: flannel_GetConfig_def split: option.splits)
  have same: "c = c\<lparr>cn_VIPAddress := cn_VIPAddress c\<rparr>"
    by simp
  have "cw_cfg w' = Some c \<or> (\<exists>h r c' h'. reserveFlannelVIP env c h = (r, c', h') \<and> cw_cfg w' = Some c')"
    using start c by (auto simp: flannel_Start_def split: prod.splits sum.splits if_splits)
  then have "\<exists>v. cw_cfg w' = Some (c\<lparr>cn_VIPAddress := v\<rparr>)"
    using same reserveFlannelVIP_keeps by metis
  then show "\<exists>v. flannel_GetConfig w' = Inr (c\<lparr>cn_VIPAddress := v\<rparr>)"
    by (auto simp: flannel_GetConfig_def)
qed

section \<open>The address for kube-proxy\<close>

text \<open>
  What is known of the host-local plugin and its store: asking for networks and opening the store leave the
  reserved addresses alone, and a successful reservation is found in the store.
\<close>

definition reservation_laws :: "('h, 'ip, 'net) cni_env \<Rightarrow> bool" where
  "reservation_laws env \<longleftrightarrow>
     (\<forall>i f n h. ce_HostLocalGetByID env i f (snd (GetHNSNetworkByName (ce_net env) n h)) = ce_HostLocalGetByID env i f h) \<and>
     (\<forall>i f n d h. ce_HostLocalGetByID env i f (snd (ce_HostLocalStore env n d h)) = ce_HostLocalGetByID env i f h) \<and>
     (\<forall>c s h out h' a as. ce_Run env (hostlocal_cmd env c s) h = ((Inr (), out), h') \<longrightarrow> ce_json_Addresses env out = Inr (a # as) \<longrightarrow>
        (\<exists>ip ips. ce_HostLocalGetByID env hostlocalContainerID hostlocalInterfaceName h' = ip # ips \<and> vip_of ip = vip_of a))"

definition reserved :: "('h, 'ip, 'net) cni_env \<Rightarrow> 'h \<Rightarrow> string list" where
  "reserved env h = ce_HostLocalGetByID env hostlocalContainerID hostlocalInterfaceName h"

lemma ready_reserved:
  assumes "reservation_laws env"
  shows "reserved env (snd (snd (poll_until n (flannel_network_ready env name) s))) = reserved env (snd s)"
proof (rule poll_until_keeps [where f = "\<lambda>s. reserved env (snd s)"])
  fix s :: "HNSNetwork option \<times> 'a"
  have "reserved env (snd (GetHNSNetworkByName (ce_net env) name (snd s))) = reserved env (snd s)"
    using assms by (simp add: reservation_laws_def reserved_def)
  then show "reserved env (snd (snd (flannel_network_ready env name s))) = reserved env (snd s)"
    by (auto simp: flannel_network_ready_def split: prod.splits sum.splits)
qed

lemma reserve_new_found:
  assumes "reservation_laws env" and "reserve_new env c n h = (Inr (), c', h')"
  shows "\<exists>ip ips. reserved env h' = ip # ips \<and> cn_VIPAddress c' = vip_of ip"
proof -
  obtain s out a as where "ce_Run env (hostlocal_cmd env c s) h = ((Inr (), out), h')" "ce_json_Addresses env out = Inr (a # as)"
    "c' = c\<lparr>cn_VIPAddress := vip_of a\<rparr>"
    using assms(2) by (auto simp: reserve_new_def split: list.splits prod.splits sum.splits)
  then show ?thesis
    using assms(1) unfolding reservation_laws_def reserved_def by fastforce
qed

lemma reserve_found:
  assumes laws: "reservation_laws env" and ok: "reserveFlannelVIP env c h = (Inr (), c', h')"
  shows "\<exists>ip ips. reserved env h' = ip # ips \<and> cn_VIPAddress c' = vip_of ip"
    and "reserved env h = ip # ips \<Longrightarrow> cn_VIPAddress c' = vip_of ip"
proof -
  obtain network h1 h2 where p: "poll_until (ce_Attempts env) (flannel_network_ready env (cn_OverlayNetName c)) (None, h) = (Inr (), network, h1)"
    and st: "ce_HostLocalStore env (cn_OverlayNetName c) hostLocalDataDir h1 = (Inr (), h2)"
    using ok by (auto simp: reserveFlannelVIP_def split: prod.splits sum.splits)
  have r1: "reserved env h1 = reserved env h"
    using ready_reserved [OF laws, of "ce_Attempts env" "cn_OverlayNetName c" "(None, h)"] p by simp
  have "reserved env (snd (ce_HostLocalStore env (cn_OverlayNetName c) hostLocalDataDir h1)) = reserved env h1"
    using laws by (simp add: reservation_laws_def reserved_def)
  then have r2: "reserved env h2 = reserved env h"
    using st r1 by simp
  show "\<exists>ip ips. reserved env h' = ip # ips \<and> cn_VIPAddress c' = vip_of ip"
    using ok p st reserve_new_found [OF laws]
    by (auto simp: reserveFlannelVIP_def reserved_def split: list.splits option.splits)
  show "reserved env h = ip # ips \<Longrightarrow> cn_VIPAddress c' = vip_of ip"
    using ok p st r2 by (auto simp: reserveFlannelVIP_def reserved_def)
qed


text \<open>A store with one address, reserved by running the plugin.\<close>

definition store_cni :: "(string list, 32 word, 32 word \<times> nat) cni_env" where
  "store_cni =
     \<lparr>ce_net = \<lparr>GetHNSNetworkByName = (\<lambda>n h. (Inr ((plain_network n)\<lparr>hn_Subnets := [\<lparr>sn_AddressPrefix = ''10.42.1.0/24'', sn_GatewayAddress = '''', sn_Policies = []\<rparr>]\<rparr>), h)),
        HNSListNetworks = (\<lambda>h. (Inr [], h)), HNS_Create = (\<lambda>n h. (Inr (), h)), HNS_Delete = (\<lambda>n h. (Inr (), h)),
        FirewallRuleAdd = (\<lambda>n p h. (Inr True, h)), net_Interfaces = (\<lambda>h. (Inr [], h)), http_Get = (\<lambda>u hd h. ((None, None), h)),
        http_NewRequest = (\<lambda>u. Inr ()), net_Dial = (\<lambda>a h. (Inr None, h)), netroute_New = Inr (), netroute_Route = Inr,
        netroute_RouteWithSrc = (\<lambda>s d. Inr ()), net_ParseIP = parse_ip4, net_ParseCIDR = parse_cidr4, net_Contains = contains4,
        regexp_Compile = (\<lambda>e. None)\<rparr>,
      ce_Attempts = 3, ce_NewForConfig = Inr (), ce_CreateToken = (\<lambda>ns n h. (Inr ''token'', h)),
      ce_NodeGet = (\<lambda>n h. (Inr (), h)), ce_HelmFactory = Inr (), ce_HelmChartConfigGet = (\<lambda>ns n h. (Inl ApiNotFound, h)),
      ce_BGPEnabled = ''Enabled'', ce_yaml_Unmarshal = (\<lambda>s. Inl (Errorf ''yaml'')), ce_yaml_Marshal = (\<lambda>v. Inr ''''),
      ce_GetHNSEndpointByName = (\<lambda>n h. (Inr '''', h)), ce_HNSListPolicies = (\<lambda>h. ([], h)), ce_PolicyDelete = (\<lambda>p h. h),
      ce_Run = (\<lambda>c h. ((Inr (), ''10.42.1.9/24''), [''10.42.1.9''])), ce_Chdir = (\<lambda>d h. h), ce_Done = (\<lambda>h. True),
      ce_BootTime = (\<lambda>h. ''''), ce_Environ = [], ce_HostLocalStore = (\<lambda>n d h. (Inr (), h)),
      ce_HostLocalGetByID = (\<lambda>i n h. h), ce_json_Addresses = (\<lambda>s. Inr [s])\<rparr>"

lemma store_laws: "reservation_laws store_cni"
proof -
  have "vip_of ''10.42.1.9'' = vip_of ''10.42.1.9/24''"
    by code_simp
  then show ?thesis
    by (auto simp: reservation_laws_def store_cni_def)
qed


end
