(* ===== verification/Pe_Binary.thy ===== *)
theory Pe_Binary
  imports Win_Flannel Embedded_Registry Logging Bootstrap_Stage "HOL-Library.Multiset"
begin

text \<open>
  \<^verbatim>\<open>pkg/executor/pebinary/pebinary.go\<close>: the executor of Windows nodes, which runs the components of an agent as
  processes, and \<^verbatim>\<open>charts.go\<close> of \<^verbatim>\<open>pkg/bootstrap\<close>. Handlers that wait for a channel are kept in a list until the
  channel is closed, and processes that run in the background are recorded with their commands.
\<close>

section \<open>Arguments\<close>

text \<open>A Go map as the list of its entries in some order.\<close>

definition getArgs :: "(string, string) gomap \<Rightarrow> string list" where
  "getArgs argsMap = sort_Strings (map (\<lambda>(arg, value). ''--'' @ arg @ ''='' @ value) argsMap)"

definition addFeatureGate :: "string \<Rightarrow> string \<Rightarrow> string" where
  "addFeatureGate current new = (if current = '''' then new else current @ '','' @ new)"

definition getContainerdArgs :: "string \<Rightarrow> string list" where
  "getContainerdArgs conf = [''containerd'', ''-c'', conf]"

definition kubelet_extra :: "string option \<Rightarrow> (string, string) gomap" where
  "kubelet_extra cloudProvider =
     [(''file-check-frequency'', ''5s''), (''sync-frequency'', ''30s''), (''cgroups-per-qos'', ''false''),
      (''enforce-node-allocatable'', ''''), (''resolv-conf'', ''''), (''hairpin-mode'', ''promiscuous-bridge'')] @
     (case cloudProvider of None \<Rightarrow> [] | Some name \<Rightarrow> [(''cloud-provider'', name)])"

definition clean_kubelet_args :: "string list \<Rightarrow> string list" where
  "clean_kubelet_args = filter (\<lambda>a. \<not> (str_Contains a ''eviction-hard'' \<or> str_Contains a ''eviction-minimum-reclaim''))"

definition kube_proxy_extra :: "CNICommonConfig \<Rightarrow> bool \<Rightarrow> (string, string) gomap" where
  "kube_proxy_extra c dsr =
     (if cn_OverlayNetName c \<noteq> '''' then [(''network-name'', cn_OverlayNetName c)] else []) @
     (if cn_NodeIP c \<noteq> '''' then [(''bind-address'', cn_NodeIP c)] else []) @
     (if cn_VIPAddress c \<noteq> '''' then [(''source-vip'', cn_VIPAddress c)] else []) @
     (if dsr then [(''feature-gates'', addFeatureGate '''' ''WinDSR=true''), (''enable-dsr'', ''true'')] else [])"

text \<open>
  The environment of containerd: its own variables lose their prefix and come last, the log level becomes a
  flag. A log level without a value would be an index out of range.
\<close>

definition pe_containerd_var ::
  "string \<Rightarrow> string list \<times> string list \<times> string list \<Rightarrow> (string list \<times> string list \<times> string list) outcome" where
  "pe_containerd_var e = (\<lambda>(args, env, cenv).
     let pair = str_SplitN2 (CHR ''='') e in
     if pair ! 0 = ''NOTIFY_SOCKET'' then Inr (args, env, cenv)
     else if pair ! 0 = ''CONTAINERD_LOG_LEVEL'' then
       (if length pair < 2 then Inl (Panic ''index out of range'') else Inr (args @ [''--log-level'', pair ! 1], env, cenv))
     else if str_HasPrefix (pair ! 0) ''CONTAINERD_'' then
       Inr (args, env, cenv @ [str_Join (pair[0 := str_TrimPrefix (pair ! 0) ''CONTAINERD_'']) ''=''])
     else Inr (args, env @ [str_Join pair ''=''], cenv))"

definition pe_containerd_cmd :: "string list \<Rightarrow> string list \<Rightarrow> cmd outcome" where
  "pe_containerd_cmd args environ =
     try_then (fold_try pe_containerd_var environ (args, [], [])) (\<lambda>(args, env, cenv).
     Inr \<lparr>cm_Path = args ! 0, cm_Args = tl args, cm_Env = Some (env @ cenv), cm_Stdin = '''', cm_Log = ''''\<rparr>)"

section \<open>State\<close>

datatype pchan = ApiServerReadyCh | CriReadyCh | CniReadyCh | DataReadyCh

datatype plugin = PCalico "CalicoConfig option" bool | PFlannel "FlannelConfig option" bool | PNone

datatype log_output = ToStd | ToFile string | ToBoth string

record containerd_config =
  cd_Config :: string
  cd_Log :: string
  cd_Debug :: bool
  cd_Address :: string

datatype pe_job =
    CniJob job
  | RunKubelet cmd string log_writer
  | RunKubeProxy cmd
  | RunContainerd "string list" log_output
  | RunUpdateManifests

text \<open>Handlers that wait.\<close>

datatype pe_call = CallKubeProxy "string list" | CallDocker | CallContainerd containerd_config | CallCRI string

record 'h pe =
  pe_plugin :: "plugin option"
  pe_CloudProvider :: "string option"
  pe_Resolver :: resolver
  pe_DataDir :: string
  pe_KubeletPath :: string
  pe_CNIName :: string
  pe_KubeConfigKubeProxy :: string
  pe_IsServer :: bool
  pe_Prime :: bool
  pe_boot :: bool
  pe_closed :: "pchan list"
  pe_waiting :: "pe_call list"
  pe_staging :: bool
  pe_shutdown :: "err option"
  pe_agent :: agent_config
  pe_SystemDefaultRegistry :: string
  pe_PauseImage :: string
  pe_AgentKubeProxyConfig :: string
  pe_PATH :: string
  pe_flags :: flag_values
  pe_fs :: wfs
  pe_h :: 'h
  pe_jobs :: "pe_job list"

text \<open>
  What the executor calls elsewhere: the image names, the flags of the log library, the network plugins'
  surroundings, the names of the Helm charts in the API server, and the container runtimes.
\<close>

record ('h, 'ip, 'net) pe_env =
  px_pkg :: name_pkg
  px_bv :: build_vars
  px_sha :: "string \<Rightarrow> string"
  px_flags :: flag_pkg
  px_cni :: "('h, 'ip, 'net) cni_env"
  px_ApiServerReady :: "'h \<Rightarrow> unit result \<times> 'h"
  px_WaitForRBACReady :: "'h \<Rightarrow> unit result \<times> 'h"
  px_BuildConfig :: "unit result"
  px_HelmNewForConfig :: "unit result"
  px_HelmList :: "'h \<Rightarrow> string list result \<times> 'h"
  px_DSRSupported :: bool
  px_cridockerd :: "'h \<Rightarrow> unit result \<times> 'h"
  px_WaitForService :: "string \<Rightarrow> 'h \<Rightarrow> unit result \<times> 'h"
  px_PreloadImages :: "'h \<Rightarrow> unit result \<times> 'h"
  px_LockFile :: "string \<Rightarrow> 'h \<Rightarrow> bool"

section \<open>Network plugins\<close>

definition with_world ::
  "'c option \<Rightarrow> bool \<Rightarrow> ('c option \<Rightarrow> bool \<Rightarrow> plugin) \<Rightarrow> (('c, 'h) cni_world \<Rightarrow> 'r \<times> ('c, 'h) cni_world) \<Rightarrow> 'h pe \<Rightarrow> 'r \<times> 'h pe" where
  "with_world c cl mk f p =
     (case f \<lparr>cw_cfg = c, cw_client = cl, cw_fs = pe_fs p, cw_h = pe_h p, cw_jobs = []\<rparr> of
        (r, w) \<Rightarrow> (r, p\<lparr>pe_plugin := Some (mk (cw_cfg w) (cw_client w)), pe_fs := cw_fs w, pe_h := cw_h w,
                        pe_jobs := pe_jobs p @ map CniJob (cw_jobs w)\<rparr>))"

definition plugin_Setup :: "('h, 'ip, 'net) pe_env \<Rightarrow> 'h pe \<Rightarrow> unit outcome \<times> 'h pe" where
  "plugin_Setup env p =
     (case pe_plugin p of
        None \<Rightarrow> (Inl nil_deref, p)
      | Some (PCalico c cl) \<Rightarrow> with_world c cl PCalico (calico_Setup (px_cni env) (pe_agent p) (pe_DataDir p)) p
      | Some (PFlannel c cl) \<Rightarrow> with_world c cl PFlannel (flannel_Setup (px_cni env) (pe_agent p) (pe_DataDir p)) p
      | Some PNone \<Rightarrow> with_world None False (\<lambda>_ _. PNone) (None_Setup (pe_agent p) (pe_DataDir p) :: (unit, 'h) cni_world \<Rightarrow> _) p)"

definition plugin_Start :: "('h, 'ip, 'net) pe_env \<Rightarrow> 'h pe \<Rightarrow> unit outcome \<times> 'h pe" where
  "plugin_Start env p =
     (case pe_plugin p of
        None \<Rightarrow> (Inl nil_deref, p)
      | Some (PCalico c cl) \<Rightarrow> with_world c cl PCalico (calico_Start (px_cni env)) p
      | Some (PFlannel c cl) \<Rightarrow> with_world c cl PFlannel (flannel_Start (px_cni env)) p
      | Some PNone \<Rightarrow> with_world None False (\<lambda>_ _. PNone) (None_Start :: (unit, 'h) cni_world \<Rightarrow> _) p)"

definition plugin_GetConfig :: "'h pe \<Rightarrow> CNICommonConfig outcome" where
  "plugin_GetConfig p =
     (case pe_plugin p of
        None \<Rightarrow> Inl nil_deref
      | Some (PCalico None _) \<Rightarrow> Inl nil_deref
      | Some (PCalico (Some c) _) \<Rightarrow> Inr (CNICommonConfig.truncate c)
      | Some (PFlannel None _) \<Rightarrow> Inl nil_deref
      | Some (PFlannel (Some c) _) \<Rightarrow> Inr c
      | Some PNone \<Rightarrow> Inr empty_config)"

text \<open>The first chart of a network plugin decides.\<close>

fun cni_of_charts :: "string list \<Rightarrow> string" where
  "cni_of_charts [] = ''none''"
| "cni_of_charts (h # hs) =
     (if h = CalicoChart then ''calico'' else if h = FlannelChart then ''flannel''
      else if h = ''rke2-cilium'' then ''cilium'' else if h = ''rke2-canal'' then ''canal'' else cni_of_charts hs)"

text \<open>
  \<^verbatim>\<open>ListHelmCharts\<close>, with the names of the charts only: the wait for the API server fails if the context ends
  first.
\<close>

definition ListHelmCharts :: "('h, 'ip, 'net) pe_env \<Rightarrow> 'h \<Rightarrow> string list result \<times> 'h" where
  "ListHelmCharts env h =
     bind_h (px_ApiServerReady env h) (\<lambda>_ h.
     bind_h (case px_WaitForRBACReady env h of (r, h) \<Rightarrow> (with_message ''failed to wait for RBAC'' r, h)) (\<lambda>_ h.
     bind_h (px_BuildConfig env, h) (\<lambda>_ h.
     bind_h (px_HelmNewForConfig env, h) (\<lambda>_ h.
     px_HelmList env h))))"

definition getCNIPluginName :: "('h, 'ip, 'net) pe_env \<Rightarrow> 'h \<Rightarrow> string result \<times> 'h" where
  "getCNIPluginName env h = (case ListHelmCharts env h of (r, h) \<Rightarrow> (try_then r (\<lambda>hl. Inr (cni_of_charts hl)), h))"

definition choose_plugin :: "string \<Rightarrow> plugin result" where
  "choose_plugin name =
     (if name = '''' \<or> name = ''calico'' then Inr (PCalico None False)
      else if name = ''flannel'' then Inr (PFlannel None False)
      else if name = ''none'' then Inr PNone
      else Inl (Errorf (''unsupported CNI '' @ name)))"

section \<open>Bootstrap\<close>

definition pe_set_registry :: "('h, 'ip, 'net) pe_env \<Rightarrow> string \<Rightarrow> 'h pe \<Rightarrow> unit result \<times> 'h pe" where
  "pe_set_registry env reg p =
     (case ParseAndSetDefaultRegistry (px_pkg env) reg (pe_Resolver p) of
        Inl e \<Rightarrow> (Inl e, p)
      | Inr r \<Rightarrow> (Inr (), p\<lparr>pe_Resolver := r\<rparr>))"

definition pe_registry :: "('h, 'ip, 'net) pe_env \<Rightarrow> 'h pe \<Rightarrow> unit result \<times> 'h pe" where
  "pe_registry env p =
     (if pe_SystemDefaultRegistry p \<noteq> '''' then pe_set_registry env (pe_SystemDefaultRegistry p) p
      else if pe_Prime p then
        pe_set_registry env (PrimeRegistry (px_bv env)) (p\<lparr>pe_SystemDefaultRegistry := PrimeRegistry (px_bv env)\<rparr>)
      else (Inr (), p))"

definition setWindowsAgentSpecificSettings :: "string \<Rightarrow> agent_config \<Rightarrow> agent_config" where
  "setWindowsAgentSpecificSettings dataDir ag =
     ag\<lparr>ag_CNIBinDir := win_Join [''c:'' @ [backslash], dataDir, ''bin''],
        ag_CNIConfDir := win_Join [''c:'' @ [backslash], dataDir, ''agent'', ''etc'', ''cni'']\<rparr>"

definition pe_BinDir :: "('h, 'ip, 'net) pe_env \<Rightarrow> resolver \<Rightarrow> string \<Rightarrow> string result" where
  "pe_BinDir env r dataDir =
     try_then (runtime_ref (px_pkg env) (px_bv env) (px_sha env) r) (\<lambda>(ref, refDigest). Inr (win_Join [dataDir, ''data'', refDigest, ''bin'']))"

text \<open>From the choice of the network plugin on.\<close>

definition pe_setup_cni :: "('h, 'ip, 'net) pe_env \<Rightarrow> 'h pe \<Rightarrow> unit outcome \<times> 'h pe" where
  "pe_setup_cni env p =
     (case getCNIPluginName env (pe_h p) of
        (Inl e, h) \<Rightarrow> (Inl (Err e), p\<lparr>pe_CNIName := '''', pe_h := h\<rparr>)
      | (Inr name, h) \<Rightarrow>
         (let p = p\<lparr>pe_CNIName := name, pe_h := h\<rparr> in
          case choose_plugin name of
            Inl e \<Rightarrow> (Inl (Err e), p)
          | Inr pl \<Rightarrow>
             (let p = p\<lparr>pe_plugin := Some pl\<rparr> in
              case px_BuildConfig env of
                Inl e \<Rightarrow> (Inl (Err e), p)
              | Inr _ \<Rightarrow> plugin_Setup env p)))"

definition pe_Bootstrap :: "('h, 'ip, 'net) pe_env \<Rightarrow> string \<Rightarrow> 'h pe \<Rightarrow> unit outcome \<times> 'h pe" where
  "pe_Bootstrap env cfgDataDir p0 =
     (case pe_registry env (p0\<lparr>pe_boot := True, pe_closed := []\<rparr>) of
        (Inl e, p) \<Rightarrow> (Inl (Err e), p)
      | (Inr _, p) \<Rightarrow>
         (case GetReference (px_pkg env) (px_bv env) (pe_Resolver p) Img_Pause [] of
            Inl e \<Rightarrow> (Inl (Err e), p)
          | Inr pause \<Rightarrow>
             (let p = p\<lparr>pe_PauseImage := RefName (px_pkg env) pause, pe_agent := setWindowsAgentSpecificSettings (pe_DataDir p) (pe_agent p)\<rparr> in
              case pe_BinDir env (pe_Resolver p) cfgDataDir of
                Inl e \<Rightarrow> (Inl (Err e), p)
              | Inr binDir \<Rightarrow>
                  pe_setup_cni env (p\<lparr>pe_PATH := binDir @ '';'' @ pe_PATH p, pe_staging := True,
                    pe_KubeConfigKubeProxy := pe_AgentKubeProxyConfig p\<rparr>))))"

section \<open>Staging\<close>

text \<open>
  \<^verbatim>\<open>stageData\<close> and the goroutine around it. The result of the wait is only logged; \<open>res\<close> is the result of
  \<^verbatim>\<open>bootstrap.Stage\<close>.
\<close>

definition pe_stageData :: "unit result \<Rightarrow> 'h pe \<Rightarrow> unit result \<times> 'h pe" where
  "pe_stageData res p =
     (case res of
        Inl e \<Rightarrow> (Inl e, p)
      | Inr _ \<Rightarrow> (Inr (), if pe_IsServer p then p\<lparr>pe_jobs := pe_jobs p @ [RunUpdateManifests]\<rparr> else p))"

text \<open>Closing a channel that is nil or closed panics.\<close>

definition close_chan :: "pchan \<Rightarrow> 'h pe \<Rightarrow> unit outcome \<times> 'h pe" where
  "close_chan ch p =
     (if \<not> pe_boot p then (Inl (Panic ''close of nil channel''), p)
      else if ch \<in> set (pe_closed p) then (Inl (Panic ''close of closed channel''), p)
      else (Inr (), p\<lparr>pe_closed := pe_closed p @ [ch]\<rparr>))"

definition CloseIfNilErr :: "unit outcome \<times> 'h pe \<Rightarrow> pchan \<Rightarrow> unit outcome \<times> 'h pe" where
  "CloseIfNilErr rp ch = bind_h rp (\<lambda>_. close_chan ch)"

definition pe_staged :: "unit result \<Rightarrow> 'h pe \<Rightarrow> unit outcome \<times> 'h pe" where
  "pe_staged res p0 =
     (let p = p0\<lparr>pe_staging := False\<rparr> in
      case pe_stageData res p of
        (Inl e, p) \<Rightarrow> (Inr (), p\<lparr>pe_shutdown := Some e\<rparr>)
      | (Inr _, p) \<Rightarrow> close_chan DataReadyCh p)"

section \<open>Handlers\<close>

definition pe_ready_chan :: "pchan \<Rightarrow> 'h pe \<Rightarrow> pchan outcome" where
  "pe_ready_chan ch p = (if pe_boot p then Inr ch else Inl (Panic ''executor not bootstrapped''))"

definition lock_path :: "'h pe \<Rightarrow> string" where
  "lock_path p = win_Join [pe_DataDir p, ''bin'', ''rke2-uninstall.lock'']"

definition pe_Kubelet :: "('h, 'ip, 'net) pe_env \<Rightarrow> string list \<Rightarrow> 'h pe \<Rightarrow> unit outcome \<times> 'h pe" where
  "pe_Kubelet env args p =
     (case ExtractFromArgs (px_flags env) (getArgs (kubelet_extra (pe_CloudProvider p)) @ args) (pe_flags p) of
        (args, logOut, flags) \<Rightarrow>
          (let lockFile = lock_path p;
               fs = (if w_Exists lockFile (pe_fs p) then snd (w_Remove lockFile (pe_fs p)) else pe_fs p);
               c = \<lparr>cm_Path = pe_KubeletPath p, cm_Args = clean_kubelet_args args, cm_Env = None, cm_Stdin = '''', cm_Log = ''''\<rparr> in
           (Inr (), p\<lparr>pe_flags := flags, pe_fs := fs, pe_jobs := pe_jobs p @ [RunKubelet c lockFile logOut]\<rparr>)))"

text \<open>The loop of the kubelet ends when the uninstall script has made the lock file, or with the context.\<close>

definition runKubelet :: "('h, 'ip, 'net) pe_env \<Rightarrow> cmd \<Rightarrow> string \<Rightarrow> 'h \<Rightarrow> 'h option" where
  "runKubelet env c lockFile h =
     supervise (\<lambda>h. snd (ce_Run (px_cni env) c h)) (\<lambda>h. px_LockFile env lockFile h \<or> ce_Done (px_cni env) h) h"

text \<open>After the network plugin is ready.\<close>

definition pe_KubeProxy_ready :: "('h, 'ip, 'net) pe_env \<Rightarrow> string list \<Rightarrow> 'h pe \<Rightarrow> unit outcome \<times> 'h pe" where
  "pe_KubeProxy_ready env args p =
     (case plugin_GetConfig p of
        Inl f \<Rightarrow> (Inl f, p)
      | Inr config \<Rightarrow>
          (let c = \<lparr>cm_Path = win_Join [''c:'' @ [backslash], pe_DataDir p, ''bin'', ''kube-proxy.exe''],
                    cm_Args = getArgs (kube_proxy_extra config (px_DSRSupported env)) @ args, cm_Env = None, cm_Stdin = '''',
                    cm_Log = win_Join [pe_DataDir p, ''agent'', ''logs'', ''kube-proxy.log'']\<rparr> in
           (Inr (), p\<lparr>pe_jobs := pe_jobs p @ [RunKubeProxy c]\<rparr>)))"

definition runKubeProxy :: "('h, 'ip, 'net) pe_env \<Rightarrow> cmd \<Rightarrow> 'h \<Rightarrow> 'h option" where
  "runKubeProxy env c h = supervise (\<lambda>h. snd (ce_Run (px_cni env) c h)) (ce_Done (px_cni env)) h"

definition on_world :: "('h \<Rightarrow> unit result \<times> 'h) \<Rightarrow> 'h pe \<Rightarrow> unit outcome \<times> 'h pe" where
  "on_world f p = (case f (pe_h p) of (r, h) \<Rightarrow> (lift_err r, p\<lparr>pe_h := h\<rparr>))"

definition pe_Docker_ready :: "('h, 'ip, 'net) pe_env \<Rightarrow> 'h pe \<Rightarrow> unit outcome \<times> 'h pe" where
  "pe_Docker_ready env p = CloseIfNilErr (on_world (px_cridockerd env) p) CriReadyCh"

definition containerd_output :: "containerd_config \<Rightarrow> log_output" where
  "containerd_output cfg = (if cd_Log cfg \<noteq> '''' then if cd_Debug cfg then ToBoth (cd_Log cfg) else ToFile (cd_Log cfg) else ToStd)"

definition pe_containerd :: "('h, 'ip, 'net) pe_env \<Rightarrow> containerd_config \<Rightarrow> 'h pe \<Rightarrow> unit outcome \<times> 'h pe" where
  "pe_containerd env cfg p =
     bind_h (on_world (px_WaitForService env (cd_Address cfg))
       (p\<lparr>pe_jobs := pe_jobs p @ [RunContainerd (getContainerdArgs (cd_Config cfg)) (containerd_output cfg)]\<rparr>)) (\<lambda>_.
     on_world (px_PreloadImages env))"

definition pe_Containerd_ready :: "('h, 'ip, 'net) pe_env \<Rightarrow> containerd_config \<Rightarrow> 'h pe \<Rightarrow> unit outcome \<times> 'h pe" where
  "pe_Containerd_ready env cfg p = CloseIfNilErr (pe_containerd env cfg p) CriReadyCh"

definition runContainerd :: "('h, 'ip, 'net) pe_env \<Rightarrow> string list \<Rightarrow> 'h \<Rightarrow> 'h option outcome" where
  "runContainerd env args h =
     try_then (pe_containerd_cmd args (ce_Environ (px_cni env))) (\<lambda>c.
     Inr (supervise (\<lambda>h. snd (ce_Run (px_cni env) c h)) (ce_Done (px_cni env)) h))"

definition pe_CRI_ready :: "('h, 'ip, 'net) pe_env \<Rightarrow> string \<Rightarrow> 'h pe \<Rightarrow> unit outcome \<times> 'h pe" where
  "pe_CRI_ready env endpoint p =
     (if endpoint \<noteq> ''/dev/null'' then CloseIfNilErr (on_world (px_WaitForService env endpoint) p) CriReadyCh
      else CloseIfNilErr (Inr (), p) CriReadyCh)"

definition pe_CNI :: "('h, 'ip, 'net) pe_env \<Rightarrow> 'h pe \<Rightarrow> unit outcome \<times> 'h pe" where
  "pe_CNI env p = CloseIfNilErr (plugin_Start env p) CniReadyCh"

text \<open>The handlers of the control plane are not for Windows.\<close>

datatype linux_only = APIServerHandlersL | APIServerL | SchedulerL | ControllerManagerL | CurrentETCDOptionsL | CloudControllerManagerL | ETCDL | ETCDReadyChanL

fun pe_unsupported :: "linux_only \<Rightarrow> failure" where
  "pe_unsupported APIServerHandlersL = Panic ''kube-api-server is unsupported on windows''"
| "pe_unsupported APIServerL = Panic ''kube-api-server is unsupported on windows''"
| "pe_unsupported SchedulerL = Panic ''kube-scheduler is unsupported on windows''"
| "pe_unsupported ControllerManagerL = Panic ''kube-controller-manager is unsupported on windows''"
| "pe_unsupported CurrentETCDOptionsL = Panic ''etcd options are unsupported on windows''"
| "pe_unsupported CloudControllerManagerL = Panic ''cloud-controller-manager is unsupported on windows.''"
| "pe_unsupported ETCDL = Panic ''etcd is unsupported on windows''"
| "pe_unsupported ETCDReadyChanL = Panic ''etcd is unsupported on windows''"

definition pe_IsSelfHosted :: bool where
  "pe_IsSelfHosted = False"

section \<open>Runs\<close>

text \<open>The channel a call waits for, what it does on arrival, and what it does after the wait.\<close>

fun call_chan :: "pe_call \<Rightarrow> pchan" where
  "call_chan (CallKubeProxy _) = CniReadyCh"
| "call_chan _ = DataReadyCh"

fun pe_arrive :: "pe_call \<Rightarrow> 'h pe \<Rightarrow> unit outcome \<times> 'h pe" where
  "pe_arrive (CallKubeProxy args) p = (Inr (), p\<lparr>pe_waiting := pe_waiting p @ [CallKubeProxy args]\<rparr>)"
| "pe_arrive c p = (case pe_ready_chan DataReadyCh p of Inl f \<Rightarrow> (Inl f, p) | Inr _ \<Rightarrow> (Inr (), p\<lparr>pe_waiting := pe_waiting p @ [c]\<rparr>))"

fun pe_resume :: "('h, 'ip, 'net) pe_env \<Rightarrow> pe_call \<Rightarrow> 'h pe \<Rightarrow> unit outcome \<times> 'h pe" where
  "pe_resume env (CallKubeProxy args) p = pe_KubeProxy_ready env args p"
| "pe_resume env CallDocker p = pe_Docker_ready env p"
| "pe_resume env (CallContainerd cfg) p = pe_Containerd_ready env cfg p"
| "pe_resume env (CallCRI endpoint) p = pe_CRI_ready env endpoint p"

text \<open>
  One step of the agent after the bootstrap: a handler is called, a waiting one goes on when its channel is
  closed, or the staging ends, with any result.
\<close>

inductive pe_step :: "('h, 'ip, 'net) pe_env \<Rightarrow> 'h pe \<Rightarrow> 'h pe \<Rightarrow> bool" for env where
  call: "pe_step env p (snd (pe_arrive c p))"
| resume: "c \<in> set (pe_waiting p) \<Longrightarrow> call_chan c \<in> set (pe_closed p) \<Longrightarrow>
    pe_step env p (snd (pe_resume env c (p\<lparr>pe_waiting := remove1 c (pe_waiting p)\<rparr>)))"
| staged: "pe_staging p \<Longrightarrow> pe_step env p (snd (pe_staged r p))"
| kubelet: "pe_step env p (snd (pe_Kubelet env args p))"
| cni: "pe_step env p (snd (pe_CNI env p))"

section \<open>Network plugins seen by the executor\<close>

text \<open>The name of the network and the address that kube-proxy is given for a choice of the plugin.\<close>

definition network_of :: "string \<Rightarrow> string" where
  "network_of name = (if name = ''none'' then '''' else if name = ''flannel'' then ''flannel.4096'' else ''Calico'')"

definition address_of :: "string \<Rightarrow> agent_config \<Rightarrow> string" where
  "address_of name ag = (if name = ''none'' then '''' else ag_NodeIP ag)"

definition plugin_names :: "'h pe \<Rightarrow> bool" where
  "plugin_names p \<longleftrightarrow> (\<exists>c. plugin_GetConfig p = Inr c \<and> cn_OverlayNetName c = network_of (pe_CNIName p) \<and>
     cn_NodeIP c = address_of (pe_CNIName p) (pe_agent p))"

lemma plugin_GetConfig_calico: "pe_plugin p = Some (PCalico (cw_cfg w) cl) \<Longrightarrow> plugin_GetConfig p = calico_GetConfig w"
  by (simp add: plugin_GetConfig_def calico_GetConfig_def split: option.split)

lemma plugin_GetConfig_flannel: "pe_plugin p = Some (PFlannel (cw_cfg w) cl) \<Longrightarrow> plugin_GetConfig p = flannel_GetConfig w"
  by (simp add: plugin_GetConfig_def flannel_GetConfig_def split: option.split)

text \<open>What a plugin call leaves of the executor.\<close>

definition kept_fields :: "'h pe \<Rightarrow> 'h pe \<Rightarrow> bool" where
  "kept_fields p q \<longleftrightarrow> pe_CNIName q = pe_CNIName p \<and> pe_agent q = pe_agent p \<and> pe_boot q = pe_boot p \<and>
     (\<forall>c. RunKubeProxy c \<in> set (pe_jobs q) \<longleftrightarrow> RunKubeProxy c \<in> set (pe_jobs p))"

lemma with_world_kept: "with_world c cl mk f p = (r, q) \<Longrightarrow> kept_fields p q \<and> pe_closed q = pe_closed p"
  by (auto simp: with_world_def kept_fields_def split: prod.splits)

lemma plugin_Start_kept: "plugin_Start env p = (r, q) \<Longrightarrow> kept_fields p q \<and> pe_closed q = pe_closed p"
proof (cases "pe_plugin p")
  case None
  then show "plugin_Start env p = (r, q) \<Longrightarrow> ?thesis"
    by (auto simp: plugin_Start_def kept_fields_def)
next
  case (Some pl)
  then show "plugin_Start env p = (r, q) \<Longrightarrow> ?thesis"
    by (cases pl) (auto simp: plugin_Start_def dest: with_world_kept)
qed

lemma plugin_Setup_kept: "plugin_Setup env p = (r, q) \<Longrightarrow> kept_fields p q \<and> pe_closed q = pe_closed p"
proof (cases "pe_plugin p")
  case None
  then show "plugin_Setup env p = (r, q) \<Longrightarrow> ?thesis"
    by (auto simp: plugin_Setup_def kept_fields_def)
next
  case (Some pl)
  then show "plugin_Setup env p = (r, q) \<Longrightarrow> ?thesis"
    by (cases pl) (auto simp: plugin_Setup_def dest: with_world_kept)
qed

lemma with_worldE:
  assumes "with_world c cl mk f p = (r, q)"
  obtains w where "f \<lparr>cw_cfg = c, cw_client = cl, cw_fs = pe_fs p, cw_h = pe_h p, cw_jobs = []\<rparr> = (r, w)"
    and "pe_plugin q = Some (mk (cw_cfg w) (cw_client w))"
  using assms by (auto simp: with_world_def split: prod.splits)

text \<open>The contract of the plugins, seen through the dispatch of the executor.\<close>

lemma plugin_Start_config:
  assumes "plugin_Start env p = (r, q)" and "plugin_GetConfig p = Inr c"
  shows "\<exists>v. plugin_GetConfig q = Inr (c\<lparr>cn_VIPAddress := v\<rparr>)"
proof -
  obtain pl where pl: "pe_plugin p = Some pl"
    using assms(2) by (cases "pe_plugin p") (auto simp: plugin_GetConfig_def)
  show ?thesis
  proof (cases pl)
    case (PCalico cc cl)
    let ?w = "\<lparr>cw_cfg = cc, cw_client = cl, cw_fs = pe_fs p, cw_h = pe_h p, cw_jobs = []\<rparr>"
    obtain w where w: "calico_Start (px_cni env) ?w = (r, w)" "pe_plugin q = Some (PCalico (cw_cfg w) (cw_client w))"
      using assms(1) pl PCalico by (auto simp: plugin_Start_def elim: with_worldE)
    have "calico_GetConfig ?w = Inr c"
      using plugin_GetConfig_calico [of p ?w cl] pl PCalico assms(2) by simp
    then show ?thesis
      using calico.start_keeps [OF w(1)] plugin_GetConfig_calico [OF w(2)] by simp
  next
    case (PFlannel cc cl)
    let ?w = "\<lparr>cw_cfg = cc, cw_client = cl, cw_fs = pe_fs p, cw_h = pe_h p, cw_jobs = []\<rparr>"
    obtain w where w: "flannel_Start (px_cni env) ?w = (r, w)" "pe_plugin q = Some (PFlannel (cw_cfg w) (cw_client w))"
      using assms(1) pl PFlannel by (auto simp: plugin_Start_def elim: with_worldE)
    have "flannel_GetConfig ?w = Inr c"
      using plugin_GetConfig_flannel [of p ?w cl] pl PFlannel assms(2) by simp
    then show ?thesis
      using flannel.start_keeps [OF w(1)] plugin_GetConfig_flannel [OF w(2)] by simp
  next
    case PNone
    then have "c = c\<lparr>cn_VIPAddress := cn_VIPAddress c\<rparr>" "plugin_GetConfig q = Inr c"
      using assms pl by (auto simp: plugin_Start_def plugin_GetConfig_def elim: with_worldE)
    then show ?thesis
      by metis
  qed
qed

lemma plugin_Start_names: "plugin_Start env p = (r, q) \<Longrightarrow> plugin_names p \<Longrightarrow> plugin_names q"
  using plugin_Start_config [of env p r q] plugin_Start_kept [of env p r q] by (fastforce simp: plugin_names_def kept_fields_def)

lemma plugin_Setup_names:
  assumes "plugin_Setup env p = (Inr (), q)" and "pe_plugin p = Some pl" and "choose_plugin (pe_CNIName p) = Inr pl"
  shows "plugin_names q"
proof -
  have k: "pe_CNIName q = pe_CNIName p" "pe_agent q = pe_agent p"
    using plugin_Setup_kept [OF assms(1)] by (auto simp: kept_fields_def)
  show ?thesis
  proof (cases pl)
    case (PCalico cc cl)
    let ?w = "\<lparr>cw_cfg = cc, cw_client = cl, cw_fs = pe_fs p, cw_h = pe_h p, cw_jobs = []\<rparr>"
    obtain w where w: "calico_Setup (px_cni env) (pe_agent p) (pe_DataDir p) ?w = (Inr (), w)" "pe_plugin q = Some (PCalico (cw_cfg w) (cw_client w))"
      using assms(1,2) PCalico by (auto simp: plugin_Setup_def elim: with_worldE)
    have "pe_CNIName p = '''' \<or> pe_CNIName p = ''calico''"
      using assms(3) PCalico by (auto simp: choose_plugin_def split: if_splits)
    then show ?thesis
      using calico.setup_names [OF w(1)] plugin_GetConfig_calico [OF w(2)] k by (auto simp: plugin_names_def network_of_def address_of_def)
  next
    case (PFlannel cc cl)
    let ?w = "\<lparr>cw_cfg = cc, cw_client = cl, cw_fs = pe_fs p, cw_h = pe_h p, cw_jobs = []\<rparr>"
    obtain w where w: "flannel_Setup (px_cni env) (pe_agent p) (pe_DataDir p) ?w = (Inr (), w)" "pe_plugin q = Some (PFlannel (cw_cfg w) (cw_client w))"
      using assms(1,2) PFlannel by (auto simp: plugin_Setup_def elim: with_worldE)
    have "pe_CNIName p = ''flannel''"
      using assms(3) PFlannel by (auto simp: choose_plugin_def split: if_splits)
    then show ?thesis
      using flannel.setup_names [OF w(1)] plugin_GetConfig_flannel [OF w(2)] k by (auto simp: plugin_names_def network_of_def address_of_def)
  next
    case PNone
    then have "pe_CNIName p = ''none''" "pe_plugin q = Some PNone"
      using assms by (auto simp: choose_plugin_def plugin_Setup_def split: if_splits elim: with_worldE)
    then show ?thesis
      using k by (simp add: plugin_names_def plugin_GetConfig_def empty_config_def network_of_def address_of_def)
  qed
qed

lemma pe_setup_cni_ok:
  assumes "pe_setup_cni env p = (Inr (), q)"
  shows "plugin_names q" and "pe_CNIName q \<in> {''calico'', ''flannel'', ''none''}" and "pe_boot q = pe_boot p" and "pe_closed q = pe_closed p"
    and "pe_agent q = pe_agent p" and "RunKubeProxy c \<in> set (pe_jobs q) \<longleftrightarrow> RunKubeProxy c \<in> set (pe_jobs p)"
proof -
  obtain name h pl where n: "getCNIPluginName env (pe_h p) = (Inr name, h)" "choose_plugin name = Inr pl"
    and q: "plugin_Setup env (p\<lparr>pe_CNIName := name, pe_h := h, pe_plugin := Some pl\<rparr>) = (Inr (), q)"
    using assms by (auto simp: pe_setup_cni_def Let_def split: prod.splits sum.splits)
  show "plugin_names q"
    by (rule plugin_Setup_names [OF q]) (simp_all add: n(2))
  note k = plugin_Setup_kept [OF q]
  have "cni_of_charts hl \<noteq> ''''" for hl
    by (induction hl) auto
  then have "name \<noteq> ''''"
    using n(1) by (auto simp: getCNIPluginName_def split: prod.splits)
  then show "pe_CNIName q \<in> {''calico'', ''flannel'', ''none''}"
    using n(2) k by (auto simp: kept_fields_def choose_plugin_def split: if_splits)
  show "pe_boot q = pe_boot p" "pe_closed q = pe_closed p" "pe_agent q = pe_agent p"
    "RunKubeProxy c \<in> set (pe_jobs q) \<longleftrightarrow> RunKubeProxy c \<in> set (pe_jobs p)"
    using k by (auto simp: kept_fields_def)
qed

lemma pe_Bootstrap_ok:
  assumes "pe_Bootstrap env d p0 = (Inr (), q)"
  shows "plugin_names q" and "pe_CNIName q \<in> {''calico'', ''flannel'', ''none''}" and "pe_boot q" and "pe_closed q = []"
    and "RunKubeProxy c \<in> set (pe_jobs q) \<longleftrightarrow> RunKubeProxy c \<in> set (pe_jobs p0)"
    and "ag_NodeIP (pe_agent q) = ag_NodeIP (pe_agent p0)"
proof -
  let ?p0 = "p0\<lparr>pe_boot := True, pe_closed := []\<rparr>"
  obtain p pause binDir where reg: "pe_registry env ?p0 = (Inr (), p)"
    and s: "pe_setup_cni env (p\<lparr>pe_PauseImage := pause, pe_agent := setWindowsAgentSpecificSettings (pe_DataDir p) (pe_agent p),
        pe_PATH := binDir @ '';'' @ pe_PATH p, pe_staging := True, pe_KubeConfigKubeProxy := pe_AgentKubeProxyConfig p\<rparr>) = (Inr (), q)"
    using assms by (auto simp: pe_Bootstrap_def Let_def split: prod.splits sum.splits)
  have p: "pe_boot p \<and> pe_closed p = [] \<and> pe_jobs p = pe_jobs p0 \<and> pe_agent p = pe_agent p0"
    using reg by (auto simp: pe_registry_def pe_set_registry_def split: if_splits sum.splits)
  show "plugin_names q" "pe_CNIName q \<in> {''calico'', ''flannel'', ''none''}" "pe_boot q" "pe_closed q = []"
    "RunKubeProxy c \<in> set (pe_jobs q) \<longleftrightarrow> RunKubeProxy c \<in> set (pe_jobs p0)" "ag_NodeIP (pe_agent q) = ag_NodeIP (pe_agent p0)"
    using pe_setup_cni_ok [OF s] p by (simp_all add: setWindowsAgentSpecificSettings_def)
qed

section \<open>Kube-proxy and the network\<close>

text \<open>Steps that have nothing to do with kube-proxy or the network plugin.\<close>

definition aside :: "'h pe \<Rightarrow> 'h pe \<Rightarrow> bool" where
  "aside p q \<longleftrightarrow> kept_fields p q \<and> pe_plugin q = pe_plugin p \<and> (CniReadyCh \<in> set (pe_closed q) \<longleftrightarrow> CniReadyCh \<in> set (pe_closed p))"

lemma aside_trans [trans]: "aside p q \<Longrightarrow> aside q r \<Longrightarrow> aside p r"
  by (auto simp: aside_def kept_fields_def)

lemma aside_waiting: "aside p (p\<lparr>pe_waiting := ws\<rparr>)"
  by (simp add: aside_def kept_fields_def)

lemma aside_close: "ch \<noteq> CniReadyCh \<Longrightarrow> close_chan ch p = (r, q) \<Longrightarrow> aside p q"
  by (auto simp: close_chan_def aside_def kept_fields_def split: if_splits)

lemma aside_on_world: "on_world f p = (r, q) \<Longrightarrow> aside p q"
  by (auto simp: on_world_def aside_def kept_fields_def split: prod.splits)

lemma aside_CloseIfNilErr:
  assumes "CloseIfNilErr rp ch = (r, q)" and "aside p (snd rp)" and "ch \<noteq> CniReadyCh"
  shows "aside p q"
  using assms aside_close aside_trans by (cases rp; cases "fst rp") (fastforce simp: CloseIfNilErr_def)+

lemma aside_containerd: "aside p (snd (pe_containerd env cfg p))"
proof -
  let ?p = "p\<lparr>pe_jobs := pe_jobs p @ [RunContainerd (getContainerdArgs (cd_Config cfg)) (containerd_output cfg)]\<rparr>"
  have "aside p ?p"
    by (simp add: aside_def kept_fields_def)
  also obtain r1 q1 where 1: "on_world (px_WaitForService env (cd_Address cfg)) ?p = (r1, q1)"
    by fastforce
  then have "aside ?p q1"
    by (rule aside_on_world)
  finally have q1: "aside p q1" .
  obtain r2 q2 where 2: "on_world (px_PreloadImages env) q1 = (r2, q2)"
    by fastforce
  then have "aside p q2"
    using q1 aside_on_world aside_trans by blast
  then show ?thesis
    using q1 by (cases r1) (simp_all add: pe_containerd_def 1 2)
qed

lemma aside_resume:
  assumes "call_chan c = DataReadyCh"
  shows "aside p (snd (pe_resume env c p))"
proof (cases c)
  case CallDocker
  then show ?thesis
    using aside_CloseIfNilErr [of _ CriReadyCh _ _ p] aside_on_world [of "px_cridockerd env" p]
    by (metis pchan.simps(8) pe_Docker_ready_def pe_resume.simps(2) prod.collapse)
next
  case (CallContainerd cfg)
  then show ?thesis
    using aside_CloseIfNilErr [of "pe_containerd env cfg p" CriReadyCh _ _ p] aside_containerd [of p env cfg]
    by (metis pchan.simps(8) pe_Containerd_ready_def pe_resume.simps(3) prod.collapse)
next
  case (CallCRI endpoint)
  have "aside p p"
    by (simp add: aside_def kept_fields_def)
  then show ?thesis
    using aside_CloseIfNilErr [of _ CriReadyCh _ _ p] aside_on_world [of "px_WaitForService env endpoint" p] CallCRI
    by (metis pchan.simps(8) pe_CRI_ready_def pe_resume.simps(4) prod.collapse snd_conv)
qed (use assms in simp)

lemma aside_arrive: "aside p (snd (pe_arrive c p))"
  by (cases c) (auto simp: pe_ready_chan_def aside_def kept_fields_def)

lemma aside_staged: "aside p (snd (pe_staged res p))"
  by (auto simp: pe_staged_def pe_stageData_def close_chan_def aside_def kept_fields_def Let_def split: sum.splits)

lemma aside_Kubelet: "aside p (snd (pe_Kubelet env args p))"
  by (auto simp: pe_Kubelet_def aside_def kept_fields_def Let_def split: prod.splits)

inductive_cases pe_stepE: "pe_step env p q"

lemma pe_step_cases:
  assumes "pe_step env p q"
  obtains (aside) "aside p q"
  | (proxy) args where "CniReadyCh \<in> set (pe_closed p)" "q = snd (pe_KubeProxy_ready env args (p\<lparr>pe_waiting := remove1 (CallKubeProxy args) (pe_waiting p)\<rparr>))"
  | (cni) "q = snd (pe_CNI env p)"
  using assms
proof (cases rule: pe_step.cases)
  case (resume c)
  show thesis
  proof (cases c)
    case (CallKubeProxy args)
    then show thesis
      using resume proxy [of args] by simp
  qed (use resume aside aside_resume [of c] aside_trans [OF aside_waiting] in \<open>simp; blast\<close>)+
qed (use that aside_arrive aside_staged aside_Kubelet in blast)+

definition proxy_args :: "string \<Rightarrow> agent_config \<Rightarrow> cmd \<Rightarrow> bool" where
  "proxy_args name ag c \<longleftrightarrow>
     (network_of name \<noteq> '''' \<longrightarrow> ''--network-name='' @ network_of name \<in> set (cm_Args c)) \<and>
     (address_of name ag \<noteq> '''' \<longrightarrow> ''--bind-address='' @ address_of name ag \<in> set (cm_Args c))"

lemma set_getArgs: "set (getArgs m) = (\<lambda>(k, v). ''--'' @ k @ ''='' @ v) ` set m"
  by (simp add: getArgs_def)

lemma proxy_args_ready:
  assumes "plugin_names p" and "pe_KubeProxy_ready env args p = (r, q)"
  shows "pe_plugin q = pe_plugin p" "pe_CNIName q = pe_CNIName p" "pe_agent q = pe_agent p" "pe_boot q = pe_boot p" "pe_closed q = pe_closed p"
    "\<exists>c. pe_jobs q = pe_jobs p @ [RunKubeProxy c] \<and> proxy_args (pe_CNIName p) (pe_agent p) c"
proof -
  obtain c where c: "plugin_GetConfig p = Inr c" "cn_OverlayNetName c = network_of (pe_CNIName p)" "cn_NodeIP c = address_of (pe_CNIName p) (pe_agent p)"
    using assms(1) by (auto simp: plugin_names_def)
  have "proxy_args (pe_CNIName p) (pe_agent p) \<lparr>cm_Path = x, cm_Args = getArgs (kube_proxy_extra c b) @ args, cm_Env = None, cm_Stdin = '''', cm_Log = y\<rparr>" for b x y
    by (auto simp: proxy_args_def set_getArgs kube_proxy_extra_def c(2,3) image_iff)
  then show "pe_plugin q = pe_plugin p" "pe_CNIName q = pe_CNIName p" "pe_agent q = pe_agent p" "pe_boot q = pe_boot p" "pe_closed q = pe_closed p"
    "\<exists>c. pe_jobs q = pe_jobs p @ [RunKubeProxy c] \<and> proxy_args (pe_CNIName p) (pe_agent p) c"
    using assms(2) c(1) by (auto simp: pe_KubeProxy_ready_def Let_def)
qed

lemma plugin_names_cong: "pe_plugin q = pe_plugin p \<Longrightarrow> pe_CNIName q = pe_CNIName p \<Longrightarrow> pe_agent q = pe_agent p \<Longrightarrow> plugin_names q = plugin_names p"
  by (simp add: plugin_names_def plugin_GetConfig_def)

definition cni_started :: "('h, 'ip, 'net) pe_env \<Rightarrow> 'h pe \<Rightarrow> 'h pe \<Rightarrow> bool" where
  "cni_started env p q \<longleftrightarrow> (\<exists>p1. (pe_step env)\<^sup>*\<^sup>* p p1 \<and> fst (plugin_Start env p1) = Inr () \<and> (\<forall>c. RunKubeProxy c \<notin> set (pe_jobs p1)) \<and>
     (pe_step env)\<^sup>*\<^sup>* (snd (pe_CNI env p1)) q)"

definition proxy_inv :: "('h, 'ip, 'net) pe_env \<Rightarrow> 'h pe \<Rightarrow> 'h pe \<Rightarrow> bool" where
  "proxy_inv env p q \<longleftrightarrow> plugin_names q \<and> pe_boot q \<and> pe_CNIName q = pe_CNIName p \<and> pe_agent q = pe_agent p \<and>
     (\<forall>c. RunKubeProxy c \<in> set (pe_jobs q) \<longrightarrow> CniReadyCh \<in> set (pe_closed q) \<and> proxy_args (pe_CNIName p) (pe_agent p) c) \<and>
     (CniReadyCh \<in> set (pe_closed q) \<longrightarrow> cni_started env p q)"

lemma cni_started_step: "cni_started env p q \<Longrightarrow> pe_step env q q' \<Longrightarrow> cni_started env p q'"
  unfolding cni_started_def by (meson rtranclp.rtrancl_into_rtrancl)

lemma pe_CNI_cases:
  assumes "plugin_Start env q = (r, q1)"
  shows "kept_fields q (snd (pe_CNI env q))" and "pe_plugin (snd (pe_CNI env q)) = pe_plugin q1"
    and "CniReadyCh \<in> set (pe_closed (snd (pe_CNI env q))) \<Longrightarrow> CniReadyCh \<notin> set (pe_closed q) \<Longrightarrow> r = Inr ()"
    and "CniReadyCh \<in> set (pe_closed q) \<Longrightarrow> CniReadyCh \<in> set (pe_closed (snd (pe_CNI env q)))"
  using plugin_Start_kept [OF assms]
  by (cases r; auto simp: pe_CNI_def CloseIfNilErr_def close_chan_def kept_fields_def assms)+

lemma proxy_inv_step:
  assumes run: "(pe_step env)\<^sup>*\<^sup>* p q" and inv: "proxy_inv env p q" and step: "pe_step env q q'"
  shows "proxy_inv env p q'"
  using step
proof (cases rule: pe_step_cases)
  case aside
  then show ?thesis
    using inv cni_started_step [OF _ step] plugin_names_cong [of q' q] by (auto simp: proxy_inv_def aside_def kept_fields_def)
next
  case (proxy args)
  let ?q = "q\<lparr>pe_waiting := remove1 (CallKubeProxy args) (pe_waiting q)\<rparr>"
  have names: "plugin_names ?q"
    using inv plugin_names_cong [of ?q q] by (simp add: proxy_inv_def)
  obtain r where "pe_KubeProxy_ready env args ?q = (r, q')"
    using proxy(2) by (cases "pe_KubeProxy_ready env args ?q") simp
  note ready = proxy_args_ready [OF names this]
  show ?thesis
    using inv ready cni_started_step [OF _ step] plugin_names_cong [of q' q] proxy(1) by (auto simp: proxy_inv_def)
next
  case cni
  obtain r q1 where s: "plugin_Start env q = (r, q1)"
    by fastforce
  note c = pe_CNI_cases [OF s, folded cni]
  have "plugin_names q1"
    using plugin_Start_names [OF s] inv by (simp add: proxy_inv_def)
  then have names: "plugin_names q'"
    using plugin_names_cong [of q' q1] c(1,2) plugin_Start_kept [OF s] by (simp add: kept_fields_def)
  have started: "cni_started env p q'" if "CniReadyCh \<in> set (pe_closed q')"
  proof (cases "CniReadyCh \<in> set (pe_closed q)")
    case True
    then show ?thesis
      using inv cni_started_step [OF _ step] by (simp add: proxy_inv_def)
  next
    case False
    then have "r = Inr ()" "\<forall>c. RunKubeProxy c \<notin> set (pe_jobs q)"
      using c(3) that inv by (auto simp: proxy_inv_def)
    then show ?thesis
      unfolding cni_started_def using run s cni by (intro exI [of _ q]) simp
  qed
  show ?thesis
    using inv names c(1,4) started by (auto simp: proxy_inv_def kept_fields_def)
qed

text \<open>
  C12: kube-proxy starts after the network. In every run of the Windows executor after a successful bootstrap,
  whatever handlers are called and however staging ends, a kube-proxy process has been started only after the
  start of the network plugin had succeeded; its arguments name the network of the plugin and, if the node
  has one, the address of the node; and the bootstrap has chosen Calico, Flannel or no plugin.
\<close>

theorem kube_proxy_after_cni:
  assumes "pe_Bootstrap env d p0 = (Inr (), p)" and "\<forall>c. RunKubeProxy c \<notin> set (pe_jobs p0)" and "(pe_step env)\<^sup>*\<^sup>* p q"
    and "RunKubeProxy c \<in> set (pe_jobs q)"
  shows "cni_started env p q \<and> pe_CNIName p \<in> {''calico'', ''flannel'', ''none''} \<and>
    (pe_CNIName p = ''calico'' \<longrightarrow> ''--network-name=Calico'' \<in> set (cm_Args c)) \<and>
    (pe_CNIName p = ''flannel'' \<longrightarrow> ''--network-name=flannel.4096'' \<in> set (cm_Args c)) \<and>
    (pe_CNIName p \<noteq> ''none'' \<and> ag_NodeIP (pe_agent p0) \<noteq> '''' \<longrightarrow> ''--bind-address='' @ ag_NodeIP (pe_agent p0) \<in> set (cm_Args c))"
proof -
  note b = pe_Bootstrap_ok [OF assms(1)]
  have "proxy_inv env p p"
    using b assms(2) by (simp add: proxy_inv_def)
  with assms(3) have "proxy_inv env p q"
  proof (induction rule: rtranclp_induct)
    case (step y z)
    then show ?case
      using proxy_inv_step by blast
  qed
  then have "cni_started env p q" "proxy_args (pe_CNIName p) (pe_agent p) c"
    using assms(4) by (auto simp: proxy_inv_def)
  then show ?thesis
    using b(2,6) by (auto simp: proxy_args_def network_of_def address_of_def)
qed

section \<open>Commands\<close>

lemma supervise_never:
  assumes "\<forall>n. \<not> stop ((run ^^ Suc n) s)"
  shows "supervise run stop s = None"
  using supervise_sound [of run stop s] assms by (cases "supervise run stop s") auto

text \<open>
  Arguments do not depend on the order of a map. However Go happens to walk through the extra arguments of a
  component, the argument list is the same; it is sorted and has one argument for every entry.
\<close>

theorem getArgs_order:
  assumes "mset m = mset m'"
  shows "getArgs m = getArgs m' \<and> sorted (getArgs m) \<and> mset (getArgs m) = image_mset (\<lambda>(k, v). ''--'' @ k @ ''='' @ v) (mset m')"
proof -
  have sort: "sort xs = sort ys" if "mset xs = mset ys" for xs ys :: "string list"
    by (rule properties_for_sort) (simp_all add: that)
  have "mset (map (\<lambda>(k, v). ''--'' @ k @ ''='' @ v) m) = mset (map (\<lambda>(k, v). ''--'' @ k @ ''='' @ v) m')"
    using assms by simp
  from sort [OF this] show ?thesis
    using assms by (simp add: getArgs_def sort_Strings_def)
qed

theorem getArgs_order_witness:
  "getArgs (kubelet_extra None) = getArgs (rev (kubelet_extra None))"
  using getArgs_order [of "kubelet_extra None" "rev (kubelet_extra None)"] by simp

text \<open>
  C15: the kubelet. A start of the kubelet removes a left-over lock file of the uninstall script and runs the
  kubelet with the extra arguments for Windows followed by the given ones, in their order, less those for
  logging and for eviction; the process is then run again and again exactly until, after a run, the lock
  file exists or the context is cancelled, and forever if that never happens.
\<close>

theorem kubelet_supervised:
  assumes "w_faults (pe_fs p) WRemove (lock_path p) = None"
  shows "\<exists>c q out. pe_Kubelet env args p = (Inr (), q) \<and> pe_jobs q = pe_jobs p @ [RunKubelet c (lock_path p) out] \<and>
     \<not> w_Exists (lock_path p) (pe_fs q) \<and>
     cm_Args c = filter (\<lambda>a. \<not> is_log_arg (px_flags env) a \<and> \<not> str_Contains a ''eviction-hard'' \<and> \<not> str_Contains a ''eviction-minimum-reclaim'')
       (getArgs (kubelet_extra (pe_CloudProvider p)) @ args) \<and>
     (\<forall>h. let run = (\<lambda>h. snd (ce_Run (px_cni env) c h)); ends = (\<lambda>h. px_LockFile env (lock_path p) h \<or> ce_Done (px_cni env) h) in
        (\<forall>n. (\<forall>i < n. \<not> ends ((run ^^ Suc i) h)) \<and> ends ((run ^^ Suc n) h) \<longrightarrow> runKubelet env c (lock_path p) h = Some ((run ^^ Suc n) h)) \<and>
        ((\<forall>n. \<not> ends ((run ^^ Suc n) h)) \<longrightarrow> runKubelet env c (lock_path p) h = None))"
proof -
  obtain args' out flags where e: "ExtractFromArgs (px_flags env) (getArgs (kubelet_extra (pe_CloudProvider p)) @ args) (pe_flags p) = (args', out, flags)"
    by (metis prod_cases3)
  have "args' = fst (fold (extract_arg (px_flags env)) (getArgs (kubelet_extra (pe_CloudProvider p)) @ args) ([], reset_flags (px_flags env) (pe_flags p)))"
    using e by (simp add: ExtractFromArgs_def split_beta)
  then have args': "args' = filter (\<lambda>a. \<not> is_log_arg (px_flags env) a) (getArgs (kubelet_extra (pe_CloudProvider p)) @ args)"
    by (simp add: extract_args_rest)
  let ?c = "\<lparr>cm_Path = pe_KubeletPath p, cm_Args = clean_kubelet_args args', cm_Env = None, cm_Stdin = '''', cm_Log = ''''\<rparr>"
  let ?fs = "if w_Exists (lock_path p) (pe_fs p) then snd (w_Remove (lock_path p) (pe_fs p)) else pe_fs p"
  have gone: "\<not> w_Exists (lock_path p) ?fs"
    using assms by (auto simp: w_Exists_def w_Remove_def split: option.splits)
  have clean: "clean_kubelet_args args' = filter (\<lambda>a. \<not> is_log_arg (px_flags env) a \<and> \<not> str_Contains a ''eviction-hard'' \<and> \<not> str_Contains a ''eviction-minimum-reclaim'')
      (getArgs (kubelet_extra (pe_CloudProvider p)) @ args)"
    unfolding clean_kubelet_args_def args' filter_filter by (rule filter_cong) auto
  show ?thesis
  proof (intro exI conjI)
    show "pe_Kubelet env args p = (Inr (), p\<lparr>pe_flags := flags, pe_fs := ?fs, pe_jobs := pe_jobs p @ [RunKubelet ?c (lock_path p) out]\<rparr>)"
      by (simp add: pe_Kubelet_def e Let_def)
    show "cm_Args ?c = filter (\<lambda>a. \<not> is_log_arg (px_flags env) a \<and> \<not> str_Contains a ''eviction-hard'' \<and> \<not> str_Contains a ''eviction-minimum-reclaim'')
      (getArgs (kubelet_extra (pe_CloudProvider p)) @ args)"
      using clean by simp
    show "\<forall>h. let run = (\<lambda>h. snd (ce_Run (px_cni env) ?c h)); ends = (\<lambda>h. px_LockFile env (lock_path p) h \<or> ce_Done (px_cni env) h) in
        (\<forall>n. (\<forall>i < n. \<not> ends ((run ^^ Suc i) h)) \<and> ends ((run ^^ Suc n) h) \<longrightarrow> runKubelet env ?c (lock_path p) h = Some ((run ^^ Suc n) h)) \<and>
        ((\<forall>n. \<not> ends ((run ^^ Suc n) h)) \<longrightarrow> runKubelet env ?c (lock_path p) h = None)"
      unfolding Let_def runKubelet_def
      by (intro allI conjI impI, (erule conjE)?, rule supervise_runs, assumption, assumption, rule supervise_never, assumption)
  qed (use gone in simp_all)
qed

section \<open>The environment of containerd\<close>

definition var_name :: "string \<Rightarrow> string" where
  "var_name e = fst (env_pair e)"

definition for_containerd :: "string \<Rightarrow> bool" where
  "for_containerd e \<longleftrightarrow> str_HasPrefix (var_name e) ''CONTAINERD_'' \<and> var_name e \<noteq> ''CONTAINERD_LOG_LEVEL''"

definition inherited :: "string \<Rightarrow> bool" where
  "inherited e \<longleftrightarrow> \<not> str_HasPrefix (var_name e) ''CONTAINERD_'' \<and> var_name e \<noteq> ''NOTIFY_SOCKET''"

lemma containerd_var_assign:
  assumes "CHR ''='' \<in> set e"
  shows "pe_containerd_var e (args, env, cenv) = Inr
    (args @ (if var_name e = ''CONTAINERD_LOG_LEVEL'' then [''--log-level'', snd (env_pair e)] else []),
     env @ (if inherited e then [e] else []),
     cenv @ (if for_containerd e then [str_TrimPrefix (var_name e) ''CONTAINERD_'' @ ''='' @ snd (env_pair e)] else []))"
proof -
  obtain k v where e: "e = k @ CHR ''='' # v" "CHR ''='' \<notin> set k"
    using assms by (metis split_list_first)
  have pair: "env_pair e = (k, v)" "str_SplitN2 (CHR ''='') e = [k, v]"
    using e by (simp_all add: env_pair_def)
  have notify: "\<not> str_HasPrefix ''NOTIFY_SOCKET'' ''CONTAINERD_''" "str_HasPrefix ''CONTAINERD_LOG_LEVEL'' ''CONTAINERD_''"
    by code_simp+
  show ?thesis
    unfolding pe_containerd_var_def pair Let_def var_name_def inherited_def for_containerd_def fst_conv snd_conv
    using notify e(1) by auto
qed

lemma pe_containerd_vars:
  assumes "\<forall>e \<in> set environ. CHR ''='' \<in> set e"
  shows "fold_try pe_containerd_var environ (args, env, cenv) = Inr
    (args @ concat (map (\<lambda>e. [''--log-level'', snd (env_pair e)]) (filter (\<lambda>e. var_name e = ''CONTAINERD_LOG_LEVEL'') environ)),
     env @ filter inherited environ,
     cenv @ map (\<lambda>e. str_TrimPrefix (var_name e) ''CONTAINERD_'' @ ''='' @ snd (env_pair e)) (filter for_containerd environ))"
  using assms by (induction environ arbitrary: args env cenv) (simp_all add: containerd_var_assign)

text \<open>
  Containerd gets its own settings. Of an environment of assignments, containerd inherits the variables
  without its prefix, less the notification socket, and after them its own variables without their prefix, so
  that those win; each log level becomes a flag after the fixed arguments.
\<close>

theorem pe_containerd_environment:
  assumes "\<forall>e \<in> set environ. CHR ''='' \<in> set e"
  shows "pe_containerd_cmd (getContainerdArgs conf) environ = Inr
    \<lparr>cm_Path = ''containerd'',
     cm_Args = [''-c'', conf] @ concat (map (\<lambda>e. [''--log-level'', snd (env_pair e)]) (filter (\<lambda>e. var_name e = ''CONTAINERD_LOG_LEVEL'') environ)),
     cm_Env = Some (filter inherited environ @
       map (\<lambda>e. str_TrimPrefix (var_name e) ''CONTAINERD_'' @ ''='' @ snd (env_pair e)) (filter for_containerd environ)),
     cm_Stdin = '''', cm_Log = ''''\<rparr>"
  by (simp add: pe_containerd_cmd_def pe_containerd_vars [OF assms] getContainerdArgs_def)

theorem pe_containerd_environment_witness:
  "pe_containerd_cmd (getContainerdArgs ''c.toml'') [''CONTAINERD_https_proxy=p'', ''NOTIFY_SOCKET=n'', ''PATH=C:''] = Inr
    \<lparr>cm_Path = ''containerd'', cm_Args = [''-c'', ''c.toml''], cm_Env = Some [''PATH=C:'', ''https_proxy=p''], cm_Stdin = '''', cm_Log = ''''\<rparr>"
proof -
  let ?e = "[''CONTAINERD_https_proxy=p'', ''NOTIFY_SOCKET=n'', ''PATH=C:'']"
  have "\<forall>e \<in> set ?e. CHR ''='' \<in> set e"
    by simp
  moreover have "filter (\<lambda>e. var_name e = ''CONTAINERD_LOG_LEVEL'') ?e = []" "filter inherited ?e = [''PATH=C:'']"
    "map (\<lambda>e. str_TrimPrefix (var_name e) ''CONTAINERD_'' @ ''='' @ snd (env_pair e)) (filter for_containerd ?e) = [''https_proxy=p'']"
    by code_simp+
  ultimately show ?thesis
    using pe_containerd_environment [of ?e "''c.toml''"] by simp
qed

section \<open>A node with Calico\<close>

definition list_pe :: "(HNSNetwork list, 32 word, 32 word \<times> nat) pe_env" where
  "list_pe =
     \<lparr>px_pkg = simple_names\<lparr>ParseReference := (\<lambda>s. Inr (TagRef \<lparr>ref_registry = Registry ''r'', ref_repository = s, ref_identifier = ''v3''\<rparr>))\<rparr>,
      px_bv = simple_build, px_sha = (\<lambda>s. ''c''), px_flags = simple_flags, px_cni = list_cni,
      px_ApiServerReady = (\<lambda>h. (Inr (), h)), px_WaitForRBACReady = (\<lambda>h. (Inr (), h)), px_BuildConfig = Inr (), px_HelmNewForConfig = Inr (),
      px_HelmList = (\<lambda>h. (Inr [''rke2-coredns'', ''rke2-calico''], h)), px_DSRSupported = True,
      px_cridockerd = (\<lambda>h. (Inr (), h)), px_WaitForService = (\<lambda>a h. (Inr (), h)), px_PreloadImages = (\<lambda>h. (Inr (), h)),
      px_LockFile = (\<lambda>l h. True)\<rparr>"

definition new_pe :: "HNSNetwork list pe" where
  "new_pe =
     \<lparr>pe_plugin = None, pe_CloudProvider = None, pe_Resolver = the_resolver (NewResolver (px_pkg list_pe) simple_build (simple_overrides '''' '''')),
      pe_DataDir = ''/var/lib/rancher/rke2'', pe_KubeletPath = ''kubelet.exe'', pe_CNIName = '''', pe_KubeConfigKubeProxy = '''',
      pe_IsServer = False, pe_Prime = False, pe_boot = False, pe_closed = [], pe_waiting = [], pe_staging = False, pe_shutdown = None,
      pe_agent = sample_agent, pe_SystemDefaultRegistry = '''', pe_PauseImage = '''', pe_AgentKubeProxyConfig = '''', pe_PATH = '''',
      pe_flags = [], pe_fs = no_files, pe_h = [], pe_jobs = []\<rparr>"

definition booted_pe :: "HNSNetwork list pe" where
  "booted_pe = snd (pe_Bootstrap list_pe ''/var/lib/rancher/rke2'' new_pe)"

definition waiting_pe :: "HNSNetwork list pe" where
  "waiting_pe = snd (pe_arrive (CallKubeProxy [''--v=2'']) (snd (pe_CNI list_pe booted_pe)))"

definition proxied_pe :: "HNSNetwork list pe" where
  "proxied_pe = snd (pe_resume list_pe (CallKubeProxy [''--v=2'']) (waiting_pe\<lparr>pe_waiting := remove1 (CallKubeProxy [''--v=2'']) (pe_waiting waiting_pe)\<rparr>))"

lemma proxied_run: "(pe_step list_pe)\<^sup>*\<^sup>* booted_pe proxied_pe"
proof -
  have "CallKubeProxy [''--v=2''] \<in> set (pe_waiting waiting_pe)" "call_chan (CallKubeProxy [''--v=2'']) \<in> set (pe_closed waiting_pe)"
    by code_simp+
  then have "pe_step list_pe waiting_pe proxied_pe"
    unfolding proxied_pe_def by (rule pe_step.resume)
  moreover have "pe_step list_pe (snd (pe_CNI list_pe booted_pe)) waiting_pe"
    unfolding waiting_pe_def by (rule pe_step.call)
  moreover have "pe_step list_pe booted_pe (snd (pe_CNI list_pe booted_pe))"
    by (rule pe_step.cni)
  ultimately show ?thesis
    by (meson r_into_rtranclp rtranclp_trans)
qed

fun proxy_cmd :: "pe_job list \<Rightarrow> cmd option" where
  "proxy_cmd [] = None"
| "proxy_cmd (RunKubeProxy c # js) = Some c"
| "proxy_cmd (_ # js) = proxy_cmd js"

lemma proxy_cmd_in: "proxy_cmd js = Some c \<Longrightarrow> RunKubeProxy c \<in> set js"
  by (induction js rule: proxy_cmd.induct) auto

theorem kube_proxy_after_cni_witness:
  "\<exists>c. RunKubeProxy c \<in> set (pe_jobs proxied_pe) \<and> ''--network-name=Calico'' \<in> set (cm_Args c) \<and> ''--bind-address=10.0.0.5'' \<in> set (cm_Args c)"
proof -
  have "fst (pe_Bootstrap list_pe ''/var/lib/rancher/rke2'' new_pe) = Inr ()"
    by code_simp
  then have b: "pe_Bootstrap list_pe ''/var/lib/rancher/rke2'' new_pe = (Inr (), booted_pe)"
    by (simp add: booted_pe_def prod_eq_iff)
  have new: "\<forall>c. RunKubeProxy c \<notin> set (pe_jobs new_pe)" "ag_NodeIP (pe_agent new_pe) = ''10.0.0.5''"
    by (simp_all add: new_pe_def sample_agent_def)
  have "proxy_cmd (pe_jobs proxied_pe) \<noteq> None"
    by code_simp
  then obtain c where c: "RunKubeProxy c \<in> set (pe_jobs proxied_pe)"
    using proxy_cmd_in by blast
  have "pe_CNIName booted_pe = ''calico''"
    by code_simp
  then show ?thesis
    using kube_proxy_after_cni [OF b new(1) proxied_run c] new(2) c by (intro exI [of _ c]) simp
qed

theorem kubelet_supervised_witness:
  "\<exists>c q out. pe_Kubelet list_pe [''--eviction-hard=x'', ''--v=2''] new_pe = (Inr (), q) \<and> pe_jobs q = [RunKubelet c (lock_path new_pe) out] \<and>
     ''--v=2'' \<in> set (cm_Args c) \<and> ''--eviction-hard=x'' \<notin> set (cm_Args c)"
proof -
  have f: "w_faults (pe_fs new_pe) WRemove (lock_path new_pe) = None" and j: "pe_jobs new_pe = []"
    by (simp_all add: new_pe_def no_files_def)
  have a: "\<not> is_log_arg (px_flags list_pe) ''--v=2''" "\<not> str_Contains ''--v=2'' ''eviction-hard''"
    "\<not> str_Contains ''--v=2'' ''eviction-minimum-reclaim''" "str_Contains ''--eviction-hard=x'' ''eviction-hard''"
    by code_simp+
  show ?thesis
    using kubelet_supervised [OF f, of list_pe "[''--eviction-hard=x'', ''--v=2'']"] a unfolding j by auto
qed

end
