(* ===== verification/Win_Start.thy ===== *)
theory Win_Start
  imports Pe_Binary Server_Setup
begin

text \<open>
  How RKE2 starts on Windows: \<^verbatim>\<open>pkg/rke2/rke2_windows.go\<close>, which makes the executor, \<^verbatim>\<open>defaults_windows.go\<close>, the
  Windows service of \<^verbatim>\<open>service_windows.go\<close>, and its installation in \<^verbatim>\<open>agent_service_windows.go\<close>.
\<close>

section \<open>Defaults\<close>

text \<open>Directories are made by the operating system; \<open>'s\<close> is its state.\<close>

record 's dir_env =
  dx_Stat :: "string \<Rightarrow> 's \<Rightarrow> unit result"
  dx_MkdirAll :: "string \<Rightarrow> 's \<Rightarrow> unit result \<times> 's"
  dx_AclMkdir :: "string \<Rightarrow> 's \<Rightarrow> unit result \<times> 's"

definition win_dirname :: "string \<Rightarrow> string" where
  "win_dirname p =
     (let vol = win_volume p; rest = drop (length vol) p; base = takeWhile (\<lambda>c. \<not> is_sep c) (rev rest)
      in vol @ take (length rest - length base) rest)"

text \<open>The error that is reported when the parent cannot be made is the one of looking for the directory.\<close>

definition win_createDataDir :: "'s dir_env \<Rightarrow> string \<Rightarrow> 's \<Rightarrow> unit result \<times> 's" where
  "win_createDataDir dx dataDir s =
     (case dx_Stat dx dataDir s of
        Inr _ \<Rightarrow> (Inr (), s)
      | Inl e \<Rightarrow>
          if \<not> errors_Is_ErrNotExist e then (Inl (WithMessage (''failed to create data directory '' @ dataDir) e), s)
          else
            (case dx_MkdirAll dx (win_dirname dataDir) s of
               (Inl _, s) \<Rightarrow> (Inl (WithMessage (''failed  to create data directory '' @ dataDir) e), s)
             | (Inr _, s) \<Rightarrow> wrap_fst (''failed to create data directory '' @ dataDir) (dx_AclMkdir dx dataDir s)))"

text \<open>\<^verbatim>\<open>defaults.Set\<close> with the paths of Windows.\<close>

definition win_default_agent :: "string \<Rightarrow> AgentConfig \<Rightarrow> AgentConfig" where
  "win_default_agent logsDir ac = ac\<lparr>ac_ExtraKubeletArgs := PrependToStringSlice (ac_ExtraKubeletArgs ac)
     [''stderrthreshold=FATAL'', ''log-file-max-size=50'', ''alsologtostderr=false'', ''logtostderr=false'',
      ''log-file='' @ win_Join [logsDir, ''kubelet.log'']]\<rparr>"

definition win_defaults_Set :: "'s dir_env \<Rightarrow> string \<Rightarrow> 'x world \<times> 's \<Rightarrow> unit result \<times> 'x world \<times> 's" where
  "win_defaults_Set dx dataDir = (\<lambda>(w, s).
     let logsDir = win_Join [dataDir, ''agent'', ''logs''] in
     case wrap_fst (''failed to create directory '' @ dataDir) (win_createDataDir dx dataDir s) of
       (Inl e, s) \<Rightarrow> (Inl e, w, s)
     | (Inr _, s) \<Rightarrow>
        (case wrap_fst (''failed to create directory '' @ logsDir) (dx_MkdirAll dx logsDir s) of
           (Inl e, s) \<Rightarrow> (Inl e, w, s)
         | (Inr _, s) \<Rightarrow> (Inr (), w\<lparr>w_server := default_server (w_server w), w_agent := win_default_agent logsDir (w_agent w)\<rparr>, s)))"

section \<open>The executor\<close>

record PEBinaryConfig =
  pb_Resolver :: resolver
  pb_ImagesDir :: string
  pb_ManifestsDir :: string
  pb_CISMode :: bool
  pb_CloudProvider :: "CloudProviderConfig option"
  pb_DataDir :: string
  pb_AuditPolicyFile :: string
  pb_KubeletPath :: string
  pb_DisableETCD :: bool
  pb_IsServer :: bool
  pb_Prime :: bool
  pb_IngressController :: "string list"
  pb_CNIName :: string

text \<open>\<open>hostname\<close> is the full name that the system call yields.\<close>

definition win_set_node_name ::
  "'x cli_pkg \<Rightarrow> http_do \<Rightarrow> string result \<Rightarrow> cli_Config \<Rightarrow> 'x world \<Rightarrow> unit result \<times> 'x world" where
  "win_set_node_name cli http hostname cfg w =
     (if \<not> cc_CloudProviderMetadataHostname cfg then (Inr (), w)
      else
        let fqdn = hostnameFromMetadataEndpoint http in
        case (if fqdn = '''' then hostname else Inr fqdn) of
          Inl e \<Rightarrow> (Inl e, w)
        | Inr name \<Rightarrow> on_clx (cli_Set cli ''node-name'' name) w)"

definition win_executor :: "'x cli_pkg \<Rightarrow> 'x \<Rightarrow> string \<Rightarrow> string \<Rightarrow> bool \<Rightarrow> resolver \<Rightarrow> CloudProviderConfig option \<Rightarrow> cli_Config \<Rightarrow> PEBinaryConfig" where
  "win_executor cli x mp dataDir isServer r cp cfg =
     \<lparr>pb_Resolver = r, pb_ImagesDir = win_Join [dataDir, ''agent'', ''images''], pb_ManifestsDir = win_Join [dataDir, ''agent'', mp],
      pb_CISMode = cli_isCISMode cli x, pb_CloudProvider = cp, pb_DataDir = dataDir, pb_AuditPolicyFile = cli_String cli x ''audit-policy-file'',
      pb_KubeletPath = (if cc_KubeletPath cfg = '''' then ''kubelet'' else cc_KubeletPath cfg),
      pb_DisableETCD = cli_Bool cli x ''disable-etcd'', pb_IsServer = isServer, pb_Prime = cli_Bool cli x ''prime'',
      pb_IngressController = cc_IngressController cfg, pb_CNIName = ''''\<rparr>"

definition win_initExecutor ::
  "'x cli_pkg \<Rightarrow> 'c outside \<Rightarrow> 's dir_env \<Rightarrow> cli_Config \<Rightarrow> bool \<Rightarrow> 'x world \<times> 's \<Rightarrow> PEBinaryConfig result \<times> 'x world \<times> 's" where
  "win_initExecutor cli out dx cfg isServer = (\<lambda>(w, s).
     let registry = (if \<not> cli_IsSet cli (w_clx w) ''system-default-registry'' \<and> cli_Bool cli (w_clx w) ''prime''
                     then PrimeRegistry (out_build out) else cli_String cli (w_clx w) ''system-default-registry'');
         dataDir = cli_String cli (w_clx w) ''data-dir'' in
     case NewResolver (out_pkg out) (out_build out) ((cc_Images cfg)\<lparr>oc_SystemDefaultRegistry := registry\<rparr>) of
       Inl e \<Rightarrow> (Inl e, w, s)
     | Inr r \<Rightarrow>
        (case win_defaults_Set dx dataDir (w, s) of
           (Inl e, w, s) \<Rightarrow> (Inl e, w, s)
         | (Inr _, w, s) \<Rightarrow>
            (case cloud_provider cfg of
               Inl e \<Rightarrow> (Inl e, w\<lparr>w_etcd_driver := True\<rparr>, s)
             | Inr (cfg, cp) \<Rightarrow>
                (case win_set_node_name cli (out_http out) (out_hostname out) cfg (w\<lparr>w_etcd_driver := True\<rparr>) of
                   (Inl e, w) \<Rightarrow> (Inl e, w, s)
                 | (Inr _, w) \<Rightarrow> (Inr (win_executor cli (w_clx w) (out_manifest_path out) dataDir isServer r cp cfg), w, s)))))"

section \<open>The service\<close>

datatype svc_cmd = ParamChange | Interrogate | Stop | Shutdown | OtherCmd nat

text \<open>States that are reported; \<open>Current\<close> echoes the status of a request.\<close>

datatype svc_status = StartPending | Running | StopPending | Stopped | Current nat

record ChangeRequest =
  cr_Cmd :: svc_cmd
  cr_CurrentStatus :: nat

datatype svc_end = Returned | Exited

text \<open>
  \<open>shutdown\<close> is the answer of \<^verbatim>\<open>RequestShutdown\<close>: whether something handles the request. The list of requests is
  what arrives until the channel is closed.
\<close>

fun svc_loop :: "bool \<Rightarrow> ChangeRequest list \<Rightarrow> svc_status list \<times> svc_end" where
  "svc_loop shutdown [] = ([], Returned)"
| "svc_loop shutdown (c # cs) =
     (case cr_Cmd c of
        ParamChange \<Rightarrow> (case svc_loop shutdown cs of (ss, e) \<Rightarrow> (Current (cr_CurrentStatus c) # ss, e))
      | Interrogate \<Rightarrow> (case svc_loop shutdown cs of (ss, e) \<Rightarrow> (Current (cr_CurrentStatus c) # ss, e))
      | Stop \<Rightarrow> if shutdown then ([StopPending, StopPending, Stopped], Returned) else ([StopPending, Stopped], Exited)
      | Shutdown \<Rightarrow> if shutdown then ([StopPending, StopPending, Stopped], Returned) else ([StopPending, Stopped], Exited)
      | OtherCmd _ \<Rightarrow> svc_loop shutdown cs)"

definition svc_Execute :: "bool \<Rightarrow> ChangeRequest list \<Rightarrow> svc_status list \<times> svc_end" where
  "svc_Execute shutdown requests = (case svc_loop shutdown requests of (ss, e) \<Rightarrow> (StartPending # Running # ss, e))"

text \<open>
  C16: the life of the service. The statuses a service reports are: start pending, running, the echo of every
  inquiry before the first request to stop or shut down, and then, if there is such a request, stop pending and
  stopped, after which nothing is reported; the process exits at once only if nothing handles the shutdown.
\<close>

theorem service_lifecycle:
  "svc_Execute shutdown requests =
     (let stops = (\<lambda>c. cr_Cmd c = Stop \<or> cr_Cmd c = Shutdown); served = takeWhile (\<lambda>c. \<not> stops c) requests in
      ([StartPending, Running] @
       map (\<lambda>c. Current (cr_CurrentStatus c)) (filter (\<lambda>c. cr_Cmd c = ParamChange \<or> cr_Cmd c = Interrogate) served) @
       (if list_ex stops requests then if shutdown then [StopPending, StopPending, Stopped] else [StopPending, Stopped] else []),
       if list_ex stops requests \<and> \<not> shutdown then Exited else Returned))"
proof -
  have "svc_loop shutdown requests =
     (map (\<lambda>c. Current (cr_CurrentStatus c)) (filter (\<lambda>c. cr_Cmd c = ParamChange \<or> cr_Cmd c = Interrogate)
         (takeWhile (\<lambda>c. \<not> (cr_Cmd c = Stop \<or> cr_Cmd c = Shutdown)) requests)) @
      (if list_ex (\<lambda>c. cr_Cmd c = Stop \<or> cr_Cmd c = Shutdown) requests
       then if shutdown then [StopPending, StopPending, Stopped] else [StopPending, Stopped] else []),
      if list_ex (\<lambda>c. cr_Cmd c = Stop \<or> cr_Cmd c = Shutdown) requests \<and> \<not> shutdown then Exited else Returned)"
    by (induction requests) (auto split: svc_cmd.splits)
  then show ?thesis
    by (simp add: svc_Execute_def Let_def)
qed

text \<open>The start of the service: whether it runs as one, the two log hooks, then the service itself.\<close>

definition StartService :: "bool result \<Rightarrow> unit result \<Rightarrow> unit result \<Rightarrow> bool \<times> err option" where
  "StartService isService etw el =
     (case isService of
        Inl e \<Rightarrow> (False, Some e)
      | Inr False \<Rightarrow> (False, None)
      | Inr True \<Rightarrow>
         (case etw of
            Inl e \<Rightarrow> (False, Some (WithMessage ''could not create ETW provider logrus hook'' e))
          | Inr _ \<Rightarrow>
             (case el of
                Inl e \<Rightarrow> (False, Some (WithMessage ''could not create eventlog logrus hook'' e))
              | Inr _ \<Rightarrow> (True, None))))"

section \<open>Installing the service\<close>

record 's mgr_env =
  mg_LookPath :: "string result"
  mg_Abs :: "string \<Rightarrow> string result"
  mg_Connect :: "'s \<Rightarrow> unit result \<times> 's"
  mg_CreateService :: "string \<Rightarrow> string \<Rightarrow> string list \<Rightarrow> 's \<Rightarrow> unit result \<times> 's"
  mg_OpenService :: "string \<Rightarrow> 's \<Rightarrow> unit result \<times> 's"
  mg_Delete :: "string \<Rightarrow> 's \<Rightarrow> unit result \<times> 's"
  mg_FailureActions :: "string \<Rightarrow> 32 word \<Rightarrow> 32 word \<Rightarrow> 's \<Rightarrow> unit result \<times> 's"

definition getServicePath :: "'s mgr_env \<Rightarrow> string result" where
  "getServicePath mg = try_then (mg_LookPath mg) (mg_Abs mg)"

text \<open>After a failure the service is restarted every 30 seconds: the delay is in milliseconds, the reset period in seconds.\<close>

definition addWindowService :: "'s mgr_env \<Rightarrow> string \<Rightarrow> string \<Rightarrow> 's \<Rightarrow> unit result \<times> 's" where
  "addWindowService mg serviceName conf s =
     (case getServicePath mg of
        Inl e \<Rightarrow> (Inl e, s)
      | Inr p \<Rightarrow>
          and_then (mg_Connect mg s) (\<lambda>_ s.
          and_then (mg_CreateService mg serviceName p [''agent'', ''--config'', conf] s) (\<lambda>_ s.
          mg_FailureActions mg serviceName (word_of_int (30000000000 div 1000000)) 30 s)))"

definition deleteWindowsService :: "'s mgr_env \<Rightarrow> string \<Rightarrow> 's \<Rightarrow> unit result \<times> 's" where
  "deleteWindowsService mg serviceName s =
     and_then (mg_Connect mg s) (\<lambda>_ s. and_then (mg_OpenService mg serviceName s) (\<lambda>_ s. mg_Delete mg serviceName s))"

definition serviceAction :: "'x cli_pkg \<Rightarrow> 's mgr_env \<Rightarrow> 'x \<Rightarrow> 's \<Rightarrow> unit result \<times> 's" where
  "serviceAction cli mg ctx s =
     (let add = cli_Bool cli ctx ''add''; del = cli_Bool cli ctx ''delete'' in
      if (\<not> add \<and> \<not> del) \<or> (add \<and> del) then (Inl (Errorf ''service subcommand requires one of --add or --delete''), s)
      else if del then deleteWindowsService mg (cli_String cli ctx ''service-name'') s
      else addWindowService mg (cli_String cli ctx ''service-name'') (cli_String cli ctx ''config'') s)"

end
