(* ===== verification/Spec2Isabelle.thy ===== *)
theory Spec2Isabelle
  imports Manifest_Store Server_Start Service_Accounts Cis_Policy Rbac_Bootstrap Static_Runtime Cli_Main Win_Start
begin

text \<open>
  A model of RKE2, the Kubernetes distribution that runs the control plane of a cluster as static pods, with the
  theorems that make it correct. This text says how the program is put together, which theory models which
  files under \<^verbatim>\<open>src/\<close>, what is proved, and what is left out.

  \<^bold>\<open>The program.\<close> RKE2 wraps K3s. The commands \<^verbatim>\<open>rke2 server\<close> and \<^verbatim>\<open>rke2 agent\<close> take the commands of K3s, drop, hide
  or add flags (\<^verbatim>\<open>pkg/cli/cmds\<close>), check them against each other and against the hardening profile, and set
  defaults (\<^verbatim>\<open>pkg/cli/defaults\<close>). \<^verbatim>\<open>pkg/rke2\<close> then makes an \<^emph>\<open>executor\<close>, which K3s calls back to start every
  component. On Linux (\<^verbatim>\<open>pkg/executor/staticpod\<close>) a component is started by writing the manifest of a static pod
  into a directory that the kubelet watches. The manifest is made from a specification (\<^verbatim>\<open>pkg/podtemplate\<close>) with
  images that \<^verbatim>\<open>pkg/images\<close> resolves; manifests are compared with the pods of the container runtime, and pods of
  disabled components are terminated. On Windows (\<^verbatim>\<open>pkg/executor/pebinary\<close>, \<^verbatim>\<open>pkg/windows\<close>) the components of an
  agent are processes, started after a network plugin. \<^verbatim>\<open>pkg/bootstrap\<close> unpacks binaries and Helm charts of the
  runtime image before either can run, and hooks and controllers of the server (\<^verbatim>\<open>pkg/rke2\<close>, \<^verbatim>\<open>pkg/controllers\<close>)
  apply policies, roles and restrictions through the API server.

  \<^bold>\<open>Prelude.\<close>
  \<^item> \<open>Go_Base\<close>: errors, panics and fatal exits as values of sum types; \<open>try_then\<close> for the early return on an error;
    \<open>fold_try\<close> for loops with early return; Go maps as lists of entries, whose order of iteration is an
    argument wherever the code ranges over one. The locale \<open>go_map\<close> states the laws of maps.
  \<^item> \<open>Go_Strings\<close>, \<open>Go_Path\<close>: the functions of \<^verbatim>\<open>strings\<close>, \<^verbatim>\<open>strconv\<close>, \<^verbatim>\<open>sort\<close> and \<^verbatim>\<open>path/filepath\<close> that the code calls; the
    locale \<open>printer\<close> for a number format and its parser, and \<open>dir_layout\<close> for files of one directory.
  \<^item> \<open>Go_Disk\<close>: package \<^verbatim>\<open>os\<close> over an explicit file tree. Every operation may fail, by an argument that assigns an
    error to an operation and a path, and every tree a disk has had is in its history, so that a property can
    speak of each moment.
  \<^item> \<open>Kube_Api\<close>, \<open>Cli_Context\<close>: the API server and the command line library as records of functions over an
    arbitrary state, their documented behaviour as named predicates, and an instance that satisfies them.

  \<^bold>\<open>Components on Linux.\<close>
  \<^item> \<open>Images\<close> (\<^verbatim>\<open>images.go\<close>): overrides, default registry, lookup and pre-pull of images.
  \<^item> \<open>Pod_Types\<close>, \<open>Pod_Config\<close>, \<open>Pod_Template\<close>, \<open>Pod_Spec\<close> (\<^verbatim>\<open>pkg/podtemplate\<close>): settings of resources and probes, merged
    with defaults (both through the locale \<open>settings_table\<close>), the pod with its volumes, and the specification of
    each component.
  \<^item> \<open>Static_Manifest\<close>, \<open>Static_Args\<close>, \<open>Static_Executor\<close> (\<^verbatim>\<open>staticpod.go\<close>): writing of manifests by a temporary file and a
    rename; the loop over the arguments of the API server, which changes the slice it ranges over and is
    modelled on positions; and the handlers as a state machine on ready channels and deferred jobs. The locale
    \<open>spec_maker\<close> is the contract of the six functions that make a specification.
  \<^item> \<open>Manifest_Store\<close>: the manifest directory as an abstract map from commands to texts; the locale \<open>named_store\<close> is the
    abstract specification and its interpretation the refinement.
  \<^item> \<open>Static_Reconcile\<close> (\<^verbatim>\<open>spw.go\<close>) and \<open>Static_Cleanup\<close> (\<^verbatim>\<open>cleanup.go\<close>): comparison with the sandboxes of the container
    runtime, and termination of the pods of disabled components.
  \<^item> \<open>Static_Runtime\<close> (\<^verbatim>\<open>staticpod.go\<close>, \<^verbatim>\<open>auth.go\<close>): the goroutines that \<^verbatim>\<open>Bootstrap\<close> starts and the handlers that wait for them,
    as a labelled step relation over the handlers of \<open>Static_Executor\<close>, the staging of \<open>Bootstrap_Stage\<close>, the checks of
    \<open>Static_Reconcile\<close> and arbitrary changes of the world outside. A goroutine between two of its waits is one
    step; the staging is one step on the disk.
  \<^item> \<open>Embedded_Registry\<close> (\<^verbatim>\<open>spegel.go\<close>): the wait for the embedded registry, which both executors share.
  \<^item> \<open>Logging\<close> (\<^verbatim>\<open>logging.go\<close>): log flags taken out of the arguments of a component.
  \<^item> \<open>Bootstrap_Stage\<close>, \<open>Bootstrap_Safety\<close>, \<open>Bootstrap_Charts\<close> (\<^verbatim>\<open>bootstrap.go\<close>): staging of the runtime image, removal of old
    releases, and the update of the Helm charts with the values of the node.
  \<^item> \<open>Cli_Flags\<close>, \<open>Cli_Validate\<close> (\<^verbatim>\<open>pkg/cli/cmds\<close>): the flag tables of all commands and how a command of K3s is wrapped;
    the checks of cloud provider, profile and network plugins. \<open>Shell_Completion\<close> (\<^verbatim>\<open>completion.go\<close>): the completion scripts
    and the entry in the start file of the shell. \<open>Cli_Main\<close> (\<^verbatim>\<open>main.go\<close>, \<^verbatim>\<open>root.go\<close>): the application, and the flags that
    a configuration file may set.
  \<^item> \<open>Server_Setup\<close>, \<open>Server_Start\<close> (\<^verbatim>\<open>rke2.go\<close>, \<^verbatim>\<open>rke2_linux.go\<close>, \<^verbatim>\<open>psa.go\<close>, \<^verbatim>\<open>spc.go\<close>, \<^verbatim>\<open>defaults.go\<close>): from the command line to the
    executor, the order of the hooks, and the watch on the own node.
  \<^item> \<open>Net_Policies\<close>, \<open>Service_Accounts\<close>, \<open>Cis_Policy\<close>, \<open>Rbac_Bootstrap\<close>: what the server applies to the cluster.

  \<^bold>\<open>Components on Windows.\<close>
  \<^item> \<open>Win_Base\<close>: paths with drive letters, a store of files, polling with a bounded number of attempts, and the loop
    that starts a process again whenever it ends, a partial function whose result is \<open>None\<close> if it never ends.
  \<^item> \<open>Win_Net\<close> (\<^verbatim>\<open>utils.go\<close>): networks of the host, choice of an interface, cloud platform.
  \<^item> \<open>Win_Plugin\<close> (\<^verbatim>\<open>types.go\<close>, \<^verbatim>\<open>none.go\<close>): the contract \<^verbatim>\<open>CNIPlugin\<close> as the locale \<open>cni_plugin\<close>; \<open>Win_Calico\<close> (\<^verbatim>\<open>calico.go\<close>) and
    \<open>Win_Flannel\<close> (\<^verbatim>\<open>flannel.go\<close>) interpret it.
  \<^item> \<open>Pe_Binary\<close> (\<^verbatim>\<open>pebinary.go\<close>, \<^verbatim>\<open>charts.go\<close>): the executor as a step relation. Its proofs use the plugins
    only through the facts of the locale.
  \<^item> \<open>Win_Start\<close> (\<^verbatim>\<open>rke2_windows.go\<close>, \<^verbatim>\<open>defaults_windows.go\<close>, \<^verbatim>\<open>service_windows.go\<close>, \<^verbatim>\<open>agent_service_windows.go\<close>).

  \<^bold>\<open>What is shown.\<close> Ordering: the API server manifest never exists before etcd is ready, kube-proxy on Windows never
  runs before the network plugin, a container runtime is never started before its binaries are staged, the API
  server is never reported ready before its pods are in sync, a release is never marked as staged before it is extracted, and manifests
  of a node that is to leave are removed only after it was deleted. Atomicity: a reader sees each manifest as
  it was or complete. Progress: a call that waits for staged data is released. Refinement: the manifest directory is a map. Function: what is written, mounted,
  resolved, parsed, merged, chosen, disabled, removed and applied, and what is left after an error. Round trips:
  the options of etcd and the address reserved for kube-proxy. Bounds: probe settings in 32 bits. Termination:
  the removal of static pods within a number of polls, the supervision of the kubelet. Hardening: what a server
  with the CIS profile guarantees once it runs.

  \<^bold>\<open>Parameters and hypotheses.\<close> Code that is not part of the repository (image names, the API server, the container
  runtime, YAML, regular expressions, the host network service, processes) is a record of functions and an
  argument of the definitions that use it. A property states what it relies on as a named predicate, and its
  witness instantiates the record with concrete functions that satisfy the predicate. Random names, the order
  of maps, faults of the disk and outcomes of processes are arguments as well, so a theorem holds for all of
  them. Time is a number of attempts: a loop with a time limit tries as often as its argument says, and every
  theorem that a loop succeeds says how many attempts are enough.

  \<^bold>\<open>Not modelled.\<close> The parsing of command lines, which is the library's: the application and its commands are values
  here, and running them is an argument. Attributes of processes (\<^verbatim>\<open>command_linux.go\<close>), the interface in
  \<^verbatim>\<open>controllers/types.go\<close>, the registration of the policy controller with the library that calls it, the wait for
  processes at the end of a Windows service, and functions that are empty on one of the systems. Staging on
  Windows enters the Windows executor as its result, since \<open>Bootstrap_Stage\<close> has the paths of Linux. File contents
  are lists of characters; permissions are kept, owners only where the code sets them.
\<close>

end
